(* ===== verification/Prelude.thy ===== *)
theory Prelude
  imports Main "HOL-Library.AList" "HOL-Library.Char_ord" "HOL-Library.List_Lexorder" "HOL-Library.Product_Lexorder" "HOL-Library.Sublist"
begin

text \<open>
  Shared vocabulary of the development: the parts of the JavaScript standard library the
  modelled sources use, as executable HOL functions, with the facts the components share.

  \<^item> A JavaScript \<open>string\<close> is a \<^typ>\<open>string\<close>. Task identifiers, keywords and messages are
    ASCII; a non-ASCII character of a source literal is written as its UTF-8 bytes. Case
    folding and trimming act on the ASCII letters and the ASCII white space.
  \<^item> A JavaScript \<open>Map\<close> is an association list in insertion order: \<open>set\<close> overwrites in
    place or appends (\<^const>\<open>AList.update\<close>), \<open>get\<close> is \<^const>\<open>map_of\<close>.
  \<^item> A JavaScript \<open>Set\<close> is a duplicate-free list in insertion order.
  \<^item> \<open>localeCompare\<close> with numeric collation is the order of \<open>collateKey\<close>.
\<close>

named_theorems str_simps \<open>equations of the string helpers\<close>
named_theorems map_simps \<open>laws of the insertion-ordered maps and sets\<close>

subsection \<open>Case folding and trimming\<close>

definition lowerChar :: "char \<Rightarrow> char" where
  "lowerChar c = (let n = (of_char c :: nat) in
     if 65 \<le> n \<and> n \<le> 90 then char_of (n + 32) else c)"

definition upperChar :: "char \<Rightarrow> char" where
  "upperChar c = (let n = (of_char c :: nat) in
     if 97 \<le> n \<and> n \<le> 122 then char_of (n - 32) else c)"

definition toLowerCase :: "string \<Rightarrow> string" where
  "toLowerCase s = map lowerChar s"

definition toUpperCase :: "string \<Rightarrow> string" where
  "toUpperCase s = map upperChar s"

definition isSpace :: "char \<Rightarrow> bool" where
  "isSpace c \<longleftrightarrow> (let n = (of_char c :: nat) in n = 32 \<or> (9 \<le> n \<and> n \<le> 13))"

definition isDigit :: "char \<Rightarrow> bool" where
  "isDigit c \<longleftrightarrow> (let n = (of_char c :: nat) in 48 \<le> n \<and> n \<le> 57)"

definition trimStart :: "string \<Rightarrow> string" where
  "trimStart s = dropWhile isSpace s"

definition trimEnd :: "string \<Rightarrow> string" where
  "trimEnd s = rev (dropWhile isSpace (rev s))"

definition trim :: "string \<Rightarrow> string" where
  "trim s = trimEnd (trimStart s)"

lemma trim_Nil [simp]: "trim [] = []"
  by (simp add: trim_def trimStart_def trimEnd_def)

text \<open>A text that does not start or end with white space.\<close>

definition tight :: "string \<Rightarrow> bool" where
  "tight s \<longleftrightarrow> s \<noteq> [] \<and> \<not> isSpace (hd s) \<and> \<not> isSpace (last s)"

lemma dropWhile_hd: "s \<noteq> [] \<Longrightarrow> \<not> P (hd s) \<Longrightarrow> dropWhile P s = s"
  by (cases s) auto

lemma trim_tight: "tight s \<Longrightarrow> trim s = s"
  by (simp add: tight_def trim_def trimStart_def trimEnd_def dropWhile_hd hd_rev)

lemma lowerChar_idem [simp]: "lowerChar (lowerChar c) = lowerChar c"
  by (simp add: lowerChar_def Let_def)

lemma toLowerCase_idem [simp]: "toLowerCase (toLowerCase s) = toLowerCase s"
  by (simp add: toLowerCase_def comp_def)

lemma length_toLowerCase [simp]: "length (toLowerCase s) = length s"
  by (simp add: toLowerCase_def)

lemma toLowerCase_append [simp]: "toLowerCase (s @ t) = toLowerCase s @ toLowerCase t"
  by (simp add: toLowerCase_def)

lemma length_trimStart_le: "length (trimStart s) \<le> length s"
  by (simp add: trimStart_def length_dropWhile_le)

lemma length_trim_le: "length (trim s) \<le> length s"
  unfolding trim_def trimEnd_def trimStart_def
  by (metis le_trans length_dropWhile_le length_rev)

subsection \<open>Searching, slicing and joining\<close>

definition startsWith :: "string \<Rightarrow> string \<Rightarrow> bool" where
  "startsWith s p \<longleftrightarrow> prefix p s"

definition endsWith :: "string \<Rightarrow> string \<Rightarrow> bool" where
  "endsWith s p \<longleftrightarrow> suffix p s"

fun strIncludes :: "string \<Rightarrow> string \<Rightarrow> bool" where
  "strIncludes [] p \<longleftrightarrow> p = []"
| "strIncludes (c # s) p \<longleftrightarrow> prefix p (c # s) \<or> strIncludes s p"

lemma strIncludes_iff: "strIncludes s p \<longleftrightarrow> sublist p s"
  by (induction s) (auto simp: sublist_Cons_right)

fun joinWith :: "string \<Rightarrow> string list \<Rightarrow> string" where
  "joinWith sep [] = []"
| "joinWith sep [x] = x"
| "joinWith sep (x # y # ys) = x @ sep @ joinWith sep (y # ys)"

fun splitOn :: "char \<Rightarrow> string \<Rightarrow> string list" where
  "splitOn d [] = [[]]"
| "splitOn d (c # s) =
     (if c = d then [] # splitOn d s
      else (case splitOn d s of [] \<Rightarrow> [[c]] | l # ls \<Rightarrow> (c # l) # ls))"

lemma splitOn_nonempty [simp]: "splitOn d s \<noteq> []"
  by (induction s) (auto split: list.splits)

lemma joinWith_Cons: "xs \<noteq> [] \<Longrightarrow> joinWith sep (x # xs) = x @ sep @ joinWith sep xs"
  by (cases xs) auto

lemma splitOn_sep: "splitOn d (x @ d # s) = splitOn d x @ splitOn d s"
  by (induction x) (auto simp: hd_append split: list.splits)

lemma joinWith_splitOn: "joinWith [d] (splitOn d s) = s"
proof (induction s)
  case Nil
  then show ?case by simp
next
  case (Cons c s)
  obtain l ls where l: "splitOn d s = l # ls"
    using splitOn_nonempty [of d s] by (cases "splitOn d s") auto
  with Cons.IH show ?case
    by (cases ls) (auto simp: joinWith_Cons)
qed

lemma splitOn_no_sep: "l \<in> set (splitOn d s) \<Longrightarrow> d \<notin> set l"
  by (induction s arbitrary: l) (auto split: list.splits if_splits)

lemma splitOn_last: "d \<notin> set x \<Longrightarrow> splitOn d x = [x]"
  by (induction x) auto

lemma splitOn_line: "d \<notin> set x \<Longrightarrow> splitOn d (x @ d # s) = x # splitOn d s"
  by (simp add: splitOn_sep splitOn_last)

lemma splitOn_lines: "xs \<noteq> [] \<Longrightarrow> \<forall>x \<in> set xs. d \<notin> set x \<Longrightarrow> splitOn d (joinWith [d] xs) = xs"
proof (induction xs)
  case (Cons x xs)
  then show ?case by (cases xs) (simp_all add: splitOn_last splitOn_line joinWith_Cons)
qed simp

text \<open>The text before and after the first occurrence of a pattern.\<close>

fun splitFirst :: "string \<Rightarrow> string \<Rightarrow> (string \<times> string) option" where
  "splitFirst p [] = (if p = [] then Some ([], []) else None)"
| "splitFirst p (c # s) =
     (if prefix p (c # s) then Some ([], drop (length p) (c # s))
      else map_option (\<lambda>(a, b). (c # a, b)) (splitFirst p s))"

lemma splitFirst_Some: "splitFirst p s = Some (a, b) \<Longrightarrow> s = a @ p @ b"
proof (induction s arbitrary: a)
  case Nil
  then show ?case by (simp split: if_splits)
next
  case (Cons c s)
  then show ?case
    by (auto split: if_splits simp: prefix_def)
qed

lemma splitFirst_None: "splitFirst p s = None \<longleftrightarrow> \<not> sublist p s"
  by (induction s) (auto simp: sublist_Cons_right)

subsection \<open>Numbers as text\<close>

fun digitsOf :: "nat \<Rightarrow> string" where
  "digitsOf n = (if n < 10 then [char_of (48 + n)]
     else digitsOf (n div 10) @ [char_of (48 + n mod 10)])"

declare digitsOf.simps [simp del]

definition showNat :: "nat \<Rightarrow> string" where
  "showNat n = digitsOf n"

fun natOfDigits :: "nat \<Rightarrow> string \<Rightarrow> nat" where
  "natOfDigits acc [] = acc"
| "natOfDigits acc (c # s) = natOfDigits (10 * acc + (of_char c - 48)) s"

lemma natOfDigits_snoc:
  "natOfDigits acc (s @ [c]) = 10 * natOfDigits acc s + (of_char c - 48)"
  by (induction s arbitrary: acc) auto

lemma natOfDigits_showNat: "natOfDigits 0 (showNat n) = n"
  unfolding showNat_def
proof (induction n rule: digitsOf.induct)
  case (1 n)
  show ?case
  proof (cases "n < 10")
    case True
    then show ?thesis by (simp add: digitsOf.simps [of n])
  next
    case False
    then have "n mod 10 + 48 < 256" by linarith
    with False "1.IH" show ?thesis
      by (simp add: digitsOf.simps [of n] natOfDigits_snoc)
  qed
qed

lemma showNat_inj: "showNat m = showNat n \<longleftrightarrow> m = n"
  by (metis natOfDigits_showNat)

definition showInt :: "int \<Rightarrow> string" where
  "showInt i = (if i < 0 then ''-'' @ showNat (nat (- i)) else showNat (nat i))"

text \<open>\<open>parseInt(s, 10)\<close>; \<open>None\<close> is NaN.\<close>

definition parseIntPrefix :: "string \<Rightarrow> int option" where
  "parseIntPrefix s =
     (let t = trimStart s;
          (neg, u) = (case t of c # v \<Rightarrow> if c = CHR ''-'' then (True, v) else if c = CHR ''+'' then (False, v)
            else (False, t) | [] \<Rightarrow> (False, t));
          ds = takeWhile isDigit u
      in if ds = [] then None
         else Some (if neg then - int (natOfDigits 0 ds) else int (natOfDigits 0 ds)))"

text \<open>Non-ASCII characters of message texts, as UTF-8.\<close>

definition emDash :: string where "emDash = [CHR 0xE2, CHR 0x80, CHR 0x94]"
definition rightArrow :: string where "rightArrow = [CHR 0xE2, CHR 0x86, CHR 0x92]"
definition newline :: string where "newline = [CHR 10]"

subsection \<open>Collation of identifiers\<close>

text \<open>
  \<open>a.localeCompare(b, 'en', { numeric: true })\<close> on ASCII text: a run of digits compares by
  its value, punctuation sorts before digits, digits before letters, letters ignore case at
  the first level; lower case wins a tie at the second. Control characters are ignorable.
\<close>

definition punctuationOrder :: string where
  "punctuationOrder = '' _-,;:!?.'' @ [CHR 39, CHR 34] @ ''()[]{}@*/'' @ [CHR 92] @ ''&#%'' @
     [CHR 96] @ ''^+<=>|~$''"

fun indexOf :: "'a \<Rightarrow> 'a list \<Rightarrow> nat" where
  "indexOf x [] = 0"
| "indexOf x (y # ys) = (if x = y then 0 else Suc (indexOf x ys))"

definition collateChar :: "char \<Rightarrow> (nat \<times> nat) list" where
  "collateChar c = (let n = (of_char c :: nat) in
     if isSpace c \<and> n \<noteq> 32 then [(n - 9, 0)]
     else if n < 32 \<or> n = 127 then []
     else if 65 \<le> n \<and> n \<le> 90 then [(n, 0)]
     else if 97 \<le> n \<and> n \<le> 122 then [(n - 32, 0)]
     else if 128 \<le> n then [(n, 0)]
     else [(10 + indexOf c punctuationOrder, 0)])"

fun collatePrimary :: "string \<Rightarrow> nat option \<Rightarrow> (nat \<times> nat) list" where
  "collatePrimary [] None = []"
| "collatePrimary [] (Some k) = [(60, k)]"
| "collatePrimary (c # s) None =
     (if isDigit c then collatePrimary s (Some (of_char c - 48))
      else collateChar c @ collatePrimary s None)"
| "collatePrimary (c # s) (Some k) =
     (if isDigit c then collatePrimary s (Some (10 * k + (of_char c - 48)))
      else (60, k) # collateChar c @ collatePrimary s None)"

definition collateTertiary :: "string \<Rightarrow> nat list" where
  "collateTertiary s = map (\<lambda>c. if lowerChar c = c then 0 else 1) s"

definition collateKey :: "string \<Rightarrow> (nat \<times> nat) list \<times> nat list" where
  "collateKey s = (collatePrimary s None, collateTertiary s)"

text \<open>\<open>Array.prototype.sort\<close> is stable, and so is \<^const>\<open>sort_key\<close>.\<close>

definition sortById :: "('a \<Rightarrow> string) \<Rightarrow> 'a list \<Rightarrow> 'a list" where
  "sortById f xs = sort_key (\<lambda>x. collateKey (f x)) xs"

lemma set_sortById [simp]: "set (sortById f xs) = set xs"
  by (simp add: sortById_def)

lemma length_sortById [simp]: "length (sortById f xs) = length xs"
  by (simp add: sortById_def)

lemma sortById_Nil_iff [simp]: "sortById f xs = [] \<longleftrightarrow> xs = []"
  by (metis length_0_conv length_sortById)

lemma distinct_sortById [simp]: "distinct (sortById f xs) = distinct xs"
  by (simp add: sortById_def)

lemma sorted_sortById: "sorted (map (\<lambda>x. collateKey (f x)) (sortById f xs))"
  by (simp add: sortById_def)

subsection \<open>Maps and sets in insertion order\<close>

type_synonym ('k, 'v) jsmap = "('k \<times> 'v) list"

abbreviation mapGet :: "('k, 'v) jsmap \<Rightarrow> 'k \<Rightarrow> 'v option" where
  "mapGet m k \<equiv> map_of m k"

abbreviation mapSet :: "'k \<Rightarrow> 'v \<Rightarrow> ('k, 'v) jsmap \<Rightarrow> ('k, 'v) jsmap" where
  "mapSet k v m \<equiv> AList.update k v m"

abbreviation mapKeys :: "('k, 'v) jsmap \<Rightarrow> 'k list" where
  "mapKeys m \<equiv> map fst m"

abbreviation mapValues :: "('k, 'v) jsmap \<Rightarrow> 'v list" where
  "mapValues m \<equiv> map snd m"

definition mapHas :: "('k, 'v) jsmap \<Rightarrow> 'k \<Rightarrow> bool" where
  "mapHas m k \<longleftrightarrow> k \<in> set (mapKeys m)"

definition setAdd :: "'a \<Rightarrow> 'a list \<Rightarrow> 'a list" where
  "setAdd x xs = (if x \<in> set xs then xs else xs @ [x])"

lemma mapHas_iff [map_simps]: "mapHas m k \<longleftrightarrow> mapGet m k \<noteq> None"
  by (simp add: mapHas_def map_of_eq_None_iff)

lemma mapGet_mapSet [map_simps]:
  "mapGet (mapSet k v m) k' = (if k = k' then Some v else mapGet m k')"
  by (simp add: update_conv')

lemma fst_imageI [intro]: "(k, v) \<in> S \<Longrightarrow> k \<in> fst ` S"
  by force

lemma fst_set_mapSet [simp]: "fst ` set (mapSet k v m) = insert k (fst ` set m)"
  by (induction m) auto

lemma set_mapKeys_mapSet [map_simps]:
  "set (mapKeys (mapSet k v m)) = insert k (set (mapKeys m))"
  by simp

lemma distinct_mapKeys_mapSet [map_simps]:
  "distinct (mapKeys (mapSet k v m)) = distinct (mapKeys m)"
proof (induction m)
  case Nil
  then show ?case by simp
next
  case (Cons p m)
  then show ?case by (cases "fst p = k") (simp_all del: distinct_update)
qed

lemma set_setAdd [simp, map_simps]: "set (setAdd x xs) = insert x (set xs)"
  by (auto simp: setAdd_def)

lemma distinct_setAdd [simp, map_simps]: "distinct (setAdd x xs) = distinct xs"
  by (auto simp: setAdd_def)

lemma mapGet_in_values: "mapGet m k = Some v \<Longrightarrow> v \<in> set (mapValues m)"
  by (metis image_eqI list.set_map map_of_SomeD snd_conv)

text \<open>\<open>arr.splice(arr.indexOf(x), 1)\<close> when present: drop the first occurrence.\<close>

abbreviation removeFirst :: "'a \<Rightarrow> 'a list \<Rightarrow> 'a list" where
  "removeFirst x xs \<equiv> remove1 x xs"

text \<open>The contract of a keyed store, as the clients of a \<open>Map\<close> rely on it.\<close>

locale keyed_store =
  fixes get :: "'m \<Rightarrow> 'k \<Rightarrow> 'v option"
    and put :: "'k \<Rightarrow> 'v \<Rightarrow> 'm \<Rightarrow> 'm"
    and keys :: "'m \<Rightarrow> 'k list"
  assumes get_put: "get (put k v m) k' = (if k = k' then Some v else get m k')"
    and keys_get: "k \<in> set (keys m) \<longleftrightarrow> get m k \<noteq> None"
    and keys_distinct_put: "distinct (keys m) \<Longrightarrow> distinct (keys (put k v m))"
begin

lemma keys_put: "set (keys (put k v m)) = insert k (set (keys m))"
  by (auto simp: keys_get get_put split: if_splits)

text \<open>Storing a list of entries, last write wins.\<close>

lemma get_fold_put_notin:
  "k \<notin> fst ` set es \<Longrightarrow> get (fold (\<lambda>(k, v). put k v) es m) k = get m k"
  by (induction es arbitrary: m) (auto simp: get_put)

lemma get_fold_put_in:
  "k \<in> fst ` set es \<Longrightarrow> \<exists>v. (k, v) \<in> set es \<and> get (fold (\<lambda>(k, v). put k v) es m) k = Some v"
proof (induction es arbitrary: m)
  case Nil
  then show ?case by simp
next
  case (Cons e es)
  obtain k' v' where e: "e = (k', v')" by fastforce
  show ?case
  proof (cases "k \<in> fst ` set es")
    case True
    from Cons.IH [OF this, of "put k' v' m"] e show ?thesis by auto
  next
    case False
    with Cons.prems e have "k = k'" by simp
    with False e get_fold_put_notin [OF False, of "put k' v' m"] show ?thesis
      by (auto simp: get_put)
  qed
qed

lemma distinct_keys_fold_put:
  "distinct (keys m) \<Longrightarrow> distinct (keys (fold (\<lambda>(k, v). put k v) es m))"
  by (induction es arbitrary: m) (auto intro: keys_distinct_put)

end

interpretation jsm: keyed_store "map_of :: ('k, 'v) jsmap \<Rightarrow> 'k \<Rightarrow> 'v option" AList.update mapKeys
  by unfold_locales (auto simp: map_simps map_of_eq_None_iff)

subsection \<open>Array helpers\<close>

text \<open>\<open>arr.find(p)\<close> is \<^const>\<open>List.find\<close>; \<open>arr.some(p)\<close> and \<open>arr.every(p)\<close>:\<close>

abbreviation someIn :: "('a \<Rightarrow> bool) \<Rightarrow> 'a list \<Rightarrow> bool" where
  "someIn p xs \<equiv> list_ex p xs"

abbreviation everyIn :: "('a \<Rightarrow> bool) \<Rightarrow> 'a list \<Rightarrow> bool" where
  "everyIn p xs \<equiv> list_all p xs"

lemma set_mapFilter: "set (List.map_filter f xs) = {y. \<exists>x \<in> set xs. f x = Some y}"
  by (induction xs) (auto simp: map_filter_def)

text \<open>\<open>a ?? b\<close> and \<open>a || b\<close> on strings.\<close>

definition orElse :: "'a option \<Rightarrow> 'a \<Rightarrow> 'a" where
  "orElse a b = (case a of None \<Rightarrow> b | Some x \<Rightarrow> x)"

lemma orElse_simps [simp]: "orElse None b = b" "orElse (Some x) b = x"
  by (simp_all add: orElse_def)

definition orText :: "string \<Rightarrow> string \<Rightarrow> string" where
  "orText a b = (if a = [] then b else a)"

lemma those_map_Some: "(\<And>x. x \<in> set xs \<Longrightarrow> f x = Some (g x)) \<Longrightarrow> those (map f xs) = Some (map g xs)"
  by (induction xs) auto

lemma those_member: "those (map f xs) = Some ys \<Longrightarrow> x \<in> set xs \<Longrightarrow> \<exists>y \<in> set ys. f x = Some y"
  by (induction xs arbitrary: ys) (auto split: option.splits)

lemma those_nth: "those (map f xs) = Some ys \<Longrightarrow> i < length xs \<Longrightarrow> f (xs ! i) = Some (ys ! i)"
proof (induction xs arbitrary: ys i)
  case (Cons x xs)
  then show ?case by (cases i) (auto split: option.splits)
qed simp

text \<open>An optional text that is truthy: present and not empty.\<close>

definition given :: "string option \<Rightarrow> bool" where
  "given f \<longleftrightarrow> f \<noteq> None \<and> f \<noteq> Some []"

lemmas string_defs = toLowerCase_def trim_def trimStart_def trimEnd_def startsWith_def endsWith_def

section \<open>Dates\<close>

text \<open>
  \<open>Date.prototype.toISOString\<close> for a time in milliseconds: the proleptic Gregorian date of the
  day number, computed from the 400-year era, the year, and the day of the year counted from March.
  A parsed time stamp (\<open>Date.parse\<close>) is \<open>None\<close> when it is not a date (\<open>NaN\<close>).
\<close>

type_synonym stamp = "int option"

definition pad :: "nat \<Rightarrow> nat \<Rightarrow> string" where
  "pad w n = replicate (w - length (showNat n)) CHR ''0'' @ showNat n"

definition civilOfDays :: "int \<Rightarrow> int \<times> int \<times> int" where
  "civilOfDays days =
     (let z = days + 719468;
          era = z div 146097;
          doe = z mod 146097;
          yoe = (doe - doe div 1460 + doe div 36524 - doe div 146096) div 365;
          doy = doe - (365 * yoe + yoe div 4 - yoe div 100);
          mp = (5 * doy + 2) div 153;
          d = doy - (153 * mp + 2) div 5 + 1;
          m = (if mp < 10 then mp + 3 else mp - 9)
      in (yoe + era * 400 + (if m \<le> 2 then 1 else 0), m, d))"

definition yearText :: "int \<Rightarrow> string" where
  "yearText y = (if 0 \<le> y \<and> y \<le> 9999 then pad 4 (nat y)
     else (if y < 0 then ''-'' else ''+'') @ pad 6 (nat \<bar>y\<bar>))"

definition toISOString :: "int \<Rightarrow> string" where
  "toISOString ms =
     (let (y, m, d) = civilOfDays (ms div 86400000); t = ms mod 86400000
      in yearText y @ ''-'' @ pad 2 (nat m) @ ''-'' @ pad 2 (nat d) @ ''T'' @
         pad 2 (nat (t div 3600000)) @ '':'' @ pad 2 (nat (t div 60000 mod 60)) @ '':'' @
         pad 2 (nat (t div 1000 mod 60)) @ ''.'' @ pad 3 (nat (t mod 1000)) @ ''Z'')"

lemma iso_epoch: "toISOString 0 = ''1970-01-01T00:00:00.000Z''"
  by code_simp

lemma iso_leap_day: "toISOString 1709164800123 = ''2024-02-29T00:00:00.123Z''"
  by code_simp

lemma iso_before_epoch: "toISOString (- 1) = ''1969-12-31T23:59:59.999Z''"
  by code_simp

end
