(* ===== verification/Regex.thy ===== *)
theory Regex
  imports Prelude
begin

text \<open>
  The fragment of JavaScript regular expressions the sources test strings with: character
  classes, alternation, sequence, repetition, and the anchors. \<open>re.test(s)\<close> is decided by
  derivatives (\<open>reTest\<close> and its anchored variants); the language a pattern denotes is the
  reference definition \<open>lang\<close>, and \<open>reMatch_iff\<close>, \<open>reTest_iff\<close> say that the two agree.
  The flag \<open>i\<close> is a pattern in lower case tested on the folded text (\<open>reTestI\<close>).
\<close>

datatype re =
  NoMatch
| Eps
| Cls "char \<Rightarrow> bool"
| Alt re re
| Seq re re
| Star re

inductive_set kleene :: "string set \<Rightarrow> string set" for L where
  kleene_nil: "[] \<in> kleene L"
| kleene_step: "u \<in> L \<Longrightarrow> v \<in> kleene L \<Longrightarrow> u @ v \<in> kleene L"

primrec lang :: "re \<Rightarrow> string set" where
  "lang NoMatch = {}"
| "lang Eps = {[]}"
| "lang (Cls P) = {[c] | c. P c}"
| "lang (Alt r s) = lang r \<union> lang s"
| "lang (Seq r s) = {u @ v | u v. u \<in> lang r \<and> v \<in> lang s}"
| "lang (Star r) = kleene (lang r)"

fun nullable :: "re \<Rightarrow> bool" where
  "nullable NoMatch = False"
| "nullable Eps = True"
| "nullable (Cls P) = False"
| "nullable (Alt r s) = (nullable r \<or> nullable s)"
| "nullable (Seq r s) = (nullable r \<and> nullable s)"
| "nullable (Star r) = True"

fun mkAlt :: "re \<Rightarrow> re \<Rightarrow> re" where
  "mkAlt NoMatch s = s"
| "mkAlt r NoMatch = r"
| "mkAlt r s = Alt r s"

fun mkSeq :: "re \<Rightarrow> re \<Rightarrow> re" where
  "mkSeq NoMatch s = NoMatch"
| "mkSeq r NoMatch = NoMatch"
| "mkSeq Eps s = s"
| "mkSeq r s = Seq r s"

fun deriv :: "char \<Rightarrow> re \<Rightarrow> re" where
  "deriv c NoMatch = NoMatch"
| "deriv c Eps = NoMatch"
| "deriv c (Cls P) = (if P c then Eps else NoMatch)"
| "deriv c (Alt r s) = mkAlt (deriv c r) (deriv c s)"
| "deriv c (Seq r s) =
     (if nullable r then mkAlt (mkSeq (deriv c r) s) (deriv c s) else mkSeq (deriv c r) s)"
| "deriv c (Star r) = mkSeq (deriv c r) (Star r)"

fun reMatch :: "re \<Rightarrow> string \<Rightarrow> bool" where
  "reMatch r [] = nullable r"
| "reMatch r (c # s) = reMatch (deriv c r) s"

lemma lang_mkAlt [simp]: "lang (mkAlt r s) = lang r \<union> lang s"
  by (induction r s rule: mkAlt.induct) auto

lemma lang_mkSeq [simp]: "lang (mkSeq r s) = lang (Seq r s)"
  by (induction r s rule: mkSeq.induct) auto

lemma nullable_iff: "nullable r \<longleftrightarrow> [] \<in> lang r"
  by (induction r) (auto intro: kleene_nil)

lemma kleene_Cons:
  "c # v \<in> kleene L \<longleftrightarrow> (\<exists>a b. v = a @ b \<and> c # a \<in> L \<and> b \<in> kleene L)" (is "?l \<longleftrightarrow> ?r")
proof
  assume ?l
  then show ?r
  proof (induction "c # v" rule: kleene.induct)
    case (kleene_step u w)
    then show ?case by (cases u) auto
  qed
next
  assume ?r
  then obtain a b where "v = a @ b" "c # a \<in> L" "b \<in> kleene L" by blast
  from kleene_step [OF this(2,3)] \<open>v = a @ b\<close> show ?l by simp
qed

lemma lang_deriv: "v \<in> lang (deriv c r) \<longleftrightarrow> c # v \<in> lang r"
proof (induction r arbitrary: v)
  case (Seq r s)
  have split: "c # v \<in> lang (Seq r s) \<longleftrightarrow>
      ([] \<in> lang r \<and> c # v \<in> lang s) \<or> (\<exists>a b. v = a @ b \<and> c # a \<in> lang r \<and> b \<in> lang s)"
    by (auto simp: Cons_eq_append_conv)
  show ?case
    unfolding split using Seq by (auto simp: nullable_iff)
next
  case (Star r)
  then show ?case by (auto simp: kleene_Cons)
qed auto

theorem reMatch_iff: "reMatch r s \<longleftrightarrow> s \<in> lang r"
  by (induction s arbitrary: r) (auto simp: nullable_iff lang_deriv)

subsection \<open>Pattern constructors and searching\<close>

definition reLit :: "string \<Rightarrow> re" where
  "reLit p = foldr (\<lambda>c r. Seq (Cls (\<lambda>d. d = c)) r) p Eps"

definition reAny :: re where "reAny = Star (Cls (\<lambda>_. True))"
definition reDot :: re where "reDot = Cls (\<lambda>c. c \<noteq> CHR 10 \<and> c \<noteq> CHR 13)"
definition reSpace :: re where "reSpace = Cls isSpace"
definition reDigit :: re where "reDigit = Cls isDigit"
definition rePlus :: "re \<Rightarrow> re" where "rePlus r = Seq r (Star r)"
definition reOpt :: "re \<Rightarrow> re" where "reOpt r = Alt r Eps"
definition reSeqs :: "re list \<Rightarrow> re" where "reSeqs rs = foldr Seq rs Eps"
definition reAlts :: "re list \<Rightarrow> re" where "reAlts rs = foldr Alt rs NoMatch"

definition isWordChar :: "char \<Rightarrow> bool" where
  "isWordChar c \<longleftrightarrow> (let n = (of_char c :: nat) in
     (48 \<le> n \<and> n \<le> 57) \<or> (65 \<le> n \<and> n \<le> 90) \<or> (97 \<le> n \<and> n \<le> 122) \<or> n = 95)"

definition isAlphaUnderscore :: "char \<Rightarrow> bool" where
  "isAlphaUnderscore c \<longleftrightarrow> isWordChar c \<and> \<not> isDigit c"

definition reTest :: "re \<Rightarrow> string \<Rightarrow> bool" where
  "reTest r s = reMatch (Seq reAny (Seq r reAny)) s"

definition reTestStart :: "re \<Rightarrow> string \<Rightarrow> bool" where
  "reTestStart r s = reMatch (Seq r reAny) s"

definition reTestEnd :: "re \<Rightarrow> string \<Rightarrow> bool" where
  "reTestEnd r s = reMatch (Seq reAny r) s"

definition reTestI :: "re \<Rightarrow> string \<Rightarrow> bool" where
  "reTestI r s = reTest r (toLowerCase s)"

lemma lang_reLit [simp]: "lang (reLit p) = {p}"
  by (induction p) (auto simp: reLit_def)

lemma lang_reAny [simp]: "lang reAny = UNIV"
proof -
  have "s \<in> kleene {[c] | c. True}" for s :: string
  proof (induction s)
    case Nil
    show ?case by (rule kleene_nil)
  next
    case (Cons c s)
    from kleene_step [OF _ Cons, of "[c]"] show ?case by simp
  qed
  then show ?thesis by (auto simp: reAny_def)
qed

lemma lang_reAlts [simp]: "lang (reAlts rs) = \<Union> (lang ` set rs)"
  by (induction rs) (auto simp: reAlts_def)

lemma lang_reSeqs_Nil [simp]: "lang (reSeqs []) = {[]}"
  by (simp add: reSeqs_def)

lemma lang_reSeqs_Cons [simp]: "lang (reSeqs (r # rs)) = {u @ v | u v. u \<in> lang r \<and> v \<in> lang (reSeqs rs)}"
  by (simp add: reSeqs_def)

theorem reTest_iff: "reTest r s \<longleftrightarrow> (\<exists>u v w. s = u @ v @ w \<and> v \<in> lang r)"
  by (auto simp: reTest_def reMatch_iff)

lemma reTestStart_iff: "reTestStart r s \<longleftrightarrow> (\<exists>v w. s = v @ w \<and> v \<in> lang r)"
  by (auto simp: reTestStart_def reMatch_iff)

lemma reTestEnd_iff: "reTestEnd r s \<longleftrightarrow> (\<exists>u v. s = u @ v \<and> v \<in> lang r)"
  by (auto simp: reTestEnd_def reMatch_iff)

text \<open>A literal is found exactly where the text includes it; alternatives distribute.\<close>

lemma reTest_reLit [simp]: "reTest (reLit p) s \<longleftrightarrow> strIncludes s p"
  by (auto simp: reTest_iff strIncludes_iff sublist_def)

lemma reTest_Alt [simp]: "reTest (Alt r q) s \<longleftrightarrow> reTest r s \<or> reTest q s"
  unfolding reTest_iff by (simp only: lang.simps Un_iff) blast

lemma reTest_reAlts [simp]: "reTest (reAlts rs) s \<longleftrightarrow> (\<exists>r \<in> set rs. reTest r s)"
  unfolding reTest_iff by (simp only: lang_reAlts UN_iff) blast

lemma reTestStart_reLit [simp]: "reTestStart (reLit p) s \<longleftrightarrow> prefix p s"
  by (auto simp: reTestStart_iff prefix_def)

lemma reTestEnd_reLit [simp]: "reTestEnd (reLit p) s \<longleftrightarrow> suffix p s"
  by (auto simp: reTestEnd_iff suffix_def)

lemma reTest_append: "reTest r s \<Longrightarrow> reTest r (t @ s @ t')"
  by (auto simp: reTest_iff) (metis append.assoc)

end
