(* ===== verification/DepGraph.thy ===== *)
theory DepGraph
  imports Regex
begin

text \<open>
  The backlog dependency graph, \<open>pipeline-cli/src/deps/dependency-graph.ts\<close>: the task files of
  \<open>backlog/tasks\<close> and \<open>backlog/completed\<close> become nodes keyed by the lower-case task id, and the
  queries \<open>frontier\<close>, \<open>blockers\<close>, \<open>impact\<close> and \<open>preflight\<close> decide what may be dispatched.
  js-yaml is a parameter (\<open>yamlLoad\<close>); the directories are given by their listings.
\<close>

subsection \<open>Data\<close>

datatype task_status = Open | Completed

datatype ext_kind = NpmVersion | GithubPr | UrlHead | Manual | OtherKind

record external_dependency =
  ed_id :: string
  ed_description :: string
  ed_kind :: ext_kind
  ed_resolverHint :: "string option"

record dependency_node =
  dn_id :: string
  dn_status :: task_status
  dn_fileLocation :: task_status
  dn_frontmatterStatus :: string
  dn_priority :: string
  dn_title :: string
  dn_dependencies :: "string list"
  dn_externalDependencies :: "external_dependency list"
  dn_lastModified :: string
  dn_filePath :: string
  dn_parentTaskId :: string

record dependency_graph =
  nodes :: "(string, dependency_node) jsmap"
  openIds :: "string list"
  completedIds :: "string list"

text \<open>
  A YAML value, as js-yaml returns it. \<open>YScalar\<close> is a string, or a float or a timestamp given
  by the text \<open>String\<close> prints for it.
\<close>

datatype yaml = YNull | YBool bool | YInt int | YScalar string | YList "yaml list"
  | YMap "(string \<times> yaml) list"

fun jsString :: "yaml \<Rightarrow> string" where
  "jsString YNull = ''null''"
| "jsString (YBool b) = (if b then ''true'' else ''false'')"
| "jsString (YInt i) = showInt i"
| "jsString (YScalar s) = s"
| "jsString (YList ys) = joinWith '','' (map (\<lambda>y. case y of YNull \<Rightarrow> [] | _ \<Rightarrow> jsString y) ys)"
| "jsString (YMap m) = ''[object Object]''"

type_synonym yaml_loader = "string \<Rightarrow> string + yaml"

text \<open>A file of a listed directory: its text or the error reading it raises, and its mtime.\<close>

record task_file =
  tf_name :: string
  tf_content :: "string + string"
  tf_mtime :: "string option"

type_synonym listing = "task_file list option"

subsection \<open>Parsing a task file\<close>

definition parseSimpleYaml :: "yaml_loader \<Rightarrow> string \<Rightarrow> string + (string \<times> yaml) list" where
  "parseSimpleYaml yamlLoad raw =
     (if trim raw = [] then Inr []
      else case yamlLoad raw of
        Inl e \<Rightarrow> Inl (''YAML parse error: '' @ e)
      | Inr (YMap m) \<Rightarrow> Inr m
      | Inr _ \<Rightarrow> Inr [])"

definition isKnownKind :: "string \<Rightarrow> ext_kind option" where
  "isKnownKind v =
     (if v = ''npm-version'' then Some NpmVersion
      else if v = ''github-pr'' then Some GithubPr
      else if v = ''url-head'' then Some UrlHead
      else if v = ''manual'' then Some Manual
      else if v = ''other'' then Some OtherKind
      else None)"

definition stripQuotes :: "string \<Rightarrow> string" where
  "stripQuotes s =
     (if 2 \<le> length s \<and> ((startsWith s [CHR 39] \<and> endsWith s [CHR 39]) \<or>
         (startsWith s [CHR 34] \<and> endsWith s [CHR 34]))
      then butlast (tl s) else s)"

definition stripFmQuotes :: "string \<Rightarrow> string" where
  "stripFmQuotes s = stripQuotes (trim s)"

definition pushIfValid ::
  "(string, string) jsmap \<Rightarrow> external_dependency list \<Rightarrow> external_dependency list" where
  "pushIfValid entry out =
     (let i = trim (orElse (mapGet entry ''id'') []);
          d = trim (orElse (mapGet entry ''description'') []);
          k = trim (orElse (mapGet entry ''kind'') []);
          hint = trim (orElse (mapGet entry ''resolverHint'') [])
      in if i = [] \<or> d = [] \<or> k = [] then out
         else out @ [\<lparr>ed_id = i, ed_description = d, ed_kind = orElse (isKnownKind k) OtherKind,
                ed_resolverHint = (if hint = [] then None else Some hint)\<rparr>])"

text \<open>The two line patterns: \<open>key: value\<close> after white space, with or without a leading dash.\<close>

definition matchKey :: "string \<Rightarrow> (string \<times> string) option" where
  "matchKey s = (case s of [] \<Rightarrow> None | c # _ \<Rightarrow>
     if \<not> isAlphaUnderscore c then None
     else let keyChar = (\<lambda>d. isWordChar d \<or> d = CHR ''-'');
              k = takeWhile keyChar s;
              rest = dropWhile isSpace (dropWhile keyChar s)
          in case rest of [] \<Rightarrow> None | d # v \<Rightarrow>
               let v' = dropWhile isSpace v
               in if d = CHR '':'' \<and> CHR 10 \<notin> set v' \<and> CHR 13 \<notin> set v' then Some (k, v') else None)"

definition itemMatch :: "string \<Rightarrow> (string \<times> string) option" where
  "itemMatch line = (case dropWhile isSpace line of
     d # e # t \<Rightarrow> if d = CHR ''-'' \<and> isSpace e then matchKey (dropWhile isSpace t) else None
   | _ \<Rightarrow> None)"

definition kvMatch :: "string \<Rightarrow> (string \<times> string) option" where
  "kvMatch line = (case line of
     c # t \<Rightarrow> if isSpace c then matchKey (dropWhile isSpace t) else None
   | [] \<Rightarrow> None)"

fun externalLoop :: "string list \<Rightarrow> (string, string) jsmap option \<Rightarrow> nat option \<Rightarrow>
    external_dependency list \<Rightarrow> external_dependency list" where
  "externalLoop [] current base out =
     (case current of None \<Rightarrow> out | Some e \<Rightarrow> pushIfValid e out)"
| "externalLoop (line # ls) current base out =
     (if trim line = [] then externalLoop ls current base out
      else let ind = length line - length (trimStart line);
               b = orElse base ind;
               stop = (case current of None \<Rightarrow> out | Some e \<Rightarrow> pushIfValid e out)
           in if ind < b then stop
              else case itemMatch line of
                Some (k, v) \<Rightarrow> externalLoop ls (Some [(k, stripFmQuotes v)]) (Some b) stop
              | None \<Rightarrow> (case (kvMatch line, current) of
                    (Some (k, v), Some e) \<Rightarrow>
                      externalLoop ls (Some (mapSet k (stripFmQuotes v) e)) (Some b) out
                  | _ \<Rightarrow> stop))"

definition externalOpener :: re where
  "externalOpener = reSeqs [reLit ''externalDependencies'', Star reSpace, reLit '':'', Star reSpace]"

definition parseExternalDependenciesBlock :: "string \<Rightarrow> external_dependency list" where
  "parseExternalDependenciesBlock fmRaw =
     (case dropWhile (\<lambda>l. \<not> reMatch externalOpener l) (splitOn (CHR 10) fmRaw) of
        [] \<Rightarrow> []
      | _ # ls \<Rightarrow> externalLoop ls None None [])"

definition frontmatterOf :: "string \<Rightarrow> string option" where
  "frontmatterOf raw =
     (let open_mark = ''---'' @ newline; close_mark = newline @ ''---'' @ newline
      in if startsWith raw open_mark
         then map_option fst (splitFirst close_mark (drop (length open_mark) raw))
         else None)"

definition fmText :: "(string \<times> yaml) list \<Rightarrow> string \<Rightarrow> string" where
  "fmText fm k = trim (case mapGet fm k of None \<Rightarrow> [] | Some YNull \<Rightarrow> [] | Some v \<Rightarrow> jsString v)"

definition fmDependencies :: "(string \<times> yaml) list \<Rightarrow> string list" where
  "fmDependencies fm = (case mapGet fm ''dependencies'' of
     Some (YList vs) \<Rightarrow> filter (\<lambda>v. v \<noteq> []) (map (\<lambda>v. trim (jsString v)) vs)
   | _ \<Rightarrow> [])"

definition parseTaskFrontmatter ::
  "yaml_loader \<Rightarrow> string \<Rightarrow> task_file \<Rightarrow> task_status \<Rightarrow> string + dependency_node option" where
  "parseTaskFrontmatter yamlLoad filePath file loc =
     (case tf_content file of Inl e \<Rightarrow> Inl e | Inr raw \<Rightarrow>
      case frontmatterOf raw of None \<Rightarrow> Inr None | Some fmRaw \<Rightarrow>
      case parseSimpleYaml yamlLoad fmRaw of Inl e \<Rightarrow> Inl e | Inr fm \<Rightarrow>
      if fmText fm ''id'' = [] then Inr None
      else Inr (Some \<lparr>dn_id = fmText fm ''id'', dn_status = loc, dn_fileLocation = loc,
        dn_frontmatterStatus = fmText fm ''status'',
        dn_priority = toLowerCase (fmText fm ''priority''),
        dn_title = fmText fm ''title'',
        dn_dependencies = fmDependencies fm,
        dn_externalDependencies = parseExternalDependenciesBlock fmRaw,
        dn_lastModified = orElse (tf_mtime file) [],
        dn_filePath = filePath,
        dn_parentTaskId = fmText fm ''parent_task_id''\<rparr>))"

subsection \<open>Building the graph\<close>

definition isDoneStatus :: "string \<Rightarrow> bool" where
  "isDoneStatus status \<longleftrightarrow> (let s = toLowerCase (trim status) in
     s = ''done'' \<or> s = ''completed'' \<or> s = ''shipped'')"

definition isInProgressStatus :: "string \<Rightarrow> bool" where
  "isInProgressStatus status \<longleftrightarrow> toLowerCase (trim status) = ''in progress''"

text \<open>\<open>readDir\<close>: the nodes in listing order, and the warnings it emits on the way.\<close>

fun readEntries :: "yaml_loader \<Rightarrow> string \<Rightarrow> task_file list \<Rightarrow> task_status \<Rightarrow>
    dependency_node list \<times> string list" where
  "readEntries yamlLoad dir [] loc = ([], [])"
| "readEntries yamlLoad dir (f # fs) loc =
     (let (out, warns) = readEntries yamlLoad dir fs loc;
          filePath = dir @ ''/'' @ tf_name f
      in if \<not> endsWith (tf_name f) ''.md'' then (out, warns)
         else case parseTaskFrontmatter yamlLoad filePath f loc of
           Inl e \<Rightarrow> (out, (''failed to parse '' @ filePath @ '': '' @ e) # warns)
         | Inr None \<Rightarrow> (out, warns)
         | Inr (Some node) \<Rightarrow> (node # out, warns))"

definition readDir :: "yaml_loader \<Rightarrow> string \<Rightarrow> listing \<Rightarrow> task_status \<Rightarrow>
    dependency_node list \<times> string list" where
  "readDir yamlLoad dir l loc =
     (case l of None \<Rightarrow> ([], []) | Some fs \<Rightarrow> readEntries yamlLoad dir fs loc)"

definition nodeKey :: "dependency_node \<Rightarrow> string" where
  "nodeKey n = toLowerCase (dn_id n)"

definition emptyGraph :: dependency_graph where
  "emptyGraph = \<lparr>nodes = [], openIds = [], completedIds = []\<rparr>"

definition addTaskNode :: "dependency_node \<Rightarrow> dependency_graph \<Rightarrow> dependency_graph" where
  "addTaskNode node g =
     (let key = nodeKey node in
      if isDoneStatus (dn_frontmatterStatus node)
      then g\<lparr>nodes := mapSet key (node\<lparr>dn_status := Completed\<rparr>) (nodes g),
             completedIds := completedIds g @ [key]\<rparr>
      else g\<lparr>nodes := mapSet key node (nodes g), openIds := openIds g @ [key]\<rparr>)"

definition staleWarning :: "dependency_node \<Rightarrow> string list" where
  "staleWarning node =
     (if isDoneStatus (dn_frontmatterStatus node)
      then [''stale task: '' @ dn_id node @ '' has status: '' @ dn_frontmatterStatus node @
        '' but file is still in backlog/tasks/ '' @ emDash @ '' move with: git mv '' @ [CHR 34] @
        dn_filePath node @ [CHR 34] @ '' backlog/completed/'']
      else [])"

definition addCompletedNode :: "dependency_node \<Rightarrow> dependency_graph \<Rightarrow> dependency_graph" where
  "addCompletedNode node g =
     (let key = nodeKey node;
          kept = (if mapHas (nodes g) key then removeFirst key (completedIds g) else completedIds g)
      in g\<lparr>nodes := mapSet key node (nodes g), completedIds := kept @ [key]\<rparr>)"

definition buildDependencyGraph ::
  "yaml_loader \<Rightarrow> string \<Rightarrow> listing \<Rightarrow> listing \<Rightarrow> dependency_graph \<times> string list" where
  "buildDependencyGraph yamlLoad workDir tasks completed =
     (let (ts, w1) = readDir yamlLoad (workDir @ ''/backlog/tasks'') tasks Open;
          (cs, w2) = readDir yamlLoad (workDir @ ''/backlog/completed'') completed Completed
      in (fold addCompletedNode cs (fold addTaskNode ts emptyGraph),
          w1 @ concat (map staleWarning ts) @ w2))"

definition builtGraph :: "yaml_loader \<Rightarrow> string \<Rightarrow> listing \<Rightarrow> listing \<Rightarrow> dependency_graph" where
  "builtGraph y w t c = fst (buildDependencyGraph y w t c)"

subsection \<open>Queries\<close>

record frontier_entry =
  fe_id :: string
  fe_title :: string
  fe_dependencies :: "string list"

definition getNode :: "dependency_graph \<Rightarrow> string \<Rightarrow> dependency_node option" where
  "getNode g i = mapGet (nodes g) (toLowerCase i)"

definition allDependenciesCompleted :: "dependency_node \<Rightarrow> dependency_graph \<Rightarrow> bool" where
  "allDependenciesCompleted node g = everyIn (\<lambda>dep. case getNode g dep of
     None \<Rightarrow> False | Some d \<Rightarrow> dn_status d = Completed) (dn_dependencies node)"

fun frontierLoop :: "dependency_graph \<Rightarrow> string list \<Rightarrow> frontier_entry list" where
  "frontierLoop g [] = []"
| "frontierLoop g (i # is) = (case mapGet (nodes g) i of
     None \<Rightarrow> frontierLoop g is
   | Some node \<Rightarrow>
       if isInProgressStatus (dn_frontmatterStatus node) then frontierLoop g is
       else if allDependenciesCompleted node g
       then \<lparr>fe_id = dn_id node, fe_title = dn_title node, fe_dependencies = dn_dependencies node\<rparr>
              # frontierLoop g is
       else frontierLoop g is)"

definition frontier :: "dependency_graph \<Rightarrow> frontier_entry list" where
  "frontier g = sortById fe_id (frontierLoop g (openIds g))"

text \<open>
  The work-list loop \<open>blockers\<close> and \<open>impact\<close> share. The JavaScript array \<open>stack\<close> is pushed and
  popped at its end; here its last element is the head of the list.
\<close>

function walk :: "(string \<Rightarrow> dependency_node \<Rightarrow> string list) \<Rightarrow> (string, dependency_node) jsmap \<Rightarrow>
    string list \<Rightarrow> string list \<Rightarrow> dependency_node list \<Rightarrow> dependency_node list" where
  "walk adj m [] visited out = out"
| "walk adj m (nxt # stack) visited out =
     (let key = toLowerCase nxt in
      if key \<in> set visited then walk adj m stack visited out
      else case mapGet m key of
        None \<Rightarrow> walk adj m stack (key # visited) out
      | Some node \<Rightarrow> walk adj m (rev (adj key node) @ stack) (key # visited)
          (if dn_status node = Open then out @ [node] else out))"
  by pat_completeness auto

definition unvisited :: "(string, 'v) jsmap \<Rightarrow> string list \<Rightarrow> nat" where
  "unvisited m visited = length (filter (\<lambda>k. k \<notin> set visited) (mapKeys m))"

lemma unvisited_le: "unvisited m (k # visited) \<le> unvisited m visited"
  by (induction m) (auto simp: unvisited_def)

lemma unvisited_less:
  "mapGet m k = Some v \<Longrightarrow> k \<notin> set visited \<Longrightarrow> unvisited m (k # visited) < unvisited m visited"
proof (induction m)
  case (Cons p m)
  then show ?case
    using unvisited_le [of m k visited]
    by (cases "fst p = k") (auto simp: unvisited_def split: if_splits)
qed simp

lemma unvisited_same:
  "mapGet m k = None \<Longrightarrow> unvisited m (k # visited) = unvisited m visited"
  unfolding unvisited_def
  by (rule arg_cong [where f = length], rule filter_cong) (auto simp: map_of_eq_None_iff)

termination walk
proof (relation "measures [\<lambda>(adj, m, stack, visited, out). unvisited m visited,
    \<lambda>(adj, m, stack, visited, out). length stack]", goal_cases)
  case 1
  show ?case by simp
next
  case (2 adj m nxt stack visited out key)
  then show ?case by simp
next
  case (3 adj m nxt stack visited out key)
  then show ?case by (simp add: unvisited_same)
next
  case (4 adj m nxt stack visited out key node)
  then show ?case by (simp add: unvisited_less)
qed

definition blockers :: "dependency_graph \<Rightarrow> string \<Rightarrow> dependency_node list" where
  "blockers g taskId = (case getNode g taskId of
     None \<Rightarrow> []
   | Some start \<Rightarrow> sortById dn_id
       (walk (\<lambda>key node. dn_dependencies node) (nodes g) (rev (dn_dependencies start)) [] []))"

definition addReverse :: "dependency_node \<Rightarrow> (string, string list) jsmap \<Rightarrow> (string, string list) jsmap"
  where "addReverse node rm = fold (\<lambda>dep r. let key = toLowerCase dep in
     mapSet key (orElse (mapGet r key) [] @ [dn_id node]) r) (dn_dependencies node) rm"

definition reverseEdges :: "dependency_graph \<Rightarrow> (string, string list) jsmap" where
  "reverseEdges g = fold addReverse (mapValues (nodes g)) []"

definition impact :: "dependency_graph \<Rightarrow> string \<Rightarrow> dependency_node list" where
  "impact g taskId = (case getNode g taskId of
     None \<Rightarrow> []
   | Some start \<Rightarrow>
       let reverse = reverseEdges g; dependents = (\<lambda>key. orElse (mapGet reverse key) [])
       in sortById dn_id (walk (\<lambda>key node. dependents key) (nodes g)
            (rev (dependents (toLowerCase (dn_id start)))) [] []))"

record dangling_ref =
  dr_source :: string
  dr_missing :: string

record preflight_result =
  pf_ok :: bool
  pf_reason :: string
  pf_blockers :: "dependency_node list"
  pf_dangling :: "dangling_ref list"

definition danglingOf :: "dependency_graph \<Rightarrow> dependency_node \<Rightarrow> dangling_ref list" where
  "danglingOf g node = map (\<lambda>dep. \<lparr>dr_source = dn_id node, dr_missing = dep\<rparr>)
     (filter (\<lambda>dep. \<not> mapHas (nodes g) (toLowerCase dep)) (dn_dependencies node))"

definition preflight :: "dependency_graph \<Rightarrow> string \<Rightarrow> preflight_result" where
  "preflight g taskId = (case getNode g taskId of
     None \<Rightarrow> \<lparr>pf_ok = False, pf_reason = ''unknown task '' @ taskId, pf_blockers = [],
               pf_dangling = []\<rparr>
   | Some target \<Rightarrow>
       if dn_status target = Completed
       then \<lparr>pf_ok = False, pf_reason = dn_id target @ '' is already in backlog/completed/ '' @
              emDash @ '' already shipped'', pf_blockers = [], pf_dangling = []\<rparr>
       else let dangling = danglingOf g target; openBlockers = blockers g taskId in
         if openBlockers = [] \<and> dangling = []
         then \<lparr>pf_ok = True, pf_reason = [], pf_blockers = [], pf_dangling = []\<rparr>
         else let r1 = (if openBlockers = [] then [] else
                 [showNat (length openBlockers) @ '' dependency(ies) not yet Done: '' @
                  joinWith '', '' (map dn_id openBlockers)]);
                  r2 = (if dangling = [] then [] else
                 [showNat (length dangling) @ '' dangling dependency reference(s): '' @
                  joinWith '', '' (map dr_missing dangling)])
              in \<lparr>pf_ok = False, pf_reason = joinWith ''; '' (r1 @ r2), pf_blockers = openBlockers,
                  pf_dangling = dangling\<rparr>)"

end
