(* ===== verification/DepGraphCorrect.thy ===== *)
theory DepGraphCorrect
  imports DepGraph
begin

text \<open>
  Correctness of the dependency graph: the invariant of a built graph, the work-list loop as a
  transitive closure, and what \<open>frontier\<close>, \<open>blockers\<close>, \<open>impact\<close> and \<open>preflight\<close> decide.
\<close>

subsection \<open>The work-list loop computes a closure\<close>

definition walkEdges ::
  "(string \<Rightarrow> dependency_node \<Rightarrow> string list) \<Rightarrow> (string, dependency_node) jsmap \<Rightarrow> (string \<times> string) set"
  where "walkEdges adj m =
    {(k, k'). \<exists>n. mapGet m k = Some n \<and> k' \<in> toLowerCase ` set (adj k n)}"

definition walkReach ::
  "(string \<Rightarrow> dependency_node \<Rightarrow> string list) \<Rightarrow> (string, dependency_node) jsmap \<Rightarrow> string list \<Rightarrow> string set"
  where "walkReach adj m stack = (walkEdges adj m)\<^sup>* `` (toLowerCase ` set stack)"

definition walkClosed ::
  "(string \<Rightarrow> dependency_node \<Rightarrow> string list) \<Rightarrow> (string, dependency_node) jsmap \<Rightarrow> string list \<Rightarrow> string list \<Rightarrow> bool"
  where "walkClosed adj m stack visited \<longleftrightarrow>
    walkEdges adj m `` set visited \<subseteq> set visited \<union> toLowerCase ` set stack"

definition openIn :: "(string, dependency_node) jsmap \<Rightarrow> string set \<Rightarrow> dependency_node set" where
  "openIn m K = {n. dn_status n = Open \<and> (\<exists>k \<in> K. mapGet m k = Some n)}"

lemma walkReach_Nil [simp]: "walkReach adj m [] = {}"
  by (simp add: walkReach_def)

lemma walkReach_base: "toLowerCase ` set stack \<subseteq> walkReach adj m stack"
  by (auto simp: walkReach_def)

lemma walkReach_Cons:
  "walkReach adj m (x # stack) = (walkEdges adj m)\<^sup>* `` {toLowerCase x} \<union> walkReach adj m stack"
  by (auto simp: walkReach_def)

lemma walkReach_append:
  "walkReach adj m (xs @ ys) = walkReach adj m xs \<union> walkReach adj m ys"
  by (auto simp: walkReach_def)

lemma walkReach_rev [simp]: "walkReach adj m (rev xs) = walkReach adj m xs"
  by (simp add: walkReach_def)

lemma reach_unfold:
  "(walkEdges adj m)\<^sup>* `` {k} =
     insert k (case mapGet m k of None \<Rightarrow> {} | Some n \<Rightarrow> walkReach adj m (adj k n))"
proof -
  have "(walkEdges adj m)\<^sup>* `` {k} = insert k ((walkEdges adj m)\<^sup>* `` (walkEdges adj m `` {k}))"
    by (auto elim: converse_rtranclE intro: converse_rtrancl_into_rtrancl)
  moreover have "walkEdges adj m `` {k} =
      (case mapGet m k of None \<Rightarrow> {} | Some n \<Rightarrow> toLowerCase ` set (adj k n))"
    by (auto simp: walkEdges_def split: option.splits)
  ultimately show ?thesis
    by (auto simp: walkReach_def split: option.splits)
qed

lemma closed_reach:
  assumes "walkClosed adj m stack visited" and "k \<in> set visited" and "(k, l) \<in> (walkEdges adj m)\<^sup>*"
  shows "l \<in> set visited \<union> walkReach adj m stack"
  using assms(3,2)
proof (induction rule: rtrancl_induct)
  case base
  then show ?case by simp
next
  case (step y z)
  then have "y \<in> set visited \<or> y \<in> walkReach adj m stack" by simp
  then show ?case
  proof
    assume "y \<in> set visited"
    with step(2) assms(1) show ?thesis
      using walkReach_base [of stack adj m] by (auto simp: walkClosed_def)
  next
    assume "y \<in> walkReach adj m stack"
    with step(2) show ?thesis
      by (auto simp: walkReach_def intro: rtrancl_into_rtrancl)
  qed
qed

lemma walk_closure:
  assumes "walkClosed adj m stack visited" and "set out = openIn m (set visited)"
  shows "set (walk adj m stack visited out) = openIn m (set visited \<union> walkReach adj m stack)"
  using assms
proof (induction adj m stack visited out rule: walk.induct)
  case (1 adj m visited out)
  then show ?case by simp
next
  case (2 adj m nxt stack visited out)
  let ?k = "toLowerCase nxt"
  show ?case
  proof (cases "?k \<in> set visited")
    case True
    then have closed: "walkClosed adj m stack visited"
      using "2.prems"(1) by (auto simp: walkClosed_def)
    have "(walkEdges adj m)\<^sup>* `` {?k} \<subseteq> set visited \<union> walkReach adj m stack"
      using closed_reach [OF closed True] by blast
    then have "set visited \<union> walkReach adj m (nxt # stack) = set visited \<union> walkReach adj m stack"
      by (auto simp: walkReach_Cons)
    with True "2.IH"(1) [OF refl True closed "2.prems"(2)] show ?thesis
      by (simp add: Let_def)
  next
    case False
    note new = False
    show ?thesis
    proof (cases "mapGet m ?k")
      case None
      have closed: "walkClosed adj m stack (?k # visited)"
        using "2.prems"(1) None by (auto simp: walkClosed_def walkEdges_def)
      have out: "set out = openIn m (set (?k # visited))"
        using "2.prems"(2) None by (auto simp: openIn_def)
      have "set (?k # visited) \<union> walkReach adj m stack = set visited \<union> walkReach adj m (nxt # stack)"
        using None by (auto simp: walkReach_Cons reach_unfold)
      with new None "2.IH"(2) [OF refl new None closed out] show ?thesis
        by (simp add: Let_def)
    next
      case (Some node)
      let ?stack = "rev (adj ?k node) @ stack"
      let ?out = "if dn_status node = Open then out @ [node] else out"
      have closed: "walkClosed adj m ?stack (?k # visited)"
        using "2.prems"(1) Some by (auto simp: walkClosed_def walkEdges_def)
      have out: "set ?out = openIn m (set (?k # visited))"
        using "2.prems"(2) Some by (auto simp: openIn_def)
      have "set (?k # visited) \<union> walkReach adj m ?stack = set visited \<union> walkReach adj m (nxt # stack)"
        using Some by (auto simp: walkReach_Cons walkReach_append reach_unfold)
      with new Some "2.IH"(3) [OF refl new Some closed out] show ?thesis
        by (simp add: Let_def)
    qed
  qed
qed

lemma walk_from_start:
  "set (walk adj m stack [] []) = openIn m (walkReach adj m stack)"
  using walk_closure [of adj m stack "[]" "[]"] by (simp add: walkClosed_def openIn_def)

lemma set_walk_subset: "set (walk adj m stack [] []) \<subseteq> set (mapValues m)"
  by (auto simp: walk_from_start openIn_def dest: mapGet_in_values)

subsection \<open>Dependency edges\<close>

definition depEdges :: "dependency_graph \<Rightarrow> (string \<times> string) set" where
  "depEdges g = walkEdges (\<lambda>key node. dn_dependencies node) (nodes g)"

lemma depEdges_iff:
  "(k, k') \<in> depEdges g \<longleftrightarrow>
     (\<exists>n. mapGet (nodes g) k = Some n \<and> k' \<in> toLowerCase ` set (dn_dependencies n))"
  by (simp add: depEdges_def walkEdges_def)

lemma trancl_from_start:
  assumes "mapGet (nodes g) k = Some n"
  shows "(depEdges g)\<^sup>+ `` {k} = walkReach (\<lambda>key node. dn_dependencies node) (nodes g) (dn_dependencies n)"
proof -
  have "(depEdges g)\<^sup>+ `` {k} = (depEdges g)\<^sup>* `` (depEdges g `` {k})"
    by (auto simp: trancl_unfold_left)
  moreover have "depEdges g `` {k} = toLowerCase ` set (dn_dependencies n)"
    using assms by (auto simp: depEdges_iff)
  ultimately show ?thesis by (simp add: walkReach_def depEdges_def)
qed

lemma set_blockers:
  assumes "getNode g t = Some start"
  shows "set (blockers g t) =
    {n. dn_status n = Open \<and> (\<exists>k. (toLowerCase t, k) \<in> (depEdges g)\<^sup>+ \<and> mapGet (nodes g) k = Some n)}"
proof -
  have "(depEdges g)\<^sup>+ `` {toLowerCase t} =
      walkReach (\<lambda>key node. dn_dependencies node) (nodes g) (dn_dependencies start)"
    using assms by (intro trancl_from_start) (simp add: getNode_def)
  with assms show ?thesis
    by (auto simp: blockers_def walk_from_start openIn_def)
qed

lemma blockers_unknown: "getNode g t = None \<Longrightarrow> blockers g t = []"
  by (simp add: blockers_def)

subsection \<open>Reverse edges\<close>

lemma addReverse_get:
  "set (orElse (mapGet (addReverse node rm) k) []) =
     set (orElse (mapGet rm k) []) \<union>
     (if k \<in> toLowerCase ` set (dn_dependencies node) then {dn_id node} else {})"
proof -
  have "set (orElse (mapGet (fold (\<lambda>dep r. let key = toLowerCase dep in
       mapSet key (orElse (mapGet r key) [] @ [i]) r) ds rm) k) []) =
     set (orElse (mapGet rm k) []) \<union> (if k \<in> toLowerCase ` set ds then {i} else {})" for i ds
    by (induction ds arbitrary: rm) (auto simp: Let_def map_simps)
  then show ?thesis by (simp add: addReverse_def)
qed

lemma fold_addReverse_get:
  "set (orElse (mapGet (fold addReverse ns rm) k) []) =
     set (orElse (mapGet rm k) []) \<union> {dn_id n | n. n \<in> set ns \<and> k \<in> toLowerCase ` set (dn_dependencies n)}"
  by (induction ns arbitrary: rm) (auto simp: addReverse_get)

lemma reverseEdges_get:
  "set (orElse (mapGet (reverseEdges g) k) []) =
     {dn_id n | n. n \<in> set (mapValues (nodes g)) \<and> k \<in> toLowerCase ` set (dn_dependencies n)}"
  by (simp add: reverseEdges_def fold_addReverse_get)

subsection \<open>Well-formed graphs\<close>

definition wfGraph :: "dependency_graph \<Rightarrow> bool" where
  "wfGraph g \<longleftrightarrow> distinct (mapKeys (nodes g)) \<and>
     everyIn (\<lambda>(k, n). k = nodeKey n \<and> dn_id n \<noteq> [] \<and>
       (if dn_status n = Open then k \<in> set (openIds g) else k \<in> set (completedIds g))) (nodes g) \<and>
     everyIn (\<lambda>k. mapHas (nodes g) k) (openIds g @ completedIds g)"

text \<open>The contract the clients of a graph rely on.\<close>

locale task_graph =
  fixes g :: dependency_graph
  assumes keys_distinct: "distinct (mapKeys (nodes g))"
    and key_of_node: "mapGet (nodes g) k = Some n \<Longrightarrow> k = nodeKey n"
    and open_listed: "mapGet (nodes g) k = Some n \<Longrightarrow> dn_status n = Open \<Longrightarrow> k \<in> set (openIds g)"
    and completed_listed:
      "mapGet (nodes g) k = Some n \<Longrightarrow> dn_status n = Completed \<Longrightarrow> k \<in> set (completedIds g)"
    and listed_known: "k \<in> set (openIds g) \<union> set (completedIds g) \<Longrightarrow> mapGet (nodes g) k \<noteq> None"
begin

lemma value_get: "n \<in> set (mapValues (nodes g)) \<longleftrightarrow> mapGet (nodes g) (nodeKey n) = Some n"
proof
  assume "n \<in> set (mapValues (nodes g))"
  then obtain k where "(k, n) \<in> set (nodes g)" by auto
  then have "mapGet (nodes g) k = Some n" using keys_distinct by simp
  with key_of_node show "mapGet (nodes g) (nodeKey n) = Some n" by simp
qed (rule mapGet_in_values)

lemma reverse_edge:
  "k' \<in> toLowerCase ` set (orElse (mapGet (reverseEdges g) k) []) \<longleftrightarrow> (k', k) \<in> depEdges g"
proof -
  have "k' \<in> toLowerCase ` set (orElse (mapGet (reverseEdges g) k) []) \<longleftrightarrow>
      (\<exists>n. k' = nodeKey n \<and> n \<in> set (mapValues (nodes g)) \<and> k \<in> toLowerCase ` set (dn_dependencies n))"
    by (auto simp: reverseEdges_get nodeKey_def)
  also have "\<dots> \<longleftrightarrow> (k', k) \<in> depEdges g"
    unfolding depEdges_iff value_get by (metis key_of_node)
  finally show ?thesis .
qed

lemma impact_reach:
  assumes "mapGet (nodes g) k = Some start"
  shows "walkReach (\<lambda>key node. orElse (mapGet (reverseEdges g) key) []) (nodes g)
           (orElse (mapGet (reverseEdges g) k) []) = {l. (l, k) \<in> (depEdges g)\<^sup>+}"
    (is "walkReach ?adj ?m ?st = _")
proof -
  let ?E = "walkEdges ?adj ?m"
  have E: "(a, b) \<in> ?E \<longleftrightarrow> mapGet (nodes g) a \<noteq> None \<and> (b, a) \<in> depEdges g" for a b
    by (auto simp: walkEdges_def reverse_edge [symmetric])
  have src: "(a, b) \<in> depEdges g \<Longrightarrow> mapGet (nodes g) a \<noteq> None" for a b
    by (auto simp: depEdges_iff)
  have "l \<in> walkReach ?adj ?m ?st \<longleftrightarrow> (\<exists>b. (b, k) \<in> depEdges g \<and> (b, l) \<in> ?E\<^sup>*)" for l
    unfolding walkReach_def by (metis (no_types, lifting) ImageE ImageI reverse_edge)
  moreover have "(b, l) \<in> ?E\<^sup>* \<Longrightarrow> (l, b) \<in> (depEdges g)\<^sup>*" for b l
    by (induction rule: rtrancl_induct) (auto simp: E intro: converse_rtrancl_into_rtrancl)
  moreover have "(b, l) \<in> ?E\<^sup>*"
    if "(l, b) \<in> (depEdges g)\<^sup>*" and b: "mapGet (nodes g) b \<noteq> None" for b l
    using that(1)
  proof (induction rule: converse_rtrancl_induct)
    case (step y z)
    have "mapGet (nodes g) z \<noteq> None"
      using step(2) b src by (auto elim: converse_rtranclE)
    with step(1) have "(z, y) \<in> ?E" by (simp add: E)
    with step.IH show ?case by (rule rtrancl_into_rtrancl)
  qed simp
  ultimately have "l \<in> walkReach ?adj ?m ?st \<longleftrightarrow> (\<exists>b. (l, b) \<in> (depEdges g)\<^sup>* \<and> (b, k) \<in> depEdges g)" for l
    using src by meson
  then show ?thesis
    by (auto simp: rtrancl_into_trancl1 dest: tranclD2)
qed

lemma walk_distinct:
  assumes "distinct out" and "\<forall>n \<in> set out. nodeKey n \<in> set visited"
  shows "distinct (walk adj (nodes g) stack visited out)"
  using assms
proof (induction adj "nodes g" stack visited out rule: walk.induct)
  case (2 adj nxt stack visited out)
  then show ?case
    using key_of_node by (fastforce simp: Let_def split: option.splits)
qed simp

lemma distinct_queries: "distinct (blockers g t)" "distinct (impact g t)"
  by (simp_all add: blockers_def impact_def Let_def walk_distinct split: option.splits)

lemma set_impact:
  assumes "getNode g t = Some start"
  shows "set (impact g t) =
    {n. dn_status n = Open \<and> (\<exists>k. (k, toLowerCase t) \<in> (depEdges g)\<^sup>+ \<and> mapGet (nodes g) k = Some n)}"
proof -
  have k: "mapGet (nodes g) (toLowerCase t) = Some start"
    using assms by (simp add: getNode_def)
  then have "toLowerCase (dn_id start) = toLowerCase t"
    using key_of_node by (simp add: nodeKey_def)
  with assms show ?thesis
    by (auto simp: impact_def Let_def walk_from_start openIn_def impact_reach [OF k])
qed

text \<open>\<open>blockers\<close> and \<open>impact\<close> are converse to each other.\<close>

lemma blockers_impact_dual:
  assumes "getNode g s = Some n" and "getNode g t = Some m"
    and "dn_status n = Open" and "dn_status m = Open"
  shows "n \<in> set (blockers g t) \<longleftrightarrow> m \<in> set (impact g s)"
proof -
  have n: "mapGet (nodes g) k = Some n \<longleftrightarrow> k = toLowerCase s" for k
    using assms(1) key_of_node [of k n] key_of_node [of "toLowerCase s" n] by (auto simp: getNode_def)
  have m: "mapGet (nodes g) k = Some m \<longleftrightarrow> k = toLowerCase t" for k
    using assms(2) key_of_node [of k m] key_of_node [of "toLowerCase t" m] by (auto simp: getNode_def)
  from assms(3,4) show ?thesis
    by (simp add: set_blockers [OF assms(2)] set_impact [OF assms(1)] n m)
qed

end

definition nodeListed :: "dependency_graph \<Rightarrow> string \<Rightarrow> dependency_node \<Rightarrow> bool" where
  "nodeListed g k n \<longleftrightarrow> k = nodeKey n \<and> dn_id n \<noteq> [] \<and>
     (if dn_status n = Open then k \<in> set (openIds g) else k \<in> set (completedIds g))"

lemma wfGraph_iff:
  "wfGraph g \<longleftrightarrow> distinct (mapKeys (nodes g)) \<and>
     (\<forall>k n. mapGet (nodes g) k = Some n \<longrightarrow> nodeListed g k n) \<and>
     (\<forall>k \<in> set (openIds g) \<union> set (completedIds g). mapGet (nodes g) k \<noteq> None)"
proof (cases "distinct (mapKeys (nodes g))")
  case True
  then have "(k, n) \<in> set (nodes g) \<longleftrightarrow> mapGet (nodes g) k = Some n" for k n
    by simp
  then show ?thesis
    by (auto simp: wfGraph_def nodeListed_def list_all_iff mapHas_iff)
qed (simp add: wfGraph_def)

lemma wfGraph_task_graph: "wfGraph g \<Longrightarrow> task_graph g"
  unfolding wfGraph_iff nodeListed_def
  by unfold_locales (auto split: if_splits)

lemma wfGraph_empty: "wfGraph emptyGraph"
  by (simp add: wfGraph_def emptyGraph_def)

lemma wfGraph_addTaskNode:
  assumes "wfGraph g" and "dn_id n \<noteq> []" and "dn_status n = Open"
  shows "wfGraph (addTaskNode n g)"
  using assms unfolding wfGraph_iff
  by (auto simp: addTaskNode_def Let_def map_simps nodeListed_def nodeKey_def
      simp del: distinct_update map_of_eq_Some_iff Some_eq_map_of_iff split: if_splits)

lemma wfGraph_addCompletedNode:
  assumes "wfGraph g" and "dn_id n \<noteq> []" and "dn_status n = Completed"
  shows "wfGraph (addCompletedNode n g)"
  using assms unfolding wfGraph_iff
  by (auto simp: addCompletedNode_def Let_def map_simps nodeListed_def nodeKey_def
      simp del: distinct_update map_of_eq_Some_iff Some_eq_map_of_iff split: if_splits dest: notin_set_remove1)

lemma wfGraph_fold_add:
  assumes "wfGraph g" and "\<forall>n \<in> set ts. dn_id n \<noteq> [] \<and> dn_status n = Open"
    and "\<forall>n \<in> set cs. dn_id n \<noteq> [] \<and> dn_status n = Completed"
  shows "wfGraph (fold addCompletedNode cs (fold addTaskNode ts g))"
proof -
  have "wfGraph (fold addTaskNode ts g)"
    using assms(1,2) by (induction ts arbitrary: g) (auto intro: wfGraph_addTaskNode)
  then show ?thesis
    using assms(3)
    by (induction cs arbitrary: g ts rule: rev_induct) (auto intro: wfGraph_addCompletedNode)
qed

text \<open>What the parser guarantees of a node.\<close>

lemma parseTaskFrontmatter_node:
  assumes "parseTaskFrontmatter y path f loc = Inr (Some n)"
  shows "dn_id n \<noteq> [] \<and> dn_status n = loc \<and> dn_fileLocation n = loc \<and> dn_filePath n = path"
  using assms
  by (auto simp: parseTaskFrontmatter_def split: sum.splits option.splits if_splits)

lemma readEntries_nodes:
  "n \<in> set (fst (readEntries y dir fs loc)) \<Longrightarrow> dn_id n \<noteq> [] \<and> dn_status n = loc"
  by (induction fs)
    (auto simp: Let_def split: prod.splits sum.splits option.splits if_splits
      dest: parseTaskFrontmatter_node)

lemma readDir_nodes:
  "n \<in> set (fst (readDir y dir l loc)) \<Longrightarrow> dn_id n \<noteq> [] \<and> dn_status n = loc"
  by (auto simp: readDir_def split: option.splits dest: readEntries_nodes)

lemma wfGraph_built: "wfGraph (builtGraph y w ts cs)"
  unfolding builtGraph_def buildDependencyGraph_def
  by (auto simp: split_beta Let_def intro!: wfGraph_fold_add wfGraph_empty dest: readDir_nodes)

interpretation built: task_graph "builtGraph y w ts cs" for y w ts cs
  by (rule wfGraph_task_graph [OF wfGraph_built])

subsection \<open>The frontier and the pre-flight check\<close>

definition entryOf :: "dependency_node \<Rightarrow> frontier_entry" where
  "entryOf n = \<lparr>fe_id = dn_id n, fe_title = dn_title n, fe_dependencies = dn_dependencies n\<rparr>"

lemma set_frontier:
  "set (frontier g) = entryOf ` {n. \<exists>k \<in> set (openIds g). mapGet (nodes g) k = Some n \<and>
     \<not> isInProgressStatus (dn_frontmatterStatus n) \<and> allDependenciesCompleted n g}"
proof -
  have "set (frontierLoop g is) = entryOf ` {n. \<exists>k \<in> set is. mapGet (nodes g) k = Some n \<and>
     \<not> isInProgressStatus (dn_frontmatterStatus n) \<and> allDependenciesCompleted n g}" for "is"
    by (induction "is") (auto simp: entryOf_def split: option.splits)
  then show ?thesis by (simp add: frontier_def)
qed

lemma allDependenciesCompleted_iff:
  "allDependenciesCompleted n g \<longleftrightarrow>
     (\<forall>d \<in> set (dn_dependencies n). \<exists>m. getNode g d = Some m \<and> dn_status m = Completed)"
  by (auto simp: allDependenciesCompleted_def list_all_iff split: option.splits)

lemma danglingOf_Nil_iff:
  "danglingOf g n = [] \<longleftrightarrow> (\<forall>d \<in> set (dn_dependencies n). getNode g d \<noteq> None)"
  by (auto simp: danglingOf_def getNode_def mapHas_iff filter_empty_conv)

lemma preflight_ok_iff:
  "pf_ok (preflight g t) \<longleftrightarrow> (\<exists>n. getNode g t = Some n \<and> dn_status n \<noteq> Completed \<and>
     danglingOf g n = [] \<and> blockers g t = [])"
  by (auto simp: preflight_def Let_def split: option.splits)

lemma preflight_ok_ready:
  assumes "pf_ok (preflight g t)"
  obtains n where "getNode g t = Some n" and "dn_status n = Open" and "allDependenciesCompleted n g"
proof -
  from assms obtain n where n: "getNode g t = Some n" "dn_status n \<noteq> Completed" "danglingOf g n = []"
    "blockers g t = []" by (auto simp: preflight_ok_iff)
  have open_n: "dn_status n = Open" using n(2) by (cases "dn_status n") auto
  have "\<exists>m. getNode g d = Some m \<and> dn_status m = Completed" if d: "d \<in> set (dn_dependencies n)" for d
  proof -
    from n(3) d obtain m where m: "getNode g d = Some m" by (auto simp: danglingOf_Nil_iff)
    have "(toLowerCase t, toLowerCase d) \<in> depEdges g"
      using n(1) d by (auto simp: depEdges_iff getNode_def)
    then have "dn_status m \<noteq> Open"
      using n(4) m set_blockers [OF n(1)] by (auto simp: getNode_def)
    then show ?thesis using m by (cases "dn_status m") auto
  qed
  with that n(1) open_n show thesis by (simp add: allDependenciesCompleted_iff)
qed

end
