(* ===== verification/DepValidate.thy ===== *)
theory DepValidate
  imports DepGraph
begin

text \<open>
  Graph validation and emission, the second half of
  \<open>pipeline-cli/src/deps/dependency-graph.ts\<close>: \<open>validate\<close> reports dangling references and
  dependency cycles found by an iterative depth-first search (\<open>dfsStep\<close> is one turn of its
  loop), \<open>renderGraph\<close> prints the graph as mermaid or DOT.
\<close>

subsection \<open>Cycle keys\<close>

fun bestStartFrom :: "string list \<Rightarrow> nat \<Rightarrow> nat \<Rightarrow> nat \<Rightarrow> nat" where
  "bestStartFrom op 0 i best = best"
| "bestStartFrom op (Suc todo) i best =
     bestStartFrom op todo (Suc i) (if op ! i < op ! best then i else best)"

definition canonicalCycleKey :: "string list \<Rightarrow> string" where
  "canonicalCycleKey path =
     (if length path < 2 then joinWith ''->'' path
      else let op = map toLowerCase (butlast path);
               best = bestStartFrom op (length op - 1) 1 0
           in joinWith ''->'' (drop best op @ take best op))"

subsection \<open>The depth-first search\<close>

text \<open>
  A frame is a key and the dependencies its iterator has still to yield; the top of the
  stack is the head of the list. \<open>path\<close> and \<open>onPath\<close> are per start node, the rest persists.
\<close>

record dfs_state =
  ds_stack :: "(string \<times> string list) list"
  ds_path :: "string list"
  ds_onPath :: "string list"
  ds_visited :: "string list"
  ds_seen :: "string list"
  ds_cycles :: "string list list"

definition depsIterator :: "dependency_graph \<Rightarrow> string \<Rightarrow> string list" where
  "depsIterator g key = (case mapGet (nodes g) key of None \<Rightarrow> [] | Some n \<Rightarrow> dn_dependencies n)"

definition idOfKey :: "dependency_graph \<Rightarrow> string \<Rightarrow> string" where
  "idOfKey g k = (case mapGet (nodes g) k of None \<Rightarrow> k | Some n \<Rightarrow> dn_id n)"

definition reportCycle :: "dependency_graph \<Rightarrow> string \<Rightarrow> dfs_state \<Rightarrow> dfs_state" where
  "reportCycle g child st =
     (let cyclePath = drop (indexOf child (ds_path st)) (ds_path st) @ [child];
          canon = canonicalCycleKey cyclePath
      in if canon \<in> set (ds_seen st) then st
         else st\<lparr>ds_seen := ds_seen st @ [canon],
                 ds_cycles := ds_cycles st @ [map (idOfKey g) cyclePath]\<rparr>)"

fun dfsStep :: "dependency_graph \<Rightarrow> dfs_state \<Rightarrow> dfs_state" where
  "dfsStep g st = (case ds_stack st of
     [] \<Rightarrow> st
   | (key, []) # rest \<Rightarrow>
       st\<lparr>ds_onPath := removeAll key (ds_onPath st), ds_path := butlast (ds_path st),
          ds_visited := setAdd key (ds_visited st), ds_stack := rest\<rparr>
   | (key, dep # deps) # rest \<Rightarrow>
       let child = toLowerCase dep; st' = st\<lparr>ds_stack := (key, deps) # rest\<rparr>
       in if \<not> mapHas (nodes g) child then st'
          else if child \<in> set (ds_onPath st) then reportCycle g child st'
          else if child \<in> set (ds_visited st) then st'
          else st'\<lparr>ds_onPath := setAdd child (ds_onPath st), ds_path := ds_path st @ [child],
                   ds_stack := (child, depsIterator g child) # (key, deps) # rest\<rparr>)"

function dfsLoop :: "dependency_graph \<Rightarrow> dfs_state \<Rightarrow> dfs_state" where
  "dfsLoop g st = (if ds_stack st = [] then st else dfsLoop g (dfsStep g st))"
  by pat_completeness auto

declare dfsStep.simps [simp del]

definition dfsUnseen :: "dependency_graph \<Rightarrow> dfs_state \<Rightarrow> nat" where
  "dfsUnseen g st = unvisited (nodes g) (ds_onPath st @ ds_visited st)"

definition dfsPending :: "dfs_state \<Rightarrow> nat" where
  "dfsPending st = sum_list (map (\<lambda>(k, ds). Suc (length ds)) (ds_stack st))"

lemma unvisited_mono: "set vs \<subseteq> set ws \<Longrightarrow> unvisited m ws \<le> unvisited m vs"
  by (induction m) (auto simp: unvisited_def)

lemma unvisited_add:
  assumes "mapHas m k" and "k \<notin> set vs" and "set ws = insert k (set vs)"
  shows "unvisited m ws < unvisited m vs"
proof -
  from assms(1) obtain v where "mapGet m k = Some v" by (auto simp: mapHas_iff)
  moreover have "unvisited m ws \<le> unvisited m (k # vs)" by (rule unvisited_mono) (simp add: assms)
  ultimately show ?thesis using unvisited_less [of m k v vs] assms(2) by simp
qed

lemma reportCycle_frame [simp]:
  "ds_stack (reportCycle g c st) = ds_stack st" "ds_path (reportCycle g c st) = ds_path st"
  "ds_onPath (reportCycle g c st) = ds_onPath st" "ds_visited (reportCycle g c st) = ds_visited st"
  by (simp_all add: reportCycle_def Let_def)

lemma dfsStep_decreases:
  assumes "ds_stack st \<noteq> []"
  shows "dfsUnseen g (dfsStep g st) < dfsUnseen g st \<or>
    (dfsUnseen g (dfsStep g st) \<le> dfsUnseen g st \<and> dfsPending (dfsStep g st) < dfsPending st)"
proof -
  obtain key ds rest where st: "ds_stack st = (key, ds) # rest"
    using assms by (cases "ds_stack st") auto
  show ?thesis
  proof (cases ds)
    case Nil
    have "dfsUnseen g (dfsStep g st) \<le> dfsUnseen g st"
      unfolding dfsUnseen_def by (rule unvisited_mono) (auto simp: st Nil dfsStep.simps)
    with st Nil show ?thesis by (simp add: dfsPending_def dfsStep.simps)
  next
    case (Cons dep deps)
    let ?c = "toLowerCase dep"
    show ?thesis
    proof (cases "mapHas (nodes g) ?c \<and> ?c \<notin> set (ds_onPath st) \<and> ?c \<notin> set (ds_visited st)")
      case True
      then have "dfsUnseen g (dfsStep g st) < dfsUnseen g st"
        unfolding dfsUnseen_def
        by (intro unvisited_add [where k = ?c]) (auto simp: st Cons Let_def dfsStep.simps)
      then show ?thesis ..
    next
      case False
      then show ?thesis
        by (auto simp: st Cons Let_def dfsStep.simps dfsUnseen_def dfsPending_def)
    qed
  qed
qed

termination dfsLoop
  by (relation "measures [\<lambda>(g, st). dfsUnseen g st, \<lambda>(g, st). dfsPending st]")
    (use dfsStep_decreases in fastforce)+

declare dfsLoop.simps [simp del]

definition startState :: "dependency_graph \<Rightarrow> string \<Rightarrow> dfs_state \<Rightarrow> dfs_state" where
  "startState g key st = st\<lparr>ds_stack := [(key, depsIterator g key)], ds_path := [key],
     ds_onPath := [key]\<rparr>"

fun dfsAll :: "dependency_graph \<Rightarrow> string list \<Rightarrow> dfs_state \<Rightarrow> dfs_state" where
  "dfsAll g [] st = st"
| "dfsAll g (key # keys) st =
     (if key \<in> set (ds_visited st) then dfsAll g keys st
      else dfsAll g keys (dfsLoop g (startState g key st)))"

definition initDfs :: dfs_state where
  "initDfs = \<lparr>ds_stack = [], ds_path = [], ds_onPath = [], ds_visited = [], ds_seen = [],
     ds_cycles = []\<rparr>"

record validate_report =
  vr_ok :: bool
  vr_cycles :: "string list list"
  vr_dangling :: "dangling_ref list"

definition validate :: "dependency_graph \<Rightarrow> validate_report" where
  "validate g =
     (let dangling = concat (map (danglingOf g) (mapValues (nodes g)));
          cycles = ds_cycles (dfsAll g (mapKeys (nodes g)) initDfs)
      in \<lparr>vr_ok = (cycles = [] \<and> dangling = []), vr_cycles = cycles, vr_dangling = dangling\<rparr>)"

subsection \<open>Emission\<close>

datatype graph_format = Mermaid | Dot

definition sortedNodes :: "dependency_graph \<Rightarrow> dependency_node list" where
  "sortedNodes g = sortById dn_id (mapValues (nodes g))"

definition isAlnum :: "char \<Rightarrow> bool" where
  "isAlnum c \<longleftrightarrow> isWordChar c \<and> c \<noteq> CHR ''_''"

definition mermaidId :: "string \<Rightarrow> string" where
  "mermaidId i = map (\<lambda>c. if isAlnum c then c else CHR ''_'') i"

definition escapeMermaidLabel :: "string \<Rightarrow> string" where
  "escapeMermaidLabel s = map (\<lambda>c. if c = CHR 34 then CHR 39 else if c = CHR 10 then CHR 32 else c) s"

definition escapeDotLabel :: "string \<Rightarrow> string" where
  "escapeDotLabel s = concat (map (\<lambda>c. if c = CHR 34 then [CHR 92, CHR 34]
     else if c = CHR 10 then [CHR 32] else [c]) s)"

definition targetId :: "dependency_graph \<Rightarrow> string \<Rightarrow> string" where
  "targetId g dep = (case getNode g dep of None \<Rightarrow> dep | Some n \<Rightarrow> dn_id n)"

definition quoted :: "string \<Rightarrow> string" where
  "quoted s = [CHR 34] @ s @ [CHR 34]"

definition mermaidNodeLine :: "dependency_node \<Rightarrow> string" where
  "mermaidNodeLine n =
     (let label = (if dn_title n \<noteq> [] then dn_id n @ ''<br/>'' @ escapeMermaidLabel (dn_title n)
                   else dn_id n)
      in ''  '' @ mermaidId (dn_id n) @ ''['' @ quoted label @ '']:::'' @
         (if dn_status n = Completed then ''done'' else ''open''))"

definition renderMermaid :: "dependency_graph \<Rightarrow> string" where
  "renderMermaid g = joinWith newline (
     [''flowchart TD''] @ map mermaidNodeLine (sortedNodes g) @
     concat (map (\<lambda>n. map (\<lambda>dep. ''  '' @ mermaidId (dn_id n) @ '' --> '' @ mermaidId (targetId g dep))
       (dn_dependencies n)) (sortedNodes g)) @
     [''  classDef open fill:#fffbe6,stroke:#d4a017,color:#3a2c00;'',
      ''  classDef done fill:#e6f4ea,stroke:#1e7c2e,color:#0c3a14;'']) @ newline"

definition dotNodeLine :: "dependency_node \<Rightarrow> string" where
  "dotNodeLine n =
     (let style = (if dn_status n = Completed
            then ''style=filled,fillcolor='' @ quoted ''#e6f4ea'' @ '',color='' @ quoted ''#1e7c2e''
            else ''style=filled,fillcolor='' @ quoted ''#fffbe6'' @ '',color='' @ quoted ''#d4a017'');
          label = (if dn_title n \<noteq> [] then dn_id n @ [CHR 92] @ ''n'' @ escapeDotLabel (dn_title n)
                   else dn_id n)
      in ''  '' @ quoted (dn_id n) @ '' [label='' @ quoted label @ '','' @ style @ ''];'')"

definition renderDot :: "dependency_graph \<Rightarrow> string" where
  "renderDot g = joinWith newline (
     [''digraph deps {'', ''  rankdir=LR;''] @ map dotNodeLine (sortedNodes g) @
     concat (map (\<lambda>n. map (\<lambda>dep. ''  '' @ quoted (dn_id n) @ '' -> '' @ quoted (targetId g dep) @ '';'')
       (dn_dependencies n)) (sortedNodes g)) @ [''}'']) @ newline"

definition renderGraph :: "dependency_graph \<Rightarrow> graph_format \<Rightarrow> string" where
  "renderGraph g format = (case format of Mermaid \<Rightarrow> renderMermaid g | Dot \<Rightarrow> renderDot g)"

end
