(* ===== verification/DepValidateCorrect.thy ===== *)
theory DepValidateCorrect
  imports DepGraphCorrect DepValidate
begin

text \<open>
  Correctness of the cycle search: every reported cycle is a closed path of dependency edges,
  and a graph with no reported cycle is acyclic. The loop invariant \<open>dfsInv\<close> says that the path
  is the stack read from the bottom, that its consecutive keys are edges, and that, while no
  cycle was found, the finished keys are in topological order.
\<close>

subsection \<open>The loop invariant\<close>

fun chainOk :: "dependency_graph \<Rightarrow> (string \<times> string list) list \<Rightarrow> bool" where
  "chainOk g [] \<longleftrightarrow> True"
| "chainOk g ((k, ds) # fs) \<longleftrightarrow> mapHas (nodes g) k \<and> suffix ds (depsIterator g k) \<and>
     (case fs of [] \<Rightarrow> True | (k', _) # _ \<Rightarrow> (k', k) \<in> depEdges g) \<and> chainOk g fs"

definition dfsShape :: "dependency_graph \<Rightarrow> dfs_state \<Rightarrow> bool" where
  "dfsShape g st \<longleftrightarrow> chainOk g (ds_stack st) \<and> ds_path st = rev (map fst (ds_stack st)) \<and>
     distinct (ds_path st) \<and> set (ds_onPath st) = set (ds_path st) \<and>
     (\<forall>k \<in> set (ds_path st). k \<notin> set (ds_visited st)) \<and> set (ds_visited st) \<subseteq> set (mapKeys (nodes g))"

definition isCycle :: "dependency_graph \<Rightarrow> string list \<Rightarrow> bool" where
  "isCycle g c \<longleftrightarrow> (\<exists>ks. c = map (idOfKey g) ks \<and> 2 \<le> length ks \<and> hd ks = last ks \<and>
     successively (\<lambda>a b. (a, b) \<in> depEdges g) ks)"

definition depKeys :: "dependency_graph \<Rightarrow> string list \<Rightarrow> string set" where
  "depKeys g ds = {k \<in> toLowerCase ` set ds. mapHas (nodes g) k}"

definition processed :: "dependency_graph \<Rightarrow> string \<Rightarrow> string list \<Rightarrow> string set" where
  "processed g k ds = depKeys g (take (length (depsIterator g k) - length ds) (depsIterator g k))"

fun pendingOk :: "dependency_graph \<Rightarrow> string set \<Rightarrow> (string \<times> string list) list \<Rightarrow> bool" where
  "pendingOk g fin [] \<longleftrightarrow> True"
| "pendingOk g fin ((k, ds) # fs) \<longleftrightarrow> processed g k ds \<subseteq> fin \<and> pendingOk g (insert k fin) fs"

definition topoOrder :: "dependency_graph \<Rightarrow> string list \<Rightarrow> bool" where
  "topoOrder g vs \<longleftrightarrow> (\<forall>i < length vs. depKeys g (depsIterator g (vs ! i)) \<subseteq> set (take i vs))"

definition dfsInv :: "dependency_graph \<Rightarrow> dfs_state \<Rightarrow> bool" where
  "dfsInv g st \<longleftrightarrow> dfsShape g st \<and> (\<forall>c \<in> set (ds_cycles st). isCycle g c) \<and>
     (ds_cycles st = [] \<longrightarrow> ds_seen st = [] \<and> topoOrder g (ds_visited st) \<and>
        pendingOk g (set (ds_visited st)) (ds_stack st))"

lemma depsIterator_edges:
  "(k, k') \<in> depEdges g \<longleftrightarrow> k' \<in> toLowerCase ` set (depsIterator g k)"
  by (cases "mapGet (nodes g) k") (simp_all add: depEdges_iff depsIterator_def)

lemma processed_start [simp]: "processed g k (depsIterator g k) = {}"
  by (simp add: processed_def depKeys_def)

lemma processed_finished [simp]: "processed g k [] = depKeys g (depsIterator g k)"
  by (simp add: processed_def)

lemma processed_next:
  assumes "suffix (d # ds) (depsIterator g k)"
  shows "processed g k ds = processed g k (d # ds) \<union> depKeys g [d]"
proof -
  obtain pre where "depsIterator g k = pre @ d # ds"
    using assms by (auto simp: suffix_def)
  then show ?thesis by (auto simp: processed_def depKeys_def Suc_diff_le)
qed

lemma pendingOk_mono: "pendingOk g X fs \<Longrightarrow> X \<subseteq> Y \<Longrightarrow> pendingOk g Y fs"
proof (induction fs arbitrary: X Y)
  case (Cons f fs)
  have "insert (fst f) X \<subseteq> insert (fst f) Y" using Cons.prems(2) by blast
  with Cons.prems Cons.IH [of "insert (fst f) X" "insert (fst f) Y"] show ?case
    by (cases f) auto
qed simp

lemma topoOrder_snoc:
  "topoOrder g (vs @ [v]) \<longleftrightarrow> topoOrder g vs \<and> depKeys g (depsIterator g v) \<subseteq> set vs"
  by (auto simp: topoOrder_def less_Suc_eq nth_append)

lemma chainOk_path:
  "chainOk g fs \<Longrightarrow> successively (\<lambda>a b. (a, b) \<in> depEdges g) (rev (map fst fs))"
proof (induction fs)
  case (Cons f fs)
  then show ?case
    by (cases f; cases fs) (auto simp: successively_append_iff split: prod.splits)
qed simp

lemma indexOf_split:
  "x \<in> set xs \<Longrightarrow> \<exists>pre post. xs = pre @ x # post \<and> indexOf x xs = length pre"
proof (induction xs)
  case (Cons y ys)
  show ?case
  proof (cases "x = y")
    case True
    then have "y # ys = [] @ x # ys \<and> indexOf x (y # ys) = length []" by simp
    then show ?thesis by blast
  next
    case False
    with Cons obtain pre post where ys: "ys = pre @ x # post" "indexOf x ys = length pre" by auto
    have "y # ys = (y # pre) @ x # post \<and> indexOf x (y # ys) = length (y # pre)"
      using False ys(2) by (simp add: ys(1))
    then show ?thesis by blast
  qed
qed simp

lemma drop_indexOf: "x \<in> set xs \<Longrightarrow> \<exists>pre ys. xs = pre @ drop (indexOf x xs) xs \<and> drop (indexOf x xs) xs = x # ys"
  using indexOf_split [of x xs] by fastforce

lemma closing_cycle:
  assumes "successively P (pre @ x # ys)" and "P (last (x # ys)) x"
  shows "successively P ((x # ys) @ [x])"
  using assms by (simp only: successively_append_iff) simp

subsection \<open>One turn of the loop\<close>

lemma inv_pop:
  assumes inv: "dfsInv g st" and stk: "ds_stack st = (k, []) # rest"
  shows "dfsInv g (dfsStep g st)"
proof -
  have sh: "dfsShape g st" using inv by (simp add: dfsInv_def)
  then have notin: "k \<notin> set (ds_visited st)" and kin: "mapHas (nodes g) k"
    using stk by (auto simp: dfsShape_def)
  have step: "dfsStep g st = st\<lparr>ds_onPath := removeAll k (ds_onPath st),
      ds_path := rev (map fst rest), ds_visited := ds_visited st @ [k], ds_stack := rest\<rparr>"
    using sh stk notin by (simp add: dfsStep.simps dfsShape_def setAdd_def)
  have "dfsShape g (dfsStep g st)"
    unfolding step using sh stk kin by (auto simp: dfsShape_def mapHas_def split: list.splits)
  then show ?thesis
    using inv stk unfolding dfsInv_def step
    by (auto simp: topoOrder_snoc)
qed

lemma inv_skip:
  assumes inv: "dfsInv g st" and stk: "ds_stack st = (k, d # ds) # rest"
    and seen: "mapHas (nodes g) (toLowerCase d) \<Longrightarrow> toLowerCase d \<in> set (ds_visited st)"
  shows "dfsInv g (st\<lparr>ds_stack := (k, ds) # rest\<rparr>)"
proof -
  have "suffix (d # ds) (depsIterator g k)" using inv stk by (auto simp: dfsInv_def dfsShape_def)
  from processed_next [OF this] suffix_ConsD [OF this] seen show ?thesis
    using inv stk unfolding dfsInv_def dfsShape_def
    by (auto simp: depKeys_def)
qed

lemma inv_report:
  assumes inv: "dfsInv g st" and stk: "ds_stack st = (k, d # ds) # rest"
    and on: "toLowerCase d \<in> set (ds_onPath st)"
  shows "dfsInv g (reportCycle g (toLowerCase d) (st\<lparr>ds_stack := (k, ds) # rest\<rparr>))"
proof -
  let ?c = "toLowerCase d"
  let ?cyc = "drop (indexOf ?c (ds_path st)) (ds_path st) @ [?c]"
  have sh: "dfsShape g st" using inv by (simp add: dfsInv_def)
  then have suf: "suffix (d # ds) (depsIterator g k)" and path: "ds_path st = rev (map fst rest) @ [k]"
    using stk by (auto simp: dfsShape_def)
  have edge: "(k, ?c) \<in> depEdges g"
    using suf by (auto simp: depsIterator_edges suffix_def)
  have "?c \<in> set (ds_path st)" using on sh by (simp add: dfsShape_def)
  from drop_indexOf [OF this] obtain pre ys where
    p: "ds_path st = pre @ ?c # ys" and ys: "drop (indexOf ?c (ds_path st)) (ds_path st) = ?c # ys"
    by metis
  have succ: "successively (\<lambda>a b. (a, b) \<in> depEdges g) (pre @ ?c # ys)"
    using chainOk_path [of g "ds_stack st"] sh p by (simp add: dfsShape_def)
  have "last (?c # ys) = k"
    using p path by (metis last_appendR last_snoc list.distinct(1))
  with edge closing_cycle [OF succ] have "successively (\<lambda>a b. (a, b) \<in> depEdges g) ?cyc"
    by (simp add: ys)
  then have cyc: "isCycle g (map (idOfKey g) ?cyc)"
    unfolding isCycle_def by (intro exI [of _ ?cyc]) (simp add: ys)
  have "dfsShape g (reportCycle g ?c (st\<lparr>ds_stack := (k, ds) # rest\<rparr>))"
    using sh stk suffix_ConsD [OF suf] by (auto simp: dfsShape_def)
  with cyc show ?thesis
    using inv by (auto simp: dfsInv_def reportCycle_def Let_def)
qed

lemma inv_push:
  assumes inv: "dfsInv g st" and stk: "ds_stack st = (k, d # ds) # rest"
    and new: "mapHas (nodes g) (toLowerCase d)" "toLowerCase d \<notin> set (ds_onPath st)"
      "toLowerCase d \<notin> set (ds_visited st)"
  shows "dfsInv g (dfsStep g st)"
proof -
  let ?c = "toLowerCase d"
  have sh: "dfsShape g st" using inv by (simp add: dfsInv_def)
  then have suf: "suffix (d # ds) (depsIterator g k)" using stk by (auto simp: dfsShape_def)
  then have edge: "(k, ?c) \<in> depEdges g"
    by (auto simp: depsIterator_edges suffix_def)
  have step: "dfsStep g st = st\<lparr>ds_onPath := setAdd ?c (ds_onPath st), ds_path := ds_path st @ [?c],
      ds_stack := (?c, depsIterator g ?c) # (k, ds) # rest\<rparr>"
    using stk new by (simp add: dfsStep.simps Let_def)
  have "dfsShape g (dfsStep g st)"
    unfolding step using sh stk new edge suffix_ConsD [OF suf] by (auto simp: dfsShape_def)
  moreover have "pendingOk g X ((k, d # ds) # rest) \<Longrightarrow>
      pendingOk g X ((?c, depsIterator g ?c) # (k, ds) # rest)" for X
  proof -
    assume "pendingOk g X ((k, d # ds) # rest)"
    then have a: "processed g k (d # ds) \<subseteq> X" and b: "pendingOk g (insert k X) rest"
      by simp_all
    have "processed g k ds \<subseteq> insert ?c X"
      using a by (auto simp: processed_next [OF suf] depKeys_def)
    moreover have "pendingOk g (insert k (insert ?c X)) rest"
      using b by (rule pendingOk_mono) auto
    ultimately show ?thesis by simp
  qed
  ultimately show ?thesis
    using inv stk unfolding dfsInv_def step by (simp)
qed

lemma dfsInv_step:
  assumes "dfsInv g st" and "ds_stack st \<noteq> []"
  shows "dfsInv g (dfsStep g st)"
proof -
  obtain k ds rest where stk: "ds_stack st = (k, ds) # rest"
    using assms(2) by (cases "ds_stack st") auto
  show ?thesis
  proof (cases ds)
    case Nil
    with assms(1) stk show ?thesis by (auto intro: inv_pop)
  next
    case (Cons d ds')
    note stk' = stk [unfolded Cons]
    consider "\<not> mapHas (nodes g) (toLowerCase d)"
      | "mapHas (nodes g) (toLowerCase d)" "toLowerCase d \<in> set (ds_onPath st)"
      | "mapHas (nodes g) (toLowerCase d)" "toLowerCase d \<notin> set (ds_onPath st)"
        "toLowerCase d \<in> set (ds_visited st)"
      | "mapHas (nodes g) (toLowerCase d)" "toLowerCase d \<notin> set (ds_onPath st)"
        "toLowerCase d \<notin> set (ds_visited st)"
      by blast
    then show ?thesis
    proof cases
      case 1
      then show ?thesis using inv_skip [OF assms(1) stk'] stk' by (simp add: dfsStep.simps)
    next
      case 2
      then show ?thesis using inv_report [OF assms(1) stk'] stk' by (simp add: dfsStep.simps Let_def)
    next
      case 3
      then show ?thesis using inv_skip [OF assms(1) stk'] stk' by (simp add: dfsStep.simps Let_def)
    next
      case 4
      then show ?thesis by (rule inv_push [OF assms(1) stk'])
    qed
  qed
qed

lemma dfsStep_grows:
  assumes "dfsShape g st"
  shows "set (ds_visited st) \<union> set (ds_path st) \<subseteq>
    set (ds_visited (dfsStep g st)) \<union> set (ds_path (dfsStep g st))"
proof (cases "ds_stack st")
  case (Cons f rest)
  with assms show ?thesis
    by (cases f; cases "snd f") (auto simp: dfsStep.simps dfsShape_def Let_def)
qed (simp add: dfsStep.simps)

lemma dfsLoop_inv:
  assumes "dfsInv g st"
  shows "dfsInv g (dfsLoop g st) \<and> ds_stack (dfsLoop g st) = [] \<and>
    set (ds_visited st) \<union> set (ds_path st) \<subseteq> set (ds_visited (dfsLoop g st))"
  using assms
proof (induction g st rule: dfsLoop.induct)
  case (1 g st)
  show ?case
  proof (cases "ds_stack st = []")
    case True
    with "1.prems" show ?thesis by (simp add: dfsLoop.simps [of g st] dfsInv_def dfsShape_def)
  next
    case False
    with "1" have "dfsInv g (dfsStep g st)" by (simp add: dfsInv_step)
    with "1.IH" [OF False this] False dfsStep_grows [of g st] "1.prems" show ?thesis
      by (auto simp: dfsLoop.simps [of g st] dfsInv_def)
  qed
qed

lemma startState_inv:
  assumes "dfsInv g st" and "ds_stack st = []" and "mapHas (nodes g) k" and "k \<notin> set (ds_visited st)"
  shows "dfsInv g (startState g k st)"
  using assms by (auto simp: dfsInv_def dfsShape_def startState_def)

lemma dfsAll_inv:
  assumes "dfsInv g st" and "ds_stack st = []" and "set ks \<subseteq> set (mapKeys (nodes g))"
  shows "dfsInv g (dfsAll g ks st) \<and> set ks \<union> set (ds_visited st) \<subseteq> set (ds_visited (dfsAll g ks st))"
  using assms
proof (induction ks arbitrary: st)
  case (Cons k ks)
  show ?case
  proof (cases "k \<in> set (ds_visited st)")
    case True
    with Cons show ?thesis by auto
  next
    case False
    have "mapHas (nodes g) k" using Cons.prems(3) by (simp add: mapHas_def)
    from dfsLoop_inv [OF startState_inv [OF Cons.prems(1,2) this False]]
    have "dfsInv g (dfsLoop g (startState g k st))" "ds_stack (dfsLoop g (startState g k st)) = []"
      "insert k (set (ds_visited st)) \<subseteq> set (ds_visited (dfsLoop g (startState g k st)))"
      by (auto simp: startState_def)
    with Cons.IH [of "dfsLoop g (startState g k st)"] Cons.prems(3) False show ?thesis by auto
  qed
qed simp

subsection \<open>The verdict\<close>

lemma topoOrder_acyclic:
  assumes topo: "topoOrder g vs" and cover: "set (mapKeys (nodes g)) \<subseteq> set vs"
  shows "acyclic (depEdges g)"
proof (rule acyclicI_order)
  let ?f = "\<lambda>k. if k \<in> set vs \<and> mapHas (nodes g) k then Suc (indexOf k vs) else 0"
  fix a b
  assume e: "(a, b) \<in> depEdges g"
  then have a: "mapHas (nodes g) a" by (auto simp: depEdges_iff mapHas_iff)
  then have "a \<in> set vs" using cover by (auto simp: mapHas_def)
  then obtain xs ys where vs: "vs = xs @ a # ys" and ia: "indexOf a vs = length xs"
    using indexOf_split by metis
  show "?f b < ?f a"
  proof (cases "mapHas (nodes g) b")
    case True
    have "depKeys g (depsIterator g a) \<subseteq> set xs"
      using topo [unfolded topoOrder_def, rule_format, of "length xs"] by (simp add: vs)
    with True e have "b \<in> set xs"
      by (auto simp: depKeys_def depsIterator_edges)
    then have "indexOf b vs < length xs"
      unfolding vs by (induction xs) auto
    with \<open>a \<in> set vs\<close> a ia show ?thesis by simp
  next
    case False
    with \<open>a \<in> set vs\<close> a show ?thesis by simp
  qed
qed

lemma isCycle_trancl:
  assumes "isCycle g c"
  obtains k where "(k, k) \<in> (depEdges g)\<^sup>+"
proof -
  from assms obtain ks where ks: "2 \<le> length ks" "hd ks = last ks"
    "successively (\<lambda>a b. (a, b) \<in> depEdges g) ks" by (auto simp: isCycle_def)
  have "(hd xs, last xs) \<in> (depEdges g)\<^sup>+"
    if "2 \<le> length xs" "successively (\<lambda>a b. (a, b) \<in> depEdges g) xs" for xs
    using that
  proof (induction xs rule: induct_list012)
    case (3 x y zs)
    then show ?case
      by (cases zs) (auto intro: trancl_into_trancl2)
  qed auto
  with ks that show thesis by metis
qed

lemma dfsInv_final: "dfsInv g (dfsAll g (mapKeys (nodes g)) initDfs) \<and>
    set (mapKeys (nodes g)) \<subseteq> set (ds_visited (dfsAll g (mapKeys (nodes g)) initDfs))"
proof -
  have "dfsInv g initDfs"
    by (simp add: dfsInv_def dfsShape_def initDfs_def topoOrder_def)
  from dfsAll_inv [OF this _ order_refl] show ?thesis by (simp add: initDfs_def)
qed

lemma validate_cycles_sound: "c \<in> set (vr_cycles (validate g)) \<Longrightarrow> isCycle g c"
  using dfsInv_final [of g] by (simp add: validate_def Let_def dfsInv_def)

lemma validate_cycles_complete: "vr_cycles (validate g) = [] \<longleftrightarrow> acyclic (depEdges g)"
proof
  assume "vr_cycles (validate g) = []"
  with dfsInv_final [of g] topoOrder_acyclic show "acyclic (depEdges g)"
    by (auto simp: validate_def Let_def dfsInv_def)
next
  assume acyc: "acyclic (depEdges g)"
  show "vr_cycles (validate g) = []"
  proof (rule ccontr)
    assume "vr_cycles (validate g) \<noteq> []"
    then obtain c where "c \<in> set (vr_cycles (validate g))" by (cases "vr_cycles (validate g)") auto
    from isCycle_trancl [OF validate_cycles_sound [OF this]] acyc show False
      by (auto simp: acyclic_def)
  qed
qed

lemma validate_dangling:
  "r \<in> set (vr_dangling (validate g)) \<longleftrightarrow> (\<exists>n \<in> set (mapValues (nodes g)).
     dr_source r = dn_id n \<and> dr_missing r \<in> set (dn_dependencies n) \<and> getNode g (dr_missing r) = None)"
  by (cases r) (auto simp: validate_def Let_def danglingOf_def getNode_def mapHas_iff)

subsection \<open>Cycle keys are invariant under rotation\<close>

lemma bestStartFrom_min:
  assumes "best < i" and "i + todo = length op" and "\<forall>j < i. op ! best \<le> op ! j"
  shows "bestStartFrom op todo i best < length op \<and>
    (\<forall>j < length op. op ! bestStartFrom op todo i best \<le> op ! j)"
  using assms
proof (induction op todo i best rule: bestStartFrom.induct)
  case (1 op i best)
  then show ?case by simp
next
  case (2 op todo i best)
  let ?b = "if op ! i < op ! best then i else best"
  have "\<forall>j < Suc i. op ! ?b \<le> op ! j"
    using "2.prems"(3) by (auto simp: less_Suc_eq intro: order.trans less_imp_le)
  with "2.IH" "2.prems" show ?case by simp
qed

definition rotateToMin :: "string list \<Rightarrow> string list" where
  "rotateToMin op = (let best = bestStartFrom op (length op - 1) 1 0 in drop best op @ take best op)"

lemma rotateToMin_at:
  assumes "\<forall>x \<in> set (xs @ ys). m < x"
  shows "rotateToMin (xs @ m # ys) = m # ys @ xs"
proof -
  let ?op = "xs @ m # ys"
  let ?b = "bestStartFrom ?op (length ?op - 1) 1 0"
  have b: "?b < length ?op" "?op ! ?b \<le> ?op ! length xs"
    using bestStartFrom_min [of 0 1 "length ?op - 1" ?op] by (auto simp del: nth_append_length)
  have "?b = length xs"
  proof (rule ccontr)
    assume ne: "?b \<noteq> length xs"
    have "?op ! ?b \<in> set (xs @ ys)"
    proof (cases "?b < length xs")
      case False
      with ne b(1) have "?op ! ?b = ys ! (?b - Suc (length xs))" "?b - Suc (length xs) < length ys"
        by (auto simp: nth_append nth_Cons')
      then show ?thesis by simp
    qed (simp add: nth_append)
    with assms have "m < ?op ! ?b" by blast
    with b(2) show False by simp
  qed
  then show ?thesis by (simp add: rotateToMin_def)
qed

lemma rotateToMin_rotate:
  assumes "distinct (as @ bs)"
  shows "rotateToMin (as @ bs) = rotateToMin (bs @ as)"
proof (cases "as @ bs = []")
  case False
  define m where "m = Min (set (as @ bs))"
  have m: "m \<in> set (as @ bs)" and least: "\<And>x. x \<in> set (as @ bs) \<Longrightarrow> x \<noteq> m \<Longrightarrow> m < x"
    unfolding m_def using False by (simp only: set_empty finite_set Min_in not_False_eq_True)
      (metis List.finite_set Min_le order.not_eq_order_implies_strict)
  from m consider "m \<in> set as" | "m \<in> set bs" by auto
  then show ?thesis
  proof cases
    case 1
    then obtain xs zs where as: "as = xs @ m # zs" by (auto dest: split_list)
    with assms least have rest: "\<forall>x \<in> set xs \<union> set zs \<union> set bs. m < x" by fastforce
    have "rotateToMin (xs @ m # zs @ bs) = m # (zs @ bs) @ xs"
      by (rule rotateToMin_at) (use rest in auto)
    moreover have "rotateToMin ((bs @ xs) @ m # zs) = m # zs @ bs @ xs"
      by (rule rotateToMin_at) (use rest in auto)
    ultimately show ?thesis by (simp add: as)
  next
    case 2
    then obtain xs zs where bs: "bs = xs @ m # zs" by (auto dest: split_list)
    with assms least have rest: "\<forall>x \<in> set xs \<union> set zs \<union> set as. m < x" by fastforce
    have "rotateToMin ((as @ xs) @ m # zs) = m # zs @ as @ xs"
      by (rule rotateToMin_at) (use rest in auto)
    moreover have "rotateToMin (xs @ m # zs @ as) = m # (zs @ as) @ xs"
      by (rule rotateToMin_at) (use rest in auto)
    ultimately show ?thesis by (simp add: bs)
  qed
qed simp

lemma canonicalCycleKey_closed:
  "op \<noteq> [] \<Longrightarrow> canonicalCycleKey (op @ [c]) = joinWith ''->'' (rotateToMin (map toLowerCase op))"
  by (cases op) (auto simp: canonicalCycleKey_def rotateToMin_def Let_def)

end
