(* ===== verification/DepProps.thy ===== *)
theory DepProps
  imports DepValidateCorrect
begin

text \<open>
  The properties of the dependency graph, with the sample backlogs their witnesses run on. A
  sample is a pair of directory listings read through \<open>flatYaml\<close>, a loader for the flat
  \<open>key: value\<close> and \<open>key: [a, b]\<close> documents the samples hold.
\<close>

subsection \<open>Samples\<close>

definition flatValue :: "string \<Rightarrow> yaml" where
  "flatValue v = (if startsWith v ''['' then YList (map YScalar (splitOn (CHR '','') (butlast (tl v))))
     else YScalar v)"

definition flatYaml :: yaml_loader where
  "flatYaml s = Inr (YMap (concat (map (\<lambda>l. case splitFirst '': '' l of
     None \<Rightarrow> [] | Some (k, v) \<Rightarrow> [(k, flatValue v)]) (splitOn (CHR 10) s))))"

definition sampleTask :: "string \<Rightarrow> string \<Rightarrow> string \<Rightarrow> task_file" where
  "sampleTask i status deps = \<lparr>tf_name = i @ ''.md'',
     tf_content = Inr (joinWith newline [''---'', ''id: '' @ i, ''status: '' @ status,
       ''dependencies: ['' @ deps @ '']'', ''---'', ''body'']),
     tf_mtime = None\<rparr>"

text \<open>A chain C, B, A of open tasks, A resting on the completed task D.\<close>

definition chainGraph :: dependency_graph where
  "chainGraph = builtGraph flatYaml ''.''
     (Some [sampleTask ''A'' ''To Do'' ''D'', sampleTask ''B'' ''To Do'' ''A'',
            sampleTask ''C'' ''To Do'' ''B''])
     (Some [sampleTask ''D'' ''Done'' ''''])"

text \<open>Two tasks that depend on each other, and a reference to a task that does not exist.\<close>

definition loopGraph :: dependency_graph where
  "loopGraph = builtGraph flatYaml ''.''
     (Some [sampleTask ''A'' ''To Do'' ''B'', sampleTask ''B'' ''To Do'' ''A'',
            sampleTask ''C'' ''To Do'' ''Z'']) None"

lemma known_node: "map_option f x = Some y \<Longrightarrow> x = Some (the x) \<and> f (the x) = y"
  by (cases x) auto

subsection \<open>Properties\<close>


text \<open>\<open>blockers\<close> returns exactly the open tasks in the transitive closure of the dependency
  relation from the target, each once, in the collation order of their ids.\<close>

theorem blockers_exact:
  assumes "getNode (builtGraph y w ts cs) t \<noteq> None"
  shows "set (blockers (builtGraph y w ts cs) t) =
      {n. dn_status n = Open \<and> (\<exists>k. (toLowerCase t, k) \<in> (depEdges (builtGraph y w ts cs))\<^sup>+ \<and>
        mapGet (nodes (builtGraph y w ts cs)) k = Some n)} \<and>
    distinct (blockers (builtGraph y w ts cs) t) \<and>
    sorted (map (\<lambda>n. collateKey (dn_id n)) (blockers (builtGraph y w ts cs) t))"
proof -
  obtain start where start: "getNode (builtGraph y w ts cs) t = Some start" using assms by blast
  have "sorted (map (\<lambda>n. collateKey (dn_id n)) (blockers (builtGraph y w ts cs) t))"
    by (simp add: blockers_def sorted_sortById split: option.splits)
  with set_blockers [OF start] built.distinct_queries(1) show ?thesis by blast
qed

theorem blockers_exact_witness:
  "{n. dn_status n = Open \<and> (\<exists>k. (toLowerCase ''C'', k) \<in> (depEdges chainGraph)\<^sup>+ \<and>
      mapGet (nodes chainGraph) k = Some n)} = set (blockers chainGraph ''C'') \<and>
   map dn_id (blockers chainGraph ''C'') = [''A'', ''B'']"
proof
  have "getNode chainGraph ''C'' \<noteq> None" by code_simp
  then show "{n. dn_status n = Open \<and> (\<exists>k. (toLowerCase ''C'', k) \<in> (depEdges chainGraph)\<^sup>+ \<and>
      mapGet (nodes chainGraph) k = Some n)} = set (blockers chainGraph ''C'')"
    unfolding chainGraph_def by (rule blockers_exact [THEN conjunct1, symmetric])
qed code_simp

text \<open>\<open>impact\<close> returns exactly the open tasks from which the target is reachable through one
  or more dependencies, although it walks a table of reversed edges built from the nodes' ids.\<close>

theorem impact_exact:
  assumes "getNode (builtGraph y w ts cs) t \<noteq> None"
  shows "set (impact (builtGraph y w ts cs) t) =
      {n. dn_status n = Open \<and> (\<exists>k. (k, toLowerCase t) \<in> (depEdges (builtGraph y w ts cs))\<^sup>+ \<and>
        mapGet (nodes (builtGraph y w ts cs)) k = Some n)} \<and>
    distinct (impact (builtGraph y w ts cs) t)"
  using assms built.set_impact built.distinct_queries(2) by blast

theorem impact_exact_witness:
  "{n. dn_status n = Open \<and> (\<exists>k. (k, toLowerCase ''A'') \<in> (depEdges chainGraph)\<^sup>+ \<and>
      mapGet (nodes chainGraph) k = Some n)} = set (impact chainGraph ''A'') \<and>
   map dn_id (impact chainGraph ''A'') = [''B'', ''C'']"
proof
  have "getNode chainGraph ''A'' \<noteq> None" by code_simp
  then show "{n. dn_status n = Open \<and> (\<exists>k. (k, toLowerCase ''A'') \<in> (depEdges chainGraph)\<^sup>+ \<and>
      mapGet (nodes chainGraph) k = Some n)} = set (impact chainGraph ''A'')"
    unfolding chainGraph_def by (rule impact_exact [THEN conjunct1, symmetric])
qed code_simp

text \<open>The two queries are dual: an open task is a blocker of another exactly when that other
  one is in its impact.\<close>

theorem blockers_impact_duality:
  assumes "getNode (builtGraph y w ts cs) s = Some n" and "getNode (builtGraph y w ts cs) t = Some m"
    and "dn_status n = Open" and "dn_status m = Open"
  shows "n \<in> set (blockers (builtGraph y w ts cs) t) \<longleftrightarrow> m \<in> set (impact (builtGraph y w ts cs) s)"
  using assms by (rule built.blockers_impact_dual)

theorem blockers_impact_duality_witness:
  "the (getNode chainGraph ''A'') \<in> set (blockers chainGraph ''C'') \<longleftrightarrow>
   the (getNode chainGraph ''C'') \<in> set (impact chainGraph ''A'')"
proof -
  have a: "map_option dn_status (getNode chainGraph ''A'') = Some Open" by code_simp
  have c: "map_option dn_status (getNode chainGraph ''C'') = Some Open" by code_simp
  note facts = known_node [OF a, THEN conjunct1] known_node [OF c, THEN conjunct1]
    known_node [OF a, THEN conjunct2] known_node [OF c, THEN conjunct2]
  show ?thesis
    using facts unfolding chainGraph_def by (rule blockers_impact_duality)
qed

text \<open>C2. The frontier is exactly the listed open tasks that are not in progress and whose every
  dependency names a completed task, in the collation order of their ids.\<close>

theorem frontier_exact:
  "set (frontier g) = entryOf ` {n. \<exists>k \<in> set (openIds g). mapGet (nodes g) k = Some n \<and>
     toLowerCase (trim (dn_frontmatterStatus n)) \<noteq> ''in progress'' \<and>
     (\<nexists>d. d \<in> set (dn_dependencies n) \<and> map_option dn_status (getNode g d) \<noteq> Some Completed)} \<and>
   sorted (map (\<lambda>e. collateKey (fe_id e)) (frontier g))"
proof
  have "(\<nexists>d. d \<in> set (dn_dependencies n) \<and> map_option dn_status (getNode g d) \<noteq> Some Completed) = allDependenciesCompleted n g" for n
    by (force simp: allDependenciesCompleted_iff)
  then show "set (frontier g) = entryOf ` {n. \<exists>k \<in> set (openIds g). mapGet (nodes g) k = Some n \<and>
     toLowerCase (trim (dn_frontmatterStatus n)) \<noteq> ''in progress'' \<and>
     (\<nexists>d. d \<in> set (dn_dependencies n) \<and> map_option dn_status (getNode g d) \<noteq> Some Completed)}"
    by (simp add: set_frontier isInProgressStatus_def)
qed (simp add: frontier_def sorted_sortById)

text \<open>A task the pre-flight check accepts is open and each of its dependencies, at any
  depth, is a completed task; so its direct dependencies pass the frontier's test.\<close>

theorem preflight_ok_means_ready:
  assumes "pf_ok (preflight g t)"
  shows "\<exists>n. getNode g t = Some n \<and> dn_status n = Open \<and> allDependenciesCompleted n g \<and>
    (\<nexists>k m. (toLowerCase t, k) \<in> (depEdges g)\<^sup>+ \<and> mapGet (nodes g) k = Some m \<and> dn_status m = Open)"
proof -
  obtain n where n: "getNode g t = Some n" "dn_status n = Open" "allDependenciesCompleted n g"
    using assms by (rule preflight_ok_ready)
  from assms have "set (blockers g t) = {}" by (auto simp: preflight_ok_iff)
  then have "\<nexists>k m. (toLowerCase t, k) \<in> (depEdges g)\<^sup>+ \<and> mapGet (nodes g) k = Some m \<and> dn_status m = Open"
    unfolding set_blockers [OF n(1)] by blast
  with n show ?thesis by (intro exI [of _ n] conjI)
qed

theorem preflight_ok_means_ready_witness:
  "\<exists>n. getNode chainGraph ''a'' = Some n \<and> dn_status n = Open \<and> allDependenciesCompleted n chainGraph \<and>
    (\<nexists>k m. (toLowerCase ''a'', k) \<in> (depEdges chainGraph)\<^sup>+ \<and> mapGet (nodes chainGraph) k = Some m \<and>
      dn_status m = Open)"
  by (rule preflight_ok_means_ready) code_simp

text \<open>C3. The validation passes exactly when the dependency relation is acyclic and every
  dependency of every node names a node.\<close>

theorem validate_ok_iff:
  "vr_ok (validate g) \<longleftrightarrow> acyclic (depEdges g) \<and>
     (\<nexists>n d. n \<in> set (mapValues (nodes g)) \<and> d \<in> set (dn_dependencies n) \<and> getNode g d = None)"
proof -
  have "vr_dangling (validate g) = [] \<longleftrightarrow>
     (\<nexists>n d. n \<in> set (mapValues (nodes g)) \<and> d \<in> set (dn_dependencies n) \<and> getNode g d = None)"
    by (simp add: validate_def Let_def danglingOf_Nil_iff) blast
  with validate_cycles_complete [of g] show ?thesis
    by (simp add: validate_def Let_def)
qed

text \<open>Every reported cycle is a real one: the ids of a closed walk along dependencies.\<close>

theorem reported_cycles_real:
  assumes "c \<in> set (vr_cycles (validate g))"
  shows "\<exists>ks. c = map (idOfKey g) ks \<and> 2 \<le> length ks \<and> hd ks = last ks \<and>
    successively (\<lambda>a b. (a, b) \<in> depEdges g) ks"
  using validate_cycles_sound [OF assms] by (simp add: isCycle_def)

theorem reported_cycles_real_witness:
  "\<exists>ks. [''A'', ''B'', ''A''] = map (idOfKey loopGraph) ks \<and> 2 \<le> length ks \<and> hd ks = last ks \<and>
    successively (\<lambda>a b. (a, b) \<in> depEdges loopGraph) ks"
  by (rule reported_cycles_real) code_simp

text \<open>The key under which a cycle is deduplicated does not depend on the node at which the
  search entered it: rotating the cycle, or changing the case of its ids, keeps the key.\<close>

theorem cycle_key_rotation:
  assumes "distinct (map toLowerCase (as @ bs))" and "as \<noteq> []" and "bs \<noteq> []"
  shows "canonicalCycleKey (as @ bs @ [hd as]) = canonicalCycleKey (bs @ as @ [hd bs])"
  using canonicalCycleKey_closed [of "as @ bs" "hd as"] canonicalCycleKey_closed [of "bs @ as" "hd bs"]
    rotateToMin_rotate [of "map toLowerCase as" "map toLowerCase bs"] assms by simp

theorem cycle_key_rotation_witness:
  "canonicalCycleKey ([''b''] @ [''C'', ''a''] @ [hd [''b'']]) =
   canonicalCycleKey ([''C'', ''a''] @ [''b''] @ [hd [''C'', ''a'']])"
  by (rule cycle_key_rotation) code_simp+

end
