(* ===== verification/Compare.thy ===== *)
theory Compare
  imports Prelude "HOL-Library.Multiset"
begin

text \<open>
  \<open>Array.prototype.sort\<close> with a comparator: the stable sort \<open>sortBy\<close>, the contract a comparator
  has to keep for its result to be ordered (locale \<open>js_comparator\<close>), and the comparators the
  dispatcher composes: numbers descending, \<open>localeCompare\<close> with and without numeric collation.
\<close>

subsection \<open>Sorting with a comparator\<close>

fun insertBy :: "('a \<Rightarrow> 'a \<Rightarrow> int) \<Rightarrow> 'a \<Rightarrow> 'a list \<Rightarrow> 'a list" where
  "insertBy cmp x [] = [x]"
| "insertBy cmp x (y # ys) = (if cmp x y \<le> 0 then x # y # ys else y # insertBy cmp x ys)"

definition sortBy :: "('a \<Rightarrow> 'a \<Rightarrow> int) \<Rightarrow> 'a list \<Rightarrow> 'a list" where
  "sortBy cmp xs = foldr (insertBy cmp) xs []"

lemma mset_insertBy [simp]: "mset (insertBy cmp x ys) = add_mset x (mset ys)"
  by (induction ys) auto

lemma mset_sortBy [simp]: "mset (sortBy cmp xs) = mset xs"
  by (induction xs) (auto simp: sortBy_def)

lemma set_insertBy [simp]: "set (insertBy cmp x ys) = insert x (set ys)"
  by (induction ys) auto

lemma set_sortBy [simp]: "set (sortBy cmp xs) = set xs"
  by (induction xs) (auto simp: sortBy_def)

lemma length_sortBy [simp]: "length (sortBy cmp xs) = length xs"
  by (metis mset_sortBy size_mset)

lemma sortBy_Nil_iff [simp]: "sortBy cmp xs = [] \<longleftrightarrow> xs = []"
  by (metis length_0_conv length_sortBy)

text \<open>The laws a comparator keeps on the elements \<open>ok\<close>.\<close>

locale js_comparator =
  fixes cmp :: "'a \<Rightarrow> 'a \<Rightarrow> int" and ok :: "'a \<Rightarrow> bool"
  assumes cmp_total: "ok x \<Longrightarrow> ok y \<Longrightarrow> cmp x y \<le> 0 \<or> cmp y x \<le> 0"
    and cmp_trans: "ok x \<Longrightarrow> ok y \<Longrightarrow> ok z \<Longrightarrow> cmp x y \<le> 0 \<Longrightarrow> cmp y z \<le> 0 \<Longrightarrow> cmp x z \<le> 0"
begin

lemma sorted_insertBy:
  assumes "sorted_wrt (\<lambda>a b. cmp a b \<le> 0) ys" and "ok x" and "\<forall>y \<in> set ys. ok y"
  shows "sorted_wrt (\<lambda>a b. cmp a b \<le> 0) (insertBy cmp x ys)"
  using assms
proof (induction ys)
  case (Cons y ys)
  show ?case
  proof (cases "cmp x y \<le> 0")
    case True
    with Cons.prems show ?thesis using cmp_trans [of x y] by auto
  next
    case False
    then have "cmp y x \<le> 0" using Cons.prems cmp_total [of x y] by auto
    with False Cons show ?thesis by auto
  qed
qed simp

lemma sorted_sortBy:
  "\<forall>x \<in> set xs. ok x \<Longrightarrow> sorted_wrt (\<lambda>a b. cmp a b \<le> 0) (sortBy cmp xs)"
proof (induction xs)
  case (Cons x xs)
  then have "sorted_wrt (\<lambda>a b. cmp a b \<le> 0) (sortBy cmp xs)" "\<forall>y \<in> set (sortBy cmp xs). ok y"
    by auto
  with Cons.prems show ?case
    using sorted_insertBy [of "sortBy cmp xs" x] by (simp add: sortBy_def)
qed (simp add: sortBy_def)

lemma head_least:
  assumes "\<forall>x \<in> set xs. ok x" and "sortBy cmp xs = y # ys" and "x \<in> set xs"
  shows "x = y \<or> cmp y x \<le> 0"
proof -
  have "sorted_wrt (\<lambda>a b. cmp a b \<le> 0) (y # ys)"
    using sorted_sortBy [OF assms(1)] assms(2) by simp
  moreover have "x \<in> set (y # ys)" using set_sortBy [of cmp xs] assms(2,3) by simp
  ultimately show ?thesis by auto
qed

end

subsection \<open>Collation without numeric ordering\<close>

definition plainChar :: "char \<Rightarrow> (nat \<times> nat) list" where
  "plainChar c = (if isDigit c then [(60, of_char c - 48)] else collateChar c)"

definition collatePlain :: "string \<Rightarrow> (nat \<times> nat) list \<times> nat list" where
  "collatePlain s = (concat (map plainChar s), collateTertiary s)"

definition cmpOf :: "'k::linorder \<Rightarrow> 'k \<Rightarrow> int" where
  "cmpOf a b = (if a < b then -1 else if a = b then 0 else 1)"

definition localeCompare :: "string \<Rightarrow> string \<Rightarrow> int" where
  "localeCompare a b = cmpOf (collatePlain a) (collatePlain b)"

definition localeCompareNumeric :: "string \<Rightarrow> string \<Rightarrow> int" where
  "localeCompareNumeric a b = cmpOf (collateKey a) (collateKey b)"

lemma cmpOf_le: "cmpOf a b \<le> 0 \<longleftrightarrow> a \<le> b"
  by (auto simp: cmpOf_def)

text \<open>Printable ASCII text, in particular a time stamp, is determined by its collation key.\<close>

definition printable :: "char \<Rightarrow> bool" where
  "printable c \<longleftrightarrow> (let n = (of_char c :: nat) in 32 \<le> n \<and> n < 127)"

definition printableText :: "string \<Rightarrow> bool" where
  "printableText s \<longleftrightarrow> list_all printable s"

definition charKey :: "char \<Rightarrow> (nat \<times> nat) list \<times> nat" where
  "charKey c = (plainChar c, if lowerChar c = c then 0 else 1)"

definition isPunct :: "char \<Rightarrow> bool" where
  "isPunct c \<longleftrightarrow> (let n = (of_char c :: nat) in
     (32 \<le> n \<and> n < 48) \<or> (58 \<le> n \<and> n < 65) \<or> (91 \<le> n \<and> n < 97) \<or> (123 \<le> n \<and> n < 127))"

lemma puncts_listed:
  "list_all (\<lambda>n. char_of n \<in> set punctuationOrder) ([32::nat..<48] @ [58..<65] @ [91..<97] @ [123..<127])"
  by code_simp

lemma isPunct_listed:
  assumes "isPunct c"
  shows "c \<in> set punctuationOrder"
proof -
  have "(of_char c :: nat) \<in> set ([32::nat..<48] @ [58..<65] @ [91..<97] @ [123..<127])"
    using assms unfolding isPunct_def Let_def set_append set_upt Un_iff atLeastLessThan_iff by blast
  then have "char_of (of_char c :: nat) \<in> set punctuationOrder"
    using puncts_listed by (metis list_all_iff)
  then show ?thesis by simp
qed

lemma indexOf_inj: "x \<in> set xs \<Longrightarrow> indexOf x xs = indexOf y xs \<Longrightarrow> x = y"
  by (induction xs) (auto split: if_splits)

lemma indexOf_le: "indexOf x xs \<le> length xs"
  by (induction xs) auto

lemma indexOf_punct: "indexOf c punctuationOrder \<le> 33"
  using indexOf_le [of c punctuationOrder] by (simp add: punctuationOrder_def)

text \<open>The key of a printable character in closed form.\<close>

lemma charKey_printable:
  assumes "printable c"
  shows "charKey c = (let n = of_char c in
    if isPunct c then ([(10 + indexOf c punctuationOrder, 0)], 0)
    else if isDigit c then ([(60, n - 48)], 0)
    else if n < 97 then ([(n, 0)], 1) else ([(n - 32, 0)], 0))"
proof -
  have low: "lowerChar c = c \<longleftrightarrow> \<not> (65 \<le> (of_char c :: nat) \<and> of_char c \<le> (90 :: nat))"
  proof (cases "65 \<le> (of_char c :: nat) \<and> of_char c \<le> (90 :: nat)")
    case True
    have "lowerChar c \<noteq> c"
    proof
      assume "lowerChar c = c"
      then have "(of_char (lowerChar c) :: nat) = of_char c" by simp
      with True show False by (simp add: lowerChar_def Let_def)
    qed
    with True show ?thesis by simp
  qed (auto simp: lowerChar_def Let_def)
  consider "isPunct c" | "isDigit c" | "65 \<le> (of_char c :: nat) \<and> of_char c \<le> (90 :: nat)"
    | "97 \<le> (of_char c :: nat) \<and> of_char c \<le> (122 :: nat)"
    using assms unfolding isPunct_def isDigit_def printable_def Let_def by linarith
  then show ?thesis
    unfolding charKey_def low plainChar_def collateChar_def isPunct_def isDigit_def isSpace_def Let_def
    by cases auto
qed

lemma of_char_eq_nat: "(of_char c :: nat) = of_char d \<longleftrightarrow> c = d"
  by simp

lemma charKey_inj:
  assumes "printable c" "printable d" "charKey c = charKey d"
  shows "c = d"
proof -
  have key: "isPunct c = isPunct d \<and> (if isPunct c then indexOf c punctuationOrder = indexOf d punctuationOrder
      else (of_char c :: nat) = of_char d)"
    using assms(3) charKey_printable [OF assms(1)] charKey_printable [OF assms(2)]
      indexOf_punct [of c] indexOf_punct [of d] assms(1,2)
    unfolding printable_def isDigit_def isPunct_def Let_def
    by (auto simp: not_less eq_diff_iff split: if_splits)
  then show ?thesis
    using isPunct_listed [of c] indexOf_inj [of c punctuationOrder d] by (auto split: if_splits)
qed

lemma plainChar_single:
  assumes "printable c"
  shows "length (plainChar c) = 1"
  using charKey_printable [OF assms] by (auto simp: charKey_def Let_def split: if_splits)

lemma collatePlain_inj:
  "printableText s \<Longrightarrow> printableText t \<Longrightarrow> collatePlain s = collatePlain t \<Longrightarrow> s = t"
proof (induction s arbitrary: t)
  case Nil
  then show ?case by (cases t) (auto simp: collatePlain_def collateTertiary_def)
next
  case (Cons c s)
  then obtain d u where t: "t = d # u"
    by (cases t) (auto simp: collatePlain_def collateTertiary_def)
  have "printable c" "printable d" using Cons.prems t by (auto simp: printableText_def)
  moreover from this plainChar_single have "length (plainChar c) = length (plainChar d)" by simp
  ultimately have "charKey c = charKey d" "collatePlain s = collatePlain u"
    using Cons.prems t by (auto simp: collatePlain_def collateTertiary_def charKey_def)
  with Cons charKey_inj \<open>printable c\<close> \<open>printable d\<close> t show ?case by (simp add: printableText_def)
qed

subsection \<open>The dispatch order\<close>

type_synonym dispatch_key = "nat \<times> nat \<times> string \<times> string"

text \<open>Effective priority, then critical path length, then recency, all descending, then the id.\<close>

fun compareKeys :: "dispatch_key \<Rightarrow> dispatch_key \<Rightarrow> int" where
  "compareKeys (ea, ca, la, ia) (eb, cb, lb, ib) =
     (if ea \<noteq> eb then int eb - int ea
      else if ca \<noteq> cb then int cb - int ca
      else if la \<noteq> lb then localeCompare lb la
      else localeCompareNumeric ia ib)"

definition keyOk :: "dispatch_key \<Rightarrow> bool" where
  "keyOk k = printableText (fst (snd (snd k)))"

interpretation dispatch: js_comparator compareKeys keyOk
proof
  fix x y z :: dispatch_key
  obtain ex cx lx ix ey cy ly iy ez cz lz iz
    where xyz: "x = (ex, cx, lx, ix)" "y = (ey, cy, ly, iy)" "z = (ez, cz, lz, iz)"
    by (metis surj_pair)
  note c = xyz keyOk_def localeCompare_def localeCompareNumeric_def cmpOf_le
  assume ok: "keyOk x" "keyOk y"
  show "compareKeys x y \<le> 0 \<or> compareKeys y x \<le> 0" by (auto simp: c)
  assume z: "keyOk z" and xy: "compareKeys x y \<le> 0" and yz: "compareKeys y z \<le> 0"
  have inj: "collatePlain lx = collatePlain ly \<longleftrightarrow> lx = ly" "collatePlain ly = collatePlain lz \<longleftrightarrow> ly = lz"
    "collatePlain lx = collatePlain lz \<longleftrightarrow> lx = lz"
    using ok z collatePlain_inj by (auto simp: c)
  from xy yz show "compareKeys x z \<le> 0"
    using inj by (auto simp: c split: if_splits)
qed

end
