(* ===== verification/EffPriority.thy ===== *)
theory EffPriority
  imports DepGraphCorrect Compare
begin

text \<open>
  Dispatch ranking: \<open>pipeline-cli/src/deps/effective-priority.ts\<close> (priority inheritance over the
  dependency graph), \<open>dispatch.ts\<close> (the frontier in dispatch order) and the snapshot rows of
  \<open>snapshot.ts\<close>. The memoised recursive searches of the sources, \<open>cplOf\<close>, \<open>effectiveOf\<close> and
  \<open>depthOf\<close>, have one shape, \<open>visit\<close>, and differ in what they return for a node on the stack
  (\<open>guard\<close>), where they start (\<open>base\<close>) and what a child contributes (\<open>contrib\<close>).
\<close>

subsection \<open>Priority buckets\<close>

datatype priority_bucket = Low | Medium | High | Critical

definition PRIORITY_WEIGHT :: "priority_bucket \<Rightarrow> nat" where
  "PRIORITY_WEIGHT b = (case b of Low \<Rightarrow> 1 | Medium \<Rightarrow> 2 | High \<Rightarrow> 3 | Critical \<Rightarrow> 4)"

instantiation priority_bucket :: linorder
begin

definition less_eq_priority_bucket :: "priority_bucket \<Rightarrow> priority_bucket \<Rightarrow> bool" where
  "a \<le> b \<longleftrightarrow> PRIORITY_WEIGHT a \<le> PRIORITY_WEIGHT b"

definition less_priority_bucket :: "priority_bucket \<Rightarrow> priority_bucket \<Rightarrow> bool" where
  "a < b \<longleftrightarrow> PRIORITY_WEIGHT a < PRIORITY_WEIGHT b"

instance
  by standard (auto simp: less_eq_priority_bucket_def less_priority_bucket_def PRIORITY_WEIGHT_def
      split: priority_bucket.splits)

end

definition isPriorityBucket :: "string \<Rightarrow> priority_bucket option" where
  "isPriorityBucket v =
     (if v = ''low'' then Some Low else if v = ''medium'' then Some Medium
      else if v = ''high'' then Some High else if v = ''critical'' then Some Critical else None)"

definition DEFAULT_PRIORITY_WEIGHT :: nat where
  "DEFAULT_PRIORITY_WEIGHT = PRIORITY_WEIGHT Medium"

definition readPriorityWeight :: "string option \<Rightarrow> nat" where
  "readPriorityWeight raw = (case raw of None \<Rightarrow> DEFAULT_PRIORITY_WEIGHT | Some r \<Rightarrow>
     let key = toLowerCase (trim r) in
     if key = [] then DEFAULT_PRIORITY_WEIGHT
     else case isPriorityBucket key of Some b \<Rightarrow> PRIORITY_WEIGHT b | None \<Rightarrow> DEFAULT_PRIORITY_WEIGHT)"

type_synonym resolver = "(dependency_node \<Rightarrow> string option) option"

definition priorityWeightFor :: "dependency_node \<Rightarrow> resolver \<Rightarrow> nat" where
  "priorityWeightFor node r =
     readPriorityWeight (case r of Some f \<Rightarrow> f node | None \<Rightarrow> Some (dn_priority node))"

subsection \<open>Memoised search\<close>

type_synonym cache = "(string, nat) jsmap"

record search =
  guard :: "string \<Rightarrow> nat"
  base :: "string \<Rightarrow> nat"
  contrib :: "nat \<Rightarrow> nat"
  children :: "string \<Rightarrow> string list"
  known :: "(string, dependency_node) jsmap"

function visit :: "search \<Rightarrow> string \<Rightarrow> string list \<Rightarrow> cache \<Rightarrow> nat \<times> cache"
  and visitChildren :: "search \<Rightarrow> string list \<Rightarrow> string list \<Rightarrow> nat \<Rightarrow> cache \<Rightarrow> nat \<times> cache" where
  "visit s key onStack cache = (case mapGet cache key of
     Some v \<Rightarrow> (v, cache)
   | None \<Rightarrow>
       if key \<in> set onStack then (guard s key, cache)
       else let (best, cache') = visitChildren s (children s key) (key # onStack) (base s key) cache
            in (best, mapSet key best cache'))"
| "visitChildren s [] onStack best cache = (best, cache)"
| "visitChildren s (c # cs) onStack best cache =
     (let childKey = toLowerCase c in
      if \<not> mapHas (known s) childKey then visitChildren s cs onStack best cache
      else let (v, cache') = visit s childKey onStack cache;
               candidate = contrib s v
           in visitChildren s cs onStack (if best < candidate then candidate else best) cache')"
  by pat_completeness auto

definition searchRank :: "search \<Rightarrow> string list \<Rightarrow> nat" where
  "searchRank s onStack = 3 * unvisited (known s) onStack"

lemma searchRank_push:
  "mapHas (known s) key \<Longrightarrow> key \<notin> set onStack \<Longrightarrow> searchRank s (key # onStack) + 3 \<le> searchRank s onStack"
  using unvisited_less [of "known s" key _ onStack] by (force simp: searchRank_def mapHas_iff)

lemma searchRank_unknown:
  "\<not> mapHas (known s) key \<Longrightarrow> searchRank s (key # onStack) = searchRank s onStack"
  by (simp add: searchRank_def mapHas_iff unvisited_same)

termination visit
proof (relation "measures
    [\<lambda>x. case x of
        Inl (s, key, onStack, cache) \<Rightarrow> searchRank s onStack + (if mapHas (known s) key then 0 else 2)
      | Inr (s, cs, onStack, best, cache) \<Rightarrow> searchRank s onStack + 1,
     \<lambda>x. case x of Inl _ \<Rightarrow> 0 | Inr (s, cs, onStack, best, cache) \<Rightarrow> length cs]", goal_cases)
  case 1
  show ?case by simp
next
  case (2 s key onStack cache)
  then show ?case
    using searchRank_push [of s key onStack] searchRank_unknown [of s key onStack]
    by (cases "mapHas (known s) key") auto
qed auto

declare visit.simps [simp del] visitChildren.simps [simp del]

subsection \<open>Effective priorities\<close>

record effective_priority_record =
  ep_id :: string
  ep_basePriority :: nat
  ep_effectivePriority :: nat
  ep_criticalPathLength :: nat
  ep_lastModified :: string

definition addReverseKey :: "dependency_node \<Rightarrow> (string, string list) jsmap \<Rightarrow> (string, string list) jsmap"
  where "addReverseKey node rm = fold (\<lambda>dep r. let key = toLowerCase dep in
     mapSet key (orElse (mapGet r key) [] @ [toLowerCase (dn_id node)]) r) (dn_dependencies node) rm"

definition reverseKeys :: "dependency_graph \<Rightarrow> (string, string list) jsmap" where
  "reverseKeys g = fold addReverseKey (mapValues (nodes g)) []"

definition basePriorities :: "dependency_graph \<Rightarrow> resolver \<Rightarrow> (string, nat) jsmap" where
  "basePriorities g r = fold (\<lambda>(key, node). mapSet key (priorityWeightFor node r)) (nodes g) []"

definition baseOf :: "dependency_graph \<Rightarrow> resolver \<Rightarrow> string \<Rightarrow> nat" where
  "baseOf g r key = orElse (mapGet (basePriorities g r) key) DEFAULT_PRIORITY_WEIGHT"

definition cplOf :: "dependency_graph \<Rightarrow> search" where
  "cplOf g = (let reverse = reverseKeys g in
     \<lparr>guard = \<lambda>_. 0, base = \<lambda>_. 0, contrib = \<lambda>v. 1 + v,
      children = \<lambda>key. orElse (mapGet reverse key) [], known = nodes g\<rparr>)"

definition effectiveOf :: "dependency_graph \<Rightarrow> resolver \<Rightarrow> search" where
  "effectiveOf g r = (let reverse = reverseKeys g in
     \<lparr>guard = baseOf g r, base = baseOf g r, contrib = \<lambda>v. v,
      children = \<lambda>key. orElse (mapGet reverse key) [], known = nodes g\<rparr>)"

fun effectiveLoop :: "dependency_graph \<Rightarrow> resolver \<Rightarrow> (string \<times> dependency_node) list \<Rightarrow>
    cache \<Rightarrow> cache \<Rightarrow> (string, effective_priority_record) jsmap \<Rightarrow> (string, effective_priority_record) jsmap"
  where
  "effectiveLoop g r [] effCache cplCache out = out"
| "effectiveLoop g r ((key, node) # es) effCache cplCache out =
     (let (eff, effCache') = visit (effectiveOf g r) key [] effCache;
          (cpl, cplCache') = visit (cplOf g) key [] cplCache
      in effectiveLoop g r es effCache' cplCache'
           (mapSet key \<lparr>ep_id = dn_id node, ep_basePriority = baseOf g r key,
              ep_effectivePriority = eff, ep_criticalPathLength = cpl,
              ep_lastModified = dn_lastModified node\<rparr> out))"

definition computeEffectivePriorities ::
  "dependency_graph \<Rightarrow> resolver \<Rightarrow> (string, effective_priority_record) jsmap" where
  "computeEffectivePriorities g r = effectiveLoop g r (nodes g) [] [] []"

subsection \<open>Dispatch order\<close>

record ranked_frontier_entry = frontier_entry +
  rk_basePriority :: nat
  rk_effectivePriority :: nat
  rk_criticalPathLength :: nat
  rk_lastModified :: string

text \<open>\<open>isCompositionEnabled\<close> on the value of \<open>AI_SDLC_DEPS_COMPOSITION\<close>.\<close>

definition isCompositionEnabled :: "string option \<Rightarrow> bool" where
  "isCompositionEnabled env = (let raw = toLowerCase (trim (orElse env [])) in
     \<not> raw \<in> set [''off'', ''0'', ''false'', ''no''])"

record sort_opts =
  so_forceComposition :: bool
  so_forceBaseline :: bool
  so_priorityResolver :: resolver

definition compositionMode :: "sort_opts \<Rightarrow> string option \<Rightarrow> bool" where
  "compositionMode opts env =
     (if so_forceComposition opts then True
      else if so_forceBaseline opts then False
      else isCompositionEnabled env)"

definition rankKey :: "ranked_frontier_entry \<Rightarrow> dispatch_key" where
  "rankKey e = (rk_effectivePriority e, rk_criticalPathLength e, rk_lastModified e, fe_id e)"

definition compareForDispatch :: "ranked_frontier_entry \<Rightarrow> ranked_frontier_entry \<Rightarrow> int" where
  "compareForDispatch a b = compareKeys (rankKey a) (rankKey b)"

definition rankEntry :: "(string, effective_priority_record) jsmap \<Rightarrow> frontier_entry \<Rightarrow> ranked_frontier_entry"
  where "rankEntry records entry =
     (let r = mapGet records (toLowerCase (fe_id entry)); get = (\<lambda>f. case r of None \<Rightarrow> 0 | Some x \<Rightarrow> f x) in
      \<lparr>fe_id = fe_id entry, fe_title = fe_title entry, fe_dependencies = fe_dependencies entry,
       rk_basePriority = get ep_basePriority, rk_effectivePriority = get ep_effectivePriority,
       rk_criticalPathLength = get ep_criticalPathLength,
       rk_lastModified = (case r of None \<Rightarrow> [] | Some x \<Rightarrow> ep_lastModified x)\<rparr>)"

definition sortFrontierByEffectivePriority ::
  "dependency_graph \<Rightarrow> frontier_entry list \<Rightarrow> sort_opts \<Rightarrow> string option \<Rightarrow> ranked_frontier_entry list"
  where "sortFrontierByEffectivePriority g fs opts env =
     (let records = computeEffectivePriorities g (so_priorityResolver opts);
          ranked = map (rankEntry records) fs
      in if \<not> compositionMode opts env then ranked else sortBy compareForDispatch ranked)"

definition recordKey :: "effective_priority_record \<Rightarrow> dispatch_key" where
  "recordKey r = (ep_effectivePriority r, ep_criticalPathLength r, ep_lastModified r, ep_id r)"

definition rankAllByEffectivePriority ::
  "dependency_graph \<Rightarrow> sort_opts \<Rightarrow> string option \<Rightarrow> effective_priority_record list" where
  "rankAllByEffectivePriority g opts env =
     (let records = mapValues (computeEffectivePriorities g (so_priorityResolver opts))
      in if \<not> compositionMode opts env then sortById ep_id records
         else sortBy (\<lambda>a b. compareKeys (recordKey a) (recordKey b)) records)"

subsection \<open>Snapshot rows\<close>

record snapshot_record =
  sr_id :: string
  sr_dependencies :: "string list"
  sr_dependents :: "string list"
  sr_depth :: nat
  sr_criticalPathLength :: nat
  sr_effectivePriority :: nat
  sr_externalDependencies :: "external_dependency list"
  sr_lastModified :: string

definition depthOf :: "dependency_graph \<Rightarrow> search" where
  "depthOf g = \<lparr>guard = \<lambda>_. 0, base = \<lambda>_. 0, contrib = \<lambda>v. 1 + v,
     children = \<lambda>key. (case mapGet (nodes g) key of None \<Rightarrow> [] | Some n \<Rightarrow> dn_dependencies n),
     known = nodes g\<rparr>"

definition snapshotCplOf :: "dependency_graph \<Rightarrow> search" where
  "snapshotCplOf g = (let reverse = reverseEdges g in
     \<lparr>guard = \<lambda>_. 0, base = \<lambda>_. 0, contrib = \<lambda>v. 1 + v,
      children = \<lambda>key. orElse (mapGet reverse key) [], known = nodes g\<rparr>)"

fun snapshotLoop :: "dependency_graph \<Rightarrow> (string, effective_priority_record) jsmap \<Rightarrow> string list \<Rightarrow> cache \<Rightarrow> cache \<Rightarrow> snapshot_record list" where
  "snapshotLoop g effPri [] depthCache cplCache = []"
| "snapshotLoop g effPri (key # ks) depthCache cplCache = (case mapGet (nodes g) key of
     None \<Rightarrow> snapshotLoop g effPri ks depthCache cplCache
   | Some node \<Rightarrow>
       let (d, depthCache') = visit (depthOf g) key [] depthCache;
           (c, cplCache') = visit (snapshotCplOf g) key [] cplCache
       in \<lparr>sr_id = dn_id node, sr_dependencies = dn_dependencies node,
            sr_dependents = sortById (\<lambda>i. i) (orElse (mapGet (reverseEdges g) key) []),
            sr_depth = d, sr_criticalPathLength = c,
            sr_effectivePriority = (case mapGet effPri key of None \<Rightarrow> 2 | Some e \<Rightarrow> ep_effectivePriority e),
            sr_externalDependencies = dn_externalDependencies node,
            sr_lastModified = dn_lastModified node\<rparr> # snapshotLoop g effPri ks depthCache' cplCache')"

definition computeSnapshotRecords :: "dependency_graph \<Rightarrow> snapshot_record list" where
  "computeSnapshotRecords g = snapshotLoop g (computeEffectivePriorities g None) (sortById (\<lambda>k. k) (mapKeys (nodes g))) [] []"

end
