(* ===== verification/Json.thy ===== *)
theory Json
  imports Prelude
begin

text \<open>
  \<open>JSON.stringify\<close> (compact) and \<open>JSON.parse\<close>, which every JSONL log of the program goes
  through. Integers are \<open>JNum\<close>; a number with a fraction or an exponent keeps its text
  (\<open>JFloat\<close>). Objects are association lists in insertion order, a repeated key overwriting
  in place. The parser descends on a fuel bounded by the length of the text.
\<close>

datatype json = JNull | JBool bool | JNum int | JFloat string | JStr string
  | JArr "json list" | JObj "(string \<times> json) list"

subsection \<open>Printing\<close>

definition hexDigit :: "nat \<Rightarrow> char" where
  "hexDigit n = (if n < 10 then char_of (48 + n) else char_of (87 + n))"

definition escapeChar :: "char \<Rightarrow> string" where
  "escapeChar c = (let n = of_char c :: nat in
     if n = 34 then [CHR 92, CHR 34]
     else if n = 92 then [CHR 92, CHR 92]
     else if n = 8 then [CHR 92, CHR ''b'']
     else if n = 12 then [CHR 92, CHR ''f'']
     else if n = 10 then [CHR 92, CHR ''n'']
     else if n = 13 then [CHR 92, CHR ''r'']
     else if n = 9 then [CHR 92, CHR ''t'']
     else if n < 32 then [CHR 92, CHR ''u'', CHR ''0'', CHR ''0'', hexDigit (n div 16), hexDigit (n mod 16)]
     else [c])"

definition stringifyString :: "string \<Rightarrow> string" where
  "stringifyString s = [CHR 34] @ concat (map escapeChar s) @ [CHR 34]"

fun stringify :: "json \<Rightarrow> string" where
  "stringify JNull = ''null''"
| "stringify (JBool b) = (if b then ''true'' else ''false'')"
| "stringify (JNum i) = showInt i"
| "stringify (JFloat t) = t"
| "stringify (JStr s) = stringifyString s"
| "stringify (JArr js) = ''['' @ joinWith '','' (map stringify js) @ '']''"
| "stringify (JObj m) = ''{'' @ joinWith '','' (map (\<lambda>(k, j). stringifyString k @ '':'' @ stringify j) m) @ ''}''"

subsection \<open>Parsing strings\<close>

definition hexVal :: "char \<Rightarrow> nat option" where
  "hexVal c = (let n = of_char c :: nat in
     if 48 \<le> n \<and> n \<le> 57 then Some (n - 48)
     else if 97 \<le> n \<and> n \<le> 102 then Some (n - 87)
     else if 65 \<le> n \<and> n \<le> 70 then Some (n - 55) else None)"

fun hex4 :: "string \<Rightarrow> (nat \<times> string) option" where
  "hex4 (a # b # c # d # s) = (case (hexVal a, hexVal b, hexVal c, hexVal d) of
     (Some i, Some j, Some k, Some l) \<Rightarrow> Some (4096 * i + 256 * j + 16 * k + l, s)
   | _ \<Rightarrow> None)"
| "hex4 s = None"

definition utf8 :: "nat \<Rightarrow> string" where
  "utf8 n = (if n < 128 then [char_of n]
     else if n < 2048 then [char_of (192 + n div 64), char_of (128 + n mod 64)]
     else if n < 65536 then
       [char_of (224 + n div 4096), char_of (128 + n div 64 mod 64), char_of (128 + n mod 64)]
     else [char_of (240 + n div 262144), char_of (128 + n div 4096 mod 64),
           char_of (128 + n div 64 mod 64), char_of (128 + n mod 64)])"

text \<open>A code unit, and with it the low half of a surrogate pair when one follows.\<close>

definition parseUnicode :: "string \<Rightarrow> (string \<times> string) option" where
  "parseUnicode s = (case hex4 s of None \<Rightarrow> None | Some (n, rest) \<Rightarrow>
     if 55296 \<le> n \<and> n < 56320 \<and> take 2 rest = [CHR 92, CHR ''u'']
     then (case hex4 (drop 2 rest) of
         None \<Rightarrow> None
       | Some (m, rest') \<Rightarrow>
           if 56320 \<le> m \<and> m < 57344
           then Some (utf8 (65536 + 1024 * (n - 55296) + (m - 56320)), rest')
           else Some (utf8 n, rest))
     else Some (utf8 n, rest))"

definition simpleEscape :: "char \<Rightarrow> char option" where
  "simpleEscape c =
     (if c = CHR 34 then Some (CHR 34) else if c = CHR 92 then Some (CHR 92)
      else if c = CHR ''/'' then Some (CHR ''/'')
      else if c = CHR ''b'' then Some (CHR 8) else if c = CHR ''f'' then Some (CHR 12)
      else if c = CHR ''n'' then Some (CHR 10) else if c = CHR ''r'' then Some (CHR 13)
      else if c = CHR ''t'' then Some (CHR 9) else None)"

text \<open>The characters after the opening quote, on a fuel.\<close>

fun parseChars :: "nat \<Rightarrow> string \<Rightarrow> (string \<times> string) option" where
  "parseChars 0 s = None"
| "parseChars (Suc f) [] = None"
| "parseChars (Suc f) (c # s) =
     (if c = CHR 34 then Some ([], s)
      else if c = CHR 92 then (case s of
          [] \<Rightarrow> None
        | e # t \<Rightarrow>
            (case (if e = CHR ''u'' then parseUnicode t else map_option (\<lambda>d. ([d], t)) (simpleEscape e)) of
               None \<Rightarrow> None
             | Some (txt, rest) \<Rightarrow> map_option (\<lambda>(a, b). (txt @ a, b)) (parseChars f rest)))
      else if (of_char c :: nat) < 32 then None
      else map_option (\<lambda>(a, b). (c # a, b)) (parseChars f s))"

subsection \<open>Parsing values\<close>

definition jsonSpace :: "char \<Rightarrow> bool" where
  "jsonSpace c \<longleftrightarrow> c = CHR 32 \<or> c = CHR 9 \<or> c = CHR 10 \<or> c = CHR 13"

definition skip :: "string \<Rightarrow> string" where
  "skip s = dropWhile jsonSpace s"

definition digits :: "string \<Rightarrow> string" where
  "digits s = takeWhile isDigit s"

text \<open>The fraction and the exponent of a number: the text and what follows.\<close>

definition parseFraction :: "string \<Rightarrow> (string \<times> string) option" where
  "parseFraction s = (case s of
     c # t \<Rightarrow> if c = CHR ''.'' then
         (if digits t = [] then None else Some (c # digits t, dropWhile isDigit t))
       else Some ([], s)
   | [] \<Rightarrow> Some ([], s))"

definition parseExponent :: "string \<Rightarrow> (string \<times> string) option" where
  "parseExponent s = (case s of
     c # t \<Rightarrow> if c = CHR ''e'' \<or> c = CHR ''E'' then
         (let (sg, u) = (case t of d # v \<Rightarrow> if d = CHR ''+'' \<or> d = CHR ''-'' then ([d], v) else ([], t)
            | [] \<Rightarrow> ([], t))
          in if digits u = [] then None else Some (c # sg @ digits u, dropWhile isDigit u))
       else Some ([], s)
   | [] \<Rightarrow> Some ([], s))"

definition parseNumber :: "string \<Rightarrow> (json \<times> string) option" where
  "parseNumber s =
     (let (neg, t) = (case s of c # u \<Rightarrow> if c = CHR ''-'' then (True, u) else (False, s) | [] \<Rightarrow> (False, s));
          ds = digits t; rest = dropWhile isDigit t
      in if ds = [] \<or> (1 < length ds \<and> hd ds = CHR ''0'') then None
         else case parseFraction rest of None \<Rightarrow> None | Some (frac, rest1) \<Rightarrow>
           case parseExponent rest1 of None \<Rightarrow> None | Some (ex, rest2) \<Rightarrow>
             Some (if frac = [] \<and> ex = []
               then JNum (if neg then - int (natOfDigits 0 ds) else int (natOfDigits 0 ds))
               else JFloat ((if neg then ''-'' else []) @ ds @ frac @ ex), rest2))"

definition literal :: "string \<Rightarrow> json \<Rightarrow> string \<Rightarrow> (json \<times> string) option" where
  "literal w v s = (if startsWith s w then Some (v, drop (length w) s) else None)"

text \<open>
  Values, the elements after \<open>[\<close> and the members after \<open>{\<close>. \<open>parseElems\<close> and
  \<open>parseMembers\<close> read one item and then a comma or the closing bracket.
\<close>

fun parseValue :: "nat \<Rightarrow> string \<Rightarrow> (json \<times> string) option"
  and parseElems :: "nat \<Rightarrow> string \<Rightarrow> (json list \<times> string) option"
  and parseMembers :: "nat \<Rightarrow> string \<Rightarrow> ((string \<times> json) list \<times> string) option" where
  "parseValue 0 s = None"
| "parseValue (Suc f) s = (case skip s of
     [] \<Rightarrow> None
   | c # t \<Rightarrow>
       if c = CHR 34 then map_option (\<lambda>(x, r). (JStr x, r)) (parseChars (Suc (length t)) t)
       else if c = CHR ''['' then
         (case skip t of
            d # u \<Rightarrow> if d = CHR '']'' then Some (JArr [], u)
              else map_option (\<lambda>(xs, r). (JArr xs, r)) (parseElems f t)
          | [] \<Rightarrow> None)
       else if c = CHR ''{'' then
         (case skip t of
            d # u \<Rightarrow> if d = CHR ''}'' then Some (JObj [], u)
              else map_option (\<lambda>(m, r). (JObj (fold (\<lambda>(k, v). mapSet k v) m []), r)) (parseMembers f t)
          | [] \<Rightarrow> None)
       else if c = CHR ''n'' then literal ''null'' JNull (c # t)
       else if c = CHR ''t'' then literal ''true'' (JBool True) (c # t)
       else if c = CHR ''f'' then literal ''false'' (JBool False) (c # t)
       else parseNumber (c # t))"
| "parseElems 0 s = None"
| "parseElems (Suc f) s = (case parseValue f s of None \<Rightarrow> None | Some (v, r) \<Rightarrow>
     (case skip r of
        c # t \<Rightarrow> if c = CHR '']'' then Some ([v], t)
          else if c = CHR '','' then map_option (\<lambda>(vs, u). (v # vs, u)) (parseElems f t)
          else None
      | [] \<Rightarrow> None))"
| "parseMembers 0 s = None"
| "parseMembers (Suc f) s = (case skip s of
     c # t \<Rightarrow> if c \<noteq> CHR 34 then None else
       (case parseChars (Suc (length t)) t of None \<Rightarrow> None | Some (k, r) \<Rightarrow>
          (case skip r of
             d # u \<Rightarrow> if d \<noteq> CHR '':'' then None else
               (case parseValue f u of None \<Rightarrow> None | Some (v, r') \<Rightarrow>
                  (case skip r' of
                     e # w \<Rightarrow> if e = CHR ''}'' then Some ([(k, v)], w)
                       else if e = CHR '','' then map_option (\<lambda>(m, z). ((k, v) # m, z)) (parseMembers f w)
                       else None
                   | [] \<Rightarrow> None))
           | [] \<Rightarrow> None))
   | [] \<Rightarrow> None)"

definition parseJson :: "string \<Rightarrow> json option" where
  "parseJson s = (case parseValue (2 * length s + 2) s of
     Some (v, rest) \<Rightarrow> if skip rest = [] then Some v else None
   | None \<Rightarrow> None)"

subsection \<open>JSONL files\<close>

definition jsonLine :: "json \<Rightarrow> string" where
  "jsonLine j = stringify j @ newline"

text \<open>The reading loop of the log loaders: blank lines are dropped, a line that does not parse or
  is not \<open>valid\<close> is counted as skipped.\<close>

fun readLines :: "(json \<Rightarrow> bool) \<Rightarrow> string list \<Rightarrow> json list \<times> nat" where
  "readLines valid [] = ([], 0)"
| "readLines valid (line # ls) =
     (let (entries, skipped) = readLines valid ls
      in case parseJson line of
           None \<Rightarrow> (entries, Suc skipped)
         | Some j \<Rightarrow> if valid j then (j # entries, skipped) else (entries, Suc skipped))"

definition readJsonl :: "(json \<Rightarrow> bool) \<Rightarrow> string \<Rightarrow> json list \<times> nat" where
  "readJsonl valid body = readLines valid (filter (\<lambda>l. trim l \<noteq> []) (splitOn (CHR 10) body))"

text \<open>Reading a field of a parsed object; \<open>None\<close> is JavaScript's \<open>undefined\<close>.\<close>

fun jsonField :: "json \<Rightarrow> string \<Rightarrow> json option" where
  "jsonField (JObj m) k = mapGet m k"
| "jsonField j k = None"

fun isJStr :: "json option \<Rightarrow> bool" where
  "isJStr (Some (JStr s)) = True" | "isJStr j = False"

fun isJNum :: "json option \<Rightarrow> bool" where
  "isJNum (Some (JNum i)) = True" | "isJNum (Some (JFloat t)) = True" | "isJNum j = False"

fun isJArr :: "json option \<Rightarrow> bool" where
  "isJArr (Some (JArr xs)) = True" | "isJArr j = False"

text \<open>\<open>typeof v === 'object'\<close> and not null: an object or an array.\<close>

fun isJObject :: "json \<Rightarrow> bool" where
  "isJObject (JObj m) = True" | "isJObject (JArr xs) = True" | "isJObject j = False"

section \<open>Resources\<close>

text \<open>
  A resource as the reference runtime passes it around, \<open>reference/src/core/types.ts\<close>: its name, labels
  and annotations, and its spec and status as JSON values; and the object spread
  \<open>{ ...base, ...extra }\<close> on them. Api version, kind and the other metadata are left out.
\<close>

record any_resource =
  rs_name :: string
  rs_labels :: "json option"
  rs_annotations :: "json option"
  rs_spec :: "json option"
  rs_status :: "json option"

text \<open>Spreading \<open>undefined\<close> or \<open>null\<close> adds nothing.\<close>

definition members :: "json option \<Rightarrow> (string \<times> json) list" where
  "members v = (case v of Some (JObj m) \<Rightarrow> m | _ \<Rightarrow> [])"

definition spreadInto :: "json option \<Rightarrow> (string \<times> json) list \<Rightarrow> json option" where
  "spreadInto base extra = Some (JObj (fold (\<lambda>(k, v). mapSet k v) extra (fold (\<lambda>(k, v). mapSet k v) (members base) [])))"

text \<open>A member that is left out when its value is \<open>undefined\<close>.\<close>

definition optMember :: "string \<Rightarrow> json option \<Rightarrow> (string \<times> json) list" where
  "optMember k v = (case v of None \<Rightarrow> [] | Some j \<Rightarrow> [(k, j)])"

end
