(* ===== verification/Snapshot.thy ===== *)
theory Snapshot
  imports EffPriority Json
begin

text \<open>
  Snapshot files and their readers: \<open>pipeline-cli/src/deps/snapshot.ts\<close> (writing, garbage
  collection, inspection), \<open>critical-path.ts\<close> (the digest over the latest snapshot) and
  \<open>override-log.ts\<close>. A directory is the list of its files in the order \<open>readdir\<close> gives them;
  a file carries what \<open>stat\<close>, \<open>unlink\<close> and a read of it do.
\<close>

subsection \<open>Files and tags\<close>

datatype snapshot_tag = Rolling | Dispatch | Calibration | LifecycleTransition

definition tagText :: "snapshot_tag \<Rightarrow> string" where
  "tagText t = (case t of Rolling \<Rightarrow> ''rolling'' | Dispatch \<Rightarrow> ''dispatch''
     | Calibration \<Rightarrow> ''calibration'' | LifecycleTransition \<Rightarrow> ''lifecycle-transition'')"

definition SNAPSHOT_TAGS :: "snapshot_tag list" where
  "SNAPSHOT_TAGS = [Rolling, Dispatch, Calibration, LifecycleTransition]"

record dir_file =
  df_name :: string
  df_stat :: "(nat \<times> int) option"
  df_unlink :: "string option"
  df_body :: "string option"

type_synonym directory = "dir_file list"

definition isTagChar :: "char \<Rightarrow> bool" where
  "isTagChar c \<longleftrightarrow> (let n = of_char c :: nat in (97 \<le> n \<and> n \<le> 122) \<or> n = 45)"

text \<open>The text before \<open>.tag.jsonl\<close> and the tag, for a name that ends so.\<close>

definition splitTag :: "string \<Rightarrow> (string \<times> string) option" where
  "splitTag file =
     (if \<not> endsWith file ''.jsonl'' then None
      else let base = take (length file - 6) file;
               tag = rev (takeWhile isTagChar (rev base))
           in case dropWhile isTagChar (rev base) of
                d # r \<Rightarrow> if d = CHR ''.'' \<and> tag \<noteq> [] then Some (rev r, tag) else None
              | [] \<Rightarrow> None)"

definition extractTag :: "string \<Rightarrow> snapshot_tag option" where
  "extractTag file = (case splitTag file of
     None \<Rightarrow> None
   | Some (_, candidate) \<Rightarrow> List.find (\<lambda>t. tagText t = candidate) SNAPSHOT_TAGS)"

definition extractIsoTimestamp :: "string \<Rightarrow> string" where
  "extractIsoTimestamp file =
     (let stripped = (if startsWith file ''snapshot.'' then drop 9 file else file)
      in case splitTag stripped of None \<Rightarrow> stripped | Some (stamp, _) \<Rightarrow> stamp)"

definition snapshotName :: "string \<Rightarrow> snapshot_tag \<Rightarrow> string" where
  "snapshotName stamp tag = ''snapshot.'' @ stamp @ ''.'' @ tagText tag @ ''.jsonl''"

definition isSnapshotFile :: "string \<Rightarrow> bool" where
  "isSnapshotFile file \<longleftrightarrow> endsWith file ''.jsonl'' \<and> startsWith file ''snapshot.''"

subsection \<open>Writing\<close>

definition kindText :: "ext_kind \<Rightarrow> string" where
  "kindText k = (case k of NpmVersion \<Rightarrow> ''npm-version'' | GithubPr \<Rightarrow> ''github-pr''
     | UrlHead \<Rightarrow> ''url-head'' | Manual \<Rightarrow> ''manual'' | OtherKind \<Rightarrow> ''other'')"

definition externalJson :: "external_dependency \<Rightarrow> json" where
  "externalJson e = JObj ([(''id'', JStr (ed_id e)), (''description'', JStr (ed_description e)),
     (''kind'', JStr (kindText (ed_kind e)))] @
     (case ed_resolverHint e of None \<Rightarrow> [] | Some h \<Rightarrow> [(''resolverHint'', JStr h)]))"

definition strings :: "string list \<Rightarrow> json" where
  "strings xs = JArr (map JStr xs)"

definition snapshotJson :: "snapshot_record \<Rightarrow> json" where
  "snapshotJson r = JObj [(''id'', JStr (sr_id r)), (''dependencies'', strings (sr_dependencies r)),
     (''dependents'', strings (sr_dependents r)), (''depth'', JNum (int (sr_depth r))),
     (''criticalPathLength'', JNum (int (sr_criticalPathLength r))),
     (''effectivePriority'', JNum (int (sr_effectivePriority r))),
     (''externalDependencies'', JArr (map externalJson (sr_externalDependencies r))),
     (''lastModified'', JStr (sr_lastModified r))]"

record write_result =
  wr_file :: string
  wr_tag :: snapshot_tag
  wr_recordCount :: nat
  wr_bytes :: nat
  wr_written :: bool

definition putFile :: "dir_file \<Rightarrow> directory \<Rightarrow> directory" where
  "putFile f dir = (if someIn (\<lambda>e. df_name e = df_name f) dir
     then map (\<lambda>e. if df_name e = df_name f then f else e) dir else dir @ [f])"

text \<open>\<open>now\<close> is the clock in milliseconds, \<open>isoText\<close> its ISO text.\<close>

definition writeSnapshot ::
  "string option \<Rightarrow> snapshot_tag \<Rightarrow> int \<Rightarrow> string \<Rightarrow> dependency_graph \<Rightarrow> directory \<Rightarrow> directory \<times> write_result"
  where "writeSnapshot env tag now isoText g dir =
     (let stamp = map (\<lambda>c. if c = CHR '':'' then CHR ''-'' else c) isoText;
          file = snapshotName stamp tag;
          records = computeSnapshotRecords g
      in if \<not> isCompositionEnabled env
         then (dir, \<lparr>wr_file = file, wr_tag = tag, wr_recordCount = length records, wr_bytes = 0,
                 wr_written = False\<rparr>)
         else let body = joinWith newline (map (\<lambda>r. stringify (snapshotJson r)) records) @
                    (if records \<noteq> [] then newline else [])
              in (putFile \<lparr>df_name = file, df_stat = Some (length body, now), df_unlink = None,
                     df_body = Some body\<rparr> dir,
                  \<lparr>wr_file = file, wr_tag = tag, wr_recordCount = length records,
                   wr_bytes = length body, wr_written = True\<rparr>))"

subsection \<open>Garbage collection\<close>

record gc_result =
  gc_trimmed :: "string list"
  gc_kept :: "string list"
  gc_bytesFreed :: nat

text \<open>The result, the files remaining in the directory, and the warnings.\<close>

fun gcLoop :: "int \<Rightarrow> directory \<Rightarrow> gc_result \<times> directory \<times> string list" where
  "gcLoop cutoffMs [] = (\<lparr>gc_trimmed = [], gc_kept = [], gc_bytesFreed = 0\<rparr>, [], [])"
| "gcLoop cutoffMs (f # fs) =
     (let (r, remaining, warns) = gcLoop cutoffMs fs;
          keep = (r\<lparr>gc_kept := df_name f # gc_kept r\<rparr>, f # remaining, warns)
      in if \<not> isSnapshotFile (df_name f) then (r, f # remaining, warns)
         else case extractTag (df_name f) of
           None \<Rightarrow> keep
         | Some tag \<Rightarrow>
             if tag \<noteq> Rolling then keep
             else case df_stat f of
               None \<Rightarrow> (r, f # remaining, warns)
             | Some (bytes, mtimeMs) \<Rightarrow>
                 if cutoffMs \<le> mtimeMs then keep
                 else case df_unlink f of
                   Some err \<Rightarrow> (r, f # remaining, (''failed to unlink '' @ df_name f @ '': '' @ err) # warns)
                 | None \<Rightarrow> (r\<lparr>gc_trimmed := df_name f # gc_trimmed r,
                              gc_bytesFreed := gc_bytesFreed r + bytes\<rparr>, remaining, warns))"

definition gcRollingSnapshots :: "nat option \<Rightarrow> int \<Rightarrow> directory option \<Rightarrow>
    gc_result \<times> directory \<times> string list" where
  "gcRollingSnapshots maxAgeDays now dir =
     (case dir of
        None \<Rightarrow> (\<lparr>gc_trimmed = [], gc_kept = [], gc_bytesFreed = 0\<rparr>, [], [])
      | Some fs \<Rightarrow> gcLoop (now - int (orElse maxAgeDays 30) * 24 * 60 * 60 * 1000) fs)"

subsection \<open>Inspection\<close>

record inspect_entry =
  ie_file :: string
  ie_isoTimestamp :: string
  ie_tag :: snapshot_tag
  ie_size :: nat
  ie_recordCount :: nat
  ie_source :: dir_file

definition inspectFile :: "snapshot_tag option \<Rightarrow> dir_file \<Rightarrow> inspect_entry option" where
  "inspectFile wanted f =
     (if \<not> isSnapshotFile (df_name f) then None
      else case extractTag (df_name f) of
        None \<Rightarrow> None
      | Some tag \<Rightarrow>
          if (case wanted of None \<Rightarrow> False | Some w \<Rightarrow> tag \<noteq> w) then None
          else let iso = extractIsoTimestamp (df_name f) in
            if iso = [] then None
            else let size = (case df_stat f of None \<Rightarrow> 0 | Some (s, _) \<Rightarrow> s);
                     count = (if 0 < size then (case df_body f of None \<Rightarrow> 0
                        | Some body \<Rightarrow> length (filter (\<lambda>l. l \<noteq> []) (splitOn (CHR 10) body))) else 0)
                 in Some \<lparr>ie_file = df_name f, ie_isoTimestamp = iso, ie_tag = tag, ie_size = size,
                      ie_recordCount = count, ie_source = f\<rparr>)"

definition inspectSnapshots :: "snapshot_tag option \<Rightarrow> directory option \<Rightarrow> inspect_entry list" where
  "inspectSnapshots wanted dir = (case dir of None \<Rightarrow> []
   | Some fs \<Rightarrow> sortBy (\<lambda>a b. localeCompare (ie_isoTimestamp a) (ie_isoTimestamp b))
       (List.map_filter (inspectFile wanted) fs))"

subsection \<open>The latest snapshot\<close>

definition isSnapshotRecord :: "json \<Rightarrow> bool" where
  "isSnapshotRecord raw \<longleftrightarrow> isJObject raw \<and> isJStr (jsonField raw ''id'') \<and>
     isJArr (jsonField raw ''dependencies'') \<and> isJArr (jsonField raw ''dependents'') \<and>
     isJNum (jsonField raw ''depth'') \<and> isJNum (jsonField raw ''criticalPathLength'') \<and>
     isJArr (jsonField raw ''externalDependencies'') \<and> isJStr (jsonField raw ''lastModified'')"

record loaded_snapshot =
  ls_file :: string
  ls_isoTimestamp :: string
  ls_tag :: snapshot_tag
  ls_recordCount :: nat
  ls_skipped :: nat
  ls_records :: "json list"

definition loadLatestSnapshot :: "snapshot_tag option \<Rightarrow> directory option \<Rightarrow> loaded_snapshot option" where
  "loadLatestSnapshot wanted dir =
     (let entries = inspectSnapshots wanted dir in
      if entries = [] then None
      else let latest = last entries in
        case df_body (ie_source latest) of
          None \<Rightarrow> None
        | Some body \<Rightarrow>
            let (records, skipped) = readJsonl isSnapshotRecord body
            in Some \<lparr>ls_file = ie_file latest, ls_isoTimestamp = ie_isoTimestamp latest,
                 ls_tag = ie_tag latest, ls_recordCount = length records, ls_skipped = skipped,
                 ls_records = records\<rparr>)"

subsection \<open>The critical path\<close>

record enriched_record =
  er_id :: string
  er_title :: string
  er_status :: string
  er_effectiveStatus :: "task_status option"
  er_basePriority :: nat
  er_effectivePriority :: nat
  er_criticalPathLength :: nat
  er_dependentCount :: nat
  er_dependencies :: "string list"
  er_dependents :: "string list"
  er_lastModified :: string
  er_filePath :: string
  er_warnings :: "string list"

definition enrichRecord :: "dependency_graph \<Rightarrow> (string, effective_priority_record) jsmap \<Rightarrow>
    snapshot_record \<Rightarrow> enriched_record" where
  "enrichRecord g priorities r =
     (let key = toLowerCase (sr_id r);
          node = mapGet (nodes g) key;
          pri = mapGet priorities key
      in \<lparr>er_id = sr_id r,
          er_title = (case node of None \<Rightarrow> [] | Some n \<Rightarrow> dn_title n),
          er_status = (case node of None \<Rightarrow> [] | Some n \<Rightarrow> dn_frontmatterStatus n),
          er_effectiveStatus = map_option dn_status node,
          er_basePriority = (case pri of None \<Rightarrow> 0 | Some p \<Rightarrow> ep_basePriority p),
          er_effectivePriority = (case pri of None \<Rightarrow> 0 | Some p \<Rightarrow> ep_effectivePriority p),
          er_criticalPathLength = sr_criticalPathLength r,
          er_dependentCount = length (sr_dependents r),
          er_dependencies = sr_dependencies r,
          er_dependents = sr_dependents r,
          er_lastModified = sr_lastModified r,
          er_filePath = (case node of None \<Rightarrow> [] | Some n \<Rightarrow> dn_filePath n),
          er_warnings = (case node of
              None \<Rightarrow> [''task '' @ sr_id r @ '' present in snapshot but missing from live graph'']
            | Some _ \<Rightarrow> [])\<rparr>)"

definition enrichSnapshot :: "snapshot_record list \<Rightarrow> dependency_graph \<Rightarrow> enriched_record list" where
  "enrichSnapshot records g = map (enrichRecord g (computeEffectivePriorities g None)) records"

definition DEFAULT_CRITICAL_PATH_LIMIT :: nat where
  "DEFAULT_CRITICAL_PATH_LIMIT = 5"

definition qualifies :: "bool \<Rightarrow> enriched_record \<Rightarrow> bool" where
  "qualifies openOnly r \<longleftrightarrow>
     (if openOnly \<and> er_effectiveStatus r \<noteq> Some Open then False
      else if er_criticalPathLength r = 0 \<and> er_dependentCount r = 0 then False
      else True)"

definition enrichedKey :: "enriched_record \<Rightarrow> dispatch_key" where
  "enrichedKey r = (er_effectivePriority r, er_criticalPathLength r, er_lastModified r, er_id r)"

definition selectCriticalPath ::
  "enriched_record list \<Rightarrow> nat option \<Rightarrow> bool option \<Rightarrow> enriched_record list" where
  "selectCriticalPath enriched limit openOnly =
     (let filtered = filter (qualifies (orElse openOnly True)) enriched
      in take (orElse limit DEFAULT_CRITICAL_PATH_LIMIT)
           (sortBy (\<lambda>a b. compareKeys (enrichedKey a) (enrichedKey b)) filtered))"

datatype section_state = Rendered | OmittedEmptyGraph | OmittedNoSnapshot

record slack_section =
  ss_blocks :: "json list"
  ss_fallbackSuffix :: string
  ss_markdown :: string
  ss_state :: section_state
  ss_items :: "enriched_record list"

definition formatCriticalPathEntry :: "nat \<Rightarrow> enriched_record \<Rightarrow> string" where
  "formatCriticalPathEntry rank item =
     showNat rank @ ''. '' @ er_id item @ '' '' @ emDash @ '' '' @ orText (er_title item) ''(no title)'' @
     '' (chain length: '' @ showNat (er_criticalPathLength item) @ '', gates: '' @
     showNat (er_dependentCount item) @ '' downstream)''"

definition railway :: string where
  "railway = [CHR 0xF0, CHR 0x9F, CHR 0x9B, CHR 0xA4, CHR 0xEF, CHR 0xB8, CHR 0x8F]"

definition middleDot :: string where "middleDot = [CHR 0xC2, CHR 0xB7]"

definition code :: "string \<Rightarrow> string" where "code s = [CHR 96] @ s @ [CHR 96]"

definition mrkdwn :: "string \<Rightarrow> json" where
  "mrkdwn t = JObj [(''type'', JStr ''section''),
     (''text'', JObj [(''type'', JStr ''mrkdwn''), (''text'', JStr t)])]"

definition divider :: json where
  "divider = JObj [(''type'', JStr ''divider'')]"

definition markdownItem :: "nat \<Rightarrow> enriched_record \<Rightarrow> string" where
  "markdownItem rank it = showNat rank @ ''. **'' @ er_id it @ ''** '' @ emDash @ '' '' @
     orText (er_title it) ''(no title)'' @ newline @
     ''   - chain length: '' @ showNat (er_criticalPathLength it) @ newline @
     ''   - gates: '' @ showNat (er_dependentCount it) @ '' downstream'' @ newline @
     ''   - effective priority: '' @ showNat (er_effectivePriority it) @ newline"

definition emptySection :: "section_state \<Rightarrow> slack_section" where
  "emptySection st = \<lparr>ss_blocks = [], ss_fallbackSuffix = [], ss_markdown = [], ss_state = st, ss_items = []\<rparr>"

text \<open>The section for the digest's items; \<open>None\<close> when there is no snapshot.\<close>

definition buildCriticalPathSlackSection ::
  "bool option \<Rightarrow> enriched_record list option \<Rightarrow> slack_section" where
  "buildCriticalPathSlackSection emitHint result =
     (case result of
        None \<Rightarrow>
          if \<not> orElse emitHint True then emptySection OmittedNoSnapshot
          else \<lparr>ss_blocks = [mrkdwn (''*'' @ railway @ '' Critical Path*: insufficient data (run '' @
                   code ''cli-deps snapshot'' @ '' with '' @ code ''AI_SDLC_DEPS_COMPOSITION=1'' @
                   '' to populate)''), divider],
                ss_fallbackSuffix = '' '' @ middleDot @ '' critical path: insufficient data'',
                ss_markdown = ''## '' @ railway @ '' Critical Path'' @ newline @ newline @
                  ''_Insufficient data '' @ emDash @ '' run '' @ code ''cli-deps snapshot'' @ '' with '' @
                  code ''AI_SDLC_DEPS_COMPOSITION=1'' @ '' to populate._'' @ newline,
                ss_state = OmittedNoSnapshot, ss_items = []\<rparr>
      | Some items \<Rightarrow>
          if items = [] then emptySection OmittedEmptyGraph
          else let lines = map (\<lambda>(i, it). formatCriticalPathEntry (i + 1) it) (List.enumerate 0 items)
            in \<lparr>ss_blocks = [mrkdwn (''*'' @ railway @ '' Critical Path*'' @ newline @
                   joinWith newline lines), divider],
                ss_fallbackSuffix = '' '' @ middleDot @ '' critical path top '' @ showNat (length items) @
                  '': '' @ joinWith '', '' (map er_id items),
                ss_markdown = ''## '' @ railway @ '' Critical Path'' @ newline @ newline @
                  joinWith newline (map (\<lambda>(i, it). markdownItem (i + 1) it) (List.enumerate 0 items)) @ newline,
                ss_state = Rendered, ss_items = items\<rparr>)"

subsection \<open>The override log\<close>

record override_entry =
  oe_ts :: string
  oe_snapshotPath :: string
  oe_dispatcherTopId :: string
  oe_operatorPickedId :: string
  oe_ranking :: "(string \<times> nat) list"
  oe_reason :: "string option"
  oe_mode :: "string option"

definition overrideJson :: "override_entry \<Rightarrow> json" where
  "overrideJson e = JObj ([(''schemaVersion'', JNum 1), (''ts'', JStr (oe_ts e)),
     (''snapshotPath'', JStr (oe_snapshotPath e)), (''dispatcherTopId'', JStr (oe_dispatcherTopId e)),
     (''operatorPickedId'', JStr (oe_operatorPickedId e)),
     (''ranking'', JArr (map (\<lambda>(i, p). JObj [(''id'', JStr i), (''position'', JNum (int p))]) (oe_ranking e)))] @
     (case oe_reason e of None \<Rightarrow> [] | Some r \<Rightarrow> [(''reason'', JStr r)]) @
     (case oe_mode e of None \<Rightarrow> [] | Some m \<Rightarrow> [(''mode'', JStr m)]))"

definition nonEmpty :: "string option \<Rightarrow> string option" where
  "nonEmpty s = (case s of None \<Rightarrow> None | Some t \<Rightarrow> if t = [] then None else Some t)"

text \<open>The entry written, and the log with its line appended.\<close>

definition appendOverrideEntry :: "override_entry \<Rightarrow> string \<Rightarrow> override_entry \<times> string" where
  "appendOverrideEntry input log =
     (let entry = input\<lparr>oe_ranking := take 10 (oe_ranking input), oe_reason := nonEmpty (oe_reason input),
                   oe_mode := nonEmpty (oe_mode input)\<rparr>
      in (entry, log @ jsonLine (overrideJson entry)))"

definition isValidRanking :: "json \<Rightarrow> bool" where
  "isValidRanking r \<longleftrightarrow> isJObject r \<and> isJStr (jsonField r ''id'') \<and> isJNum (jsonField r ''position'')"

definition isValidOverrideEntry :: "json \<Rightarrow> bool" where
  "isValidOverrideEntry raw \<longleftrightarrow> isJObject raw \<and> jsonField raw ''schemaVersion'' = Some (JNum 1) \<and>
     isJStr (jsonField raw ''ts'') \<and> isJStr (jsonField raw ''snapshotPath'') \<and>
     isJStr (jsonField raw ''dispatcherTopId'') \<and> isJStr (jsonField raw ''operatorPickedId'') \<and>
     jsonField raw ''operatorPickedId'' \<noteq> Some (JStr []) \<and>
     (case jsonField raw ''ranking'' of Some (JArr rs) \<Rightarrow> everyIn isValidRanking rs | _ \<Rightarrow> False)"

definition loadOverrides :: "string option \<Rightarrow> json list \<times> nat" where
  "loadOverrides log = (case log of None \<Rightarrow> ([], 0) | Some raw \<Rightarrow> readJsonl isValidOverrideEntry raw)"

end
