(* ===== verification/EffPriorityCorrect.thy ===== *)
theory EffPriorityCorrect
  imports EffPriority DepValidateCorrect
begin

text \<open>
  The memoised searches compute what they stand for: on an acyclic graph \<open>visit\<close> returns the
  solution of its recursion equation (locale \<open>memo_search\<close>, interpreted for the three searches),
  which is the maximum over the downstream closure for priorities and the longest chain for
  critical path lengths and depths. On any graph, cyclic or not, the priorities stay in range.
\<close>

subsection \<open>Memoised search on an acyclic graph\<close>

definition searchEdges :: "search \<Rightarrow> (string \<times> string) set" where
  "searchEdges s = {(k, c). c \<in> toLowerCase ` set (children s k) \<and> mapHas (known s) c}"

definition cacheOk :: "(string \<Rightarrow> nat) \<Rightarrow> cache \<Rightarrow> bool" where
  "cacheOk spec cache \<longleftrightarrow> (\<forall>k v. mapGet cache k = Some v \<longrightarrow> v = spec k)"

definition knownIn :: "search \<Rightarrow> string list \<Rightarrow> string set" where
  "knownIn s cs = {c \<in> toLowerCase ` set cs. mapHas (known s) c}"

lemma knownIn_simps [simp]:
  "knownIn s [] = {}"
  "knownIn s (c # cs) = (if mapHas (known s) (toLowerCase c) then insert (toLowerCase c) (knownIn s cs)
     else knownIn s cs)"
  by (auto simp: knownIn_def)

lemma finite_knownIn [simp]: "finite (knownIn s cs)"
  by (simp add: knownIn_def)

lemma knownIn_edges: "c \<in> knownIn s (children s k) \<longleftrightarrow> (k, c) \<in> searchEdges s"
  by (auto simp: knownIn_def searchEdges_def)

locale memo_search =
  fixes s :: search and spec :: "string \<Rightarrow> nat"
  assumes spec_eq: "acyclic (searchEdges s) \<Longrightarrow> mapHas (known s) k \<Longrightarrow>
      spec k = Max (insert (base s k) ((\<lambda>c. contrib s (spec c)) ` knownIn s (children s k)))"
begin

lemma visit_spec_mutual:
  "acyclic (searchEdges s) \<Longrightarrow> t = s \<Longrightarrow> cacheOk spec cache \<Longrightarrow> mapHas (known s) key \<Longrightarrow>
     \<forall>x \<in> set onStack. (x, key) \<in> (searchEdges s)\<^sup>+ \<Longrightarrow>
   fst (visit t key onStack cache) = spec key \<and> cacheOk spec (snd (visit t key onStack cache))"
  "acyclic (searchEdges s) \<Longrightarrow> t = s \<Longrightarrow> cacheOk spec cache \<Longrightarrow>
     \<forall>c \<in> knownIn s cs. \<forall>x \<in> set onStack. (x, c) \<in> (searchEdges s)\<^sup>+ \<Longrightarrow>
   fst (visitChildren t cs onStack best cache) = Max (insert best ((\<lambda>c. contrib s (spec c)) ` knownIn s cs)) \<and>
   cacheOk spec (snd (visitChildren t cs onStack best cache))"
proof (induction t key onStack cache and t cs onStack best cache rule: visit_visitChildren.induct)
  case (1 t key onStack cache)
  note IH = "1.IH" and prems = "1.prems"
  show ?case
  proof (cases "mapGet cache key")
    case (Some v)
    with prems(3) show ?thesis by (simp add: visit.simps cacheOk_def)
  next
    case None
    have notin: "key \<notin> set onStack"
      using prems(5) prems(1) unfolding acyclic_def by blast
    have edge: "(key, c) \<in> searchEdges s" if "c \<in> knownIn s (children s key)" for c
      using that by (simp add: knownIn_edges)
    have "\<forall>c \<in> knownIn s (children s key). \<forall>x \<in> set (key # onStack). (x, c) \<in> (searchEdges s)\<^sup>+"
    proof (intro ballI)
      fix c x
      assume "c \<in> knownIn s (children s key)" and "x \<in> set (key # onStack)"
      with edge [of c] prems(5) show "(x, c) \<in> (searchEdges s)\<^sup>+"
        by (auto intro: r_into_trancl trancl_into_trancl)
    qed
    with IH [OF None notin] prems(1-3) have loop:
      "fst (visitChildren s (children s key) (key # onStack) (base s key) cache) = spec key"
      "cacheOk spec (snd (visitChildren s (children s key) (key # onStack) (base s key) cache))"
      using spec_eq [OF prems(1,4)] by simp_all
    then show ?thesis
      using None notin prems(2) by (auto simp: visit.simps split_beta cacheOk_def map_simps)
  qed
next
  case (2 t onStack best cache)
  then show ?case by (simp add: visitChildren.simps)
next
  case (3 t c cs onStack best cache)
  show ?case
  proof (cases "mapHas (known s) (toLowerCase c)")
    case False
    with 3 show ?thesis by (simp add: visitChildren.simps)
  next
    case True
    obtain v cache' where v: "visit s (toLowerCase c) onStack cache = (v, cache')" by fastforce
    have v': "v = spec (toLowerCase c)" "cacheOk spec cache'"
      using "3.IH"(2) [OF refl _] "3.prems" True v by (auto simp: knownIn_def)
    let ?best = "if best < contrib s v then contrib s v else best"
    have "fst (visitChildren s cs onStack ?best cache') =
        Max (insert ?best ((\<lambda>c. contrib s (spec c)) ` knownIn s cs)) \<and>
      cacheOk spec (snd (visitChildren s cs onStack ?best cache'))"
      using "3.IH"(3) [OF refl _ refl _ refl, of v cache'] "3.prems" True v v' by (auto simp: knownIn_def)
    moreover have "Max (insert ?best X) = Max (insert best (insert (contrib s v) X))"
      if "finite X" for X
      using that by (cases "X = {}") auto
    moreover have "visitChildren t (c # cs) onStack best cache = visitChildren s cs onStack ?best cache'"
      using True v "3.prems"(2) by (simp add: visitChildren.simps Let_def)
    ultimately show ?thesis
      using True by (simp only: knownIn_simps if_True image_insert v'(1) finite_imageI finite_knownIn)
  qed
qed

lemma visit_spec:
  assumes "acyclic (searchEdges s)" and "cacheOk spec cache" and "mapHas (known s) key"
  shows "fst (visit s key [] cache) = spec key" "cacheOk spec (snd (visit s key [] cache))"
  using visit_spec_mutual(1) [OF assms(1) refl assms(2,3), of "[]"] by simp_all

end

subsection \<open>Longest chains\<close>

definition chainLengths :: "(string \<times> string) set \<Rightarrow> string \<Rightarrow> nat set" where
  "chainLengths E k = {n. \<exists>j. (k, j) \<in> E ^^ n}"

definition longestChain :: "(string \<times> string) set \<Rightarrow> string \<Rightarrow> nat" where
  "longestChain E k = Max (chainLengths E k)"

lemma chainLengths_unfold: "chainLengths E k = insert 0 (Suc ` (\<Union>c \<in> E `` {k}. chainLengths E c))"
proof -
  have "n \<in> chainLengths E k \<longleftrightarrow> n = 0 \<or> (\<exists>m c. n = Suc m \<and> (k, c) \<in> E \<and> m \<in> chainLengths E c)" for n
    by (cases n) (auto simp: chainLengths_def simp del: relpow.simps(2) elim!: relpow_Suc_E2 intro: relpow_Suc_I2)
  then show ?thesis by auto
qed

lemma chainLengths_nonempty [simp]: "chainLengths E k \<noteq> {}"
  by (subst chainLengths_unfold) simp

lemma finite_chainLengths:
  assumes "finite E" and "acyclic E"
  shows "finite (chainLengths E k)"
proof -
  have "wf (E\<inverse>)" using assms by (simp add: finite_acyclic_wf_converse)
  then show ?thesis
  proof (induction k rule: wf_induct_rule)
    case (less k)
    have "finite (E `` {k})" using assms(1) by simp
    with less show ?case by (subst chainLengths_unfold) auto
  qed
qed

lemma longestChain_eq:
  assumes "finite E" and "acyclic E"
  shows "longestChain E k = Max (insert 0 ((\<lambda>c. 1 + longestChain E c) ` (E `` {k})))"
proof (rule antisym)
  note fin = finite_chainLengths [OF assms]
  have finI: "finite (E `` {k})" using assms(1) by simp
  show "longestChain E k \<le> Max (insert 0 ((\<lambda>c. 1 + longestChain E c) ` (E `` {k})))"
    unfolding longestChain_def [of E k]
  proof (rule Max.boundedI)
    fix n
    assume "n \<in> chainLengths E k"
    then consider "n = 0" | m c where "n = Suc m" "(k, c) \<in> E" "m \<in> chainLengths E c"
      by (subst (asm) chainLengths_unfold) auto
    then show "n \<le> Max (insert 0 ((\<lambda>c. 1 + longestChain E c) ` (E `` {k})))"
    proof cases
      case 2
      then have "n \<le> 1 + longestChain E c" by (simp add: longestChain_def fin)
      also have "\<dots> \<le> Max (insert 0 ((\<lambda>c. 1 + longestChain E c) ` (E `` {k})))"
        using 2 finI by (intro Max_ge) auto
      finally show ?thesis .
    qed simp
  qed (simp_all add: fin)
  show "Max (insert 0 ((\<lambda>c. 1 + longestChain E c) ` (E `` {k}))) \<le> longestChain E k"
  proof (rule Max.boundedI)
    fix n
    assume "n \<in> insert 0 ((\<lambda>c. 1 + longestChain E c) ` (E `` {k}))"
    then consider "n = 0" | c where "n = Suc (longestChain E c)" "(k, c) \<in> E" by auto
    then show "n \<le> longestChain E k"
    proof cases
      case 2
      have "longestChain E c \<in> chainLengths E c"
        unfolding longestChain_def by (rule Max_in [OF fin chainLengths_nonempty])
      with 2 have "n \<in> chainLengths E k" by (subst chainLengths_unfold) auto
      then show ?thesis by (simp add: longestChain_def fin)
    qed simp
  qed (use finI in auto)
qed

subsection \<open>The three searches\<close>

lemma addReverseKey_get:
  "set (orElse (mapGet (addReverseKey node rm) k) []) = set (orElse (mapGet rm k) []) \<union>
     (if k \<in> toLowerCase ` set (dn_dependencies node) then {nodeKey node} else {})"
proof -
  have "set (orElse (mapGet (fold (\<lambda>dep r. let key = toLowerCase dep in
       mapSet key (orElse (mapGet r key) [] @ [i]) r) ds rm) k) []) =
     set (orElse (mapGet rm k) []) \<union> (if k \<in> toLowerCase ` set ds then {i} else {})" for i ds
    by (induction ds arbitrary: rm) (auto simp: Let_def map_simps)
  then show ?thesis by (simp add: addReverseKey_def nodeKey_def)
qed

lemma reverseKeys_get:
  "set (orElse (mapGet (reverseKeys g) k) []) =
     {nodeKey n | n. n \<in> set (mapValues (nodes g)) \<and> k \<in> toLowerCase ` set (dn_dependencies n)}"
proof -
  have "set (orElse (mapGet (fold addReverseKey ns rm) k) []) = set (orElse (mapGet rm k) []) \<union>
     {nodeKey n | n. n \<in> set ns \<and> k \<in> toLowerCase ` set (dn_dependencies n)}" for ns rm
    by (induction ns arbitrary: rm) (auto simp: addReverseKey_get)
  then show ?thesis by (simp add: reverseKeys_def)
qed

definition knownEdges :: "dependency_graph \<Rightarrow> (string \<times> string) set" where
  "knownEdges g = {(a, b) \<in> depEdges g. mapHas (nodes g) b}"

definition cplSpec :: "dependency_graph \<Rightarrow> string \<Rightarrow> nat" where
  "cplSpec g k = longestChain ((depEdges g)\<inverse>) k"

definition depthSpec :: "dependency_graph \<Rightarrow> string \<Rightarrow> nat" where
  "depthSpec g k = longestChain (knownEdges g) k"

definition downstream :: "dependency_graph \<Rightarrow> string \<Rightarrow> string set" where
  "downstream g k = {j. (j, k) \<in> (depEdges g)\<^sup>*}"

definition effSpec :: "dependency_graph \<Rightarrow> resolver \<Rightarrow> string \<Rightarrow> nat" where
  "effSpec g r k = Max (baseOf g r ` downstream g k)"

lemma finite_depEdges: "finite (depEdges g)"
proof (rule finite_subset)
  show "depEdges g \<subseteq> (\<Union>(k, n) \<in> set (nodes g). {k} \<times> toLowerCase ` set (dn_dependencies n))"
  proof (rule subrelI)
    fix a b
    assume "(a, b) \<in> depEdges g"
    then obtain n where "(a, n) \<in> set (nodes g)" "b \<in> toLowerCase ` set (dn_dependencies n)"
      by (auto simp: depEdges_iff dest: map_of_SomeD)
    then show "(a, b) \<in> (\<Union>(k, n) \<in> set (nodes g). {k} \<times> toLowerCase ` set (dn_dependencies n))"
      by (intro UN_I [of "(a, n)"]) auto
  qed
qed auto

lemma finite_knownEdges: "finite (knownEdges g)"
  by (rule finite_subset [OF _ finite_depEdges]) (auto simp: knownEdges_def)

lemma depEdges_source: "(a, b) \<in> depEdges g \<Longrightarrow> mapHas (nodes g) a"
  by (auto simp: depEdges_iff mapHas_iff)

lemma finite_downstream: "finite (downstream g k)"
proof (rule finite_subset)
  show "downstream g k \<subseteq> insert k (set (mapKeys (nodes g)))"
  proof
    fix j
    assume "j \<in> downstream g k"
    then have "(j, k) \<in> (depEdges g)\<^sup>*" by (simp add: downstream_def)
    then show "j \<in> insert k (set (mapKeys (nodes g)))"
      by (cases rule: converse_rtranclE) (auto dest: depEdges_source simp: mapHas_def)
  qed
qed simp

lemma downstream_nonempty [simp]: "downstream g k \<noteq> {}"
  by (auto simp: downstream_def)

lemma downstream_unfold: "downstream g k = insert k (\<Union>c \<in> {c. (c, k) \<in> depEdges g}. downstream g c)"
  by (auto simp: downstream_def elim: rtranclE intro: rtrancl_into_rtrancl)

lemma Max_Union_image:
  fixes f :: "'a \<Rightarrow> nat"
  assumes "finite C" and "\<And>c. c \<in> C \<Longrightarrow> finite (D c) \<and> D c \<noteq> {}"
  shows "Max (f ` insert k (\<Union>c \<in> C. D c)) = Max (insert (f k) ((\<lambda>c. Max (f ` D c)) ` C))"
proof (rule antisym)
  show "Max (f ` insert k (\<Union>c \<in> C. D c)) \<le> Max (insert (f k) ((\<lambda>c. Max (f ` D c)) ` C))"
  proof (rule Max.boundedI)
    fix x
    assume "x \<in> f ` insert k (\<Union>c \<in> C. D c)"
    then consider "x = f k" | c where "c \<in> C" "x \<in> f ` D c" by auto
    then show "x \<le> Max (insert (f k) ((\<lambda>c. Max (f ` D c)) ` C))"
    proof cases
      case 2
      then have "x \<le> Max (f ` D c)" using assms by (intro Max_ge) auto
      also have "\<dots> \<le> Max (insert (f k) ((\<lambda>c. Max (f ` D c)) ` C))" using 2 assms(1) by (intro Max_ge) auto
      finally show ?thesis .
    qed (use assms(1) in simp)
  qed (use assms in auto)
  show "Max (insert (f k) ((\<lambda>c. Max (f ` D c)) ` C)) \<le> Max (f ` insert k (\<Union>c \<in> C. D c))"
  proof (rule Max.boundedI)
    fix x
    assume "x \<in> insert (f k) ((\<lambda>c. Max (f ` D c)) ` C)"
    then consider "x = f k" | c where "c \<in> C" "x = Max (f ` D c)" by auto
    then show "x \<le> Max (f ` insert k (\<Union>c \<in> C. D c))"
    proof cases
      case 2
      have "Max (f ` D c) \<in> f ` D c" using assms(2) [OF 2(1)] by (intro Max_in) auto
      with 2 have "x \<in> f ` insert k (\<Union>c \<in> C. D c)" by blast
      then show ?thesis using assms by (intro Max_ge) auto
    qed (use assms in \<open>auto intro!: Max_ge\<close>)
  qed (use assms(1) in auto)
qed

lemma knownIn_children: "knownIn s (children s k) = searchEdges s `` {k}"
  using knownIn_edges [of _ s k] by auto

context task_graph
begin

lemma reverse_key_edge:
  "k' \<in> toLowerCase ` set (orElse (mapGet (reverseKeys g) k) []) \<longleftrightarrow> (k', k) \<in> depEdges g"
proof -
  have "k' \<in> toLowerCase ` set (orElse (mapGet (reverseKeys g) k) []) \<longleftrightarrow>
      (\<exists>n. k' = nodeKey n \<and> n \<in> set (mapValues (nodes g)) \<and> k \<in> toLowerCase ` set (dn_dependencies n))"
    by (simp add: reverseKeys_get setcompr_eq_image image_image nodeKey_def image_iff) blast
  also have "\<dots> \<longleftrightarrow> (k', k) \<in> depEdges g"
    unfolding depEdges_iff value_get by (metis key_of_node)
  finally show ?thesis .
qed

lemma searchEdges_cpl: "searchEdges (cplOf g) = (depEdges g)\<inverse>"
  and searchEdges_eff: "searchEdges (effectiveOf g r) = (depEdges g)\<inverse>"
  and searchEdges_snapshotCpl: "searchEdges (snapshotCplOf g) = (depEdges g)\<inverse>"
  by (auto simp: searchEdges_def cplOf_def effectiveOf_def snapshotCplOf_def Let_def reverse_key_edge
      reverse_edge dest: depEdges_source)

lemma memo_cpl: "memo_search (cplOf g) (cplSpec g)"
proof
  fix k
  assume "acyclic (searchEdges (cplOf g))"
  with longestChain_eq [of "(depEdges g)\<inverse>" k] finite_depEdges [of g]
  show "cplSpec g k = Max (insert (base (cplOf g) k)
      ((\<lambda>c. contrib (cplOf g) (cplSpec g c)) ` knownIn (cplOf g) (children (cplOf g) k)))"
    by (simp add: knownIn_children searchEdges_cpl cplSpec_def) (simp add: cplOf_def Let_def)
qed

lemma memo_snapshotCpl: "memo_search (snapshotCplOf g) (cplSpec g)"
proof
  fix k
  assume "acyclic (searchEdges (snapshotCplOf g))"
  with longestChain_eq [of "(depEdges g)\<inverse>" k] finite_depEdges [of g]
  show "cplSpec g k = Max (insert (base (snapshotCplOf g) k)
      ((\<lambda>c. contrib (snapshotCplOf g) (cplSpec g c)) ` knownIn (snapshotCplOf g) (children (snapshotCplOf g) k)))"
    by (simp add: knownIn_children searchEdges_snapshotCpl cplSpec_def) (simp add: snapshotCplOf_def Let_def)
qed

lemma memo_eff: "memo_search (effectiveOf g r) (effSpec g r)"
proof
  fix k
  have "effSpec g r k = Max (insert (baseOf g r k) ((\<lambda>c. effSpec g r c) ` {c. (c, k) \<in> depEdges g}))"
    unfolding effSpec_def
    by (subst downstream_unfold, rule Max_Union_image)
      (auto simp: finite_downstream intro: finite_subset [OF _ finite_imageI [OF finite_depEdges, of fst]])
  then show "effSpec g r k = Max (insert (base (effectiveOf g r) k)
      ((\<lambda>c. contrib (effectiveOf g r) (effSpec g r c)) ` knownIn (effectiveOf g r) (children (effectiveOf g r) k)))"
    by (simp add: knownIn_children searchEdges_eff) (simp add: effectiveOf_def Let_def converse_unfold Image_def)
qed

end

lemma searchEdges_depth: "searchEdges (depthOf g) = knownEdges g"
proof -
  have "(a, b) \<in> searchEdges (depthOf g) \<longleftrightarrow> (a, b) \<in> knownEdges g" for a b
    by (cases "mapGet (nodes g) a") (auto simp: searchEdges_def depthOf_def knownEdges_def depEdges_iff)
  then show ?thesis by auto
qed

lemma memo_depth: "memo_search (depthOf g) (depthSpec g)"
proof
  fix k
  assume "acyclic (searchEdges (depthOf g))"
  with longestChain_eq [of "knownEdges g" k] finite_knownEdges [of g]
  show "depthSpec g k = Max (insert (base (depthOf g) k)
      ((\<lambda>c. contrib (depthOf g) (depthSpec g c)) ` knownIn (depthOf g) (children (depthOf g) k)))"
    by (simp add: knownIn_children searchEdges_depth depthSpec_def) (simp add: depthOf_def)
qed

interpretation cpl: memo_search "cplOf (builtGraph y w ts cs)" "cplSpec (builtGraph y w ts cs)" for y w ts cs
  by (rule built.memo_cpl)

interpretation eff: memo_search "effectiveOf (builtGraph y w ts cs) r" "effSpec (builtGraph y w ts cs) r"
  for y w ts cs r
  by (rule built.memo_eff)

interpretation depth: memo_search "depthOf g" "depthSpec g" for g
  by (rule memo_depth)

subsection \<open>The records\<close>

definition recordOf :: "dependency_graph \<Rightarrow> resolver \<Rightarrow> string \<Rightarrow> dependency_node \<Rightarrow> effective_priority_record"
  where "recordOf g r k n = \<lparr>ep_id = dn_id n, ep_basePriority = baseOf g r k,
    ep_effectivePriority = effSpec g r k, ep_criticalPathLength = cplSpec g k,
    ep_lastModified = dn_lastModified n\<rparr>"

lemma fold_mapSet_get:
  "distinct (mapKeys es) \<Longrightarrow> mapGet (fold (\<lambda>(k, n). mapSet k (f n)) es m) k =
     (case mapGet es k of Some n \<Rightarrow> Some (f n) | None \<Rightarrow> mapGet m k)"
proof (induction es arbitrary: m)
  case (Cons e es)
  then have "fst e = k \<Longrightarrow> mapGet es k = None" by (auto simp: map_of_eq_None_iff)
  with Cons show ?case by (auto simp: split_beta map_simps split: option.splits)
qed simp

context task_graph
begin

lemma baseOf_node: "mapGet (nodes g) k = Some n \<Longrightarrow> baseOf g r k = priorityWeightFor n r"
  using keys_distinct
  by (simp add: baseOf_def basePriorities_def fold_mapSet_get del: map_of_eq_Some_iff Some_eq_map_of_iff)

lemma effectiveLoop_get:
  assumes "acyclic (depEdges g)"
  shows "cacheOk (effSpec g r) effCache \<Longrightarrow> cacheOk (cplSpec g) cplCache \<Longrightarrow> distinct (mapKeys es) \<Longrightarrow>
    set (mapKeys es) \<subseteq> set (mapKeys (nodes g)) \<Longrightarrow>
    mapGet (effectiveLoop g r es effCache cplCache out) k =
      (case mapGet es k of Some n \<Rightarrow> Some (recordOf g r k n) | None \<Rightarrow> mapGet out k)"
proof (induction es arbitrary: effCache cplCache out)
  case (Cons e es)
  obtain key n where e: "e = (key, n)" by fastforce
  obtain ev ec cv cc where v: "visit (effectiveOf g r) key [] effCache = (ev, ec)"
    "visit (cplOf g) key [] cplCache = (cv, cc)" by fastforce
  have acyc: "acyclic (searchEdges (effectiveOf g r))" "acyclic (searchEdges (cplOf g))"
    using assms by (simp_all add: searchEdges_eff searchEdges_cpl)
  have known: "mapHas (known (effectiveOf g r)) key" "mapHas (known (cplOf g)) key"
    using Cons.prems(4) e by (simp_all add: effectiveOf_def cplOf_def Let_def mapHas_def)
  have "ev = effSpec g r key" "cacheOk (effSpec g r) ec"
    using memo_search.visit_spec [OF memo_eff acyc(1) Cons.prems(1) known(1)] v(1) by simp_all
  moreover have "cv = cplSpec g key" "cacheOk (cplSpec g) cc"
    using memo_search.visit_spec [OF memo_cpl acyc(2) Cons.prems(2) known(2)] v(2) by simp_all
  moreover have "key = k \<Longrightarrow> mapGet es k = None"
    using Cons.prems(3) e by (auto simp: map_of_eq_None_iff)
  ultimately show ?case
    using Cons.IH [of ec cc "mapSet key (recordOf g r key n) out"] Cons.prems(3,4) e v
    by (auto simp: recordOf_def map_simps simp del: Some_eq_map_of_iff map_of_eq_Some_iff
        split: option.splits)
qed simp

lemma computeEffectivePriorities_get:
  assumes "acyclic (depEdges g)"
  shows "mapGet (computeEffectivePriorities g r) k = map_option (recordOf g r k) (mapGet (nodes g) k)"
  using effectiveLoop_get [OF assms, of r "[]" "[]" "nodes g" "[]" k] keys_distinct
  by (simp add: computeEffectivePriorities_def cacheOk_def del: Some_eq_map_of_iff map_of_eq_Some_iff
      split: option.splits)

end

subsection \<open>Range of the priorities\<close>

lemma readPriorityWeight_range: "1 \<le> readPriorityWeight raw \<and> readPriorityWeight raw \<le> 4"
  by (auto simp: readPriorityWeight_def DEFAULT_PRIORITY_WEIGHT_def PRIORITY_WEIGHT_def Let_def
      split: option.splits priority_bucket.splits)

lemma set_mapSet_values: "set (mapValues (mapSet k v m)) \<subseteq> insert v (set (mapValues m))"
  by (induction m) auto

lemma basePriorities_range: "\<forall>v \<in> set (mapValues (basePriorities g r)). 1 \<le> v \<and> v \<le> 4"
proof -
  have "\<forall>v \<in> set (mapValues (fold (\<lambda>(key, node). mapSet key (priorityWeightFor node r)) es m)). 1 \<le> v \<and> v \<le> 4"
    if "\<forall>v \<in> set (mapValues m). 1 \<le> v \<and> v \<le> 4" for es m
    using that
  proof (induction es arbitrary: m)
    case (Cons e es)
    have "1 \<le> priorityWeightFor (snd e) r \<and> priorityWeightFor (snd e) r \<le> 4"
      unfolding priorityWeightFor_def by (rule readPriorityWeight_range)
    with Cons.prems set_mapSet_values [of "fst e" "priorityWeightFor (snd e) r" m]
    have "\<forall>v \<in> set (mapValues (mapSet (fst e) (priorityWeightFor (snd e) r) m)). 1 \<le> v \<and> v \<le> 4"
      by blast
    from Cons.IH [OF this] show ?case by (cases e) simp
  qed simp
  from this [of "[]" "nodes g"] show ?thesis by (simp add: basePriorities_def)
qed

lemma baseOf_range: "1 \<le> baseOf g r k \<and> baseOf g r k \<le> 4"
  using basePriorities_range [of g r] mapGet_in_values [of "basePriorities g r" k]
  by (cases "mapGet (basePriorities g r) k")
    (auto simp: baseOf_def DEFAULT_PRIORITY_WEIGHT_def PRIORITY_WEIGHT_def)

definition inRange :: "effective_priority_record \<Rightarrow> bool" where
  "inRange e \<longleftrightarrow> 1 \<le> ep_basePriority e \<and> ep_basePriority e \<le> ep_effectivePriority e \<and>
     ep_effectivePriority e \<le> 4"

definition boundedFrom :: "nat \<Rightarrow> search \<Rightarrow> bool" where
  "boundedFrom B s \<longleftrightarrow> guard s = base s \<and> contrib s = (\<lambda>v. v) \<and> (\<forall>k. base s k \<le> B)"

definition cacheIn :: "nat \<Rightarrow> search \<Rightarrow> cache \<Rightarrow> bool" where
  "cacheIn B s cache \<longleftrightarrow> (\<forall>k v. mapGet cache k = Some v \<longrightarrow> base s k \<le> v \<and> v \<le> B)"

lemma cacheIn_mapSet: "cacheIn B s cache \<Longrightarrow> base s k \<le> v \<Longrightarrow> v \<le> B \<Longrightarrow> cacheIn B s (mapSet k v cache)"
  by (simp add: cacheIn_def map_simps)

lemma visit_bounds:
  "boundedFrom B s \<Longrightarrow> cacheIn B s cache \<Longrightarrow>
   (case visit s key onStack cache of (v, cache') \<Rightarrow> base s key \<le> v \<and> v \<le> B \<and> cacheIn B s cache')"
  "boundedFrom B s \<Longrightarrow> cacheIn B s cache \<Longrightarrow> best \<le> B \<Longrightarrow>
   (case visitChildren s cs onStack best cache of (v, cache') \<Rightarrow> best \<le> v \<and> v \<le> B \<and> cacheIn B s cache')"
proof (induction s key onStack cache and s cs onStack best cache rule: visit_visitChildren.induct)
  case (1 s key onStack cache)
  show ?case
  proof (cases "mapGet cache key")
    case None
    show ?thesis
    proof (cases "key \<in> set onStack")
      case False
      obtain v cache' where v: "visitChildren s (children s key) (key # onStack) (base s key) cache = (v, cache')"
        by fastforce
      from "1.prems"(1) have "base s key \<le> B" by (simp add: boundedFrom_def)
      then have "base s key \<le> v" "v \<le> B" "cacheIn B s cache'"
        using "1.IH" [OF None False "1.prems"] v by simp_all
      with v None False show ?thesis by (simp add: visit.simps cacheIn_mapSet)
    qed (use "1.prems" None in \<open>simp add: visit.simps boundedFrom_def\<close>)
  qed (use "1.prems" in \<open>simp add: visit.simps cacheIn_def\<close>)
next
  case (2 s onStack best cache)
  then show ?case by (simp add: visitChildren.simps)
next
  case (3 s c cs onStack best cache)
  show ?case
  proof (cases "mapHas (known s) (toLowerCase c)")
    case True
    obtain v cache' where v: "visit s (toLowerCase c) onStack cache = (v, cache')" by fastforce
    let ?best = "if best < v then v else best"
    have "base s (toLowerCase c) \<le> v" "v \<le> B" "cacheIn B s cache'"
      using "3.IH"(2) [OF refl _ "3.prems"(1,2)] True v by simp_all
    moreover have "contrib s = (\<lambda>v. v)" using "3.prems"(1) by (simp add: boundedFrom_def)
    moreover have "visitChildren s (c # cs) onStack best cache = visitChildren s cs onStack ?best cache'"
      using True v calculation(4) by (simp add: visitChildren.simps Let_def)
    moreover from "3.IH"(3) [OF refl _ refl _ refl, of v cache'] "3.prems" True v calculation
    have "contrib s = (\<lambda>v. v) \<Longrightarrow> case visitChildren s cs onStack ?best cache' of
        (v, cache'') \<Rightarrow> ?best \<le> v \<and> v \<le> B \<and> cacheIn B s cache''" by (cases "best < v") simp_all
    ultimately show ?thesis
      by (cases "visitChildren s cs onStack ?best cache'") (simp split: if_splits)
  qed (use 3 in \<open>simp add: visitChildren.simps\<close>)
qed

lemma effectiveLoop_bounds:
  assumes "cacheIn 4 (effectiveOf g r) effCache" and "\<forall>e \<in> set (mapValues out). inRange e"
  shows "\<forall>e \<in> set (mapValues (effectiveLoop g r es effCache cplCache out)). inRange e"
  using assms
proof (induction es arbitrary: effCache cplCache out)
  case (Cons e es)
  obtain key n where e: "e = (key, n)" by fastforce
  obtain ev ec cv cc where v: "visit (effectiveOf g r) key [] effCache = (ev, ec)"
    "visit (cplOf g) key [] cplCache = (cv, cc)" by fastforce
  have "boundedFrom 4 (effectiveOf g r)"
    using baseOf_range by (auto simp: boundedFrom_def effectiveOf_def Let_def)
  from visit_bounds(1) [OF this Cons.prems(1), of key "[]"] v
  have ev: "baseOf g r key \<le> ev" "ev \<le> 4" "cacheIn 4 (effectiveOf g r) ec"
    by (simp_all add: effectiveOf_def Let_def)
  let ?r = "\<lparr>ep_id = dn_id n, ep_basePriority = baseOf g r key,
      ep_effectivePriority = ev, ep_criticalPathLength = cv, ep_lastModified = dn_lastModified n\<rparr>"
  have "inRange ?r" using ev baseOf_range [of g r key] by (simp add: inRange_def)
  with Cons.prems(2) set_mapSet_values [of key ?r out]
  have "\<forall>e \<in> set (mapValues (mapSet key ?r out)). inRange e" by blast
  from Cons.IH [OF ev(3) this] e v show ?case by simp
qed simp

lemma computeEffectivePriorities_bounds:
  "e \<in> set (mapValues (computeEffectivePriorities g r)) \<Longrightarrow> inRange e"
  using effectiveLoop_bounds [of g r "[]" "[]" "nodes g" "[]"]
  by (auto simp: computeEffectivePriorities_def cacheIn_def)

end
