(* ===== verification/JsonCorrect.thy ===== *)
theory JsonCorrect
  imports Json
begin

text \<open>
  Printing then parsing a JSON value gives the value back, for every value whose object keys are
  distinct and whose numbers are integers (\<open>jsonOk\<close>); and the printed text has no line break, so
  one value fits on one line of a JSONL file.
\<close>

fun jsonOk :: "json \<Rightarrow> bool" where
  "jsonOk (JFloat t) \<longleftrightarrow> False"
| "jsonOk (JArr js) \<longleftrightarrow> (\<forall>j \<in> set js. jsonOk j)"
| "jsonOk (JObj m) \<longleftrightarrow> distinct (mapKeys m) \<and> (\<forall>j \<in> snd ` set m. jsonOk j)"
| "jsonOk j \<longleftrightarrow> True"

subsection \<open>Strings\<close>

lemma hexVal_hexDigit: "k < 16 \<Longrightarrow> hexVal (hexDigit k) = Some k"
  by (auto simp: hexVal_def hexDigit_def Let_def)

lemma hexVal_zero: "hexVal (CHR ''0'') = Some 0"
  by code_simp

lemma parseChars_escape:
  "parseChars (Suc f) (escapeChar c @ rest) = map_option (\<lambda>(a, b). (c # a, b)) (parseChars f rest)"
proof -
  let ?n = "of_char c :: nat"
  consider "?n \<in> {34, 92, 8, 12, 10, 13, 9}" | "?n < 32" "?n \<notin> {8, 12, 10, 13, 9}"
    | "32 \<le> ?n" "?n \<noteq> 34" "?n \<noteq> 92" by fastforce
  then show ?thesis
  proof cases
    case 1
    then have "?n = of_char (CHR 34) \<or> ?n = of_char (CHR 92) \<or> ?n = of_char (CHR 8) \<or>
      ?n = of_char (CHR 12) \<or> ?n = of_char (CHR 10) \<or> ?n = of_char (CHR 13) \<or> ?n = of_char (CHR 9)"
      by simp
    then show ?thesis
      unfolding of_char_eq_iff
      by (elim disjE) (simp_all add: escapeChar_def simpleEscape_def option.map_comp comp_def split_beta)
  next
    case 2
    have "c \<noteq> CHR 34" using 2 by auto
    moreover have "hex4 (CHR ''0'' # CHR ''0'' # hexDigit (?n div 16) # hexDigit (?n mod 16) # rest) = Some (?n, rest)"
      using 2 by (simp add: hexVal_zero hexVal_hexDigit)
    ultimately show ?thesis
      using 2 by (auto simp: escapeChar_def Let_def parseUnicode_def utf8_def option.map_comp comp_def split_beta)
  next
    case 3
    then have "c \<noteq> CHR 34" "c \<noteq> CHR 92" by auto
    with 3 show ?thesis by (auto simp: escapeChar_def Let_def)
  qed
qed

lemma parseChars_string:
  "length s < f \<Longrightarrow> parseChars f (concat (map escapeChar s) @ CHR 34 # rest) = Some (s, rest)"
proof (induction s arbitrary: f)
  case Nil
  then show ?case by (cases f) auto
next
  case (Cons c s)
  then obtain f' where f: "f = Suc f'" "length s < f'" by (cases f) auto
  have "parseChars (Suc f') (escapeChar c @ (concat (map escapeChar s) @ CHR 34 # rest)) = Some (c # s, rest)"
    unfolding parseChars_escape using Cons.IH [OF f(2)] by simp
  with f show ?case by simp
qed

lemma length_escapes: "length s \<le> length (concat (map escapeChar s))"
  by (induction s) (auto simp: escapeChar_def Let_def)

subsection \<open>Numbers\<close>

lemma isDigit_char: "(k::nat) < 10 \<Longrightarrow> isDigit (char_of (48 + k))"
  by (simp add: isDigit_def Let_def)

lemma showNat_digits: "list_all isDigit (showNat n) \<and> showNat n \<noteq> []"
  unfolding showNat_def
proof (induction n rule: digitsOf.induct)
  case (1 n)
  then show ?case by (subst (1 2) digitsOf.simps) (auto simp: isDigit_char)
qed

lemma showNat_no_zero: "1 < length (showNat n) \<Longrightarrow> hd (showNat n) \<noteq> CHR ''0''"
  unfolding showNat_def
proof (induction n rule: digitsOf.induct)
  case (1 n)
  show ?case
  proof (cases "n < 10")
    case True
    with 1 show ?thesis by (simp add: digitsOf.simps [of n])
  next
    case False
    show ?thesis
    proof (cases "n div 10 < 10")
      case True
      then have "digitsOf n = [char_of (48 + n div 10), char_of (48 + n mod 10)]"
        using False by (simp add: digitsOf.simps [of n] digitsOf.simps [of "n div 10"])
      moreover have "(of_char (char_of (48 + n div 10) :: char) :: nat) = 48 + n div 10" using True by simp
      moreover have "n div 10 \<noteq> 0" using False by auto
      moreover have "(of_char (CHR ''0'') :: nat) = 48" by simp
      ultimately show ?thesis by (metis add_cancel_left_right list.sel(1))
    next
      case big: False
      have "digitsOf (n div 10) \<noteq> []" using showNat_digits [of "n div 10"] by (simp add: showNat_def)
      moreover have "1 < length (digitsOf (n div 10))"
        using big showNat_digits [of "n div 10 div 10"] by (simp add: digitsOf.simps [of "n div 10"] showNat_def)
      ultimately show ?thesis using 1 False by (simp add: digitsOf.simps [of n])
    qed
  qed
qed

definition delimited :: "string \<Rightarrow> bool" where
  "delimited rest \<longleftrightarrow> rest = [] \<or> hd rest \<in> {CHR '','', CHR '']'', CHR ''}''}"

lemma digits_showNat:
  assumes "delimited rest"
  shows "takeWhile isDigit (showNat n @ rest) = showNat n" "dropWhile isDigit (showNat n @ rest) = rest"
proof -
  have "takeWhile isDigit rest = [] \<and> dropWhile isDigit rest = rest"
    using assms by (cases rest) (auto simp: delimited_def isDigit_def Let_def)
  moreover have "\<forall>c \<in> set (showNat n). isDigit c" using showNat_digits [of n] by (simp add: list_all_iff)
  ultimately show "takeWhile isDigit (showNat n @ rest) = showNat n"
    "dropWhile isDigit (showNat n @ rest) = rest"
    by (simp_all add: takeWhile_append2 dropWhile_append2)
qed

lemma parse_tail: "delimited rest \<Longrightarrow> parseFraction rest = Some ([], rest) \<and> parseExponent rest = Some ([], rest)"
  by (cases rest) (auto simp: delimited_def parseFraction_def parseExponent_def)

lemma showNat_first: "\<exists>c s. showNat n = c # s \<and> isDigit c"
  using showNat_digits [of n] by (cases "showNat n") auto

lemma parseNumber_showInt: "delimited rest \<Longrightarrow> parseNumber (showInt i @ rest) = Some (JNum i, rest)"
proof -
  assume d: "delimited rest"
  have nat: "c \<noteq> CHR ''-''" if "showNat n = c # s" for n c s
    using showNat_first [of n] that by (auto simp: isDigit_def)
  note parts = digits_showNat [OF d] parse_tail [OF d] showNat_no_zero natOfDigits_showNat
  show ?thesis
  proof (cases "i < 0")
    case True
    then show ?thesis
      using showNat_digits [of "nat (- i)"] showNat_no_zero [of "nat (- i)"]
      by (simp add: showInt_def parseNumber_def Let_def digits_def parts)
  next
    case False
    obtain c s where cs: "showNat (nat i) = c # s" using showNat_first [of "nat i"] by blast
    have "(case showNat (nat i) @ rest of [] \<Rightarrow> (False, []) | c # u \<Rightarrow>
        if c = CHR ''-'' then (True, u) else (False, showNat (nat i) @ rest)) = (False, showNat (nat i) @ rest)"
      using nat [OF cs] cs by simp
    with False show ?thesis
      using showNat_digits [of "nat i"] showNat_no_zero [of "nat i"]
      by (simp add: showInt_def parseNumber_def Let_def digits_def parts cong: list.case_cong)
  qed
qed

subsection \<open>Values\<close>

lemma first_not_space: "isDigit c \<Longrightarrow> \<not> jsonSpace c"
  by (auto simp: isDigit_def jsonSpace_def Let_def)

definition starter :: "char \<Rightarrow> bool" where
  "starter c \<longleftrightarrow> \<not> jsonSpace c \<and> \<not> isSpace c \<and> c \<noteq> CHR '']'' \<and> c \<noteq> CHR ''}''"

lemma stringify_first:
  assumes "jsonOk v"
  shows "\<exists>c s. stringify v = c # s \<and> starter c"
proof (cases v)
  case (JNum i)
  obtain c s where "showNat (nat (if i < 0 then - i else i)) = c # s" "isDigit c"
    using showNat_first by blast
  then show ?thesis
    using JNum by (auto simp: showInt_def starter_def jsonSpace_def isSpace_def isDigit_def Let_def)
qed (use assms in \<open>auto simp: stringifyString_def starter_def jsonSpace_def isSpace_def\<close>)

lemma skip_starter: "starter c \<Longrightarrow> skip (c # s) = c # s"
  by (simp add: skip_def starter_def)

lemma skip_bracket [simp]: "skip (CHR '']'' # s) = CHR '']'' # s" "skip (CHR ''}'' # s) = CHR ''}'' # s"
  "skip (CHR '','' # s) = CHR '','' # s" "skip (CHR '':'' # s) = CHR '':'' # s"
  "skip (CHR 34 # s) = CHR 34 # s" "skip (CHR ''['' # s) = CHR ''['' # s" "skip (CHR ''{'' # s) = CHR ''{'' # s"
  by (simp_all add: skip_def jsonSpace_def)

definition parses :: "nat \<Rightarrow> json \<Rightarrow> bool" where
  "parses f v \<longleftrightarrow> (\<forall>g rest. f \<le> g \<longrightarrow> delimited rest \<longrightarrow> parseValue g (stringify v @ rest) = Some (v, rest))"

lemma parses_Suc:
  assumes "\<And>h rest. delimited rest \<Longrightarrow> parseValue (Suc h) (stringify v @ rest) = Some (v, rest)"
    and "stringify v \<noteq> []"
  shows "parses (2 * length (stringify v)) v"
  unfolding parses_def
proof (intro allI impI)
  fix g rest
  assume "2 * length (stringify v) \<le> g" and "delimited rest"
  with assms show "parseValue g (stringify v @ rest) = Some (v, rest)" by (cases g) auto
qed

lemma parseElems_join:
  assumes "js \<noteq> []" and "\<And>j. j \<in> set js \<Longrightarrow> parses (2 * length (stringify j)) j"
    and "2 * length (joinWith '','' (map stringify js)) < f"
  shows "parseElems f (joinWith '','' (map stringify js) @ CHR '']'' # rest) = Some (js, rest)"
  using assms
proof (induction js arbitrary: f)
  case (Cons j js)
  obtain g where f: "f = Suc g" using Cons.prems(3) by (cases f) auto
  show ?case
  proof (cases "js = []")
    case True
    have "parseValue g (stringify j @ CHR '']'' # rest) = Some (j, CHR '']'' # rest)"
      using Cons.prems(2) [of j] Cons.prems(3) True f by (auto simp: parses_def delimited_def)
    then show ?thesis using True f by simp
  next
    case False
    let ?tl = "joinWith '','' (map stringify js)"
    have len: "length (joinWith '','' (map stringify (j # js))) = length (stringify j) + Suc (length ?tl)"
      using False by (simp add: joinWith_Cons)
    have "parseValue g (stringify j @ CHR '','' # ?tl @ CHR '']'' # rest) = Some (j, CHR '','' # ?tl @ CHR '']'' # rest)"
      using Cons.prems(2) [of j] Cons.prems(3) len f by (auto simp: parses_def delimited_def)
    moreover have "parseElems g (?tl @ CHR '']'' # rest) = Some (js, rest)"
      using Cons.prems(2,3) len f False by (intro Cons.IH) auto
    ultimately show ?thesis using False f by (simp add: joinWith_Cons)
  qed
qed simp

abbreviation member :: "string \<times> json \<Rightarrow> string" where
  "member p \<equiv> (case p of (k, j) \<Rightarrow> stringifyString k @ '':'' @ stringify j)"

lemma parseMembers_join:
  assumes "m \<noteq> []" and "\<And>j. j \<in> snd ` set m \<Longrightarrow> parses (2 * length (stringify j)) j"
    and "2 * length (joinWith '','' (map member m)) < f"
  shows "parseMembers f (joinWith '','' (map member m) @ CHR ''}'' # rest) = Some (m, rest)"
  using assms
proof (induction m arbitrary: f)
  case (Cons p m)
  obtain k j where p: "p = (k, j)" by fastforce
  obtain g where f: "f = Suc g" using Cons.prems(3) by (cases f) auto
  have key: "parseChars (Suc (length (concat (map escapeChar k) @ CHR 34 # r))) (concat (map escapeChar k) @ CHR 34 # r)
      = Some (k, r)" for r
    using length_escapes [of k] by (intro parseChars_string) simp
  show ?case
  proof (cases "m = []")
    case True
    have "parseValue g (stringify j @ CHR ''}'' # rest) = Some (j, CHR ''}'' # rest)"
      using Cons.prems(2) [of j] Cons.prems(3) True f p by (auto simp: parses_def delimited_def)
    then show ?thesis using True f p key [of "CHR '':'' # stringify j @ CHR ''}'' # rest"]
      by (simp add: stringifyString_def)
  next
    case False
    let ?tl = "joinWith '','' (map member m)"
    have len: "length (joinWith '','' (map member (p # m))) = length (member p) + Suc (length ?tl)"
      using False by (simp add: joinWith_Cons)
    have "parseValue g (stringify j @ CHR '','' # ?tl @ CHR ''}'' # rest) = Some (j, CHR '','' # ?tl @ CHR ''}'' # rest)"
      using Cons.prems(2) [of j] Cons.prems(3) len f p by (auto simp: parses_def delimited_def)
    moreover have "parseMembers g (?tl @ CHR ''}'' # rest) = Some (m, rest)"
      using Cons.prems(2,3) len f False by (intro Cons.IH) auto
    ultimately show ?thesis
      using False f p key [of "CHR '':'' # stringify j @ CHR '','' # ?tl @ CHR ''}'' # rest"]
      by (simp add: stringifyString_def joinWith_Cons)
  qed
qed simp

lemma fold_mapSet_distinct:
  "distinct (mapKeys n @ mapKeys m) \<Longrightarrow> fold (\<lambda>(k, v). mapSet k v) m n = n @ m"
proof (induction m arbitrary: n)
  case (Cons p m)
  have "mapSet k v n = n @ [(k, v)]" if "k \<notin> set (mapKeys n)" for k v
    using that by (induction n) auto
  with Cons.IH [of "n @ [p]"] Cons.prems show ?case by (cases p) auto
qed simp

lemma joinWith_first: "xs \<noteq> [] \<Longrightarrow> hd xs = c # s \<Longrightarrow> \<exists>t. joinWith sep xs = c # t"
  by (cases xs; cases "tl xs") auto

lemma parses_value: "jsonOk v \<Longrightarrow> parses (2 * length (stringify v)) v"
proof (induction v rule: stringify.induct)
  case (3 i)
  obtain c s where cs: "showInt i = c # s" "starter c"
    using stringify_first [of "JNum i"] by auto
  have "c \<notin> {CHR 34, CHR ''['', CHR ''{'', CHR ''n'', CHR ''t'', CHR ''f''}"
    using cs(1) showNat_first [of "nat i"] showNat_first [of "nat (- i)"]
    by (auto simp: showInt_def isDigit_def split: if_splits)
  moreover have "parseNumber (c # s @ rest) = Some (JNum i, rest)" if "delimited rest" for rest
    using parseNumber_showInt [OF that, of i] cs(1) by simp
  ultimately have "parseValue (Suc g) (c # s @ rest) = Some (JNum i, rest)" if "delimited rest" for g rest
    using that skip_starter [OF cs(2), of "s @ rest"] by simp
  then show ?case
    unfolding parses_def using cs(1) by (auto dest!: Suc_le_D)
next
  case (5 s)
  show ?case
    unfolding parses_def
  proof (intro allI impI)
    fix g rest
    assume "2 * length (stringify (JStr s)) \<le> g"
    then obtain h where "g = Suc h" by (cases g) (auto simp: stringifyString_def)
    moreover have "parseChars (Suc (length (concat (map escapeChar s) @ CHR 34 # rest)))
        (concat (map escapeChar s) @ CHR 34 # rest) = Some (s, rest)"
      using length_escapes [of s] by (intro parseChars_string) simp
    ultimately show "parseValue g (stringify (JStr s) @ rest) = Some (JStr s, rest)"
      by (simp add: stringifyString_def)
  qed
next
  case (6 js)
  show ?case
    unfolding parses_def
  proof (intro allI impI)
    fix g rest
    let ?j = "joinWith '','' (map stringify js)"
    assume "2 * length (stringify (JArr js)) \<le> g" and "delimited rest"
    then obtain h where h: "g = Suc h" "2 * length ?j < h" by (cases g) auto
    show "parseValue g (stringify (JArr js) @ rest) = Some (JArr js, rest)"
    proof (cases "js = []")
      case False
      then obtain c s where c: "hd (map stringify js) = c # s" "starter c"
        using stringify_first [of "hd js"] "6.prems" by (cases js) auto
      then obtain t where t: "?j = c # t" using joinWith_first [of "map stringify js"] False by auto
      have "parseElems h (?j @ CHR '']'' # rest) = Some (js, rest)"
        using 6 False h by (intro parseElems_join) auto
      with t c h skip_starter [OF c(2)] show ?thesis by (simp add: starter_def)
    qed (use h in simp)
  qed
next
  case (7 m)
  show ?case
    unfolding parses_def
  proof (intro allI impI)
    fix g rest
    let ?j = "joinWith '','' (map member m)"
    assume "2 * length (stringify (JObj m)) \<le> g" and "delimited rest"
    then obtain h where h: "g = Suc h" "2 * length ?j < h" by (cases g) auto
    show "parseValue g (stringify (JObj m) @ rest) = Some (JObj m, rest)"
    proof (cases "m = []")
      case False
      then obtain s where c: "hd (map member m) = CHR 34 # s"
        by (cases m) (auto simp: stringifyString_def)
      then obtain t where t: "?j = CHR 34 # t" using joinWith_first [of "map member m"] False by auto
      have "parseMembers h (?j @ CHR ''}'' # rest) = Some (m, rest)"
        using 7 False h by (intro parseMembers_join) force+
      with t h fold_mapSet_distinct [of "[]" m] "7.prems" show ?thesis by simp
    qed (use h in simp)
  qed
next
  case 1
  show ?case by (rule parses_Suc) (simp_all add: literal_def startsWith_def skip_def jsonSpace_def)
next
  case (2 b)
  show ?case
    by (rule parses_Suc) (cases b, simp_all add: literal_def startsWith_def skip_def jsonSpace_def)
qed simp

theorem parse_stringify: "jsonOk v \<Longrightarrow> parseJson (stringify v) = Some v"
proof -
  assume "jsonOk v"
  then have "parseValue (2 * length (stringify v) + 2) (stringify v @ []) = Some (v, [])"
    using parses_value [of v] unfolding parses_def delimited_def by (simp only: le_add1 simp_thms)
  then show ?thesis unfolding parseJson_def by (simp only: append_Nil2) (simp add: skip_def)
qed

subsection \<open>One value, one line\<close>

lemma escapeChar_line: "CHR 10 \<notin> set (escapeChar c)"
proof -
  have h: "hexDigit k \<noteq> CHR 10" if "k < 16" for k
    using hexVal_hexDigit [OF that] by (auto simp: hexVal_def)
  have "(of_char c :: nat) \<noteq> 10 \<Longrightarrow> c \<noteq> CHR 10" by auto
  moreover have "hexDigit (of_char c div 16) \<noteq> CHR 10" if "(of_char c :: nat) < 32"
    using that by (intro h) linarith
  moreover have "hexDigit (of_char c mod 16) \<noteq> CHR 10" by (intro h) simp
  ultimately show ?thesis by (auto simp: escapeChar_def Let_def)
qed

lemma stringifyString_line: "CHR 10 \<notin> set (stringifyString s)"
  using escapeChar_line by (auto simp: stringifyString_def)

lemma showNat_line: "CHR 10 \<notin> set (showNat n)"
  using showNat_digits [of n] by (auto simp: list_all_iff isDigit_def)

lemma set_joinWith: "set (joinWith sep xs) \<subseteq> set sep \<union> (\<Union>x \<in> set xs. set x)"
  by (induction sep xs rule: joinWith.induct) auto

lemma stringify_line: "jsonOk v \<Longrightarrow> CHR 10 \<notin> set (stringify v)"
proof (induction v rule: stringify.induct)
  case (3 i)
  show ?case using showNat_line by (simp add: showInt_def)
next
  case (5 s)
  show ?case by (simp add: stringifyString_line)
next
  case (6 js)
  then show ?case using set_joinWith [of "'',''" "map stringify js"]
    by auto
next
  case (7 m)
  then have "CHR 10 \<notin> set (member p)" if "p \<in> set m" for p
    using that stringifyString_line by (cases p) force
  then show ?case using set_joinWith [of "'',''" "map member m"] by auto
qed auto

lemma trim_starter: "starter c \<Longrightarrow> trim (c # s) \<noteq> []"
proof -
  assume "starter c"
  then have "dropWhile isSpace (c # s) = c # s" "\<not> isSpace c" by (auto simp: starter_def)
  then show ?thesis by (auto simp: trim_def trimStart_def trimEnd_def)
qed

lemma readJsonl_lines:
  "\<forall>j \<in> set js. jsonOk j \<Longrightarrow>
   readJsonl valid (concat (map jsonLine js)) = (filter valid js, length (filter (\<lambda>j. \<not> valid j) js))"
proof (induction js)
  case Nil
  then show ?case by (simp add: readJsonl_def trim_def trimStart_def trimEnd_def)
next
  case (Cons j js)
  obtain c s where "stringify j = c # s" "starter c" using Cons.prems stringify_first [of j] by auto
  then have "trim (stringify j) \<noteq> []" using trim_starter by simp
  moreover have "CHR 10 \<notin> set (stringify j)" "parseJson (stringify j) = Some j"
    using Cons.prems stringify_line parse_stringify by auto
  ultimately show ?case
    using Cons by (auto simp: readJsonl_def jsonLine_def newline_def splitOn_line)
qed

lemma jsonl_body:
  "js \<noteq> [] \<Longrightarrow> joinWith newline (map stringify js) @ newline = concat (map jsonLine js)"
proof (induction js)
  case (Cons j js)
  then show ?case by (cases js) (auto simp: jsonLine_def)
qed simp

end
