(* ===== verification/SnapshotCorrect.thy ===== *)
theory SnapshotCorrect
  imports Snapshot EffPriorityCorrect JsonCorrect
begin

text \<open>
  Lemmas on the dispatch order, the snapshot rows and files: what the rows hold, that a file
  name gives its stamp and tag back, what garbage collection removes, which snapshot is the
  latest, and that the logs read back what was written.
\<close>

subsection \<open>Dispatch order\<close>

lemma effectiveLoop_modified:
  "\<forall>e \<in> set (mapValues out). printableText (ep_lastModified e) \<Longrightarrow>
   \<forall>n \<in> set (mapValues es). printableText (dn_lastModified n) \<Longrightarrow>
   \<forall>e \<in> set (mapValues (effectiveLoop g r es effCache cplCache out)). printableText (ep_lastModified e)"
proof (induction g r es effCache cplCache out rule: effectiveLoop.induct)
  case (2 g r key node es effCache cplCache out)
  obtain ev ec cv cc where v: "visit (effectiveOf g r) key [] effCache = (ev, ec)"
    "visit (cplOf g) key [] cplCache = (cv, cc)" by fastforce
  let ?r = "\<lparr>ep_id = dn_id node, ep_basePriority = baseOf g r key, ep_effectivePriority = ev,
      ep_criticalPathLength = cv, ep_lastModified = dn_lastModified node\<rparr>"
  have "\<forall>e \<in> set (mapValues (mapSet key ?r out)). printableText (ep_lastModified e)"
    using "2.prems" set_mapSet_values [of key ?r out] by fastforce
  with "2.IH" [OF v(1) [symmetric] refl v(2) [symmetric] refl] "2.prems"(2) v show ?case by simp
qed simp

definition stampsPrintable :: "dependency_graph \<Rightarrow> bool" where
  "stampsPrintable g \<longleftrightarrow> everyIn (\<lambda>n. printableText (dn_lastModified n)) (mapValues (nodes g))"

lemma records_printable:
  assumes "stampsPrintable g" and "e \<in> set (mapValues (computeEffectivePriorities g r))"
  shows "printableText (ep_lastModified e)"
  using assms effectiveLoop_modified [of "[]" "nodes g" g r "[]" "[]"]
  by (auto simp: computeEffectivePriorities_def stampsPrintable_def list_all_iff)

lemma rankEntry_ok:
  assumes "stampsPrintable g"
  shows "keyOk (rankKey (rankEntry (computeEffectivePriorities g r) e))"
  using records_printable [OF assms, of _ r]
  by (cases "mapGet (computeEffectivePriorities g r) (toLowerCase (fe_id e))")
    (auto simp: keyOk_def rankKey_def rankEntry_def Let_def printableText_def dest: mapGet_in_values)

text \<open>Sorting by the dispatch key of an element.\<close>

interpretation ranked: js_comparator compareForDispatch "\<lambda>e. keyOk (rankKey e)"
proof
  fix x y z :: ranked_frontier_entry
  assume ok: "keyOk (rankKey x)" "keyOk (rankKey y)"
  then show "compareForDispatch x y \<le> 0 \<or> compareForDispatch y x \<le> 0"
    unfolding compareForDispatch_def by (rule dispatch.cmp_total)
  assume "keyOk (rankKey z)" "compareForDispatch x y \<le> 0" "compareForDispatch y z \<le> 0"
  with ok show "compareForDispatch x z \<le> 0"
    unfolding compareForDispatch_def by (blast intro: dispatch.cmp_trans)
qed

interpretation stamp: js_comparator "\<lambda>a b. localeCompare (ie_isoTimestamp a) (ie_isoTimestamp b)" "\<lambda>_. True"
  by unfold_locales (auto simp: localeCompare_def cmpOf_le)

subsection \<open>Snapshot rows\<close>

definition rowOf :: "dependency_graph \<Rightarrow> string \<Rightarrow> dependency_node \<Rightarrow> snapshot_record" where
  "rowOf g k n = \<lparr>sr_id = dn_id n, sr_dependencies = dn_dependencies n,
     sr_dependents = sortById (\<lambda>i. i) (orElse (mapGet (reverseEdges g) k) []),
     sr_depth = depthSpec g k, sr_criticalPathLength = cplSpec g k,
     sr_effectivePriority = effSpec g None k,
     sr_externalDependencies = dn_externalDependencies n, sr_lastModified = dn_lastModified n\<rparr>"

context task_graph
begin

lemma snapshotLoop_rows:
  assumes "acyclic (depEdges g)"
  shows "cacheOk (depthSpec g) dc \<Longrightarrow> cacheOk (cplSpec g) cc \<Longrightarrow>
    snapshotLoop g (computeEffectivePriorities g None) ks dc cc = List.map_filter (\<lambda>k. map_option (rowOf g k) (mapGet (nodes g) k)) ks"
proof (induction ks arbitrary: dc cc)
  case (Cons k ks)
  show ?case
  proof (cases "mapGet (nodes g) k")
    case None
    with Cons show ?thesis by (simp add: map_filter_def)
  next
    case (Some n)
    obtain dv dc' cv cc' where v: "visit (depthOf g) k [] dc = (dv, dc')"
      "visit (snapshotCplOf g) k [] cc = (cv, cc')" by fastforce
    have known: "mapHas (known (depthOf g)) k" "mapHas (known (snapshotCplOf g)) k"
      using Some by (simp_all add: depthOf_def snapshotCplOf_def Let_def mapHas_iff)
    have "acyclic (searchEdges (snapshotCplOf g))" using assms by (simp add: searchEdges_snapshotCpl)
    note c = memo_search.visit_spec [OF memo_snapshotCpl this Cons.prems(2) known(2)]
    have "acyclic (searchEdges (depthOf g))"
      using assms by (rule acyclic_subset) (auto simp: searchEdges_depth knownEdges_def)
    note d = depth.visit_spec [OF this Cons.prems(1) known(1)]
    have "dv = depthSpec g k" "cv = cplSpec g k"
      "snapshotLoop g (computeEffectivePriorities g None) ks dc' cc' = List.map_filter (\<lambda>k. map_option (rowOf g k) (mapGet (nodes g) k)) ks"
      using c d v Cons.IH by simp_all
    moreover have "snapshotLoop g (computeEffectivePriorities g None) (k # ks) dc cc =
        rowOf g k n # snapshotLoop g (computeEffectivePriorities g None) ks dc' cc'"
      using c d v Some computeEffectivePriorities_get [OF assms, of None k]
      by (simp add: rowOf_def recordOf_def Let_def del: Some_eq_map_of_iff map_of_eq_Some_iff)
    ultimately show ?thesis
      using Some by (simp add: map_filter_def del: Some_eq_map_of_iff map_of_eq_Some_iff)
  qed
qed (simp add: map_filter_def)

lemma computeSnapshotRecords_rows:
  assumes "acyclic (depEdges g)"
  shows "computeSnapshotRecords g =
    List.map_filter (\<lambda>k. map_option (rowOf g k) (mapGet (nodes g) k)) (sortById (\<lambda>k. k) (mapKeys (nodes g)))"
  unfolding computeSnapshotRecords_def by (rule snapshotLoop_rows [OF assms]) (simp_all add: cacheOk_def)

end

subsection \<open>File names\<close>

lemma tagText_chars: "list_all isTagChar (tagText t) \<and> tagText t \<noteq> []"
  by (cases t) (simp_all add: tagText_def isTagChar_def)

lemma tagText_inj: "tagText s = tagText t \<longleftrightarrow> s = t"
  by (cases s; cases t) (simp_all add: tagText_def)

lemma takeWhile_stop:
  "\<forall>c \<in> set xs. P c \<Longrightarrow> \<not> P d \<Longrightarrow>
   takeWhile P (xs @ d # ys) = xs \<and> dropWhile P (xs @ d # ys) = d # ys"
  by (induction xs) auto

lemma splitTag_name: "splitTag (s @ ''.'' @ tagText t @ ''.jsonl'') = Some (s, tagText t)"
proof -
  have dot: "\<not> isTagChar (CHR ''.'')" by code_simp
  have all: "\<forall>c \<in> set (rev (tagText t)). isTagChar c" using tagText_chars [of t] by (auto simp: list_all_iff)
  have "takeWhile isTagChar (rev (tagText t) @ CHR ''.'' # rev s) = rev (tagText t)"
    "dropWhile isTagChar (rev (tagText t) @ CHR ''.'' # rev s) = CHR ''.'' # rev s"
    using takeWhile_stop [OF all dot, of "rev s"] by simp_all
  then show ?thesis
    using tagText_chars [of t] by (simp add: splitTag_def endsWith_def suffix_def Let_def)
qed

lemma find_tag: "List.find (\<lambda>u. tagText u = tagText t) SNAPSHOT_TAGS = Some t"
  by (cases t) (simp_all add: SNAPSHOT_TAGS_def tagText_inj)

lemma extractTag_name: "extractTag (snapshotName stamp t) = Some t"
  using splitTag_name [of "''snapshot.'' @ stamp" t] by (simp add: extractTag_def snapshotName_def find_tag)

lemma extractIso_name: "extractIsoTimestamp (snapshotName stamp t) = stamp"
  using splitTag_name [of stamp t]
  by (simp add: extractIsoTimestamp_def snapshotName_def startsWith_def Let_def)

lemma isSnapshotFile_name: "isSnapshotFile (snapshotName stamp t)"
  by (simp add: isSnapshotFile_def snapshotName_def startsWith_def endsWith_def suffix_def)

subsection \<open>Garbage collection\<close>

definition expired :: "int \<Rightarrow> dir_file \<Rightarrow> bool" where
  "expired cutoff f \<longleftrightarrow> isSnapshotFile (df_name f) \<and> extractTag (df_name f) = Some Rolling \<and>
     (case df_stat f of None \<Rightarrow> False | Some (_, mtime) \<Rightarrow> mtime < cutoff)"

definition gone :: "int \<Rightarrow> dir_file \<Rightarrow> bool" where
  "gone cutoff f \<longleftrightarrow> expired cutoff f \<and> df_unlink f = None"

lemma gcLoop_step:
  assumes "gcLoop cutoff fs = (r, l, w)" and "gcLoop cutoff (f # fs) = (res, rest, warns)"
  shows "if gone cutoff f
    then rest = l \<and> gc_trimmed res = df_name f # gc_trimmed r \<and> warns = w
    else rest = f # l \<and> gc_trimmed res = gc_trimmed r"
proof (cases "isSnapshotFile (df_name f) \<and> extractTag (df_name f) = Some Rolling")
  case True
  with assms show ?thesis
    by (cases "df_stat f"; cases "df_unlink f") (auto simp: gone_def expired_def Let_def split: if_splits)
next
  case False
  with assms show ?thesis
    by (cases "isSnapshotFile (df_name f)"; cases "extractTag (df_name f)")
      (auto simp: gone_def expired_def Let_def)
qed

lemma gcLoop_filter:
  "gcLoop cutoff fs = (res, rest, warns) \<Longrightarrow>
     rest = filter (\<lambda>f. \<not> gone cutoff f) fs \<and> gc_trimmed res = map df_name (filter (gone cutoff) fs)"
proof (induction fs arbitrary: res rest warns)
  case (Cons f fs)
  obtain r l w where "gcLoop cutoff fs = (r, l, w)" by (metis prod_cases3)
  with gcLoop_step [OF this Cons.prems] Cons.IH [OF this] show ?case
    by (auto split: if_splits)
qed auto

subsection \<open>Reading back\<close>

lemma snapshotJson_ok: "jsonOk (snapshotJson r) \<and> isSnapshotRecord (snapshotJson r)"
  by (auto simp: snapshotJson_def strings_def externalJson_def isSnapshotRecord_def split: option.splits)

lemma overrideJson_ok:
  "jsonOk (overrideJson e) \<and> (oe_operatorPickedId e \<noteq> [] \<longrightarrow> isValidOverrideEntry (overrideJson e))"
  by (auto simp: overrideJson_def isValidOverrideEntry_def isValidRanking_def list_all_iff
      split: option.splits)

lemma snapshot_body:
  "joinWith newline (map (\<lambda>r. stringify (snapshotJson r)) rs) @ (if rs \<noteq> [] then newline else []) =
   concat (map jsonLine (map snapshotJson rs))"
  using jsonl_body [of "map snapshotJson rs"] by (auto simp: comp_def)

lemma readJsonl_snapshot:
  "readJsonl isSnapshotRecord (concat (map jsonLine (map snapshotJson rs))) = (map snapshotJson rs, 0)"
proof -
  have "\<forall>j \<in> set (map snapshotJson rs). jsonOk j \<and> isSnapshotRecord j" using snapshotJson_ok by auto
  then show ?thesis by (simp add: readJsonl_lines filter_id_conv del: map_map)
qed

text \<open>A snapshot with a later stamp than every other is the one the loader picks.\<close>

definition newestStamp :: "string \<Rightarrow> directory \<Rightarrow> bool" where
  "newestStamp stamp dir \<longleftrightarrow>
     everyIn (\<lambda>e. localeCompare (ie_isoTimestamp e) stamp < 0) (inspectSnapshots None (Some dir))"

lemma sorted_last:
  assumes "sorted_wrt (\<lambda>a b. cmp a b \<le> (0::int)) xs" and "m \<in> set xs"
    and "\<And>x. x \<in> set xs \<Longrightarrow> x \<noteq> m \<Longrightarrow> \<not> cmp m x \<le> 0"
  shows "last xs = m"
  using assms
proof (induction xs)
  case (Cons y ys)
  show ?case
  proof (cases "m \<in> set ys")
    case False
    with Cons.prems have "y = m" by simp
    moreover have "ys = []"
    proof (rule ccontr)
      assume "ys \<noteq> []"
      then have "cmp m (hd ys) \<le> 0" "hd ys \<noteq> m" "hd ys \<in> set (y # ys)"
        using Cons.prems(1) \<open>y = m\<close> False by (cases ys; auto)+
      with Cons.prems(3) show False by blast
    qed
    ultimately show ?thesis by simp
  qed (use Cons in auto)
qed simp

lemma inspectFile_name:
  assumes "df_name f = snapshotName stamp t" and "stamp \<noteq> []"
  shows "\<exists>e. inspectFile None f = Some e \<and> ie_isoTimestamp e = stamp \<and> ie_source e = f \<and>
    ie_tag e = t \<and> ie_file e = df_name f"
  using assms by (simp add: inspectFile_def isSnapshotFile_name extractTag_name extractIso_name Let_def)

lemma newest_fresh:
  assumes "newestStamp stamp dir" and "stamp \<noteq> []" and "f \<in> set dir"
  shows "df_name f \<noteq> snapshotName stamp t"
proof
  assume "df_name f = snapshotName stamp t"
  then obtain e where e: "inspectFile None f = Some e" "ie_isoTimestamp e = stamp"
    using inspectFile_name assms(2) by metis
  then have "e \<in> set (inspectSnapshots None (Some dir))"
    using assms(3) by (force simp: inspectSnapshots_def set_mapFilter)
  with assms(1) e(2) show False
    by (auto simp: newestStamp_def list_all_iff localeCompare_def cmpOf_def)
qed

lemma last_snapshot:
  assumes "newestStamp stamp dir" and "inspectFile None f = Some e" and "ie_isoTimestamp e = stamp"
  shows "last (inspectSnapshots None (Some (dir @ [f]))) = e"
proof -
  let ?cmp = "\<lambda>a b. localeCompare (ie_isoTimestamp a) (ie_isoTimestamp b)"
  have set_all: "set (inspectSnapshots None (Some (dir @ [f]))) = insert e (set (inspectSnapshots None (Some dir)))"
    using assms(2) by (auto simp: inspectSnapshots_def set_mapFilter)
  show ?thesis
  proof (rule sorted_last)
    show "sorted_wrt (\<lambda>a b. ?cmp a b \<le> 0) (inspectSnapshots None (Some (dir @ [f])))"
      unfolding inspectSnapshots_def option.case by (rule stamp.sorted_sortBy) simp
    show "e \<in> set (inspectSnapshots None (Some (dir @ [f])))" by (simp add: set_all)
    fix x
    assume "x \<in> set (inspectSnapshots None (Some (dir @ [f])))" and "x \<noteq> e"
    then have "localeCompare (ie_isoTimestamp x) stamp < 0"
      using assms(1) set_all by (auto simp: newestStamp_def list_all_iff)
    then show "\<not> ?cmp e x \<le> 0"
      using assms(3) by (auto simp: localeCompare_def cmpOf_def split: if_splits)
  qed
qed

lemma putFile_fresh: "\<forall>f \<in> set dir. df_name f \<noteq> df_name e \<Longrightarrow> putFile e dir = dir @ [e]"
  by (auto simp: putFile_def list_ex_iff)

end
