(* ===== verification/RankProps.thy ===== *)
theory RankProps
  imports DepProps SnapshotCorrect
begin

text \<open>
  The properties of the dispatch ranking, the snapshot files and the override log.
\<close>

text \<open>C4. On an acyclic backlog the memoised searches compute what their names say: each record
  carries the largest base priority in its downstream closure and the length of the longest
  chain of dependents.\<close>

theorem effective_priorities_exact:
  assumes "vr_cycles (validate (builtGraph y w ts cs)) = []"
  shows "mapGet (computeEffectivePriorities (builtGraph y w ts cs) r) k =
    map_option (\<lambda>n. \<lparr>ep_id = dn_id n,
        ep_basePriority = priorityWeightFor n r,
        ep_effectivePriority = Max (baseOf (builtGraph y w ts cs) r `
          {j. (j, k) \<in> (depEdges (builtGraph y w ts cs))\<^sup>*}),
        ep_criticalPathLength = Max {len. \<exists>j. (k, j) \<in> ((depEdges (builtGraph y w ts cs))\<inverse>) ^^ len},
        ep_lastModified = dn_lastModified n\<rparr>)
      (mapGet (nodes (builtGraph y w ts cs)) k)"
proof -
  have "acyclic (depEdges (builtGraph y w ts cs))" using assms by (simp add: validate_cycles_complete)
  note built.computeEffectivePriorities_get [OF this, of r k]
  then show ?thesis
    using built.baseOf_node [of y w ts cs k _ r]
    by (cases "mapGet (nodes (builtGraph y w ts cs)) k")
      (simp_all add: recordOf_def effSpec_def downstream_def cplSpec_def longestChain_def chainLengths_def
        del: Some_eq_map_of_iff map_of_eq_Some_iff)
qed

text \<open>A low-priority blocker B of a critical task C: B inherits the weight of C.\<close>

definition priorityTask :: "string \<Rightarrow> string \<Rightarrow> string \<Rightarrow> task_file" where
  "priorityTask i prio deps = \<lparr>tf_name = i @ ''.md'',
     tf_content = Inr (joinWith newline [''---'', ''id: '' @ i, ''priority: '' @ prio,
       ''dependencies: ['' @ deps @ '']'', ''---'', ''body'']),
     tf_mtime = Some ''2026-05-01''\<rparr>"

definition boostGraph :: dependency_graph where
  "boostGraph = builtGraph flatYaml ''.''
     (Some [priorityTask ''A'' ''high'' '''', priorityTask ''B'' ''low'' '''', priorityTask ''C'' ''critical'' ''B'']) None"

theorem effective_priorities_exact_witness:
  "Max (baseOf boostGraph None ` {j. (j, ''b'') \<in> (depEdges boostGraph)\<^sup>*}) = 4"
proof -
  have "vr_cycles (validate boostGraph) = []" by code_simp
  note exact = effective_priorities_exact [OF this [unfolded boostGraph_def], of None "''b''", folded boostGraph_def]
  have "map_option ep_effectivePriority (mapGet (computeEffectivePriorities boostGraph None) ''b'') = Some 4"
    by code_simp
  then show ?thesis unfolding exact by (cases "mapGet (nodes boostGraph) ''b''") auto
qed

text \<open>On any graph, cyclic or not, every effective priority lies between the task's own
  weight and the weight of \<open>critical\<close>: inheritance never lowers a task and never exceeds 4.\<close>

theorem effective_priorities_in_range:
  "\<nexists>e. e \<in> set (mapValues (computeEffectivePriorities g r)) \<and>
     \<not> (1 \<le> ep_basePriority e \<and> ep_basePriority e \<le> ep_effectivePriority e \<and> ep_effectivePriority e \<le> 4)"
  using computeEffectivePriorities_bounds by (auto simp: inRange_def)


definition composed :: sort_opts where
  "composed = \<lparr>so_forceComposition = False, so_forceBaseline = False, so_priorityResolver = None\<rparr>"


text \<open>The snapshot of an acyclic backlog has one row per task, in the collation order of the
  keys; its depth is the longest chain of known dependencies, its critical path length the
  longest chain of dependents, its effective priority the largest weight downstream.\<close>

theorem snapshot_rows_exact:
  assumes "vr_cycles (validate (builtGraph y w ts cs)) = []"
  shows "computeSnapshotRecords (builtGraph y w ts cs) =
    List.map_filter (\<lambda>k. map_option (rowOf (builtGraph y w ts cs) k) (mapGet (nodes (builtGraph y w ts cs)) k))
      (sortById (\<lambda>k. k) (mapKeys (nodes (builtGraph y w ts cs))))"
  using assms by (simp add: validate_cycles_complete built.computeSnapshotRecords_rows)

theorem snapshot_rows_exact_witness:
  "map sr_depth (List.map_filter (\<lambda>k. map_option (rowOf chainGraph k) (mapGet (nodes chainGraph) k))
      (sortById (\<lambda>k. k) (mapKeys (nodes chainGraph)))) = [1, 2, 3, 0]"
proof -
  have "vr_cycles (validate chainGraph) = []" by code_simp
  note exact = snapshot_rows_exact [OF this [unfolded chainGraph_def], folded chainGraph_def]
  have "map sr_depth (computeSnapshotRecords chainGraph) = [1, 2, 3, 0]" by code_simp
  then show ?thesis unfolding exact .
qed

text \<open>Written, then loaded: when composition is on and the stamp is later than those of the
  snapshots already there, the loader picks the file just written, parses every row as it was
  computed and skips none.\<close>

theorem snapshot_roundtrip:
  assumes "isCompositionEnabled env" and "newestStamp (map (\<lambda>c. if c = CHR '':'' then CHR ''-'' else c) t) dir"
    and "t \<noteq> []"
  shows "map_option (\<lambda>s. (ls_tag s, ls_records s, ls_skipped s))
      (loadLatestSnapshot None (Some (fst (writeSnapshot env tag now t g dir)))) =
    Some (tag, map snapshotJson (computeSnapshotRecords g), 0)"
proof -
  let ?stamp = "map (\<lambda>c. if c = CHR '':'' then CHR ''-'' else c) t"
  let ?body = "concat (map jsonLine (map snapshotJson (computeSnapshotRecords g)))"
  let ?f = "\<lparr>df_name = snapshotName ?stamp tag, df_stat = Some (length ?body, now), df_unlink = None,
      df_body = Some ?body\<rparr>"
  have "putFile ?f dir = dir @ [?f]"
    using newest_fresh [OF assms(2)] assms(3) by (intro putFile_fresh) auto
  then have dir: "fst (writeSnapshot env tag now t g dir) = dir @ [?f]"
    using assms(1) by (simp add: writeSnapshot_def Let_def snapshot_body del: map_map)
  obtain e where e: "inspectFile None ?f = Some e" "ie_isoTimestamp e = ?stamp" "ie_source e = ?f" "ie_tag e = tag"
    using inspectFile_name [of ?f ?stamp tag] assms(3) by auto
  have "inspectSnapshots None (Some (dir @ [?f])) \<noteq> []"
    using e(1) by (auto simp: inspectSnapshots_def map_filter_def)
  then show ?thesis
    using last_snapshot [OF assms(2) e(1,2)] e(3,4)
    by (simp add: dir loadLatestSnapshot_def Let_def readJsonl_snapshot del: map_map)
qed

theorem snapshot_roundtrip_witness:
  "map_option (\<lambda>s. (ls_tag s, ls_records s, ls_skipped s))
      (loadLatestSnapshot None (Some (fst (writeSnapshot None Dispatch 0 ''2026-05-01T00:00:00.000Z'' chainGraph [])))) =
    Some (Dispatch, map snapshotJson (computeSnapshotRecords chainGraph), 0)"
  by (rule snapshot_roundtrip) code_simp+

text \<open>Garbage collection removes exactly the rolling snapshots modified before the cutoff
  whose removal does not fail, and reports them as trimmed; every other file stays.\<close>

theorem gc_removes_expired_only:
  assumes "gcRollingSnapshots maxAge now (Some dir) = (res, remaining, warns)"
  shows "remaining = filter (\<lambda>f. \<not> gone (now - int (orElse maxAge 30) * 86400000) f) dir \<and>
    gc_trimmed res = map df_name (filter (gone (now - int (orElse maxAge 30) * 86400000)) dir) \<and>
    (\<nexists>f. f \<in> set dir \<and> f \<notin> set remaining \<and> extractTag (df_name f) \<noteq> Some Rolling)"
proof -
  have "gcLoop (now - int (orElse maxAge 30) * 86400000) dir = (res, remaining, warns)"
    using assms by (simp add: gcRollingSnapshots_def algebra_simps)
  from gcLoop_filter [OF this] show ?thesis by (auto simp: gone_def expired_def)
qed

definition oldFile :: "string \<Rightarrow> dir_file" where
  "oldFile n = \<lparr>df_name = n, df_stat = Some (7, 0), df_unlink = None, df_body = Some []\<rparr>"

theorem gc_removes_expired_only_witness:
  "snd (gcRollingSnapshots (Some 1) 90000000
     (Some [oldFile ''snapshot.x.rolling.jsonl'', oldFile ''snapshot.x.dispatch.jsonl''])) =
   ([oldFile ''snapshot.x.dispatch.jsonl''], [])"
proof -
  let ?dir = "[oldFile ''snapshot.x.rolling.jsonl'', oldFile ''snapshot.x.dispatch.jsonl'']"
  obtain res rest warns where r: "gcRollingSnapshots (Some 1) 90000000 (Some ?dir) = (res, rest, warns)"
    by (metis prod_cases3)
  have "rest = filter (\<lambda>f. \<not> gone (90000000 - int (orElse (Some 1) 30) * 86400000) f) ?dir"
    using gc_removes_expired_only [OF r] by blast
  moreover have "\<dots> = [oldFile ''snapshot.x.dispatch.jsonl'']" by code_simp
  moreover have "snd (snd (gcRollingSnapshots (Some 1) 90000000 (Some ?dir))) = []" by code_simp
  ultimately show ?thesis using r by simp
qed

text \<open>An override appended to the log is read back last, valid, with its ranking cut to the
  first ten; nothing already in the log is lost.\<close>

theorem override_log_roundtrip:
  assumes "oe_operatorPickedId input \<noteq> []"
  shows "loadOverrides (Some (snd (appendOverrideEntry input (concat (map (\<lambda>e. jsonLine (overrideJson e)) old))))) =
    (map overrideJson (filter (\<lambda>e. oe_operatorPickedId e \<noteq> []) old) @ [overrideJson (fst (appendOverrideEntry input log))],
     length (filter (\<lambda>e. oe_operatorPickedId e = []) old)) \<and>
    length (oe_ranking (fst (appendOverrideEntry input log))) \<le> 10"
proof -
  let ?e = "fst (appendOverrideEntry input log)"
  have e: "oe_operatorPickedId ?e \<noteq> []" using assms by (simp add: appendOverrideEntry_def Let_def)
  have log: "snd (appendOverrideEntry input (concat (map (\<lambda>e. jsonLine (overrideJson e)) old))) =
      concat (map jsonLine (map overrideJson (old @ [?e])))"
    by (simp add: appendOverrideEntry_def Let_def comp_def)
  have "isValidOverrideEntry (overrideJson x) \<longleftrightarrow> oe_operatorPickedId x \<noteq> []" for x
    using overrideJson_ok [of x] by (auto simp: overrideJson_def isValidOverrideEntry_def)
  moreover have "\<forall>j \<in> set (map overrideJson (old @ [?e])). jsonOk j" using overrideJson_ok by auto
  ultimately show ?thesis
    unfolding loadOverrides_def log option.case
    by (subst readJsonl_lines) (auto simp: e assms filter_map comp_def appendOverrideEntry_def Let_def)
qed

definition pick :: "string \<Rightarrow> override_entry" where
  "pick i = \<lparr>oe_ts = ''2026-05-01'', oe_snapshotPath = [], oe_dispatcherTopId = ''A'', oe_operatorPickedId = i,
     oe_ranking = [(''A'', 1), (i, 2)], oe_reason = Some ''ready'', oe_mode = Some []\<rparr>"

theorem override_log_roundtrip_witness:
  "loadOverrides (Some (snd (appendOverrideEntry (pick ''B'') (concat (map (\<lambda>e. jsonLine (overrideJson e)) [pick ''C''])))))
   = ([overrideJson (pick ''C''), overrideJson (fst (appendOverrideEntry (pick ''B'') []))], 0)"
proof -
  have "oe_operatorPickedId (pick ''B'') \<noteq> []" by code_simp
  from override_log_roundtrip [OF this, of "[pick ''C'']" "[]", THEN conjunct1]
  show ?thesis by (simp add: pick_def)
qed

end
