(* ===== verification/Branch.thy ===== *)
theory Branch
  imports DepGraph Json
begin

text \<open>
  Branch names: \<open>pipeline-cli/src/steps/02-compute-branch.ts\<close>. The two configuration files are
  given by their texts (\<open>None\<close>: absent), js-yaml is the parameter \<open>yamlLoad\<close>, warnings are
  returned.
\<close>

definition DEFAULT_PATTERN :: string where
  "DEFAULT_PATTERN = ''ai-sdlc/{issueIdLower}-{slug}''"

definition FALLBACK_SLUG :: string where
  "FALLBACK_SLUG = ''task''"

subsection \<open>Slugs\<close>

definition isSlugChar :: "char \<Rightarrow> bool" where
  "isSlugChar c \<longleftrightarrow> (let n = of_char c :: nat in (97 \<le> n \<and> n \<le> 122) \<or> (48 \<le> n \<and> n \<le> 57))"

text \<open>\<open>replace(/[^a-z0-9]+/g, '-')\<close>: a run of other characters becomes one dash.\<close>

fun dashRuns :: "bool \<Rightarrow> string \<Rightarrow> string" where
  "dashRuns inRun [] = []"
| "dashRuns inRun (c # s) =
     (if isSlugChar c then c # dashRuns False s
      else if inRun then dashRuns True s else CHR ''-'' # dashRuns True s)"

definition stripDashes :: "string \<Rightarrow> string" where
  "stripDashes s = (let dash = (\<lambda>c. c = CHR ''-'') in rev (dropWhile dash (rev (dropWhile dash s))))"

definition slugify :: "string \<Rightarrow> string" where
  "slugify title = take 50 (stripDashes (dashRuns False (toLowerCase title)))"

subsection \<open>Reading the branch pattern\<close>

definition yField :: "yaml \<Rightarrow> string \<Rightarrow> yaml option" where
  "yField y k = (case y of YMap m \<Rightarrow> mapGet m k | _ \<Rightarrow> None)"

definition yNullish :: "yaml option \<Rightarrow> bool" where
  "yNullish y \<longleftrightarrow> y = None \<or> y = Some YNull"

definition yIsObject :: "yaml option \<Rightarrow> bool" where
  "yIsObject y = (case y of Some (YMap _) \<Rightarrow> True | Some (YList _) \<Rightarrow> True | _ \<Rightarrow> False)"

fun walkKeyPath :: "yaml option \<Rightarrow> string list \<Rightarrow> yaml option" where
  "walkKeyPath cur [] = cur"
| "walkKeyPath cur (segment # segs) =
     (if \<not> yIsObject cur then None
      else walkKeyPath (case cur of Some y \<Rightarrow> yField y segment | None \<Rightarrow> None) segs)"

definition parsePipelineBacklogKey :: "yaml_loader \<Rightarrow> string \<Rightarrow> string list \<Rightarrow> yaml option" where
  "parsePipelineBacklogKey yamlLoad raw keyPath =
     (case yamlLoad raw of
        Inl _ \<Rightarrow> None
      | Inr parsed \<Rightarrow>
          if \<not> yIsObject (Some parsed) then None
          else let direct = yField parsed ''backlog'';
                   nested = (case yField parsed ''spec'' of None \<Rightarrow> None | Some s \<Rightarrow> yField s ''backlog'');
                   backlog = (if yNullish direct then nested else direct)
               in if \<not> yIsObject backlog then None else walkKeyPath backlog keyPath)"

definition parseLegacyKey :: "yaml_loader \<Rightarrow> string \<Rightarrow> string list \<Rightarrow> yaml option" where
  "parseLegacyKey yamlLoad raw keyPath =
     (case yamlLoad raw of
        Inl _ \<Rightarrow> None
      | Inr parsed \<Rightarrow>
          if \<not> yIsObject (Some parsed) then None else walkKeyPath (Some parsed) keyPath)"

definition nonEmptyString :: "yaml option \<Rightarrow> string option" where
  "nonEmptyString y = (case y of Some (YScalar s) \<Rightarrow> if s = [] then None else Some s | _ \<Rightarrow> None)"

record config_files =
  cf_pipelineYaml :: "string option"
  cf_legacyYaml :: "string option"

definition deprecationWarning :: string where
  "deprecationWarning = ''[ai-sdlc] DEPRECATION: reading branching.pattern from .ai-sdlc/pipeline-backlog.yaml. '' @
     ''Migrate this setting to .ai-sdlc/pipeline.yaml under spec.backlog.branching.pattern. '' @
     ''pipeline-backlog.yaml will be removed in the next major release (AISDLC-245.5).''"

definition readBranchPattern :: "yaml_loader \<Rightarrow> config_files \<Rightarrow> string \<Rightarrow> string \<times> string list" where
  "readBranchPattern yamlLoad cfg fallback =
     (let key = [''branching'', ''pattern''];
          canonical = (case cf_pipelineYaml cfg of None \<Rightarrow> None
            | Some raw \<Rightarrow> nonEmptyString (parsePipelineBacklogKey yamlLoad raw key));
          legacy = (case cf_legacyYaml cfg of None \<Rightarrow> None
            | Some raw \<Rightarrow> nonEmptyString (parseLegacyKey yamlLoad raw key))
      in case canonical of
           Some p \<Rightarrow> (p, [])
         | None \<Rightarrow> (case legacy of Some p \<Rightarrow> (p, [deprecationWarning]) | None \<Rightarrow> (fallback, [])))"

subsection \<open>Substitution\<close>

text \<open>\<open>s.replace(/p/g, r)\<close> for a literal pattern and a replacement without dollar signs.\<close>

function replaceAll :: "string \<Rightarrow> string \<Rightarrow> string \<Rightarrow> string" where
  "replaceAll p r [] = []"
| "replaceAll p r (c # s) =
     (if p \<noteq> [] \<and> startsWith (c # s) p then r @ replaceAll p r (drop (length p) (c # s))
      else c # replaceAll p r s)"
  by pat_completeness auto
termination replaceAll
  by (relation "measure (\<lambda>(p, r, s). length s)") (auto simp: length_greater_0_conv [symmetric] simp del: length_greater_0_conv)

definition fillPattern :: "string \<Rightarrow> string \<Rightarrow> string \<Rightarrow> string" where
  "fillPattern pattern taskIdLower slug =
     replaceAll ''{slug}'' slug (replaceAll ''{issueIdLower}'' taskIdLower pattern)"

record branch_result =
  br_branch :: string
  br_worktreePath :: string
  br_slug :: string
  br_taskIdLower :: string

definition degradedSlugWarning :: "string \<Rightarrow> string \<Rightarrow> string" where
  "degradedSlugWarning taskId title =
     ''[ai-sdlc] computeBranchName: slug normalisation of title '' @ stringifyString title @
     '' (task '' @ taskId @ '') produced an empty string; using fallback slug '' @
     stringifyString FALLBACK_SLUG @
     ''. If the title field uses YAML block-scalar (>- or |-), confirm the frontmatter parser '' @
     ''decodes it to the unwrapped string before slugify().''"

definition computeBranchName ::
  "yaml_loader \<Rightarrow> config_files \<Rightarrow> string \<Rightarrow> string option \<Rightarrow> string \<Rightarrow> string \<Rightarrow> branch_result \<times> string list" where
  "computeBranchName yamlLoad cfg workDir defaultPattern taskId title =
     (let taskIdLower = toLowerCase taskId;
          (pattern, warns) = readBranchPattern yamlLoad cfg (orElse defaultPattern DEFAULT_PATTERN);
          rawSlug = slugify title;
          degraded = (rawSlug = [] \<and> strIncludes pattern ''{slug}'');
          slug = (if degraded then FALLBACK_SLUG else rawSlug)
      in (\<lparr>br_branch = fillPattern pattern taskIdLower slug,
           br_worktreePath = workDir @ ''/.worktrees/'' @ taskIdLower,
           br_slug = slug, br_taskIdLower = taskIdLower\<rparr>,
          warns @ (if degraded then [degradedSlugWarning taskId title] else [])))"

subsection \<open>The shape of a slug\<close>

lemma dashRuns_chars: "c \<in> set (dashRuns b s) \<Longrightarrow> isSlugChar c \<or> c = CHR ''-''"
  by (induction b s rule: dashRuns.induct) (auto split: if_splits)

lemma not_slug_dash: "\<not> isSlugChar (CHR ''-'')"
  by code_simp

definition noDashPair :: "string \<Rightarrow> bool" where
  "noDashPair s \<longleftrightarrow> \<not> sublist ''--'' s"

lemma dashRuns_single:
  "(b \<longrightarrow> s' = dashRuns b s \<longrightarrow> (s' = [] \<or> hd s' \<noteq> CHR ''-'')) \<and> noDashPair (dashRuns b s)"
proof (induction b s arbitrary: s' rule: dashRuns.induct)
  case (2 inRun c s)
  show ?case
  proof (cases "isSlugChar c")
    case True
    then have "c \<noteq> CHR ''-''" using not_slug_dash by auto
    with 2 True show ?thesis by (auto simp: noDashPair_def sublist_Cons_right)
  next
    case False
    with 2 show ?thesis
      by (cases inRun; cases "dashRuns True s") (auto simp: noDashPair_def sublist_Cons_right)
  qed
qed (simp add: noDashPair_def)

lemma stripDashes_sublist: "sublist (stripDashes s) s"
proof -
  have "suffix (dropWhile (\<lambda>c. c = CHR ''-'') s) s" by (rule suffix_dropWhile)
  moreover have "prefix (stripDashes s) (dropWhile (\<lambda>c. c = CHR ''-'') s)"
    unfolding stripDashes_def Let_def
    by (metis suffix_dropWhile rev_rev_ident suffix_to_prefix)
  ultimately show ?thesis by (meson prefix_imp_sublist sublist_order.order.trans suffix_imp_sublist)
qed

lemma slugify_sublist: "sublist (slugify t) (dashRuns False (toLowerCase t))"
  unfolding slugify_def
  by (meson prefix_imp_sublist stripDashes_sublist sublist_order.order.trans take_is_prefix)

lemma slugify_first: "slugify t = c # s \<Longrightarrow> c \<noteq> CHR ''-''"
proof -
  assume s: "slugify t = c # s"
  let ?d = "dropWhile (\<lambda>c. c = CHR ''-'') (dashRuns False (toLowerCase t))"
  have "prefix (stripDashes (dashRuns False (toLowerCase t))) ?d"
    unfolding stripDashes_def Let_def
    by (metis suffix_dropWhile rev_rev_ident suffix_to_prefix)
  moreover have "prefix (slugify t) (stripDashes (dashRuns False (toLowerCase t)))"
    unfolding slugify_def by (rule take_is_prefix)
  ultimately have "prefix (c # s) ?d" using s by (auto simp: prefix_def)
  then obtain u where u: "?d = c # u" by (auto simp: prefix_def)
  then show "c \<noteq> CHR ''-''" using hd_dropWhile [of "\<lambda>c. c = CHR ''-''"] by (metis list.sel(1) list.simps(3))
qed

lemma slugify_shape:
  "length (slugify t) \<le> 50 \<and> list_all (\<lambda>c. isSlugChar c \<or> c = CHR ''-'') (slugify t) \<and>
   noDashPair (slugify t) \<and> \<not> startsWith (slugify t) ''-''"
proof (intro conjI)
  show "length (slugify t) \<le> 50" by (simp add: slugify_def)
  show "list_all (\<lambda>c. isSlugChar c \<or> c = CHR ''-'') (slugify t)"
    using set_mono_sublist [OF slugify_sublist [of t]] dashRuns_chars by (auto simp: list_all_iff)
  show "noDashPair (slugify t)"
    using slugify_sublist [of t] dashRuns_single [of False _ "toLowerCase t"]
    unfolding noDashPair_def by (metis sublist_order.order.trans)
  show "\<not> startsWith (slugify t) ''-''"
    using slugify_first [of t] by (cases "slugify t") (auto simp: startsWith_def)
qed

end
