(* ===== verification/Filters.thy ===== *)
theory Filters
  imports Branch
begin

text \<open>
  The admission filters of \<open>pipeline-cli/src/orchestrator/filters/\<close>: one \<open>check\<close> function per
  file, each returning a \<open>filter_result\<close>. What the filters read from outside (\<open>gh\<close>, \<open>ps\<close>,
  sentinel files, logs) comes in as arguments; an exception a filter catches is an \<open>Inl\<close>.
\<close>

subsection \<open>Results\<close>

datatype filter_name = OpenPullRequestExists | OrphanParent | AlreadyInFlight | BlastRadiusOverlap
  | DependencyReadiness | Dispatchability | DorReadiness | ExternalDependencies | Blocked
  | CapturesPending

datatype in_flight_signal = OpenPr nat | ActiveWorktree string | LiveSubprocess nat

datatype filter_detail =
    DependencyBlockedDetail "string list"
  | DorBlockedDetail "string option"
  | AwaitingExternalDetail "external_dependency list" "external_dependency list"
  | OrphanParentDetail "string list"
  | AlreadyInFlightDetail in_flight_signal string
  | BlastRadiusOverlapDetail string "string list" nat
  | BlockedDetail string "string option" "string list option"
  | DispatchabilityBlockedDetail string
  | CapturesPendingDetail string string
  | OpenPullRequestExistsDetail nat bool string "string option"

record filter_result =
  fr_filter :: filter_name
  fr_passed :: bool
  fr_reason :: "string option"
  fr_detail :: "filter_detail option"

definition pass :: "filter_name \<Rightarrow> filter_result" where
  "pass f = \<lparr>fr_filter = f, fr_passed = True, fr_reason = None, fr_detail = None\<rparr>"

definition reject :: "filter_name \<Rightarrow> string \<Rightarrow> filter_detail \<Rightarrow> filter_result" where
  "reject f reason detail =
     \<lparr>fr_filter = f, fr_passed = False, fr_reason = Some reason, fr_detail = Some detail\<rparr>"

lemma pass_simps [simp]: "fr_filter (pass f) = f" "fr_passed (pass f)" "fr_reason (pass f) = None"
  by (simp_all add: pass_def)

lemma reject_simps [simp]: "fr_filter (reject f r d) = f" "\<not> fr_passed (reject f r d)"
  "fr_reason (reject f r d) = Some r" "fr_detail (reject f r d) = Some d"
  by (simp_all add: reject_def)

subsection \<open>Filters on the graph\<close>

definition checkDependencyReadiness :: "dependency_graph \<Rightarrow> string \<Rightarrow> filter_result" where
  "checkDependencyReadiness g taskId =
     (let opens = blockers g taskId in
      if opens = [] then pass DependencyReadiness
      else let blockerIds = map (\<lambda>n. toLowerCase (dn_id n)) opens in
        reject DependencyReadiness
          (showNat (length blockerIds) @ '' blocker(s) still open: '' @ joinWith '', '' (take 5 blockerIds))
          (DependencyBlockedDetail blockerIds))"

definition childOf :: "string \<Rightarrow> dependency_node \<Rightarrow> bool" where
  "childOf candidateKey child \<longleftrightarrow>
     (if trim (dn_parentTaskId child) = [] then False
      else if toLowerCase (trim (dn_parentTaskId child)) \<noteq> candidateKey then False
      else if toLowerCase (dn_id child) = candidateKey then False
      else True)"

text \<open>The walk over the nodes: whether an open child was seen, and the completed ones before it.\<close>

fun childLoop :: "string \<Rightarrow> dependency_node list \<Rightarrow> string list \<Rightarrow> bool \<times> string list" where
  "childLoop candidateKey [] completed = (False, completed)"
| "childLoop candidateKey (child # ns) completed =
     (if \<not> childOf candidateKey child then childLoop candidateKey ns completed
      else if dn_status child = Completed
      then childLoop candidateKey ns (completed @ [toLowerCase (dn_id child)])
      else (True, completed))"

definition checkOrphanParent :: "dependency_graph \<Rightarrow> string \<Rightarrow> filter_result" where
  "checkOrphanParent g taskId =
     (let candidateKey = toLowerCase taskId in
      case mapGet (nodes g) candidateKey of
        None \<Rightarrow> pass OrphanParent
      | Some candidate \<Rightarrow>
          if trim (dn_parentTaskId candidate) \<noteq> [] then pass OrphanParent
          else let (hasOpenChild, completed) = childLoop candidateKey (mapValues (nodes g)) [] in
            if \<not> hasOpenChild \<and> completed = [] then pass OrphanParent
            else if hasOpenChild then pass OrphanParent
            else let sorted = sort completed in
              reject OrphanParent
                (''orphan-parent-needs-closure ('' @ showNat (length sorted) @
                 '' completed child(ren), no open: '' @ joinWith '', '' (take 5 sorted) @ '')'')
                (OrphanParentDetail sorted))"

definition clearanceKey :: "string \<Rightarrow> string \<Rightarrow> string" where
  "clearanceKey taskId externalDepId = toLowerCase taskId @ ''::'' @ externalDepId"

definition isClearanceRecord :: "json \<Rightarrow> bool" where
  "isClearanceRecord v \<longleftrightarrow> isJObject v \<and> isJStr (jsonField v ''taskId'') \<and> isJStr (jsonField v ''externalDepId'')"

definition strOf :: "json option \<Rightarrow> string" where
  "strOf j = (case j of Some (JStr s) \<Rightarrow> s | _ \<Rightarrow> [])"

text \<open>The clearance file's text, \<open>None\<close> when it is missing or unreadable.\<close>

definition loadClearanceSet :: "string option \<Rightarrow> string list" where
  "loadClearanceSet file = (case file of None \<Rightarrow> [] | Some raw \<Rightarrow>
     (case parseJson raw of
        Some (JArr entries) \<Rightarrow> fold (\<lambda>e out. if isClearanceRecord e
            then setAdd (clearanceKey (strOf (jsonField e ''taskId'')) (strOf (jsonField e ''externalDepId''))) out
            else out) entries []
      | _ \<Rightarrow> []))"

definition collectBlocking ::
  "dependency_node \<Rightarrow> external_dependency list \<Rightarrow> string list \<Rightarrow> external_dependency list" where
  "collectBlocking node allDeps cleared =
     filter (\<lambda>dep. ed_kind dep = Manual \<and> clearanceKey (dn_id node) (ed_id dep) \<notin> set cleared) allDeps"

definition checkExternalDependencies ::
  "dependency_graph \<Rightarrow> string \<Rightarrow> string list option \<Rightarrow> string option \<Rightarrow> filter_result" where
  "checkExternalDependencies g taskId clearedKeys clearanceFile =
     (case mapGet (nodes g) (toLowerCase taskId) of
        None \<Rightarrow> pass ExternalDependencies
      | Some node \<Rightarrow>
          let allDeps = dn_externalDependencies node in
          if allDeps = [] then pass ExternalDependencies
          else let cleared = orElse clearedKeys (loadClearanceSet clearanceFile);
                   blocking = collectBlocking node allDeps cleared
               in if blocking = [] then pass ExternalDependencies
                  else reject ExternalDependencies
                    (showNat (length blocking) @ '' manual external dep(s) unresolved: '' @
                     joinWith '', '' (map ed_id blocking))
                    (AwaitingExternalDetail blocking allDeps))"

subsection \<open>Filters on the frontmatter\<close>

record blocked_frontmatter =
  bf_reason :: "string option"
  bf_until :: "string option"
  bf_unblockedBy :: "string list option"

definition checkBlocked :: "blocked_frontmatter option \<Rightarrow> filter_result" where
  "checkBlocked blocked =
     (let reason = (case blocked of None \<Rightarrow> [] | Some b \<Rightarrow> trim (orElse (bf_reason b) []))
      in if reason = [] then pass Blocked
         else reject Blocked reason (BlockedDetail reason
           (case blocked of None \<Rightarrow> None | Some b \<Rightarrow> bf_until b)
           (case blocked of None \<Rightarrow> None | Some b \<Rightarrow>
              (case bf_unblockedBy b of None \<Rightarrow> None | Some ids \<Rightarrow> if ids = [] then None else Some ids))))"

definition checkDispatchability :: "bool option \<Rightarrow> string option \<Rightarrow> filter_result" where
  "checkDispatchability dispatchable dispatchableReason =
     (if dispatchable \<noteq> Some False then pass Dispatchability
      else let reason = orElse dispatchableReason ''marked dispatchable:false in frontmatter''
           in reject Dispatchability reason (DispatchabilityBlockedDetail reason))"

subsection \<open>Captures pending\<close>

definition TRUTHY_FLAG_VALUES :: "string list" where
  "TRUTHY_FLAG_VALUES = [''1'', ''true'', ''yes'', ''on'', ''experimental'']"

definition isCaptureFlagEnabled :: "string option \<Rightarrow> bool" where
  "isCaptureFlagEnabled env \<longleftrightarrow> toLowerCase (orElse env []) \<in> set TRUTHY_FLAG_VALUES"

text \<open>\<open>env\<close> is \<open>AI_SDLC_EMERGENT_CAPTURE\<close>, \<open>hasPending\<close> the capture reader.\<close>

definition checkCapturesPending :: "string option \<Rightarrow> (string \<Rightarrow> bool) \<Rightarrow> string \<Rightarrow> filter_result" where
  "checkCapturesPending env hasPending taskId =
     (if \<not> isCaptureFlagEnabled env then pass CapturesPending
      else if \<not> hasPending taskId then pass CapturesPending
      else reject CapturesPending
        (''task '' @ taskId @ '' has pending captures (triage=tbd) '' @ emDash @
         '' triage required before dispatch'')
        (CapturesPendingDetail taskId
           (''Task '' @ taskId @ '' has unresolved emergent captures (triage=tbd). Run '' @
            [CHR 96] @ ''cli-capture list --pending'' @ [CHR 96] @ '' to review and triage before dispatch.'')))"

subsection \<open>Definition-of-ready verdicts\<close>

definition DOR_BYPASS_LABEL :: string where
  "DOR_BYPASS_LABEL = ''dor-bypass''"

definition hasBypassLabel :: "string list option \<Rightarrow> bool" where
  "hasBypassLabel labels = (case labels of None \<Rightarrow> False
     | Some ls \<Rightarrow> someIn (\<lambda>l. toLowerCase (trim l) = DOR_BYPASS_LABEL) ls)"

definition isCalibrationEntry :: "json \<Rightarrow> bool" where
  "isCalibrationEntry v \<longleftrightarrow> isJObject v \<and> isJStr (jsonField v ''issueId'') \<and>
     (jsonField v ''overallVerdict'' = Some (JStr ''admit'') \<or>
      jsonField v ''overallVerdict'' = Some (JStr ''needs-clarification'')) \<and>
     isJStr (jsonField v ''outcome'')"

text \<open>\<open>readLatestEntry\<close>: the last valid line of the log for the task.\<close>

definition latestLoop :: "string \<Rightarrow> string \<Rightarrow> json option \<Rightarrow> json option" where
  "latestLoop target line latest =
     (if trim line = [] then latest
      else case parseJson line of
        None \<Rightarrow> latest
      | Some parsed \<Rightarrow>
          if \<not> isCalibrationEntry parsed then latest
          else if toLowerCase (strOf (jsonField parsed ''issueId'')) \<noteq> target then latest
          else Some parsed)"

definition readLatestEntry :: "string \<Rightarrow> string \<Rightarrow> json option" where
  "readLatestEntry raw taskId = fold (latestLoop (toLowerCase taskId)) (splitOn (CHR 10) raw) None"

definition signedAtOf :: "json \<Rightarrow> string option" where
  "signedAtOf latest = (case jsonField latest ''verdict'' of None \<Rightarrow> None
     | Some v \<Rightarrow> (case jsonField v ''signedAt'' of Some (JStr s) \<Rightarrow> Some s | _ \<Rightarrow> None))"

text \<open>The calibration log's text, \<open>None\<close> when it does not exist.\<close>

definition checkDorReadiness :: "string list option \<Rightarrow> string option \<Rightarrow> string \<Rightarrow> filter_result" where
  "checkDorReadiness taskLabels calibrationLog taskId =
     (if hasBypassLabel taskLabels then pass DorReadiness
      else case calibrationLog of
        None \<Rightarrow> pass DorReadiness
      | Some raw \<Rightarrow>
          (case readLatestEntry raw taskId of
             None \<Rightarrow> pass DorReadiness
           | Some latest \<Rightarrow>
               if jsonField latest ''outcome'' = Some (JStr ''override'') then pass DorReadiness
               else if jsonField latest ''overallVerdict'' = Some (JStr ''admit'') then pass DorReadiness
               else reject DorReadiness
                 (''latest verdict=needs-clarification (signedAt='' @ orElse (signedAtOf latest) ''unknown'' @ '')'')
                 (DorBlockedDetail (signedAtOf latest))))"

definition readLatestVerdictForTask :: "string option \<Rightarrow> string \<Rightarrow> json option" where
  "readLatestVerdictForTask calibrationLog taskId =
     (case calibrationLog of None \<Rightarrow> None | Some raw \<Rightarrow>
        (case readLatestEntry raw taskId of None \<Rightarrow> None
         | Some entry \<Rightarrow> (case jsonField entry ''verdict'' of Some JNull \<Rightarrow> None | v \<Rightarrow> v)))"

end
