(* ===== verification/FiltersIo.thy ===== *)
theory FiltersIo
  imports Filters
begin

text \<open>
  The admission filters that look at other runs: \<open>open-pull-request-exists.ts\<close>,
  \<open>already-in-flight.ts\<close> and \<open>blast-radius-overlap.ts\<close>. A call of \<open>gh\<close> is its standard
  output or the error it raises; the sentinel files and the process table are arguments.
\<close>

subsection \<open>Open pull requests by branch\<close>

record open_pr =
  pr_number :: nat
  pr_isDraft :: bool
  pr_url :: "string option"

definition numberOf :: "json option \<Rightarrow> nat" where
  "numberOf j = (case j of Some (JNum i) \<Rightarrow> nat i | _ \<Rightarrow> 0)"

fun isJBool :: "json option \<Rightarrow> bool" where
  "isJBool (Some (JBool b)) = True" | "isJBool j = False"

definition openPrOf :: "json \<Rightarrow> open_pr" where
  "openPrOf e = \<lparr>pr_number = numberOf (jsonField e ''number''),
     pr_isDraft = (jsonField e ''isDraft'' = Some (JBool True)),
     pr_url = (case jsonField e ''url'' of Some (JStr u) \<Rightarrow> Some u | _ \<Rightarrow> None)\<rparr>"

text \<open>The entries of \<open>gh pr list --json\<close>: the array elements \<open>valid\<close> accepts.\<close>

definition parseListing :: "(json \<Rightarrow> bool) \<Rightarrow> string \<Rightarrow> string + json list" where
  "parseListing valid stdout =
     (let out = trim stdout in
      if out = [] \<or> out = ''[]'' then Inr []
      else case parseJson out of
        None \<Rightarrow> Inl ''SyntaxError''
      | Some (JArr es) \<Rightarrow> Inr (filter valid es)
      | Some _ \<Rightarrow> Inr [])"

definition runGhPRListByBranch :: "(string \<Rightarrow> string + string) \<Rightarrow> string \<Rightarrow> string + open_pr list" where
  "runGhPRListByBranch gh branch =
     (case gh branch of Inl e \<Rightarrow> Inl e
      | Inr stdout \<Rightarrow> map_sum id (map openPrOf) (parseListing
          (\<lambda>e. isJObject e \<and> isJNum (jsonField e ''number'') \<and> isJBool (jsonField e ''isDraft'')) stdout))"

type_synonym pr_cache = "(string, open_pr list) jsmap"

definition canonicalBranch :: "string \<Rightarrow> string \<Rightarrow> string option \<Rightarrow> string" where
  "canonicalBranch pattern taskIdLower taskTitle =
     (let rawSlug = (case taskTitle of None \<Rightarrow> [] | Some t \<Rightarrow> if t = [] then [] else slugify t);
          slug = (if rawSlug \<noteq> [] then rawSlug
                  else if strIncludes pattern ''{slug}'' then FALLBACK_SLUG else taskIdLower)
      in fillPattern pattern taskIdLower slug)"

text \<open>The result and the tick's cache after the lookup.\<close>

definition checkOpenPullRequestExists ::
  "string \<Rightarrow> (string \<Rightarrow> string + open_pr list) \<Rightarrow> pr_cache \<Rightarrow> string \<Rightarrow> string option \<Rightarrow> filter_result \<times> pr_cache"
  where "checkOpenPullRequestExists pattern listOpenPRs cache taskId taskTitle =
     (let branchName = canonicalBranch pattern (toLowerCase taskId) taskTitle;
          (openPRs, cache') = (case mapGet cache branchName of
              Some prs \<Rightarrow> (prs, cache)
            | None \<Rightarrow> let prs = (case listOpenPRs branchName of Inl _ \<Rightarrow> [] | Inr ps \<Rightarrow> ps)
                      in (prs, mapSet branchName prs cache))
      in case openPRs of
           [] \<Rightarrow> (pass OpenPullRequestExists, cache')
         | pr # _ \<Rightarrow>
             let urlClause = (case pr_url pr of None \<Rightarrow> [] | Some u \<Rightarrow> if u = [] then [] else '' '' @ u);
                 prState = (if pr_isDraft pr then ''draft'' else ''open'')
             in (reject OpenPullRequestExists
                   (''open PR #'' @ showNat (pr_number pr) @ urlClause @ '' ('' @ prState @
                    '') already exists for branch '' @ branchName)
                   (OpenPullRequestExistsDetail (pr_number pr) (pr_isDraft pr) branchName (pr_url pr)),
                 cache'))"

subsection \<open>Tasks already in flight\<close>

definition isDetectSubprocessEnabled :: "string option \<Rightarrow> bool" where
  "isDetectSubprocessEnabled env = (case env of None \<Rightarrow> True
     | Some raw \<Rightarrow> toLowerCase (trim raw) \<in> set [''1'', ''true'', ''yes'', ''on''])"

text \<open>\<open>new RegExp(escapedId + '(?!\\d)', 'i').test(command)\<close>: an occurrence with no digit after it.\<close>

fun mentionsTask :: "string \<Rightarrow> string \<Rightarrow> bool" where
  "mentionsTask taskIdLower [] = (taskIdLower = [])"
| "mentionsTask taskIdLower (c # s) =
     ((startsWith (c # s) taskIdLower \<and>
        (case drop (length taskIdLower) (c # s) of [] \<Rightarrow> True | d # _ \<Rightarrow> \<not> isDigit d)) \<or>
      mentionsTask taskIdLower s)"

text \<open>\<open>/ -p(\s|$)/\<close>\<close>

fun hasPrintFlag :: "string \<Rightarrow> bool" where
  "hasPrintFlag [] = False"
| "hasPrintFlag (c # s) =
     ((startsWith (c # s) '' -p'' \<and> (case drop 3 (c # s) of [] \<Rightarrow> True | d # _ \<Rightarrow> isSpace d)) \<or>
      hasPrintFlag s)"

definition claudeLine :: "string \<Rightarrow> string \<Rightarrow> int option" where
  "claudeLine taskIdLower line =
     (case splitFirst '' '' (trim line) of
        None \<Rightarrow> None
      | Some (pidStr, rest) \<Rightarrow>
          let command = trim rest in
          (case parseIntPrefix (trim pidStr) of
             None \<Rightarrow> None
           | Some pid \<Rightarrow>
               if \<not> strIncludes command ''claude'' then None
               else if \<not> strIncludes command ''--print'' \<and> \<not> hasPrintFlag command then None
               else if mentionsTask taskIdLower (toLowerCase command) then Some pid
               else None))"

fun findClaudeSubprocess :: "string list \<Rightarrow> string \<Rightarrow> int option" where
  "findClaudeSubprocess [] taskId = None"
| "findClaudeSubprocess (line # ls) taskId = (case claudeLine (toLowerCase taskId) line of
     Some pid \<Rightarrow> Some pid | None \<Rightarrow> findClaudeSubprocess ls taskId)"

record in_flight_opts =
  if_repoRoot :: string
  if_detectSubprocess :: "bool option"
  if_envDetect :: "string option"
  if_listOpenPRs :: "string \<Rightarrow> string + nat list"
  if_sentinelExists :: "string \<Rightarrow> bool"
  if_processTable :: "string + string"

definition runGhPRList :: "(string \<Rightarrow> string + string) \<Rightarrow> string \<Rightarrow> string + nat list" where
  "runGhPRList gh headPattern =
     (case gh headPattern of Inl e \<Rightarrow> Inl e
      | Inr stdout \<Rightarrow> map_sum id (map (\<lambda>e. numberOf (jsonField e ''number'')))
          (parseListing (\<lambda>e. isJObject e \<and> isJNum (jsonField e ''number'')) stdout))"

definition liveSubprocess :: "in_flight_opts \<Rightarrow> string \<Rightarrow> int option" where
  "liveSubprocess opts taskId =
     (if orElse (if_detectSubprocess opts) (isDetectSubprocessEnabled (if_envDetect opts))
      then case if_processTable opts of
          Inl _ \<Rightarrow> None
        | Inr out \<Rightarrow> findClaudeSubprocess (splitOn (CHR 10) out) taskId
      else None)"

definition checkAlreadyInFlight :: "in_flight_opts \<Rightarrow> string \<Rightarrow> filter_result" where
  "checkAlreadyInFlight opts taskId =
     (let taskIdLower = toLowerCase taskId;
          worktreePath = if_repoRoot opts @ ''/.worktrees/'' @ taskIdLower;
          sentinelPath = worktreePath @ ''/.active-task''
      in case if_listOpenPRs opts (''ai-sdlc/'' @ taskIdLower @ ''-*'') of
           Inr (prNumber # _) \<Rightarrow>
             reject AlreadyInFlight
               (''Already-in-flight check: failed (PR #'' @ showNat prNumber @ '' open)'')
               (AlreadyInFlightDetail (OpenPr prNumber) (''PR #'' @ showNat prNumber @ '' already open''))
         | _ \<Rightarrow>
             if if_sentinelExists opts sentinelPath
             then reject AlreadyInFlight ''Already-in-flight check: failed (active worktree)''
               (AlreadyInFlightDetail (ActiveWorktree worktreePath)
                  (''active worktree sentinel at '' @ sentinelPath))
             else case liveSubprocess opts taskId of
                 Some pid \<Rightarrow>
                   reject AlreadyInFlight
                     (''Already-in-flight check: failed (live subprocess PID '' @ showInt pid @ '')'')
                     (AlreadyInFlightDetail (LiveSubprocess (nat pid))
                        (''live claude --print subprocess for '' @ taskId @ '' (PID '' @ showInt pid @ '')''))
               | None \<Rightarrow> pass AlreadyInFlight)"

subsection \<open>References of a task\<close>

definition stripOneQuote :: "string \<Rightarrow> string" where
  "stripOneQuote s =
     (let q = (\<lambda>c. c = CHR 39 \<or> c = CHR 34);
          t = (case s of c # u \<Rightarrow> if q c then u else s | [] \<Rightarrow> [])
      in case rev t of c # u \<Rightarrow> if q c then rev u else t | [] \<Rightarrow> [])"

text \<open>\<open>/^references:\s*$/\<close>, \<open>/^references:\s*\[(.+)\]/\<close> and \<open>/^\s+-\s+(.+)$/\<close>.\<close>

definition refsOpener :: "string \<Rightarrow> bool" where
  "refsOpener line \<longleftrightarrow> startsWith line ''references:'' \<and> list_all isSpace (drop 11 line)"

definition refsCompact :: "string \<Rightarrow> string option" where
  "refsCompact line =
     (if \<not> startsWith line ''references:'' then None
      else case dropWhile isSpace (drop 11 line) of
        c # t \<Rightarrow> if c \<noteq> CHR ''['' then None
          else let u = takeWhile (\<lambda>d. d \<noteq> CHR 13) t;
                   inner = rev (drop 1 (dropWhile (\<lambda>d. d \<noteq> CHR '']'') (rev u)))
               in if CHR '']'' \<notin> set u \<or> inner = [] then None else Some inner
      | [] \<Rightarrow> None)"

definition refsItem :: "string \<Rightarrow> string option" where
  "refsItem line = (case line of
     c # t \<Rightarrow> if \<not> isSpace c then None else
       (case dropWhile isSpace t of
          d # e # u \<Rightarrow> if d = CHR ''-'' \<and> isSpace e \<and> dropWhile isSpace u \<noteq> [] \<and> CHR 13 \<notin> set u then Some (dropWhile isSpace u)
            else None
        | _ \<Rightarrow> None)
   | [] \<Rightarrow> None)"

definition startsKey :: "string \<Rightarrow> bool" where
  "startsKey line = (case line of c # _ \<Rightarrow>
     (let n = of_char c :: nat in (97 \<le> n \<and> n \<le> 122) \<or> c = CHR ''_'') | [] \<Rightarrow> False)"

fun refsLoop :: "string list \<Rightarrow> bool \<Rightarrow> string list \<Rightarrow> string list" where
  "refsLoop [] inRefs refs = refs"
| "refsLoop (line # ls) inRefs refs =
     (if refsOpener line then refsLoop ls True refs
      else case refsCompact line of
        Some inner \<Rightarrow> refs @ filter (\<lambda>r. r \<noteq> []) (map (\<lambda>s. stripOneQuote (trim s)) (splitOn (CHR '','') inner))
      | None \<Rightarrow>
          if \<not> inRefs then refsLoop ls inRefs refs
          else if startsKey line then refs
          else (case refsItem line of
              None \<Rightarrow> refsLoop ls inRefs refs
            | Some item \<Rightarrow> let ref = stripOneQuote (trim item)
                in refsLoop ls inRefs (if ref = [] then refs else refs @ [ref])))"

definition parseReferencesFromFrontmatter :: "string \<Rightarrow> string list" where
  "parseReferencesFromFrontmatter frontmatter = refsLoop (splitOn (CHR 10) frontmatter) False []"

record backlog_file =
  bk_name :: string
  bk_text :: "string option"

definition namesTask :: "string \<Rightarrow> string \<Rightarrow> bool" where
  "namesTask taskIdLower entry \<longleftrightarrow> (let e = toLowerCase entry in
     startsWith e (taskIdLower @ '' '') \<or> startsWith e (taskIdLower @ ''-'') \<or> e = taskIdLower @ ''.md'')"

text \<open>The first readable file of a directory that names the task.\<close>

definition findTaskText :: "string \<Rightarrow> backlog_file list \<Rightarrow> string option" where
  "findTaskText taskIdLower entries = (case List.find (\<lambda>f. namesTask taskIdLower (bk_name f) \<and> bk_text f \<noteq> None) entries of
     None \<Rightarrow> None | Some f \<Rightarrow> bk_text f)"

definition refsFrontmatter :: "string \<Rightarrow> string option" where
  "refsFrontmatter raw =
     (if startsWith raw (''---'' @ newline)
      then map_option fst (splitFirst (newline @ ''---'') (drop 4 raw)) else None)"

text \<open>The listings of \<open>tasks/\<close> and \<open>completed/\<close>, \<open>None\<close> when missing or unreadable.\<close>

definition defaultComputeBlastRadiusFiles ::
  "backlog_file list option \<Rightarrow> backlog_file list option \<Rightarrow> string \<Rightarrow> string list" where
  "defaultComputeBlastRadiusFiles tasks completed taskId =
     (let look = (\<lambda>d. case d of None \<Rightarrow> None | Some es \<Rightarrow> findTaskText (toLowerCase taskId) es);
          raw = (case look tasks of Some r \<Rightarrow> Some r | None \<Rightarrow> look completed)
      in case raw of None \<Rightarrow> []
         | Some r \<Rightarrow> (case refsFrontmatter r of None \<Rightarrow> [] | Some fm \<Rightarrow> parseReferencesFromFrontmatter fm))"

subsection \<open>Blast-radius overlap\<close>

definition truthyFlag :: "string \<Rightarrow> bool" where
  "truthyFlag raw \<longleftrightarrow> toLowerCase (trim raw) \<in> set [''1'', ''true'', ''yes'', ''on'']"

definition isGlobalBypassEnabled :: "string option \<Rightarrow> bool" where
  "isGlobalBypassEnabled env = (case env of None \<Rightarrow> False
     | Some raw \<Rightarrow> if raw = [] then False else truthyFlag raw)"

definition isPerTaskBypassEnabled :: "string option \<Rightarrow> string \<Rightarrow> bool" where
  "isPerTaskBypassEnabled env taskId = (case env of None \<Rightarrow> False
     | Some raw \<Rightarrow> if raw = [] then False else toLowerCase (trim raw) = toLowerCase taskId)"

text \<open>\<open>/^ai-sdlc\/(aisdlc-\d+(?:\.\d+)*)/i\<close>: the longest run of dotted digit groups.\<close>

function dottedDigits :: "string \<Rightarrow> string" where
  "dottedDigits s = (case s of
     c # t \<Rightarrow> (let ds = takeWhile isDigit t in
       if c = CHR ''.'' \<and> ds \<noteq> [] then c # ds @ dottedDigits (dropWhile isDigit t) else [])
   | [] \<Rightarrow> [])"
  by pat_completeness auto
termination dottedDigits
  by (relation "measure length") (auto simp: less_Suc_eq_le length_dropWhile_le)

declare dottedDigits.simps [simp del]

definition extractTaskIdFromBranch :: "string \<Rightarrow> string option" where
  "extractTaskIdFromBranch branch =
     (if \<not> startsWith (toLowerCase branch) ''ai-sdlc/aisdlc-'' then None
      else let t = drop 15 branch; ds = takeWhile isDigit t
           in if ds = [] then None
              else Some (toUpperCase (take 7 (drop 8 branch) @ ds @ dottedDigits (dropWhile isDigit t))))"

record worktree_dir =
  wd_name :: string
  wd_sentinel :: "(string + string) option"

record blast_opts =
  bo_envBypass :: "string option"
  bo_envBypassTask :: "string option"
  bo_compute :: "string \<Rightarrow> string + string list"
  bo_listOpenPRs :: "string + string list"
  bo_worktrees :: "worktree_dir list option"

definition runGhPRListAll :: "string + string \<Rightarrow> string + string list" where
  "runGhPRListAll gh =
     (case gh of Inl e \<Rightarrow> Inl e
      | Inr stdout \<Rightarrow> map_sum id (map (\<lambda>e. strOf (jsonField e ''headRefName'')))
          (parseListing (\<lambda>e. isJObject e \<and> isJNum (jsonField e ''number'') \<and> isJStr (jsonField e ''headRefName''))
             stdout))"

text \<open>\<open>collectInFlightTaskIds\<close>: the heads of the open PRs, then the sentinels.\<close>

definition collectInFlightTaskIds :: "string + string list \<Rightarrow> worktree_dir list option \<Rightarrow> string list" where
  "collectInFlightTaskIds prs worktrees =
     (let ids = fold (\<lambda>h ids. case extractTaskIdFromBranch h of None \<Rightarrow> ids | Some i \<Rightarrow> setAdd (toUpperCase i) ids)
            (case prs of Inl _ \<Rightarrow> [] | Inr hs \<Rightarrow> hs) []
      in fold (\<lambda>d ids. case wd_sentinel d of
            Some (Inr text) \<Rightarrow> if trim text = [] then ids else setAdd (toUpperCase (trim text)) ids
          | _ \<Rightarrow> ids) (orElse worktrees []) ids)"

definition coversPath :: "string list \<Rightarrow> string \<Rightarrow> bool" where
  "coversPath b aPath \<longleftrightarrow>
     (if endsWith aPath ''/'' then someIn (\<lambda>bPath. startsWith bPath aPath \<or> bPath = butlast aPath) b
      else if aPath \<in> set b then True
      else someIn (\<lambda>bPath. endsWith bPath ''/'' \<and> startsWith aPath bPath) b)"

definition intersectFileSets :: "string list \<Rightarrow> string list \<Rightarrow> string list" where
  "intersectFileSets a b = filter (coversPath b) a"

definition ellipsis :: string where "ellipsis = [CHR 0xE2, CHR 0x80, CHR 0xA6]"

fun overlapLoop :: "blast_opts \<Rightarrow> string \<Rightarrow> string list \<Rightarrow> string list \<Rightarrow> filter_result" where
  "overlapLoop opts taskId candidateFiles [] = pass BlastRadiusOverlap"
| "overlapLoop opts taskId candidateFiles (inFlightId # is) =
     (if toLowerCase inFlightId = toLowerCase taskId then overlapLoop opts taskId candidateFiles is
      else case bo_compute opts inFlightId of
        Inl _ \<Rightarrow> overlapLoop opts taskId candidateFiles is
      | Inr inFlightFiles \<Rightarrow>
          if inFlightFiles = [] then overlapLoop opts taskId candidateFiles is
          else let overlap = intersectFileSets candidateFiles inFlightFiles;
                   shown = take 3 overlap
               in if overlap = [] then overlapLoop opts taskId candidateFiles is
                  else reject BlastRadiusOverlap
                    (''blast-radius overlap with in-flight '' @ inFlightId @ '': '' @ joinWith '', '' shown @
                     (if 3 < length overlap then ellipsis @ '' (+'' @ showNat (length overlap - 3) @ '' more)''
                      else []))
                    (BlastRadiusOverlapDetail inFlightId shown (length overlap)))"

definition admitWith :: "string \<Rightarrow> filter_result" where
  "admitWith reason = \<lparr>fr_filter = BlastRadiusOverlap, fr_passed = True, fr_reason = Some reason, fr_detail = None\<rparr>"

definition checkBlastRadiusOverlap :: "blast_opts \<Rightarrow> string \<Rightarrow> filter_result" where
  "checkBlastRadiusOverlap opts taskId =
     (if isGlobalBypassEnabled (bo_envBypass opts)
      then admitWith (''AI_SDLC_BLAST_RADIUS_OVERLAP_BYPASS is set '' @ emDash @ '' skipped'')
      else if isPerTaskBypassEnabled (bo_envBypassTask opts) taskId
      then admitWith (''AI_SDLC_BLAST_RADIUS_OVERLAP_BYPASS_TASK='' @ taskId @ '' '' @ emDash @ '' skipped'')
      else case bo_compute opts taskId of
        Inl _ \<Rightarrow> pass BlastRadiusOverlap
      | Inr candidateFiles \<Rightarrow>
          if candidateFiles = []
          then admitWith (''no blast-radius files declared '' @ emDash @ '' admitted (degrade-open)'')
          else overlapLoop opts taskId candidateFiles
            (collectInFlightTaskIds (bo_listOpenPRs opts) (bo_worktrees opts)))"

section \<open>The chain\<close>

text \<open>
  The admission chain, \<open>pipeline-cli/src/orchestrator/filters/chain.ts\<close>: ten filters in order,
  stopping at the first that rejects, with the trace of what was evaluated.
\<close>

record chain_result =
  cr_passed :: bool
  cr_trace :: "filter_result list"
  cr_failure :: "filter_result option"

record chain_opts =
  co_graph :: dependency_graph
  co_taskId :: string
  co_taskLabels :: "string list option"
  co_calibrationLog :: "string option"
  co_clearedExternalKeys :: "string list option"
  co_clearanceFile :: "string option"
  co_taskDispatchable :: "bool option"
  co_taskDispatchableReason :: "string option"
  co_taskBlocked :: "blocked_frontmatter option"
  co_branchPattern :: string
  co_taskTitle :: "string option"
  co_listOpenPRsByBranch :: "string \<Rightarrow> string + open_pr list"
  co_prListCache :: pr_cache
  co_inFlight :: in_flight_opts
  co_blast :: blast_opts
  co_captureFlag :: "string option"
  co_hasPendingCaptures :: "string \<Rightarrow> bool"

definition openPrOutcome :: "chain_opts \<Rightarrow> filter_result \<times> pr_cache" where
  "openPrOutcome o' = checkOpenPullRequestExists (co_branchPattern o') (co_listOpenPRsByBranch o')
     (co_prListCache o') (co_taskId o') (co_taskTitle o')"

text \<open>The ten filters in chain order, on the options of one candidate.\<close>

definition chainFilters :: "(chain_opts \<Rightarrow> filter_result) list" where
  "chainFilters =
    [\<lambda>c. fst (openPrOutcome c),
     \<lambda>c. checkOrphanParent (co_graph c) (co_taskId c),
     \<lambda>c. checkAlreadyInFlight (co_inFlight c) (co_taskId c),
     \<lambda>c. checkDependencyReadiness (co_graph c) (co_taskId c),
     \<lambda>c. checkBlastRadiusOverlap (co_blast c) (co_taskId c),
     \<lambda>c. checkDispatchability (co_taskDispatchable c) (co_taskDispatchableReason c),
     \<lambda>c. checkDorReadiness (co_taskLabels c) (co_calibrationLog c) (co_taskId c),
     \<lambda>c. checkExternalDependencies (co_graph c) (co_taskId c) (co_clearedExternalKeys c) (co_clearanceFile c),
     \<lambda>c. checkBlocked (co_taskBlocked c),
     \<lambda>c. checkCapturesPending (co_captureFlag c) (co_hasPendingCaptures c) (co_taskId c)]"

fun chainLoop :: "(chain_opts \<Rightarrow> filter_result) list \<Rightarrow> chain_opts \<Rightarrow> filter_result list \<Rightarrow> chain_result" where
  "chainLoop [] c trace = \<lparr>cr_passed = True, cr_trace = trace, cr_failure = None\<rparr>"
| "chainLoop (check # checks) c trace =
     (let r = check c in
      if \<not> fr_passed r then \<lparr>cr_passed = False, cr_trace = trace @ [r], cr_failure = Some r\<rparr>
      else chainLoop checks c (trace @ [r]))"

text \<open>The result and the tick's pull-request cache afterwards.\<close>

definition runFilterChain :: "chain_opts \<Rightarrow> chain_result \<times> pr_cache" where
  "runFilterChain c = (chainLoop chainFilters c [], snd (openPrOutcome c))"

subsection \<open>The trace as text\<close>

definition humanFilterName :: "filter_name \<Rightarrow> string" where
  "humanFilterName f = (case f of
     OpenPullRequestExists \<Rightarrow> ''Open-PR-by-branch check (AISDLC-361)''
   | OrphanParent \<Rightarrow> ''Orphan-parent check''
   | AlreadyInFlight \<Rightarrow> ''Already-in-flight check''
   | BlastRadiusOverlap \<Rightarrow> ''Blast-radius overlap check''
   | DependencyReadiness \<Rightarrow> ''Dependency check''
   | Dispatchability \<Rightarrow> ''Dispatchability check''
   | DorReadiness \<Rightarrow> ''DoR readiness''
   | ExternalDependencies \<Rightarrow> ''External deps''
   | Blocked \<Rightarrow> ''Operator-blocked check''
   | CapturesPending \<Rightarrow> ''Captures-pending check (RFC-0024)'')"

definition terminalNote :: "filter_result \<Rightarrow> string" where
  "terminalNote failure = (case fr_detail failure of
     Some (OpenPullRequestExistsDetail n d branch url) \<Rightarrow>
       ''open PR #'' @ showNat n @ (case url of None \<Rightarrow> [] | Some u \<Rightarrow> if u = [] then [] else '' '' @ u) @
       '' already exists for branch '' @ branch
   | Some (AlreadyInFlightDetail s description) \<Rightarrow> ''already in flight ('' @ description @ '')''
   | Some (BlastRadiusOverlapDetail i overlap n) \<Rightarrow>
       ''blast-radius overlap with in-flight '' @ i @ '' ('' @ joinWith '', '' (take 3 overlap) @ '')''
   | Some (DependencyBlockedDetail bs) \<Rightarrow> ''awaiting dependency''
   | Some (DispatchabilityBlockedDetail r) \<Rightarrow> ''non-dispatchable: '' @ r
   | Some (DorBlockedDetail t) \<Rightarrow> ''awaiting DoR clarification''
   | Some (AwaitingExternalDetail bs allDeps) \<Rightarrow> ''awaiting external''
   | Some (OrphanParentDetail cs) \<Rightarrow> ''orphan parent needs closure''
   | Some (BlockedDetail r u by) \<Rightarrow> ''operator-blocked: '' @ orElse (fr_reason failure) ''no reason''
   | Some (CapturesPendingDetail i a) \<Rightarrow> ''emergent captures pending triage for '' @ i @ '' '' @ emDash @
       '' run cli-capture list --pending''
   | None \<Rightarrow> orElse (fr_reason failure) ''filter rejected'')"

definition traceLine :: "filter_result \<Rightarrow> string" where
  "traceLine r = (if fr_passed r then ''  - '' @ humanFilterName (fr_filter r) @ '': passed''
     else ''  - '' @ humanFilterName (fr_filter r) @ '': failed ('' @ orElse (fr_reason r) ''no reason'' @ '')'')"

definition formatFilterTrace :: "string \<Rightarrow> chain_result \<Rightarrow> string" where
  "formatFilterTrace taskId result = joinWith newline (
     [''[orchestrator] filter trace for '' @ taskId @ '':''] @ map traceLine (cr_trace result) @
     [if cr_passed result then ''  '' @ rightArrow @ '' admitted''
      else case cr_failure result of
          Some f \<Rightarrow> ''  '' @ rightArrow @ '' skipped, '' @ terminalNote f
        | None \<Rightarrow> ''  '' @ rightArrow @ '' skipped, reason unknown''])"

end
