(* ===== verification/FilterCorrect.thy ===== *)
theory FilterCorrect
  imports FiltersIo DepGraphCorrect JsonCorrect
begin

text \<open>
  What each admission filter decides, stated apart from the code (\<open>admits\<close> predicates), the
  contract every filter keeps towards the chain (locale \<open>admission_filter\<close>, interpreted for the
  ten of them) and the chain's trace.
\<close>

subsection \<open>The contract of a filter\<close>

locale admission_filter =
  fixes check :: "chain_opts \<Rightarrow> filter_result"
    and name :: filter_name
    and admits :: "chain_opts \<Rightarrow> bool"
  assumes named: "fr_filter (check c) = name"
    and passed_iff: "fr_passed (check c) \<longleftrightarrow> admits c"
    and explained: "\<not> fr_passed (check c) \<Longrightarrow> fr_reason (check c) \<noteq> None \<and> fr_detail (check c) \<noteq> None"
begin

lemma outcome: "(fr_filter (check c), fr_passed (check c)) = (name, admits c)"
  by (simp add: named passed_iff)

lemma trace_line_reason:
  "\<not> admits c \<Longrightarrow> \<exists>reason. fr_reason (check c) = Some reason \<and>
     traceLine (check c) = ''  - '' @ humanFilterName name @ '': failed ('' @ reason @ '')''"
  using explained [of c] by (auto simp: traceLine_def named passed_iff)

end

subsection \<open>What the filters admit\<close>

definition noOpenUpstream :: "dependency_graph \<Rightarrow> string \<Rightarrow> bool" where
  "noOpenUpstream g t \<longleftrightarrow> (\<forall>k n. (toLowerCase t, k) \<in> (depEdges g)\<^sup>+ \<longrightarrow>
     mapGet (nodes g) k = Some n \<longrightarrow> dn_status n \<noteq> Open)"

lemma blockers_Nil_iff: "blockers g t = [] \<longleftrightarrow> noOpenUpstream g t"
proof (cases "getNode g t")
  case None
  then have "(toLowerCase t, k) \<notin> (depEdges g)\<^sup>+" for k
    by (auto simp: getNode_def depEdges_iff dest!: tranclD)
  with None show ?thesis by (simp add: blockers_unknown noOpenUpstream_def)
next
  case (Some n)
  have "blockers g t = [] \<longleftrightarrow> set (blockers g t) = {}" by simp
  then show ?thesis unfolding set_blockers [OF Some] noOpenUpstream_def by blast
qed

definition childrenOf :: "dependency_graph \<Rightarrow> string \<Rightarrow> dependency_node list" where
  "childrenOf g key = filter (childOf key) (mapValues (nodes g))"

lemma childLoop_spec:
  "childLoop key ns acc = (open_seen, done) \<Longrightarrow>
   (open_seen \<longleftrightarrow> (\<exists>n \<in> set (filter (childOf key) ns). dn_status n \<noteq> Completed)) \<and>
   (\<not> open_seen \<longrightarrow> done = acc @ map (\<lambda>n. toLowerCase (dn_id n)) (filter (childOf key) ns))"
  by (induction key ns acc rule: childLoop.induct) (auto split: if_splits)

definition orphanParent :: "dependency_graph \<Rightarrow> string \<Rightarrow> bool" where
  "orphanParent g t \<longleftrightarrow> (\<exists>n. getNode g t = Some n \<and> trim (dn_parentTaskId n) = []) \<and>
     childrenOf g (toLowerCase t) \<noteq> [] \<and>
     everyIn (\<lambda>n. dn_status n = Completed) (childrenOf g (toLowerCase t))"

lemma checkOrphanParent_passed: "fr_passed (checkOrphanParent g t) \<longleftrightarrow> \<not> orphanParent g t"
proof (cases "mapGet (nodes g) (toLowerCase t)")
  case (Some n)
  obtain os dn where l: "childLoop (toLowerCase t) (mapValues (nodes g)) [] = (os, dn)" by fastforce
  have "os \<longleftrightarrow> (\<exists>n \<in> set (childrenOf g (toLowerCase t)). dn_status n \<noteq> Completed)"
    "\<not> os \<Longrightarrow> dn = map (\<lambda>n. toLowerCase (dn_id n)) (childrenOf g (toLowerCase t))"
    using childLoop_spec [OF l] by (simp_all add: childrenOf_def)
  with Some l show ?thesis
    by (cases os) (auto simp: checkOrphanParent_def orphanParent_def getNode_def Let_def list_all_iff)
qed (simp add: checkOrphanParent_def orphanParent_def getNode_def)

definition uncleared :: "dependency_graph \<Rightarrow> string \<Rightarrow> string list \<Rightarrow> bool" where
  "uncleared g t cleared \<longleftrightarrow> (\<exists>n. getNode g t = Some n \<and>
     (\<exists>d \<in> set (dn_externalDependencies n). ed_kind d = Manual \<and> clearanceKey (dn_id n) (ed_id d) \<notin> set cleared))"

lemma checkExternal_passed:
  "fr_passed (checkExternalDependencies g t keys file) \<longleftrightarrow> \<not> uncleared g t (orElse keys (loadClearanceSet file))"
  by (auto simp: checkExternalDependencies_def uncleared_def getNode_def collectBlocking_def Let_def
      filter_empty_conv split: option.splits)

definition entriesFor :: "string \<Rightarrow> string \<Rightarrow> json list" where
  "entriesFor raw t = filter (\<lambda>e. toLowerCase (strOf (jsonField e ''issueId'')) = toLowerCase t)
     (fst (readJsonl isCalibrationEntry raw))"

lemma latestLoop_fold:
  "fold (latestLoop target) ls latest =
     (case filter (\<lambda>e. toLowerCase (strOf (jsonField e ''issueId'')) = target)
        (fst (readLines isCalibrationEntry (filter (\<lambda>l. trim l \<noteq> []) ls))) of
       [] \<Rightarrow> latest | e # es \<Rightarrow> Some (last (e # es)))"
  by (induction ls arbitrary: latest)
    (auto simp: latestLoop_def split: list.splits option.splits prod.splits)

lemma readLatestEntry_last:
  "readLatestEntry raw t = (if entriesFor raw t = [] then None else Some (last (entriesFor raw t)))"
  unfolding readLatestEntry_def latestLoop_fold entriesFor_def readJsonl_def
  by (auto split: list.splits)

definition clearedByDor :: "string list option \<Rightarrow> string option \<Rightarrow> string \<Rightarrow> bool" where
  "clearedByDor labels logText t \<longleftrightarrow> hasBypassLabel labels \<or>
     (case logText of None \<Rightarrow> True | Some raw \<Rightarrow> entriesFor raw t = [] \<or>
        jsonField (last (entriesFor raw t)) ''outcome'' = Some (JStr ''override'') \<or>
        jsonField (last (entriesFor raw t)) ''overallVerdict'' = Some (JStr ''admit''))"

lemma checkDor_passed: "fr_passed (checkDorReadiness labels logText t) \<longleftrightarrow> clearedByDor labels logText t"
  by (auto simp: checkDorReadiness_def clearedByDor_def readLatestEntry_last split: option.splits)

definition openPrsKnown :: "chain_opts \<Rightarrow> open_pr list" where
  "openPrsKnown c = (let b = canonicalBranch (co_branchPattern c) (toLowerCase (co_taskId c)) (co_taskTitle c)
     in case mapGet (co_prListCache c) b of Some prs \<Rightarrow> prs
        | None \<Rightarrow> (case co_listOpenPRsByBranch c b of Inl _ \<Rightarrow> [] | Inr prs \<Rightarrow> prs))"

definition inFlight :: "in_flight_opts \<Rightarrow> string \<Rightarrow> bool" where
  "inFlight f t \<longleftrightarrow>
     (case if_listOpenPRs f (''ai-sdlc/'' @ toLowerCase t @ ''-*'') of Inl _ \<Rightarrow> False | Inr ps \<Rightarrow> ps \<noteq> []) \<or>
     if_sentinelExists f (if_repoRoot f @ ''/.worktrees/'' @ toLowerCase t @ ''/.active-task'') \<or>
     liveSubprocess f t \<noteq> None"

lemma checkInFlight_passed: "fr_passed (checkAlreadyInFlight f t) \<longleftrightarrow> \<not> inFlight f t"
  by (auto simp: checkAlreadyInFlight_def inFlight_def Let_def split: sum.splits list.splits option.splits)

definition overlapping :: "blast_opts \<Rightarrow> string \<Rightarrow> bool" where
  "overlapping b t \<longleftrightarrow> (\<exists>cand. bo_compute b t = Inr cand \<and>
     (\<exists>i \<in> set (collectInFlightTaskIds (bo_listOpenPRs b) (bo_worktrees b)). toLowerCase i \<noteq> toLowerCase t \<and>
        (\<exists>fs. bo_compute b i = Inr fs \<and> intersectFileSets cand fs \<noteq> [])))"

definition bypassed :: "blast_opts \<Rightarrow> string \<Rightarrow> bool" where
  "bypassed b t \<longleftrightarrow> isGlobalBypassEnabled (bo_envBypass b) \<or> isPerTaskBypassEnabled (bo_envBypassTask b) t"

lemma intersect_Nil [simp]: "intersectFileSets cand [] = []" "intersectFileSets [] fs = []"
  by (auto simp: intersectFileSets_def coversPath_def filter_empty_conv)

lemma overlapLoop_passed:
  "fr_passed (overlapLoop b t cand is) \<longleftrightarrow> \<not> (\<exists>i \<in> set is. toLowerCase i \<noteq> toLowerCase t \<and>
     (\<exists>fs. bo_compute b i = Inr fs \<and> intersectFileSets cand fs \<noteq> []))"
  by (induction "is") (auto simp: Let_def split: sum.splits)

lemma checkBlast_passed:
  "fr_passed (checkBlastRadiusOverlap b t) \<longleftrightarrow> bypassed b t \<or> \<not> overlapping b t"
  by (auto simp: checkBlastRadiusOverlap_def bypassed_def overlapping_def overlapLoop_passed admitWith_def
      split: sum.splits)

lemma overlapLoop_named: "fr_filter (overlapLoop b t cand is) = BlastRadiusOverlap \<and>
    (\<not> fr_passed (overlapLoop b t cand is) \<longrightarrow>
       fr_reason (overlapLoop b t cand is) \<noteq> None \<and> fr_detail (overlapLoop b t cand is) \<noteq> None)"
  by (induction "is") (auto simp: Let_def split: sum.splits)

definition operatorBlocked :: "blocked_frontmatter option \<Rightarrow> bool" where
  "operatorBlocked b \<longleftrightarrow> (\<exists>f r. b = Some f \<and> bf_reason f = Some r \<and> trim r \<noteq> [])"

subsection \<open>Interpretations\<close>

interpretation openPr: admission_filter "\<lambda>c. fst (openPrOutcome c)" OpenPullRequestExists
  "\<lambda>c. openPrsKnown c = []"
  by unfold_locales (auto simp: openPrOutcome_def checkOpenPullRequestExists_def openPrsKnown_def Let_def
      split: option.splits list.splits sum.splits)

interpretation orphan: admission_filter "\<lambda>c. checkOrphanParent (co_graph c) (co_taskId c)" OrphanParent
  "\<lambda>c. \<not> orphanParent (co_graph c) (co_taskId c)"
  by (unfold_locales, unfold checkOrphanParent_passed [symmetric])
    (auto simp: checkOrphanParent_def Let_def split: option.splits prod.splits)

interpretation inflight: admission_filter "\<lambda>c. checkAlreadyInFlight (co_inFlight c) (co_taskId c)"
  AlreadyInFlight "\<lambda>c. \<not> inFlight (co_inFlight c) (co_taskId c)"
  by (unfold_locales, unfold checkInFlight_passed)
    (auto simp: checkAlreadyInFlight_def inFlight_def Let_def split: sum.splits list.splits option.splits)

interpretation deps: admission_filter "\<lambda>c. checkDependencyReadiness (co_graph c) (co_taskId c)"
  DependencyReadiness "\<lambda>c. noOpenUpstream (co_graph c) (co_taskId c)"
  by unfold_locales (auto simp: checkDependencyReadiness_def Let_def blockers_Nil_iff)

interpretation blast: admission_filter "\<lambda>c. checkBlastRadiusOverlap (co_blast c) (co_taskId c)"
  BlastRadiusOverlap "\<lambda>c. bypassed (co_blast c) (co_taskId c) \<or> \<not> overlapping (co_blast c) (co_taskId c)"
  using overlapLoop_named
  by unfold_locales (auto simp: checkBlast_passed [symmetric] checkBlastRadiusOverlap_def admitWith_def
      split: sum.splits if_splits)

interpretation dispatchable: admission_filter
  "\<lambda>c. checkDispatchability (co_taskDispatchable c) (co_taskDispatchableReason c)"
  Dispatchability "\<lambda>c. co_taskDispatchable c \<noteq> Some False"
  by unfold_locales (auto simp: checkDispatchability_def Let_def split: if_splits)

interpretation dor: admission_filter
  "\<lambda>c. checkDorReadiness (co_taskLabels c) (co_calibrationLog c) (co_taskId c)"
  DorReadiness "\<lambda>c. clearedByDor (co_taskLabels c) (co_calibrationLog c) (co_taskId c)"
  by (unfold_locales, unfold checkDor_passed [symmetric])
    (auto simp: checkDorReadiness_def split: option.splits if_splits)

interpretation ext: admission_filter
  "\<lambda>c. checkExternalDependencies (co_graph c) (co_taskId c) (co_clearedExternalKeys c) (co_clearanceFile c)"
  ExternalDependencies "\<lambda>c. \<not> uncleared (co_graph c) (co_taskId c)
     (orElse (co_clearedExternalKeys c) (loadClearanceSet (co_clearanceFile c)))"
  by (unfold_locales, unfold checkExternal_passed [symmetric])
    (auto simp: checkExternalDependencies_def Let_def split: option.splits if_splits)

interpretation blocked: admission_filter "\<lambda>c. checkBlocked (co_taskBlocked c)" Blocked
  "\<lambda>c. \<not> operatorBlocked (co_taskBlocked c)"
  by unfold_locales (auto simp: checkBlocked_def operatorBlocked_def Let_def orElse_def split: option.splits)

interpretation captures: admission_filter
  "\<lambda>c. checkCapturesPending (co_captureFlag c) (co_hasPendingCaptures c) (co_taskId c)" CapturesPending
  "\<lambda>c. \<not> (isCaptureFlagEnabled (co_captureFlag c) \<and> co_hasPendingCaptures c (co_taskId c))"
  by unfold_locales (auto simp: checkCapturesPending_def split: if_splits)

subsection \<open>The chain\<close>

text \<open>What the chain has to decide: the filters in order with what each admits.\<close>

definition chainSpec :: "chain_opts \<Rightarrow> (filter_name \<times> bool) list" where
  "chainSpec c =
    [(OpenPullRequestExists, openPrsKnown c = []),
     (OrphanParent, \<not> orphanParent (co_graph c) (co_taskId c)),
     (AlreadyInFlight, \<not> inFlight (co_inFlight c) (co_taskId c)),
     (DependencyReadiness, noOpenUpstream (co_graph c) (co_taskId c)),
     (BlastRadiusOverlap, bypassed (co_blast c) (co_taskId c) \<or> \<not> overlapping (co_blast c) (co_taskId c)),
     (Dispatchability, co_taskDispatchable c \<noteq> Some False),
     (DorReadiness, clearedByDor (co_taskLabels c) (co_calibrationLog c) (co_taskId c)),
     (ExternalDependencies, \<not> uncleared (co_graph c) (co_taskId c)
        (orElse (co_clearedExternalKeys c) (loadClearanceSet (co_clearanceFile c)))),
     (Blocked, \<not> operatorBlocked (co_taskBlocked c)),
     (CapturesPending, \<not> (isCaptureFlagEnabled (co_captureFlag c) \<and> co_hasPendingCaptures c (co_taskId c)))]"

lemma chainSpec_filters:
  "map (\<lambda>check. (fr_filter (check c), fr_passed (check c))) chainFilters = chainSpec c"
  unfolding chainFilters_def chainSpec_def list.map
    openPr.outcome orphan.outcome inflight.outcome deps.outcome blast.outcome dispatchable.outcome
    dor.outcome ext.outcome blocked.outcome captures.outcome ..

fun upToFailure :: "('a \<times> bool) list \<Rightarrow> ('a \<times> bool) list" where
  "upToFailure [] = []"
| "upToFailure ((x, b) # xs) = (if b then (x, b) # upToFailure xs else [(x, b)])"

definition explainedResult :: "filter_result \<Rightarrow> bool" where
  "explainedResult r \<longleftrightarrow> fr_passed r \<or> (fr_reason r \<noteq> None \<and> fr_detail r \<noteq> None)"

lemma chainFilters_explained: "check \<in> set chainFilters \<Longrightarrow> explainedResult (check c)"
  unfolding chainFilters_def explainedResult_def
  using openPr.explained orphan.explained inflight.explained deps.explained blast.explained
    dispatchable.explained dor.explained ext.explained blocked.explained captures.explained
  by auto

lemma chainLoop_trace:
  "chainLoop checks c trace = \<lparr>cr_passed = list_all (\<lambda>check. fr_passed (check c)) checks,
     cr_trace = trace @ map (\<lambda>check. check c) (takeWhile (\<lambda>check. fr_passed (check c)) checks) @
       (case dropWhile (\<lambda>check. fr_passed (check c)) checks of [] \<Rightarrow> [] | check # _ \<Rightarrow> [check c]),
     cr_failure = (case dropWhile (\<lambda>check. fr_passed (check c)) checks of [] \<Rightarrow> None | check # _ \<Rightarrow> Some (check c))\<rparr>"
  by (induction checks arbitrary: trace) (auto simp: Let_def)

lemma upToFailure_map:
  "upToFailure (map (\<lambda>check. (fr_filter (check c), fr_passed (check c))) checks) =
   map (\<lambda>r. (fr_filter r, fr_passed r)) (map (\<lambda>check. check c) (takeWhile (\<lambda>check. fr_passed (check c)) checks) @
       (case dropWhile (\<lambda>check. fr_passed (check c)) checks of [] \<Rightarrow> [] | check # _ \<Rightarrow> [check c]))"
  by (induction checks) auto

lemma chainLoop_filters:
  "cr_passed (chainLoop chainFilters c []) = list_all snd (chainSpec c)"
  "map (\<lambda>r. (fr_filter r, fr_passed r)) (cr_trace (chainLoop chainFilters c [])) = upToFailure (chainSpec c)"
  by (simp_all add: chainLoop_trace chainSpec_filters [symmetric] upToFailure_map list_all_length)

end
