(* ===== verification/FilterProps.thy ===== *)
theory FilterProps
  imports FilterCorrect
begin

text \<open>
  The properties of the admission filters, their chain and the branch names they look up.
\<close>

text \<open>C6. The chain admits a candidate exactly when each of its ten filters admits it, and its
  trace names the filters in chain order up to and including the first that rejects; what each
  filter admits is stated by \<open>chainSpec\<close> apart from the code.\<close>

theorem chain_exact:
  "cr_passed (fst (runFilterChain c)) = list_all snd (chainSpec c) \<and>
   map (\<lambda>r. (fr_filter r, fr_passed r)) (cr_trace (fst (runFilterChain c))) = upToFailure (chainSpec c)"
  by (simp add: runFilterChain_def chainLoop_filters)

text \<open>A rejection is always explained: every rejecting entry of the trace carries a reason and
  a typed detail, and the failure is the last entry of the trace.\<close>

theorem chain_explained:
  "(\<nexists>r. r \<in> set (cr_trace (fst (runFilterChain c))) \<and> \<not> explainedResult r) \<and>
   cr_failure (fst (runFilterChain c)) =
     (if cr_passed (fst (runFilterChain c)) then None else Some (last (cr_trace (fst (runFilterChain c)))))"
proof -
  have "explainedResult r" if "r \<in> set (cr_trace (chainLoop chainFilters c []))" for r
    using that chainFilters_explained
    by (auto simp: chainLoop_trace dest: set_takeWhileD split: list.splits)
      (metis dropWhile_eq_Cons_conv in_set_conv_decomp)
  moreover have "cr_failure (chainLoop checks c tr) =
      (if cr_passed (chainLoop checks c tr) then None else Some (last (cr_trace (chainLoop checks c tr))))"
    for checks tr
    by (induction checks arbitrary: tr) (auto simp: Let_def)
  ultimately show ?thesis by (auto simp: runFilterChain_def)
qed

definition sharesPath :: "string \<Rightarrow> string \<Rightarrow> bool" where
  "sharesPath p q \<longleftrightarrow> p = q \<or> (endsWith p ''/'' \<and> (prefix p q \<or> p = q @ ''/'')) \<or>
     (prefix q p \<and> endsWith q ''/'' \<and> \<not> endsWith p ''/'')"

text \<open>Two declared blast radii overlap exactly on the candidate's paths that name a path of
  the other side, are a directory holding one of its paths (or that directory written without
  its slash), or are a file under one of its directories.\<close>

theorem overlap_exact:
  "p \<in> set (intersectFileSets a b) \<longleftrightarrow> p \<in> set a \<and> (\<exists>q \<in> set b. sharesPath p q)"
proof (cases "endsWith p ''/''")
  case True
  then have "q = butlast p \<longleftrightarrow> p = q @ ''/''" for q by (auto simp: endsWith_def suffix_def)
  with True show ?thesis
    by (auto simp: intersectFileSets_def coversPath_def sharesPath_def startsWith_def list_ex_iff)
next
  case False
  then show ?thesis
    by (auto simp: intersectFileSets_def coversPath_def sharesPath_def startsWith_def list_ex_iff)
qed

text \<open>The relation is not symmetric: a candidate directory inside an in-flight directory is not
  seen, although the same pair the other way round is.\<close>

lemma overlap_asymmetric:
  "intersectFileSets [''src/foo/''] [''src/''] = [] \<and> intersectFileSets [''src/''] [''src/foo/''] = [''src/'']"
  by code_simp

text \<open>A references list written without indentation, valid YAML, is not read.\<close>

lemma references_need_indent:
  "parseReferencesFromFrontmatter (joinWith newline [''references:'', ''- src/a.ts'']) = [] \<and>
   parseReferencesFromFrontmatter (joinWith newline [''references:'', ''  - src/a.ts'']) = [''src/a.ts'']"
  by code_simp

text \<open>The subprocess probe finds a task exactly where its id occurs with no digit after it, so
  \<open>AISDLC-2\<close> is not found in a command that runs \<open>AISDLC-283\<close>.\<close>

theorem probe_word_boundary:
  "mentionsTask t command \<longleftrightarrow> (\<exists>u v. command = u @ t @ v \<and> takeWhile isDigit v = [])"
proof (induction command)
  case Nil
  then show ?case by auto
next
  case (Cons c s)
  have stop: "(case v of [] \<Rightarrow> True | d # _ \<Rightarrow> \<not> isDigit d) \<longleftrightarrow> takeWhile isDigit v = []" for v
    by (cases v) auto
  have "(startsWith (c # s) t \<and> (case drop (length t) (c # s) of [] \<Rightarrow> True | d # _ \<Rightarrow> \<not> isDigit d)) \<longleftrightarrow>
      (\<exists>v. c # s = t @ v \<and> takeWhile isDigit v = [])"
    unfolding stop startsWith_def prefix_def by (metis append_eq_conv_conj)
  moreover have "(\<exists>u v. c # s = u @ t @ v \<and> takeWhile isDigit v = []) \<longleftrightarrow>
      (\<exists>v. c # s = t @ v \<and> takeWhile isDigit v = []) \<or> (\<exists>u v. s = u @ t @ v \<and> takeWhile isDigit v = [])"
    (is "?l \<longleftrightarrow> ?a \<or> ?b")
  proof
    assume ?l
    then obtain u v where uv: "c # s = u @ t @ v" "takeWhile isDigit v = []" by blast
    then show "?a \<or> ?b" by (cases u) auto
  next
    assume "?a \<or> ?b"
    then show ?l
    proof
      assume ?a
      then obtain v where "c # s = t @ v" "takeWhile isDigit v = []" by blast
      then show ?l by (intro exI [of _ "[]"] exI [of _ v]) simp
    next
      assume ?b
      then obtain u v where "s = u @ t @ v" "takeWhile isDigit v = []" by blast
      then show ?l by (intro exI [of _ "c # u"] exI [of _ v]) simp
    qed
  qed
  ultimately show ?case using Cons by simp
qed

text \<open>The last valid entry the calibration log holds for a task decides: once an entry is
  appended, the filter admits the task exactly when it carries the bypass label or that entry
  is an override or an admission, whatever the log held before.\<close>

theorem dor_last_entry_decides:
  assumes "\<forall>j \<in> set old. jsonOk j" and "jsonOk entry" and "isCalibrationEntry entry"
    and "jsonField entry ''issueId'' = Some (JStr issue)" and "toLowerCase issue = toLowerCase taskId"
  shows "fr_passed (checkDorReadiness labels (Some (concat (map jsonLine old) @ jsonLine entry)) taskId) \<longleftrightarrow>
    hasBypassLabel labels \<or> jsonField entry ''outcome'' = Some (JStr ''override'') \<or>
    jsonField entry ''overallVerdict'' = Some (JStr ''admit'')"
proof -
  have "concat (map jsonLine old) @ jsonLine entry = concat (map jsonLine (old @ [entry]))" by simp
  moreover have "readJsonl isCalibrationEntry (concat (map jsonLine (old @ [entry]))) =
      (filter isCalibrationEntry (old @ [entry]), length (filter (\<lambda>j. \<not> isCalibrationEntry j) (old @ [entry])))"
    using assms(1,2) by (intro readJsonl_lines) auto
  ultimately have "entriesFor (concat (map jsonLine old) @ jsonLine entry) taskId =
      filter (\<lambda>e. toLowerCase (strOf (jsonField e ''issueId'')) = toLowerCase taskId)
        (filter isCalibrationEntry old) @ [entry]"
    using assms(3-5) by (simp add: entriesFor_def strOf_def)
  then show ?thesis by (simp add: checkDor_passed clearedByDor_def)
qed

definition verdictEntry :: "string \<Rightarrow> string \<Rightarrow> json" where
  "verdictEntry issue verdict = JObj [(''issueId'', JStr issue), (''overallVerdict'', JStr verdict),
     (''outcome'', JStr ''pending'')]"

theorem dor_last_entry_decides_witness:
  "\<not> fr_passed (checkDorReadiness None (Some (concat (map jsonLine [verdictEntry ''A-1'' ''admit'']) @
      jsonLine (verdictEntry ''a-1'' ''needs-clarification''))) ''A-1'')"
proof -
  have 1: "\<forall>j \<in> set [verdictEntry ''A-1'' ''admit'']. jsonOk j" by (simp add: verdictEntry_def)
  have 2: "jsonOk (verdictEntry ''a-1'' ''needs-clarification'')" by (simp add: verdictEntry_def)
  have 3: "isCalibrationEntry (verdictEntry ''a-1'' ''needs-clarification'')" by code_simp
  have 4: "jsonField (verdictEntry ''a-1'' ''needs-clarification'') ''issueId'' = Some (JStr ''a-1'')"
    by (simp add: verdictEntry_def)
  have 5: "toLowerCase ''a-1'' = toLowerCase ''A-1''" by code_simp
  show ?thesis
    unfolding dor_last_entry_decides [OF 1 2 3 4 5, of None]
    by (simp add: verdictEntry_def hasBypassLabel_def)
qed

text \<open>The branch the first filter asks \<open>gh\<close> about is the branch the worktree step creates, for
  every configured pattern, id and title, whenever the title leaves a slug or the pattern has a
  place for the fallback slug.\<close>

theorem branch_lookup_agrees:
  assumes "slugify title \<noteq> [] \<or> strIncludes (fst (readBranchPattern y cfg DEFAULT_PATTERN)) ''{slug}''"
  shows "canonicalBranch (fst (readBranchPattern y cfg DEFAULT_PATTERN)) (toLowerCase taskId) (Some title) =
    br_branch (fst (computeBranchName y cfg workDir None taskId title))"
proof -
  have "slugify [] = []" by code_simp
  then show ?thesis
    using assms by (auto simp: canonicalBranch_def computeBranchName_def Let_def split_beta)
qed

theorem branch_lookup_agrees_witness:
  "canonicalBranch DEFAULT_PATTERN ''aisdlc-7'' (Some ''???'') = ''ai-sdlc/aisdlc-7-task'' \<and>
   br_branch (fst (computeBranchName (\<lambda>s. Inl []) \<lparr>cf_pipelineYaml = None, cf_legacyYaml = None\<rparr> ''.'' None
     ''AISDLC-7'' ''???'')) = ''ai-sdlc/aisdlc-7-task''"
proof -
  let ?cfg = "\<lparr>cf_pipelineYaml = None, cf_legacyYaml = None\<rparr>"
  have p: "fst (readBranchPattern (\<lambda>s. Inl []) ?cfg DEFAULT_PATTERN) = DEFAULT_PATTERN"
    by (simp add: readBranchPattern_def)
  have "strIncludes DEFAULT_PATTERN ''{slug}''" by code_simp
  then have "canonicalBranch DEFAULT_PATTERN (toLowerCase ''AISDLC-7'') (Some ''???'') =
      br_branch (fst (computeBranchName (\<lambda>s. Inl []) ?cfg ''.'' None ''AISDLC-7'' ''???''))"
    using branch_lookup_agrees [of "''???''" "\<lambda>s. Inl []" ?cfg "''AISDLC-7''" "''.''"] p by simp
  moreover have "toLowerCase ''AISDLC-7'' = ''aisdlc-7''" by code_simp
  moreover have "canonicalBranch DEFAULT_PATTERN ''aisdlc-7'' (Some ''???'') = ''ai-sdlc/aisdlc-7-task''" by code_simp
  ultimately show ?thesis by simp
qed

text \<open>A slug is at most 50 characters of \<open>a-z\<close>, \<open>0-9\<close> and single dashes, with no leading
  dash: it is safe in a branch name.\<close>

theorem slug_shape:
  "length (slugify title) \<le> 50 \<and> list_all (\<lambda>c. isSlugChar c \<or> c = CHR ''-'') (slugify title) \<and>
   noDashPair (slugify title) \<and> \<not> startsWith (slugify title) ''-''"
  by (rule slugify_shape)

end
