(* ===== verification/Playbook.thy ===== *)
theory Playbook
  imports Regex Json
begin

text \<open>
  The failure playbook's types, worker state tracker and nine handlers:
  \<open>pipeline-cli/src/orchestrator/playbook/types.ts\<close>, \<open>state-machine.ts\<close>, \<open>registry.ts\<close> and
  \<open>handlers/*.ts\<close>. Effects are explicit: a handler takes and returns the record of the commands,
  sleeps, re-dispatches and warnings issued so far; the command runner and the re-dispatch hook
  are functions of that record. Times are milliseconds; the ISO text of a time is left out.
\<close>

subsection \<open>Modes and states\<close>

datatype failure_mode = SecretScanBlocked | PushRaceWithMergeQueue | RebaseConflict
  | VerificationFailure | ReviewerMajorOrCritical | EnvHookFailure | AttestationVerifyMismatch
  | LongRunningPRBlocksWorker | StackedPRBaseSquashed | UnknownFailureMode

datatype worker_state = DEV_RUNNING | REVIEW_RUNNING | FINALIZING | ITERATE_DEV
  | REMEDIATE_SECRETSCAN | REMEDIATE_PUSH_RACE | REMEDIATE_REBASE | REMEDIATE_VERIFICATION
  | REMEDIATE_REVIEW | REMEDIATE_ENV_HOOK | REMEDIATE_ATTESTATION | REMEDIATE_STACKED_PR
  | SLEEP_RETRY | PARKED | NEEDS_HUMAN_ATTENTION | DONE | DONE_WITH_FLAG

definition MODE_TO_REMEDIATE_STATE :: "failure_mode \<Rightarrow> worker_state" where
  "MODE_TO_REMEDIATE_STATE m = (case m of
     SecretScanBlocked \<Rightarrow> REMEDIATE_SECRETSCAN
   | PushRaceWithMergeQueue \<Rightarrow> REMEDIATE_PUSH_RACE
   | RebaseConflict \<Rightarrow> REMEDIATE_REBASE
   | VerificationFailure \<Rightarrow> REMEDIATE_VERIFICATION
   | ReviewerMajorOrCritical \<Rightarrow> REMEDIATE_REVIEW
   | EnvHookFailure \<Rightarrow> REMEDIATE_ENV_HOOK
   | AttestationVerifyMismatch \<Rightarrow> REMEDIATE_ATTESTATION
   | LongRunningPRBlocksWorker \<Rightarrow> PARKED
   | StackedPRBaseSquashed \<Rightarrow> REMEDIATE_STACKED_PR
   | UnknownFailureMode \<Rightarrow> NEEDS_HUMAN_ATTENTION)"

definition CATALOGUED_MODES :: "failure_mode list" where
  "CATALOGUED_MODES = [SecretScanBlocked, PushRaceWithMergeQueue, StackedPRBaseSquashed, RebaseConflict,
     VerificationFailure, ReviewerMajorOrCritical, EnvHookFailure, AttestationVerifyMismatch,
     LongRunningPRBlocksWorker]"

definition modeText :: "failure_mode \<Rightarrow> string" where
  "modeText m = (case m of
     SecretScanBlocked \<Rightarrow> ''SecretScanBlocked''
   | PushRaceWithMergeQueue \<Rightarrow> ''PushRaceWithMergeQueue''
   | RebaseConflict \<Rightarrow> ''RebaseConflict''
   | VerificationFailure \<Rightarrow> ''VerificationFailure''
   | ReviewerMajorOrCritical \<Rightarrow> ''ReviewerMajorOrCritical''
   | EnvHookFailure \<Rightarrow> ''EnvHookFailure''
   | AttestationVerifyMismatch \<Rightarrow> ''AttestationVerifyMismatch''
   | LongRunningPRBlocksWorker \<Rightarrow> ''LongRunningPRBlocksWorker''
   | StackedPRBaseSquashed \<Rightarrow> ''StackedPRBaseSquashed''
   | UnknownFailureMode \<Rightarrow> ''UnknownFailureMode'')"

subsection \<open>Contexts, outcomes and events\<close>

record reviewer_findings =
  rf_critical :: nat
  rf_major :: nat
  rf_minor :: nat
  rf_suggestion :: nat

record failure_signal =
  fs_stderr :: string
  fs_exitCode :: "int option"
  fs_reviewerFindings :: "reviewer_findings option"
  fs_prAgeMs :: "int option"
  fs_changedPaths :: "string list option"
  fs_basePrMergedAt :: "string option"
  fs_mergeStateStatus :: "string option"

record worker_context =
  wc_workerId :: string
  wc_taskId :: string
  wc_branch :: string
  wc_worktreePath :: string
  wc_state :: worker_state
  wc_prUrl :: "string option"
  wc_failure :: failure_signal
  wc_attempts :: nat

datatype remediation_status = Recovered | Retry | BudgetExhausted | Inapplicable

record pipeline_result =
  plr_taskId :: string
  plr_outcome :: string
  plr_prUrl :: "string option"
  plr_notes :: "string option"

record remediation_outcome =
  ro_status :: remediation_status
  ro_nextState :: "worker_state option"
  ro_note :: "string option"
  ro_result :: "pipeline_result option"

datatype event_body =
    WorkerStateTransition worker_state worker_state int "string option" "failure_mode option"
  | RemediationApplied failure_mode nat remediation_status "string option"
  | RemediationFailed failure_mode nat string
  | WorkerParked "string option" string

record playbook_event =
  ev_ts :: int
  ev_workerId :: string
  ev_taskId :: string
  ev_body :: event_body

subsection \<open>The worker state tracker\<close>

record transition_entry =
  te_ts :: int
  te_from :: worker_state
  te_to :: worker_state
  te_note :: "string option"

record last_failure =
  lf_mode :: failure_mode
  lf_attempts :: nat
  lf_reason :: string

record persisted_state =
  ps_workerId :: string
  ps_taskId :: string
  ps_branch :: string
  ps_worktreePath :: string
  ps_state :: worker_state
  ps_dispatchedAt :: int
  ps_updatedAt :: int
  ps_history :: "transition_entry list"
  ps_lastFailure :: "last_failure option"

text \<open>\<open>tk_now n\<close> is the clock's n-th reading, \<open>tk_reads\<close> how often it was read, \<open>tk_file\<close> the
  snapshot last written to the worker's state file.\<close>

record tracker =
  tk_workerId :: string
  tk_taskId :: string
  tk_branch :: string
  tk_worktreePath :: string
  tk_dispatchedAt :: int
  tk_state :: worker_state
  tk_history :: "transition_entry list"
  tk_events :: "playbook_event list"
  tk_lastTransitionAt :: int
  tk_inMemoryOnly :: bool
  tk_historyLimit :: nat
  tk_lastFailure :: "last_failure option"
  tk_now :: "nat \<Rightarrow> int"
  tk_reads :: nat
  tk_file :: "persisted_state option"

definition DEFAULT_HISTORY_LIMIT :: nat where
  "DEFAULT_HISTORY_LIMIT = 64"

definition readClock :: "tracker \<Rightarrow> int \<times> tracker" where
  "readClock t = (tk_now t (tk_reads t), t\<lparr>tk_reads := Suc (tk_reads t)\<rparr>)"

definition snapshot :: "tracker \<Rightarrow> persisted_state \<times> tracker" where
  "snapshot t = (let (ts, t') = readClock t in
     (\<lparr>ps_workerId = tk_workerId t, ps_taskId = tk_taskId t, ps_branch = tk_branch t,
       ps_worktreePath = tk_worktreePath t, ps_state = tk_state t, ps_dispatchedAt = tk_dispatchedAt t,
       ps_updatedAt = ts, ps_history = tk_history t, ps_lastFailure = tk_lastFailure t\<rparr>, t'))"

definition persist :: "tracker \<Rightarrow> tracker" where
  "persist t = (if tk_inMemoryOnly t then t
     else let (s, t') = snapshot t in t'\<lparr>tk_file := Some s\<rparr>)"

definition newTracker :: "string \<Rightarrow> string \<Rightarrow> string \<Rightarrow> string \<Rightarrow> worker_state option \<Rightarrow> (nat \<Rightarrow> int) \<Rightarrow>
    bool \<Rightarrow> nat option \<Rightarrow> tracker" where
  "newTracker workerId taskId branch worktreePath initialState now inMemoryOnly historyLimit = persist
     \<lparr>tk_workerId = workerId, tk_taskId = taskId, tk_branch = branch, tk_worktreePath = worktreePath,
      tk_dispatchedAt = now 0, tk_state = orElse initialState DEV_RUNNING, tk_history = [], tk_events = [],
      tk_lastTransitionAt = now 1, tk_inMemoryOnly = inMemoryOnly,
      tk_historyLimit = orElse historyLimit DEFAULT_HISTORY_LIMIT, tk_lastFailure = None, tk_now = now,
      tk_reads = 2, tk_file = None\<rparr>"

definition stampEvent :: "tracker \<Rightarrow> int \<Rightarrow> event_body \<Rightarrow> playbook_event" where
  "stampEvent t ts body = \<lparr>ev_ts = ts, ev_workerId = tk_workerId t, ev_taskId = tk_taskId t, ev_body = body\<rparr>"

definition emit :: "playbook_event \<Rightarrow> tracker \<Rightarrow> tracker" where
  "emit e t = t\<lparr>tk_events := tk_events t @ [e]\<rparr>"

definition capHistory :: "nat \<Rightarrow> transition_entry list \<Rightarrow> transition_entry list" where
  "capHistory limit h = (if limit < length h then drop (length h - limit) h else h)"

text \<open>The event, \<open>None\<close> when the worker is already in the state, and the tracker afterwards.\<close>

definition transition :: "worker_state \<Rightarrow> string option \<Rightarrow> failure_mode option \<Rightarrow> tracker \<Rightarrow>
    playbook_event option \<times> tracker" where
  "transition to note mode t =
     (if to = tk_state t then (None, t)
      else let (ts, t1) = readClock t;
               event = stampEvent t ts
                 (WorkerStateTransition (tk_state t) to (ts - tk_lastTransitionAt t) note mode);
               entry = \<lparr>te_ts = ts, te_from = tk_state t, te_to = to, te_note = note\<rparr>
           in (Some event, persist (t1\<lparr>tk_events := tk_events t @ [event],
                 tk_history := capHistory (tk_historyLimit t) (tk_history t @ [entry]),
                 tk_state := to, tk_lastTransitionAt := ts\<rparr>)))"

definition recordFailure :: "failure_mode \<Rightarrow> nat \<Rightarrow> string \<Rightarrow> tracker \<Rightarrow> tracker" where
  "recordFailure mode attempts reason t =
     persist (t\<lparr>tk_lastFailure := Some \<lparr>lf_mode = mode, lf_attempts = attempts, lf_reason = reason\<rparr>\<rparr>)"

subsection \<open>Side effects\<close>

record exec_result =
  ex_code :: int
  ex_stderr :: string

type_synonym command = "string \<times> string list"

record effects =
  ef_commands :: "command list"
  ef_sleeps :: "nat list"
  ef_redispatches :: nat
  ef_warnings :: "string list"
  ef_escalations :: "(string \<times> string \<times> string option) list"

record deps =
  hd_runner :: "effects \<Rightarrow> command \<Rightarrow> exec_result"
  hd_redispatch :: "(effects \<Rightarrow> string \<Rightarrow> string + pipeline_result) option"

definition warn :: "string \<Rightarrow> effects \<Rightarrow> effects" where
  "warn w e = e\<lparr>ef_warnings := ef_warnings e @ [w]\<rparr>"

definition sleepMs :: "nat \<Rightarrow> effects \<Rightarrow> effects" where
  "sleepMs n e = e\<lparr>ef_sleeps := ef_sleeps e @ [n]\<rparr>"

definition runCommand :: "deps \<Rightarrow> string \<Rightarrow> string list \<Rightarrow> effects \<Rightarrow> exec_result \<times> effects" where
  "runCommand d cmd args e = (hd_runner d e (cmd, args), e\<lparr>ef_commands := ef_commands e @ [(cmd, args)]\<rparr>)"

definition redispatch :: "(effects \<Rightarrow> string \<Rightarrow> string + pipeline_result) \<Rightarrow> string \<Rightarrow> effects \<Rightarrow>
    (string + pipeline_result) \<times> effects" where
  "redispatch f taskId e = (f e taskId, e\<lparr>ef_redispatches := Suc (ef_redispatches e)\<rparr>)"

definition outcomeOf :: "remediation_status \<Rightarrow> worker_state option \<Rightarrow> string \<Rightarrow> pipeline_result option \<Rightarrow>
    remediation_outcome" where
  "outcomeOf s next note r = \<lparr>ro_status = s, ro_nextState = next, ro_note = Some note, ro_result = r\<rparr>"

record handler =
  h_mode :: failure_mode
  h_budget :: nat
  h_detect :: "worker_context \<Rightarrow> bool"
  h_remediate :: "worker_context \<Rightarrow> deps \<Rightarrow> effects \<Rightarrow> remediation_outcome \<times> effects"
  h_escalate :: "(worker_context \<Rightarrow> effects \<Rightarrow> effects) option"

definition attemptText :: "worker_context \<Rightarrow> nat \<Rightarrow> string" where
  "attemptText ctx budget = ''(attempt '' @ showNat (wc_attempts ctx + 1) @ ''/'' @ showNat budget @ '')''"

end
