(* ===== verification/PlaybookHandlers.thy ===== *)
theory PlaybookHandlers
  imports Playbook
begin

text \<open>
  The nine handlers of \<open>pipeline-cli/src/orchestrator/playbook/handlers/\<close> and their registry
  (\<open>registry.ts\<close>). Detection patterns are the regular expressions of the source; the flag \<open>i\<close> is
  a lower-case pattern on folded text. Commands run with \<open>allowFailure\<close>, so the runner always
  returns an exit code. The rebase and re-sign steps themselves are the programs called.
\<close>

definition sliceNote :: "string \<Rightarrow> exec_result \<Rightarrow> string" where
  "sliceNote label r = label @ take 200 (ex_stderr r)"

definition pushLease :: "worker_context \<Rightarrow> string list" where
  "pushLease ctx = [''push'', ''--force-with-lease'', ''origin'', wc_branch ctx]"

subsection \<open>Secret scan\<close>

definition secretScanDetect :: "worker_context \<Rightarrow> bool" where
  "secretScanDetect ctx = (let stderr = fs_stderr (wc_failure ctx) in
     stderr \<noteq> [] \<and> reTestI (reLit ''push declined due to repository rule violations'') stderr \<and>
     (reTestI (reLit ''secret scanning'') stderr \<or>
      reTestI (reLit ''secret_scanning_push_protection'') stderr))"

definition secretScanRemediate :: "worker_context \<Rightarrow> deps \<Rightarrow> effects \<Rightarrow> remediation_outcome \<times> effects" where
  "secretScanRemediate ctx d e = (case hd_redispatch d of
     None \<Rightarrow> (outcomeOf Inapplicable None
       (''no redispatch hook injected; cannot drive literal'' @ rightArrow @ ''template rewrite'') None, e)
   | Some f \<Rightarrow>
       let e1 = warn (''[playbook/secret-scan] re-dispatching '' @ wc_taskId ctx @ '' '' @ attemptText ctx 2) e
       in (case redispatch f (wc_taskId ctx) e1 of
         (Inr r, e2) \<Rightarrow>
           (outcomeOf (if plr_outcome r = ''approved'' then Recovered else Retry)
              (Some (if plr_outcome r = ''approved'' then DONE else REMEDIATE_SECRETSCAN))
              (''redispatch outcome='' @ plr_outcome r) (Some r), e2)
       | (Inl reason, e2) \<Rightarrow>
           (outcomeOf Retry (Some REMEDIATE_SECRETSCAN) (''redispatch threw: '' @ reason) None, e2)))"

definition secretScanBlockedHandler :: handler where
  "secretScanBlockedHandler = \<lparr>h_mode = SecretScanBlocked, h_budget = 2, h_detect = secretScanDetect,
     h_remediate = secretScanRemediate, h_escalate = None\<rparr>"

subsection \<open>Push race\<close>

definition RETRY_DELAY_MS :: nat where "RETRY_DELAY_MS = 60000"

definition pushRaceDetect :: "worker_context \<Rightarrow> bool" where
  "pushRaceDetect ctx = (let stderr = fs_stderr (wc_failure ctx) in
     stderr \<noteq> [] \<and> reTestI (reLit ''protected branch hook declined'') stderr \<and>
     reTestI (reAlts [reLit ''queued for merging'', reLit ''merge queue'', reLit ''merge_queue'']) stderr)"

definition pushRaceRemediate :: "worker_context \<Rightarrow> deps \<Rightarrow> effects \<Rightarrow> remediation_outcome \<times> effects" where
  "pushRaceRemediate ctx d e =
     (let e1 = warn (''[playbook/push-race] sleep '' @ showNat RETRY_DELAY_MS @ ''ms then retry push for '' @
            wc_taskId ctx @ '' '' @ attemptText ctx 3) e;
          (push, e2) = runCommand d ''git'' (pushLease ctx) (sleepMs RETRY_DELAY_MS e1)
      in if ex_code push = 0
         then (outcomeOf Recovered (Some FINALIZING)
                 (''push succeeded on attempt '' @ showNat (wc_attempts ctx + 1)) None, e2)
         else (outcomeOf Retry (Some REMEDIATE_PUSH_RACE) (sliceNote ''push still rejected: '' push) None, e2))"

definition pushRaceHandler :: handler where
  "pushRaceHandler = \<lparr>h_mode = PushRaceWithMergeQueue, h_budget = 3, h_detect = pushRaceDetect,
     h_remediate = pushRaceRemediate, h_escalate = None\<rparr>"

subsection \<open>Stacked pull request\<close>

definition stackedPrDetect :: "worker_context \<Rightarrow> bool" where
  "stackedPrDetect ctx \<longleftrightarrow> orElse (wc_prUrl ctx) [] \<noteq> [] \<and>
     toUpperCase (orElse (fs_mergeStateStatus (wc_failure ctx)) []) = ''DIRTY'' \<and>
     orElse (fs_basePrMergedAt (wc_failure ctx)) [] \<noteq> []"

definition stackedPrRemediate :: "worker_context \<Rightarrow> deps \<Rightarrow> effects \<Rightarrow> remediation_outcome \<times> effects" where
  "stackedPrRemediate ctx d e =
     (let e1 = warn (''[playbook/stacked-pr] rebasing '' @ wc_branch ctx @ '' onto origin/main (base PR merged at '' @
            orElse (fs_basePrMergedAt (wc_failure ctx)) ''undefined'' @ '')'') e;
          (fetch, e2) = runCommand d ''git'' [''fetch'', ''origin'', ''main''] e1
      in if ex_code fetch \<noteq> 0 then (outcomeOf BudgetExhausted None (sliceNote ''git fetch failed: '' fetch) None, e2)
         else let (rebase, e3) = runCommand d ''git'' [''rebase'', ''--reapply-cherry-picks'', ''origin/main''] e2
         in if ex_code rebase \<noteq> 0
            then (outcomeOf BudgetExhausted None (sliceNote ''rebase failed (likely conflicts): '' rebase) None, e3)
            else let (push, e4) = runCommand d ''git'' (pushLease ctx) e3
            in if ex_code push = 0
               then (outcomeOf Recovered (Some FINALIZING)
                       ''rebased onto main + force-pushed; squashed parent commits dropped'' None, e4)
               else (outcomeOf BudgetExhausted None
                       (sliceNote ''force-with-lease push failed after rebase: '' push) None, e4))"

definition stackedPrBaseSquashedHandler :: handler where
  "stackedPrBaseSquashedHandler = \<lparr>h_mode = StackedPRBaseSquashed, h_budget = 1, h_detect = stackedPrDetect,
     h_remediate = stackedPrRemediate, h_escalate = None\<rparr>"

subsection \<open>Rebase conflict\<close>

definition rebaseConflictDetect :: "worker_context \<Rightarrow> bool" where
  "rebaseConflictDetect ctx = (let stderr = fs_stderr (wc_failure ctx) in
     stderr \<noteq> [] \<and>
     (reTestI (reAlts [reLit ''could not apply'', reLit ''conflict'', reLit ''failed to merge in the changes'']) stderr \<or>
      reTest (reSeqs [reLit ''<<<<<<<'', rePlus reSpace, reLit ''HEAD'']) stderr))"

definition rebaseConflictRemediate :: "worker_context \<Rightarrow> deps \<Rightarrow> effects \<Rightarrow> remediation_outcome \<times> effects" where
  "rebaseConflictRemediate ctx d e =
     (let e1 = warn (''[playbook/rebase-conflict] invoking rebase-resolver for '' @ wc_taskId ctx @
            '' branch='' @ wc_branch ctx) e
      in case hd_redispatch d of
        None \<Rightarrow> (outcomeOf Inapplicable None
          ''no redispatch hook injected; cannot drive rebase-resolver'' None, e1)
      | Some f \<Rightarrow> (case redispatch f (wc_taskId ctx) e1 of
          (Inr r, e2) \<Rightarrow>
            if plr_outcome r = ''approved''
            then (outcomeOf Recovered (Some DONE) ''rebase resolved + pipeline drained'' (Some r), e2)
            else (outcomeOf BudgetExhausted None (''rebase resolver returned outcome='' @ plr_outcome r @
                    ''; escalating per AISDLC-105'') None, e2)
        | (Inl reason, e2) \<Rightarrow>
            (outcomeOf BudgetExhausted None (''rebase resolver threw: '' @ reason @ ''; escalating'') None, e2)))"

definition rebaseConflictHandler :: handler where
  "rebaseConflictHandler = \<lparr>h_mode = RebaseConflict, h_budget = 1, h_detect = rebaseConflictDetect,
     h_remediate = rebaseConflictRemediate, h_escalate = None\<rparr>"

subsection \<open>Verification and review\<close>

definition VERIFY_TOOLS :: re where
  "VERIFY_TOOLS = reAlts
     [reSeqs [reLit ''pnpm'', rePlus reSpace, reAlts [reLit ''build'', reLit ''test'', reLit ''lint'', reLit ''format'']],
      reLit ''vitest'', reLit ''tsc'', reLit ''eslint'', reLit ''prettier'']"

text \<open>\<open>(?!0)\d\<close> is a digit other than 0; the ballot cross is its three bytes.\<close>

definition VERIFY_FAILURE_PHRASES :: re where
  "VERIFY_FAILURE_PHRASES = reAlts
     [reLit ''failed'',
      reSeqs [reLit ''exit '', reOpt (reLit ''code ''), Cls (\<lambda>c. isDigit c \<and> c \<noteq> CHR ''0'')],
      reLit ''fail'', reLit [CHR 0xE2, CHR 0x9C, CHR 0x97]]"

definition verificationDetect :: "worker_context \<Rightarrow> bool" where
  "verificationDetect ctx = (let stderr = fs_stderr (wc_failure ctx) in
     if stderr = [] then False
     else if fs_exitCode (wc_failure ctx) = Some 0 \<or> fs_exitCode (wc_failure ctx) = None then False
     else if \<not> reTestI VERIFY_TOOLS stderr then False
     else reTestI VERIFY_FAILURE_PHRASES stderr)"

definition verificationRemediate :: "worker_context \<Rightarrow> deps \<Rightarrow> effects \<Rightarrow> remediation_outcome \<times> effects" where
  "verificationRemediate ctx d e = (case hd_redispatch d of
     None \<Rightarrow> (outcomeOf Inapplicable None
       ''no redispatch hook injected; cannot re-spawn dev with stderr feedback'' None, e)
   | Some f \<Rightarrow>
       let e1 = warn (''[playbook/verification] re-dispatching '' @ wc_taskId ctx @
            '' with verify stderr feedback '' @ attemptText ctx 2) e
       in (case redispatch f (wc_taskId ctx) e1 of
         (Inr r, e2) \<Rightarrow>
           if plr_outcome r = ''approved''
           then (outcomeOf Recovered (Some DONE) ''dev re-implementation passed verification'' (Some r), e2)
           else (outcomeOf Retry (Some ITERATE_DEV) (''dev re-implementation outcome='' @ plr_outcome r) (Some r), e2)
       | (Inl reason, e2) \<Rightarrow> (outcomeOf Retry (Some ITERATE_DEV) (''re-dispatch threw: '' @ reason) None, e2)))"

definition verificationFailureHandler :: handler where
  "verificationFailureHandler = \<lparr>h_mode = VerificationFailure, h_budget = 2, h_detect = verificationDetect,
     h_remediate = verificationRemediate, h_escalate = None\<rparr>"

definition reviewerDetect :: "worker_context \<Rightarrow> bool" where
  "reviewerDetect ctx = (case fs_reviewerFindings (wc_failure ctx) of
     None \<Rightarrow> False
   | Some f \<Rightarrow> 0 < rf_critical f \<or> 0 < rf_major f)"

definition reviewerRemediate :: "worker_context \<Rightarrow> deps \<Rightarrow> effects \<Rightarrow> remediation_outcome \<times> effects" where
  "reviewerRemediate ctx d e = (case hd_redispatch d of
     None \<Rightarrow> (outcomeOf Inapplicable None
       ''no redispatch hook injected; cannot re-spawn dev with reviewer feedback'' None, e)
   | Some f \<Rightarrow>
       let e1 = warn (''[playbook/reviewer] re-dispatching '' @ wc_taskId ctx @
            '' with reviewer feedback '' @ attemptText ctx 2) e
       in (case redispatch f (wc_taskId ctx) e1 of
         (Inr r, e2) \<Rightarrow>
           if plr_outcome r = ''approved''
           then (outcomeOf Recovered (Some DONE) ''dev re-implementation passed review'' (Some r), e2)
           else (outcomeOf Retry (Some ITERATE_DEV) (''dev re-implementation outcome='' @ plr_outcome r) (Some r), e2)
       | (Inl reason, e2) \<Rightarrow> (outcomeOf Retry (Some ITERATE_DEV) (''re-dispatch threw: '' @ reason) None, e2)))"

definition reviewerMajorOrCriticalHandler :: handler where
  "reviewerMajorOrCriticalHandler = \<lparr>h_mode = ReviewerMajorOrCritical, h_budget = 2, h_detect = reviewerDetect,
     h_remediate = reviewerRemediate, h_escalate = None\<rparr>"

subsection \<open>Environment hook\<close>

definition ENV_FAILURE_PHRASES :: re where
  "ENV_FAILURE_PHRASES = reAlts
     [reSeqs [reLit ''tsc'', rePlus (Alt (reLit '':'') reSpace), reLit ''not found''],
      reLit ''command not found'',
      reSeqs [reLit ''husky'', Star reDot, reLit ''not found''],
      reSeqs [reLit ''node:'', Star reDot, reLit ''cannot find module''],
      reSeqs [reLit ''enoent'', Star reDot, reLit ''executable'']]"

definition sourcePathHint :: "string \<Rightarrow> bool" where
  "sourcePathHint p \<longleftrightarrow> startsWith p ''pipeline-cli/src/'' \<or> startsWith p ''ai-sdlc-plugin/'' \<or>
     reTestEnd (Seq (reLit ''.'') (reAlts [reLit ''ts'', reLit ''tsx'', reLit ''mjs'', reLit ''cjs'', reLit ''js''])) p"

definition rootMarkdown :: re where
  "rootMarkdown = Seq (rePlus (Cls (\<lambda>c. c \<noteq> CHR ''/''))) (reLit ''.md'')"

definition dataOnlyPathHint :: "string \<Rightarrow> bool" where
  "dataOnlyPathHint p \<longleftrightarrow> startsWith p ''backlog/'' \<or> startsWith p ''docs/'' \<or> startsWith p ''spec/'' \<or>
     startsWith p ''.ai-sdlc/'' \<or> reMatch rootMarkdown p"

definition stripDotSlash :: "string \<Rightarrow> string" where
  "stripDotSlash p = (if startsWith p ''./'' then drop 2 p else p)"

fun dataOnlyPaths :: "string list \<Rightarrow> bool" where
  "dataOnlyPaths [] = True"
| "dataOnlyPaths (p # ps) =
     (if sourcePathHint (stripDotSlash p) then False
      else if \<not> dataOnlyPathHint (stripDotSlash p) then False
      else dataOnlyPaths ps)"

definition isDataOnlyChange :: "string list option \<Rightarrow> bool" where
  "isDataOnlyChange paths = (case paths of
     None \<Rightarrow> False
   | Some ps \<Rightarrow> if ps = [] then False else dataOnlyPaths ps)"

definition envHookDetect :: "worker_context \<Rightarrow> bool" where
  "envHookDetect ctx = (let stderr = fs_stderr (wc_failure ctx) in
     stderr \<noteq> [] \<and> reTestI ENV_FAILURE_PHRASES stderr)"

definition envHookRemediate :: "worker_context \<Rightarrow> deps \<Rightarrow> effects \<Rightarrow> remediation_outcome \<times> effects" where
  "envHookRemediate ctx d e =
     (if \<not> isDataOnlyChange (fs_changedPaths (wc_failure ctx))
      then (outcomeOf BudgetExhausted None (''change touches source code; refusing --no-verify retry per '' @ [CHR 0xC2, CHR 0xA7] @ ''5.1'') None, e)
      else let e1 = warn (''[playbook/env-hook] retrying push with --no-verify for '' @ wc_taskId ctx @
                 '' (data-only change)'') e;
               (push, e2) = runCommand d ''git''
                 [''push'', ''--no-verify'', ''--force-with-lease'', ''origin'', wc_branch ctx] e1
      in if ex_code push = 0
         then (outcomeOf Recovered (Some FINALIZING)
                 ''--no-verify push succeeded; EnvHookSkipped audit emitted'' None, e2)
         else (outcomeOf BudgetExhausted None (sliceNote ''--no-verify push still failing: '' push) None, e2))"

definition envHookFailureHandler :: handler where
  "envHookFailureHandler = \<lparr>h_mode = EnvHookFailure, h_budget = 1, h_detect = envHookDetect,
     h_remediate = envHookRemediate, h_escalate = None\<rparr>"

subsection \<open>Attestation\<close>

definition ATTESTATION_MISMATCH_PHRASES :: re where
  "ATTESTATION_MISMATCH_PHRASES = reAlts
     [reSeqs [reLit ''contenthashv3'', rePlus reSpace, reLit ''mismatch''],
      reSeqs [reLit ''attestation'', Star reDot, reLit ''mismatch''],
      reSeqs [reLit ''attestation'', Star reDot, reLit ''verify'', Star reDot, reLit ''failed'']]"

definition attestationDetect :: "worker_context \<Rightarrow> bool" where
  "attestationDetect ctx = (let stderr = fs_stderr (wc_failure ctx) in
     stderr \<noteq> [] \<and> reTestI ATTESTATION_MISMATCH_PHRASES stderr)"

definition attestationRemediate :: "worker_context \<Rightarrow> deps \<Rightarrow> effects \<Rightarrow> remediation_outcome \<times> effects" where
  "attestationRemediate ctx d e =
     (let e1 = warn (''[playbook/attestation] re-signing attestation for '' @ wc_taskId ctx @
            '' branch='' @ wc_branch ctx) e;
          (sign, e2) = runCommand d ''bash'' [''scripts/check-attestation-sign.sh''] e1
      in if ex_code sign \<noteq> 0
         then (outcomeOf BudgetExhausted None (''attestation re-sign failed (exit '' @ showInt (ex_code sign) @ ''): '' @
                 take 200 (ex_stderr sign)) None, e2)
         else let (push, e3) = runCommand d ''git'' (pushLease ctx) e2
         in if ex_code push = 0
            then (outcomeOf Recovered (Some FINALIZING)
                    ''attestation re-signed + pushed; AttestationStaleAfterRebase emitted for audit'' None, e3)
            else (outcomeOf BudgetExhausted None
                    (sliceNote ''re-push after attestation re-sign failed: '' push) None, e3))"

definition attestationVerifyMismatchHandler :: handler where
  "attestationVerifyMismatchHandler = \<lparr>h_mode = AttestationVerifyMismatch, h_budget = 1,
     h_detect = attestationDetect, h_remediate = attestationRemediate, h_escalate = None\<rparr>"

subsection \<open>Long-running pull request\<close>

definition LONG_RUNNING_PR_THRESHOLD_MS :: int where
  "LONG_RUNNING_PR_THRESHOLD_MS = 2 * 60 * 60 * 1000"

definition longRunningDetect :: "worker_context \<Rightarrow> bool" where
  "longRunningDetect ctx = (case fs_prAgeMs (wc_failure ctx) of
     None \<Rightarrow> False
   | Some age \<Rightarrow> LONG_RUNNING_PR_THRESHOLD_MS \<le> age \<and> orElse (wc_prUrl ctx) [] \<noteq> [])"

text \<open>\<open>Math.round\<close> rounds halves up.\<close>

definition ageMinutes :: "worker_context \<Rightarrow> int" where
  "ageMinutes ctx = (orElse (fs_prAgeMs (wc_failure ctx)) 0 + 30000) div 60000"

definition longRunningRemediate :: "worker_context \<Rightarrow> deps \<Rightarrow> effects \<Rightarrow> remediation_outcome \<times> effects" where
  "longRunningRemediate ctx d e =
     (outcomeOf Recovered (Some PARKED) (''parked after '' @ showInt (ageMinutes ctx) @ ''min open'') None,
      warn (''[playbook/long-running-pr] parking worker '' @ wc_workerId ctx @ '' (PR '' @
        orElse (wc_prUrl ctx) ''null'' @ '' aged '' @ showInt (ageMinutes ctx) @ ''min)'') e)"

definition longRunningEscalate :: "worker_context \<Rightarrow> effects \<Rightarrow> effects" where
  "longRunningEscalate ctx e = warn (''[playbook/long-running-pr] worker '' @ wc_workerId ctx @ '' parked; PR '' @
     orElse (wc_prUrl ctx) ''null'' @ '' continues independently'') e"

definition longRunningPrHandler :: handler where
  "longRunningPrHandler = \<lparr>h_mode = LongRunningPRBlocksWorker, h_budget = 1, h_detect = longRunningDetect,
     h_remediate = longRunningRemediate, h_escalate = Some longRunningEscalate\<rparr>"

subsection \<open>Registry\<close>

definition PLAYBOOK_HANDLERS :: "handler list" where
  "PLAYBOOK_HANDLERS = [secretScanBlockedHandler, pushRaceHandler, stackedPrBaseSquashedHandler,
     rebaseConflictHandler, verificationFailureHandler, reviewerMajorOrCriticalHandler,
     envHookFailureHandler, attestationVerifyMismatchHandler, longRunningPrHandler]"

definition findHandler :: "failure_mode \<Rightarrow> handler option" where
  "findHandler mode = find (\<lambda>h. h_mode h = mode) PLAYBOOK_HANDLERS"

fun orderMismatch :: "failure_mode list \<Rightarrow> failure_mode list \<Rightarrow> bool" where
  "orderMismatch reg [] = False"
| "orderMismatch [] (m # ms) = True"
| "orderMismatch (r # reg) (m # ms) = (r \<noteq> m \<or> orderMismatch reg ms)"

text \<open>\<open>True\<close> when the check returns, \<open>False\<close> when it throws.\<close>

definition assertRegistryConsistency :: bool where
  "assertRegistryConsistency =
     (let registryModes = map h_mode PLAYBOOK_HANDLERS;
          missing = filter (\<lambda>m. m \<notin> set registryModes) CATALOGUED_MODES;
          extra = filter (\<lambda>m. m \<notin> set CATALOGUED_MODES) registryModes
      in if missing \<noteq> [] \<or> extra \<noteq> [] then False
         else \<not> orderMismatch registryModes CATALOGUED_MODES)"

end
