(* ===== verification/Catalogue.thy ===== *)
theory Catalogue
  imports Playbook
begin

text \<open>
  The failure-pattern catalogue, \<open>pipeline-cli/src/orchestrator/playbook/catalogue.ts\<close>: the built-in
  table, the parser of the YAML override file (an error message or a catalogue) and the budgets
  a catalogue gives. A file is read by its content, \<open>None\<close> when there is none.
\<close>

record catalogue_entry =
  cp_mode :: failure_mode
  cp_budget :: nat
  cp_description :: string
  cp_escalateImmediately :: bool

record catalogue =
  ct_patterns :: "catalogue_entry list"

definition defaultEntry :: "failure_mode \<Rightarrow> nat \<Rightarrow> string \<Rightarrow> catalogue_entry" where
  "defaultEntry m b d = \<lparr>cp_mode = m, cp_budget = b, cp_description = d, cp_escalateImmediately = False\<rparr>"

definition DEFAULT_CATALOGUE :: catalogue where
  "DEFAULT_CATALOGUE = \<lparr>ct_patterns = [
     defaultEntry SecretScanBlocked 2
       ''git push rejected with `push declined due to repository rule violations` + `Secret Scanning` mention. Reformat literal-secret patterns to template-literal construction; recommit; retry push.'',
     defaultEntry PushRaceWithMergeQueue 3
       ''git push rejected with `protected branch hook declined` + `queued for merging`. Sleep 60s and retry push.'',
     defaultEntry RebaseConflict 1
       ''git rebase origin/main exits non-zero with conflict markers. Invoke /ai-sdlc rebase (AISDLC-105) to attempt mechanical resolution.'',
     defaultEntry VerificationFailure 2
       ''pnpm build/test/lint/format exits non-zero in dev verify stage. Re-spawn dev with combined verification stderr feedback.'',
     defaultEntry ReviewerMajorOrCritical 2
       ''Aggregated reviewer verdict has any critical or major finding. Re-spawn dev with combined reviewer feedback.'',
     defaultEntry EnvHookFailure 1
       ''husky pre-commit fails with tsc/command-not-found. Retry with --no-verify ONLY if change is data-only (backlog/, docs/, spec/, root *.md).'',
     defaultEntry AttestationVerifyMismatch 1
       ''CI reports contentHashV3 mismatch after a sibling PR merged. Re-sign attestation per AISDLC-102; re-spawn 3 reviewers if contentHashV3 changed.'',
     defaultEntry LongRunningPRBlocksWorker 1
       ''Worker's PR open + queued for >2h without merge OR rejection. Park worker; release worktree; emit WorkerParked.'',
     defaultEntry StackedPRBaseSquashed 1
       ''Previously-opened PR's mergeStateStatus flips to DIRTY AND base PR was merged via squash/rebase strategy. git fetch origin main && git rebase --reapply-cherry-picks; force-push.'']\<rparr>"

subsection \<open>Fields\<close>

record partial_entry =
  pe_mode :: "failure_mode option"
  pe_budget :: "nat option"
  pe_description :: "string option"
  pe_escalateImmediately :: "bool option"

definition emptyEntry :: partial_entry where
  "emptyEntry = \<lparr>pe_mode = None, pe_budget = None, pe_description = None, pe_escalateImmediately = None\<rparr>"

definition quotedBy :: "char \<Rightarrow> string \<Rightarrow> bool" where
  "quotedBy q raw \<longleftrightarrow> 2 \<le> length raw \<and> startsWith raw [q] \<and> endsWith raw [q]"

definition stripEntryQuotes :: "string \<Rightarrow> string" where
  "stripEntryQuotes raw =
     (if quotedBy CHR 39 raw then butlast (tl raw)
      else if quotedBy CHR 34 raw then butlast (tl raw)
      else raw)"

definition modeOfText :: "string \<Rightarrow> failure_mode option" where
  "modeOfText s = find (\<lambda>m. modeText m = s) CATALOGUED_MODES"

definition applyPatternField :: "partial_entry \<Rightarrow> string \<Rightarrow> string \<Rightarrow> string + partial_entry" where
  "applyPatternField target text path = (case splitFirst '':'' text of
     None \<Rightarrow> Inr target
   | Some (pre, post) \<Rightarrow>
       let key = trim pre; value = stripEntryQuotes (trim post) in
       if key = ''mode'' then (case modeOfText value of
           None \<Rightarrow> Inl (path @ '': unknown mode '' @ [CHR 39] @ value @ [CHR 39] @ '' '' @ emDash @
             '' must be one of '' @ joinWith '', '' (map modeText CATALOGUED_MODES))
         | Some m \<Rightarrow> Inr (target\<lparr>pe_mode := Some m\<rparr>))
       else if key = ''budget'' then (case parseIntPrefix value of
           Some n \<Rightarrow>
             if n < 0 then Inl (path @ '': budget for '' @ [CHR 39] @
                 orElse (map_option modeText (pe_mode target)) ''?'' @ [CHR 39] @
                 '' must be a non-negative integer (got '' @ value @ '')'')
             else Inr (target\<lparr>pe_budget := Some (nat n)\<rparr>)
         | None \<Rightarrow> Inl (path @ '': budget for '' @ [CHR 39] @
             orElse (map_option modeText (pe_mode target)) ''?'' @ [CHR 39] @
             '' must be a non-negative integer (got '' @ value @ '')''))
       else if key = ''escalateImmediately'' then Inr (target\<lparr>pe_escalateImmediately := Some (value = ''true'')\<rparr>)
       else if key = ''description'' then Inr (target\<lparr>pe_description := Some value\<rparr>)
       else Inl (path @ '': unknown pattern field '' @ [CHR 39] @ key @ [CHR 39]))"

subsection \<open>The parser\<close>

record parse_state =
  pt_version :: "string option"
  pt_patterns :: "catalogue_entry list"
  pt_inPatterns :: bool
  pt_current :: "partial_entry option"

definition initialParse :: parse_state where
  "initialParse = \<lparr>pt_version = None, pt_patterns = [], pt_inPatterns = False, pt_current = None\<rparr>"

definition flush :: "string \<Rightarrow> parse_state \<Rightarrow> string + parse_state" where
  "flush path s = (case pt_current s of
     None \<Rightarrow> Inr s
   | Some c \<Rightarrow> (case pe_mode c of
       None \<Rightarrow> Inl (path @ '': pattern entry missing required field '' @ [CHR 39] @ ''mode'' @ [CHR 39])
     | Some m \<Rightarrow> (case pe_budget c of
         None \<Rightarrow> Inl (path @ '': pattern '' @ [CHR 39] @ modeText m @ [CHR 39] @
           '' missing required field '' @ [CHR 39] @ ''budget'' @ [CHR 39])
       | Some b \<Rightarrow> Inr (s\<lparr>pt_patterns := pt_patterns s @
             [\<lparr>cp_mode = m, cp_budget = b, cp_description = orElse (pe_description c) [],
               cp_escalateImmediately = orElse (pe_escalateImmediately c) False\<rparr>],
           pt_current := None\<rparr>))))"

text \<open>The value of \<open>^version:\s*(.+)$\<close>, trimmed as its caller does.\<close>

definition matchVersion :: "string \<Rightarrow> string option" where
  "matchVersion line =
     (if reMatch (reSeqs [reLit ''version:'', Star reSpace, rePlus reDot]) line
      then Some (trim (drop 8 line)) else None)"

definition patternsHeader :: "string \<Rightarrow> bool" where
  "patternsHeader line \<longleftrightarrow> reMatch (Seq (reLit ''patterns:'') (Star reSpace)) line"

definition stripCarriage :: "string \<Rightarrow> string" where
  "stripCarriage l = (if endsWith l [CHR 13] then butlast l else l)"

definition isDashLine :: "string \<Rightarrow> bool" where
  "isDashLine line = (case dropWhile isSpace line of
     d # c # r \<Rightarrow> d = CHR ''-'' \<and> isSpace c
   | _ \<Rightarrow> False)"

definition dropDash :: "string \<Rightarrow> string" where
  "dropDash line = dropWhile isSpace (tl (dropWhile isSpace line))"

definition parseLine :: "string \<Rightarrow> string \<Rightarrow> parse_state \<Rightarrow> string + parse_state" where
  "parseLine path rawLine s =
     (let line = stripCarriage rawLine in
      if trim line = [] \<or> startsWith (trim line) ''#'' then Inr s
      else if \<not> pt_inPatterns s then (case matchVersion line of
          Some v \<Rightarrow> Inr (s\<lparr>pt_version := Some (stripEntryQuotes v)\<rparr>)
        | None \<Rightarrow> if patternsHeader line then Inr (s\<lparr>pt_inPatterns := True\<rparr>)
            else Inl (path @ '': unexpected top-level line: '' @ line))
      else if isDashLine line then (case flush path s of
          Inl e \<Rightarrow> Inl e
        | Inr s1 \<Rightarrow> (case applyPatternField emptyEntry (dropDash line) path of
            Inl e \<Rightarrow> Inl e
          | Inr c \<Rightarrow> Inr (s1\<lparr>pt_current := Some c\<rparr>)))
      else (case pt_current s of
          None \<Rightarrow> Inl (path @ '': unexpected line outside of a pattern entry: '' @ line)
        | Some c \<Rightarrow> (case applyPatternField c (trim line) path of
            Inl e \<Rightarrow> Inl e
          | Inr c' \<Rightarrow> Inr (s\<lparr>pt_current := Some c'\<rparr>))))"

fun parseLines :: "string \<Rightarrow> string list \<Rightarrow> parse_state \<Rightarrow> string + parse_state" where
  "parseLines path [] s = Inr s"
| "parseLines path (l # ls) s = (case parseLine path l s of
     Inl e \<Rightarrow> Inl e
   | Inr s' \<Rightarrow> parseLines path ls s')"

text \<open>The message of the first repeated mode, if any.\<close>

fun validatePatterns :: "string \<Rightarrow> failure_mode list \<Rightarrow> catalogue_entry list \<Rightarrow> string option" where
  "validatePatterns path seen [] = None"
| "validatePatterns path seen (p # ps) =
     (if cp_mode p \<in> set seen
      then Some (path @ '': duplicate pattern entry for mode '' @ [CHR 39] @ modeText (cp_mode p) @ [CHR 39])
      else validatePatterns path (cp_mode p # seen) ps)"

definition parseCatalogueYaml :: "string \<Rightarrow> string \<Rightarrow> string + catalogue" where
  "parseCatalogueYaml yaml path = (case parseLines path (splitOn (CHR 10) yaml) initialParse of
     Inl e \<Rightarrow> Inl e
   | Inr s \<Rightarrow> (case flush path s of
       Inl e \<Rightarrow> Inl e
     | Inr s1 \<Rightarrow>
         if pt_version s1 \<noteq> Some ''v1''
         then Inl (path @ '': version must be '' @ [CHR 39] @ ''v1'' @ [CHR 39] @ '' (got '' @
                stringify (case pt_version s1 of None \<Rightarrow> JNull | Some v \<Rightarrow> JStr v) @ '')'')
         else (case validatePatterns path [] (pt_patterns s1) of
             Some e \<Rightarrow> Inl e
           | None \<Rightarrow> Inr \<lparr>ct_patterns = pt_patterns s1\<rparr>)))"

definition loadFailurePatternCatalogue :: "string option \<Rightarrow> string \<Rightarrow> string + catalogue" where
  "loadFailurePatternCatalogue file path = (case file of
     None \<Rightarrow> Inr DEFAULT_CATALOGUE
   | Some raw \<Rightarrow> parseCatalogueYaml raw path)"

subsection \<open>Budgets\<close>

definition defaultBudget :: "failure_mode \<Rightarrow> nat" where
  "defaultBudget m = orElse (map_option cp_budget (find (\<lambda>p. cp_mode p = m) (ct_patterns DEFAULT_CATALOGUE))) 1"

definition effectiveBudgets :: "catalogue \<Rightarrow> (failure_mode, nat) jsmap" where
  "effectiveBudgets c =
     fold (\<lambda>p out. mapSet (cp_mode p) (cp_budget p) out) (ct_patterns c)
       (mapSet UnknownFailureMode 0
         (fold (\<lambda>m out. mapSet m (defaultBudget m) out) CATALOGUED_MODES []))"

end
