(* ===== verification/PlaybookRun.thy ===== *)
theory PlaybookRun
  imports PlaybookHandlers Catalogue
begin

text \<open>
  The playbook runner, \<open>pipeline-cli/src/orchestrator/playbook/playbook-runner.ts\<close>. A run carries the
  worker's tracker, the effects, the events it returns and how often its own clock was read.
\<close>

record playbook_opts =
  po_catalogue :: catalogue
  po_deps :: deps
  po_escalate :: "(effects \<Rightarrow> string \<Rightarrow> string \<Rightarrow> string option \<Rightarrow> string option) option"
  po_now :: "nat \<Rightarrow> int"

datatype playbook_outcome = RecoveredOutcome | EscalatedOutcome | UnknownOutcome

record playbook_result =
  pr_matchedMode :: "failure_mode option"
  pr_outcome :: playbook_outcome
  pr_events :: "playbook_event list"
  pr_pipelineResult :: "pipeline_result option"
  pr_note :: "string option"

record run =
  rn_tracker :: tracker
  rn_effects :: effects
  rn_events :: "playbook_event list"
  rn_reads :: nat

definition pickHandler :: "worker_context \<Rightarrow> handler option" where
  "pickHandler ctx = find (\<lambda>h. h_detect h ctx) PLAYBOOK_HANDLERS"

text \<open>An event of the runner: stamped with its clock, returned and given to the tracker.\<close>

definition runnerEvent :: "playbook_opts \<Rightarrow> worker_context \<Rightarrow> event_body \<Rightarrow> run \<Rightarrow> run" where
  "runnerEvent opts ctx body r =
     (let ev = \<lparr>ev_ts = po_now opts (rn_reads r), ev_workerId = wc_workerId ctx,
                ev_taskId = wc_taskId ctx, ev_body = body\<rparr>
      in r\<lparr>rn_events := rn_events r @ [ev], rn_tracker := emit ev (rn_tracker r), rn_reads := Suc (rn_reads r)\<rparr>)"

definition runTransition :: "worker_state \<Rightarrow> string option \<Rightarrow> failure_mode \<Rightarrow> run \<Rightarrow> run" where
  "runTransition to note mode r =
     (let (ev, t) = transition to note (Some mode) (rn_tracker r)
      in r\<lparr>rn_tracker := t, rn_events := rn_events r @ (case ev of None \<Rightarrow> [] | Some e \<Rightarrow> [e])\<rparr>)"

subsection \<open>Escalation\<close>

definition callEscalate :: "(effects \<Rightarrow> string \<Rightarrow> string \<Rightarrow> string option \<Rightarrow> string option) \<Rightarrow> string \<Rightarrow> string \<Rightarrow>
    string option \<Rightarrow> failure_mode \<Rightarrow> effects \<Rightarrow> effects" where
  "callEscalate f taskId reason prUrl mode e =
     (let e1 = e\<lparr>ef_escalations := ef_escalations e @ [(taskId, reason, prUrl)]\<rparr>
      in case f e taskId reason prUrl of
        None \<Rightarrow> e1
      | Some m \<Rightarrow> warn (''[playbook/'' @ modeText mode @ ''] generic escalate threw: '' @ m) e1)"

definition escalateHook :: "worker_context \<Rightarrow> handler \<Rightarrow> string \<Rightarrow> playbook_opts \<Rightarrow> effects \<Rightarrow> effects" where
  "escalateHook ctx h reason opts e = (case h_escalate h of
     Some f \<Rightarrow> f ctx e
   | None \<Rightarrow> (case po_escalate opts of
       Some f \<Rightarrow> callEscalate f (wc_taskId ctx) (modeText (h_mode h) @ '': '' @ reason) (wc_prUrl ctx) (h_mode h) e
     | None \<Rightarrow> e))"

definition escalate :: "worker_context \<Rightarrow> handler \<Rightarrow> nat \<Rightarrow> string \<Rightarrow> playbook_opts \<Rightarrow> run \<Rightarrow> playbook_result \<times> run" where
  "escalate ctx h attempts reason opts r =
     (let r1 = r\<lparr>rn_effects := escalateHook ctx h reason opts (rn_effects r)\<rparr>;
          r2 = runnerEvent opts ctx (RemediationFailed (h_mode h) attempts reason) r1;
          r3 = r2\<lparr>rn_tracker := recordFailure (h_mode h) attempts reason (rn_tracker r2)\<rparr>;
          terminal = (if h_mode h = LongRunningPRBlocksWorker then PARKED else NEEDS_HUMAN_ATTENTION);
          r4 = runTransition terminal (Some reason) (h_mode h) r3;
          r5 = (if h_mode h = LongRunningPRBlocksWorker
                then runnerEvent opts ctx (WorkerParked (wc_prUrl ctx) reason) r4
                else runTransition DONE_WITH_FLAG (Some reason) (h_mode h) r4)
      in (\<lparr>pr_matchedMode = Some (h_mode h), pr_outcome = EscalatedOutcome, pr_events = rn_events r5,
           pr_pipelineResult = None, pr_note = Some reason\<rparr>, r5))"

subsection \<open>The attempt loop\<close>

text \<open>\<open>left\<close> is \<open>budget - attempt\<close>; the loop makes at most that many attempts.\<close>

fun attemptLoop :: "worker_context \<Rightarrow> handler \<Rightarrow> worker_state \<Rightarrow> nat \<Rightarrow> playbook_opts \<Rightarrow> nat \<Rightarrow> nat \<Rightarrow> string \<Rightarrow>
    pipeline_result option \<Rightarrow> run \<Rightarrow> playbook_result \<times> run" where
  "attemptLoop ctx h rst budget opts 0 attempt lastNote res r =
     escalate ctx h budget (if lastNote = [] then ''budget exhausted'' else lastNote) opts r"
| "attemptLoop ctx h rst budget opts (Suc remaining) attempt lastNote res r =
     (let (out, e) = h_remediate h (ctx\<lparr>wc_state := rst, wc_attempts := attempt\<rparr>) (po_deps opts) (rn_effects r);
          r1 = runnerEvent opts ctx (RemediationApplied (h_mode h) (attempt + 1) (ro_status out) (ro_note out))
                 (r\<lparr>rn_effects := e\<rparr>);
          lastNote' = orElse (ro_note out) lastNote;
          res' = (case ro_result out of None \<Rightarrow> res | Some p \<Rightarrow> Some p)
      in case ro_status out of
        Recovered \<Rightarrow>
          let r2 = runTransition (orElse (ro_nextState out) DONE) (ro_note out) (h_mode h) r1
          in (\<lparr>pr_matchedMode = Some (h_mode h), pr_outcome = RecoveredOutcome, pr_events = rn_events r2,
               pr_pipelineResult = res', pr_note = ro_note out\<rparr>, r2)
      | Inapplicable \<Rightarrow> escalate ctx h (attempt + 1) (orElse (ro_note out) ''inapplicable'') opts r1
      | BudgetExhausted \<Rightarrow> escalate ctx h (attempt + 1) (orElse (ro_note out) ''budget exhausted'') opts r1
      | Retry \<Rightarrow>
          attemptLoop ctx h rst budget opts remaining (attempt + 1) lastNote' res'
            (case ro_nextState out of None \<Rightarrow> r1 | Some n \<Rightarrow> runTransition n (ro_note out) (h_mode h) r1))"

subsection \<open>The run\<close>

definition cataloguedEntry :: "catalogue \<Rightarrow> failure_mode \<Rightarrow> catalogue_entry option" where
  "cataloguedEntry c m = find (\<lambda>p. cp_mode p = m) (ct_patterns c)"

definition escalateImmediately :: "catalogue \<Rightarrow> failure_mode \<Rightarrow> bool" where
  "escalateImmediately c m \<longleftrightarrow> map_option cp_escalateImmediately (cataloguedEntry c m) = Some True"

definition budgetOf :: "playbook_opts \<Rightarrow> handler \<Rightarrow> nat" where
  "budgetOf opts h = orElse (mapGet (effectiveBudgets (po_catalogue opts)) (h_mode h)) (h_budget h)"

text \<open>\<open>None\<close> is the error of the registry check.\<close>

definition runPlaybook :: "worker_context \<Rightarrow> playbook_opts \<Rightarrow> tracker \<Rightarrow> effects \<Rightarrow> (playbook_result \<times> run) option" where
  "runPlaybook ctx opts tracker effects =
     (if \<not> assertRegistryConsistency then None
      else let r = \<lparr>rn_tracker = tracker, rn_effects = effects, rn_events = [], rn_reads = 0\<rparr>
      in case pickHandler ctx of
        None \<Rightarrow> Some (\<lparr>pr_matchedMode = None, pr_outcome = UnknownOutcome, pr_events = [], pr_pipelineResult = None,
            pr_note = Some ''no catalogued handler matched; falling through to UnknownFailureMode''\<rparr>, r)
      | Some h \<Rightarrow>
          let budget = budgetOf opts h;
              immediately = escalateImmediately (po_catalogue opts) (h_mode h);
              rst = MODE_TO_REMEDIATE_STATE (h_mode h);
              r1 = runTransition rst (Some (''entering remediation for '' @ modeText (h_mode h))) (h_mode h) r
          in Some (if budget = 0 \<or> immediately
               then escalate ctx h 0 (modeText (h_mode h) @ '': operator catalogue '' @
                      (if immediately then ''set escalateImmediately=true'' else ''set budget=0'')) opts r1
               else attemptLoop ctx h rst budget opts budget 0 [] None r1))"

section \<open>What a handler promises\<close>

text \<open>
  What the runner relies on when it calls a handler, as a locale: the commands a remediation may
  issue, how long it may sleep, how often it re-dispatches, and the state it leaves for each
  status. Each of the nine handlers is an interpretation; \<open>registered_contract\<close> gives the contract
  for every handler of the registry.
\<close>

definition allowedCommands :: "worker_context \<Rightarrow> command set" where
  "allowedCommands ctx =
     {(''git'', [''push'', ''--force-with-lease'', ''origin'', wc_branch ctx]),
      (''git'', [''fetch'', ''origin'', ''main'']),
      (''git'', [''rebase'', ''--reapply-cherry-picks'', ''origin/main'']),
      (''bash'', [''scripts/check-attestation-sign.sh''])} \<union>
     (if isDataOnlyChange (fs_changedPaths (wc_failure ctx))
      then {(''git'', [''push'', ''--no-verify'', ''--force-with-lease'', ''origin'', wc_branch ctx])} else {})"

text \<open>From \<open>e\<close> to \<open>e'\<close> only allowed commands ran, at most \<open>ms\<close> milliseconds were slept and the
  developer was re-dispatched at most \<open>n\<close> times.\<close>

definition within :: "worker_context \<Rightarrow> nat \<Rightarrow> nat \<Rightarrow> effects \<Rightarrow> effects \<Rightarrow> bool" where
  "within ctx ms n e e' \<longleftrightarrow>
     (\<exists>cs. ef_commands e' = ef_commands e @ cs \<and> set cs \<subseteq> allowedCommands ctx) \<and>
     (\<exists>ss. ef_sleeps e' = ef_sleeps e @ ss \<and> sum_list ss \<le> ms) \<and>
     ef_redispatches e' \<le> ef_redispatches e + n"

lemma allowedCommands_update [simp]: "allowedCommands (ctx\<lparr>wc_state := s, wc_attempts := a\<rparr>) = allowedCommands ctx"
  by (simp add: allowedCommands_def)

lemma within_update [simp]: "within (ctx\<lparr>wc_state := s, wc_attempts := a\<rparr>) = within ctx"
  by (simp add: within_def fun_eq_iff)

lemma within_refl [simp]: "within ctx ms n e e"
  by (simp add: within_def)

lemma within_trans:
  assumes "within ctx a n e1 e2" "within ctx b m e2 e3" "a + b \<le> c" "n + m \<le> k"
  shows "within ctx c k e1 e3"
proof -
  from assms(1) obtain cs ss where 1: "ef_commands e2 = ef_commands e1 @ cs" "set cs \<subseteq> allowedCommands ctx"
    "ef_sleeps e2 = ef_sleeps e1 @ ss" "sum_list ss \<le> a" by (auto simp: within_def)
  from assms(2) obtain cs' ss' where 2: "ef_commands e3 = ef_commands e2 @ cs'" "set cs' \<subseteq> allowedCommands ctx"
    "ef_sleeps e3 = ef_sleeps e2 @ ss'" "sum_list ss' \<le> b" by (auto simp: within_def)
  have "ef_redispatches e3 \<le> ef_redispatches e1 + k"
    using assms by (simp add: within_def)
  moreover have "ef_commands e3 = ef_commands e1 @ (cs @ cs') \<and> set (cs @ cs') \<subseteq> allowedCommands ctx"
    using 1 2 by simp
  moreover have "ef_sleeps e3 = ef_sleeps e1 @ (ss @ ss') \<and> sum_list (ss @ ss') \<le> c"
    using 1 2 assms(3) by simp
  ultimately show ?thesis unfolding within_def by blast
qed

definition sleepAllowance :: "failure_mode \<Rightarrow> nat" where
  "sleepAllowance m = (if m = PushRaceWithMergeQueue then RETRY_DELAY_MS else 0)"

text \<open>The state a mode's successful remediation leaves the worker in.\<close>

definition recoveryState :: "failure_mode \<Rightarrow> worker_state" where
  "recoveryState m =
     (if m \<in> {SecretScanBlocked, RebaseConflict, VerificationFailure, ReviewerMajorOrCritical} then DONE
      else if m = LongRunningPRBlocksWorker then PARKED else FINALIZING)"

definition retryStates :: "failure_mode \<Rightarrow> worker_state set" where
  "retryStates m = {MODE_TO_REMEDIATE_STATE m, ITERATE_DEV} - {PARKED, NEEDS_HUMAN_ATTENTION}"

text \<open>Modes whose remediation runs git commands only and never returns a pipeline result.\<close>

definition silentModes :: "failure_mode set" where
  "silentModes = {PushRaceWithMergeQueue, StackedPRBaseSquashed, EnvHookFailure, AttestationVerifyMismatch,
     LongRunningPRBlocksWorker}"

locale remediation_contract =
  fixes h :: handler
  assumes effects_bounded:
      "h_remediate h ctx d e = (out, e') \<Longrightarrow> within ctx (sleepAllowance (h_mode h)) 1 e e'"
    and recovered_state:
      "h_remediate h ctx d e = (out, e') \<Longrightarrow> ro_status out = Recovered \<Longrightarrow>
       ro_nextState out = Some (recoveryState (h_mode h))"
    and retry_state:
      "h_remediate h ctx d e = (out, e') \<Longrightarrow> ro_status out = Retry \<Longrightarrow>
       ro_nextState out \<in> Some ` retryStates (h_mode h)"
    and result_approved:
      "h_remediate h ctx d e = (out, e') \<Longrightarrow> ro_status out = Recovered \<Longrightarrow>
       map_option plr_outcome (ro_result out) \<in> {None, Some ''approved''}"
    and silent: "h_remediate h ctx d e = (out, e') \<Longrightarrow> h_mode h \<in> silentModes \<Longrightarrow> ro_result out = None"
    and result_given:
      "h_remediate h ctx d e = (out, e') \<Longrightarrow> ro_status out = Recovered \<Longrightarrow> h_mode h \<notin> silentModes \<Longrightarrow>
       ro_result out \<noteq> None"
    and noted: "h_remediate h ctx d e = (out, e') \<Longrightarrow> ro_note out \<noteq> None"
    and hook_bounded: "h_escalate h = Some f \<Longrightarrow> within ctx 0 0 e (f ctx e)"
    and hook_parks: "h_escalate h \<noteq> None \<longleftrightarrow> h_mode h = LongRunningPRBlocksWorker"

named_theorems contract_defs \<open>definitions the contract of a handler unfolds\<close>

lemmas [contract_defs] = within_def allowedCommands_def warn_def sleepMs_def runCommand_def redispatch_def
  outcomeOf_def pushLease_def sleepAllowance_def recoveryState_def retryStates_def MODE_TO_REMEDIATE_STATE_def
  sliceNote_def silentModes_def Let_def

interpretation secret: remediation_contract secretScanBlockedHandler
  by unfold_locales (auto simp: secretScanBlockedHandler_def secretScanRemediate_def contract_defs
      split: option.splits sum.splits if_splits)

interpretation push: remediation_contract pushRaceHandler
  by unfold_locales (auto simp: pushRaceHandler_def pushRaceRemediate_def contract_defs split: if_splits)

interpretation stacked: remediation_contract stackedPrBaseSquashedHandler
  by unfold_locales (auto simp: stackedPrBaseSquashedHandler_def stackedPrRemediate_def contract_defs
      split: if_splits)

interpretation rebase: remediation_contract rebaseConflictHandler
  by unfold_locales (auto simp: rebaseConflictHandler_def rebaseConflictRemediate_def contract_defs
      split: option.splits sum.splits if_splits)

interpretation verify: remediation_contract verificationFailureHandler
  by unfold_locales (auto simp: verificationFailureHandler_def verificationRemediate_def contract_defs
      split: option.splits sum.splits if_splits)

interpretation review: remediation_contract reviewerMajorOrCriticalHandler
  by unfold_locales (auto simp: reviewerMajorOrCriticalHandler_def reviewerRemediate_def contract_defs
      split: option.splits sum.splits if_splits)

interpretation envhook: remediation_contract envHookFailureHandler
  by unfold_locales (auto simp: envHookFailureHandler_def envHookRemediate_def contract_defs
      split: if_splits)

interpretation attest: remediation_contract attestationVerifyMismatchHandler
  by unfold_locales (auto simp: attestationVerifyMismatchHandler_def attestationRemediate_def contract_defs
      split: if_splits)

interpretation longrun: remediation_contract longRunningPrHandler
  by unfold_locales (auto simp: longRunningPrHandler_def longRunningRemediate_def longRunningEscalate_def
      contract_defs split: if_splits)

lemma registered_contract: "h \<in> set PLAYBOOK_HANDLERS \<Longrightarrow> remediation_contract h"
  by (auto simp: PLAYBOOK_HANDLERS_def intro: secret.remediation_contract_axioms push.remediation_contract_axioms
      stacked.remediation_contract_axioms rebase.remediation_contract_axioms verify.remediation_contract_axioms
      review.remediation_contract_axioms envhook.remediation_contract_axioms attest.remediation_contract_axioms
      longrun.remediation_contract_axioms)

end
