(* ===== verification/PlaybookCorrect.thy ===== *)
theory PlaybookCorrect
  imports PlaybookRun
begin

text \<open>
  The tracker's invariant over every reachable tracker, the contract of a handler as a locale
  with an interpretation per handler, and the runs of the playbook as steps, so that what each
  step keeps holds of the whole run.
\<close>

section \<open>The tracker\<close>

text \<open>The transitions of an event log, and a walk through states.\<close>

fun entryOf :: "playbook_event \<Rightarrow> transition_entry list" where
  "entryOf ev = (case ev_body ev of
     WorkerStateTransition from to dur note mode \<Rightarrow>
       [\<lparr>te_ts = ev_ts ev, te_from = from, te_to = to, te_note = note\<rparr>]
   | _ \<Rightarrow> [])"

definition entriesOf :: "playbook_event list \<Rightarrow> transition_entry list" where
  "entriesOf evs = concat (map entryOf evs)"

fun walked :: "worker_state \<Rightarrow> transition_entry list \<Rightarrow> worker_state \<Rightarrow> bool" where
  "walked s [] s' \<longleftrightarrow> s = s'"
| "walked s (e # es) s' \<longleftrightarrow> te_from e = s \<and> te_to e \<noteq> s \<and> walked (te_to e) es s'"

definition fileShows :: "tracker \<Rightarrow> bool" where
  "fileShows t \<longleftrightarrow> (case tk_file t of
     None \<Rightarrow> tk_inMemoryOnly t
   | Some s \<Rightarrow> ps_state s = tk_state t \<and> ps_history s = tk_history t \<and> ps_lastFailure s = tk_lastFailure t)"

definition trackerOk :: "worker_state \<Rightarrow> tracker \<Rightarrow> bool" where
  "trackerOk s0 t \<longleftrightarrow> tk_history t = capHistory (tk_historyLimit t) (entriesOf (tk_events t)) \<and>
     walked s0 (entriesOf (tk_events t)) (tk_state t) \<and> fileShows t"

inductive tracker_reachable :: "worker_state \<Rightarrow> tracker \<Rightarrow> bool" where
  created: "tracker_reachable (orElse s DEV_RUNNING) (newTracker w i b p s now mem lim)"
| moved: "tracker_reachable s0 t \<Longrightarrow> tracker_reachable s0 (snd (transition to note mode t))"
| emitted: "tracker_reachable s0 t \<Longrightarrow> entryOf ev = [] \<Longrightarrow> tracker_reachable s0 (emit ev t)"
| failed: "tracker_reachable s0 t \<Longrightarrow> tracker_reachable s0 (recordFailure m n reason t)"

lemma entriesOf_append [simp]: "entriesOf (a @ b) = entriesOf a @ entriesOf b"
  by (simp add: entriesOf_def)

lemma entriesOf_Nil [simp]: "entriesOf [] = []"
  by (simp add: entriesOf_def)

lemma entriesOf_single [simp]: "entriesOf [e] = entryOf e"
  by (simp add: entriesOf_def)

lemma walked_snoc [simp]: "walked s (es @ [e]) s' \<longleftrightarrow> walked s es (te_from e) \<and> te_to e \<noteq> te_from e \<and> te_to e = s'"
  by (induction es arbitrary: s) auto

lemma length_capHistory: "length (capHistory n h) \<le> n"
  by (simp add: capHistory_def)

lemma capHistory_Nil [simp]: "capHistory n [] = []"
  by (simp add: capHistory_def)

lemma capHistory_drop: "capHistory n h = drop (length h - n) h"
  by (simp add: capHistory_def)

lemma capHistory_snoc [simp]: "capHistory n (capHistory n h @ [x]) = capHistory n (h @ [x])"
proof (cases "length h \<le> n")
  case True
  then show ?thesis by (simp add: capHistory_def)
next
  case False
  then show ?thesis by (cases n) (simp_all add: capHistory_drop Suc_diff_Suc)
qed

lemma persist_simps [simp]:
  "tk_state (persist t) = tk_state t" "tk_events (persist t) = tk_events t"
  "tk_history (persist t) = tk_history t" "tk_historyLimit (persist t) = tk_historyLimit t"
  "tk_lastFailure (persist t) = tk_lastFailure t" "tk_inMemoryOnly (persist t) = tk_inMemoryOnly t"
  by (simp_all add: persist_def snapshot_def readClock_def Let_def)

lemma persist_file: "fileShows (persist t)" if "\<not> tk_inMemoryOnly t \<or> tk_file t = None"
  using that by (auto simp: fileShows_def persist_def snapshot_def readClock_def Let_def)

text \<open>A tracker that never writes has no file; the flag never changes.\<close>

definition fileOnlyIfWritten :: "tracker \<Rightarrow> bool" where
  "fileOnlyIfWritten t \<longleftrightarrow> \<not> tk_inMemoryOnly t \<or> tk_file t = None"

lemma persist_fileOnly [simp]: "fileOnlyIfWritten (persist t) \<longleftrightarrow> fileOnlyIfWritten t"
  by (auto simp: fileOnlyIfWritten_def persist_def snapshot_def readClock_def Let_def)

lemma transition_tracker:
  "snd (transition to note mode t) =
     (if to = tk_state t then t
      else let ts = tk_now t (tk_reads t);
               entry = \<lparr>te_ts = ts, te_from = tk_state t, te_to = to, te_note = note\<rparr>
           in persist (t\<lparr>tk_reads := Suc (tk_reads t),
             tk_events := tk_events t @ [stampEvent t ts
               (WorkerStateTransition (tk_state t) to (ts - tk_lastTransitionAt t) note mode)],
             tk_history := capHistory (tk_historyLimit t) (tk_history t @ [entry]),
             tk_state := to, tk_lastTransitionAt := ts\<rparr>))"
  by (simp add: transition_def readClock_def Let_def)

lemma transition_state [simp]: "tk_state (snd (transition to note mode t)) = to"
  by (simp add: transition_tracker Let_def)

lemma transition_events:
  "tk_events (snd (transition to note mode t)) =
     tk_events t @ (case fst (transition to note mode t) of None \<Rightarrow> [] | Some e \<Rightarrow> [e])"
  by (simp add: transition_def readClock_def Let_def)

lemma recordFailure_simps [simp]:
  "tk_state (recordFailure m n s t) = tk_state t" "tk_events (recordFailure m n s t) = tk_events t"
  "tk_lastFailure (recordFailure m n s t) = Some \<lparr>lf_mode = m, lf_attempts = n, lf_reason = s\<rparr>"
  by (simp_all add: recordFailure_def)

lemma emit_simps [simp]:
  "tk_state (emit e t) = tk_state t" "tk_events (emit e t) = tk_events t @ [e]"
  "tk_lastFailure (emit e t) = tk_lastFailure t"
  by (simp_all add: emit_def)

lemma transition_lastFailure [simp]: "tk_lastFailure (snd (transition to note mode t)) = tk_lastFailure t"
  by (simp add: transition_tracker Let_def)

lemma trackerOk_step:
  assumes "trackerOk s0 t" "fileOnlyIfWritten t"
  shows "trackerOk s0 (snd (transition to note mode t)) \<and> fileOnlyIfWritten (snd (transition to note mode t))"
proof (cases "to = tk_state t")
  case True
  with assms show ?thesis by (simp add: transition_tracker)
next
  case False
  with assms show ?thesis
    by (simp add: transition_tracker trackerOk_def stampEvent_def Let_def)
      (simp add: persist_file fileOnlyIfWritten_def)
qed

lemma trackerOk_emit:
  assumes "trackerOk s0 t" "fileOnlyIfWritten t" "entryOf ev = []"
  shows "trackerOk s0 (emit ev t) \<and> fileOnlyIfWritten (emit ev t)"
  using assms by (auto simp del: entryOf.simps simp: trackerOk_def emit_def fileOnlyIfWritten_def fileShows_def
      split: option.splits)

lemma trackerOk_fail:
  assumes "trackerOk s0 t" "fileOnlyIfWritten t"
  shows "trackerOk s0 (recordFailure m n s t) \<and> fileOnlyIfWritten (recordFailure m n s t)"
  using assms by (simp add: trackerOk_def recordFailure_def fileOnlyIfWritten_def persist_file)
    (simp add: persist_def snapshot_def readClock_def Let_def)

lemma trackerOk_new: "trackerOk (orElse s DEV_RUNNING) (newTracker w i b p s now mem lim) \<and>
    fileOnlyIfWritten (newTracker w i b p s now mem lim)"
  by (simp add: newTracker_def trackerOk_def persist_file) (simp add: fileOnlyIfWritten_def)

lemma tracker_reachable_ok: "tracker_reachable s0 t \<Longrightarrow> trackerOk s0 t \<and> fileOnlyIfWritten t"
proof (induction rule: tracker_reachable.induct)
  case created
  show ?case by (rule trackerOk_new)
qed (auto simp del: entryOf.simps dest: trackerOk_step trackerOk_emit trackerOk_fail)

section \<open>Runs\<close>

subsection \<open>Steps of a run\<close>

text \<open>The returned events are those the tracker logged since, and the tracker stays reachable.\<close>

definition tracked :: "run \<Rightarrow> run \<Rightarrow> bool" where
  "tracked r r' \<longleftrightarrow>
     (\<exists>new. rn_events r' = rn_events r @ new \<and> tk_events (rn_tracker r') = tk_events (rn_tracker r) @ new) \<and>
     (\<forall>s0. tracker_reachable s0 (rn_tracker r) \<longrightarrow> tracker_reachable s0 (rn_tracker r'))"

definition isTransition :: "event_body \<Rightarrow> bool" where
  "isTransition b \<longleftrightarrow> (case b of WorkerStateTransition _ _ _ _ _ \<Rightarrow> True | _ \<Rightarrow> False)"

fun attemptOf :: "playbook_event \<Rightarrow> nat list" where
  "attemptOf ev = (case ev_body ev of RemediationApplied m a s n \<Rightarrow> [a] | _ \<Rightarrow> [])"

definition attemptsOf :: "playbook_event list \<Rightarrow> nat list" where
  "attemptsOf evs = concat (map attemptOf evs)"

lemma attemptsOf_append [simp]: "attemptsOf (a @ b) = attemptsOf a @ attemptsOf b"
  by (simp add: attemptsOf_def)

lemma attemptsOf_Nil [simp]: "attemptsOf [] = []"
  by (simp add: attemptsOf_def)

lemma attemptsOf_single [simp]: "attemptsOf [e] = attemptOf e"
  by (simp add: attemptsOf_def)

lemma transition_attempts: "fst (transition to note mode t) = Some e \<Longrightarrow> attemptOf e = []"
  by (auto simp: transition_def readClock_def stampEvent_def Let_def split: if_splits)

lemma tracked_refl [simp]: "tracked r r"
  by (simp add: tracked_def)

lemma tracked_trans [trans]: "tracked a b \<Longrightarrow> tracked b c \<Longrightarrow> tracked a c"
  by (auto simp: tracked_def)

lemma tracked_effects [simp]: "tracked (r\<lparr>rn_effects := e\<rparr>) r' \<longleftrightarrow> tracked r r'" "tracked r (r'\<lparr>rn_effects := e\<rparr>) \<longleftrightarrow> tracked r r'"
  by (simp_all add: tracked_def)

lemma runnerEvent_fields [simp]:
  "rn_effects (runnerEvent opts ctx body r) = rn_effects r"
  "attemptsOf (rn_events (runnerEvent opts ctx body r)) =
     attemptsOf (rn_events r) @ (case body of RemediationApplied m a s n \<Rightarrow> [a] | _ \<Rightarrow> [])"
  "tk_state (rn_tracker (runnerEvent opts ctx body r)) = tk_state (rn_tracker r)"
  "tk_lastFailure (rn_tracker (runnerEvent opts ctx body r)) = tk_lastFailure (rn_tracker r)"
  by (simp_all add: runnerEvent_def Let_def)

lemma runnerEvent_tracked: "\<not> isTransition body \<Longrightarrow> tracked r (runnerEvent opts ctx body r)"
  by (auto simp: tracked_def runnerEvent_def Let_def isTransition_def intro!: emitted split: event_body.splits)

lemma runTransition_fields [simp]:
  "rn_effects (runTransition to note mode r) = rn_effects r"
  "attemptsOf (rn_events (runTransition to note mode r)) = attemptsOf (rn_events r)"
  "tk_state (rn_tracker (runTransition to note mode r)) = to"
  "tk_lastFailure (rn_tracker (runTransition to note mode r)) = tk_lastFailure (rn_tracker r)"
  using transition_attempts [of to "note" "Some mode" "rn_tracker r"]
    transition_state [of to "note" "Some mode" "rn_tracker r"]
    transition_lastFailure [of to "note" "Some mode" "rn_tracker r"]
  by (auto simp: runTransition_def case_prod_beta split: option.splits)

lemma runTransition_tracked: "tracked r (runTransition to note mode r)"
  using transition_events [of to "note" "Some mode" "rn_tracker r"]
    moved [of _ "rn_tracker r" to "note" "Some mode"]
  by (auto simp: tracked_def runTransition_def case_prod_beta)

lemma recordFailure_tracked: "tracked r (r\<lparr>rn_tracker := recordFailure m n s (rn_tracker r)\<rparr>)"
  by (auto simp: tracked_def intro: failed)

subsection \<open>How a run ends\<close>

definition flagState :: "failure_mode \<Rightarrow> worker_state" where
  "flagState m = (if m = LongRunningPRBlocksWorker then PARKED else DONE_WITH_FLAG)"

text \<open>After \<open>k\<close> attempts for mode \<open>m\<close> the run has ended in the state its outcome names.\<close>

definition ended :: "failure_mode \<Rightarrow> nat \<Rightarrow> playbook_result \<Rightarrow> run \<Rightarrow> bool" where
  "ended m k out r \<longleftrightarrow> pr_events out = rn_events r \<and> pr_matchedMode out = Some m \<and>
     (case pr_outcome out of
        RecoveredOutcome \<Rightarrow> tk_state (rn_tracker r) = recoveryState m
      | EscalatedOutcome \<Rightarrow> tk_state (rn_tracker r) = flagState m \<and>
          (\<exists>reason. pr_note out = Some reason \<and>
             tk_lastFailure (rn_tracker r) = Some \<lparr>lf_mode = m, lf_attempts = k, lf_reason = reason\<rparr>)
      | UnknownOutcome \<Rightarrow> False)"

lemma callEscalate_within: "within ctx 0 0 e (callEscalate f a b c m e)"
  by (simp add: callEscalate_def within_def warn_def Let_def split: option.splits)

context remediation_contract
begin

lemma hook_within: "within ctx 0 0 e (escalateHook ctx h reason opts e)"
  using hook_bounded callEscalate_within by (auto simp: escalateHook_def split: option.splits)

lemma escalate_ends:
  assumes "escalate ctx h k reason opts r = (out, r')"
  shows "ended (h_mode h) k out r'" "tracked r r'" "attemptsOf (rn_events r') = attemptsOf (rn_events r)"
    "within ctx 0 0 (rn_effects r) (rn_effects r')"
proof -
  let ?r1 = "r\<lparr>rn_effects := escalateHook ctx h reason opts (rn_effects r)\<rparr>"
  let ?r2 = "runnerEvent opts ctx (RemediationFailed (h_mode h) k reason) ?r1"
  let ?r3 = "?r2\<lparr>rn_tracker := recordFailure (h_mode h) k reason (rn_tracker ?r2)\<rparr>"
  let ?r4 = "runTransition (if h_mode h = LongRunningPRBlocksWorker then PARKED else NEEDS_HUMAN_ATTENTION)
    (Some reason) (h_mode h) ?r3"
  let ?r5 = "if h_mode h = LongRunningPRBlocksWorker
    then runnerEvent opts ctx (WorkerParked (wc_prUrl ctx) reason) ?r4
    else runTransition DONE_WITH_FLAG (Some reason) (h_mode h) ?r4"
  from assms have r': "r' = ?r5" and out: "out = \<lparr>pr_matchedMode = Some (h_mode h), pr_outcome = EscalatedOutcome,
      pr_events = rn_events ?r5, pr_pipelineResult = None, pr_note = Some reason\<rparr>"
    by (auto simp: escalate_def Let_def)
  show "ended (h_mode h) k out r'"
    by (simp add: ended_def out r' flagState_def)
  show "attemptsOf (rn_events r') = attemptsOf (rn_events r)"
    by (simp add: r')
  show "within ctx 0 0 (rn_effects r) (rn_effects r')"
    using hook_within by (simp add: r')
  have "tracked r ?r2"
    using runnerEvent_tracked [of "RemediationFailed (h_mode h) k reason" ?r1] by (simp add: isTransition_def)
  also have "tracked ?r2 ?r3" by (rule recordFailure_tracked)
  also have "tracked ?r3 ?r4" by (rule runTransition_tracked)
  also have "tracked ?r4 ?r5"
    by (simp add: runTransition_tracked runnerEvent_tracked isTransition_def)
  finally show "tracked r r'" by (simp add: r')
qed

end

subsection \<open>The loop\<close>

definition loopEnds :: "worker_context \<Rightarrow> failure_mode \<Rightarrow> nat \<Rightarrow> nat \<Rightarrow> run \<Rightarrow> playbook_result \<Rightarrow> run \<Rightarrow> bool" where
  "loopEnds ctx m n a r out r' \<longleftrightarrow> tracked r r' \<and>
     (\<exists>k \<le> n. attemptsOf (rn_events r') = attemptsOf (rn_events r) @ [a + 1..<a + k + 1] \<and>
        within ctx (k * sleepAllowance m) k (rn_effects r) (rn_effects r') \<and> ended m (a + k) out r')"

lemma loopEnds_here:
  assumes "tracked r r'" "attemptsOf (rn_events r') = attemptsOf (rn_events r) @ [a + 1]"
    "within ctx (sleepAllowance m) 1 (rn_effects r) (rn_effects r')" "ended m (a + 1) out r'"
  shows "loopEnds ctx m (Suc n) a r out r'"
  using assms unfolding loopEnds_def by (intro conjI exI [of _ 1]) (simp_all add: upt_rec)

lemma loopEnds_later:
  assumes "tracked r r1" "attemptsOf (rn_events r1) = attemptsOf (rn_events r) @ [a + 1]"
    "within ctx (sleepAllowance m) 1 (rn_effects r) (rn_effects r1)" "loopEnds ctx m n (a + 1) r1 out r'"
  shows "loopEnds ctx m (Suc n) a r out r'"
proof -
  from assms(4) obtain k where k: "k \<le> n" "tracked r1 r'"
    "attemptsOf (rn_events r') = attemptsOf (rn_events r1) @ [a + 2..<a + k + 2]"
    "within ctx (k * sleepAllowance m) k (rn_effects r1) (rn_effects r')" "ended m (a + Suc k) out r'"
    by (auto simp: loopEnds_def)
  have "[a + 1..<a + Suc k + 1] = (a + 1) # [a + 2..<a + k + 2]"
    by (simp add: upt_conv_Cons del: upt_Suc)
  then have "attemptsOf (rn_events r') = attemptsOf (rn_events r) @ [a + 1..<a + Suc k + 1]"
    using k(3) assms(2) by (simp del: upt_Suc)
  moreover have "within ctx (Suc k * sleepAllowance m) (Suc k) (rn_effects r) (rn_effects r')"
    by (rule within_trans [OF assms(3) k(4)]) simp_all
  moreover have "tracked r r'" using assms(1) k(2) by (rule tracked_trans)
  ultimately show ?thesis
    using k(1,5) unfolding loopEnds_def by (intro conjI exI [of _ "Suc k"]) (simp_all del: upt_Suc)
qed

context remediation_contract
begin

lemma escalate_loopEnds: "escalate ctx h a s opts r = (out, r') \<Longrightarrow> loopEnds ctx (h_mode h) n a r out r'"
  using escalate_ends by (fastforce simp: loopEnds_def)

lemma attemptLoop_ends:
  assumes "attemptLoop ctx h rst budget opts n a ln res r = (out, r')" "a + n = budget"
  shows "loopEnds ctx (h_mode h) n a r out r'"
  using assms
proof (induction n arbitrary: a ln res r)
  case 0
  then show ?case by (auto intro: escalate_loopEnds)
next
  case (Suc n)
  obtain o1 e where rem: "h_remediate h (ctx\<lparr>wc_state := rst, wc_attempts := a\<rparr>) (po_deps opts) (rn_effects r) = (o1, e)"
    by fastforce
  let ?r1 = "runnerEvent opts ctx (RemediationApplied (h_mode h) (a + 1) (ro_status o1) (ro_note o1)) (r\<lparr>rn_effects := e\<rparr>)"
  have t1: "tracked r ?r1"
    using runnerEvent_tracked [of _ "r\<lparr>rn_effects := e\<rparr>"] by (simp add: isTransition_def)
  have w1: "within ctx (sleepAllowance (h_mode h)) 1 (rn_effects r) (rn_effects ?r1)"
    using effects_bounded [OF rem] by simp
  have a1: "attemptsOf (rn_events ?r1) = attemptsOf (rn_events r) @ [a + 1]"
    by simp
  have escalated: ?case if "escalate ctx h (a + 1) s opts ?r1 = (out, r')" for s
  proof (rule loopEnds_here)
    note esc = escalate_ends [OF that]
    show "tracked r r'" using t1 esc(2) by (rule tracked_trans)
    show "attemptsOf (rn_events r') = attemptsOf (rn_events r) @ [a + 1]" using esc(3) a1 by simp
    show "within ctx (sleepAllowance (h_mode h)) 1 (rn_effects r) (rn_effects r')"
      by (rule within_trans [OF w1 esc(4)]) simp_all
    show "ended (h_mode h) (a + 1) out r'" by (rule esc(1))
  qed
  show ?case
  proof (cases "ro_status o1")
    case Recovered
    note next_state = recovered_state [OF rem Recovered]
    let ?r2 = "runTransition (recoveryState (h_mode h)) (ro_note o1) (h_mode h) ?r1"
    from Suc.prems(1) rem Recovered next_state have r': "r' = ?r2"
      and out: "pr_events out = rn_events ?r2" "pr_matchedMode out = Some (h_mode h)" "pr_outcome out = RecoveredOutcome"
      by (auto simp: Let_def)
    show ?thesis
      using tracked_trans [OF t1 runTransition_tracked] a1 w1
      by (intro loopEnds_here) (simp_all add: r' ended_def out)
  next
    case Retry
    from retry_state [OF rem Retry] obtain s where s: "ro_nextState o1 = Some s" by auto
    let ?r2 = "runTransition s (ro_note o1) (h_mode h) ?r1"
    from Suc.prems(1) rem Retry s obtain ln' res' where
      "attemptLoop ctx h rst budget opts n (a + 1) ln' res' ?r2 = (out, r')"
      by (auto simp: Let_def)
    from Suc.IH [OF this] Suc.prems(2) have "loopEnds ctx (h_mode h) n (a + 1) ?r2 out r'" by simp
    with tracked_trans [OF t1 runTransition_tracked] a1 w1 show ?thesis
      by (intro loopEnds_later [of r ?r2]) simp_all
  next
    case BudgetExhausted
    with Suc.prems(1) rem show ?thesis by (auto simp: Let_def intro: escalated)
  next
    case Inapplicable
    with Suc.prems(1) rem show ?thesis by (auto simp: Let_def intro: escalated)
  qed
qed

end

subsection \<open>The whole run\<close>

lemma registry_consistent [simp]: "assertRegistryConsistency"
  by code_simp

definition modeDetects :: "failure_mode \<Rightarrow> worker_context \<Rightarrow> bool" where
  "modeDetects m ctx \<longleftrightarrow> (case findHandler m of None \<Rightarrow> False | Some h \<Rightarrow> h_detect h ctx)"

lemma registry_modes: "map h_mode PLAYBOOK_HANDLERS = CATALOGUED_MODES"
  by (simp add: PLAYBOOK_HANDLERS_def CATALOGUED_MODES_def secretScanBlockedHandler_def pushRaceHandler_def
      stackedPrBaseSquashedHandler_def rebaseConflictHandler_def verificationFailureHandler_def
      reviewerMajorOrCriticalHandler_def envHookFailureHandler_def attestationVerifyMismatchHandler_def
      longRunningPrHandler_def)

lemma distinct_modes: "distinct CATALOGUED_MODES"
  by (simp add: CATALOGUED_MODES_def)

lemma find_by_key:
  "distinct (map f xs) \<Longrightarrow> x \<in> set xs \<Longrightarrow> find (\<lambda>y. f y = f x) xs = Some x"
  by (induction xs) (auto simp: image_iff)

lemma find_map_pred: "find P (map f xs) = map_option f (find (P \<circ> f) xs)"
  by (induction xs) auto

lemma find_cong_set: "(\<And>x. x \<in> set xs \<Longrightarrow> P x = Q x) \<Longrightarrow> find P xs = find Q xs"
  by (induction xs) auto

lemma findHandler_registered: "h \<in> set PLAYBOOK_HANDLERS \<Longrightarrow> findHandler (h_mode h) = Some h"
  unfolding findHandler_def using distinct_modes by (intro find_by_key) (simp_all add: registry_modes)

lemma pickHandler_mode: "map_option h_mode (pickHandler ctx) = find (\<lambda>m. modeDetects m ctx) CATALOGUED_MODES"
  unfolding pickHandler_def registry_modes [symmetric] find_map_pred
  by (intro arg_cong [where f = "map_option h_mode"] find_cong_set)
    (simp add: modeDetects_def findHandler_registered)

lemma pickHandler_registered: "pickHandler ctx = Some h \<Longrightarrow> h \<in> set PLAYBOOK_HANDLERS"
  by (auto simp: pickHandler_def find_Some_iff)

end
