(* ===== verification/PlaybookProps.thy ===== *)
theory PlaybookProps
  imports PlaybookCorrect
begin

text \<open>
  The properties of the failure playbook: which handler owns a failure, how often and with which
  commands it remediates, where the worker ends, and what the tracker and the event log record.
\<close>

section \<open>Budgets\<close>

text \<open>The budget the configuration means a mode to have: 0 when it escalates at once, else the
  last entry for the mode, else the handler's own.\<close>

definition configuredBudget :: "catalogue \<Rightarrow> failure_mode \<Rightarrow> nat" where
  "configuredBudget c m =
     (if escalateImmediately c m then 0
      else case find (\<lambda>p. cp_mode p = m) (rev (ct_patterns c)) of
        Some p \<Rightarrow> cp_budget p
      | None \<Rightarrow> orElse (map_option h_budget (findHandler m)) 0)"

lemma find_snoc: "find P (xs @ [x]) = (case find P xs of None \<Rightarrow> if P x then Some x else None | Some y \<Rightarrow> Some y)"
  by (induction xs) auto

lemma fold_budgets:
  "mapGet (fold (\<lambda>p out. mapSet (cp_mode p) (cp_budget p) out) ps out) m =
     (case find (\<lambda>p. cp_mode p = m) (rev ps) of Some p \<Rightarrow> Some (cp_budget p) | None \<Rightarrow> mapGet out m)"
  by (induction ps arbitrary: out) (auto simp: find_snoc update_conv split: option.splits)

lemma fold_defaults:
  "mapGet (fold (\<lambda>m out. mapSet m (defaultBudget m) out) ms out) m =
     (if m \<in> set ms then Some (defaultBudget m) else mapGet out m)"
  by (induction ms arbitrary: out) (auto simp: update_conv)

lemma defaultBudget_handler: "h \<in> set PLAYBOOK_HANDLERS \<Longrightarrow> defaultBudget (h_mode h) = h_budget h"
  by (auto simp: PLAYBOOK_HANDLERS_def secretScanBlockedHandler_def pushRaceHandler_def
      stackedPrBaseSquashedHandler_def rebaseConflictHandler_def verificationFailureHandler_def
      reviewerMajorOrCriticalHandler_def envHookFailureHandler_def attestationVerifyMismatchHandler_def
      longRunningPrHandler_def defaultBudget_def DEFAULT_CATALOGUE_def defaultEntry_def)

lemma registered_mode: "h \<in> set PLAYBOOK_HANDLERS \<Longrightarrow> h_mode h \<in> set CATALOGUED_MODES"
  by (simp add: registry_modes [symmetric])

lemma registered_known: "h \<in> set PLAYBOOK_HANDLERS \<Longrightarrow> h_mode h \<noteq> UnknownFailureMode"
  using registered_mode [of h] by (auto simp: CATALOGUED_MODES_def)

lemma budgetOf_configured:
  assumes "h \<in> set PLAYBOOK_HANDLERS"
  shows "budgetOf opts h = (case find (\<lambda>p. cp_mode p = h_mode h) (rev (ct_patterns (po_catalogue opts))) of
     Some p \<Rightarrow> cp_budget p | None \<Rightarrow> h_budget h)"
  using assms registered_mode [OF assms] registered_known [OF assms]
  by (auto simp: budgetOf_def effectiveBudgets_def fold_budgets fold_defaults update_conv defaultBudget_handler
      split: option.splits)

lemma configuredBudget_registered:
  assumes "h \<in> set PLAYBOOK_HANDLERS" "\<not> escalateImmediately (po_catalogue opts) (h_mode h)"
  shows "configuredBudget (po_catalogue opts) (h_mode h) = budgetOf opts h"
  using assms by (simp add: configuredBudget_def budgetOf_configured findHandler_registered split: option.splits)

section \<open>The run as a whole\<close>

lemma run_cases:
  assumes "runPlaybook ctx opts t e = Some (out, r)"
  obtains (unmatched) "pickHandler ctx = None" "pr_matchedMode out = None" "pr_outcome out = UnknownOutcome"
      "pr_events out = []" "rn_tracker r = t" "rn_effects r = e"
    | (matched) h r0 where "pickHandler ctx = Some h"
      "r0 = runTransition (MODE_TO_REMEDIATE_STATE (h_mode h))
         (Some (''entering remediation for '' @ modeText (h_mode h))) (h_mode h)
         \<lparr>rn_tracker = t, rn_effects = e, rn_events = [], rn_reads = 0\<rparr>"
      "loopEnds ctx (h_mode h) (configuredBudget (po_catalogue opts) (h_mode h)) 0 r0 out r"
proof (cases "pickHandler ctx")
  case None
  with assms show ?thesis by (auto simp: runPlaybook_def intro: unmatched)
next
  case (Some h)
  define r0 where "r0 = runTransition (MODE_TO_REMEDIATE_STATE (h_mode h))
         (Some (''entering remediation for '' @ modeText (h_mode h))) (h_mode h)
         \<lparr>rn_tracker = t, rn_effects = e, rn_events = [], rn_reads = 0\<rparr>"
  note reg = pickHandler_registered [OF Some]
  note con = registered_contract [OF reg]
  let ?imm = "escalateImmediately (po_catalogue opts) (h_mode h)"
  have "loopEnds ctx (h_mode h) (configuredBudget (po_catalogue opts) (h_mode h)) 0 r0 out r"
  proof (cases "budgetOf opts h = 0 \<or> ?imm")
    case True
    with assms Some have "escalate ctx h 0 (modeText (h_mode h) @ '': operator catalogue '' @
        (if ?imm then ''set escalateImmediately=true'' else ''set budget=0'')) opts r0 = (out, r)"
      by (simp add: runPlaybook_def Let_def r0_def split: if_splits)
    then show ?thesis by (rule remediation_contract.escalate_loopEnds [OF con])
  next
    case False
    with assms Some have "attemptLoop ctx h (MODE_TO_REMEDIATE_STATE (h_mode h)) (budgetOf opts h) opts
        (budgetOf opts h) 0 [] None r0 = (out, r)"
      by (simp add: runPlaybook_def Let_def r0_def)
    from remediation_contract.attemptLoop_ends [OF con this] False show ?thesis
      by (simp add: configuredBudget_registered [OF reg])
  qed
  with Some r0_def show ?thesis by (rule matched)
qed

lemma run_mode: "runPlaybook ctx opts t e = Some (out, r) \<Longrightarrow> pr_matchedMode out = map_option h_mode (pickHandler ctx)"
  by (erule run_cases) (auto simp: loopEnds_def ended_def)

lemma run_returns: "runPlaybook ctx opts t e \<noteq> None"
  by (simp add: runPlaybook_def Let_def split: option.splits)

lemma run_entry:
  "tracked \<lparr>rn_tracker = t, rn_effects = e, rn_events = [], rn_reads = 0\<rparr> r0 \<and> attemptsOf (rn_events r0) = [] \<and>
   rn_effects r0 = e"
  if "r0 = runTransition to note mode \<lparr>rn_tracker = t, rn_effects = e, rn_events = [], rn_reads = 0\<rparr>"
  using runTransition_tracked by (simp add: that)

lemma run_attempts:
  assumes "runPlaybook ctx opts t e = Some (out, r)" "pr_matchedMode out = Some m"
  obtains k where "k \<le> configuredBudget (po_catalogue opts) m" "attemptsOf (pr_events out) = [1..<k + 1]"
    "within ctx (k * sleepAllowance m) k e (rn_effects r)" "ended m k out r"
  using assms(1)
proof (cases rule: run_cases)
  case unmatched
  with assms(2) show ?thesis by simp
next
  case (matched h r0)
  from matched(3) obtain k where k: "k \<le> configuredBudget (po_catalogue opts) (h_mode h)"
    "attemptsOf (rn_events r) = attemptsOf (rn_events r0) @ [1..<k + 1]"
    "within ctx (k * sleepAllowance (h_mode h)) k (rn_effects r0) (rn_effects r)" "ended (h_mode h) k out r"
    by (auto simp: loopEnds_def)
  moreover have "h_mode h = m" "pr_events out = rn_events r"
    using k(4) assms(2) by (simp_all add: ended_def)
  ultimately show ?thesis
    using run_entry [OF matched(2)] by (intro that [of k]) simp_all
qed

lemma run_tracked:
  assumes "runPlaybook ctx opts t e = Some (out, r)"
  shows "tk_events (rn_tracker r) = tk_events t @ pr_events out \<and>
    (\<forall>s0. tracker_reachable s0 t \<longrightarrow> tracker_reachable s0 (rn_tracker r))"
  using assms
proof (cases rule: run_cases)
  case (matched h r0)
  have "tracked r0 r" "pr_events out = rn_events r"
    using matched(3) by (auto simp: loopEnds_def ended_def)
  with tracked_trans [OF conjunct1 [OF run_entry [OF matched(2)]], of r] show ?thesis
    by (auto simp: tracked_def)
qed simp

section \<open>Data-only changes\<close>

lemma suffix_drop_dot:
  assumes "suffix s p" "s = CHR ''.'' # c # s'" "c \<noteq> CHR ''/''"
  shows "suffix s (stripDotSlash p)"
proof (cases "startsWith p ''./''")
  case False
  with assms show ?thesis by (simp add: stripDotSlash_def)
next
  case True
  then obtain q where p: "p = ''./'' @ q" by (auto simp: startsWith_def prefix_def)
  with assms have "suffix s q" by (auto simp: p suffix_Cons)
  with True p show ?thesis by (simp add: stripDotSlash_def)
qed

lemma source_suffix:
  assumes "suffix s p" "s \<in> {''.ts'', ''.tsx'', ''.mjs'', ''.cjs'', ''.js''}"
  shows "sourcePathHint (stripDotSlash p)"
proof -
  from assms(2) obtain x where s: "s = CHR ''.'' # x" "x \<in> {''ts'', ''tsx'', ''mjs'', ''cjs'', ''js''}" by auto
  then obtain c s' where "s = CHR ''.'' # c # s'" "c \<noteq> CHR ''/''" by auto
  then have "suffix s (stripDotSlash p)" by (rule suffix_drop_dot [OF assms(1)])
  then obtain u where "stripDotSlash p = u @ (CHR ''.'' # x)" using s by (auto simp: suffix_def)
  with s(2) have "reTestEnd (Seq (reLit ''.'') (reAlts [reLit ''ts'', reLit ''tsx'', reLit ''mjs'', reLit ''cjs'', reLit ''js''])) (stripDotSlash p)"
    unfolding reTestEnd_iff by (intro exI [of _ u] exI [of _ "CHR ''.'' # x"]) auto
  then show ?thesis by (simp add: sourcePathHint_def)
qed

lemma source_prefix:
  assumes "startsWith p s" "s \<in> {''pipeline-cli/src/'', ''ai-sdlc-plugin/''}"
  shows "sourcePathHint (stripDotSlash p)"
  using assms by (auto simp: startsWith_def sourcePathHint_def stripDotSlash_def prefix_def)

lemma dataOnlyPaths_not_source: "dataOnlyPaths ps \<Longrightarrow> p \<in> set ps \<Longrightarrow> \<not> sourcePathHint (stripDotSlash p)"
  by (induction ps) (auto split: if_splits)

lemma data_only_not_source:
  assumes "isDataOnlyChange paths" "p \<in> set (orElse paths [])"
  shows "\<not> sourcePathHint (stripDotSlash p)"
  using assms dataOnlyPaths_not_source by (auto simp: isDataOnlyChange_def split: option.splits if_splits)

section \<open>Sample runs\<close>

definition parkedContext :: worker_context where
  "parkedContext = \<lparr>wc_workerId = ''w1'', wc_taskId = ''T-1'', wc_branch = ''b'', wc_worktreePath = ''/wt'',
     wc_state = FINALIZING, wc_prUrl = Some ''u'',
     wc_failure = \<lparr>fs_stderr = [], fs_exitCode = None, fs_reviewerFindings = None, fs_prAgeMs = Some 7200000,
       fs_changedPaths = None, fs_basePrMergedAt = None, fs_mergeStateStatus = None\<rparr>, wc_attempts = 0\<rparr>"

definition hookContext :: worker_context where
  "hookContext = parkedContext\<lparr>wc_failure := \<lparr>fs_stderr = ''command not found'', fs_exitCode = Some 127,
     fs_reviewerFindings = None, fs_prAgeMs = None, fs_changedPaths = Some [''docs/a.md''],
     fs_basePrMergedAt = None, fs_mergeStateStatus = None\<rparr>\<rparr>"

definition sampleOpts :: playbook_opts where
  "sampleOpts = \<lparr>po_catalogue = DEFAULT_CATALOGUE,
     po_deps = \<lparr>hd_runner = (\<lambda>e c. \<lparr>ex_code = 0, ex_stderr = []\<rparr>), hd_redispatch = None\<rparr>,
     po_escalate = None, po_now = int\<rparr>"

definition sampleTracker :: tracker where
  "sampleTracker = newTracker ''w1'' ''T-1'' ''b'' ''/wt'' None int True None"

definition noEffects :: effects where
  "noEffects = \<lparr>ef_commands = [], ef_sleeps = [], ef_redispatches = 0, ef_warnings = [], ef_escalations = []\<rparr>"

lemma parked_pick: "map_option h_mode (pickHandler parkedContext) = Some LongRunningPRBlocksWorker"
  by code_simp

lemma hook_commands: "map_option (\<lambda>(out, r). ef_commands (rn_effects r))
    (runPlaybook hookContext sampleOpts sampleTracker noEffects) =
  Some [(''git'', [''push'', ''--no-verify'', ''--force-with-lease'', ''origin'', ''b''])]"
  by code_simp

lemma parked_run: obtains out r where
    "runPlaybook parkedContext sampleOpts sampleTracker noEffects = Some (out, r)"
    "pr_matchedMode out = Some LongRunningPRBlocksWorker"
  using run_returns [of parkedContext sampleOpts sampleTracker noEffects]
  by (cases "runPlaybook parkedContext sampleOpts sampleTracker noEffects")
    (force simp: run_mode parked_pick)+

section \<open>Properties\<close>

text \<open>the registry check never fails, and the handler that owns a failure is the first, in the
  documented order of the modes, whose detector claims it.\<close>

theorem playbook_first_match:
  "map_option (\<lambda>(out, r). pr_matchedMode out) (runPlaybook ctx opts t e) =
     Some (find (\<lambda>m. modeDetects m ctx) CATALOGUED_MODES)"
proof (cases "runPlaybook ctx opts t e")
  case None
  with run_returns show ?thesis by blast
next
  case (Some p)
  then show ?thesis by (cases p) (simp add: run_mode pickHandler_mode)
qed

text \<open>the attempts of a run are numbered 1, 2, ... without a gap and there are at most as many as
  the configured budget (none when the mode escalates at once); a run that escalates records
  exactly the number of attempts it made.\<close>

theorem playbook_attempts:
  assumes "runPlaybook ctx opts t e = Some (out, r)" "pr_matchedMode out = Some m"
  shows "\<exists>k \<le> configuredBudget (po_catalogue opts) m. attemptsOf (pr_events out) = [1..<k + 1] \<and>
    (pr_outcome out = EscalatedOutcome \<longrightarrow> map_option lf_attempts (tk_lastFailure (rn_tracker r)) = Some k)"
  using assms
proof (rule run_attempts)
  fix k
  assume "k \<le> configuredBudget (po_catalogue opts) m" "attemptsOf (pr_events out) = [1..<k + 1]" "ended m k out r"
  then show ?thesis by (intro exI [of _ k]) (auto simp: ended_def)
qed

theorem playbook_attempts_witness:
  "\<exists>out r k. runPlaybook parkedContext sampleOpts sampleTracker noEffects = Some (out, r) \<and> k \<le> 1 \<and>
     attemptsOf (pr_events out) = [1..<k + 1]"
proof (rule parked_run)
  fix out r
  assume run: "runPlaybook parkedContext sampleOpts sampleTracker noEffects = Some (out, r)"
    "pr_matchedMode out = Some LongRunningPRBlocksWorker"
  have "configuredBudget (po_catalogue sampleOpts) LongRunningPRBlocksWorker = 1" by code_simp
  with playbook_attempts [OF run] obtain k where "k \<le> 1" "attemptsOf (pr_events out) = [1..<k + 1]"
    by (auto simp del: upt_Suc)
  with run(1) show ?thesis by blast
qed

lemma playbook_within:
  assumes "runPlaybook ctx opts t e = Some (out, r)" "pr_matchedMode out = Some m"
  shows "within ctx (configuredBudget (po_catalogue opts) m * sleepAllowance m)
    (configuredBudget (po_catalogue opts) m) e (rn_effects r)"
  using assms
proof (rule run_attempts)
  fix k
  assume k: "k \<le> configuredBudget (po_catalogue opts) m" "within ctx (k * sleepAllowance m) k e (rn_effects r)"
  show ?thesis
    by (rule within_trans [OF k(2) within_refl [of ctx 0 0]]) (use k(1) in simp_all)
qed

text \<open>C7. whatever the runner and the hooks answer, a run issues only commands on the worker's own
  branch (every push is a push with lease of it), sleeps at most one minute per budgeted attempt
  of a push race and not at all otherwise, and re-dispatches at most once per budgeted attempt.\<close>

theorem playbook_effects_bounded:
  assumes "runPlaybook ctx opts t e = Some (out, r)" "pr_matchedMode out = Some m"
  shows "within ctx (configuredBudget (po_catalogue opts) m * sleepAllowance m)
    (configuredBudget (po_catalogue opts) m) e (rn_effects r)"
  using assms by (rule playbook_within)

theorem playbook_effects_bounded_witness:
  "\<exists>out r. runPlaybook parkedContext sampleOpts sampleTracker noEffects = Some (out, r) \<and>
     within parkedContext 0 1 noEffects (rn_effects r)"
proof (rule parked_run)
  fix out r
  assume run: "runPlaybook parkedContext sampleOpts sampleTracker noEffects = Some (out, r)"
    "pr_matchedMode out = Some LongRunningPRBlocksWorker"
  have "configuredBudget (po_catalogue sampleOpts) LongRunningPRBlocksWorker = 1"
    "sleepAllowance LongRunningPRBlocksWorker = 0" by code_simp+
  with playbook_effects_bounded [OF run] run(1) show ?thesis by auto
qed

text \<open>a run pushes past the git hooks only when none of the changed paths is a TypeScript or
  JavaScript file or lies in the sources of the command line or the plugin.\<close>

theorem hooks_skipped_for_data_only:
  assumes "runPlaybook ctx opts t e = Some (out, r)"
    and "(''git'', [''push'', ''--no-verify'', ''--force-with-lease'', ''origin'', wc_branch ctx])
      \<in> set (drop (length (ef_commands e)) (ef_commands (rn_effects r)))"
    and "p \<in> set (orElse (fs_changedPaths (wc_failure ctx)) [])"
  shows "\<not> endsWith p ''.ts'' \<and> \<not> endsWith p ''.js'' \<and> \<not> startsWith p ''pipeline-cli/src/'' \<and>
    \<not> startsWith p ''ai-sdlc-plugin/''"
proof -
  have "isDataOnlyChange (fs_changedPaths (wc_failure ctx))"
  proof (cases "pr_matchedMode out")
    case None
    with assms(1) have "rn_effects r = e" by (cases rule: run_cases) (auto simp: loopEnds_def ended_def)
    with assms(2) show ?thesis by simp
  next
    case (Some m)
    from playbook_within [OF assms(1) Some] obtain cs where
      "ef_commands (rn_effects r) = ef_commands e @ cs" "set cs \<subseteq> allowedCommands ctx" by (auto simp: within_def)
    with assms(2) show ?thesis by (auto simp: allowedCommands_def split: if_splits)
  qed
  then have "\<not> sourcePathHint (stripDotSlash p)" using assms(3) by (rule data_only_not_source)
  with source_suffix [of "''.ts''" p] source_suffix [of "''.js''" p]
    source_prefix [of p "''pipeline-cli/src/''"] source_prefix [of p "''ai-sdlc-plugin/''"]
  show ?thesis by (auto simp: endsWith_def)
qed

theorem hooks_skipped_for_data_only_witness:
  "\<not> endsWith ''docs/a.md'' ''.ts''"
proof -
  from run_returns obtain out r where run: "runPlaybook hookContext sampleOpts sampleTracker noEffects = Some (out, r)"
    by fastforce
  with hook_commands have "(''git'', [''push'', ''--no-verify'', ''--force-with-lease'', ''origin'', wc_branch hookContext])
      \<in> set (drop (length (ef_commands noEffects)) (ef_commands (rn_effects r)))"
    by (simp add: noEffects_def hookContext_def parkedContext_def)
  from hooks_skipped_for_data_only [OF run this, of "''docs/a.md''"] show ?thesis
    by (simp add: hookContext_def)
qed

text \<open>a run that recovers leaves the worker done, finalizing or parked, as its mode says; one
  that escalates leaves it flagged, or parked for a long-running pull request, with the reason of the
  failure on record; one that no handler claims touches nothing.\<close>

theorem playbook_terminal_state:
  assumes "runPlaybook ctx opts t e = Some (out, r)"
  shows "case pr_outcome out of
      RecoveredOutcome \<Rightarrow> Some (tk_state (rn_tracker r)) = map_option recoveryState (pr_matchedMode out)
    | EscalatedOutcome \<Rightarrow> Some (tk_state (rn_tracker r)) = map_option flagState (pr_matchedMode out) \<and>
        map_option lf_reason (tk_lastFailure (rn_tracker r)) = pr_note out \<and>
        map_option lf_mode (tk_lastFailure (rn_tracker r)) = pr_matchedMode out
    | UnknownOutcome \<Rightarrow> pr_matchedMode out = None \<and> rn_tracker r = t \<and> rn_effects r = e \<and> pr_events out = []"
  using assms
proof (cases rule: run_cases)
  case (matched h r0)
  then show ?thesis by (auto simp: loopEnds_def ended_def split: playbook_outcome.splits)
qed simp

theorem playbook_terminal_state_witness:
  "map_option (\<lambda>(out, r). tk_state (rn_tracker r)) (runPlaybook parkedContext sampleOpts sampleTracker noEffects) = Some PARKED"
proof (rule parked_run)
  fix out r
  assume run: "runPlaybook parkedContext sampleOpts sampleTracker noEffects = Some (out, r)"
    "pr_matchedMode out = Some LongRunningPRBlocksWorker"
  from playbook_terminal_state [OF run(1)] run(2) show ?thesis
    by (auto simp: run(1) recoveryState_def flagState_def split: playbook_outcome.splits)
qed

text \<open>in every tracker that its operations can produce, the transitions logged form an unbroken
  walk from the initial to the current state with no step to the same state, the history is the last
  \<open>historyLimit\<close> of them, and the state file shows the current state, history and failure.\<close>

theorem tracker_history_exact:
  assumes "tracker_reachable s0 t"
  shows "tk_history t = capHistory (tk_historyLimit t) (entriesOf (tk_events t)) \<and>
    length (tk_history t) \<le> tk_historyLimit t \<and>
    walked s0 (entriesOf (tk_events t)) (tk_state t) \<and> fileShows t"
  using tracker_reachable_ok [OF assms] by (auto simp: trackerOk_def length_capHistory)

theorem tracker_history_exact_witness:
  "length (tk_history (snd (transition DONE None None sampleTracker))) \<le>
     tk_historyLimit (snd (transition DONE None None sampleTracker))"
proof -
  have "tracker_reachable DEV_RUNNING sampleTracker"
    unfolding sampleTracker_def using created [of None] by simp
  from tracker_history_exact [OF moved [OF this]] show ?thesis by blast
qed

text \<open>the events a run returns are exactly those it added to the tracker's log, and a run keeps
  the tracker among those its operations produce.\<close>

theorem playbook_run_logged:
  assumes "runPlaybook ctx opts t e = Some (out, r)" "tracker_reachable s0 t"
  shows "tk_events (rn_tracker r) = tk_events t @ pr_events out \<and> tracker_reachable s0 (rn_tracker r)"
  using run_tracked [OF assms(1)] assms(2) by blast

theorem playbook_run_logged_witness:
  "\<exists>out r. runPlaybook parkedContext sampleOpts sampleTracker noEffects = Some (out, r) \<and>
     tracker_reachable DEV_RUNNING (rn_tracker r)"
proof (rule parked_run)
  fix out r
  assume run: "runPlaybook parkedContext sampleOpts sampleTracker noEffects = Some (out, r)"
  have "tracker_reachable DEV_RUNNING sampleTracker"
    unfolding sampleTracker_def using created [of None] by simp
  from playbook_run_logged [OF run this] run show ?thesis by blast
qed

text \<open>The hook failure the environment handler is documented for is claimed by the verification
  handler, which stands earlier in the registry.\<close>

lemma husky_tsc_taken_by_verification:
  "map_option h_mode (pickHandler (hookContext\<lparr>wc_failure := (wc_failure hookContext)
     \<lparr>fs_stderr := ''tsc: not found'' @ newline @ ''husky - pre-commit script failed (code 127)''\<rparr>\<rparr>)) = Some VerificationFailure"
  "envHookDetect (hookContext\<lparr>wc_failure := (wc_failure hookContext)
     \<lparr>fs_stderr := ''tsc: not found'' @ newline @ ''husky - pre-commit script failed (code 127)''\<rparr>\<rparr>)"
  by code_simp+

text \<open>Parking a worker on its first attempt emits no \<open>WorkerParked\<close> event.\<close>

lemma parked_without_event:
  "map_option (\<lambda>(out, r). filter (\<lambda>e. case ev_body e of WorkerParked _ _ \<Rightarrow> True | _ \<Rightarrow> False) (pr_events out))
     (runPlaybook parkedContext sampleOpts sampleTracker noEffects) = Some []"
  by code_simp

end
