(* ===== verification/CatalogueProps.thy ===== *)
theory CatalogueProps
  imports Catalogue JsonCorrect
begin

text \<open>
  The parser of the failure catalogue: what it accepts has distinct catalogued modes, and it reads
  back every catalogue written in the documented shape. \<open>renderCatalogue\<close> writes that shape.
\<close>

section \<open>Accepted catalogues\<close>

lemma modeOfText_catalogued: "modeOfText s = Some m \<Longrightarrow> m \<in> set CATALOGUED_MODES"
  by (auto simp: modeOfText_def find_Some_iff)

lemma applyPatternField_mode:
  assumes "applyPatternField c text path = Inr c'" "pe_mode c \<in> {None} \<union> Some ` set CATALOGUED_MODES"
  shows "pe_mode c' \<in> {None} \<union> Some ` set CATALOGUED_MODES"
  using assms modeOfText_catalogued
  by (auto simp: applyPatternField_def Let_def split: option.splits if_splits)

definition parseOk :: "parse_state \<Rightarrow> bool" where
  "parseOk s \<longleftrightarrow> (\<forall>p \<in> set (pt_patterns s). cp_mode p \<in> set CATALOGUED_MODES) \<and>
     (case pt_current s of None \<Rightarrow> True | Some c \<Rightarrow> pe_mode c \<in> {None} \<union> Some ` set CATALOGUED_MODES)"

lemma flush_ok: "parseOk s \<Longrightarrow> flush path s = Inr s' \<Longrightarrow> parseOk s' \<and> pt_current s' = None"
  by (auto simp: parseOk_def flush_def split: option.splits)

lemma parseLine_ok:
  assumes "parseOk s" "parseLine path l s = Inr s'"
  shows "parseOk s'"
proof -
  have new: "parseOk (s1\<lparr>pt_current := Some c\<rparr>)"
    if "flush path s = Inr s1" "applyPatternField emptyEntry t path = Inr c" for s1 c t
    using flush_ok [OF assms(1) that(1)] applyPatternField_mode [OF that(2)]
    by (simp add: parseOk_def emptyEntry_def)
  have more: "parseOk (s\<lparr>pt_current := Some c'\<rparr>)"
    if "pt_current s = Some c" "applyPatternField c t path = Inr c'" for c c' t
    using assms(1) applyPatternField_mode [OF that(2)] that(1) by (simp add: parseOk_def)
  have kept: "parseOk (s\<lparr>pt_version := v\<rparr>)" "parseOk (s\<lparr>pt_inPatterns := True\<rparr>)" for v
    using assms(1) by (simp_all add: parseOk_def)
  show ?thesis
    using assms kept new more
    by (auto simp: parseLine_def Let_def split: if_splits option.splits sum.splits)
qed

lemma parseLines_ok: "parseOk s \<Longrightarrow> parseLines path ls s = Inr s' \<Longrightarrow> parseOk s'"
  by (induction path ls s rule: parseLines.induct) (auto split: sum.splits intro: parseLine_ok)

lemma validatePatterns_iff:
  "validatePatterns path seen ps = None \<longleftrightarrow> distinct (map cp_mode ps) \<and> set (map cp_mode ps) \<inter> set seen = {}"
  by (induction path seen ps rule: validatePatterns.induct) auto

section \<open>Writing and reading back\<close>

definition quote :: "string \<Rightarrow> string" where
  "quote d = CHR 34 # d @ [CHR 34]"

definition renderEntry :: "catalogue_entry \<Rightarrow> string list" where
  "renderEntry p =
     [''  - mode: '' @ modeText (cp_mode p),
      ''    budget: '' @ showNat (cp_budget p),
      ''    escalateImmediately: '' @ (if cp_escalateImmediately p then ''true'' else ''false''),
      ''    description: '' @ quote (cp_description p)]"

definition renderCatalogue :: "catalogue \<Rightarrow> string" where
  "renderCatalogue c = joinWith newline ([''version: v1'', ''patterns:''] @ concat (map renderEntry (ct_patterns c)))"

definition catalogueOk :: "catalogue \<Rightarrow> bool" where
  "catalogueOk c \<longleftrightarrow> distinct (map cp_mode (ct_patterns c)) \<and>
     (\<forall>p \<in> set (ct_patterns c). cp_mode p \<in> set CATALOGUED_MODES \<and> CHR 10 \<notin> set (cp_description p))"

definition partialOf :: "catalogue_entry \<Rightarrow> partial_entry" where
  "partialOf p = \<lparr>pe_mode = Some (cp_mode p), pe_budget = Some (cp_budget p),
     pe_description = Some (cp_description p), pe_escalateImmediately = Some (cp_escalateImmediately p)\<rparr>"

lemma trim_padded:
  assumes "s \<noteq> []" "\<not> isSpace (hd s)" "\<not> isSpace (last s)" "list_all isSpace w"
  shows "trim (w @ s) = s"
proof -
  have "dropWhile isSpace (w @ s) = s"
    using assms(1,2,4) by (simp add: list_all_iff dropWhile_append2 dropWhile_eq_self_iff)
  moreover have "dropWhile isSpace (rev s) = rev s"
    using assms(1,3) by (simp add: dropWhile_eq_self_iff hd_rev)
  ultimately show ?thesis by (simp add: trim_def trimStart_def trimEnd_def)
qed

lemma digit_not_space: "isDigit c \<Longrightarrow> \<not> isSpace c"
  by (auto simp: isDigit_def isSpace_def Let_def)

lemma showNat_ends: "showNat n \<noteq> []" "\<not> isSpace (hd (showNat n))" "\<not> isSpace (last (showNat n))"
  "isDigit (hd (showNat n))" "isDigit (last (showNat n))"
  using showNat_digits [of n] by (auto simp: list_all_iff intro!: digit_not_space)

lemma parseIntPrefix_showNat: "parseIntPrefix (showNat n) = Some (int n)"
proof -
  obtain c s where cs: "showNat n = c # s" "isDigit c" using showNat_first by blast
  have "c \<noteq> CHR ''-''" "c \<noteq> CHR ''+''" using cs(2) by (auto simp: isDigit_def)
  moreover have "\<not> isSpace c" using cs(2) by (rule digit_not_space)
  moreover have "takeWhile isDigit s = s" "natOfDigits 0 (c # s) = n"
    using showNat_digits [of n] natOfDigits_showNat [of n] unfolding cs(1)
    by (simp_all add: takeWhile_eq_all_conv list_all_iff)
  ultimately show ?thesis
    using cs by (simp only: parseIntPrefix_def trimStart_def) (simp add: Let_def takeWhile_eq_all_conv [THEN iffD2])
qed

subsection \<open>The four lines of an entry\<close>

lemma plain_line:
  assumes "s \<noteq> []" "\<not> isSpace (hd s)" "\<not> isSpace (last s)" "hd s \<noteq> CHR ''#''" "hd s \<noteq> CHR ''-''"
    "list_all isSpace w" "pt_inPatterns st" "pt_current st = Some c"
  shows "parseLine path (w @ s) st = (case applyPatternField c s path of
     Inl e \<Rightarrow> Inl e | Inr c' \<Rightarrow> Inr (st\<lparr>pt_current := Some c'\<rparr>))"
proof -
  have "last s \<noteq> CHR 13" using assms(3) by (auto simp: isSpace_def)
  then have "last (w @ s) \<noteq> CHR 13" using assms(1) by simp
  then have "\<not> endsWith (w @ s) [CHR 13]"
    unfolding endsWith_def suffix_def by (metis last_snoc)
  then have cr: "stripCarriage (w @ s) = w @ s" by (simp add: stripCarriage_def)
  have tr: "trim (w @ s) = s" by (rule trim_padded) (use assms in auto)
  have "dropWhile isSpace (w @ s) = s"
    using assms(1,2,6) by (simp add: list_all_iff dropWhile_append2 dropWhile_eq_self_iff)
  then have "\<not> isDashLine (w @ s)" using assms(5) by (auto simp: isDashLine_def split: list.splits)
  moreover have "\<not> startsWith s ''#''" using assms(1,4) by (cases s) (auto simp: startsWith_def)
  ultimately show ?thesis
    using assms(1,7,8) by (simp add: parseLine_def Let_def cr tr split: sum.splits)
qed

lemma splitFirst_key: "CHR '':'' \<notin> set k \<Longrightarrow> splitFirst '':'' (k @ CHR '':'' # v) = Some (k, v)"
  by (induction k) auto

lemma stripEntryQuotes_plain: "s \<noteq> [] \<Longrightarrow> hd s \<noteq> CHR 39 \<Longrightarrow> hd s \<noteq> CHR 34 \<Longrightarrow> stripEntryQuotes s = s"
  by (cases s) (auto simp: stripEntryQuotes_def quotedBy_def startsWith_def)

lemma stripEntryQuotes_quote: "stripEntryQuotes (quote d) = d"
  by (simp add: stripEntryQuotes_def quotedBy_def quote_def startsWith_def)
    (simp add: endsWith_def suffix_def)

lemma field_value:
  assumes "s \<noteq> []" "\<not> isSpace (hd s)" "\<not> isSpace (last s)"
  shows "trim (CHR '' '' # s) = s"
  using trim_padded [OF assms, of "'' ''"] by (simp add: isSpace_def)

lemma space_key: "trim ''budget'' = ''budget''" "trim ''escalateImmediately'' = ''escalateImmediately''"
  "trim ''description'' = ''description''"
  by code_simp+

lemma budget_field: "applyPatternField c (''budget: '' @ showNat b) path = Inr (c\<lparr>pe_budget := Some b\<rparr>)"
proof -
  have "hd (showNat b) \<noteq> CHR 39 \<and> hd (showNat b) \<noteq> CHR 34"
    using showNat_ends(4) [of b] by (auto simp: isDigit_def)
  then have "stripEntryQuotes (showNat b) = showNat b" using showNat_ends(1) by (intro stripEntryQuotes_plain) auto
  then show ?thesis
    using splitFirst_key [of "''budget''" "CHR '' '' # showNat b"]
    by (simp add: applyPatternField_def Let_def field_value showNat_ends space_key parseIntPrefix_showNat)
qed

lemma escalate_field:
  "applyPatternField c (''escalateImmediately: '' @ (if b then ''true'' else ''false'')) path =
     Inr (c\<lparr>pe_escalateImmediately := Some b\<rparr>)"
proof -
  have "stripEntryQuotes (trim '' true'') = ''true''" "stripEntryQuotes (trim '' false'') = ''false''" by code_simp+
  then show ?thesis
    using splitFirst_key [of "''escalateImmediately''" "'' true''"] splitFirst_key [of "''escalateImmediately''" "'' false''"]
    by (cases b) (simp_all add: applyPatternField_def Let_def space_key)
qed

lemma quote_ends: "quote d \<noteq> []" "hd (quote d) = CHR 34" "last (quote d) = CHR 34" "\<not> isSpace CHR 34"
  by (simp_all add: quote_def isSpace_def)

lemma description_field: "applyPatternField c (''description: '' @ quote d) path = Inr (c\<lparr>pe_description := Some d\<rparr>)"
  using splitFirst_key [of "''description''" "CHR '' '' # quote d"]
  by (simp add: applyPatternField_def Let_def field_value quote_ends space_key stripEntryQuotes_quote)

lemma mode_line:
  assumes "m \<in> set CATALOGUED_MODES" "pt_inPatterns st" "flush path st = Inr s1"
  shows "parseLine path (''  - mode: '' @ modeText m) st = Inr (s1\<lparr>pt_current := Some (emptyEntry\<lparr>pe_mode := Some m\<rparr>)\<rparr>)"
proof -
  let ?l = "''  - mode: '' @ modeText m"
  have all: "\<forall>m \<in> set CATALOGUED_MODES. stripCarriage (''  - mode: '' @ modeText m) = ''  - mode: '' @ modeText m \<and>
      trim (''  - mode: '' @ modeText m) \<noteq> [] \<and> \<not> startsWith (trim (''  - mode: '' @ modeText m)) ''#'' \<and>
      isDashLine (''  - mode: '' @ modeText m) \<and> dropDash (''  - mode: '' @ modeText m) = ''mode: '' @ modeText m \<and>
      splitFirst '':'' (''mode: '' @ modeText m) = Some (''mode'', '' '' @ modeText m) \<and>
      modeOfText (stripEntryQuotes (trim ('' '' @ modeText m))) = Some m" by code_simp
  moreover have "trim ''mode'' = ''mode''" by code_simp
  ultimately have "applyPatternField emptyEntry (dropDash ?l) path = Inr (emptyEntry\<lparr>pe_mode := Some m\<rparr>)"
    using assms(1) by (simp add: applyPatternField_def Let_def)
  with all assms show ?thesis by (simp add: parseLine_def Let_def)
qed

subsection \<open>Whole catalogues\<close>

lemma parseLines_append:
  "parseLines path (a @ b) s = (case parseLines path a s of Inl e \<Rightarrow> Inl e | Inr s' \<Rightarrow> parseLines path b s')"
  by (induction path a s rule: parseLines.induct) (auto split: sum.splits)

lemma flush_fields: "flush path s = Inr s1 \<Longrightarrow> pt_inPatterns s1 = pt_inPatterns s \<and> pt_version s1 = pt_version s"
  by (auto simp: flush_def split: option.splits)

lemma flush_partial:
  "pt_current s = None \<Longrightarrow> flush path (s\<lparr>pt_current := Some (partialOf p)\<rparr>) = Inr (s\<lparr>pt_patterns := pt_patterns s @ [p]\<rparr>)"
  by (simp add: flush_def partialOf_def)

lemma parse_entry:
  assumes "cp_mode p \<in> set CATALOGUED_MODES" "pt_inPatterns st" "flush path st = Inr s1"
  shows "parseLines path (renderEntry p) st = Inr (s1\<lparr>pt_current := Some (partialOf p)\<rparr>)"
proof -
  have inp: "pt_inPatterns s1" using flush_fields [OF assms(3)] assms(2) by simp
  have w: "list_all isSpace ''    ''" by (simp add: isSpace_def)
  have budget: "parseLine path (''    '' @ (''budget: '' @ showNat b)) (s1\<lparr>pt_current := Some c\<rparr>) =
      Inr (s1\<lparr>pt_current := Some (c\<lparr>pe_budget := Some b\<rparr>)\<rparr>)" for c b
    by (subst plain_line) (use inp w showNat_ends [of b] in \<open>auto simp: budget_field [simplified] isSpace_def\<close>)
  have esc: "parseLine path (''    '' @ (''escalateImmediately: '' @ (if b then ''true'' else ''false'')))
      (s1\<lparr>pt_current := Some c\<rparr>) = Inr (s1\<lparr>pt_current := Some (c\<lparr>pe_escalateImmediately := Some b\<rparr>)\<rparr>)" for c b
    by (subst plain_line) (use inp w escalate_field [of c b] in \<open>auto simp: isSpace_def\<close>)
  have desc: "parseLine path (''    '' @ (''description: '' @ quote d)) (s1\<lparr>pt_current := Some c\<rparr>) =
      Inr (s1\<lparr>pt_current := Some (c\<lparr>pe_description := Some d\<rparr>)\<rparr>)" for c d
    by (subst plain_line) (use inp w description_field [of c d] in \<open>auto simp: quote_ends isSpace_def\<close>)
  show ?thesis
    using mode_line [OF assms] budget esc desc
    by (simp add: renderEntry_def emptyEntry_def partialOf_def)
qed

lemma parse_entries:
  assumes "\<forall>p \<in> set ps. cp_mode p \<in> set CATALOGUED_MODES" "pt_inPatterns st" "flush path st = Inr s1"
  shows "\<exists>st'. parseLines path (concat (map renderEntry ps)) st = Inr st' \<and>
    flush path st' = Inr (s1\<lparr>pt_patterns := pt_patterns s1 @ ps\<rparr>)"
  using assms
proof (induction ps arbitrary: st s1)
  case Nil
  then show ?case by simp
next
  case (Cons p ps)
  have cur: "pt_current s1 = None" using Cons.prems(3) by (auto simp: flush_def split: option.splits)
  have inp: "pt_inPatterns (s1\<lparr>pt_current := Some (partialOf p)\<rparr>)"
    using flush_fields [OF Cons.prems(3)] Cons.prems(2) by simp
  have mode: "cp_mode p \<in> set CATALOGUED_MODES" using Cons.prems(1) by simp
  have "\<exists>st'. parseLines path (concat (map renderEntry ps)) (s1\<lparr>pt_current := Some (partialOf p)\<rparr>) = Inr st' \<and>
      flush path st' = Inr (s1\<lparr>pt_patterns := pt_patterns s1 @ (p # ps)\<rparr>)"
    using Cons.IH [OF _ inp flush_partial [OF cur]] Cons.prems(1) by simp
  then show ?case
    by (simp add: parseLines_append parse_entry [OF mode Cons.prems(2,3)])
qed

lemma reads_back:
  assumes "catalogueOk c"
  shows "parseCatalogueYaml (renderCatalogue c) path = Inr c"
proof -
  let ?ls = "[''version: v1'', ''patterns:''] @ concat (map renderEntry (ct_patterns c))"
  have modes: "\<forall>p \<in> set (ct_patterns c). cp_mode p \<in> set CATALOGUED_MODES"
    using assms by (simp add: catalogueOk_def)
  have "\<forall>m \<in> set CATALOGUED_MODES. CHR 10 \<notin> set (modeText m)" by code_simp
  then have "\<forall>l \<in> set ?ls. CHR 10 \<notin> set l"
    using assms showNat_line by (auto simp: catalogueOk_def renderEntry_def quote_def)
  then have lines: "splitOn (CHR 10) (renderCatalogue c) = ?ls"
    unfolding renderCatalogue_def newline_def by (intro splitOn_lines) simp_all
  define st where "st = initialParse\<lparr>pt_version := Some ''v1'', pt_inPatterns := True\<rparr>"
  have head: "parseLines path [''version: v1'', ''patterns:''] initialParse = Inr st"
  proof -
    have "matchVersion ''version: v1'' = Some ''v1''" "matchVersion ''patterns:'' = None"
      "patternsHeader ''patterns:''" "stripEntryQuotes ''v1'' = ''v1''"
      "stripCarriage ''version: v1'' = ''version: v1''" "stripCarriage ''patterns:'' = ''patterns:''"
      "trim ''version: v1'' = ''version: v1''" "trim ''patterns:'' = ''patterns:''" by code_simp+
    then show ?thesis by (simp add: parseLine_def Let_def startsWith_def initialParse_def st_def)
  qed
  have "flush path st = Inr st" "pt_inPatterns st" "pt_patterns st = []" "pt_version st = Some ''v1''"
    by (simp_all add: flush_def st_def initialParse_def)
  with parse_entries [OF modes this(2,1)] obtain st' where
    "parseLines path (concat (map renderEntry (ct_patterns c))) st = Inr st'"
    "flush path st' = Inr (st\<lparr>pt_patterns := ct_patterns c\<rparr>)" by auto
  moreover have "validatePatterns path [] (ct_patterns c) = None"
    using assms by (simp add: catalogueOk_def validatePatterns_iff)
  ultimately show ?thesis
    using \<open>pt_version st = Some ''v1''\<close> unfolding parseCatalogueYaml_def lines parseLines_append head by simp
qed

definition sampleCatalogue :: catalogue where
  "sampleCatalogue = \<lparr>ct_patterns = [\<lparr>cp_mode = RebaseConflict, cp_budget = 10, cp_description = ''a: b'',
     cp_escalateImmediately = True\<rparr>]\<rparr>"

lemma sample_reads_back: "parseCatalogueYaml (renderCatalogue sampleCatalogue) ''f'' = Inr sampleCatalogue"
  by (rule reads_back) (simp add: catalogueOk_def sampleCatalogue_def CATALOGUED_MODES_def)

section \<open>Properties\<close>

text \<open>C8. a catalogue the parser accepts names only catalogued modes, each at most once.\<close>

theorem catalogue_modes_distinct:
  assumes "parseCatalogueYaml yaml path = Inr c"
  shows "distinct (map cp_mode (ct_patterns c)) \<and> set (map cp_mode (ct_patterns c)) \<subseteq> set CATALOGUED_MODES"
proof -
  from assms obtain s s1 where s: "parseLines path (splitOn (CHR 10) yaml) initialParse = Inr s"
    "flush path s = Inr s1" "validatePatterns path [] (pt_patterns s1) = None" "c = \<lparr>ct_patterns = pt_patterns s1\<rparr>"
    by (auto simp: parseCatalogueYaml_def split: sum.splits if_splits option.splits)
  have "parseOk initialParse" by (simp add: parseOk_def initialParse_def)
  from flush_ok [OF parseLines_ok [OF this s(1)] s(2)] s(3,4) show ?thesis
    by (auto simp: parseOk_def validatePatterns_iff)
qed

theorem catalogue_modes_distinct_witness: "distinct (map cp_mode (ct_patterns sampleCatalogue))"
  using catalogue_modes_distinct [OF sample_reads_back] by simp

text \<open>C9. every catalogue of distinct modes with one-line descriptions, written in the documented shape,
  is read back unchanged.\<close>

theorem catalogue_roundtrip:
  assumes "catalogueOk c"
  shows "parseCatalogueYaml (renderCatalogue c) path = Inr c"
  using assms by (rule reads_back)

theorem catalogue_roundtrip_witness:
  "parseCatalogueYaml (renderCatalogue sampleCatalogue) ''f'' = Inr sampleCatalogue"
proof (rule catalogue_roundtrip)
  show "catalogueOk sampleCatalogue" by (simp add: catalogueOk_def sampleCatalogue_def CATALOGUED_MODES_def)
qed

text \<open>Two lapses of the strict shape: a line without a colon inside an entry is skipped, and a
  comment after \<open>escalateImmediately: true\<close> turns the flag off.\<close>

lemma junk_line_accepted:
  "map_sum id (map cp_mode \<circ> ct_patterns) (parseCatalogueYaml (joinWith newline
     [''version: v1'', ''patterns:'', ''  - mode: RebaseConflict'', ''    not a field'', ''    budget: 1'']) ''f'')
   = Inr [RebaseConflict]"
  by code_simp

lemma commented_flag_dropped:
  "map_sum id (map cp_escalateImmediately \<circ> ct_patterns) (parseCatalogueYaml (joinWith newline
     [''version: v1'', ''patterns:'', ''  - mode: RebaseConflict'', ''    budget: 1'',
      ''    escalateImmediately: true # by hand'']) ''f'')
   = Inr [False]"
  by code_simp

end
