(* ===== verification/Board.thy ===== *)
theory Board
  imports Compare Prelude
begin

text \<open>
  The dispatch board, \<open>pipeline-cli/src/dispatch/board.ts\<close> and \<open>types.ts\<close>: manifests move from
  \<open>queue/\<close> to \<open>inflight/\<close>, verdicts and diagnostics land in \<open>done/\<close> and \<open>failed/\<close>. A directory is
  the list of its files in listing order; a file is the value its JSON text stands for and its
  modification time. A write (temporary file and rename) and a rename are single steps. A removal
  of a file that is not there does nothing; other I/O errors are not modelled. \<open>wall\<close> is the
  time a written file gets. Fields the board never reads are kept in one text field.
\<close>

subsection \<open>Manifests, verdicts, heartbeats\<close>

datatype worker_kind = InSessionAgent | ClaudePShell

datatype verdict_outcome = Success | IterateNeeded | IterationExhausted | FailedVerdict | QuotaExhausted | BlockedVerdict

text \<open>\<open>mf_workerKind\<close> is \<open>None\<close> for \<open>any\<close>.\<close>

record manifest =
  mf_taskId :: string
  mf_workerKind :: "worker_kind option"
  mf_dispatchedAt :: stamp
  mf_noClaimBefore :: "stamp option"
  mf_iterationsAttempted :: "int option"
  mf_iterationBudget :: "int option"
  mf_rest :: string

record verdict =
  vd_taskId :: string
  vd_outcome :: verdict_outcome
  vd_completedAt :: stamp
  vd_workerId :: string
  vd_workerKind :: "worker_kind option"
  vd_cause :: "string option"
  vd_notes :: "string option"
  vd_iterationsAttempted :: "int option"
  vd_rest :: string

record heartbeat =
  hb_taskId :: string
  hb_workerId :: string
  hb_workerKind :: "worker_kind option"
  hb_lastHeartbeat :: stamp
  hb_rest :: string

record resume_signal =
  sg_taskId :: string
  sg_feedback :: string
  sg_priorIteration :: "int option"
  sg_rest :: string

datatype file_content = ManifestFile manifest | VerdictFile verdict | HeartbeatFile heartbeat
  | SignalFile resume_signal | UnreadableFile

record board_file =
  fl_content :: file_content
  fl_mtime :: int

type_synonym dir = "(string, board_file) jsmap"

record board =
  bd_queue :: dir
  bd_inflight :: dir
  bd_done :: dir
  bd_failed :: dir

datatype subdir = Queue | Inflight | Done | Failed

definition MANIFEST_SUFFIX :: string where "MANIFEST_SUFFIX = ''.dispatch.json''"
definition VERDICT_SUFFIX :: string where "VERDICT_SUFFIX = ''.verdict.json''"
definition STATE_SUFFIX :: string where "STATE_SUFFIX = ''.state.json''"
definition DIAGNOSTIC_SUFFIX :: string where "DIAGNOSTIC_SUFFIX = ''.diagnostic.json''"
definition RESUME_SIGNAL_SUFFIX :: string where "RESUME_SIGNAL_SUFFIX = ''.resume.json''"
definition DEFAULT_HEARTBEAT_STALE_MS :: int where "DEFAULT_HEARTBEAT_STALE_MS = 30 * 60 * 1000"
definition DEFAULT_ITERATION_BUDGET :: int where "DEFAULT_ITERATION_BUDGET = 2"

subsection \<open>Files\<close>

definition dirOf :: "subdir \<Rightarrow> board \<Rightarrow> dir" where
  "dirOf s b = (case s of Queue \<Rightarrow> bd_queue b | Inflight \<Rightarrow> bd_inflight b | Done \<Rightarrow> bd_done b | Failed \<Rightarrow> bd_failed b)"

definition setDir :: "subdir \<Rightarrow> dir \<Rightarrow> board \<Rightarrow> board" where
  "setDir s d b = (case s of
     Queue \<Rightarrow> b\<lparr>bd_queue := d\<rparr>
   | Inflight \<Rightarrow> b\<lparr>bd_inflight := d\<rparr>
   | Done \<Rightarrow> b\<lparr>bd_done := d\<rparr>
   | Failed \<Rightarrow> b\<lparr>bd_failed := d\<rparr>)"

definition fileAt :: "subdir \<Rightarrow> string \<Rightarrow> board \<Rightarrow> board_file option" where
  "fileAt s n b = mapGet (dirOf s b) n"

definition existsFile :: "subdir \<Rightarrow> string \<Rightarrow> board \<Rightarrow> bool" where
  "existsFile s n b \<longleftrightarrow> fileAt s n b \<noteq> None"

definition placeFile :: "subdir \<Rightarrow> string \<Rightarrow> board_file \<Rightarrow> board \<Rightarrow> board" where
  "placeFile s n f b = setDir s (mapSet n f (dirOf s b)) b"

definition removeFile :: "subdir \<Rightarrow> string \<Rightarrow> board \<Rightarrow> board" where
  "removeFile s n b = setDir s (AList.delete n (dirOf s b)) b"

definition writeFile :: "subdir \<Rightarrow> string \<Rightarrow> file_content \<Rightarrow> int \<Rightarrow> board \<Rightarrow> board" where
  "writeFile s n c wall b = placeFile s n \<lparr>fl_content = c, fl_mtime = wall\<rparr> b"

text \<open>\<open>renameSync\<close>: \<open>None\<close> is \<open>ENOENT\<close>; a file at the destination is replaced.\<close>

definition renameFile :: "subdir \<Rightarrow> string \<Rightarrow> subdir \<Rightarrow> string \<Rightarrow> board \<Rightarrow> board option" where
  "renameFile s n s' n' b = (case fileAt s n b of
     None \<Rightarrow> None
   | Some f \<Rightarrow> Some (placeFile s' n' f (removeFile s n b)))"

definition manifestName :: "string \<Rightarrow> string" where
  "manifestName taskId = taskId @ MANIFEST_SUFFIX"

definition stateName :: "string \<Rightarrow> string" where
  "stateName taskId = taskId @ STATE_SUFFIX"

definition resumeName :: "string \<Rightarrow> string" where
  "resumeName taskId = taskId @ RESUME_SIGNAL_SUFFIX"

definition stem :: "string \<Rightarrow> string \<Rightarrow> string" where
  "stem sfx name = take (length name - length sfx) name"

definition readManifest :: "subdir \<Rightarrow> string \<Rightarrow> board \<Rightarrow> manifest option" where
  "readManifest s n b = (case fileAt s n b of
     None \<Rightarrow> None
   | Some f \<Rightarrow> (case fl_content f of ManifestFile m \<Rightarrow> Some m | _ \<Rightarrow> None))"

definition readVerdict :: "board_file \<Rightarrow> verdict option" where
  "readVerdict f = (case fl_content f of VerdictFile v \<Rightarrow> Some v | _ \<Rightarrow> None)"

definition readHeartbeat :: "string \<Rightarrow> board \<Rightarrow> heartbeat option" where
  "readHeartbeat taskId b = (case fileAt Inflight (stateName taskId) b of
     None \<Rightarrow> None
   | Some f \<Rightarrow> (case fl_content f of HeartbeatFile h \<Rightarrow> Some h | _ \<Rightarrow> None))"

definition readResumeSignal :: "string \<Rightarrow> board \<Rightarrow> resume_signal option" where
  "readResumeSignal taskId b = (case fileAt Inflight (resumeName taskId) b of
     None \<Rightarrow> None
   | Some f \<Rightarrow> (case fl_content f of SignalFile s \<Rightarrow> Some s | _ \<Rightarrow> None))"

subsection \<open>The conductor's and the workers' operations\<close>

definition writeManifest :: "manifest \<Rightarrow> int \<Rightarrow> board \<Rightarrow> string + board" where
  "writeManifest m wall b =
     (if existsFile Queue (manifestName (mf_taskId m)) b
      then Inl (''dispatch.writeManifest: queue/'' @ manifestName (mf_taskId m) @
             '' already exists; release inflight before re-emitting'')
      else if existsFile Inflight (manifestName (mf_taskId m)) b
      then Inl (''dispatch.writeManifest: inflight/'' @ manifestName (mf_taskId m) @
             '' already exists; release before re-emitting'')
      else Inr (writeFile Queue (manifestName (mf_taskId m)) (ManifestFile m) wall b))"

definition listManifestCandidates :: "dir \<Rightarrow> string list" where
  "listManifestCandidates d =
     map fst (sortBy (\<lambda>a b. fl_mtime (snd a) - fl_mtime (snd b)) (filter (\<lambda>(n, f). endsWith n MANIFEST_SUFFIX) d))"

definition kindMatches :: "worker_kind \<Rightarrow> manifest \<Rightarrow> bool" where
  "kindMatches kind m \<longleftrightarrow> mf_workerKind m = None \<or> mf_workerKind m = Some kind"

definition coolingDown :: "int \<Rightarrow> manifest \<Rightarrow> bool" where
  "coolingDown now m = (case mf_noClaimBefore m of
     Some (Some t) \<Rightarrow> now < t
   | _ \<Rightarrow> False)"

definition eligible :: "worker_kind \<Rightarrow> int \<Rightarrow> manifest \<Rightarrow> bool" where
  "eligible kind now m \<longleftrightarrow> kindMatches kind m \<and> \<not> coolingDown now m"

fun claimLoop :: "worker_kind \<Rightarrow> int \<Rightarrow> string list \<Rightarrow> board \<Rightarrow> manifest option \<times> board" where
  "claimLoop kind now [] b = (None, b)"
| "claimLoop kind now (n # ns) b = (case readManifest Queue n b of
     None \<Rightarrow> claimLoop kind now ns b
   | Some m \<Rightarrow>
       if \<not> kindMatches kind m then claimLoop kind now ns b
       else if coolingDown now m then claimLoop kind now ns b
       else (case renameFile Queue n Inflight (manifestName (mf_taskId m)) b of
           None \<Rightarrow> claimLoop kind now ns b
         | Some b' \<Rightarrow> (Some m, b')))"

definition claimNext :: "worker_kind \<Rightarrow> int \<Rightarrow> board \<Rightarrow> manifest option \<times> board" where
  "claimNext kind now b = claimLoop kind now (listManifestCandidates (bd_queue b)) b"

definition releaseInflight :: "string \<Rightarrow> board \<Rightarrow> bool \<times> board" where
  "releaseInflight taskId b =
     (if \<not> existsFile Inflight (manifestName taskId) b then (False, b)
      else let b1 = removeFile Inflight (stateName taskId) b;
               b2 = removeFile Inflight (resumeName taskId) b1
           in case renameFile Inflight (manifestName taskId) Queue (manifestName taskId) b2 of
                None \<Rightarrow> (False, b2)
              | Some b3 \<Rightarrow> (True, b3))"

record queue_counts =
  qc_queued :: nat
  qc_inflight :: nat
  qc_done :: nat
  qc_failed :: nat

definition countManifests :: "dir \<Rightarrow> nat" where
  "countManifests d = length (filter (\<lambda>n. endsWith n MANIFEST_SUFFIX) (mapKeys d))"

definition countVerdicts :: "dir \<Rightarrow> nat" where
  "countVerdicts d = length (filter (\<lambda>n. endsWith n VERDICT_SUFFIX) (mapKeys d))"

definition countDiagnostics :: "dir \<Rightarrow> nat" where
  "countDiagnostics d = length (filter (\<lambda>n. endsWith n DIAGNOSTIC_SUFFIX \<or> endsWith n VERDICT_SUFFIX) (mapKeys d))"

definition peekQueue :: "board \<Rightarrow> queue_counts" where
  "peekQueue b = \<lparr>qc_queued = countManifests (bd_queue b), qc_inflight = countManifests (bd_inflight b),
     qc_done = countVerdicts (bd_done b), qc_failed = countDiagnostics (bd_failed b)\<rparr>"

text \<open>A comparison of two times is \<open>NaN\<close>, which sorts as equal, when one of them is not a date.\<close>

definition compareStamps :: "stamp \<Rightarrow> stamp \<Rightarrow> int" where
  "compareStamps a b = (case (a, b) of (Some x, Some y) \<Rightarrow> x - y | _ \<Rightarrow> 0)"

definition verdictsIn :: "(string \<Rightarrow> bool) \<Rightarrow> dir \<Rightarrow> verdict list" where
  "verdictsIn accept d = List.map_filter (\<lambda>(n, f). if accept n then readVerdict f else None) d"

definition collectVerdicts :: "bool \<Rightarrow> board \<Rightarrow> verdict list" where
  "collectVerdicts includeFailed b =
     sortBy (\<lambda>v w. compareStamps (vd_completedAt v) (vd_completedAt w))
       (verdictsIn (\<lambda>n. endsWith n VERDICT_SUFFIX) (bd_done b) @
        (if includeFailed
         then verdictsIn (\<lambda>n. endsWith n VERDICT_SUFFIX \<or> endsWith n DIAGNOSTIC_SUFFIX) (bd_failed b) else []))"

definition writeVerdict :: "verdict \<Rightarrow> int \<Rightarrow> board \<Rightarrow> board" where
  "writeVerdict v wall b =
     (let sub = (if vd_outcome v = Success \<or> vd_outcome v = IterateNeeded then Done else Failed);
          b1 = writeFile sub (vd_taskId v @ VERDICT_SUFFIX) (VerdictFile v) wall b;
          b2 = (if vd_outcome v \<noteq> IterateNeeded
                then removeFile Inflight (stateName (vd_taskId v)) (removeFile Inflight (manifestName (vd_taskId v)) b1)
                else case vd_iterationsAttempted v of
                  None \<Rightarrow> b1
                | Some n \<Rightarrow> (case readManifest Inflight (manifestName (vd_taskId v)) b1 of
                    None \<Rightarrow> b1
                  | Some m \<Rightarrow> writeFile Inflight (manifestName (vd_taskId v))
                      (ManifestFile (m\<lparr>mf_iterationsAttempted := Some n\<rparr>)) wall b1))
      in removeFile Inflight (resumeName (vd_taskId v)) b2)"

definition writeHeartbeat :: "heartbeat \<Rightarrow> int \<Rightarrow> board \<Rightarrow> board" where
  "writeHeartbeat h wall b = writeFile Inflight (stateName (hb_taskId h)) (HeartbeatFile h) wall b"

definition writeDiagnostic :: "verdict \<Rightarrow> int \<Rightarrow> board \<Rightarrow> board" where
  "writeDiagnostic v wall b =
     (let b1 = writeFile Failed (vd_taskId v @ DIAGNOSTIC_SUFFIX) (VerdictFile v) wall b
      in removeFile Inflight (resumeName (vd_taskId v))
           (removeFile Inflight (stateName (vd_taskId v))
             (removeFile Inflight (manifestName (vd_taskId v)) b1)))"

definition removeVerdict :: "string \<Rightarrow> subdir \<Rightarrow> board \<Rightarrow> board" where
  "removeVerdict taskId sub b = removeFile sub (taskId @ DIAGNOSTIC_SUFFIX) (removeFile sub (taskId @ VERDICT_SUFFIX) b)"

subsection \<open>The heartbeat sweep\<close>

definition lastTick :: "heartbeat option \<Rightarrow> manifest \<Rightarrow> stamp" where
  "lastTick h m = (case h of Some x \<Rightarrow> hb_lastHeartbeat x | None \<Rightarrow> mf_dispatchedAt m)"

definition resolvedKind :: "heartbeat option \<Rightarrow> manifest \<Rightarrow> worker_kind option" where
  "resolvedKind h m = (case h of
     Some x \<Rightarrow> (case hb_workerKind x of Some k \<Rightarrow> Some k | None \<Rightarrow> mf_workerKind m)
   | None \<Rightarrow> mf_workerKind m)"

definition staleDiagnostic :: "string \<Rightarrow> heartbeat option \<Rightarrow> manifest \<Rightarrow> int \<Rightarrow> int \<Rightarrow> int \<Rightarrow> verdict" where
  "staleDiagnostic taskId h m tick staleMs now =
     \<lparr>vd_taskId = taskId, vd_outcome = FailedVerdict, vd_completedAt = Some now,
      vd_workerId = orElse (map_option hb_workerId h) ''unknown'', vd_workerKind = resolvedKind h m,
      vd_cause = Some ''stale-heartbeat'',
      vd_notes = Some (''inflight heartbeat '' @ toISOString tick @ '' older than '' @ showInt staleMs @ ''ms''),
      vd_iterationsAttempted = None, vd_rest = []\<rparr>"

definition sweepEntry :: "int \<Rightarrow> int \<Rightarrow> string \<Rightarrow> board \<Rightarrow> string option \<times> board" where
  "sweepEntry staleMs now entry b =
     (if \<not> endsWith entry MANIFEST_SUFFIX then (None, b)
      else let taskId = stem MANIFEST_SUFFIX entry in
        case readManifest Inflight entry b of
          None \<Rightarrow> (None, b)
        | Some m \<Rightarrow>
            let h = readHeartbeat taskId b in
            (case lastTick h m of
               None \<Rightarrow> (None, b)
             | Some tick \<Rightarrow>
                 if now - staleMs < tick then (None, b)
                 else (Some taskId,
                   removeFile Inflight (resumeName taskId)
                     (removeFile Inflight (stateName taskId)
                       (removeFile Inflight entry
                         (writeDiagnostic (staleDiagnostic taskId h m tick staleMs now) now b))))))"

fun sweepLoop :: "int \<Rightarrow> int \<Rightarrow> string list \<Rightarrow> board \<Rightarrow> string list \<times> board" where
  "sweepLoop staleMs now [] b = ([], b)"
| "sweepLoop staleMs now (e # es) b =
     (let (r, b1) = sweepEntry staleMs now e b; (rs, b2) = sweepLoop staleMs now es b1
      in (case r of None \<Rightarrow> rs | Some t \<Rightarrow> t # rs, b2))"

definition sweepStaleHeartbeats :: "int option \<Rightarrow> int \<Rightarrow> board \<Rightarrow> string list \<times> board" where
  "sweepStaleHeartbeats staleMs now b =
     sweepLoop (orElse staleMs DEFAULT_HEARTBEAT_STALE_MS) now (mapKeys (bd_inflight b)) b"

subsection \<open>Iteration\<close>

definition iterationAttemptsOf :: "manifest option \<Rightarrow> int" where
  "iterationAttemptsOf m = (case m of None \<Rightarrow> 0 | Some x \<Rightarrow> orElse (mf_iterationsAttempted x) 0)"

definition iterationBudgetOf :: "manifest option \<Rightarrow> int" where
  "iterationBudgetOf m = (case m of None \<Rightarrow> DEFAULT_ITERATION_BUDGET
     | Some x \<Rightarrow> orElse (mf_iterationBudget x) DEFAULT_ITERATION_BUDGET)"

definition writeResumeSignal :: "resume_signal \<Rightarrow> int option \<Rightarrow> int option \<Rightarrow> int \<Rightarrow> board \<Rightarrow> string + board" where
  "writeResumeSignal sg budgetOpt attemptsOpt wall b =
     (let name = manifestName (sg_taskId sg) in
      if \<not> existsFile Inflight name b
      then Inl (''dispatch.writeResumeSignal: no inflight manifest for '' @ sg_taskId sg @ '' '' @ emDash @
             '' Worker must own an active claim to receive a resume'')
      else let m = readManifest Inflight name b;
               attempts = orElse attemptsOpt (iterationAttemptsOf m);
               budget = orElse budgetOpt (iterationBudgetOf m)
           in if budget \<le> attempts
              then Inl (''dispatch.writeResumeSignal: iteration budget exhausted for '' @ sg_taskId sg @
                     '' (attempts='' @ showInt attempts @ '', budget='' @ showInt budget @ '')'')
              else Inr (writeFile Inflight (resumeName (sg_taskId sg)) (SignalFile sg) wall b))"

definition listResumeSignals :: "board \<Rightarrow> string list" where
  "listResumeSignals b = map (stem RESUME_SIGNAL_SUFFIX)
     (filter (\<lambda>n. endsWith n RESUME_SIGNAL_SUFFIX) (mapKeys (bd_inflight b)))"

definition removeResumeSignal :: "string \<Rightarrow> board \<Rightarrow> board" where
  "removeResumeSignal taskId b = removeFile Inflight (resumeName taskId) b"

record iteration_probe =
  ip_attempts :: int
  ip_budget :: int
  ip_exhausted :: bool
  ip_manifest :: "manifest option"

definition probeIterationBudget :: "string \<Rightarrow> board \<Rightarrow> iteration_probe" where
  "probeIterationBudget taskId b =
     (let m = readManifest Inflight (manifestName taskId) b
      in \<lparr>ip_attempts = iterationAttemptsOf m, ip_budget = iterationBudgetOf m,
          ip_exhausted = (iterationBudgetOf m \<le> iterationAttemptsOf m), ip_manifest = m\<rparr>)"

definition writeIterationExhaustedDiagnostic :: "string \<Rightarrow> int \<Rightarrow> int \<Rightarrow> string option \<Rightarrow> worker_kind option \<Rightarrow>
    string option \<Rightarrow> stamp option \<Rightarrow> int \<Rightarrow> board \<Rightarrow> board" where
  "writeIterationExhaustedDiagnostic taskId attempts budget workerId kind notes completedAt now b = writeDiagnostic
     \<lparr>vd_taskId = taskId, vd_outcome = IterationExhausted, vd_completedAt = orElse completedAt (Some now),
      vd_workerId = orElse workerId ''conductor'', vd_workerKind = kind, vd_cause = Some ''iteration-budget-exhausted'',
      vd_notes = Some (orElse notes (''iteration budget exhausted (attempts='' @ showInt attempts @ '', budget='' @
        showInt budget @ ''); Conductor refused to trigger further resume per RFC-0041 OQ-4 cap'')),
      vd_iterationsAttempted = Some attempts, vd_rest = []\<rparr> now b"

end
