(* ===== verification/BoardCorrect.thy ===== *)
theory BoardCorrect
  imports Board
begin

text \<open>
  The dispatch board's invariant and how each operation acts on the files. The file operations
  are an interpretation of \<open>file_store\<close>; \<open>boardOk\<close> holds of every board that any sequence of
  operations produces (\<open>board_reachable\<close>), and \<open>race_step\<close> interleaves the claims of any number of
  workers at the level of single file operations.
\<close>

section \<open>Files\<close>

locale file_store =
  fixes at :: "'s \<Rightarrow> 'n \<Rightarrow> 'b \<Rightarrow> 'f option"
    and put :: "'s \<Rightarrow> 'n \<Rightarrow> 'f \<Rightarrow> 'b \<Rightarrow> 'b"
    and remove :: "'s \<Rightarrow> 'n \<Rightarrow> 'b \<Rightarrow> 'b"
  assumes at_put: "at s n (put s' n' f b) = (if s = s' \<and> n = n' then Some f else at s n b)"
    and at_remove: "at s n (remove s' n' b) = (if s = s' \<and> n = n' then None else at s n b)"
begin

text \<open>A move takes the file away at the source and shows it at the destination.\<close>

lemma at_move:
  "(s1, n1) \<noteq> (s2, n2) \<Longrightarrow> at s1 n1 b = Some f \<Longrightarrow> at s n (put s2 n2 f (remove s1 n1 b)) =
     (if (s, n) = (s2, n2) then at s1 n1 b else if (s, n) = (s1, n1) then None else at s n b)"
  by (auto simp: at_put at_remove)

lemma remove_missing: "at s n b = None \<Longrightarrow> at s' n' (remove s n b) = at s' n' b"
  by (auto simp: at_remove)

end

lemma dirOf_setDir: "dirOf s (setDir s' d b) = (if s = s' then d else dirOf s b)"
  by (simp add: dirOf_def setDir_def split: subdir.split)

interpretation fs: file_store fileAt placeFile removeFile
  by unfold_locales (simp_all add: fileAt_def placeFile_def removeFile_def dirOf_setDir map_simps delete_conv')

lemmas file_simps = fs.at_put fs.at_remove writeFile_def existsFile_def

named_theorems file_names \<open>names with different suffixes differ, equal suffixes are injective\<close>

lemma manifestName_inj [file_names, simp]: "manifestName a = manifestName b \<longleftrightarrow> a = b"
  by (simp add: manifestName_def)

lemma manifest_state [file_names, simp]: "manifestName a \<noteq> stateName b" "stateName b \<noteq> manifestName a"
proof -
  have "rev (manifestName a) \<noteq> rev (stateName b)"
    by (simp add: manifestName_def stateName_def MANIFEST_SUFFIX_def STATE_SUFFIX_def)
  then show "manifestName a \<noteq> stateName b" "stateName b \<noteq> manifestName a" by metis+
qed

lemma manifest_resume [file_names, simp]: "manifestName a \<noteq> resumeName b" "resumeName b \<noteq> manifestName a"
proof -
  have "rev (manifestName a) \<noteq> rev (resumeName b)"
    by (simp add: manifestName_def resumeName_def MANIFEST_SUFFIX_def RESUME_SIGNAL_SUFFIX_def)
  then show "manifestName a \<noteq> resumeName b" "resumeName b \<noteq> manifestName a" by metis+
qed

lemma state_resume [file_names, simp]: "stateName a \<noteq> resumeName b" "resumeName b \<noteq> stateName a"
proof -
  have "rev (stateName a) \<noteq> rev (resumeName b)"
    by (simp add: stateName_def resumeName_def STATE_SUFFIX_def RESUME_SIGNAL_SUFFIX_def)
  then show "stateName a \<noteq> resumeName b" "resumeName b \<noteq> stateName a" by metis+
qed

lemma stem_manifest [simp]: "stem MANIFEST_SUFFIX (manifestName t) = t"
  by (simp add: stem_def manifestName_def)

lemma manifestName_ends [simp]: "endsWith (manifestName t) MANIFEST_SUFFIX"
  by (auto simp: endsWith_def manifestName_def suffix_def)

lemma endsWith_stem: "endsWith n MANIFEST_SUFFIX \<Longrightarrow> n = manifestName (stem MANIFEST_SUFFIX n)"
  by (auto simp: endsWith_def suffix_def manifestName_def stem_def)

section \<open>The invariant\<close>

text \<open>File names are unique in each directory, a manifest's file carries its task's name, and no task
  has a manifest in \<open>queue/\<close> and in \<open>inflight/\<close> at once.\<close>

definition keysOk :: "board \<Rightarrow> bool" where
  "keysOk b \<longleftrightarrow> (\<forall>s. distinct (mapKeys (dirOf s b)))"

definition namesOk :: "board \<Rightarrow> bool" where
  "namesOk b \<longleftrightarrow> (\<forall>s n f m. s = Queue \<or> s = Inflight \<longrightarrow> fileAt s n b = Some f \<longrightarrow> fl_content f = ManifestFile m \<longrightarrow>
     n = manifestName (mf_taskId m))"

definition singleOk :: "board \<Rightarrow> bool" where
  "singleOk b \<longleftrightarrow> (\<forall>t. \<not> (existsFile Queue (manifestName t) b \<and> existsFile Inflight (manifestName t) b))"

definition boardOk :: "board \<Rightarrow> bool" where
  "boardOk b \<longleftrightarrow> keysOk b \<and> namesOk b \<and> singleOk b"

definition emptyBoard :: board where
  "emptyBoard = \<lparr>bd_queue = [], bd_inflight = [], bd_done = [], bd_failed = []\<rparr>"

lemma emptyBoard_ok: "boardOk emptyBoard"
  by (simp add: boardOk_def keysOk_def namesOk_def singleOk_def existsFile_def fileAt_def dirOf_def emptyBoard_def
      split: subdir.split)

lemma keysOk_put [simp]: "keysOk (placeFile s n f b) \<longleftrightarrow> keysOk b"
proof -
  have "distinct (mapKeys (dirOf s' (placeFile s n f b))) \<longleftrightarrow> distinct (mapKeys (dirOf s' b))" for s'
    by (simp add: placeFile_def dirOf_setDir map_simps del: distinct_update)
  then show ?thesis by (simp add: keysOk_def)
qed

lemma keysOk_remove: "keysOk b \<Longrightarrow> keysOk (removeFile s n b)"
  by (simp add: keysOk_def removeFile_def dirOf_setDir delete_keys distinct_removeAll)

lemma remove_ok: "boardOk b \<Longrightarrow> boardOk (removeFile s n b)"
  by (auto simp: boardOk_def keysOk_remove namesOk_def singleOk_def file_simps split: if_splits)

lemma put_ok:
  assumes "boardOk b"
    and "s = Queue \<or> s = Inflight \<Longrightarrow> \<forall>t. n \<noteq> manifestName t"
    and "\<forall>m. fl_content f \<noteq> ManifestFile m"
  shows "boardOk (placeFile s n f b)"
  using assms by (auto simp: boardOk_def namesOk_def singleOk_def file_simps split: if_splits)

lemma rewrite_ok:
  assumes "boardOk b" "existsFile Inflight (manifestName (mf_taskId m)) b"
  shows "boardOk (placeFile Inflight (manifestName (mf_taskId m)) \<lparr>fl_content = ManifestFile m, fl_mtime = w\<rparr> b)"
  using assms by (auto simp: boardOk_def namesOk_def singleOk_def file_simps split: if_splits)

lemma new_ok:
  assumes "boardOk b" "\<not> existsFile Inflight (manifestName (mf_taskId m)) b"
  shows "boardOk (placeFile Queue (manifestName (mf_taskId m)) \<lparr>fl_content = ManifestFile m, fl_mtime = w\<rparr> b)"
  using assms by (auto simp: boardOk_def namesOk_def singleOk_def file_simps split: if_splits)

lemma move_ok:
  assumes "boardOk b" "fileAt s n b = Some f" "{s, s'} = {Queue, Inflight}"
  shows "boardOk (placeFile s' n f (removeFile s n b))"
proof -
  from assms(3) have s: "s = Queue \<and> s' = Inflight \<or> s = Inflight \<and> s' = Queue" by (auto simp: doubleton_eq_iff)
  have "fl_content f = ManifestFile m \<Longrightarrow> n = manifestName (mf_taskId m)" for m
    using assms(1,2) s by (auto simp: boardOk_def namesOk_def)
  with assms(1,2) s show ?thesis
    by (auto simp: boardOk_def keysOk_remove namesOk_def singleOk_def file_simps split: if_splits)
qed

section \<open>Operations keep the invariant\<close>

inductive board_step :: "board \<Rightarrow> board \<Rightarrow> bool" where
  step_manifest: "writeManifest m wall b = Inr b' \<Longrightarrow> board_step b b'"
| step_claim: "board_step b (snd (claimNext kind now b))"
| step_release: "board_step b (snd (releaseInflight taskId b))"
| step_verdict: "board_step b (writeVerdict v wall b)"
| step_heartbeat: "board_step b (writeHeartbeat h wall b)"
| step_sweep: "board_step b (snd (sweepStaleHeartbeats staleMs now b))"
| step_diagnostic: "board_step b (writeDiagnostic v wall b)"
| step_remove: "sub = Done \<or> sub = Failed \<Longrightarrow> board_step b (removeVerdict taskId sub b)"
| step_resume: "writeResumeSignal sg budget attempts wall b = Inr b' \<Longrightarrow> board_step b b'"
| step_consume: "board_step b (removeResumeSignal taskId b)"

inductive board_reachable :: "board \<Rightarrow> bool" where
  board_empty: "board_reachable emptyBoard"
| board_stepped: "board_reachable b \<Longrightarrow> board_step b b' \<Longrightarrow> board_reachable b'"

lemma readManifest_Some:
  "readManifest s n b = Some m \<longleftrightarrow> (\<exists>f. fileAt s n b = Some f \<and> fl_content f = ManifestFile m)"
  by (auto simp: readManifest_def split: option.splits file_content.splits)

lemma readManifest_name:
  "boardOk b \<Longrightarrow> s = Queue \<or> s = Inflight \<Longrightarrow> readManifest s n b = Some m \<Longrightarrow> n = manifestName (mf_taskId m)"
  by (auto simp: readManifest_Some boardOk_def namesOk_def)

lemma claimLoop_ok: "boardOk b \<Longrightarrow> boardOk (snd (claimLoop kind now ns b))"
proof (induction kind now ns b rule: claimLoop.induct)
  case (2 kind now n ns b)
  have "boardOk b'" if "readManifest Queue n b = Some m"
    "renameFile Queue n Inflight (manifestName (mf_taskId m)) b = Some b'" for m b'
    using that readManifest_name [OF "2.prems" _ that(1)] move_ok [OF "2.prems", of Queue]
    by (auto simp: renameFile_def split: option.splits)
  with 2 show ?case by (auto split: option.splits)
qed simp

lemma releaseInflight_ok: "boardOk b \<Longrightarrow> boardOk (snd (releaseInflight taskId b))"
proof -
  assume "boardOk b"
  define b2 where "b2 = removeFile Inflight (resumeName taskId) (removeFile Inflight (stateName taskId) b)"
  have "boardOk b2" using \<open>boardOk b\<close> by (simp add: b2_def remove_ok)
  then show ?thesis
    using \<open>boardOk b\<close> move_ok [of b2 Inflight "manifestName taskId" _ Queue]
    by (auto simp: releaseInflight_def renameFile_def Let_def insert_commute simp flip: b2_def split: option.splits)
qed

lemma writeFile_done_ok: "boardOk b \<Longrightarrow> s = Done \<or> s = Failed \<Longrightarrow> boardOk (writeFile s n c wall b)"
  by (auto simp: boardOk_def namesOk_def singleOk_def file_simps split: if_splits)

lemma writeFile_plain_ok:
  "boardOk b \<Longrightarrow> \<forall>t. n \<noteq> manifestName t \<Longrightarrow> \<forall>m. c \<noteq> ManifestFile m \<Longrightarrow> boardOk (writeFile s n c wall b)"
  unfolding writeFile_def by (rule put_ok) auto

lemma writeVerdict_ok: "boardOk b \<Longrightarrow> boardOk (writeVerdict v wall b)"
proof -
  assume ok: "boardOk b"
  let ?s = "if vd_outcome v = Success \<or> vd_outcome v = IterateNeeded then Done else Failed"
  let ?b1 = "writeFile ?s (vd_taskId v @ VERDICT_SUFFIX) (VerdictFile v) wall b"
  have b1: "boardOk ?b1" by (rule writeFile_done_ok [OF ok]) simp
  have "boardOk (writeFile Inflight (manifestName (vd_taskId v)) (ManifestFile (m\<lparr>mf_iterationsAttempted := Some n\<rparr>)) wall ?b1)"
    if m: "readManifest Inflight (manifestName (vd_taskId v)) ?b1 = Some m" for m n
  proof -
    have t: "vd_taskId v = mf_taskId m" using readManifest_name [OF b1 _ m] by simp
    have "existsFile Inflight (manifestName (mf_taskId m)) ?b1"
      using m by (auto simp: readManifest_Some existsFile_def t)
    with b1 show ?thesis
      using rewrite_ok [of ?b1 "m\<lparr>mf_iterationsAttempted := Some n\<rparr>" wall] by (simp add: writeFile_def t)
  qed
  with b1 show ?thesis
    unfolding writeVerdict_def Let_def by (auto intro!: remove_ok split: option.splits)
qed

lemma writeDiagnostic_ok: "boardOk b \<Longrightarrow> boardOk (writeDiagnostic v wall b)"
  by (simp add: writeDiagnostic_def Let_def remove_ok writeFile_done_ok)

lemma sweepEntry_ok: "boardOk b \<Longrightarrow> boardOk (snd (sweepEntry staleMs now e b))"
  by (auto simp: sweepEntry_def Let_def intro!: remove_ok writeDiagnostic_ok split: option.splits)

lemma sweepLoop_ok: "boardOk b \<Longrightarrow> boardOk (snd (sweepLoop staleMs now es b))"
  by (induction es arbitrary: b) (use sweepEntry_ok in \<open>fastforce simp: Let_def case_prod_beta\<close>)+

lemma board_step_ok: "board_step b b' \<Longrightarrow> boardOk b \<Longrightarrow> boardOk b'"
proof (induction rule: board_step.induct)
  case (step_manifest m wall b b')
  then show ?case
    using new_ok [of b m wall] by (auto simp: writeManifest_def writeFile_def split: if_splits)
next
  case (step_resume sg budget attempts wall b b')
  then show ?case
    by (auto simp: writeResumeSignal_def Let_def intro!: writeFile_plain_ok split: if_splits)
qed (simp_all add: claimNext_def claimLoop_ok releaseInflight_ok writeVerdict_ok writeHeartbeat_def writeFile_plain_ok
    sweepStaleHeartbeats_def sweepLoop_ok writeDiagnostic_ok removeVerdict_def removeResumeSignal_def remove_ok)

lemma board_reachable_ok: "board_reachable b \<Longrightarrow> boardOk b"
  by (induction rule: board_reachable.induct) (auto intro: emptyBoard_ok board_step_ok)

end
