(* ===== verification/BoardRace.thy ===== *)
theory BoardRace
  imports BoardCorrect
begin

text \<open>
  Claims. What a single claim takes (\<open>claimLoop_find\<close>, oldest first), the claim as a machine whose
  steps are single file operations (\<open>claimerStep\<close>, equal to \<open>claimNext\<close> when undisturbed), and the
  race of any number of such machines on one board.
\<close>

section \<open>One claim\<close>

interpretation byAge: js_comparator "\<lambda>a b :: string \<times> board_file. fl_mtime (snd a) - fl_mtime (snd b)" "\<lambda>_. True"
  by unfold_locales auto

interpretation byTime: js_comparator "\<lambda>v w. compareStamps (vd_completedAt v) (vd_completedAt w)"
    "\<lambda>v. vd_completedAt v \<noteq> None"
  by unfold_locales (auto simp: compareStamps_def)

definition claimable :: "worker_kind \<Rightarrow> int \<Rightarrow> board \<Rightarrow> string \<Rightarrow> bool" where
  "claimable kind now b n \<longleftrightarrow> (case readManifest Queue n b of None \<Rightarrow> False | Some m \<Rightarrow> eligible kind now m)"

definition moved :: "string \<Rightarrow> board \<Rightarrow> board" where
  "moved n b = (case fileAt Queue n b of None \<Rightarrow> b | Some f \<Rightarrow> placeFile Inflight n f (removeFile Queue n b))"

lemma claimLoop_find:
  assumes "boardOk b"
  shows "claimLoop kind now ns b = (case find (claimable kind now b) ns of
     None \<Rightarrow> (None, b)
   | Some n \<Rightarrow> (readManifest Queue n b, moved n b))"
  using assms
proof (induction ns)
  case (Cons n ns)
  show ?case
  proof (cases "readManifest Queue n b")
    case None
    with Cons show ?thesis by (simp add: claimable_def)
  next
    case (Some m)
    then obtain f where f: "fileAt Queue n b = Some f" by (auto simp: readManifest_Some)
    have "n = manifestName (mf_taskId m)" using readManifest_name [OF Cons.prems _ Some] by simp
    with Some f Cons show ?thesis
      by (simp add: claimable_def eligible_def renameFile_def moved_def)
  qed
qed simp

lemma candidates_mem:
  "n \<in> set (listManifestCandidates d) \<longleftrightarrow> n \<in> set (mapKeys d) \<and> endsWith n MANIFEST_SUFFIX"
  by (auto simp: listManifestCandidates_def image_iff) force

lemma queue_file_listed:
  assumes "boardOk b" "readManifest Queue n b = Some m"
  shows "n \<in> set (listManifestCandidates (bd_queue b))"
proof -
  have "n = manifestName (mf_taskId m)" using readManifest_name [OF assms(1) _ assms(2)] by simp
  moreover from assms(2) obtain f where "mapGet (bd_queue b) n = Some f"
    by (auto simp: readManifest_Some fileAt_def dirOf_def)
  ultimately show ?thesis
    by (auto simp: candidates_mem dest!: map_of_SomeD intro: rev_image_eqI)
qed

lemma find_first_sorted:
  assumes "sorted_wrt R xs" "find P (map fst xs) = Some n"
  shows "\<exists>x \<in> set xs. fst x = n \<and> P n \<and> (\<forall>y \<in> set xs. P (fst y) \<longrightarrow> y = x \<or> R x y)"
  using assms by (induction xs) (auto split: if_splits)

lemma claim_oldest_lemma:
  assumes ok: "boardOk b" and find: "find (claimable kind now b) (listManifestCandidates (bd_queue b)) = Some n"
  obtains f m where "fileAt Queue n b = Some f" "fl_content f = ManifestFile m" "eligible kind now m"
    "n = manifestName (mf_taskId m)" "readManifest Queue n b = Some m"
    "\<And>n' f' m'. fileAt Queue n' b = Some f' \<Longrightarrow> fl_content f' = ManifestFile m' \<Longrightarrow> eligible kind now m' \<Longrightarrow>
       fl_mtime f \<le> fl_mtime f'"
proof -
  let ?q = "sortBy (\<lambda>a b. fl_mtime (snd a) - fl_mtime (snd b)) (filter (\<lambda>(n, f). endsWith n MANIFEST_SUFFIX) (bd_queue b))"
  have keys: "distinct (mapKeys (bd_queue b))"
    using ok by (auto simp: boardOk_def keysOk_def dirOf_def dest: spec [of _ Queue])
  have get: "mapGet (bd_queue b) k = Some g \<longleftrightarrow> (k, g) \<in> set (bd_queue b)" for k g
    using keys by (rule map_of_eq_Some_iff)
  from find_first_sorted [OF byAge.sorted_sortBy find [unfolded listManifestCandidates_def]]
  obtain f where f: "(n, f) \<in> set ?q" "claimable kind now b n"
    "\<And>y. y \<in> set ?q \<Longrightarrow> claimable kind now b (fst y) \<Longrightarrow> y = (n, f) \<or> fl_mtime f - fl_mtime (snd y) \<le> 0"
    by fastforce
  then have at: "fileAt Queue n b = Some f" by (simp add: fileAt_def dirOf_def get)
  from f(2) obtain m where m: "readManifest Queue n b = Some m" "eligible kind now m"
    by (auto simp: claimable_def split: option.splits)
  have oldest: "fl_mtime f \<le> fl_mtime f'"
    if "fileAt Queue n' b = Some f'" "fl_content f' = ManifestFile m'" "eligible kind now m'" for n' f' m'
  proof -
    have rd: "readManifest Queue n' b = Some m'" using that by (simp add: readManifest_Some)
    then have "n' \<in> set (listManifestCandidates (bd_queue b))" by (rule queue_file_listed [OF ok])
    then have "endsWith n' MANIFEST_SUFFIX" by (simp add: candidates_mem)
    moreover have "(n', f') \<in> set (bd_queue b)" using that(1) by (simp add: fileAt_def dirOf_def get)
    ultimately have "(n', f') \<in> set ?q" by simp
    moreover have "claimable kind now b n'" using rd that(3) by (simp add: claimable_def)
    ultimately show ?thesis using f(3) [of "(n', f')"] by auto
  qed
  have "fl_content f = ManifestFile m" using m(1) at by (auto simp: readManifest_Some)
  with that [OF at _ m(2) _ m(1) oldest] readManifest_name [OF ok _ m(1)] show thesis by simp
qed

lemma find_none_claimable:
  assumes "boardOk b" "find (claimable kind now b) (listManifestCandidates (bd_queue b)) = None"
    "readManifest Queue n b = Some m"
  shows "\<not> eligible kind now m"
  using assms queue_file_listed [OF assms(1,3)] by (auto simp: find_None_iff claimable_def)

section \<open>A claim in single steps\<close>

text \<open>Listing the queue, reading a candidate and renaming it are three separate accesses; between
  them the other workers act. \<open>Renaming\<close> holds the manifest read from a candidate.\<close>

datatype claimer =
  Listing
| Trying "string list"
| Renaming manifest string "string list"
| Won manifest string
| Lost

definition claimerStep :: "worker_kind \<Rightarrow> int \<Rightarrow> claimer \<Rightarrow> board \<Rightarrow> claimer \<times> board" where
  "claimerStep kind now c b = (case c of
     Listing \<Rightarrow> (Trying (listManifestCandidates (bd_queue b)), b)
   | Trying ns \<Rightarrow> (case ns of
       [] \<Rightarrow> (Lost, b)
     | n # ns \<Rightarrow> (case readManifest Queue n b of
         None \<Rightarrow> (Trying ns, b)
       | Some m \<Rightarrow> (if eligible kind now m then Renaming m n ns else Trying ns, b)))
   | Renaming m n ns \<Rightarrow> (case renameFile Queue n Inflight (manifestName (mf_taskId m)) b of
       None \<Rightarrow> (Trying ns, b)
     | Some b' \<Rightarrow> (Won m n, b'))
   | Won m n \<Rightarrow> (Won m n, b)
   | Lost \<Rightarrow> (Lost, b))"

definition claimResult :: "claimer \<Rightarrow> manifest option" where
  "claimResult c = (case c of Won m n \<Rightarrow> Some m | _ \<Rightarrow> None)"

fun runClaimer :: "nat \<Rightarrow> worker_kind \<Rightarrow> int \<Rightarrow> claimer \<Rightarrow> board \<Rightarrow> claimer \<times> board" where
  "runClaimer 0 kind now c b = (c, b)"
| "runClaimer (Suc k) kind now c b = (case claimerStep kind now c b of (c', b') \<Rightarrow> runClaimer k kind now c' b')"

lemma runClaimer_done: "c = Lost \<or> (\<exists>m n. c = Won m n) \<Longrightarrow> runClaimer k kind now c b = (c, b)"
  by (induction k) (auto simp: claimerStep_def)

lemma runClaimer_trying:
  "2 * length ns + 1 \<le> k \<Longrightarrow> (case runClaimer k kind now (Trying ns) b of
     (c, b') \<Rightarrow> (c = Lost \<or> (\<exists>m n. c = Won m n)) \<and> claimLoop kind now ns b = (claimResult c, b'))"
proof (induction ns arbitrary: k)
  case Nil
  then show ?case
    by (cases k) (auto simp: claimerStep_def claimResult_def runClaimer_done)
next
  case (Cons n ns)
  from Cons.prems obtain k2 where k: "k = Suc (Suc k2)" "2 * length ns + 1 \<le> k2" by (cases k rule: nat.exhaust; force dest: Suc_le_D)
  note IH = Cons.IH [OF k(2)] Cons.IH [of "Suc k2"]
  show ?case
  proof (cases "readManifest Queue n b")
    case None
    with IH k show ?thesis by (simp add: claimerStep_def)
  next
    case (Some m)
    with IH k show ?thesis
      by (cases "eligible kind now m"; cases "renameFile Queue n Inflight (manifestName (mf_taskId m)) b")
        (auto simp: claimerStep_def eligible_def runClaimer_done claimResult_def)
  qed
qed

lemma runClaimer_claimNext:
  assumes "2 * length (listManifestCandidates (bd_queue b)) + 2 \<le> k"
  shows "map_prod claimResult id (runClaimer k kind now Listing b) = claimNext kind now b"
proof -
  from assms obtain k1 where k: "k = Suc k1" "2 * length (listManifestCandidates (bd_queue b)) + 1 \<le> k1" by (cases k) auto
  with runClaimer_trying [OF k(2), of kind now b] show ?thesis
    by (auto simp: claimerStep_def claimNext_def)
qed

section \<open>The race\<close>

text \<open>Workers are numbered; a step is one file operation of one of them. The conductor and the
  sweeper rest.\<close>

inductive race_step :: "(nat \<Rightarrow> worker_kind \<times> int) \<Rightarrow> (nat \<Rightarrow> claimer) \<times> board \<Rightarrow> (nat \<Rightarrow> claimer) \<times> board \<Rightarrow> bool"
  for who where
  race: "claimerStep (fst (who i)) (snd (who i)) (cs i) b = (c', b') \<Longrightarrow> race_step who (cs, b) (cs(i := c'), b')"

inductive race :: "(nat \<Rightarrow> worker_kind \<times> int) \<Rightarrow> board \<Rightarrow> (nat \<Rightarrow> claimer) \<times> board \<Rightarrow> bool" for who b0 where
  race_start: "race who b0 ((\<lambda>_. Listing), b0)"
| race_more: "race who b0 s \<Longrightarrow> race_step who s s' \<Longrightarrow> race who b0 s'"

inductive_cases race_stepE: "race_step who (cs, b) s'"

definition raceOk :: "board \<Rightarrow> (nat \<Rightarrow> claimer) \<times> board \<Rightarrow> bool" where
  "raceOk b0 s \<longleftrightarrow> (case s of (cs, b) \<Rightarrow> boardOk b \<and>
     (\<forall>i m n ns. cs i = Renaming m n ns \<longrightarrow> n = manifestName (mf_taskId m)) \<and>
     (\<forall>i m n. cs i = Won m n \<longrightarrow> n = manifestName (mf_taskId m) \<and> fileAt Queue n b = None \<and> fileAt Inflight n b \<noteq> None) \<and>
     (\<forall>i j m n m' n'. cs i = Won m n \<longrightarrow> cs j = Won m' n' \<longrightarrow> i \<noteq> j \<longrightarrow> n \<noteq> n') \<and>
     (\<forall>n f. (fileAt Queue n b = Some f \<or> fileAt Inflight n b = Some f) \<longleftrightarrow>
            (fileAt Queue n b0 = Some f \<or> fileAt Inflight n b0 = Some f)))"

lemma raceOk_rename:
  assumes "raceOk b0 (cs, b)" "cs i = Renaming m n ns" "renameFile Queue n Inflight (manifestName (mf_taskId m)) b = Some b'"
  shows "raceOk b0 (cs(i := Won m n), b')"
proof -
  from assms(1) have ok: "boardOk b" and nm: "n = manifestName (mf_taskId m)"
    using assms(2) by (auto simp: raceOk_def)
  from assms(3) nm obtain f where f: "fileAt Queue n b = Some f" and b': "b' = placeFile Inflight n f (removeFile Queue n b)"
    by (auto simp: renameFile_def split: option.splits)
  have "\<not> (existsFile Queue n b \<and> existsFile Inflight n b)"
    using ok unfolding nm by (simp add: boardOk_def singleOk_def)
  with f have free: "fileAt Inflight n b = None" by (simp add: existsFile_def)
  have at: "fileAt Queue k b' = (if k = n then None else fileAt Queue k b)"
    "fileAt Inflight k b' = (if k = n then Some f else fileAt Inflight k b)" for k
    by (auto simp: b' file_simps)
  have "boardOk b'" using move_ok [OF ok f, of Inflight] by (simp add: b')
  moreover have "cs j = Won m' n' \<Longrightarrow> n' \<noteq> n" for j m' n'
    using assms(1) f by (auto simp: raceOk_def)
  moreover have "(fileAt Queue k b' = Some g \<or> fileAt Inflight k b' = Some g) \<longleftrightarrow>
      (fileAt Queue k b = Some g \<or> fileAt Inflight k b = Some g)" for k g
    using f free by (auto simp: at)
  ultimately show ?thesis
    using assms(1) nm unfolding raceOk_def by (auto simp: at)
qed

lemma raceOk_idle:
  assumes "raceOk b0 (cs, b)" "\<And>m n. c' = Won m n \<Longrightarrow> cs i = c'"
    "\<And>m n ns. c' = Renaming m n ns \<Longrightarrow> n = manifestName (mf_taskId m)"
  shows "raceOk b0 (cs(i := c'), b)"
proof (cases "cs i = c'")
  case True
  then have "cs(i := c') = cs" by auto
  with assms(1) show ?thesis by simp
next
  case False
  with assms(2) have "c' \<noteq> Won m n" for m n by blast
  with assms(1,3) show ?thesis unfolding raceOk_def by auto
qed

lemma raceOk_step:
  assumes "race_step who (cs, b) s'" "raceOk b0 (cs, b)"
  shows "raceOk b0 s'"
proof -
  from assms(1) obtain i c' b' where step: "claimerStep (fst (who i)) (snd (who i)) (cs i) b = (c', b')"
    and s': "s' = (cs(i := c'), b')" by (auto elim: race_stepE)
  have ok: "boardOk b" using assms(2) by (simp add: raceOk_def)
  have "raceOk b0 (cs(i := c'), b')"
  proof (cases "\<exists>m n ns. cs i = Renaming m n ns")
    case True
    then obtain m n ns where ren: "cs i = Renaming m n ns" by blast
    then show ?thesis
      using step raceOk_rename [OF assms(2) ren] raceOk_idle [OF assms(2), of "Trying ns" i]
      by (auto simp: claimerStep_def split: option.splits)
  next
    case False
    then have "b' = b \<and> (\<forall>m n. c' = Won m n \<longrightarrow> cs i = c') \<and>
        (\<forall>m n ns. c' = Renaming m n ns \<longrightarrow> readManifest Queue n b = Some m)"
      using step by (auto simp: claimerStep_def split: claimer.splits list.splits option.splits if_splits)
    then show ?thesis
      using readManifest_name [OF ok, of Queue] by (auto intro!: raceOk_idle [OF assms(2)])
  qed
  with s' show ?thesis by simp
qed

lemma race_ok: "race who b0 s \<Longrightarrow> boardOk b0 \<Longrightarrow> raceOk b0 s"
proof (induction rule: race.induct)
  case race_start
  then show ?case by (simp add: raceOk_def)
next
  case (race_more s s')
  then show ?case by (cases s) (auto intro: raceOk_step)
qed

end
