(* ===== verification/BoardProps.thy ===== *)
theory BoardProps
  imports BoardRace
begin

text \<open>
  The properties of the dispatch board: the life cycle a task follows on it, what a claim and a
  sweep do, how the race of claims ends, and the iteration budget.
\<close>

section \<open>The life cycle as the board's contract\<close>

text \<open>The abstract board knows one phase per task.\<close>

datatype phase = Absent | Queued | Claimed

definition phaseOf :: "board \<Rightarrow> string \<Rightarrow> phase" where
  "phaseOf b t = (if existsFile Queue (manifestName t) b then Queued
     else if existsFile Inflight (manifestName t) b then Claimed else Absent)"

inductive phase_step :: "phase \<Rightarrow> phase \<Rightarrow> bool" where
  phase_stays: "phase_step p p"
| phase_emitted: "phase_step Absent Queued"
| phase_claimed: "phase_step Queued Claimed"
| phase_released: "phase_step Claimed Queued"
| phase_ended: "phase_step Claimed Absent"

lemma phase_same: "existsFile Queue (manifestName t) b = existsFile Queue (manifestName t) b' \<Longrightarrow>
    existsFile Inflight (manifestName t) b = existsFile Inflight (manifestName t) b' \<Longrightarrow>
    phase_step (phaseOf b t) (phaseOf b' t)"
  by (simp add: phaseOf_def phase_stays)

lemma phase_dropped:
  assumes "existsFile Queue (manifestName t) b' = existsFile Queue (manifestName t) b"
    "existsFile Inflight (manifestName t) b' \<Longrightarrow> existsFile Inflight (manifestName t) b"
  shows "phase_step (phaseOf b t) (phaseOf b' t)"
  using assms by (auto simp: phaseOf_def intro: phase_step.intros)

text \<open>Operations that only take manifests away from \<open>inflight/\<close>.\<close>

definition onlyDrops :: "board \<Rightarrow> board \<Rightarrow> bool" where
  "onlyDrops b b' \<longleftrightarrow> (\<forall>t. existsFile Queue (manifestName t) b' = existsFile Queue (manifestName t) b \<and>
     (existsFile Inflight (manifestName t) b' \<longrightarrow> existsFile Inflight (manifestName t) b))"

lemma onlyDrops_refl [simp]: "onlyDrops b b"
  by (simp add: onlyDrops_def)

lemma onlyDrops_trans: "onlyDrops a b \<Longrightarrow> onlyDrops b c \<Longrightarrow> onlyDrops a c"
  by (auto simp: onlyDrops_def)

lemma onlyDrops_phase: "onlyDrops b b' \<Longrightarrow> phase_step (phaseOf b t) (phaseOf b' t)"
  by (rule phase_dropped) (auto simp: onlyDrops_def)

lemma onlyDrops_remove: "s \<noteq> Queue \<Longrightarrow> onlyDrops b (removeFile s n b)"
  by (auto simp: onlyDrops_def file_simps split: if_splits)

lemma onlyDrops_write_other:
  "s = Done \<or> s = Failed \<or> (s = Inflight \<and> (\<forall>t. n \<noteq> manifestName t)) \<or> (s = Inflight \<and> existsFile Inflight n b) \<Longrightarrow>
   onlyDrops b (writeFile s n c w b)"
  by (auto simp: onlyDrops_def file_simps split: if_splits)

lemma writeVerdict_drops: "onlyDrops b (writeVerdict v wall b)"
proof -
  let ?s = "if vd_outcome v = Success \<or> vd_outcome v = IterateNeeded then Done else Failed"
  let ?b1 = "writeFile ?s (vd_taskId v @ VERDICT_SUFFIX) (VerdictFile v) wall b"
  have b1: "onlyDrops b ?b1" by (rule onlyDrops_write_other) simp
  have rem: "onlyDrops b (removeFile Inflight n x)" if "onlyDrops b x" for n x
    using that onlyDrops_trans onlyDrops_remove by blast
  have "onlyDrops b (writeFile Inflight (manifestName (vd_taskId v)) c wall ?b1)"
    if "readManifest Inflight (manifestName (vd_taskId v)) ?b1 = Some m" for c m
    using that by (intro onlyDrops_trans [OF b1] onlyDrops_write_other) (auto simp: readManifest_Some existsFile_def)
  then show ?thesis
    unfolding writeVerdict_def Let_def using b1 by (auto intro!: rem split: option.splits)
qed

lemma writeDiagnostic_drops: "onlyDrops b (writeDiagnostic v wall b)"
proof -
  have "onlyDrops b (writeFile Failed (vd_taskId v @ DIAGNOSTIC_SUFFIX) (VerdictFile v) wall b)"
    by (rule onlyDrops_write_other) simp
  then show ?thesis unfolding writeDiagnostic_def Let_def
    using onlyDrops_trans onlyDrops_remove by (metis subdir.distinct(1))
qed

lemma sweepEntry_drops: "onlyDrops b (snd (sweepEntry s now e b))"
  unfolding sweepEntry_def Let_def
  by (auto intro!: onlyDrops_trans [OF _ onlyDrops_remove] writeDiagnostic_drops split: option.splits)

lemma sweepLoop_drops: "onlyDrops b (snd (sweepLoop s now es b))"
proof (induction es arbitrary: b)
  case (Cons e es)
  then show ?case
    using onlyDrops_trans [OF sweepEntry_drops [of b s now e]] by (simp add: Let_def case_prod_beta)
qed simp

lemma moved_phase:
  assumes "boardOk b" "readManifest Queue n b = Some m"
  shows "phase_step (phaseOf b t) (phaseOf (moved n b) t)"
proof -
  from assms(2) obtain f where f: "fileAt Queue n b = Some f" by (auto simp: readManifest_Some)
  have n: "n = manifestName (mf_taskId m)" using readManifest_name [OF assms(1) _ assms(2)] by simp
  show ?thesis
  proof (cases "t = mf_taskId m")
    case True
    with f n have "phaseOf b t = Queued" "phaseOf (moved n b) t = Claimed"
      by (simp_all add: phaseOf_def moved_def file_simps)
    then show ?thesis by (simp add: phase_claimed)
  next
    case False
    with f n show ?thesis by (intro phase_same) (simp_all add: moved_def file_simps)
  qed
qed

lemma claimNext_phase: "boardOk b \<Longrightarrow> phase_step (phaseOf b t) (phaseOf (snd (claimNext kind now b)) t)"
  using moved_phase
  by (auto simp: claimNext_def claimLoop_find phase_stays find_Some_iff claimable_def split: option.splits)

lemma released_phase: "boardOk b \<Longrightarrow> phase_step (phaseOf b t) (phaseOf (snd (releaseInflight k b)) t)"
proof (cases "existsFile Inflight (manifestName k) b")
  case True
  assume "boardOk b"
  then have "\<not> existsFile Queue (manifestName k) b" using True by (auto simp: boardOk_def singleOk_def)
  with True show ?thesis
    by (cases "t = k") (auto simp: releaseInflight_def Let_def renameFile_def phaseOf_def file_simps
        intro: phase_step.intros split: option.splits if_splits)
qed (simp add: releaseInflight_def phase_stays)

lemma board_step_phase: "board_step b b' \<Longrightarrow> boardOk b \<Longrightarrow> phase_step (phaseOf b t) (phaseOf b' t)"
proof (induction rule: board_step.induct)
  case (step_manifest m wall b b')
  then show ?case
    by (cases "t = mf_taskId m") (auto simp: writeManifest_def phaseOf_def file_simps intro: phase_step.intros split: if_splits)
next
  case (step_resume sg budget attempts wall b b')
  then show ?case
    by (auto simp: writeResumeSignal_def Let_def intro!: onlyDrops_phase onlyDrops_write_other split: if_splits)
next
  case (step_remove sub b taskId)
  then show ?case unfolding removeVerdict_def
    by (intro onlyDrops_phase onlyDrops_trans [OF onlyDrops_remove onlyDrops_remove]) auto
qed (simp_all add: claimNext_phase released_phase onlyDrops_phase writeVerdict_drops writeDiagnostic_drops
    sweepStaleHeartbeats_def sweepLoop_drops writeHeartbeat_def onlyDrops_write_other removeResumeSignal_def onlyDrops_remove)

section \<open>The sweep\<close>

definition stale :: "int \<Rightarrow> int \<Rightarrow> board \<Rightarrow> string \<Rightarrow> bool" where
  "stale staleMs now b t \<longleftrightarrow> (case readManifest Inflight (manifestName t) b of
     None \<Rightarrow> False
   | Some m \<Rightarrow> (case lastTick (readHeartbeat t b) m of None \<Rightarrow> False | Some tick \<Rightarrow> tick \<le> now - staleMs))"

definition artefacts :: "string \<Rightarrow> string set" where
  "artefacts t = {manifestName t, stateName t, resumeName t}"

definition hasStaleDiagnostic :: "string \<Rightarrow> board \<Rightarrow> bool" where
  "hasStaleDiagnostic t b \<longleftrightarrow> (case fileAt Failed (t @ DIAGNOSTIC_SUFFIX) b of
     None \<Rightarrow> False
   | Some f \<Rightarrow> map_option (\<lambda>v. (vd_taskId v, vd_outcome v, vd_cause v)) (readVerdict f) =
       Some (t, FailedVerdict, Some ''stale-heartbeat''))"

lemma stateName_inj [simp]: "stateName a = stateName b \<longleftrightarrow> a = b"
  by (simp add: stateName_def)

lemma resumeName_inj [simp]: "resumeName a = resumeName b \<longleftrightarrow> a = b"
  by (simp add: resumeName_def)

lemma stale_frame:
  "(\<And>n. n \<in> artefacts t \<Longrightarrow> fileAt Inflight n b' = fileAt Inflight n b) \<Longrightarrow> stale s now b' t = stale s now b t"
proof -
  assume same: "\<And>n. n \<in> artefacts t \<Longrightarrow> fileAt Inflight n b' = fileAt Inflight n b"
  have "readHeartbeat t b' = readHeartbeat t b" "readManifest Inflight (manifestName t) b' = readManifest Inflight (manifestName t) b"
    using same by (simp_all add: readManifest_def readHeartbeat_def artefacts_def)
  then show ?thesis by (simp only: stale_def)
qed

text \<open>What a sweep leaves: \<open>r\<close> reaped, starting from \<open>b\<close>.\<close>

definition sweptTo :: "string set \<Rightarrow> board \<Rightarrow> board \<Rightarrow> bool" where
  "sweptTo r b b' \<longleftrightarrow>
     (\<forall>n. fileAt Inflight n b' = (if n \<in> (\<Union>t \<in> r. artefacts t) then None else fileAt Inflight n b)) \<and>
     (\<forall>n. fileAt Queue n b' = fileAt Queue n b) \<and> (\<forall>n. fileAt Done n b' = fileAt Done n b) \<and>
     (\<forall>t \<in> r. hasStaleDiagnostic t b') \<and>
     (\<forall>n. n \<notin> (\<lambda>t. t @ DIAGNOSTIC_SUFFIX) ` r \<longrightarrow> fileAt Failed n b' = fileAt Failed n b)"

lemma sweepEntry_other: "\<not> (\<exists>t. e = manifestName t \<and> stale s now b t) \<Longrightarrow> sweepEntry s now e b = (None, b)"
  using endsWith_stem [of e]
  by (auto simp: sweepEntry_def stale_def Let_def split: option.splits)

lemma sweepEntry_stale:
  assumes "stale s now b t"
  shows "fst (sweepEntry s now (manifestName t) b) = Some t" "sweptTo {t} b (snd (sweepEntry s now (manifestName t) b))"
  using assms
  by (auto simp: sweepEntry_def stale_def Let_def sweptTo_def writeDiagnostic_def artefacts_def file_simps
      hasStaleDiagnostic_def readVerdict_def staleDiagnostic_def split: option.splits)

lemma artefacts_disjoint: "a \<noteq> b \<Longrightarrow> artefacts a \<inter> artefacts b = {}"
  by (auto simp: artefacts_def)

lemma sweptTo_trans:
  assumes "sweptTo {t} b b1" "sweptTo r b1 b2" "t \<notin> r"
  shows "sweptTo (insert t r) b b2"
proof -
  have "hasStaleDiagnostic t b2"
    using assms by (auto simp: sweptTo_def hasStaleDiagnostic_def)
  then show ?thesis using assms unfolding sweptTo_def by auto
qed

lemma sweepLoop_exact:
  assumes "distinct es"
  shows "set (fst (sweepLoop s now es b)) = {t. manifestName t \<in> set es \<and> stale s now b t}"
    and "sweptTo (set (fst (sweepLoop s now es b))) b (snd (sweepLoop s now es b))"
  using assms
proof (induction es arbitrary: b)
  case Nil
  { case 1 then show ?case by simp }
  { case 2 then show ?case by (simp add: sweptTo_def) }
next
  case (Cons e es)
  have both: "set (fst (sweepLoop s now (e # es) b)) = {t. manifestName t \<in> set (e # es) \<and> stale s now b t} \<and>
      sweptTo (set (fst (sweepLoop s now (e # es) b))) b (snd (sweepLoop s now (e # es) b))"
    if dis: "distinct (e # es)" for b
  proof (cases "\<exists>t. e = manifestName t \<and> stale s now b t")
    case True
    then obtain t where t: "e = manifestName t" "stale s now b t" by blast
    let ?b1 = "snd (sweepEntry s now e b)"
    note entry = sweepEntry_stale [OF t(2), folded t(1)]
    note IH = Cons.IH(1) [of ?b1] Cons.IH(2) [of ?b1]
    have nt: "manifestName t \<notin> set es" using dis t(1) by simp
    have same: "stale s now ?b1 u = stale s now b u" if "u \<noteq> t" for u
      using entry(2) artefacts_disjoint [OF that] by (intro stale_frame) (auto simp: sweptTo_def)
    then have "{u. manifestName u \<in> set es \<and> stale s now ?b1 u} = {u. manifestName u \<in> set es \<and> stale s now b u}"
      using nt by (intro Collect_cong) metis
    then have r: "set (fst (sweepLoop s now es ?b1)) = {u. manifestName u \<in> set es \<and> stale s now b u}"
      using IH(1) dis by simp
    have unfold: "sweepLoop s now (e # es) b = (t # fst (sweepLoop s now es ?b1), snd (sweepLoop s now es ?b1))"
      using entry(1) by (simp add: Let_def case_prod_beta)
    have "t \<notin> set (fst (sweepLoop s now es ?b1))" using r nt by simp
    with IH(2) dis have "sweptTo (insert t (set (fst (sweepLoop s now es ?b1)))) b (snd (sweepLoop s now es ?b1))"
      by (intro sweptTo_trans [OF entry(2)]) simp_all
    moreover have "insert t (set (fst (sweepLoop s now es ?b1))) = {u. manifestName u \<in> set (e # es) \<and> stale s now b u}"
      unfolding r using t by auto
    ultimately show ?thesis unfolding unfold fst_conv snd_conv list.set by blast
  next
    case False
    note same = sweepEntry_other [OF False]
    have unfold: "sweepLoop s now (e # es) b = sweepLoop s now es b"
      by (simp add: same)
    show ?thesis
      using Cons.IH [of b] dis False unfolding unfold by auto
  qed
  { case 1 then show ?case by (rule both [THEN conjunct1]) }
  { case 2 then show ?case by (rule both [THEN conjunct2]) }
qed

section \<open>Sample boards\<close>

definition sampleManifest :: manifest where
  "sampleManifest = \<lparr>mf_taskId = ''T-1'', mf_workerKind = None, mf_dispatchedAt = Some 0, mf_noClaimBefore = None,
     mf_iterationsAttempted = None, mf_iterationBudget = None, mf_rest = []\<rparr>"

definition queuedBoard :: board where
  "queuedBoard = writeFile Queue (manifestName ''T-1'') (ManifestFile sampleManifest) 0 emptyBoard"

definition claimedBoard :: board where
  "claimedBoard = snd (claimNext InSessionAgent 1 queuedBoard)"

lemma queued_reachable: "board_reachable queuedBoard"
proof -
  have "writeManifest sampleManifest 0 emptyBoard = Inr queuedBoard"
    by (simp add: writeManifest_def queuedBoard_def sampleManifest_def existsFile_def fileAt_def dirOf_def emptyBoard_def)
  then show ?thesis by (rule board_stepped [OF board_empty step_manifest])
qed

lemma claimed_reachable: "board_reachable claimedBoard"
  unfolding claimedBoard_def by (rule board_stepped [OF queued_reachable step_claim])

lemma claimed_manifest: "readManifest Inflight (manifestName ''T-1'') claimedBoard = Some sampleManifest"
  "fst (claimNext InSessionAgent 1 queuedBoard) = Some sampleManifest"
  by code_simp+

definition iterateVerdict :: verdict where
  "iterateVerdict = \<lparr>vd_taskId = ''T-1'', vd_outcome = IterateNeeded, vd_completedAt = Some 5, vd_workerId = ''w'',
     vd_workerKind = None, vd_cause = None, vd_notes = None, vd_iterationsAttempted = Some 2, vd_rest = []\<rparr>"

definition sampleSignal :: resume_signal where
  "sampleSignal = \<lparr>sg_taskId = ''T-1'', sg_feedback = [], sg_priorIteration = None, sg_rest = []\<rparr>"

definition secondManifest :: manifest where
  "secondManifest = sampleManifest\<lparr>mf_taskId := ''T-2''\<rparr>"

definition pairBoard :: board where
  "pairBoard = writeFile Queue (manifestName ''T-2'') (ManifestFile secondManifest) 3 queuedBoard"

lemma pair_reachable: "board_reachable pairBoard"
proof -
  have "\<not> existsFile Queue (manifestName ''T-2'') queuedBoard" "\<not> existsFile Inflight (manifestName ''T-2'') queuedBoard"
    by code_simp+
  then have "writeManifest secondManifest 3 queuedBoard = Inr pairBoard"
    by (simp add: writeManifest_def pairBoard_def secondManifest_def)
  then show ?thesis by (rule board_stepped [OF queued_reachable step_manifest])
qed

text \<open>A worker that makes its steps alone.\<close>

lemma race_alone:
  "race who b0 (cs, b) \<Longrightarrow> race who b0 (cs(i := fst (runClaimer k (fst (who i)) (snd (who i)) (cs i) b)),
     snd (runClaimer k (fst (who i)) (snd (who i)) (cs i) b))"
proof (induction k arbitrary: cs b)
  case (Suc k)
  obtain c' b' where st: "claimerStep (fst (who i)) (snd (who i)) (cs i) b = (c', b')" by fastforce
  have "race who b0 (cs(i := c'), b')" using Suc.prems st by (intro race_more [OF _ race]) auto
  from Suc.IH [OF this] st show ?case by (simp add: fun_upd_def cong: if_cong)
qed simp

lemma pair_race: "\<exists>cs b. race (\<lambda>_. (InSessionAgent, 1)) pairBoard (cs, b) \<and>
    cs 0 = Won sampleManifest (manifestName ''T-1'') \<and> cs 1 = Won secondManifest (manifestName ''T-2'')"
proof -
  let ?r0 = "runClaimer 3 InSessionAgent 1 Listing pairBoard"
  let ?r1 = "runClaimer 3 InSessionAgent 1 Listing (snd ?r0)"
  have "race (\<lambda>_. (InSessionAgent, 1)) pairBoard ((\<lambda>_. Listing)(0 := fst ?r0, 1 := fst ?r1), snd ?r1)"
    using race_alone [OF race_alone [OF race_start], of "\<lambda>_. (InSessionAgent, 1)" pairBoard 0 3 1 3] by simp
  moreover have "fst ?r0 = Won sampleManifest (manifestName ''T-1'')" "fst ?r1 = Won secondManifest (manifestName ''T-2'')"
    by code_simp+
  ultimately show ?thesis
    by (intro exI [of _ "(\<lambda>_. Listing)(0 := fst ?r0, 1 := fst ?r1)"] exI [of _ "snd ?r1"]) simp
qed

section \<open>Properties\<close>

text \<open>C10. On every board the operations can produce, each operation takes every task along the life cycle
  only: emitted, claimed, released or ended, and never held in the queue and in flight at once.\<close>

theorem board_refines_life_cycle:
  assumes "board_reachable b" "board_step b b'"
  shows "phase_step (phaseOf b t) (phaseOf b' t) \<and>
    \<not> (existsFile Queue (manifestName t) b' \<and> existsFile Inflight (manifestName t) b')"
  using board_step_phase [OF assms(2) board_reachable_ok [OF assms(1)]]
    board_reachable_ok [OF board_stepped [OF assms]] by (auto simp: boardOk_def singleOk_def)

theorem board_refines_life_cycle_witness: "phase_step (phaseOf queuedBoard ''T-1'') (phaseOf claimedBoard ''T-1'')"
  using board_refines_life_cycle [OF queued_reachable step_claim] by (simp add: claimedBoard_def)

text \<open>A claim takes the oldest manifest of the queue that the worker may take now and moves its file
  to \<open>inflight/\<close>, changing nothing else; when it takes none, none is eligible and the board is as before.\<close>

theorem claim_oldest_eligible:
  assumes "board_reachable b" "claimNext kind now b = (r, b')"
  shows "case r of
      None \<Rightarrow> b' = b \<and> (\<forall>n m. readManifest Queue n b = Some m \<longrightarrow> \<not> eligible kind now m)
    | Some m \<Rightarrow> eligible kind now m \<and> (\<exists>f. fileAt Queue (manifestName (mf_taskId m)) b = Some f \<and>
        fl_content f = ManifestFile m \<and>
        (\<forall>n f' m'. fileAt Queue n b = Some f' \<longrightarrow> fl_content f' = ManifestFile m' \<longrightarrow> eligible kind now m' \<longrightarrow>
           fl_mtime f \<le> fl_mtime f') \<and>
        (\<forall>s n. fileAt s n b' = (if n = manifestName (mf_taskId m) \<and> s = Queue then None
           else if n = manifestName (mf_taskId m) \<and> s = Inflight then Some f else fileAt s n b)))"
proof -
  note ok = board_reachable_ok [OF assms(1)]
  show ?thesis
  proof (cases "find (claimable kind now b) (listManifestCandidates (bd_queue b))")
    case None
    with assms(2) show ?thesis
      using find_none_claimable [OF ok None] by (auto simp: claimNext_def claimLoop_find [OF ok])
  next
    case (Some n)
    from claim_oldest_lemma [OF ok Some] obtain f m where fm: "fileAt Queue n b = Some f" "fl_content f = ManifestFile m"
      "eligible kind now m" "n = manifestName (mf_taskId m)" "readManifest Queue n b = Some m"
      "\<And>n' f' m'. fileAt Queue n' b = Some f' \<Longrightarrow> fl_content f' = ManifestFile m' \<Longrightarrow> eligible kind now m' \<Longrightarrow>
         fl_mtime f \<le> fl_mtime f'" by blast
    from assms(2) Some have r: "r = Some m" "b' = moved n b"
      using fm(5) by (auto simp: claimNext_def claimLoop_find [OF ok])
    have "fileAt s k b' = (if k = n \<and> s = Queue then None else if k = n \<and> s = Inflight then Some f else fileAt s k b)" for s k
      using fm(1) by (auto simp: r moved_def file_simps)
    with fm r show ?thesis by auto
  qed
qed

theorem claim_oldest_eligible_witness: "eligible InSessionAgent 1 sampleManifest"
  using claim_oldest_eligible [OF queued_reachable, of InSessionAgent 1 "Some sampleManifest" claimedBoard] claimed_manifest(2)
  by (auto simp: claimedBoard_def prod_eq_iff)

text \<open>C11. However the file operations of any number of claiming workers interleave, no two of them end up
  with the same task, and every file of the queue is still on the board, in the queue or in flight.\<close>

theorem claims_exclusive:
  assumes "board_reachable b0" "race who b0 (cs, b)"
    "cs i = Won m n" "cs j = Won m' n'" "i \<noteq> j"
  shows "mf_taskId m \<noteq> mf_taskId m' \<and> (\<forall>k f. (fileAt Queue k b = Some f \<or> fileAt Inflight k b = Some f) =
    (fileAt Queue k b0 = Some f \<or> fileAt Inflight k b0 = Some f))"
proof -
  have ok: "raceOk b0 (cs, b)" using race_ok [OF assms(2)] board_reachable_ok [OF assms(1)] by blast
  then have "n \<noteq> n'" "n = manifestName (mf_taskId m)" "n' = manifestName (mf_taskId m')"
    using assms(3-5) by (simp_all add: raceOk_def)
  with ok show ?thesis by (auto simp: raceOk_def)
qed

theorem claims_exclusive_witness:
  "mf_taskId sampleManifest \<noteq> mf_taskId secondManifest"
proof -
  obtain cs b where run: "race (\<lambda>_. (InSessionAgent, 1)) pairBoard (cs, b)"
    and won: "cs 0 = Won sampleManifest (manifestName ''T-1'')" "cs 1 = Won secondManifest (manifestName ''T-2'')"
    using pair_race by blast
  from claims_exclusive [OF pair_reachable run won] show ?thesis by simp
qed

text \<open>Run undisturbed, the claim in single file operations ends after at most two steps per candidate
  and two more, with the result and the board of the whole claim.\<close>

theorem claim_steps_terminate:
  "(case runClaimer (2 * length (listManifestCandidates (bd_queue b)) + 2) kind now Listing b of
      (c, b') \<Rightarrow> (claimResult c, b')) = claimNext kind now b"
  using runClaimer_claimNext [of b _ kind now, OF order_refl] by (auto simp: case_prod_beta map_prod_def split: prod.splits)

text \<open>A sweep reaps exactly the claims whose last sign of life is older than the threshold: their
  manifest, heartbeat and resume signal leave \<open>inflight/\<close>, each gets a stale-heartbeat diagnostic in
  \<open>failed/\<close>, and every other file stays as it was.\<close>

theorem sweep_exact:
  assumes "board_reachable b"
  shows "set (fst (sweepStaleHeartbeats (Some staleMs) now b)) = {t. stale staleMs now b t} \<and>
    sweptTo {t. stale staleMs now b t} b (snd (sweepStaleHeartbeats (Some staleMs) now b))"
proof -
  have "boardOk b" using assms by (rule board_reachable_ok)
  then have "distinct (mapKeys (bd_inflight b))"
    by (auto simp: boardOk_def keysOk_def dirOf_def dest: spec [of _ Inflight])
  note exact = sweepLoop_exact [OF this, of staleMs now b]
  have "stale staleMs now b t \<Longrightarrow> manifestName t \<in> set (mapKeys (bd_inflight b))" for t
    by (auto simp: stale_def readManifest_def fileAt_def dirOf_def dest!: map_of_SomeD intro: rev_image_eqI split: option.splits)
  then have "{t. manifestName t \<in> set (mapKeys (bd_inflight b)) \<and> stale staleMs now b t} = {t. stale staleMs now b t}"
    by blast
  with exact show ?thesis by (simp only: sweepStaleHeartbeats_def orElse_simps)
qed

theorem sweep_exact_witness: "''T-1'' \<in> set (fst (sweepStaleHeartbeats (Some 10) 100 claimedBoard))"
proof -
  have "stale 10 100 claimedBoard ''T-1''" by code_simp
  with sweep_exact [OF claimed_reachable, of 10 100] show ?thesis by simp
qed

text \<open>The iteration budget holds: once an iterate-needed verdict has recorded as many attempts as the
  manifest's budget, the probe reports it exhausted and no resume signal can be written.\<close>

theorem iteration_budget_enforced:
  assumes "board_reachable b" "readManifest Inflight (manifestName (vd_taskId v)) b = Some m"
    and "vd_outcome v = IterateNeeded" "vd_iterationsAttempted v = Some n"
    and "iterationBudgetOf (Some m) \<le> n" "sg_taskId sg = vd_taskId v"
  shows "ip_exhausted (probeIterationBudget (vd_taskId v) (writeVerdict v wall b)) \<and>
    writeResumeSignal sg None None wall' (writeVerdict v wall b) \<in> range Inl"
proof -
  let ?n = "manifestName (vd_taskId v)"
  from assms(2) have rd: "readManifest Inflight ?n (writeFile Done (vd_taskId v @ VERDICT_SUFFIX) (VerdictFile v) wall b) = Some m"
    by (auto simp: readManifest_Some file_simps)
  have "fileAt Inflight ?n (writeVerdict v wall b) =
      Some \<lparr>fl_content = ManifestFile (m\<lparr>mf_iterationsAttempted := Some n\<rparr>), fl_mtime = wall\<rparr>"
    using assms(3,4) rd by (simp add: writeVerdict_def Let_def file_simps)
  then have m': "readManifest Inflight ?n (writeVerdict v wall b) = Some (m\<lparr>mf_iterationsAttempted := Some n\<rparr>)"
    "existsFile Inflight ?n (writeVerdict v wall b)"
    by (auto simp: readManifest_Some existsFile_def)
  then show ?thesis
    using assms(5,6) by (auto simp: probeIterationBudget_def writeResumeSignal_def iterationAttemptsOf_def
        iterationBudgetOf_def Let_def)
qed

theorem iteration_budget_enforced_witness:
  "writeResumeSignal sampleSignal None None 6 (writeVerdict iterateVerdict 5 claimedBoard) \<in> range Inl"
  using iteration_budget_enforced [OF claimed_reachable, of iterateVerdict sampleManifest 2 sampleSignal 5 6] claimed_manifest(1)
  by (simp add: iterateVerdict_def sampleSignal_def sampleManifest_def iterationBudgetOf_def DEFAULT_ITERATION_BUDGET_def)

section \<open>Gaps\<close>

text \<open>A manifest that waited in the queue longer than the threshold is reaped right after it is claimed,
  since without a heartbeat its age counts from the dispatch.\<close>

lemma fresh_claim_reaped:
  "fst (claimNext InSessionAgent 100 queuedBoard) = Some sampleManifest"
  "fst (sweepStaleHeartbeats (Some 10) 100 (snd (claimNext InSessionAgent 100 queuedBoard))) = [''T-1'']"
  by code_simp+

text \<open>A heartbeat written after the sweep outlives the claim; the next claim of the task inherits it and is
  reaped at once, though it was dispatched just now.\<close>

definition lateHeartbeat :: heartbeat where
  "lateHeartbeat = \<lparr>hb_taskId = ''T-1'', hb_workerId = ''old'', hb_workerKind = None, hb_lastHeartbeat = Some 50, hb_rest = []\<rparr>"

lemma orphan_heartbeat_reaps_next_claim:
  "let b1 = snd (sweepStaleHeartbeats (Some 10) 100 claimedBoard);
       b2 = writeHeartbeat lateHeartbeat 101 b1;
       b3 = (case writeManifest (sampleManifest\<lparr>mf_dispatchedAt := Some 200\<rparr>) 200 b2 of Inl e \<Rightarrow> b2 | Inr b \<Rightarrow> b)
   in fst (sweepStaleHeartbeats (Some 10) 201 (snd (claimNext InSessionAgent 201 b3))) = [''T-1'']"
  by code_simp

end
