(* ===== verification/Merkle.thy ===== *)
theory Merkle
  imports Json
begin

text \<open>
  \<open>pipeline-cli/src/attestation/merkle.ts\<close>: the leaf hash, the layers of the tree, inclusion
  proofs and their check, and the leaf files. A leaf is the JSON value the loader hands on, since
  nothing validates it; a record of the declared shape is turned into one by \<open>leafJson\<close>.
  SHA-256 (hexadecimal, of a byte string) is the parameter \<open>sha\<close>. \<open>None\<close> is a thrown
  \<open>TypeError\<close>. Numbers are integers.
\<close>

section \<open>Hashes\<close>

fun unhex :: "string \<Rightarrow> string" where
  "unhex (a # b # s) = (case (hexVal a, hexVal b) of
     (Some i, Some j) \<Rightarrow> char_of (16 * i + j) # unhex s
   | _ \<Rightarrow> [])"
| "unhex s = []"

definition sha256 :: "(string \<Rightarrow> string) \<Rightarrow> string \<Rightarrow> string" where
  "sha256 sha text = sha text"

definition LEAF_DOMAIN :: string where "LEAF_DOMAIN = [CHR 0x00]"
definition NODE_DOMAIN :: string where "NODE_DOMAIN = [CHR 0x01]"

definition hashLeafData :: "(string \<Rightarrow> string) \<Rightarrow> string \<Rightarrow> string" where
  "hashLeafData sha canonicalJson = sha (LEAF_DOMAIN @ canonicalJson)"

definition hashPair :: "(string \<Rightarrow> string) \<Rightarrow> string \<Rightarrow> string \<Rightarrow> string" where
  "hashPair sha l r = sha (NODE_DOMAIN @ unhex l @ unhex r)"

definition generateNonce :: "(string \<Rightarrow> string) \<Rightarrow> string \<Rightarrow> string \<Rightarrow> string" where
  "generateNonce sha random headSha = sha (headSha @ random)"

section \<open>Leaves\<close>

record leaf_findings =
  lf_critical :: int
  lf_major :: int
  lf_minor :: int
  lf_suggestion :: int

record transcript_leaf =
  tl_leafIndex :: int
  tl_taskId :: string
  tl_reviewerName :: string
  tl_transcriptHash :: string
  tl_nonce :: string
  tl_harness :: string
  tl_model :: string
  tl_verdictApproved :: bool
  tl_findings :: leaf_findings
  tl_signedAt :: string

definition leafJson :: "transcript_leaf \<Rightarrow> json" where
  "leafJson l = JObj
    [(''leafIndex'', JNum (tl_leafIndex l)), (''taskId'', JStr (tl_taskId l)),
     (''reviewerName'', JStr (tl_reviewerName l)), (''transcriptHash'', JStr (tl_transcriptHash l)),
     (''nonce'', JStr (tl_nonce l)), (''harness'', JStr (tl_harness l)), (''model'', JStr (tl_model l)),
     (''verdictApproved'', JBool (tl_verdictApproved l)),
     (''findings'', JObj
       [(''critical'', JNum (lf_critical (tl_findings l))), (''major'', JNum (lf_major (tl_findings l))),
        (''minor'', JNum (lf_minor (tl_findings l))),
        (''suggestion'', JNum (lf_suggestion (tl_findings l)))]),
     (''signedAt'', JStr (tl_signedAt l))]"

text \<open>
  The object literals of \<open>hashLeaf\<close>: the named fields in the given order. \<open>JSON.stringify\<close>
  drops a field that is \<open>undefined\<close>; reading a field of \<open>null\<close> or of \<open>undefined\<close> throws.
\<close>

fun readable :: "json option \<Rightarrow> bool" where
  "readable None = False" | "readable (Some JNull) = False" | "readable (Some j) = True"

definition pickFields :: "string list \<Rightarrow> json \<Rightarrow> (string \<times> json) list" where
  "pickFields ks j = List.map_filter (\<lambda>k. map_option (Pair k) (jsonField j k)) ks"

definition orderedLeaf :: "json \<Rightarrow> json option" where
  "orderedLeaf leaf =
    (if \<not> readable (Some leaf) \<or> \<not> readable (jsonField leaf ''findings'') then None
     else Some (JObj
       (pickFields [''leafIndex'', ''taskId'', ''reviewerName'', ''transcriptHash'', ''nonce'', ''harness'',
          ''model'', ''verdictApproved''] leaf @
        [(''findings'', JObj (pickFields [''critical'', ''major'', ''minor'', ''suggestion'']
            (the (jsonField leaf ''findings''))))] @
        pickFields [''signedAt''] leaf)))"

definition canonicalLeaf :: "json \<Rightarrow> string option" where
  "canonicalLeaf leaf = map_option stringify (orderedLeaf leaf)"

definition hashLeaf :: "(string \<Rightarrow> string) \<Rightarrow> json \<Rightarrow> string option" where
  "hashLeaf sha leaf = map_option (hashLeafData sha) (canonicalLeaf leaf)"

section \<open>The tree\<close>

text \<open>One pass of the layer loop: a node without a right neighbour is paired with itself.\<close>

fun pairUp :: "(string \<Rightarrow> string) \<Rightarrow> string list \<Rightarrow> string list" where
  "pairUp sha [] = []"
| "pairUp sha [x] = [hashPair sha x x]"
| "pairUp sha (x # y # zs) = hashPair sha x y # pairUp sha zs"

lemma length_pairUp: "length (pairUp sha xs) = (length xs + 1) div 2"
  by (induction sha xs rule: pairUp.induct) auto

function treeLayers :: "(string \<Rightarrow> string) \<Rightarrow> string list \<Rightarrow> string list list" where
  "treeLayers sha current =
    (if 1 < length current then current # treeLayers sha (pairUp sha current) else [current])"
  by pat_completeness auto
termination by (relation "measure (\<lambda>(sha, current). length current)") (auto simp: length_pairUp)

declare treeLayers.simps [simp del]

definition siblingIdx :: "string list \<Rightarrow> nat \<Rightarrow> nat" where
  "siblingIdx layer idx =
    (if idx mod 2 = 0 then (if idx + 1 < length layer then idx + 1 else idx) else idx - 1)"

text \<open>The siblings along the way up; the last layer, the root, is not visited.\<close>

fun proofPath :: "string list list \<Rightarrow> nat \<Rightarrow> string list" where
  "proofPath (layer # layer' # layers) idx =
     layer ! siblingIdx layer idx # proofPath (layer' # layers) (idx div 2)"
| "proofPath layers idx = []"

record merkle_result =
  mr_root :: string
  mr_proofs :: "(nat, string list) jsmap"

definition computeMerkleRoot :: "(string \<Rightarrow> string) \<Rightarrow> json list \<Rightarrow> merkle_result option" where
  "computeMerkleRoot sha leaves =
    (if leaves = [] then Some \<lparr>mr_root = [], mr_proofs = []\<rparr>
     else case those (map (hashLeaf sha) leaves) of
       None \<Rightarrow> None
     | Some leafHashes \<Rightarrow>
         if length leafHashes = 1 then Some \<lparr>mr_root = hd leafHashes, mr_proofs = [(0, [])]\<rparr>
         else let layers = treeLayers sha leafHashes in
           Some \<lparr>mr_root = hd (last layers),
                 mr_proofs = map (\<lambda>leafIdx. (leafIdx, proofPath layers leafIdx)) [0..<length leaves]\<rparr>)"

section \<open>Inclusion\<close>

fun climb :: "(string \<Rightarrow> string) \<Rightarrow> string \<Rightarrow> nat \<Rightarrow> string list \<Rightarrow> string" where
  "climb sha current idx [] = current"
| "climb sha current idx (sibling # proof) =
     climb sha (if idx mod 2 = 0 then hashPair sha current sibling else hashPair sha sibling current)
       (idx div 2) proof"

text \<open>A number is \<open>Some i\<close> when \<open>Number.isInteger\<close> holds of it, and \<open>None\<close> for a
  fraction, NaN or an infinity.\<close>

definition verifyInclusion ::
    "(string \<Rightarrow> string) \<Rightarrow> string \<Rightarrow> string list \<Rightarrow> string \<Rightarrow> int option \<Rightarrow> int option \<Rightarrow> bool" where
  "verifyInclusion sha leafHash proof root leafIndex leafCount =
    (if root = [] \<or> leafHash = [] then False
     else case leafCount of None \<Rightarrow> False | Some n \<Rightarrow>
       if n \<le> 0 then False
       else case leafIndex of None \<Rightarrow> False | Some i \<Rightarrow>
         if i < 0 \<or> n \<le> i then False else climb sha leafHash (nat i) proof = root)"

section \<open>Leaf files\<close>

type_synonym leaf_files = "string \<Rightarrow> string option"

definition LEAVES_FILE_RELATIVE :: string where
  "LEAVES_FILE_RELATIVE = ''.ai-sdlc/transcript-leaves.jsonl''"

definition LEAVES_DIR_RELATIVE :: string where
  "LEAVES_DIR_RELATIVE = ''.ai-sdlc/transcript-leaves''"

definition leavesFilePath :: "string \<Rightarrow> string" where
  "leavesFilePath repoRoot = repoRoot @ ''/'' @ LEAVES_FILE_RELATIVE"

text \<open>The guard is the regular expression of the source, case-insensitive.\<close>

definition patchIdOk :: "string \<Rightarrow> bool" where
  "patchIdOk patchId \<longleftrightarrow> length patchId = 40 \<and> list_all (\<lambda>c. hexVal c \<noteq> None) patchId"

definition leavesFilePathForPatchId :: "string \<Rightarrow> string \<Rightarrow> string option" where
  "leavesFilePathForPatchId patchId repoRoot =
    (if \<not> patchIdOk patchId then None
     else Some (repoRoot @ ''/'' @ LEAVES_DIR_RELATIVE @ ''/'' @ toLowerCase patchId @ ''.jsonl''))"

text \<open>The warnings written to standard error: the line, and for a mismatch the index the leaf
  states and its position.\<close>

datatype leaf_warning = MalformedLine nat | IndexMismatch nat "json option" nat

fun loadLines :: "nat \<Rightarrow> string list \<Rightarrow> json list \<Rightarrow> leaf_warning list \<Rightarrow> (json list \<times> leaf_warning list) option" where
  "loadLines lineNo [] leaves warnings = Some (leaves, warnings)"
| "loadLines lineNo (line # ls) leaves warnings =
    (let trimmed = trim line; lineNo' = lineNo + 1
     in if trimmed = [] then loadLines lineNo' ls leaves warnings
        else case parseJson trimmed of
          None \<Rightarrow> loadLines lineNo' ls leaves (warnings @ [MalformedLine lineNo'])
        | Some leaf \<Rightarrow>
            if leaf = JNull then None
            else let arrayPosition = length leaves;
                     warnings' = (if jsonField leaf ''leafIndex'' \<noteq> Some (JNum (int arrayPosition))
                       then warnings @ [IndexMismatch lineNo' (jsonField leaf ''leafIndex'') arrayPosition]
                       else warnings)
              in loadLines lineNo' ls (leaves @ [leaf]) warnings')"

definition loadLeavesFromFile :: "string \<Rightarrow> leaf_files \<Rightarrow> (json list \<times> leaf_warning list) option" where
  "loadLeavesFromFile filePath fs = (case fs filePath of
     None \<Rightarrow> Some ([], [])
   | Some content \<Rightarrow> loadLines 0 (splitOn (CHR 10) content) [] [])"

definition loadLeaves :: "string \<Rightarrow> leaf_files \<Rightarrow> (json list \<times> leaf_warning list) option" where
  "loadLeaves repoRoot fs = loadLeavesFromFile (leavesFilePath repoRoot) fs"

definition loadLeavesForPatchId ::
    "string \<Rightarrow> string \<Rightarrow> leaf_files \<Rightarrow> (json list \<times> leaf_warning list) option" where
  "loadLeavesForPatchId patchId repoRoot fs =
    Option.bind (leavesFilePathForPatchId patchId repoRoot) (\<lambda>p. loadLeavesFromFile p fs)"

definition appendLeafToFile :: "json \<Rightarrow> string \<Rightarrow> leaf_files \<Rightarrow> leaf_files" where
  "appendLeafToFile leaf filePath fs =
    (let existing = (case fs filePath of Some c \<Rightarrow> c | None \<Rightarrow> []);
         newLine = stringify leaf @ newline;
         newContent = (if existing = [] \<or> endsWith existing newline then existing @ newLine
           else existing @ newline @ newLine);
         tmpPath = filePath @ ''.tmp'';
         written = fs(tmpPath \<mapsto> newContent)
     in written(filePath := written tmpPath, tmpPath := None))"

definition appendLeaf :: "json \<Rightarrow> string \<Rightarrow> leaf_files \<Rightarrow> leaf_files" where
  "appendLeaf leaf repoRoot fs = appendLeafToFile leaf (leavesFilePath repoRoot) fs"

definition appendLeafForPatchId :: "json \<Rightarrow> string \<Rightarrow> string \<Rightarrow> leaf_files \<Rightarrow> leaf_files option" where
  "appendLeafForPatchId leaf patchId repoRoot fs =
    map_option (\<lambda>p. appendLeafToFile leaf p fs) (leavesFilePathForPatchId patchId repoRoot)"

end
