(* ===== verification/MerkleCorrect.thy ===== *)
theory MerkleCorrect
  imports Merkle JsonCorrect
begin

text \<open>
  The lemmas on the leaf tree. Completeness follows the layers up. Soundness reads the layers as a
  binary tree of the hashed texts (\<open>mtree\<close>): a climb that ends in the root walks down that
  tree, because equal hashes come from equal inputs among those actually hashed
  (\<open>inj_on sha\<close> on that finite set) and the domain byte keeps leaves and nodes apart.
\<close>

section \<open>Hexadecimal digests\<close>

definition hexText :: "string \<Rightarrow> bool" where
  "hexText s \<longleftrightarrow> length s = 64 \<and> list_all (\<lambda>c. c \<in> set ''0123456789abcdef'') s"

text \<open>What the code relies on of \<open>digest('hex')\<close>.\<close>

definition digestOk :: "(string \<Rightarrow> string) \<Rightarrow> bool" where
  "digestOk sha \<longleftrightarrow> (\<forall>s. hexText (sha s))"

lemma hexVal_lower:
  assumes "c \<in> set ''0123456789abcdef''"
  obtains k where "hexVal c = Some k" "k < 16" "hexDigit k = c"
proof -
  have "\<forall>c \<in> set ''0123456789abcdef''. case hexVal c of None \<Rightarrow> False | Some k \<Rightarrow> k < 16 \<and> hexDigit k = c"
    by code_simp
  then show ?thesis using assms that by (auto split: option.splits)
qed

lemma char_of_byte:
  assumes "i < 16" "j < 16" "i' < 16" "j' < 16" "(char_of (16 * i + j :: nat) :: char) = char_of (16 * i' + j')"
  shows "i = i' \<and> j = j'"
proof -
  have "(of_char (char_of (16 * i + j :: nat) :: char) :: nat) = of_char (char_of (16 * i' + j' :: nat) :: char)"
    using assms(5) by simp
  then have *: "16 * i + j = 16 * i' + j'" using assms(1-4) by simp
  have "(16 * i + j) div 16 = i \<and> (16 * i + j) mod 16 = j" if "j < 16" for i j :: nat using that by simp
  from this [OF assms(2), of i] this [OF assms(4), of i'] show ?thesis unfolding * by simp
qed

lemma unhex_inj:
  assumes "list_all (\<lambda>c. c \<in> set ''0123456789abcdef'') s" "list_all (\<lambda>c. c \<in> set ''0123456789abcdef'') t"
    "length s = length t" "even (length s)" "unhex s = unhex t"
  shows "s = t"
  using assms
proof (induction s arbitrary: t rule: unhex.induct)
  case (1 a b s)
  then obtain c d t' where t: "t = c # d # t'" by (cases t rule: unhex.cases) auto
  obtain i where i: "hexVal a = Some i" "i < 16" "hexDigit i = a" using 1(2) hexVal_lower [of a] by auto
  obtain j where j: "hexVal b = Some j" "j < 16" "hexDigit j = b" using 1(2) hexVal_lower [of b] by auto
  obtain i' where i': "hexVal c = Some i'" "i' < 16" "hexDigit i' = c"
    using 1(3) t hexVal_lower [of c] by auto
  obtain j' where j': "hexVal d = Some j'" "j' < 16" "hexDigit j' = d"
    using 1(3) t hexVal_lower [of d] by auto
  have "i = i' \<and> j = j'" "unhex s = unhex t'"
    using 1(6) i j i' j' char_of_byte [of i j i' j'] by (auto simp: t)
  moreover have "s = t'" using 1 i j t calculation by simp
  ultimately show ?case using i j i' j' t by auto
qed auto

lemma unhex_digest_inj: "hexText s \<Longrightarrow> hexText t \<Longrightarrow> unhex s = unhex t \<Longrightarrow> s = t"
  by (rule unhex_inj) (auto simp: hexText_def)

lemma length_unhex:
  "list_all (\<lambda>c. c \<in> set ''0123456789abcdef'') s \<Longrightarrow> length (unhex s) = length s div 2"
proof (induction s rule: unhex.induct)
  case (1 a b s)
  obtain i where i: "hexVal a = Some i" using 1(2) hexVal_lower [of a] by auto
  obtain j where j: "hexVal b = Some j" using 1(2) hexVal_lower [of b] by auto
  show ?case using 1 i j by simp
qed auto

lemma length_unhex_digest: "hexText s \<Longrightarrow> length (unhex s) = 32"
  by (simp add: hexText_def length_unhex)

section \<open>Completeness\<close>

lemma pairUp_nth:
  "i < length xs \<Longrightarrow> pairUp sha xs ! (i div 2) =
    (if i mod 2 = 0 then hashPair sha (xs ! i) (xs ! siblingIdx xs i)
     else hashPair sha (xs ! siblingIdx xs i) (xs ! i))"
proof (induction sha xs arbitrary: i rule: pairUp.induct)
  case (3 sha x y zs)
  show ?case
  proof (cases "i < 2")
    case True
    then have "i = 0 \<or> i = 1" by auto
    then show ?thesis by (auto simp: siblingIdx_def)
  next
    case False
    then obtain k where k: "i = k + 2" by (metis add.commute le_Suc_ex not_less)
    have "siblingIdx (x # y # zs) i = siblingIdx zs k + 2"
      using 3 by (auto simp: k siblingIdx_def)
    then show ?thesis using 3 by (simp add: k)
  qed
qed (auto simp: siblingIdx_def)

lemma treeLayers_not_Nil [simp]: "treeLayers sha xs \<noteq> []"
  by (subst treeLayers.simps) auto

lemma proofPath_layers:
  "1 < length xs \<Longrightarrow> proofPath (treeLayers sha xs) i =
    xs ! siblingIdx xs i # proofPath (treeLayers sha (pairUp sha xs)) (i div 2)"
  by (subst treeLayers.simps) (cases "treeLayers sha (pairUp sha xs)"; simp)

lemma climb_proofPath:
  "i < length xs \<Longrightarrow> climb sha (xs ! i) i (proofPath (treeLayers sha xs) i) = hd (last (treeLayers sha xs))"
proof (induction sha xs arbitrary: i rule: treeLayers.induct)
  case (1 sha xs)
  show ?case
  proof (cases "1 < length xs")
    case True
    have "i div 2 < length (pairUp sha xs)" using 1(2) by (simp add: length_pairUp)
    from 1(1) [OF True this] have "climb sha (xs ! i) i (proofPath (treeLayers sha xs) i) =
        hd (last (treeLayers sha (pairUp sha xs)))"
      using 1(2) by (simp add: proofPath_layers [OF True] pairUp_nth)
    then show ?thesis using True by (simp add: treeLayers.simps [of sha xs])
  next
    case False
    then have "i = 0" "treeLayers sha xs = [xs]" using 1(2) by (auto simp: treeLayers.simps [of sha xs])
    then show ?thesis using 1(2) by (cases xs) auto
  qed
qed

lemma computeMerkleRoot_layers:
  assumes "computeMerkleRoot sha leaves = Some r" "leaves \<noteq> []"
  obtains hs where "those (map (hashLeaf sha) leaves) = Some hs" "length hs = length leaves"
    "mr_root r = hd (last (treeLayers sha hs))"
    "\<And>i. i < length leaves \<Longrightarrow> mapGet (mr_proofs r) i = Some (proofPath (treeLayers sha hs) i)"
proof -
  obtain hs where hs: "those (map (hashLeaf sha) leaves) = Some hs"
    using assms by (auto simp: computeMerkleRoot_def split: option.splits)
  have "length hs = length leaves"
    using hs by (induction leaves arbitrary: hs) (auto split: option.splits)
  moreover have "mapGet (map (\<lambda>k. (k, f k)) [0..<n]) i = Some (f i)" if "i < n"
    for f :: "nat \<Rightarrow> string list" and i n using that by (simp add: map_of_map_restrict)
  ultimately show ?thesis
    using that [OF hs] assms hs
    by (auto simp: computeMerkleRoot_def Let_def treeLayers.simps [of sha hs] split: if_splits)
qed

lemma climb_not_Nil: "(\<And>s. sha s \<noteq> []) \<Longrightarrow> c \<noteq> [] \<Longrightarrow> climb sha c i p \<noteq> []"
  by (induction p arbitrary: c i) (auto simp: hashPair_def)

lemma digest_nonempty: "digestOk sha \<Longrightarrow> sha s \<noteq> []"
  by (metis digestOk_def hexText_def list.size(3) zero_neq_numeral)

section \<open>The tree of the hashed texts\<close>

datatype mtree = MLeaf string | MNode mtree mtree

fun digest :: "(string \<Rightarrow> string) \<Rightarrow> mtree \<Rightarrow> string" where
  "digest sha (MLeaf x) = hashLeafData sha x"
| "digest sha (MNode l r) = hashPair sha (digest sha l) (digest sha r)"

fun treeInputs :: "(string \<Rightarrow> string) \<Rightarrow> mtree \<Rightarrow> string list" where
  "treeInputs sha (MLeaf x) = [LEAF_DOMAIN @ x]"
| "treeInputs sha (MNode l r) = (NODE_DOMAIN @ unhex (digest sha l) @ unhex (digest sha r)) #
     treeInputs sha l @ treeInputs sha r"

fun tpair :: "mtree list \<Rightarrow> mtree list" where
  "tpair [] = []"
| "tpair [x] = [MNode x x]"
| "tpair (x # y # zs) = MNode x y # tpair zs"

lemma length_tpair: "length (tpair ts) = (length ts + 1) div 2"
  by (induction ts rule: tpair.induct) auto

function treeTop :: "mtree list \<Rightarrow> mtree" where
  "treeTop ts = (if 1 < length ts then treeTop (tpair ts) else hd ts)"
  by pat_completeness auto
termination by (relation "measure length") (auto simp: length_tpair)

declare treeTop.simps [simp del]

lemma tpair_nth:
  "i < length ts \<Longrightarrow> \<exists>l r. tpair ts ! (i div 2) = MNode l r \<and> (if even i then l else r) = ts ! i"
proof (induction ts arbitrary: i rule: tpair.induct)
  case (3 x y zs)
  show ?case
  proof (cases "i < 2")
    case True
    then have "i = 0 \<or> i = 1" by auto
    then show ?thesis by auto
  next
    case False
    then obtain k where k: "i = k + 2" by (metis add.commute le_Suc_ex not_less)
    then show ?thesis using 3 by simp
  qed
qed auto

lemma pairUp_digest: "pairUp sha (map (digest sha) ts) = map (digest sha) (tpair ts)"
  by (induction ts rule: tpair.induct) auto

lemma digest_treeTop:
  "ts \<noteq> [] \<Longrightarrow> digest sha (treeTop ts) = hd (last (treeLayers sha (map (digest sha) ts)))"
proof (induction ts rule: treeTop.induct)
  case (1 ts)
  show ?case
  proof (cases "1 < length ts")
    case True
    then have "tpair ts \<noteq> []" by (cases ts rule: tpair.cases) auto
    then show ?thesis
      using True 1(1)
      by (simp add: treeTop.simps [of ts] treeLayers.simps [of sha "map (digest sha) ts"] pairUp_digest)
  next
    case False
    then show ?thesis
      using 1(2) by (simp add: treeTop.simps [of ts] treeLayers.simps [of sha "map (digest sha) ts"] hd_map)
  qed
qed

text \<open>The way down of an index, one bit a level, the most significant first.\<close>

fun descend :: "nat \<Rightarrow> nat \<Rightarrow> mtree \<Rightarrow> mtree option" where
  "descend 0 i t = Some t"
| "descend (Suc d) i (MNode l r) = descend d i (if even (i div 2 ^ d) then l else r)"
| "descend (Suc d) i (MLeaf x) = None"

fun perfect :: "nat \<Rightarrow> mtree \<Rightarrow> bool" where
  "perfect 0 t = (\<exists>x. t = MLeaf x)"
| "perfect (Suc d) (MNode l r) = (perfect d l \<and> perfect d r)"
| "perfect (Suc d) (MLeaf x) = False"

lemma descend_perfect: "perfect m t \<Longrightarrow> descend d i t = Some (MLeaf x) \<Longrightarrow> d = m"
  by (induction d i t arbitrary: m rule: descend.induct) (auto elim: perfect.elims split: if_splits)

lemma descend_last:
  "descend d (i div 2) t = Some (MNode l r) \<Longrightarrow> descend (Suc d) i t = Some (if even i then l else r)"
proof (induction d arbitrary: t)
  case (Suc d)
  then obtain a b where t: "t = MNode a b" by (cases t) auto
  have "i div 2 div 2 ^ d = i div 2 ^ Suc d" by (simp add: div_mult2_eq)
  then show ?case using Suc by (simp add: t)
qed simp

lemma perfect_tpair: "\<forall>t \<in> set ts. perfect k t \<Longrightarrow> \<forall>t \<in> set (tpair ts). perfect (Suc k) t"
  by (induction ts rule: tpair.induct) auto

lemma descend_treeTop:
  "ts \<noteq> [] \<Longrightarrow> \<forall>t \<in> set ts. perfect k t \<Longrightarrow>
   \<exists>d. perfect (k + d) (treeTop ts) \<and> (\<forall>i < length ts. descend d i (treeTop ts) = Some (ts ! i))"
proof (induction ts arbitrary: k rule: treeTop.induct)
  case (1 ts)
  show ?case
  proof (cases "1 < length ts")
    case True
    then have ne: "tpair ts \<noteq> []" by (cases ts rule: tpair.cases) auto
    obtain d where d: "perfect (Suc k + d) (treeTop (tpair ts))"
        "\<forall>i < length (tpair ts). descend d i (treeTop (tpair ts)) = Some (tpair ts ! i)"
      using 1(1) [OF True ne perfect_tpair [OF 1(3)]] by auto
    have "descend (Suc d) i (treeTop (tpair ts)) = Some (ts ! i)" if "i < length ts" for i
    proof -
      obtain l r where lr: "tpair ts ! (i div 2) = MNode l r" "(if even i then l else r) = ts ! i"
        using tpair_nth [OF \<open>i < length ts\<close>] by blast
      have "i div 2 < length (tpair ts)" using that by (simp add: length_tpair)
      then have "descend d (i div 2) (treeTop (tpair ts)) = Some (MNode l r)" using d(2) lr(1) by simp
      from descend_last [OF this] show ?thesis by (simp only: lr(2))
    qed
    then show ?thesis using d(1) True by (intro exI [of _ "Suc d"]) (simp add: treeTop.simps [of ts])
  next
    case False
    then obtain t where "ts = [t]" using 1(2) by (cases ts) auto
    then show ?thesis using 1(3) by (intro exI [of _ 0]) (simp add: treeTop.simps)
  qed
qed

section \<open>Soundness\<close>

fun climbInputs :: "(string \<Rightarrow> string) \<Rightarrow> string \<Rightarrow> nat \<Rightarrow> string list \<Rightarrow> string list" where
  "climbInputs sha current idx [] = []"
| "climbInputs sha current idx (s # proof) =
     (if idx mod 2 = 0 then NODE_DOMAIN @ unhex current @ unhex s else NODE_DOMAIN @ unhex s @ unhex current) #
     climbInputs sha (if idx mod 2 = 0 then hashPair sha current s else hashPair sha s current)
       (idx div 2) proof"

lemma climb_snoc:
  "climb sha c i (p @ [s]) = (let c' = climb sha c i p in
     if even (i div 2 ^ length p) then hashPair sha c' s else hashPair sha s c')"
  by (induction p arbitrary: c i) (auto simp: div_mult2_eq even_iff_mod_2_eq_zero Let_def)

lemma climbInputs_snoc:
  "climbInputs sha c i (p @ [s]) = climbInputs sha c i p @ (let c' = climb sha c i p in
     [if even (i div 2 ^ length p) then NODE_DOMAIN @ unhex c' @ unhex s
      else NODE_DOMAIN @ unhex s @ unhex c'])"
  by (induction p arbitrary: c i) (auto simp: div_mult2_eq even_iff_mod_2_eq_zero Let_def)

lemma digest_hex: "digestOk sha \<Longrightarrow> hexText (digest sha t)"
  by (cases t) (auto simp: digestOk_def hashLeafData_def hashPair_def)

lemma climb_hex: "digestOk sha \<Longrightarrow> hexText c \<Longrightarrow> hexText (climb sha c i p)"
  by (induction p arbitrary: c i) (auto simp: digestOk_def hashPair_def)

lemma digest_input: "\<exists>z. digest sha t = sha z \<and> z \<in> set (treeInputs sha t) \<and>
    (case t of MLeaf x \<Rightarrow> z = LEAF_DOMAIN @ x
     | MNode l r \<Rightarrow> z = NODE_DOMAIN @ unhex (digest sha l) @ unhex (digest sha r))"
  by (cases t) (auto simp: hashLeafData_def hashPair_def)

lemma climb_descend:
  assumes "digestOk sha"
    and "inj_on sha (set ((LEAF_DOMAIN @ x) # climbInputs sha (hashLeafData sha x) i p @ treeInputs sha t))"
    and "climb sha (hashLeafData sha x) i p = digest sha t"
  shows "descend (length p) i t = Some (MLeaf x)"
  using assms(2,3)
proof (induction p arbitrary: t rule: rev_induct)
  case Nil
  obtain z where z: "digest sha t = sha z" "z \<in> set (treeInputs sha t)"
    "case t of MLeaf y \<Rightarrow> z = LEAF_DOMAIN @ y
     | MNode l r \<Rightarrow> z = NODE_DOMAIN @ unhex (digest sha l) @ unhex (digest sha r)"
    using digest_input by blast
  have "sha (LEAF_DOMAIN @ x) = sha z" using Nil(2) z by (simp add: hashLeafData_def)
  then have "LEAF_DOMAIN @ x = z" by (rule inj_onD [OF Nil(1)]) (simp_all add: z(2))
  then show ?case using z(3) by (cases t) (auto simp: LEAF_DOMAIN_def NODE_DOMAIN_def)
next
  case (snoc s p)
  define c where "c = climb sha (hashLeafData sha x) i p"
  define b where "b = even (i div 2 ^ length p)"
  define w where "w = (if b then NODE_DOMAIN @ unhex c @ unhex s else NODE_DOMAIN @ unhex s @ unhex c)"
  have hex: "hexText c"
    unfolding c_def using assms(1) by (intro climb_hex) (auto simp: digestOk_def hashLeafData_def)
  obtain z where z: "digest sha t = sha z" "z \<in> set (treeInputs sha t)"
    "case t of MLeaf y \<Rightarrow> z = LEAF_DOMAIN @ y
     | MNode l r \<Rightarrow> z = NODE_DOMAIN @ unhex (digest sha l) @ unhex (digest sha r)"
    using digest_input by blast
  have inputs: "climbInputs sha (hashLeafData sha x) i (p @ [s]) = climbInputs sha (hashLeafData sha x) i p @ [w]"
    by (simp add: climbInputs_snoc w_def b_def c_def)
  have "sha w = sha z"
    using snoc(3) z(1) by (simp add: climb_snoc w_def b_def c_def hashPair_def Let_def split: if_splits)
  then have wz: "w = z" by (rule inj_onD [OF snoc(2)]) (simp_all add: inputs z(2))
  then obtain l r where t: "t = MNode l r" and lr: "z = NODE_DOMAIN @ unhex (digest sha l) @ unhex (digest sha r)"
    using z(3) by (cases t) (auto simp: w_def LEAF_DOMAIN_def NODE_DOMAIN_def split: if_splits)
  have "c = digest sha (if b then l else r)"
  proof (cases b)
    case True
    then have "unhex c @ unhex s = unhex (digest sha l) @ unhex (digest sha r)" using wz lr by (simp add: w_def)
    then have "unhex c = unhex (digest sha l)"
      using hex digest_hex [OF assms(1), of l] by (simp add: length_unhex_digest)
    then show ?thesis using True unhex_digest_inj [OF hex digest_hex [OF assms(1)]] by simp
  next
    case False
    then have "unhex s @ unhex c = unhex (digest sha l) @ unhex (digest sha r)" using wz lr by (simp add: w_def)
    then have "unhex c = unhex (digest sha r)"
      using hex digest_hex [OF assms(1), of r] by (simp add: length_unhex_digest)
    then show ?thesis using False unhex_digest_inj [OF hex digest_hex [OF assms(1)]] by simp
  qed
  moreover have "inj_on sha (set ((LEAF_DOMAIN @ x) # climbInputs sha (hashLeafData sha x) i p @
      treeInputs sha (if b then l else r)))"
    by (rule inj_on_subset [OF snoc(2)]) (auto simp: inputs t)
  ultimately show ?case using snoc(1) by (simp add: c_def b_def t)
qed

end
