(* ===== verification/MerkleProps.thy ===== *)
theory MerkleProps
  imports MerkleCorrect
begin

text \<open>
  The properties of the transcript tree: an honest proof verifies, a verifying proof names the leaf
  it stands for, and a leaf file reads back what was appended to it.
\<close>

section \<open>Leaves as texts\<close>

lemma jsonOk_leafJson: "jsonOk (leafJson l)"
  by (simp add: leafJson_def)

lemma orderedLeaf_leafJson: "orderedLeaf (leafJson l) = Some (leafJson l)"
  by (simp add: orderedLeaf_def leafJson_def pickFields_def List.map_filter_def)

lemma hashLeaf_leafJson: "hashLeaf sha (leafJson l) = Some (hashLeafData sha (stringify (leafJson l)))"
  by (simp add: hashLeaf_def canonicalLeaf_def orderedLeaf_leafJson)

lemma leafJson_inj: "leafJson l = leafJson l' \<Longrightarrow> l = l'"
  by (cases l; cases l'; cases "tl_findings l"; cases "tl_findings l'") (simp add: leafJson_def)

lemma leaf_text_inj: "stringify (leafJson l) = stringify (leafJson l') \<Longrightarrow> l = l'"
  by (metis parse_stringify jsonOk_leafJson leafJson_inj option.inject)

lemma those_leaf_hashes: "those (map (hashLeaf sha) (map leafJson ls)) =
    Some (map (\<lambda>l. hashLeafData sha (stringify (leafJson l))) ls)"
  by (simp add: comp_def hashLeaf_leafJson
      those_map_Some [where g = "\<lambda>l. hashLeafData sha (stringify (leafJson l))"])

lemma leaves_have_root: "\<exists>r. computeMerkleRoot sha (map leafJson ls) = Some r"
  unfolding computeMerkleRoot_def those_leaf_hashes by (simp add: Let_def)

section \<open>Honest proofs\<close>

definition exampleLeaf :: "int \<Rightarrow> transcript_leaf" where
  "exampleLeaf i = \<lparr>tl_leafIndex = i, tl_taskId = ''T'', tl_reviewerName = [], tl_transcriptHash = [],
     tl_nonce = [], tl_harness = [], tl_model = [], tl_verdictApproved = True,
     tl_findings = \<lparr>lf_critical = 0, lf_major = 0, lf_minor = 0, lf_suggestion = 0\<rparr>, tl_signedAt = []\<rparr>"

definition honestLeaves :: "transcript_leaf list" where
  "honestLeaves = map exampleLeaf [0, 1, 2]"

text \<open>A digest for the examples: it reads one character of a leaf text and one of each half of a
  node.\<close>

definition toySha :: "string \<Rightarrow> string" where
  "toySha s = (case s of [] \<Rightarrow> replicate 64 (CHR ''0'')
     | c # t \<Rightarrow> if c = CHR 0x00
         then (case drop 13 t of [] \<Rightarrow> replicate 64 (CHR ''0'')
               | d # u \<Rightarrow> hexDigit (of_char d mod 16) # replicate 63 (CHR ''0''))
         else (case (t, drop 32 t) of
                 (a # v, b # w) \<Rightarrow> [CHR ''b'', hexDigit (of_char a div 16), hexDigit (of_char b div 16)] @
                   replicate 61 (CHR ''0'')
               | _ \<Rightarrow> replicate 64 (CHR ''0'')))"

lemma hexDigit_lower: "k < 16 \<Longrightarrow> hexDigit k \<in> set ''0123456789abcdef''"
proof -
  have "\<forall>k \<in> {0..<16}. hexDigit k \<in> set ''0123456789abcdef''" by code_simp
  then show "k < 16 \<Longrightarrow> hexDigit k \<in> set ''0123456789abcdef''" by simp
qed

lemma toySha_ok: "digestOk toySha"
proof -
  have "(of_char a :: nat) div 16 < 16" for a
    using nat_of_char_less_256 [of a] by (simp add: div_less_iff_less_mult)
  then have "hexDigit (of_char a div 16) \<in> set ''0123456789abcdef''" "hexDigit (of_char a mod 16) \<in> set ''0123456789abcdef''"
    for a by (simp_all add: hexDigit_lower del: set_simps)
  then show ?thesis
    by (auto simp: digestOk_def hexText_def toySha_def list_all_iff split: list.splits)
qed

text \<open>C13. Completeness of the inclusion proofs: when \<open>computeMerkleRoot\<close> returns a root and its
  proofs for a list of leaves, whatever their number, the proof it stores under a position passes
  \<open>verifyInclusion\<close> with the hash of the leaf at that position, the position and the number of
  leaves. (The digest is only assumed not to return an empty text.)\<close>

theorem inclusion_complete:
  assumes "computeMerkleRoot sha leaves = Some r" "i < length leaves" "\<And>s. sha s \<noteq> []"
  shows "\<exists>h proof. hashLeaf sha (leaves ! i) = Some h \<and> mapGet (mr_proofs r) i = Some proof \<and>
    verifyInclusion sha h proof (mr_root r) (Some (int i)) (Some (int (length leaves)))"
proof -
  have "leaves \<noteq> []" using assms(2) by auto
  then obtain hs where hs: "those (map (hashLeaf sha) leaves) = Some hs" "length hs = length leaves"
      "mr_root r = hd (last (treeLayers sha hs))" "mapGet (mr_proofs r) i = Some (proofPath (treeLayers sha hs) i)"
    using computeMerkleRoot_layers [OF assms(1)] assms(2) by metis
  have h: "hashLeaf sha (leaves ! i) = Some (hs ! i)" using those_nth [OF hs(1) assms(2)] .
  have climb: "climb sha (hs ! i) i (proofPath (treeLayers sha hs) i) = mr_root r"
    using climb_proofPath assms(2) hs(2,3) by simp
  have "hs ! i \<noteq> []" using h assms(3) by (auto simp: hashLeaf_def hashLeafData_def)
  moreover have "climb sha (hs ! i) i p \<noteq> []" for p
    using climb_not_Nil [OF assms(3)] calculation by simp
  ultimately show ?thesis using h hs(4) climb assms(2) by (auto simp: verifyInclusion_def)
qed

theorem inclusion_complete_witness:
  "\<exists>h proof. hashLeaf toySha (map leafJson honestLeaves ! 2) = Some h \<and>
     mapGet (mr_proofs (the (computeMerkleRoot toySha (map leafJson honestLeaves)))) 2 = Some proof \<and>
     verifyInclusion toySha h proof (mr_root (the (computeMerkleRoot toySha (map leafJson honestLeaves))))
       (Some 2) (Some 3)"
proof -
  have n: "length honestLeaves = 3" by (simp add: honestLeaves_def)
  obtain r where r: "computeMerkleRoot toySha (map leafJson honestLeaves) = Some r"
    using leaves_have_root by blast
  show ?thesis
    using inclusion_complete [OF r, of 2] digest_nonempty [OF toySha_ok] by (simp add: r n)
qed

section \<open>Forged proofs\<close>

text \<open>What is hashed: the tree of the leaves, the claimed leaf and the nodes of its climb.\<close>

definition hashedInputs ::
    "(string \<Rightarrow> string) \<Rightarrow> transcript_leaf list \<Rightarrow> transcript_leaf \<Rightarrow> nat \<Rightarrow> string list \<Rightarrow> string list" where
  "hashedInputs sha ls l i proof =
    (LEAF_DOMAIN @ stringify (leafJson l)) #
    climbInputs sha (hashLeafData sha (stringify (leafJson l))) i proof @
    treeInputs sha (treeTop (map (\<lambda>l. MLeaf (stringify (leafJson l))) ls))"

text \<open>C12. Soundness of the inclusion check: if \<open>verifyInclusion\<close> accepts the hash of a leaf
  with any list of siblings, of any length, against the root of a list of leaves and their number,
  then the leaf is the one at the stated position. The digest returns 64 hexadecimal characters and
  does not collide on the texts hashed while building this tree and checking this proof.\<close>

theorem inclusion_sound:
  assumes "digestOk sha" "inj_on sha (set (hashedInputs sha ls l (nat i) proof))"
    and "computeMerkleRoot sha (map leafJson ls) = Some r" "hashLeaf sha (leafJson l) = Some h"
    and "verifyInclusion sha h proof (mr_root r) (Some i) (Some (int (length ls)))"
  shows "nat i < length ls \<and> ls ! nat i = l"
proof -
  define leafText where "leafText = (\<lambda>l. stringify (leafJson l))"
  define ts where "ts = map (\<lambda>l. MLeaf (leafText l)) ls"
  have i: "nat i < length ls" and climb: "climb sha h (nat i) proof = mr_root r"
    using assms(5) by (auto simp: verifyInclusion_def split: if_splits)
  have ne: "ts \<noteq> []" "map leafJson ls \<noteq> []" using i by (auto simp: ts_def)
  have hs: "those (map (hashLeaf sha) (map leafJson ls)) = Some (map (digest sha) ts)"
    unfolding those_leaf_hashes by (simp add: ts_def comp_def leafText_def)
  obtain hs' where "those (map (hashLeaf sha) (map leafJson ls)) = Some hs'" "mr_root r = hd (last (treeLayers sha hs'))"
    using computeMerkleRoot_layers [OF assms(3) ne(2)] by metis
  then have "mr_root r = digest sha (treeTop ts)" using digest_treeTop [OF ne(1)] hs by simp
  moreover have "h = hashLeafData sha (leafText l)" using assms(4) by (simp add: hashLeaf_leafJson leafText_def)
  ultimately have w: "descend (length proof) (nat i) (treeTop ts) = Some (MLeaf (leafText l))"
    using climb_descend [OF assms(1)] assms(2) climb by (simp add: hashedInputs_def ts_def leafText_def)
  obtain d where d: "perfect (0 + d) (treeTop ts)" "\<forall>i < length ts. descend d i (treeTop ts) = Some (ts ! i)"
    using descend_treeTop [OF ne(1), of 0] by (auto simp: ts_def)
  then have "length proof = d" using descend_perfect [OF _ w] by simp
  then have "MLeaf (leafText (ls ! nat i)) = MLeaf (leafText l)" using d(2) w i by (simp add: ts_def)
  then show ?thesis using i leaf_text_inj by (simp add: leafText_def)
qed


definition exampleProof :: "string list" where
  "exampleProof = [toySha (LEAF_DOMAIN @ stringify (leafJson (exampleLeaf 2))),
     ''b010000000000000000000000000000000000000000000000000000000000000'']"

lemma example_no_collision: "inj_on toySha (set (hashedInputs toySha honestLeaves (exampleLeaf 2) (nat 2) exampleProof))"
proof -
  have "distinct (map toySha (remdups (hashedInputs toySha honestLeaves (exampleLeaf 2) 2 exampleProof)))"
    by code_simp
  then show ?thesis by (simp add: distinct_map del: remdups.simps)
qed

lemma example_accepted:
  "case (computeMerkleRoot toySha (map leafJson honestLeaves), hashLeaf toySha (leafJson (exampleLeaf 2))) of
     (Some r, Some h) \<Rightarrow> verifyInclusion toySha h exampleProof (mr_root r) (Some 2) (Some 3)
   | _ \<Rightarrow> False"
  by code_simp

theorem inclusion_sound_witness: "nat 2 < length honestLeaves \<and> honestLeaves ! nat 2 = exampleLeaf 2"
proof -
  obtain r h where "computeMerkleRoot toySha (map leafJson honestLeaves) = Some r"
      "hashLeaf toySha (leafJson (exampleLeaf 2)) = Some h"
      "verifyInclusion toySha h exampleProof (mr_root r) (Some 2) (Some 3)"
    using example_accepted by (auto split: option.splits)
  moreover have "int (length honestLeaves) = 3" by (simp add: honestLeaves_def)
  ultimately show ?thesis
    using inclusion_sound [OF toySha_ok example_no_collision] by simp
qed


section \<open>Leaf files\<close>

lemma loadLines_append:
  "loadLines n (xs @ ys) acc ws =
    Option.bind (loadLines n xs acc ws) (\<lambda>(acc', ws'). loadLines (n + length xs) ys acc' ws')"
  by (induction n xs acc ws rule: loadLines.induct) (auto simp: Let_def split: option.splits)

lemma trim_braces: "trim (''{'' @ s @ ''}'') = ''{'' @ s @ ''}''"
  by (simp add: trim_def trimStart_def trimEnd_def isSpace_def)

lemma trim_leaf: "trim (stringify (leafJson l)) = stringify (leafJson l)"
  unfolding leafJson_def stringify.simps by (rule trim_braces)

lemma loadLines_leaf:
  "loadLines n [stringify (leafJson l), []] acc ws = Some (acc @ [leafJson l],
     if tl_leafIndex l = int (length acc) then ws
     else ws @ [IndexMismatch (n + 1) (Some (JNum (tl_leafIndex l))) (length acc)])"
proof -
  have "stringify (leafJson l) \<noteq> []" "leafJson l \<noteq> JNull"
      "jsonField (leafJson l) ''leafIndex'' = Some (JNum (tl_leafIndex l))"
    by (simp_all add: leafJson_def)
  then show ?thesis by (simp add: Let_def trim_leaf parse_stringify [OF jsonOk_leafJson])
qed

lemma endsWith_newline: "endsWith s newline \<longleftrightarrow> (\<exists>t. s = t @ [CHR 10])"
  by (auto simp: endsWith_def newline_def suffix_def)

lemma endsWith_append: "endsWith (t @ p) p"
  by (simp add: endsWith_def suffix_def)

text \<open>The lines of a leaf file before the line break its content ends with, if any.\<close>

definition leafLines :: "string option \<Rightarrow> string list" where
  "leafLines content = (case content of None \<Rightarrow> [] | Some c \<Rightarrow>
     if c = [] then [] else if endsWith c newline then splitOn (CHR 10) (butlast c) else splitOn (CHR 10) c)"

lemma load_leafLines: "loadLeavesFromFile p fs = loadLines 0 (leafLines (fs p)) [] []"
proof (cases "\<exists>c. fs p = Some c \<and> c \<noteq> [] \<and> endsWith c newline")
  case True
  then obtain t where "fs p = Some (t @ [CHR 10])" by (auto simp: endsWith_newline)
  then show ?thesis
    using splitOn_sep [of "CHR 10" t "[]"]
    by (auto simp: leafLines_def loadLeavesFromFile_def endsWith_append newline_def loadLines_append
        split: Option.bind_splits)
qed (auto simp: leafLines_def loadLeavesFromFile_def split: option.splits)

lemma append_leafLines: "\<exists>c. appendLeafToFile (leafJson l) p fs p = Some c \<and>
    splitOn (CHR 10) c = leafLines (fs p) @ [stringify (leafJson l), []]"
proof -
  have l: "splitOn (CHR 10) (stringify (leafJson l) @ [CHR 10]) = [stringify (leafJson l), []]"
    using splitOn_line [OF stringify_line [OF jsonOk_leafJson [of l]], of "[]"] by simp
  consider "fs p = None \<or> fs p = Some []" | t where "fs p = Some (t @ [CHR 10])"
    | c where "fs p = Some c" "c \<noteq> []" "\<not> endsWith c newline"
    using endsWith_newline by (cases "fs p") auto
  then show ?thesis
  proof cases
    case 2
    then show ?thesis
      using l splitOn_sep [of "CHR 10" t "stringify (leafJson l) @ [CHR 10]"]
      by (auto simp: appendLeafToFile_def leafLines_def endsWith_append newline_def)
  next
    case 3
    then show ?thesis
      using l splitOn_sep [of "CHR 10" c "stringify (leafJson l) @ [CHR 10]"]
      by (auto simp: appendLeafToFile_def leafLines_def newline_def)
  qed (use l in \<open>auto simp: appendLeafToFile_def leafLines_def newline_def\<close>)
qed

text \<open>Appending to a leaf file keeps what was readable: whatever the file holds, corrupt lines
  and a last line without its line break included, if it loads as some leaves with some warnings,
  then after \<open>appendLeafToFile\<close> it loads as those leaves followed by the new one, with the same
  warnings and one more exactly when the new leaf's index is not its position; no temporary file is
  left and no other file changes.\<close>

theorem append_then_load:
  assumes "loadLeavesFromFile p fs = Some (leaves, ws)"
  shows "(\<exists>n. loadLeavesFromFile p (appendLeafToFile (leafJson l) p fs) = Some (leaves @ [leafJson l],
      if tl_leafIndex l = int (length leaves) then ws
      else ws @ [IndexMismatch n (Some (JNum (tl_leafIndex l))) (length leaves)])) \<and>
    (\<forall>q. q \<noteq> p \<longrightarrow> appendLeafToFile (leafJson l) p fs q = (if q = p @ ''.tmp'' then None else fs q))"
proof
  have "loadLeavesFromFile p (appendLeafToFile (leafJson l) p fs) =
      loadLines 0 (leafLines (fs p) @ [stringify (leafJson l), []]) [] []"
    using append_leafLines [of l p fs] by (auto simp: loadLeavesFromFile_def)
  also have "\<dots> = loadLines (0 + length (leafLines (fs p))) [stringify (leafJson l), []] leaves ws"
    using assms unfolding loadLines_append load_leafLines by simp
  finally show "\<exists>n. loadLeavesFromFile p (appendLeafToFile (leafJson l) p fs) = Some (leaves @ [leafJson l],
      if tl_leafIndex l = int (length leaves) then ws
      else ws @ [IndexMismatch n (Some (JNum (tl_leafIndex l))) (length leaves)])"
    unfolding loadLines_leaf by blast
qed (simp add: appendLeafToFile_def Let_def)

theorem append_then_load_witness:
  "\<exists>n. loadLeavesFromFile ''f'' (appendLeafToFile (leafJson (exampleLeaf 0)) ''f'' [''f'' \<mapsto> ''{oops'']) =
     Some ([leafJson (exampleLeaf 0)], [MalformedLine 1])"
proof -
  have "loadLeavesFromFile ''f'' [''f'' \<mapsto> ''{oops''] = Some ([], [MalformedLine 1])"
    by code_simp
  from append_then_load [OF this, of "exampleLeaf 0"] show ?thesis by (simp add: exampleLeaf_def)
qed

section \<open>What the comments promise\<close>

text \<open>Repeating the last of three leaves does not change the root.\<close>

lemma treeLayers_step:
  "1 < length xs \<Longrightarrow> treeLayers sha xs = xs # treeLayers sha (pairUp sha xs)"
  "length xs \<le> 1 \<Longrightarrow> treeLayers sha xs = [xs]"
  by (simp_all add: treeLayers.simps [of sha xs])

lemma repeated_last_same_root:
  assumes "hashLeaf sha a = Some x" "hashLeaf sha b = Some y" "hashLeaf sha c = Some z"
  shows "map_option mr_root (computeMerkleRoot sha [a, b, c]) = map_option mr_root (computeMerkleRoot sha [a, b, c, c])"
  using assms by (simp add: computeMerkleRoot_def treeLayers_step)

text \<open>A line \<open>null\<close> is not skipped: the loader throws.\<close>

lemma null_line_throws: "loadLeavesFromFile ''f'' [''f'' \<mapsto> ''null''] = None"
  by code_simp

text \<open>The siblings of a proof are compared as bytes: what follows 64 hexadecimal characters is
  ignored.\<close>

lemma unhex_junk: "hexText s \<Longrightarrow> unhex (s @ ''zz'') = unhex s"
proof -
  have "even (length s) \<Longrightarrow> unhex (s @ ''zz'') = unhex s" for s
    by (induction s rule: unhex.induct) (auto simp: hexVal_def split: option.splits)
  then show "hexText s \<Longrightarrow> unhex (s @ ''zz'') = unhex s" by (simp add: hexText_def)
qed

lemma proof_malleable:
  "hexText s \<Longrightarrow> verifyInclusion sha h [s] root i n \<longleftrightarrow> verifyInclusion sha h [s @ ''zz''] root i n"
  by (auto simp: verifyInclusion_def hashPair_def unhex_junk split: option.splits)

end
