(* ===== verification/AuditLog.thy ===== *)
theory AuditLog
  imports Json Prelude
begin

text \<open>
  \<open>reference/src/audit/\<close>: the hash-chained audit log (\<open>logger.ts\<close>), its JSONL file
  (\<open>file-sink.ts\<close>), the memory sink (\<open>memory-sink.ts\<close>) and the signed log
  (\<open>signed-logger.ts\<close>). SHA-256 is the parameter \<open>sha\<close>, the keyed digest the parameter
  \<open>hmac\<close> (algorithm, secret, text), both to hexadecimal text. Clock readings are arguments.
  Entries read back from a file are JSON values, which nothing validates.
\<close>

section \<open>Entries\<close>

datatype audit_decision = Allowed | Denied | Overridden

fun decisionText :: "audit_decision \<Rightarrow> string" where
  "decisionText Allowed = ''allowed''"
| "decisionText Denied = ''denied''"
| "decisionText Overridden = ''overridden''"

text \<open>\<open>details\<close> is an object (\<open>Record<string, unknown>\<close>).\<close>

record audit_entry =
  ae_id :: string
  ae_timestamp :: string
  ae_actor :: string
  ae_action :: string
  ae_resource :: string
  ae_policy :: "string option"
  ae_decision :: audit_decision
  ae_details :: "(string \<times> json) list option"
  ae_hash :: "string option"
  ae_previousHash :: "string option"

text \<open>What a caller hands to \<open>record\<close>.\<close>

record audit_input =
  ai_timestamp :: "string option"
  ai_actor :: string
  ai_action :: string
  ai_resource :: string
  ai_policy :: "string option"
  ai_decision :: audit_decision
  ai_details :: "(string \<times> json) list option"

definition optField :: "string \<Rightarrow> json option \<Rightarrow> (string \<times> json) list" where
  "optField k v = (case v of None \<Rightarrow> [] | Some j \<Rightarrow> [(k, j)])"

text \<open>The entry as the object \<open>record\<close> builds: the fields of \<open>base\<close>, then the hash;
  \<open>JSON.stringify\<close> drops those that are \<open>undefined\<close>.\<close>

definition entryJson :: "audit_entry \<Rightarrow> json" where
  "entryJson e = JObj
    ([(''id'', JStr (ae_id e)), (''timestamp'', JStr (ae_timestamp e)), (''actor'', JStr (ae_actor e)),
      (''action'', JStr (ae_action e)), (''resource'', JStr (ae_resource e))] @
     optField ''policy'' (map_option JStr (ae_policy e)) @
     [(''decision'', JStr (decisionText (ae_decision e)))] @
     optField ''details'' (map_option JObj (ae_details e)) @
     optField ''previousHash'' (map_option JStr (ae_previousHash e)) @
     optField ''hash'' (map_option JStr (ae_hash e)))"

section \<open>The hash chain\<close>

fun orNull :: "json option \<Rightarrow> json" where
  "orNull None = JNull" | "orNull (Some j) = j"

definition hashPayload :: "json \<Rightarrow> json option \<Rightarrow> json" where
  "hashPayload entry previousHash = JObj
    (concat (map (\<lambda>k. optField k (jsonField entry k))
       [''id'', ''timestamp'', ''actor'', ''action'', ''resource'', ''policy'', ''decision'', ''details'']) @
     [(''previousHash'', orNull previousHash)])"

definition computeEntryHash :: "(string \<Rightarrow> string) \<Rightarrow> json \<Rightarrow> json option \<Rightarrow> string" where
  "computeEntryHash sha entry previousHash = sha (stringify (hashPayload entry previousHash))"

text \<open>\<open>===\<close> on parsed values; two objects from different lines are never the same object.\<close>

fun strictEq :: "json option \<Rightarrow> json option \<Rightarrow> bool" where
  "strictEq (Some (JObj a)) v = False"
| "strictEq (Some (JArr a)) v = False"
| "strictEq u v = (u = v)"

text \<open>The loop both integrity checks share: the index of the first broken entry. Reading a field of
  a \<open>null\<close> entry throws (\<open>None\<close>).\<close>

datatype integrity = Intact | BrokenAt nat

fun chainFrom :: "(string \<Rightarrow> string) \<Rightarrow> nat \<Rightarrow> json option \<Rightarrow> json list \<Rightarrow> integrity option" where
  "chainFrom sha i expectedPrevHash [] = Some Intact"
| "chainFrom sha i expectedPrevHash (entry # es) =
    (if entry = JNull then None
     else if \<not> strictEq (jsonField entry ''previousHash'') expectedPrevHash then Some (BrokenAt i)
     else if \<not> strictEq (jsonField entry ''hash'') (Some (JStr (computeEntryHash sha entry expectedPrevHash)))
     then Some (BrokenAt i)
     else chainFrom sha (i + 1) (jsonField entry ''hash'') es)"

section \<open>The log\<close>

type_synonym audit_files = "string \<Rightarrow> string option"

text \<open>The log in memory, the module's counter and, when the sink is a file, its content.\<close>

record audit_log =
  al_counter :: nat
  al_log :: "audit_entry list"
  al_sink :: "string option"
  al_files :: audit_files

definition createAuditLog :: "nat \<Rightarrow> string option \<Rightarrow> audit_files \<Rightarrow> audit_log" where
  "createAuditLog counter sink files =
    \<lparr>al_counter = counter, al_log = [], al_sink = sink, al_files = files\<rparr>"

definition generateId :: "int \<Rightarrow> nat \<Rightarrow> string" where
  "generateId now counter = ''audit-'' @ showInt now @ ''-'' @ showNat counter"

definition fileSinkWrite :: "string \<Rightarrow> audit_entry \<Rightarrow> audit_files \<Rightarrow> audit_files" where
  "fileSinkWrite filePath entry fs =
    fs(filePath \<mapsto> (case fs filePath of None \<Rightarrow> [] | Some c \<Rightarrow> c) @ stringify (entryJson entry) @ newline)"

definition recordEntry :: "(string \<Rightarrow> string) \<Rightarrow> int \<Rightarrow> audit_input \<Rightarrow> audit_log \<Rightarrow> audit_entry \<times> audit_log" where
  "recordEntry sha now partial st =
    (let prevHash = (if al_log st \<noteq> [] then ae_hash (last (al_log st)) else None);
         counter' = al_counter st + 1;
         base = \<lparr>ae_id = generateId now counter',
                 ae_timestamp = orElse (ai_timestamp partial) (toISOString now),
                 ae_actor = ai_actor partial, ae_action = ai_action partial,
                 ae_resource = ai_resource partial, ae_policy = ai_policy partial,
                 ae_decision = ai_decision partial, ae_details = ai_details partial,
                 ae_hash = None, ae_previousHash = prevHash\<rparr>;
         entry = base\<lparr>ae_hash := Some (computeEntryHash sha (entryJson base) (map_option JStr prevHash))\<rparr>
     in (entry, st\<lparr>al_counter := counter', al_log := al_log st @ [entry],
          al_files := (case al_sink st of None \<Rightarrow> al_files st
            | Some p \<Rightarrow> fileSinkWrite p entry (al_files st))\<rparr>))"

definition verifyIntegrity :: "(string \<Rightarrow> string) \<Rightarrow> audit_entry list \<Rightarrow> integrity option" where
  "verifyIntegrity sha log = (if log = [] then Some Intact else chainFrom sha 0 None (map entryJson log))"

subsection \<open>Queries\<close>

fun textLess :: "string \<Rightarrow> string \<Rightarrow> bool" where
  "textLess [] t = (t \<noteq> [])"
| "textLess (c # s) [] = False"
| "textLess (c # s) (d # t) =
     ((of_char c :: nat) < of_char d \<or> c = d \<and> textLess s t)"

record audit_filter =
  af_actor :: "string option"
  af_action :: "string option"
  af_resource :: "string option"
  af_decision :: "audit_decision option"
  af_from :: "string option"
  af_to :: "string option"

definition matchesFilter :: "audit_entry \<Rightarrow> audit_filter \<Rightarrow> bool" where
  "matchesFilter entry f =
    (if given (af_actor f) \<and> Some (ae_actor entry) \<noteq> af_actor f then False
     else if given (af_action f) \<and> Some (ae_action entry) \<noteq> af_action f then False
     else if given (af_resource f) \<and> Some (ae_resource entry) \<noteq> af_resource f then False
     else if af_decision f \<noteq> None \<and> Some (ae_decision entry) \<noteq> af_decision f then False
     else if given (af_from f) \<and> textLess (ae_timestamp entry) (the (af_from f)) then False
     else if given (af_to f) \<and> textLess (the (af_to f)) (ae_timestamp entry) then False
     else True)"

definition queryLog :: "audit_filter \<Rightarrow> audit_log \<Rightarrow> audit_entry list" where
  "queryLog f st = filter (\<lambda>e. matchesFilter e f) (al_log st)"

subsection \<open>The file\<close>

text \<open>Any line that does not parse makes the loader throw (\<open>None\<close>).\<close>

definition loadEntriesFromFile :: "string \<Rightarrow> audit_files \<Rightarrow> json list option" where
  "loadEntriesFromFile filePath fs = (case fs filePath of
     None \<Rightarrow> Some []
   | Some content \<Rightarrow>
       those (map parseJson (filter (\<lambda>l. l \<noteq> []) (splitOn (CHR 10) (trim content)))))"

definition verifyFileIntegrity :: "(string \<Rightarrow> string) \<Rightarrow> string \<Rightarrow> audit_files \<Rightarrow> integrity option" where
  "verifyFileIntegrity sha filePath fs =
    Option.bind (loadEntriesFromFile filePath fs)
      (\<lambda>entries. if entries = [] then Some Intact else chainFrom sha 0 None entries)"

definition rotateAuditFile :: "int \<Rightarrow> string \<Rightarrow> audit_files \<Rightarrow> string \<times> audit_files" where
  "rotateAuditFile now filePath fs =
    (let timestamp = map (\<lambda>c. if c = CHR '':'' \<or> c = CHR ''.'' then CHR ''-'' else c) (toISOString now);
         rotatedPath = filePath @ ''.'' @ timestamp
     in (rotatedPath, case fs filePath of
           None \<Rightarrow> fs
         | Some content \<Rightarrow> fs(rotatedPath \<mapsto> content, filePath \<mapsto> [])))"

subsection \<open>The memory sink\<close>

record memory_sink =
  ms_entries :: "audit_entry list"
  ms_closed :: bool

definition createInMemoryAuditSink :: memory_sink where
  "createInMemoryAuditSink = \<lparr>ms_entries = [], ms_closed = False\<rparr>"

definition memoryWrite :: "audit_entry \<Rightarrow> memory_sink \<Rightarrow> memory_sink option" where
  "memoryWrite entry s = (if ms_closed s then None else Some (s\<lparr>ms_entries := ms_entries s @ [entry]\<rparr>))"

definition memoryQuery :: "audit_filter \<Rightarrow> memory_sink \<Rightarrow> audit_entry list option" where
  "memoryQuery f s = (if ms_closed s then None else Some (filter (\<lambda>e. matchesFilter e f) (ms_entries s)))"

definition memoryRotate :: "memory_sink \<Rightarrow> memory_sink" where
  "memoryRotate s = s\<lparr>ms_entries := []\<rparr>"

definition memoryClose :: "memory_sink \<Rightarrow> memory_sink" where
  "memoryClose s = s\<lparr>ms_closed := True\<rparr>"

definition memoryCount :: "memory_sink \<Rightarrow> nat" where
  "memoryCount s = length (ms_entries s)"

section \<open>The signed log\<close>

record signing_key =
  sk_id :: string
  sk_secret :: string
  sk_algorithm :: "string option"

record signed_entry = audit_entry +
  se_signature :: string
  se_keyId :: string

type_synonym keyed_hash = "string \<Rightarrow> string \<Rightarrow> string \<Rightarrow> string"

definition signEntry :: "keyed_hash \<Rightarrow> audit_entry \<Rightarrow> signing_key \<Rightarrow> string" where
  "signEntry hmac entry key =
    hmac (orElse (sk_algorithm key) ''sha256'') (sk_secret key)
      (stringify (JObj
        ([(''id'', JStr (ae_id entry)), (''timestamp'', JStr (ae_timestamp entry)),
          (''actor'', JStr (ae_actor entry)), (''action'', JStr (ae_action entry)),
          (''resource'', JStr (ae_resource entry))] @
         optField ''hash'' (map_option JStr (ae_hash entry)) @
         optField ''previousHash'' (map_option JStr (ae_previousHash entry)))))"

definition unsigned :: "signed_entry \<Rightarrow> audit_entry" where
  "unsigned e = audit_entry.truncate e"

definition verifySignature :: "keyed_hash \<Rightarrow> signed_entry \<Rightarrow> signing_key \<Rightarrow> bool" where
  "verifySignature hmac entry key \<longleftrightarrow> signEntry hmac (unsigned entry) key = se_signature entry"

record signed_log =
  sl_inner :: audit_log
  sl_currentKey :: signing_key
  sl_signedEntries :: "signed_entry list"
  sl_keyHistory :: "(string, signing_key) jsmap"

definition createSignedAuditLog :: "nat \<Rightarrow> signing_key \<Rightarrow> string option \<Rightarrow> audit_files \<Rightarrow> signed_log" where
  "createSignedAuditLog counter initialKey sink files =
    \<lparr>sl_inner = createAuditLog counter sink files, sl_currentKey = initialKey, sl_signedEntries = [],
     sl_keyHistory = [(sk_id initialKey, initialKey)]\<rparr>"

definition recordSigned ::
    "(string \<Rightarrow> string) \<Rightarrow> keyed_hash \<Rightarrow> int \<Rightarrow> audit_input \<Rightarrow> signed_log \<Rightarrow> signed_entry \<times> signed_log" where
  "recordSigned sha hmac now partial st =
    (let (entry, inner) = recordEntry sha now partial (sl_inner st);
         signed = audit_entry.extend entry
           \<lparr>se_signature = signEntry hmac entry (sl_currentKey st), se_keyId = sk_id (sl_currentKey st)\<rparr>
     in (signed, st\<lparr>sl_inner := inner, sl_signedEntries := sl_signedEntries st @ [signed]\<rparr>))"

text \<open>The index of the first entry without a known key or with a wrong signature.\<close>

fun firstInvalid :: "keyed_hash \<Rightarrow> (string, signing_key) jsmap \<Rightarrow> nat \<Rightarrow> signed_entry list \<Rightarrow> nat option" where
  "firstInvalid hmac keys i [] = None"
| "firstInvalid hmac keys i (entry # es) =
    (case mapGet keys (se_keyId entry) of
       None \<Rightarrow> Some i
     | Some key \<Rightarrow> if \<not> verifySignature hmac entry key then Some i else firstInvalid hmac keys (i + 1) es)"

record signed_integrity =
  si_chain :: "integrity option"
  si_signaturesValid :: bool
  si_invalidSignatureAt :: "nat option"

definition verifySigned :: "(string \<Rightarrow> string) \<Rightarrow> keyed_hash \<Rightarrow> signed_log \<Rightarrow> signed_integrity" where
  "verifySigned sha hmac st =
    (let bad = firstInvalid hmac (sl_keyHistory st) 0 (sl_signedEntries st)
     in \<lparr>si_chain = verifyIntegrity sha (al_log (sl_inner st)), si_signaturesValid = (bad = None),
         si_invalidSignatureAt = bad\<rparr>)"

definition rotateKey :: "signing_key \<Rightarrow> signed_log \<Rightarrow> signed_log" where
  "rotateKey newKey st = st\<lparr>sl_currentKey := newKey, sl_keyHistory := mapSet (sk_id newKey) newKey (sl_keyHistory st)\<rparr>"

end
