(* ===== verification/AuditCorrect.thy ===== *)
theory AuditCorrect
  imports AuditLog JsonCorrect
begin

text \<open>
  The lemmas on the audit log: the chain as a predicate on entries (\<open>linked\<close>), what the payload of
  an entry determines, and the file of a log as lines of JSON.
\<close>

section \<open>Entries as JSON\<close>

lemma map_of_optField: "map_of (optField k v @ m) k' = (if k' = k \<and> v \<noteq> None then v else map_of m k')"
  by (auto simp: optField_def split: option.splits)

lemma map_of_optField': "map_of (optField k v) k' = (if k' = k then v else None)"
  by (auto simp: optField_def split: option.splits)

lemma entry_fields:
  "jsonField (entryJson e) ''id'' = Some (JStr (ae_id e))"
  "jsonField (entryJson e) ''timestamp'' = Some (JStr (ae_timestamp e))"
  "jsonField (entryJson e) ''actor'' = Some (JStr (ae_actor e))"
  "jsonField (entryJson e) ''action'' = Some (JStr (ae_action e))"
  "jsonField (entryJson e) ''resource'' = Some (JStr (ae_resource e))"
  "jsonField (entryJson e) ''policy'' = map_option JStr (ae_policy e)"
  "jsonField (entryJson e) ''decision'' = Some (JStr (decisionText (ae_decision e)))"
  "jsonField (entryJson e) ''details'' = map_option JObj (ae_details e)"
  "jsonField (entryJson e) ''previousHash'' = map_option JStr (ae_previousHash e)"
  "jsonField (entryJson e) ''hash'' = map_option JStr (ae_hash e)"
  by (simp_all add: entryJson_def map_of_optField map_of_optField' del: map_of_append)

lemma hashPayload_entry: "hashPayload (entryJson e) p = JObj
    ([(''id'', JStr (ae_id e)), (''timestamp'', JStr (ae_timestamp e)), (''actor'', JStr (ae_actor e)),
      (''action'', JStr (ae_action e)), (''resource'', JStr (ae_resource e))] @
     optField ''policy'' (map_option JStr (ae_policy e)) @
     [(''decision'', JStr (decisionText (ae_decision e)))] @
     optField ''details'' (map_option JObj (ae_details e)) @ [(''previousHash'', orNull p)])"
  by (simp add: hashPayload_def entry_fields) (simp add: optField_def)

definition entryOk :: "audit_entry \<Rightarrow> bool" where
  "entryOk e \<longleftrightarrow> (case ae_details e of None \<Rightarrow> True | Some d \<Rightarrow> jsonOk (JObj d))"

lemma jsonOk_entry: "entryOk e \<Longrightarrow> jsonOk (entryJson e)"
  by (auto simp: entryJson_def entryOk_def optField_def split: option.splits)

lemma jsonOk_payload: "entryOk e \<Longrightarrow> jsonOk (hashPayload (entryJson e) (map_option JStr p))"
  by (cases p) (auto simp: hashPayload_entry entryOk_def optField_def split: option.splits)

lemma decisionText_inj: "decisionText d = decisionText d' \<Longrightarrow> d = d'"
  by (cases d; cases d') auto

text \<open>The hashed text determines the entry up to its own hash, and the hash before it.\<close>

lemma payload_determines:
  assumes "entryOk e" "entryOk f"
    and "stringify (hashPayload (entryJson e) (map_option JStr p)) =
      stringify (hashPayload (entryJson f) (map_option JStr q))"
  shows "p = q \<and> e\<lparr>ae_hash := h, ae_previousHash := u\<rparr> = f\<lparr>ae_hash := h, ae_previousHash := u\<rparr>"
proof -
  have eq: "hashPayload (entryJson e) (map_option JStr p) = hashPayload (entryJson f) (map_option JStr q)"
    using parse_stringify [OF jsonOk_payload [OF assms(1)]] parse_stringify [OF jsonOk_payload [OF assms(2)]]
      assms(3) by (metis option.inject)
  show ?thesis
    using eq decisionText_inj
    by (cases e; cases f; cases p; cases q)
      (auto simp: hashPayload_entry optField_def split: option.splits)
qed

section \<open>The chain\<close>

fun linked :: "(string \<Rightarrow> string) \<Rightarrow> string option \<Rightarrow> audit_entry list \<Rightarrow> bool" where
  "linked sha prev [] = True"
| "linked sha prev (e # es) = (ae_previousHash e = prev \<and>
     ae_hash e = Some (computeEntryHash sha (entryJson e) (map_option JStr prev)) \<and> linked sha (ae_hash e) es)"

lemma strictEq_text: "strictEq (map_option JStr a) (map_option JStr b) \<longleftrightarrow> a = b"
  "strictEq (map_option JStr a) (Some (JStr t)) \<longleftrightarrow> a = Some t"
  by (cases a; cases b; simp)+

lemma entryJson_not_null [simp]: "entryJson e \<noteq> JNull"
  by (simp add: entryJson_def)

lemma chainFrom_linked:
  "chainFrom sha i (map_option JStr prev) (map entryJson es) = Some Intact \<longleftrightarrow> linked sha prev es"
proof (induction es arbitrary: i prev)
  case (Cons e es)
  from Cons.IH [of "i + 1" "ae_hash e"] show ?case
    by (auto simp: entry_fields strictEq_text simp del: strictEq.simps)
qed simp

lemma linked_snoc:
  "linked sha prev (es @ [e]) \<longleftrightarrow>
    linked sha prev es \<and> linked sha (if es = [] then prev else ae_hash (last es)) [e]"
  by (induction es arbitrary: prev) auto

lemma verify_linked: "verifyIntegrity sha es = Some Intact \<longleftrightarrow> linked sha None es"
  using chainFrom_linked [of sha 0 None es] by (simp add: verifyIntegrity_def)

lemma linked_prefix: "linked sha prev (es @ fs) \<Longrightarrow> linked sha prev es"
  by (induction es arbitrary: prev) auto

section \<open>Recording\<close>

lemma recordEntry_linked:
  "linked sha None (al_log st) \<Longrightarrow> linked sha None (al_log (snd (recordEntry sha now inp st)))"
  by (auto simp: recordEntry_def Let_def linked_snoc computeEntryHash_def hashPayload_entry)

lemma recordEntry_log: "al_log (snd (recordEntry sha now inp st)) = al_log st @ [fst (recordEntry sha now inp st)]"
  by (simp add: recordEntry_def Let_def)

definition inputOk :: "audit_input \<Rightarrow> bool" where
  "inputOk i \<longleftrightarrow> (case ai_details i of None \<Rightarrow> True | Some d \<Rightarrow> jsonOk (JObj d))"

lemma recordEntry_ok: "inputOk inp \<Longrightarrow> entryOk (fst (recordEntry sha now inp st))"
  by (simp add: recordEntry_def Let_def entryOk_def inputOk_def)

text \<open>A sequence of records, with the clock reading of each.\<close>

definition recordAll :: "(string \<Rightarrow> string) \<Rightarrow> (int \<times> audit_input) list \<Rightarrow> audit_log \<Rightarrow> audit_log" where
  "recordAll sha inputs st = fold (\<lambda>(now, inp) st. snd (recordEntry sha now inp st)) inputs st"

lemma recordAll_snoc: "recordAll sha (xs @ [(now, inp)]) st = snd (recordEntry sha now inp (recordAll sha xs st))"
  by (simp add: recordAll_def)

definition entryLine :: "audit_entry \<Rightarrow> string" where
  "entryLine e = jsonLine (entryJson e)"

lemma recordEntry_parts:
  "al_counter (snd (recordEntry sha now inp st)) = al_counter st + 1"
  "al_sink (snd (recordEntry sha now inp st)) = al_sink st"
  "ae_id (fst (recordEntry sha now inp st)) = generateId now (al_counter st + 1)"
  "al_files (snd (recordEntry sha now inp st)) = (case al_sink st of None \<Rightarrow> al_files st
     | Some p \<Rightarrow> fileSinkWrite p (fst (recordEntry sha now inp st)) (al_files st))"
  by (cases "al_sink st"; simp add: recordEntry_def Let_def)+

text \<open>What a log created over a fresh sink file is after any records.\<close>

lemma recordAll_state:
  fixes sha inputs c p fs
  defines "st \<equiv> recordAll sha inputs (createAuditLog c (Some p) fs)"
  assumes "fs p = None"
  shows "linked sha None (al_log st)" "al_counter st = c + length inputs" "al_sink st = Some p"
    "length (al_log st) = length inputs"
    "\<forall>i < length (al_log st). \<exists>now. ae_id (al_log st ! i) = generateId now (c + i + 1)"
    "(\<forall>x \<in> set inputs. inputOk (snd x)) \<longrightarrow> (\<forall>e \<in> set (al_log st). entryOk e)"
    "al_files st p = (if inputs = [] then None else Some (concat (map entryLine (al_log st))))"
    "\<forall>q. q \<noteq> p \<longrightarrow> al_files st q = fs q"
  using assms(2) unfolding st_def
proof (induction inputs rule: rev_induct)
  case Nil
  { case 1 then show ?case by (simp add: recordAll_def createAuditLog_def)
  next case 2 then show ?case by (simp add: recordAll_def createAuditLog_def)
  next case 3 then show ?case by (simp add: recordAll_def createAuditLog_def)
  next case 4 then show ?case by (simp add: recordAll_def createAuditLog_def)
  next case 5 then show ?case by (simp add: recordAll_def createAuditLog_def)
  next case 6 then show ?case by (simp add: recordAll_def createAuditLog_def)
  next case 7 then show ?case by (simp add: recordAll_def createAuditLog_def)
  next case 8 then show ?case by (simp add: recordAll_def createAuditLog_def) }
next
  case (snoc x inputs)
  obtain now inp where x: "x = (now, inp)" by fastforce
  note simps = recordAll_snoc recordEntry_log recordEntry_parts
  { case 1 then show ?case unfolding x recordAll_snoc using recordEntry_linked [OF snoc.IH(1)] by simp
  next case 2 then show ?case unfolding x using snoc.IH(2) by (simp add: simps)
  next case 3 then show ?case unfolding x using snoc.IH(3) by (simp add: simps)
  next case 4 then show ?case unfolding x using snoc.IH(4) by (simp add: simps)
  next case 5 then show ?case unfolding x using snoc.IH(2,4,5)
      by (auto simp: simps nth_append less_Suc_eq)
  next case 6 then show ?case unfolding x using snoc.IH(6) by (auto simp: simps recordEntry_ok)
  next case 7 then show ?case unfolding x using snoc.IH(3,4,7)
      by (auto simp: simps fileSinkWrite_def entryLine_def jsonLine_def)
  next case 8 then show ?case unfolding x using snoc.IH(3,8) by (auto simp: simps fileSinkWrite_def) }
qed

section \<open>The file\<close>

definition braced :: "string \<Rightarrow> bool" where
  "braced t \<longleftrightarrow> (\<exists>s. t = CHR ''{'' # s @ ''}'')"

lemma braced_entry: "braced (stringify (entryJson e))"
  by (auto simp: braced_def entryJson_def)

lemma braced_join: "xs \<noteq> [] \<Longrightarrow> \<forall>x \<in> set xs. braced x \<Longrightarrow> braced (joinWith sep xs)"
proof (induction xs)
  case (Cons x xs)
  show ?case
  proof (cases "xs = []")
    case False
    then obtain s t where "x = CHR ''{'' # s @ ''}''" "joinWith sep xs = CHR ''{'' # t @ ''}''"
      using Cons by (auto simp: braced_def)
    then have "joinWith sep (x # xs) = CHR ''{'' # (s @ ''}'' @ sep @ CHR ''{'' # t) @ ''}''"
      using False by (simp add: joinWith_Cons)
    then show ?thesis unfolding braced_def by blast
  qed (use Cons in simp)
qed simp

lemma trim_braced: "braced t \<Longrightarrow> trim (t @ newline) = t"
  by (auto simp: braced_def trim_def trimStart_def trimEnd_def isSpace_def newline_def)

lemma loadEntries_lines:
  assumes "fs p = Some (concat (map entryLine es))" "es \<noteq> []" "\<forall>e \<in> set es. entryOk e"
  shows "loadEntriesFromFile p fs = Some (map entryJson es)"
proof -
  define xs where "xs = map (\<lambda>e. stringify (entryJson e)) es"
  have xs: "xs \<noteq> []" "\<forall>x \<in> set xs. braced x" using assms(2) by (auto simp: xs_def braced_entry)
  have "joinWith newline xs @ newline = concat (map entryLine es)"
    using jsonl_body [of "map entryJson es"] assms(2) by (simp add: xs_def entryLine_def [abs_def] comp_def)
  then have "trim (concat (map entryLine es)) = joinWith newline xs"
    using trim_braced [OF braced_join [OF xs]] by metis
  moreover have "\<forall>x \<in> set xs. CHR 10 \<notin> set x"
    using assms(3) by (auto simp: xs_def stringify_line jsonOk_entry)
  then have "splitOn (CHR 10) (joinWith newline xs) = xs"
    unfolding newline_def using splitOn_lines xs(1) by blast
  moreover have "filter (\<lambda>l. l \<noteq> []) xs = xs" using xs(2) by (auto simp: braced_def filter_id_conv)
  moreover have "those (map parseJson xs) = Some (map entryJson es)"
    unfolding xs_def map_map comp_def
    by (rule those_map_Some) (use assms(3) in \<open>simp add: parse_stringify jsonOk_entry\<close>)
  ultimately show ?thesis by (simp add: loadEntriesFromFile_def assms(1))
qed

section \<open>Identifiers\<close>

lemma showNat_no_dash: "CHR ''-'' \<notin> set (showNat n)"
proof -
  have "list_all isDigit (showNat n)" using showNat_digits by blast
  then show ?thesis by (auto simp: list_all_iff isDigit_def)
qed

lemma generateId_counter: "generateId a m = generateId b n \<Longrightarrow> m = n"
proof -
  assume "generateId a m = generateId b n"
  then have "showInt a @ ''-'' @ showNat m = showInt b @ ''-'' @ showNat n" by (simp add: generateId_def)
  from arg_cong [OF this, of rev]
  have "rev (showNat m) @ CHR ''-'' # rev (showInt a) = rev (showNat n) @ CHR ''-'' # rev (showInt b)" by simp
  then have "takeWhile (\<lambda>c. c \<noteq> CHR ''-'') (rev (showNat m) @ CHR ''-'' # rev (showInt a)) =
      takeWhile (\<lambda>c. c \<noteq> CHR ''-'') (rev (showNat n) @ CHR ''-'' # rev (showInt b))"
    by simp
  moreover have "takeWhile (\<lambda>c. c \<noteq> CHR ''-'') (rev (showNat k) @ CHR ''-'' # s) = rev (showNat k)" for k s
    using showNat_no_dash [of k] by (subst takeWhile_append2) auto
  ultimately show "m = n" by (simp add: showNat_inj)
qed

end
