(* ===== verification/AuditProps.thy ===== *)
theory AuditProps
  imports AuditCorrect
begin

text \<open>
  The properties of the audit log: a recorded log and its file verify, the last hash pins the whole
  log, and the signed log verifies across key rotations.
\<close>

section \<open>Recorded logs\<close>

text \<open>C14. A log that was only recorded to verifies, in memory and from its file: after any records
  with details that are plain JSON, starting from a fresh log over a file that does not exist, the
  chain is intact, no two entries have the same id, the file loads back as exactly the entries in
  order and verifies, and no other file was touched.\<close>

theorem recorded_log_verifies:
  assumes "fs p = None" "\<forall>x \<in> set inputs. inputOk (snd x)"
    and "st = recordAll sha inputs (createAuditLog c (Some p) fs)"
  shows "verifyIntegrity sha (al_log st) = Some Intact \<and> length (al_log st) = length inputs \<and>
    distinct (map ae_id (al_log st)) \<and>
    loadEntriesFromFile p (al_files st) = Some (map entryJson (al_log st)) \<and>
    verifyFileIntegrity sha p (al_files st) = Some Intact \<and> (\<forall>q. q \<noteq> p \<longrightarrow> al_files st q = fs q)"
proof -
  note state = recordAll_state [of fs p, OF assms(1), where sha = sha and inputs = inputs and c = c, folded assms(3)]
  have ok: "\<forall>e \<in> set (al_log st). entryOk e" using state(6) assms(2) by blast
  have load: "loadEntriesFromFile p (al_files st) = Some (map entryJson (al_log st))"
  proof (cases "inputs = []")
    case True
    then show ?thesis using state(4,7) by (simp add: loadEntriesFromFile_def)
  next
    case False
    then have "al_log st \<noteq> []" using state(4) by auto
    then show ?thesis using loadEntries_lines [OF _ _ ok] state(7) False by simp
  qed
  have "distinct (map ae_id (al_log st))"
    unfolding distinct_conv_nth
  proof (intro allI impI)
    fix i j assume "i < length (map ae_id (al_log st))" "j < length (map ae_id (al_log st))" "i \<noteq> j"
    moreover from this obtain a b where "ae_id (al_log st ! i) = generateId a (c + i + 1)"
        "ae_id (al_log st ! j) = generateId b (c + j + 1)"
      using state(5) by fastforce
    ultimately show "map ae_id (al_log st) ! i \<noteq> map ae_id (al_log st) ! j"
      using generateId_counter [of a "c + i + 1" b "c + j + 1"] by auto
  qed
  moreover have "verifyIntegrity sha (al_log st) = Some Intact" using state(1) by (simp add: verify_linked)
  ultimately show ?thesis
    using load state(4,8) by (auto simp: verifyFileIntegrity_def verifyIntegrity_def split: if_splits)
qed

definition sampleInput :: "string \<Rightarrow> audit_input" where
  "sampleInput a = \<lparr>ai_timestamp = Some ''t'', ai_actor = a, ai_action = ''x'', ai_resource = ''r'',
     ai_policy = None, ai_decision = Allowed, ai_details = Some [(''k'', JNum 1)]\<rparr>"

theorem recorded_log_verifies_witness:
  "verifyFileIntegrity (\<lambda>s. s) ''f'' (al_files (recordAll (\<lambda>s. s) [(0, sampleInput ''a''), (5, sampleInput ''b'')]
     (createAuditLog 0 (Some ''f'') Map.empty))) = Some Intact"
  using recorded_log_verifies [of Map.empty "''f''" "[(0, sampleInput ''a''), (5, sampleInput ''b'')]" _ "\<lambda>s. s" 0]
  by (simp add: inputOk_def sampleInput_def)

section \<open>Tampering\<close>

definition payloadText :: "audit_entry \<Rightarrow> string" where
  "payloadText e = stringify (hashPayload (entryJson e) (map_option JStr (ae_previousHash e)))"

lemma linked_entry: "linked sha p [e] \<Longrightarrow> ae_hash e = Some (sha (payloadText e)) \<and> ae_previousHash e = p"
  by (simp add: payloadText_def computeEntryHash_def)

lemma entry_pinned:
  assumes "entryOk e" "entryOk f" "payloadText e = payloadText f" "ae_hash e = ae_hash f"
  shows "e = f"
proof -
  have "ae_previousHash e = ae_previousHash f \<and>
      e\<lparr>ae_hash := ae_hash e, ae_previousHash := ae_previousHash e\<rparr> =
      f\<lparr>ae_hash := ae_hash e, ae_previousHash := ae_previousHash e\<rparr>"
    by (rule payload_determines [OF assms(1,2) assms(3) [unfolded payloadText_def]])
  then show ?thesis using assms(4) by (cases e; cases f) simp
qed

text \<open>C15. The last hash pins the whole log: two logs that both verify and whose last entries carry
  the same hash are the same log, entry by entry and with the same length, when the digest does not
  collide on the texts hashed for their entries. So no entry can be changed, dropped, added or moved
  before the last one without changing the last hash.\<close>

theorem last_hash_pins_log:
  assumes "verifyIntegrity sha es = Some Intact" "verifyIntegrity sha fs = Some Intact"
    and "es \<noteq> []" "fs \<noteq> []" "ae_hash (last es) = ae_hash (last fs)"
    and "\<forall>e \<in> set (es @ fs). entryOk e" "inj_on sha (payloadText ` set (es @ fs))"
  shows "es = fs"
  using assms unfolding verify_linked
proof (induction es arbitrary: fs rule: rev_induct)
  case (snoc e es)
  obtain gs f where fs: "fs = gs @ [f]" using snoc.prems(4) by (cases fs rule: rev_cases) auto
  have le: "linked sha None es" "linked sha (if es = [] then None else ae_hash (last es)) [e]"
    using snoc.prems(1) by (simp_all only: linked_snoc)
  have lf: "linked sha None gs" "linked sha (if gs = [] then None else ae_hash (last gs)) [f]"
    using snoc.prems(2) unfolding fs by (simp_all only: linked_snoc)
  have "sha (payloadText e) = sha (payloadText f)"
    using linked_entry [OF le(2)] linked_entry [OF lf(2)] snoc.prems(5) by (simp add: fs)
  then have "payloadText e = payloadText f" by (rule inj_onD [OF snoc.prems(7)]) (simp_all add: fs)
  then have ef: "e = f" using entry_pinned snoc.prems(5,6) by (simp add: fs)
  have prev: "(if es = [] then None else ae_hash (last es)) = (if gs = [] then None else ae_hash (last gs))"
    using linked_entry [OF le(2)] linked_entry [OF lf(2)] ef by simp
  have some: "ae_hash (last xs) \<noteq> None" if "linked sha None xs" "xs \<noteq> []" for xs
    using that linked_snoc [of sha None "butlast xs" "last xs"] linked_entry by fastforce
  show ?case
  proof (cases "es = []")
    case True
    then show ?thesis using prev some [OF lf(1)] ef fs by (auto split: if_splits)
  next
    case False
    then have "gs \<noteq> []" using prev some [OF le(1)] by (auto split: if_splits)
    moreover have "inj_on sha (payloadText ` set (es @ gs))"
      by (rule inj_on_subset [OF snoc.prems(7)]) (auto simp: fs)
    ultimately have "es = gs"
      using snoc.IH [OF le(1) lf(1) False] prev False snoc.prems(6) by (simp add: fs)
    then show ?thesis using ef fs by simp
  qed
qed simp

theorem last_hash_pins_log_witness:
  "al_log (recordAll (\<lambda>s. s) [(0, sampleInput ''a''), (5, sampleInput ''b'')] (createAuditLog 0 (Some ''f'') Map.empty)) =
   al_log (recordAll (\<lambda>s. s) [(0, sampleInput ''a''), (5, sampleInput ''b'')] (createAuditLog 0 (Some ''g'') Map.empty))"
proof -
  let ?i = "[(0, sampleInput ''a''), (5, sampleInput ''b'')]"
  let ?e = "al_log (recordAll (\<lambda>s. s) ?i (createAuditLog 0 (Some ''f'') Map.empty))"
  let ?g = "al_log (recordAll (\<lambda>s. s) ?i (createAuditLog 0 (Some ''g'') Map.empty))"
  have ok: "\<forall>x \<in> set ?i. inputOk (snd x)" by (simp add: inputOk_def sampleInput_def)
  note f = recordAll_state [where fs = Map.empty and p = "''f''" and inputs = ?i and sha = "\<lambda>s. s" and c = 0, simplified]
  note g = recordAll_state [where fs = Map.empty and p = "''g''" and inputs = ?i and sha = "\<lambda>s. s" and c = 0, simplified]
  have "verifyIntegrity (\<lambda>s. s) ?e = Some Intact" "verifyIntegrity (\<lambda>s. s) ?g = Some Intact"
    using f(1) g(1) by (simp_all add: verify_linked)
  moreover have "?e \<noteq> []" "?g \<noteq> []" using f(4) g(4) by force+
  moreover have "ae_hash (last ?e) = ae_hash (last ?g)" by (simp add: recordAll_def recordEntry_def createAuditLog_def Let_def)
  moreover have "\<forall>e \<in> set (?e @ ?g). entryOk e" using f(6) g(6) ok by auto
  ultimately show ?thesis by (rule last_hash_pins_log) simp
qed

text \<open>What the chain does not show: a log cut off after any entry still verifies.\<close>

lemma truncation_undetected: "verifyIntegrity sha (es @ fs) = Some Intact \<Longrightarrow> verifyIntegrity sha es = Some Intact"
  unfolding verify_linked by (rule linked_prefix)


section \<open>The signed log\<close>

datatype signed_op = SRecord int audit_input | SRotate signing_key

fun signedStep :: "(string \<Rightarrow> string) \<Rightarrow> keyed_hash \<Rightarrow> signed_op \<Rightarrow> signed_log \<Rightarrow> signed_log" where
  "signedStep sha hmac (SRecord now inp) st = snd (recordSigned sha hmac now inp st)"
| "signedStep sha hmac (SRotate key) st = rotateKey key st"

definition runSigned :: "(string \<Rightarrow> string) \<Rightarrow> keyed_hash \<Rightarrow> signed_op list \<Rightarrow> signed_log \<Rightarrow> signed_log" where
  "runSigned sha hmac ops st = fold (signedStep sha hmac) ops st"

definition rotatedKeys :: "signed_op list \<Rightarrow> signing_key list" where
  "rotatedKeys ops = List.map_filter (\<lambda>x. case x of SRotate k \<Rightarrow> Some k | _ \<Rightarrow> None) ops"

lemma unsigned_extend [simp]: "unsigned (audit_entry.extend e m) = e"
  by (simp add: unsigned_def audit_entry.defs)

lemma firstInvalid_None: "firstInvalid hmac keys i es = None \<longleftrightarrow>
    (\<forall>e \<in> set es. \<exists>k. mapGet keys (se_keyId e) = Some k \<and> verifySignature hmac e k)"
  by (induction es arbitrary: i) (auto split: option.splits)

text \<open>The invariant of a signed log over the keys it has used.\<close>

definition signedInv :: "(string \<Rightarrow> string) \<Rightarrow> keyed_hash \<Rightarrow> signing_key set \<Rightarrow> signed_log \<Rightarrow> bool" where
  "signedInv sha hmac K st \<longleftrightarrow> linked sha None (al_log (sl_inner st)) \<and>
     map unsigned (sl_signedEntries st) = al_log (sl_inner st) \<and> sl_currentKey st \<in> K \<and>
     (\<forall>k \<in> K. mapGet (sl_keyHistory st) (sk_id k) = Some k) \<and>
     (\<forall>e \<in> set (sl_signedEntries st). \<exists>k \<in> K. se_keyId e = sk_id k \<and> verifySignature hmac e k)"

lemma signedInv_record:
  "signedInv sha hmac K st \<Longrightarrow> signedInv sha hmac K (signedStep sha hmac (SRecord now inp) st)"
proof -
  assume inv: "signedInv sha hmac K st"
  define e where "e = fst (recordEntry sha now inp (sl_inner st))"
  define s where "s = audit_entry.extend e
    \<lparr>se_signature = signEntry hmac e (sl_currentKey st), se_keyId = sk_id (sl_currentKey st)\<rparr>"
  have "snd (recordSigned sha hmac now inp st) =
      st\<lparr>sl_inner := snd (recordEntry sha now inp (sl_inner st)), sl_signedEntries := sl_signedEntries st @ [s]\<rparr>"
    by (simp add: recordSigned_def s_def e_def split_beta Let_def)
  moreover have "verifySignature hmac s (sl_currentKey st)" "se_keyId s = sk_id (sl_currentKey st)" "unsigned s = e"
    by (simp_all add: verifySignature_def s_def) (simp_all add: audit_entry.defs)
  ultimately show ?thesis
    using inv recordEntry_linked recordEntry_log unfolding signedInv_def e_def by auto
qed

lemma signedInv_rotate:
  "signedInv sha hmac K st \<Longrightarrow> \<forall>k \<in> K. sk_id k = sk_id key \<longrightarrow> k = key \<Longrightarrow>
   signedInv sha hmac (insert key K) (signedStep sha hmac (SRotate key) st)"
  by (auto simp: signedInv_def rotateKey_def mapGet_mapSet)

lemma runSigned_inv:
  "signedInv sha hmac K st \<Longrightarrow> \<forall>k \<in> K \<union> set (rotatedKeys ops). \<forall>k' \<in> K \<union> set (rotatedKeys ops).
     sk_id k = sk_id k' \<longrightarrow> k = k' \<Longrightarrow>
   signedInv sha hmac (K \<union> set (rotatedKeys ops)) (runSigned sha hmac ops st)"
proof (induction ops arbitrary: K st)
  case Nil
  then show ?case by (simp add: runSigned_def rotatedKeys_def List.map_filter_def)
next
  case (Cons x ops)
  show ?case
  proof (cases x)
    case (SRecord now inp)
    have "rotatedKeys (x # ops) = rotatedKeys ops" by (simp add: rotatedKeys_def SRecord List.map_filter_def)
    then show ?thesis
      using Cons.IH [OF signedInv_record [OF Cons.prems(1)]] Cons.prems(2) SRecord by (simp add: runSigned_def)
  next
    case (SRotate key)
    have keys: "set (rotatedKeys (x # ops)) = insert key (set (rotatedKeys ops))"
      by (simp add: rotatedKeys_def SRotate List.map_filter_def)
    have "signedInv sha hmac (insert key K) (signedStep sha hmac x st)"
      unfolding SRotate by (rule signedInv_rotate [OF Cons.prems(1)]) (use Cons.prems(2) keys in auto)
    from Cons.IH [OF this] show ?thesis using Cons.prems(2) keys by (simp add: runSigned_def)
  qed
qed

text \<open>A signed log verifies whatever the order of records and key rotations, as long as no key id
  is ever used for two different keys: the chain is intact, every signature is valid under the key
  its entry names, and the signed entries are the log's entries.\<close>

theorem signed_log_verifies:
  assumes "\<forall>k \<in> set (key # rotatedKeys ops). \<forall>k' \<in> set (key # rotatedKeys ops). sk_id k = sk_id k' \<longrightarrow> k = k'"
    and "st = runSigned sha hmac ops (createSignedAuditLog c key sink fs)"
  shows "verifySigned sha hmac st = \<lparr>si_chain = Some Intact, si_signaturesValid = True, si_invalidSignatureAt = None\<rparr> \<and>
    map unsigned (sl_signedEntries st) = al_log (sl_inner st)"
proof -
  have "signedInv sha hmac {key} (createSignedAuditLog c key sink fs)"
    by (simp add: signedInv_def createSignedAuditLog_def createAuditLog_def)
  from runSigned_inv [OF this, of ops] have inv: "signedInv sha hmac ({key} \<union> set (rotatedKeys ops)) st"
    using assms by simp
  then have "firstInvalid hmac (sl_keyHistory st) 0 (sl_signedEntries st) = None"
    unfolding firstInvalid_None signedInv_def by metis
  then show ?thesis using inv by (simp add: verifySigned_def signedInv_def verify_linked)
qed

definition sampleKey :: "string \<Rightarrow> string \<Rightarrow> signing_key" where
  "sampleKey i s = \<lparr>sk_id = i, sk_secret = s, sk_algorithm = None\<rparr>"

definition toyHmac :: keyed_hash where
  "toyHmac a s t = a @ s @ t"

theorem signed_log_verifies_witness:
  "si_signaturesValid (verifySigned (\<lambda>s. s) toyHmac (runSigned (\<lambda>s. s) toyHmac
     [SRecord 0 (sampleInput ''a''), SRotate (sampleKey ''k2'' ''y''), SRecord 1 (sampleInput ''b'')]
     (createSignedAuditLog 0 (sampleKey ''k1'' ''x'') None Map.empty)))"
  using signed_log_verifies [of "sampleKey ''k1'' ''x''"
      "[SRecord 0 (sampleInput ''a''), SRotate (sampleKey ''k2'' ''y''), SRecord 1 (sampleInput ''b'')]" _
      "\<lambda>s. s" toyHmac 0 None Map.empty]
  by (simp add: rotatedKeys_def List.map_filter_def sampleKey_def)

text \<open>A rotation that reuses a key id replaces the key, and with it the check of the entries
  already signed.\<close>

lemma reused_key_id_invalidates:
  "si_invalidSignatureAt (verifySigned (\<lambda>s. []) toyHmac (runSigned (\<lambda>s. []) toyHmac
     [SRecord 0 (sampleInput ''a''), SRotate (sampleKey ''k1'' ''y'')]
     (createSignedAuditLog 0 (sampleKey ''k1'' ''x'') None Map.empty))) = Some 0"
  by code_simp

text \<open>The sink of a signed log receives the entries without their signatures.\<close>

lemma sink_gets_unsigned_entry:
  "sl_inner (snd (recordSigned sha hmac now inp st)) = snd (recordEntry sha now inp (sl_inner st))"
  by (simp add: recordSigned_def split_beta Let_def)

end
