(* ===== verification/Reconciler.thy ===== *)
theory Reconciler
  imports Json Compare Complex_Main
begin

text \<open>
  The reconciliation loop, \<open>reference/src/reconciler/\<close>: \<open>loop.ts\<close> (the queue and its workers),
  \<open>index.ts\<close> (\<open>calculateBackoff\<close>), \<open>types.ts\<close> (results and configuration) and \<open>diff.ts\<close> (the
  fingerprint cache). Each method and each callback of the loop is one step on the state; a
  settled promise, a timeout and an interval are events, which may come in any order. The
  reconciler itself is outside: an event says with which result a call of it settled. It does not
  call back into the loop before its first \<open>await\<close>. Times and priorities are integers;
  \<open>Math.random()\<close> is an argument.
\<close>

section \<open>Resources, results, configuration\<close>

datatype reconcile_result = RSuccess | RError | RRequeue | RRequeueAfter int

record reconciler_config =
  rc_periodicIntervalMs :: int
  rc_maxBackoffMs :: int
  rc_initialBackoffMs :: int
  rc_maxConcurrency :: nat

definition DEFAULT_RECONCILER_CONFIG :: reconciler_config where
  "DEFAULT_RECONCILER_CONFIG = \<lparr>rc_periodicIntervalMs = 30000, rc_maxBackoffMs = 300000,
     rc_initialBackoffMs = 1000, rc_maxConcurrency = 10\<rparr>"

text \<open>\<open>random\<close> lies in \<open>[0, 1)\<close>.\<close>

definition calculateBackoff :: "nat \<Rightarrow> reconciler_config \<Rightarrow> rat \<Rightarrow> int" where
  "calculateBackoff attempt config random =
    (let backoff = min (rc_initialBackoffMs config * 2 ^ attempt) (rc_maxBackoffMs config);
         jitter = of_int backoff * (1 / 10) * random
     in \<lfloor>of_int backoff + jitter\<rfloor>)"

section \<open>The loop\<close>

record queue_item =
  qi_resource :: any_resource
  qi_attempt :: nat
  qi_priority :: "int option"

text \<open>
  Beside the fields of the class: the live intervals (numbered), the calls of the reconciler whose
  promise has not settled, the timeouts that have not fired, with their delay, and every call made.
\<close>

record loop_state =
  ls_queue :: "(string, queue_item) jsmap"
  ls_active :: "string list"
  ls_known :: "(string, any_resource) jsmap"
  ls_priorities :: "(string, int) jsmap"
  ls_timer :: "nat option"
  ls_running :: bool
  ls_intervals :: "nat list"
  ls_nextInterval :: nat
  ls_inflight :: "(string \<times> queue_item) list"
  ls_timeouts :: "(string \<times> queue_item \<times> int) list"
  ls_calls :: "any_resource list"

definition initialLoop :: loop_state where
  "initialLoop = \<lparr>ls_queue = [], ls_active = [], ls_known = [], ls_priorities = [], ls_timer = None,
     ls_running = False, ls_intervals = [], ls_nextInterval = 0, ls_inflight = [], ls_timeouts = [],
     ls_calls = []\<rparr>"

definition priorityOrder :: "string \<times> queue_item \<Rightarrow> string \<times> queue_item \<Rightarrow> int" where
  "priorityOrder a b = orElse (qi_priority (snd b)) 0 - orElse (qi_priority (snd a)) 0"

definition startItem :: "string \<times> queue_item \<Rightarrow> loop_state \<Rightarrow> loop_state" where
  "startItem e st = st\<lparr>ls_queue := AList.delete (fst e) (ls_queue st), ls_active := setAdd (fst e) (ls_active st),
     ls_inflight := ls_inflight st @ [e], ls_calls := ls_calls st @ [qi_resource (snd e)]\<rparr>"

definition processQueue :: "reconciler_config \<Rightarrow> loop_state \<Rightarrow> loop_state" where
  "processQueue config st =
    (if \<not> ls_running st then st
     else let available = int (rc_maxConcurrency config) - int (length (ls_active st)) in
       if available \<le> 0 then st
       else fold startItem (take (nat available) (sortBy priorityOrder (ls_queue st))) st)"

definition enqueue :: "reconciler_config \<Rightarrow> any_resource \<Rightarrow> int option \<Rightarrow> loop_state \<Rightarrow> loop_state" where
  "enqueue config resource priority st =
    (let name = rs_name resource;
         st1 = (case priority of None \<Rightarrow> st | Some p \<Rightarrow> st\<lparr>ls_priorities := mapSet name p (ls_priorities st)\<rparr>)
     in if name \<in> set (ls_active st1) \<or> mapHas (ls_queue st1) name then st1
        else let st2 = st1\<lparr>ls_queue := mapSet name \<lparr>qi_resource = resource, qi_attempt = 0, qi_priority = priority\<rparr>
                             (ls_queue st1),
                           ls_known := mapSet name resource (ls_known st1)\<rparr>
             in if ls_running st2 then processQueue config st2 else st2)"

definition startLoop :: "reconciler_config \<Rightarrow> loop_state \<Rightarrow> loop_state" where
  "startLoop config st =
    (let st1 = processQueue config (st\<lparr>ls_running := True\<rparr>); n = ls_nextInterval st1
     in st1\<lparr>ls_timer := Some n, ls_intervals := ls_intervals st1 @ [n], ls_nextInterval := n + 1\<rparr>)"

definition stopLoop :: "loop_state \<Rightarrow> loop_state" where
  "stopLoop st =
    (let st1 = st\<lparr>ls_running := False\<rparr>
     in case ls_timer st1 of None \<Rightarrow> st1
        | Some n \<Rightarrow> st1\<lparr>ls_intervals := removeAll n (ls_intervals st1), ls_timer := None\<rparr>)"

definition queueSize :: "loop_state \<Rightarrow> nat" where
  "queueSize st = length (ls_queue st)"

definition activeCount :: "loop_state \<Rightarrow> nat" where
  "activeCount st = length (ls_active st)"

text \<open>The callback of an interval.\<close>

definition requeueKnown :: "string \<times> any_resource \<Rightarrow> loop_state \<Rightarrow> loop_state" where
  "requeueKnown kr st =
    (if fst kr \<notin> set (ls_active st) \<and> \<not> mapHas (ls_queue st) (fst kr)
     then st\<lparr>ls_queue := mapSet (fst kr) \<lparr>qi_resource = snd kr, qi_attempt = 0,
                qi_priority = mapGet (ls_priorities st) (fst kr)\<rparr> (ls_queue st)\<rparr>
     else st)"

definition periodicTick :: "reconciler_config \<Rightarrow> loop_state \<Rightarrow> loop_state" where
  "periodicTick config st = processQueue config (fold requeueKnown (ls_known st) st)"

text \<open>The callback of a settled call: the call leaves \<open>ls_inflight\<close>.\<close>

definition settle :: "reconciler_config \<Rightarrow> nat \<Rightarrow> reconcile_result \<Rightarrow> rat \<Rightarrow> loop_state \<Rightarrow> loop_state" where
  "settle config k result random st =
    (let (name, item) = ls_inflight st ! k;
         st1 = st\<lparr>ls_inflight := take k (ls_inflight st) @ drop (k + 1) (ls_inflight st),
                  ls_active := removeAll name (ls_active st)\<rparr>;
         again = \<lparr>qi_resource = qi_resource item, qi_attempt = 0, qi_priority = qi_priority item\<rparr>
     in if \<not> ls_running st then st1
        else case result of
          RSuccess \<Rightarrow> processQueue config st1
        | RError \<Rightarrow>
            (let nextAttempt = qi_attempt item + 1; delay = calculateBackoff nextAttempt config random
             in st1\<lparr>ls_timeouts := ls_timeouts st1 @ [(name, item\<lparr>qi_attempt := nextAttempt\<rparr>, delay)]\<rparr>)
        | RRequeue \<Rightarrow> processQueue config (st1\<lparr>ls_queue := mapSet name again (ls_queue st1)\<rparr>)
        | RRequeueAfter delayMs \<Rightarrow> st1\<lparr>ls_timeouts := ls_timeouts st1 @ [(name, again, delayMs)]\<rparr>)"

text \<open>The callback of a timeout.\<close>

definition fireTimeout :: "reconciler_config \<Rightarrow> nat \<Rightarrow> loop_state \<Rightarrow> loop_state" where
  "fireTimeout config k st =
    (let (name, item, delay) = ls_timeouts st ! k;
         st1 = st\<lparr>ls_timeouts := take k (ls_timeouts st) @ drop (k + 1) (ls_timeouts st)\<rparr>
     in if \<not> ls_running st1 then st1
        else processQueue config (st1\<lparr>ls_queue := mapSet name item (ls_queue st1)\<rparr>))"

datatype loop_event =
  Enqueue any_resource "int option"
| Start
| Stop
| Tick nat
| Settle nat reconcile_result rat
| Timeout nat

text \<open>One event; \<open>None\<close> when it cannot happen in the state.\<close>

fun loopStep :: "reconciler_config \<Rightarrow> loop_event \<Rightarrow> loop_state \<Rightarrow> loop_state option" where
  "loopStep config (Enqueue r p) st = Some (enqueue config r p st)"
| "loopStep config Start st = Some (startLoop config st)"
| "loopStep config Stop st = Some (stopLoop st)"
| "loopStep config (Tick n) st = (if n \<in> set (ls_intervals st) then Some (periodicTick config st) else None)"
| "loopStep config (Settle k result random) st =
    (if k < length (ls_inflight st) \<and> 0 \<le> random \<and> random < 1 then Some (settle config k result random st) else None)"
| "loopStep config (Timeout k) st =
    (if k < length (ls_timeouts st) then Some (fireTimeout config k st) else None)"

fun runLoop :: "reconciler_config \<Rightarrow> loop_event list \<Rightarrow> loop_state \<Rightarrow> loop_state option" where
  "runLoop config [] st = Some st"
| "runLoop config (e # es) st = Option.bind (loopStep config e st) (runLoop config es)"

section \<open>Change detection\<close>

definition fingerprintPayload :: "any_resource \<Rightarrow> json" where
  "fingerprintPayload r = JObj (optMember ''spec'' (rs_spec r) @
     [(''metadata'', JObj ([(''name'', JStr (rs_name r))] @ optMember ''labels'' (rs_labels r) @
        optMember ''annotations'' (rs_annotations r)))])"

definition resourceFingerprint :: "(string \<Rightarrow> string) \<Rightarrow> any_resource \<Rightarrow> string" where
  "resourceFingerprint sha r = sha (stringify (fingerprintPayload r))"

definition hasSpecChanged :: "(string \<Rightarrow> string) \<Rightarrow> any_resource \<Rightarrow> any_resource \<Rightarrow> bool" where
  "hasSpecChanged sha previous current \<longleftrightarrow> resourceFingerprint sha previous \<noteq> resourceFingerprint sha current"

type_synonym resource_cache = "(string, string) jsmap"

definition shouldReconcile :: "(string \<Rightarrow> string) \<Rightarrow> any_resource \<Rightarrow> resource_cache \<Rightarrow> bool \<times> resource_cache" where
  "shouldReconcile sha r cache =
    (let name = rs_name r; fingerprint = resourceFingerprint sha r
     in if mapGet cache name = Some fingerprint then (False, cache)
        else (True, mapSet name fingerprint cache))"

definition clearCache :: "resource_cache \<Rightarrow> resource_cache" where
  "clearCache cache = []"

definition cacheSize :: "resource_cache \<Rightarrow> nat" where
  "cacheSize cache = length cache"

end
