(* ===== verification/ReconcilerProps.thy ===== *)
theory ReconcilerProps
  imports Reconciler JsonCorrect
begin

text \<open>
  The reconciliation loop under any order of its events: the invariant of its queue and workers,
  progress, exclusive runs as long as nothing is retried, and what retries break.
\<close>

section \<open>Starting items\<close>

lemma delete_filter: "AList.delete k m = filter (\<lambda>e. fst e \<noteq> k) m"
  by (auto simp: AList.delete_eq intro!: filter_cong)

lemma fold_startItem:
  "fold startItem es st = st\<lparr>ls_queue := filter (\<lambda>e. fst e \<notin> fst ` set es) (ls_queue st),
     ls_active := fold setAdd (map fst es) (ls_active st), ls_inflight := ls_inflight st @ es,
     ls_calls := ls_calls st @ map (qi_resource \<circ> snd) es\<rparr>"
  by (induction es arbitrary: st) (auto simp: startItem_def delete_filter conj_commute intro!: filter_cong)

lemma set_fold_setAdd: "set (fold setAdd xs ys) = set xs \<union> set ys"
  by (induction xs arbitrary: ys) auto

lemma distinct_fold_setAdd: "distinct ys \<Longrightarrow> distinct (fold setAdd xs ys)"
  by (induction xs arbitrary: ys) auto

lemma length_fold_setAdd: "length (fold setAdd xs ys) \<le> length xs + length ys"
proof (induction xs arbitrary: ys)
  case (Cons x xs)
  have "length (setAdd x ys) \<le> Suc (length ys)" by (simp add: setAdd_def)
  then show ?case using Cons [of "setAdd x ys"] by simp
qed simp

text \<open>The items a pass takes off the queue.\<close>

definition taken :: "reconciler_config \<Rightarrow> loop_state \<Rightarrow> (string \<times> queue_item) list" where
  "taken config st = (if ls_running st
     then take (rc_maxConcurrency config - length (ls_active st)) (sortBy priorityOrder (ls_queue st)) else [])"

lemma processQueue_taken: "processQueue config st = fold startItem (taken config st) st"
  by (auto simp: processQueue_def taken_def Let_def nat_diff_distrib)

lemma taken_subset: "set (taken config st) \<subseteq> set (ls_queue st)"
  by (auto simp: taken_def dest: in_set_takeD)

lemma taken_distinct: "distinct (mapKeys (ls_queue st)) \<Longrightarrow> distinct (map fst (taken config st))"
proof -
  assume "distinct (mapKeys (ls_queue st))"
  then have "distinct (map fst (sortBy priorityOrder (ls_queue st)))"
    by (metis mset_map mset_sortBy mset_eq_imp_distinct_iff)
  then show ?thesis by (simp add: taken_def take_map [symmetric])
qed

lemma length_taken: "length (taken config st) =
    (if ls_running st then min (length (ls_queue st)) (rc_maxConcurrency config - length (ls_active st)) else 0)"
  by (simp add: taken_def)

lemma same_key: "distinct (mapKeys m) \<Longrightarrow> e \<in> set m \<Longrightarrow> f \<in> set m \<Longrightarrow> fst e = fst f \<Longrightarrow> e = f"
  by (simp add: distinct_map inj_on_def)

lemma length_untaken:
  assumes "distinct (mapKeys (ls_queue st))"
  shows "length (filter (\<lambda>e. fst e \<notin> fst ` set (taken config st)) (ls_queue st)) + length (taken config st) =
    length (ls_queue st)"
proof -
  have "set (filter (\<lambda>e. fst e \<in> fst ` set (taken config st)) (ls_queue st)) = set (taken config st)"
  proof
    show "set (filter (\<lambda>e. fst e \<in> fst ` set (taken config st)) (ls_queue st)) \<subseteq> set (taken config st)"
    proof
      fix e assume "e \<in> set (filter (\<lambda>e. fst e \<in> fst ` set (taken config st)) (ls_queue st))"
      then obtain f where "e \<in> set (ls_queue st)" "f \<in> set (taken config st)" "fst e = fst f" by auto
      moreover from this have "f \<in> set (ls_queue st)" using taken_subset by blast
      ultimately show "e \<in> set (taken config st)" using same_key [OF assms, of e f] by simp
    qed
  qed (use taken_subset in force)
  moreover have "distinct (taken config st)" "distinct (ls_queue st)"
    using taken_distinct [OF assms] assms by (simp_all add: distinct_map)
  ultimately have "length (filter (\<lambda>e. fst e \<in> fst ` set (taken config st)) (ls_queue st)) = length (taken config st)"
    by (metis distinct_card distinct_filter)
  then show ?thesis using sum_length_filter_compl [of "\<lambda>e. fst e \<in> fst ` set (taken config st)" "ls_queue st"] by simp
qed

section \<open>The invariant\<close>

definition loopOk :: "reconciler_config \<Rightarrow> loop_state \<Rightarrow> bool" where
  "loopOk config st \<longleftrightarrow> distinct (mapKeys (ls_queue st)) \<and> distinct (ls_active st) \<and>
     length (ls_active st) \<le> rc_maxConcurrency config \<and> set (ls_active st) \<subseteq> fst ` set (ls_inflight st)"

definition busy :: "reconciler_config \<Rightarrow> loop_state \<Rightarrow> bool" where
  "busy config st \<longleftrightarrow> (ls_running st \<and> ls_queue st \<noteq> [] \<longrightarrow> rc_maxConcurrency config \<le> length (ls_inflight st))"

definition loopInv :: "reconciler_config \<Rightarrow> loop_state \<Rightarrow> bool" where
  "loopInv config st \<longleftrightarrow> loopOk config st \<and> (ls_timeouts st = [] \<longrightarrow> busy config st)"

lemma active_inflight: "loopOk config st \<Longrightarrow> length (ls_active st) \<le> length (ls_inflight st)"
proof -
  assume ok: "loopOk config st"
  then have "card (set (ls_active st)) \<le> card (fst ` set (ls_inflight st))"
    by (intro card_mono) (auto simp: loopOk_def)
  also have "\<dots> \<le> length (ls_inflight st)" using card_image_le card_length le_trans by blast
  finally show ?thesis using ok by (simp add: loopOk_def distinct_card)
qed

lemma processQueue_ok: "loopOk config st \<Longrightarrow> loopOk config (processQueue config st)"
proof -
  assume ok: "loopOk config st"
  let ?es = "taken config st"
  have "length (fold setAdd (map fst ?es) (ls_active st)) \<le> length ?es + length (ls_active st)"
    using length_fold_setAdd [of "map fst ?es"] by simp
  also have "\<dots> \<le> rc_maxConcurrency config" using ok by (auto simp: length_taken loopOk_def)
  finally show ?thesis
    using ok by (auto simp: processQueue_taken fold_startItem loopOk_def set_fold_setAdd distinct_fold_setAdd
        distinct_map_filter)
qed

lemma processQueue_busy: "loopOk config st \<Longrightarrow> busy config (processQueue config st)"
proof -
  assume ok: "loopOk config st"
  show ?thesis
  proof (cases "ls_running st \<and> rc_maxConcurrency config - length (ls_active st) < length (ls_queue st)")
    case True
    then have "rc_maxConcurrency config \<le> length (ls_inflight st) + length (taken config st)"
      using active_inflight [OF ok] ok by (simp add: length_taken loopOk_def)
    then show ?thesis by (simp add: busy_def processQueue_taken fold_startItem)
  next
    case False
    have "set (taken config st) = set (ls_queue st)" if "ls_running st"
      using False that by (simp add: taken_def)
    then have "ls_running st \<longrightarrow> filter (\<lambda>e. fst e \<notin> fst ` set (taken config st)) (ls_queue st) = []"
      by (auto simp: filter_empty_conv)
    then show ?thesis by (auto simp: busy_def processQueue_taken fold_startItem)
  qed
qed

lemma processQueue_inv: "loopOk config st \<Longrightarrow> loopInv config (processQueue config st)"
  by (simp add: loopInv_def processQueue_ok processQueue_busy)

lemma loopOk_queue: "loopOk config st \<Longrightarrow> distinct (mapKeys q) \<Longrightarrow> loopOk config (st\<lparr>ls_queue := q\<rparr>)"
  by (simp add: loopOk_def)

lemma loopOk_fields [simp]:
  "loopOk config (st\<lparr>ls_known := a\<rparr>) = loopOk config st" "loopOk config (st\<lparr>ls_priorities := b\<rparr>) = loopOk config st"
  "loopOk config (st\<lparr>ls_timer := c\<rparr>) = loopOk config st" "loopOk config (st\<lparr>ls_running := d\<rparr>) = loopOk config st"
  "loopOk config (st\<lparr>ls_intervals := e\<rparr>) = loopOk config st"
  "loopOk config (st\<lparr>ls_nextInterval := f\<rparr>) = loopOk config st"
  "loopOk config (st\<lparr>ls_timeouts := g\<rparr>) = loopOk config st" "loopOk config (st\<lparr>ls_calls := h\<rparr>) = loopOk config st"
  by (simp_all add: loopOk_def)

lemma loopInv_fields [simp]:
  "loopInv config (st\<lparr>ls_known := a\<rparr>) = loopInv config st" "loopInv config (st\<lparr>ls_priorities := b\<rparr>) = loopInv config st"
  "loopInv config (st\<lparr>ls_timer := c\<rparr>) = loopInv config st" "loopInv config (st\<lparr>ls_intervals := e\<rparr>) = loopInv config st"
  "loopInv config (st\<lparr>ls_nextInterval := f\<rparr>) = loopInv config st"
  by (simp_all add: loopInv_def busy_def)

lemma loopInv_idle: "loopOk config st \<Longrightarrow> \<not> ls_running st \<Longrightarrow> loopInv config st"
  by (simp add: loopInv_def busy_def)

lemma loopInv_waiting: "loopOk config st \<Longrightarrow> ls_timeouts st \<noteq> [] \<Longrightarrow> loopInv config st"
  by (simp add: loopInv_def)


section \<open>The steps\<close>

lemma enqueue_inv:
  assumes "loopInv config st"
  shows "loopInv config (enqueue config r p st)"
proof -
  define st1 where "st1 = (case p of None \<Rightarrow> st
    | Some p \<Rightarrow> st\<lparr>ls_priorities := mapSet (rs_name r) p (ls_priorities st)\<rparr>)"
  have inv1: "loopInv config st1" using assms by (auto simp: st1_def split: option.splits)
  define st2 where "st2 = st1\<lparr>ls_queue := mapSet (rs_name r)
      \<lparr>qi_resource = r, qi_attempt = 0, qi_priority = p\<rparr> (ls_queue st1),
      ls_known := mapSet (rs_name r) r (ls_known st1)\<rparr>"
  have ok2: "loopOk config st2"
    using inv1 by (simp add: st2_def loopInv_def loopOk_def distinct_mapKeys_mapSet del: distinct_update)
  show ?thesis
  proof (cases "rs_name r \<in> set (ls_active st1) \<or> mapHas (ls_queue st1) (rs_name r)")
    case True
    then show ?thesis using inv1 by (simp add: enqueue_def st1_def Let_def)
  next
    case False
    then have "enqueue config r p st = (if ls_running st2 then processQueue config st2 else st2)"
      by (simp add: enqueue_def st1_def [symmetric] st2_def [symmetric] Let_def)
    then show ?thesis using processQueue_inv [OF ok2] loopInv_idle [OF ok2] by simp
  qed
qed

lemma requeueKnown_ok: "loopOk config st \<Longrightarrow> loopOk config (fold requeueKnown ks st)"
  by (induction ks arbitrary: st) (auto simp: requeueKnown_def intro!: loopOk_queue simp: loopOk_def distinct_mapKeys_mapSet)

lemma in_butnth: "x \<in> set xs \<Longrightarrow> k < length xs \<Longrightarrow> x \<noteq> xs ! k \<Longrightarrow> x \<in> set (take k xs @ drop (k + 1) xs)"
proof -
  assume x: "x \<in> set xs" "k < length xs" "x \<noteq> xs ! k"
  have "x \<in> set (take k xs @ xs ! k # drop (Suc k) xs)"
    by (rule subst [OF id_take_nth_drop [OF x(2)], of "\<lambda>ys. x \<in> set ys"]) (rule x(1))
  then show ?thesis using x(3) by simp
qed

lemma settled_ok:
  assumes "loopOk config st" "k < length (ls_inflight st)"
  shows "loopOk config (st\<lparr>ls_inflight := take k (ls_inflight st) @ drop (k + 1) (ls_inflight st),
    ls_active := removeAll (fst (ls_inflight st ! k)) (ls_active st)\<rparr>)"
proof -
  have "set (removeAll (fst (ls_inflight st ! k)) (ls_active st)) \<subseteq>
      fst ` set (take k (ls_inflight st) @ drop (k + 1) (ls_inflight st))"
  proof
    fix a assume a: "a \<in> set (removeAll (fst (ls_inflight st ! k)) (ls_active st))"
    then obtain e where e: "e \<in> set (ls_inflight st)" "a = fst e" using assms(1) by (auto simp: loopOk_def)
    then have "e \<noteq> ls_inflight st ! k" using a by auto
    from imageI [OF in_butnth [OF e(1) assms(2) this], of fst]
    show "a \<in> fst ` set (take k (ls_inflight st) @ drop (k + 1) (ls_inflight st))" unfolding e(2) .
  qed
  moreover have "length (removeAll (fst (ls_inflight st ! k)) (ls_active st)) \<le> rc_maxConcurrency config"
    using assms(1) length_filter_le le_trans unfolding loopOk_def removeAll_filter_not_eq by blast
  ultimately show ?thesis using assms(1) by (simp add: loopOk_def distinct_removeAll)
qed

lemma settle_inv:
  assumes "loopInv config st" "k < length (ls_inflight st)"
  shows "loopInv config (settle config k result random st)"
proof -
  obtain name item where e: "ls_inflight st ! k = (name, item)" by fastforce
  define st1 where "st1 = st\<lparr>ls_inflight := take k (ls_inflight st) @ drop (k + 1) (ls_inflight st),
    ls_active := removeAll name (ls_active st)\<rparr>"
  have ok: "loopOk config st1"
    using settled_ok [of config st k] assms e by (simp add: st1_def loopInv_def)
  show ?thesis
  proof (cases "ls_running st")
    case False
    then have "settle config k result random st = st1" "\<not> ls_running st1"
      by (simp_all add: settle_def e st1_def Let_def)
    then show ?thesis using loopInv_idle [OF ok] by simp
  next
    case True
    then show ?thesis
    proof (cases result)
      case RRequeue
      have "loopOk config (st1\<lparr>ls_queue := mapSet name \<lparr>qi_resource = qi_resource item, qi_attempt = 0,
          qi_priority = qi_priority item\<rparr> (ls_queue st1)\<rparr>)"
        using ok by (intro loopOk_queue) (auto simp: loopOk_def distinct_mapKeys_mapSet)
      from processQueue_inv [OF this] show ?thesis
        using True RRequeue by (simp add: settle_def e st1_def Let_def)
    qed (use True processQueue_inv [OF ok] loopInv_waiting ok in
        \<open>simp_all add: settle_def e st1_def [symmetric] Let_def, simp_all add: st1_def loopInv_waiting\<close>)
  qed
qed

lemma fireTimeout_inv:
  assumes "loopInv config st" "k < length (ls_timeouts st)"
  shows "loopInv config (fireTimeout config k st)"
proof -
  obtain name item delay where e: "ls_timeouts st ! k = (name, item, delay)" by (metis prod_cases3)
  define st1 where "st1 = st\<lparr>ls_timeouts := take k (ls_timeouts st) @ drop (k + 1) (ls_timeouts st)\<rparr>"
  have ok: "loopOk config st1" "loopOk config (st1\<lparr>ls_queue := mapSet name item (ls_queue st1)\<rparr>)"
    using assms(1) by (auto simp: st1_def loopInv_def loopOk_def distinct_mapKeys_mapSet)
  have "fireTimeout config k st = (if \<not> ls_running st1 then st1
      else processQueue config (st1\<lparr>ls_queue := mapSet name item (ls_queue st1)\<rparr>))"
    by (simp add: fireTimeout_def e st1_def Let_def)
  then show ?thesis using loopInv_idle [OF ok(1)] processQueue_inv [OF ok(2)] by simp
qed

lemma loopStep_inv: "loopInv config st \<Longrightarrow> loopStep config e st = Some st' \<Longrightarrow> loopInv config st'"
proof (cases e)
  case Start
  assume "loopInv config st" "loopStep config e st = Some st'"
  then show ?thesis
    using processQueue_inv [of config "st\<lparr>ls_running := True\<rparr>"] Start
    by (auto simp: startLoop_def Let_def loopInv_def busy_def)
next
  case Stop
  assume "loopInv config st" "loopStep config e st = Some st'"
  then show ?thesis using Stop by (auto simp: stopLoop_def Let_def loopInv_def busy_def split: option.splits)
next
  case (Tick n)
  assume "loopInv config st" "loopStep config e st = Some st'"
  then show ?thesis
    using processQueue_inv [OF requeueKnown_ok] Tick
    by (auto simp: periodicTick_def loopInv_def split: if_splits)
qed (auto simp: enqueue_inv settle_inv fireTimeout_inv split: if_splits)

lemma runLoop_inv: "loopInv config st \<Longrightarrow> runLoop config es st = Some st' \<Longrightarrow> loopInv config st'"
  by (induction es arbitrary: st) (auto split: Option.bind_splits intro: loopStep_inv)

lemma runLoop_append: "runLoop config (es @ fs) st = Option.bind (runLoop config es st) (runLoop config fs)"
  by (induction es arbitrary: st) (auto split: Option.bind_splits)

lemma initialLoop_inv: "loopInv config initialLoop"
  by (simp add: initialLoop_def loopInv_def loopOk_def busy_def)


text \<open>C16. Under any sequence of events (enqueues, starts, stops, interval ticks, settled calls and
  timeouts in any order) at most \<open>maxConcurrency\<close> names are active, each active name has a call that
  has not settled, no name is queued twice, and the loop is work-conserving: while it runs with
  something queued and no timeout pending, at least \<open>maxConcurrency\<close> calls are under way.\<close>

theorem loop_invariant:
  assumes "runLoop config es initialLoop = Some st"
  shows "activeCount st \<le> rc_maxConcurrency config \<and> distinct (ls_active st) \<and>
    set (ls_active st) \<subseteq> fst ` set (ls_inflight st) \<and> distinct (mapKeys (ls_queue st)) \<and>
    (ls_running st \<and> ls_queue st \<noteq> [] \<and> ls_timeouts st = [] \<longrightarrow>
      rc_maxConcurrency config \<le> length (ls_inflight st))"
  using runLoop_inv [OF initialLoop_inv assms] by (auto simp: loopInv_def loopOk_def busy_def activeCount_def)

definition resourceNamed :: "string \<Rightarrow> any_resource" where
  "resourceNamed n = \<lparr>rs_name = n, rs_labels = None, rs_annotations = None, rs_spec = None, rs_status = None\<rparr>"

definition twoWorkers :: reconciler_config where
  "twoWorkers = DEFAULT_RECONCILER_CONFIG\<lparr>rc_maxConcurrency := 2\<rparr>"

theorem loop_invariant_witness:
  "activeCount (the (runLoop twoWorkers [Enqueue (resourceNamed ''a'') None, Enqueue (resourceNamed ''b'') (Some 1),
     Enqueue (resourceNamed ''c'') None, Start, Settle 0 RRequeue 0] initialLoop)) \<le> 2"
proof -
  obtain st where "runLoop twoWorkers [Enqueue (resourceNamed ''a'') None, Enqueue (resourceNamed ''b'') (Some 1),
     Enqueue (resourceNamed ''c'') None, Start, Settle 0 RRequeue 0] initialLoop = Some st"
  proof -
    have "runLoop twoWorkers [Enqueue (resourceNamed ''a'') None, Enqueue (resourceNamed ''b'') (Some 1),
      Enqueue (resourceNamed ''c'') None, Start, Settle 0 RRequeue 0] initialLoop \<noteq> None" by code_simp
    then show ?thesis using that by blast
  qed
  from loop_invariant [OF this] this show ?thesis by (simp add: twoWorkers_def)
qed

section \<open>Progress\<close>

definition work :: "loop_state \<Rightarrow> nat" where
  "work st = length (ls_queue st) + length (ls_inflight st)"

lemma processQueue_fields [simp]:
  "ls_running (processQueue config st) = ls_running st" "ls_timeouts (processQueue config st) = ls_timeouts st"
  by (simp_all add: processQueue_taken fold_startItem)

lemma processQueue_work: "distinct (mapKeys (ls_queue st)) \<Longrightarrow> work (processQueue config st) = work st"
  using length_untaken [of st config] by (simp add: work_def processQueue_taken fold_startItem)

text \<open>What is queued is either still queued or has been called.\<close>

definition served :: "loop_state \<Rightarrow> loop_state \<Rightarrow> bool" where
  "served st st' \<longleftrightarrow> (\<forall>e \<in> set (ls_queue st). e \<in> set (ls_queue st') \<or> qi_resource (snd e) \<in> set (ls_calls st')) \<and>
     set (ls_calls st) \<subseteq> set (ls_calls st')"

lemma served_trans: "served a b \<Longrightarrow> served b c \<Longrightarrow> served a c"
  by (auto simp: served_def)

lemma processQueue_served: "distinct (mapKeys (ls_queue st)) \<Longrightarrow> served st (processQueue config st)"
proof -
  assume d: "distinct (mapKeys (ls_queue st))"
  have "e \<in> set (taken config st)" if "e \<in> set (ls_queue st)" "f \<in> set (taken config st)" "fst e = fst f" for e f
    using same_key [OF d that(1) _ that(3)] that(2) taken_subset [of config st] by auto
  then have "\<forall>e \<in> set (ls_queue st). fst e \<in> fst ` set (taken config st) \<longrightarrow> e \<in> set (taken config st)" by blast
  then show ?thesis by (simp add: served_def processQueue_taken fold_startItem)
qed

lemma settle_success:
  assumes "loopInv config st" "k < length (ls_inflight st)" "ls_running st"
  shows "Suc (work (settle config k RSuccess r st)) = work st" "ls_running (settle config k RSuccess r st)"
    "ls_timeouts (settle config k RSuccess r st) = ls_timeouts st" "served st (settle config k RSuccess r st)"
proof -
  obtain name item where e: "ls_inflight st ! k = (name, item)" by fastforce
  define st1 where "st1 = st\<lparr>ls_inflight := take k (ls_inflight st) @ drop (k + 1) (ls_inflight st),
    ls_active := removeAll name (ls_active st)\<rparr>"
  have s: "settle config k RSuccess r st = processQueue config st1"
    using assms(3) by (simp add: settle_def e st1_def Let_def)
  have d: "distinct (mapKeys (ls_queue st1))" using assms(1) by (simp add: st1_def loopInv_def loopOk_def)
  have "Suc (work st1) = work st" using assms(2) by (simp add: work_def st1_def)
  then show "Suc (work (settle config k RSuccess r st)) = work st" by (simp add: s processQueue_work [OF d])
  show "ls_running (settle config k RSuccess r st)" "ls_timeouts (settle config k RSuccess r st) = ls_timeouts st"
    using assms(3) by (simp_all add: s) (simp_all add: st1_def)
  have "served st st1" by (simp add: served_def st1_def)
  then show "served st (settle config k RSuccess r st)"
    using served_trans processQueue_served [OF d] by (simp add: s)
qed

abbreviation successes :: "nat list \<Rightarrow> loop_event list" where
  "successes ks \<equiv> map (\<lambda>k. Settle k RSuccess 0) ks"

lemma successes_run:
  assumes "loopInv config st" "ls_running st" "ls_timeouts st = []" "runLoop config (successes ks) st = Some st'"
  shows "loopInv config st' \<and> ls_running st' \<and> ls_timeouts st' = [] \<and> work st = length ks + work st' \<and> served st st'"
  using assms
proof (induction ks arbitrary: st)
  case Nil
  then show ?case by (simp add: served_def)
next
  case (Cons k ks)
  then have k: "k < length (ls_inflight st)" by (auto split: if_splits)
  note step = settle_success [OF Cons.prems(1) k Cons.prems(2), where r = 0]
  have "loopInv config st' \<and> ls_running st' \<and> ls_timeouts st' = [] \<and>
      work (settle config k RSuccess 0 st) = length ks + work st' \<and> served (settle config k RSuccess 0 st) st'"
    using Cons.IH [OF settle_inv [OF Cons.prems(1) k] step(2)] Cons.prems(3,4) step(3) k by simp
  then show ?case using step(1,4) served_trans by fastforce
qed

lemma next_success:
  assumes "loopInv config st" "ls_running st" "ls_timeouts st = []" "0 < rc_maxConcurrency config" "work st \<noteq> 0"
  shows "runLoop config (successes [0]) st \<noteq> None"
proof -
  have "ls_inflight st \<noteq> []" using assms by (auto simp: loopInv_def busy_def work_def)
  then show ?thesis by simp
qed



definition threeQueued :: "loop_event list" where
  "threeQueued = [Enqueue (resourceNamed ''a'') None, Enqueue (resourceNamed ''b'') (Some 1),
     Enqueue (resourceNamed ''c'') None, Start]"


section \<open>Exclusive runs\<close>

fun retries :: "loop_event \<Rightarrow> bool" where
  "retries (Settle k RError r) = True"
| "retries (Settle k (RRequeueAfter d) r) = True"
| "retries e = False"

definition exclusive :: "loop_state \<Rightarrow> bool" where
  "exclusive st \<longleftrightarrow> distinct (mapKeys (ls_queue st)) \<and> distinct (ls_active st) \<and>
     mset (map fst (ls_inflight st)) = mset (ls_active st) \<and>
     set (mapKeys (ls_queue st)) \<inter> set (ls_active st) = {} \<and> ls_timeouts st = []"

lemma fold_setAdd_fresh: "distinct xs \<Longrightarrow> set xs \<inter> set ys = {} \<Longrightarrow> fold setAdd xs ys = ys @ xs"
  by (induction xs arbitrary: ys) (auto simp: setAdd_def)

lemma exclusive_process: "exclusive st \<Longrightarrow> exclusive (processQueue config st)"
proof -
  assume ex: "exclusive st"
  let ?es = "taken config st"
  have "distinct (map fst ?es)" using ex taken_distinct by (simp add: exclusive_def)
  moreover have fresh: "set (map fst ?es) \<inter> set (ls_active st) = {}"
    using ex taken_subset [of config st] by (fastforce simp: exclusive_def)
  ultimately have "fold setAdd (map fst ?es) (ls_active st) = ls_active st @ map fst ?es"
    by (rule fold_setAdd_fresh)
  then show ?thesis
    using ex fresh \<open>distinct (map fst ?es)\<close>
    by (auto simp: exclusive_def processQueue_taken fold_startItem distinct_map_filter)
qed

lemma exclusive_queue:
  "exclusive st \<Longrightarrow> n \<notin> set (ls_active st) \<Longrightarrow> exclusive (st\<lparr>ls_queue := mapSet n item (ls_queue st)\<rparr>)"
  by (simp add: exclusive_def distinct_mapKeys_mapSet)

lemma exclusive_fields [simp]:
  "exclusive (st\<lparr>ls_known := a\<rparr>) = exclusive st" "exclusive (st\<lparr>ls_priorities := b\<rparr>) = exclusive st"
  "exclusive (st\<lparr>ls_timer := c\<rparr>) = exclusive st" "exclusive (st\<lparr>ls_running := d\<rparr>) = exclusive st"
  "exclusive (st\<lparr>ls_intervals := e\<rparr>) = exclusive st" "exclusive (st\<lparr>ls_nextInterval := f\<rparr>) = exclusive st"
  by (simp_all add: exclusive_def)

lemma exclusive_requeue: "exclusive st \<Longrightarrow> exclusive (fold requeueKnown ks st)"
  by (induction ks arbitrary: st) (auto simp: requeueKnown_def exclusive_queue)

lemma mset_butnth: "k < length xs \<Longrightarrow> mset (map f (take k xs @ drop (k + 1) xs)) = mset (map f xs) - {#f (xs ! k)#}"
proof -
  assume k: "k < length xs"
  have "mset (map f xs) = mset (map f (take k xs @ xs ! k # drop (Suc k) xs))"
    using arg_cong [OF id_take_nth_drop [OF k], of "\<lambda>ys. mset (map f ys)"] .
  then show ?thesis by simp
qed

lemma mset_removeAll: "distinct xs \<Longrightarrow> mset (removeAll x xs) = mset xs - {#x#}"
  by (simp add: distinct_remove1_removeAll [symmetric])

lemma exclusive_settled:
  assumes "exclusive st" "k < length (ls_inflight st)" "name = fst (ls_inflight st ! k)"
  shows "exclusive (st\<lparr>ls_inflight := take k (ls_inflight st) @ drop (k + 1) (ls_inflight st),
    ls_active := removeAll name (ls_active st)\<rparr>)"
  using assms mset_butnth [OF assms(2), of fst] mset_removeAll [of "ls_active st" name]
  by (auto simp: exclusive_def distinct_removeAll)

lemma exclusive_step:
  assumes "exclusive st" "\<not> retries e" "loopStep config e st = Some st'"
  shows "exclusive st'"
proof (cases e)
  case (Enqueue r p)
  define st1 where "st1 = (case p of None \<Rightarrow> st
    | Some p \<Rightarrow> st\<lparr>ls_priorities := mapSet (rs_name r) p (ls_priorities st)\<rparr>)"
  define st2 where "st2 = st1\<lparr>ls_queue := mapSet (rs_name r)
      \<lparr>qi_resource = r, qi_attempt = 0, qi_priority = p\<rparr> (ls_queue st1)\<rparr>
    \<lparr>ls_known := mapSet (rs_name r) r (ls_known st1)\<rparr>"
  have ex1: "exclusive st1" using assms(1) by (simp add: st1_def split: option.splits)
  have ex2: "exclusive st2" if "rs_name r \<notin> set (ls_active st1)"
    unfolding st2_def exclusive_fields by (rule exclusive_queue [OF ex1 that])
  have "st' = (if rs_name r \<in> set (ls_active st1) \<or> mapHas (ls_queue st1) (rs_name r) then st1
      else if ls_running st2 then processQueue config st2 else st2)"
    using assms(3) Enqueue by (auto simp: enqueue_def st1_def [symmetric] st2_def Let_def)
  then show ?thesis using ex1 ex2 exclusive_process by auto
next
  case Start
  then show ?thesis using assms exclusive_process [of "st\<lparr>ls_running := True\<rparr>" config]
    by (auto simp: startLoop_def Let_def)
next
  case Stop
  then show ?thesis using assms by (auto simp: stopLoop_def Let_def split: option.splits)
next
  case (Tick n)
  then show ?thesis
    using assms exclusive_process [OF exclusive_requeue] by (auto simp: periodicTick_def split: if_splits)
next
  case (Settle k result r)
  obtain name item where kth: "ls_inflight st ! k = (name, item)" by fastforce
  define st1 where "st1 = st\<lparr>ls_inflight := take k (ls_inflight st) @ drop (k + 1) (ls_inflight st),
    ls_active := removeAll name (ls_active st)\<rparr>"
  have k: "k < length (ls_inflight st)" "st' = settle config k result r st"
    using assms(3) Settle by (auto split: if_splits)
  have ex: "exclusive st1" unfolding st1_def by (rule exclusive_settled [OF assms(1) k(1)]) (simp add: kth)
  have "name \<notin> set (ls_active st1)" by (simp add: st1_def)
  then have "exclusive (processQueue config st1)"
    "exclusive (processQueue config (st1\<lparr>ls_queue := mapSet name i (ls_queue st1)\<rparr>))" for i
    using ex exclusive_process exclusive_queue by blast+
  then show ?thesis
    using ex assms(2) by (cases result) (simp_all add: k(2) settle_def kth st1_def [symmetric] Let_def Settle,
      simp_all add: st1_def)
next
  case (Timeout k)
  then show ?thesis using assms by (simp add: exclusive_def)
qed

text \<open>C18. Without retries runs are exclusive: as long as no call has settled with an error or a
  delayed requeue, whatever else happened, no name has two calls under way, none is queued while
  active, and the number of calls under way is the active count, so it stays within
  \<open>maxConcurrency\<close>.\<close>

theorem runs_exclusive:
  assumes "runLoop config es initialLoop = Some st" "\<forall>e \<in> set es. \<not> retries e"
  shows "distinct (map fst (ls_inflight st)) \<and> set (mapKeys (ls_queue st)) \<inter> set (map fst (ls_inflight st)) = {} \<and>
    length (ls_inflight st) = activeCount st \<and> length (ls_inflight st) \<le> rc_maxConcurrency config"
proof -
  have "exclusive st0 \<Longrightarrow> runLoop config es st0 = Some st \<Longrightarrow> \<forall>e \<in> set es. \<not> retries e \<Longrightarrow> exclusive st" for st0
    by (induction es arbitrary: st0) (auto split: Option.bind_splits intro: exclusive_step)
  moreover have "exclusive initialLoop" by (simp add: exclusive_def initialLoop_def)
  ultimately have ex: "exclusive st" using assms by blast
  then have m: "mset (map fst (ls_inflight st)) = mset (ls_active st)" by (simp add: exclusive_def)
  have "length (ls_active st) \<le> rc_maxConcurrency config"
    using runLoop_inv [OF initialLoop_inv assms(1)] by (simp add: loopInv_def loopOk_def)
  moreover have "length (ls_inflight st) = length (ls_active st)" using m by (metis length_map size_mset)
  moreover have "set (map fst (ls_inflight st)) = set (ls_active st)" using m by (metis set_mset_mset)
  moreover have "distinct (map fst (ls_inflight st))"
    using m ex mset_eq_imp_distinct_iff unfolding exclusive_def by blast
  ultimately show ?thesis using ex by (simp add: exclusive_def activeCount_def)
qed

theorem runs_exclusive_witness:
  "length (ls_inflight (the (runLoop twoWorkers (threeQueued @ [Settle 0 RRequeue 0, Settle 0 RSuccess 0]) initialLoop))) \<le> 2"
proof -
  have r: "runLoop twoWorkers (threeQueued @ [Settle 0 RRequeue 0, Settle 0 RSuccess 0]) initialLoop \<noteq> None"
    by code_simp
  then obtain st where st: "runLoop twoWorkers (threeQueued @ [Settle 0 RRequeue 0, Settle 0 RSuccess 0]) initialLoop = Some st"
    by blast
  have "\<forall>e \<in> set (threeQueued @ [Settle 0 RRequeue 0, Settle 0 RSuccess 0]). \<not> retries e"
    by (simp add: threeQueued_def)
  from runs_exclusive [OF st this] have "length (ls_inflight st) \<le> rc_maxConcurrency twoWorkers" by blast
  then show ?thesis unfolding st option.sel by (simp add: twoWorkers_def)
qed

section \<open>What retries break\<close>

text \<open>After an error the periodic tick starts the resource again while its retry is pending; when
  the retry fires too, the resource is reconciled twice at once.\<close>

definition retryRace :: "loop_event list" where
  "retryRace = [Enqueue (resourceNamed ''a'') None, Start, Settle 0 RError 0, Tick 0, Timeout 0]"

lemma concurrent_duplicate:
  "map fst (ls_inflight (the (runLoop twoWorkers retryRace initialLoop))) = [''a'', ''a'']"
  by code_simp

text \<open>The active set counts such a pair once, so one call more than \<open>maxConcurrency\<close> starts.\<close>

lemma concurrency_exceeded:
  "map fst (ls_inflight (the (runLoop twoWorkers (retryRace @ [Enqueue (resourceNamed ''b'') None]) initialLoop))) =
    [''a'', ''a'', ''b'']"
  by code_simp

text \<open>The slot a failed call frees is not used until some timer fires.\<close>

lemma error_leaves_slot_idle:
  "let st = the (runLoop (twoWorkers\<lparr>rc_maxConcurrency := 1\<rparr>)
     [Enqueue (resourceNamed ''a'') None, Enqueue (resourceNamed ''b'') None, Start, Settle 0 RError 0] initialLoop)
   in ls_inflight st = [] \<and> mapKeys (ls_queue st) = [''b'']"
  by code_simp

text \<open>A newer version enqueued while the resource is being reconciled is forgotten.\<close>

lemma update_while_active_dropped:
  "rs_name r \<in> set (ls_active st) \<Longrightarrow> enqueue config r None st = st"
  by (simp add: enqueue_def)

text \<open>The first retry waits twice \<open>initialBackoffMs\<close>.\<close>

lemma first_retry_doubled: "calculateBackoff 1 DEFAULT_RECONCILER_CONFIG 0 = 2000"
  by (simp add: calculateBackoff_def DEFAULT_RECONCILER_CONFIG_def)

section \<open>Backoff and change detection\<close>

text \<open>The delay of a retry lies between the capped exponential and ten per cent above it, and does not
  fall from one attempt to the next.\<close>

lemma backoff_bounds:
  assumes "0 \<le> rc_initialBackoffMs config" "0 \<le> rc_maxBackoffMs config" "0 \<le> random" "random < 1"
  shows "min (rc_initialBackoffMs config * 2 ^ n) (rc_maxBackoffMs config) \<le> calculateBackoff n config random \<and>
    10 * calculateBackoff n config random \<le> 11 * rc_maxBackoffMs config"
proof -
  define b where "b = min (rc_initialBackoffMs config * 2 ^ n) (rc_maxBackoffMs config)"
  define d where "d = calculateBackoff n config random"
  have d: "d = \<lfloor>of_int b + of_int b * (1 / 10) * random\<rfloor>" by (simp add: d_def calculateBackoff_def b_def Let_def)
  have b: "0 \<le> b" "b \<le> rc_maxBackoffMs config" using assms by (auto simp: b_def)
  have "0 \<le> of_int b * (1 / 10) * random" "of_int b * (1 / 10) * random \<le> of_int b * (1 / 10)"
    using assms(3,4) b(1) by (simp_all add: mult_left_le)
  moreover have "of_int d \<le> of_int b + of_int b * (1 / 10) * random" unfolding d by (rule of_int_floor_le)
  ultimately have "of_int d \<le> (of_int b + of_int b * (1 / 10) :: rat)" by linarith
  then have "(of_int (10 * d) :: rat) \<le> of_int (11 * b)" by simp
  then have "10 * d \<le> 11 * b" by (simp only: of_int_le_iff)
  have "b \<le> d" unfolding d le_floor_iff using \<open>0 \<le> of_int b * (1 / 10) * random\<close> by simp
  then show ?thesis using \<open>10 * d \<le> 11 * b\<close> b(2) unfolding b_def d_def by linarith
qed

definition resourceOk :: "any_resource \<Rightarrow> bool" where
  "resourceOk r \<longleftrightarrow> list_all (\<lambda>j. case j of None \<Rightarrow> True | Some v \<Rightarrow> jsonOk v) [rs_spec r, rs_labels r, rs_annotations r]"

lemma payload_ok: "resourceOk r \<Longrightarrow> jsonOk (fingerprintPayload r)"
  by (auto simp: resourceOk_def fingerprintPayload_def optMember_def split: option.splits)

text \<open>Without a collision the cache asks for a reconciliation exactly when the name is new or the
  spec, the labels or the annotations changed since it last asked.\<close>

lemma shouldReconcile_exact:
  assumes "resourceOk r" "resourceOk s" "rs_name r = rs_name s"
    and "inj_on sha (stringify ` fingerprintPayload ` {r, s})"
  shows "fst (shouldReconcile sha s (snd (shouldReconcile sha r cache))) \<longleftrightarrow>
    (rs_spec r, rs_labels r, rs_annotations r) \<noteq> (rs_spec s, rs_labels s, rs_annotations s)"
proof -
  have "resourceFingerprint sha r = resourceFingerprint sha s \<longleftrightarrow>
      stringify (fingerprintPayload r) = stringify (fingerprintPayload s)"
    unfolding resourceFingerprint_def by (rule inj_on_eq_iff [OF assms(4)]) simp_all
  also have "\<dots> \<longleftrightarrow> fingerprintPayload r = fingerprintPayload s"
    using parse_stringify [OF payload_ok [OF assms(1)]] parse_stringify [OF payload_ok [OF assms(2)]]
    by (metis option.inject)
  also have "\<dots> \<longleftrightarrow> (rs_spec r, rs_labels r, rs_annotations r) = (rs_spec s, rs_labels s, rs_annotations s)"
    using assms(3) by (auto simp: fingerprintPayload_def optMember_def split: option.splits)
  finally have "resourceFingerprint sha r = resourceFingerprint sha s \<longleftrightarrow> \<dots>" .
  moreover have "mapGet (snd (shouldReconcile sha r cache)) (rs_name s) = Some (resourceFingerprint sha r)"
    using assms(3) by (auto simp: shouldReconcile_def Let_def mapGet_mapSet)
  ultimately show ?thesis by (auto simp: shouldReconcile_def Let_def)
qed

end
