(* ===== verification/Authorization.thy ===== *)
theory Authorization
  imports Regex
begin

text \<open>
  Authorization, \<open>reference/src/policy/\<close>: \<open>authorization.ts\<close> (glob permissions of an autonomy level,
  then the agent's constraints) and \<open>abac.ts\<close> (rules with a condition). \<open>None\<close> is a thrown error:
  a glob whose \<open>?\<close> makes the regular expression built from it invalid.
\<close>

section \<open>Globs\<close>

text \<open>The pieces of the regular expression \<open>globMatch\<close> builds: \<open>**\<close> is \<open>.*\<close>, \<open>*\<close> is \<open>[^/]*\<close>, every
  other special character is escaped, except \<open>?\<close>, which stays a quantifier.\<close>

datatype glob_token = GChar char | GSegment | GPath | GQuestion

fun globTokens :: "string \<Rightarrow> glob_token list" where
  "globTokens [] = []"
| "globTokens (c # s) =
    (if c = CHR ''*'' then (case s of
         d # t \<Rightarrow> if d = CHR ''*'' then GPath # globTokens t else GSegment # globTokens s
       | [] \<Rightarrow> [GSegment])
     else (if c = CHR ''?'' then GQuestion else GChar c) # globTokens s)"

text \<open>What a piece followed by \<open>n\<close> question marks means; \<open>None\<close> is a syntax error (a second mark makes
  the first lazy, which does not change what is matched).\<close>

definition quantified :: "glob_token \<Rightarrow> nat \<Rightarrow> re option" where
  "quantified t n = (case t of
     GChar c \<Rightarrow> if n = 0 then Some (Cls (\<lambda>d. d = c)) else if n \<le> 2 then Some (reOpt (Cls (\<lambda>d. d = c))) else None
   | GSegment \<Rightarrow> if n \<le> 1 then Some (Star (Cls (\<lambda>d. d \<noteq> CHR ''/''))) else None
   | GPath \<Rightarrow> if n \<le> 1 then Some (Star reDot) else None
   | GQuestion \<Rightarrow> None)"

function globRegex :: "glob_token list \<Rightarrow> re list option" where
  "globRegex [] = Some []"
| "globRegex (t # ts) =
    (let marks = takeWhile (\<lambda>u. u = GQuestion) ts; rest = dropWhile (\<lambda>u. u = GQuestion) ts
     in case quantified t (length marks) of
          None \<Rightarrow> None
        | Some r \<Rightarrow> map_option (Cons r) (globRegex rest))"
  by pat_completeness auto
termination by (relation "measure length") (auto simp: length_dropWhile_le le_imp_less_Suc)

definition globMatch :: "string \<Rightarrow> string \<Rightarrow> bool option" where
  "globMatch pattern target =
    (if pattern = target then Some True
     else map_option (\<lambda>rs. reMatch (reSeqs rs) target) (globRegex (globTokens pattern)))"

text \<open>\<open>some\<close> with a test that may throw.\<close>

fun someMatch :: "('a \<Rightarrow> bool option) \<Rightarrow> 'a list \<Rightarrow> bool option" where
  "someMatch f [] = Some False"
| "someMatch f (x # xs) = (case f x of None \<Rightarrow> None | Some True \<Rightarrow> Some True | Some False \<Rightarrow> someMatch f xs)"

section \<open>Permissions and constraints\<close>

datatype access = Read | Write | Execute

fun accessText :: "access \<Rightarrow> string" where
  "accessText Read = ''read''" | "accessText Write = ''write''" | "accessText Execute = ''execute''"

datatype authorization_layer = PermissionsLayer | ConstraintsLayer

record authorization_result =
  ar_allowed :: bool
  ar_reason :: "string option"
  ar_layer :: "authorization_layer option"

definition granted :: authorization_result where
  "granted = \<lparr>ar_allowed = True, ar_reason = None, ar_layer = None\<rparr>"

record permissions =
  pm_read :: "string list option"
  pm_write :: "string list option"
  pm_execute :: "string list option"

fun patternsFor :: "permissions \<Rightarrow> access \<Rightarrow> string list option" where
  "patternsFor p Read = pm_read p" | "patternsFor p Write = pm_write p" | "patternsFor p Execute = pm_execute p"

definition checkPermission :: "permissions \<Rightarrow> access \<Rightarrow> string \<Rightarrow> authorization_result option" where
  "checkPermission permissions action target = (case patternsFor permissions action of
     None \<Rightarrow> Some \<lparr>ar_allowed = False, ar_reason = Some (''No '' @ accessText action @ '' permissions defined''),
        ar_layer = Some PermissionsLayer\<rparr>
   | Some patterns \<Rightarrow>
       if patterns = [] then Some \<lparr>ar_allowed = False,
          ar_reason = Some (''No '' @ accessText action @ '' permissions defined''), ar_layer = Some PermissionsLayer\<rparr>
       else case someMatch (\<lambda>p. globMatch p target) patterns of
         None \<Rightarrow> None
       | Some matched \<Rightarrow>
           Some (if \<not> matched then \<lparr>ar_allowed = False,
               ar_reason = Some (''Target \"'' @ target @ ''\" not matched by '' @ accessText action @ '' permissions''),
               ar_layer = Some PermissionsLayer\<rparr>
             else granted))"

definition LANGUAGE_EXTENSIONS :: "(string, string list) jsmap" where
  "LANGUAGE_EXTENSIONS =
    [(''typescript'', [''.ts'', ''.tsx'', ''.mts'', ''.cts'']), (''javascript'', [''.js'', ''.jsx'', ''.mjs'', ''.cjs'']),
     (''python'', [''.py'', ''.pyi'']), (''rust'', [''.rs'']), (''go'', [''.go'']), (''java'', [''.java'']),
     (''ruby'', [''.rb'']), (''csharp'', [''.cs'']), (''cpp'', [''.cpp'', ''.cc'', ''.cxx'', ''.h'', ''.hpp'']),
     (''c'', [''.c'', ''.h''])]"

record agent_constraints =
  ac_allowedLanguages :: "string list option"
  ac_blockedPaths :: "string list option"

text \<open>The loop over \<open>blockedPaths\<close>: the first that matches.\<close>

fun firstBlocked :: "string \<Rightarrow> string list \<Rightarrow> string option option" where
  "firstBlocked target [] = Some None"
| "firstBlocked target (b # bs) = (case globMatch b target of
     None \<Rightarrow> None | Some True \<Rightarrow> Some (Some b) | Some False \<Rightarrow> firstBlocked target bs)"

definition fileExtension :: "string \<Rightarrow> string" where
  "fileExtension target = (if CHR ''.'' \<in> set target then ''.'' @ last (splitOn (CHR ''.'') target) else [])"

definition allowedExtensions :: "string list \<Rightarrow> string list" where
  "allowedExtensions langs = concat (map (\<lambda>l. orElse (mapGet LANGUAGE_EXTENSIONS (toLowerCase l)) []) langs)"

definition checkConstraints :: "agent_constraints \<Rightarrow> string \<Rightarrow> authorization_result option" where
  "checkConstraints constraints target =
    (case firstBlocked target (orElse (ac_blockedPaths constraints) []) of
       None \<Rightarrow> None
     | Some (Some b) \<Rightarrow> Some \<lparr>ar_allowed = False,
         ar_reason = Some (''Target \"'' @ target @ ''\" matches blocked path \"'' @ b @ ''\"''),
         ar_layer = Some ConstraintsLayer\<rparr>
     | Some None \<Rightarrow>
         (let langs = orElse (ac_allowedLanguages constraints) []; ext = fileExtension target;
              exts = allowedExtensions langs
          in if langs \<noteq> [] \<and> ext \<noteq> [] \<and> exts \<noteq> [] \<and> ext \<notin> set exts
             then Some \<lparr>ar_allowed = False,
               ar_reason = Some (''File extension \"'' @ ext @ ''\" not in allowed languages''),
               ar_layer = Some ConstraintsLayer\<rparr>
             else Some granted))"

definition authorize ::
    "permissions \<Rightarrow> agent_constraints option \<Rightarrow> access \<Rightarrow> string \<Rightarrow> authorization_result option" where
  "authorize permissions constraints action target =
    (case checkPermission permissions action target of
       None \<Rightarrow> None
     | Some permResult \<Rightarrow>
         if \<not> ar_allowed permResult then Some permResult
         else case constraints of
           Some c \<Rightarrow> if action = Write
             then (case checkConstraints c target of
                 None \<Rightarrow> None
               | Some constraintResult \<Rightarrow>
                   if \<not> ar_allowed constraintResult then Some constraintResult else Some granted)
             else Some granted
         | None \<Rightarrow> Some granted)"

section \<open>The hook\<close>

record authorization_context =
  az_agent :: string
  az_action :: access
  az_target :: string

record level_permissions =
  lp_level :: int
  lp_permissions :: permissions

definition authorizationHook ::
    "level_permissions list \<Rightarrow> (string, int) jsmap \<Rightarrow> (string, agent_constraints) jsmap \<Rightarrow>
     authorization_context \<Rightarrow> authorization_result option" where
  "authorizationHook levels agentLevels agentConstraints ctx =
    (case mapGet agentLevels (az_agent ctx) of
       None \<Rightarrow> Some \<lparr>ar_allowed = False,
         ar_reason = Some (''Agent \"'' @ az_agent ctx @ ''\" has no assigned autonomy level''),
         ar_layer = Some PermissionsLayer\<rparr>
     | Some level \<Rightarrow>
         (case find (\<lambda>l. lp_level l = level) levels of
            None \<Rightarrow> Some \<lparr>ar_allowed = False,
              ar_reason = Some (''Autonomy level '' @ showInt level @ '' not defined in policy''),
              ar_layer = Some PermissionsLayer\<rparr>
          | Some levelDef \<Rightarrow> authorize (lp_permissions levelDef) (mapGet agentConstraints (az_agent ctx))
              (az_action ctx) (az_target ctx)))"

section \<open>Attribute rules\<close>

datatype abac_effect = AbacAllow | AbacDeny

record abac_policy =
  ap_name :: string
  ap_expression :: string
  ap_effect :: abac_effect

text \<open>The loop over the policies; \<open>evaluate\<close> is the evaluator on the context built for the request,
  and an error of it counts as no match.\<close>

fun abacLoop :: "(string \<Rightarrow> bool option) \<Rightarrow> abac_policy list \<Rightarrow> bool \<Rightarrow> authorization_result" where
  "abacLoop evaluate [] anyAllow =
    (if anyAllow then granted
     else \<lparr>ar_allowed = False, ar_reason = Some (''No ABAC policy matched '' @ emDash @ '' default deny''), ar_layer = None\<rparr>)"
| "abacLoop evaluate (p # ps) anyAllow =
    (if evaluate (ap_expression p) = Some True
     then (case ap_effect p of
        AbacDeny \<Rightarrow> \<lparr>ar_allowed = False, ar_reason = Some (''Denied by ABAC policy \"'' @ ap_name p @ ''\"''), ar_layer = None\<rparr>
      | AbacAllow \<Rightarrow> abacLoop evaluate ps True)
     else abacLoop evaluate ps anyAllow)"

definition abacHook ::
    "(string \<Rightarrow> 'c \<Rightarrow> bool option) \<Rightarrow> abac_policy list \<Rightarrow> (authorization_context \<Rightarrow> 'c) \<Rightarrow>
     authorization_context \<Rightarrow> authorization_result" where
  "abacHook evaluate policies getContext ctx = abacLoop (\<lambda>e. evaluate e (getContext ctx)) policies False"

end
