(* ===== verification/AccessProps.thy ===== *)
theory AccessProps
  imports Authorization
begin

text \<open>
  The properties of authorization: what a glob matches, what is granted, and that the order of
  attribute rules does not matter.
\<close>

section \<open>Globs\<close>

text \<open>What the documentation says a glob means: \<open>*\<close> any run without a slash, \<open>**\<close> any run (on one
  line), any other character itself.\<close>

fun globMeaning :: "glob_token list \<Rightarrow> string set" where
  "globMeaning [] = {[]}"
| "globMeaning (GChar c # ts) = {c # s | s. s \<in> globMeaning ts}"
| "globMeaning (GSegment # ts) = {u @ s | u s. CHR ''/'' \<notin> set u \<and> s \<in> globMeaning ts}"
| "globMeaning (GPath # ts) = {u @ s | u s. CHR 10 \<notin> set u \<and> CHR 13 \<notin> set u \<and> s \<in> globMeaning ts}"
| "globMeaning (GQuestion # ts) = {CHR ''?'' # s | s. s \<in> globMeaning ts}"

lemma kleene_cls: "s \<in> kleene {[c] | c. P c} \<longleftrightarrow> (\<forall>c \<in> set s. P c)"
proof
  show "s \<in> kleene {[c] | c. P c} \<Longrightarrow> \<forall>c \<in> set s. P c" by (induction rule: kleene.induct) auto
  show "\<forall>c \<in> set s. P c \<Longrightarrow> s \<in> kleene {[c] | c. P c}"
  proof (induction s)
    case (Cons c s)
    then have "[c] \<in> {[c] | c. P c}" "s \<in> kleene {[c] | c. P c}" by simp_all
    from kleene_step [OF this] show ?case by simp
  qed (rule kleene_nil)
qed

lemma lang_star_cls: "lang (Star (Cls P)) = {s. \<forall>c \<in> set s. P c}"
  unfolding lang.simps set_eq_iff mem_Collect_eq kleene_cls by blast

lemma lang_star_not: "lang (Star (Cls (\<lambda>d. d \<noteq> c))) = {s. c \<notin> set s}"
  unfolding lang_star_cls by blast

lemma lang_star_dot: "lang (Star reDot) = {s. CHR 10 \<notin> set s \<and> CHR 13 \<notin> set s}"
  unfolding lang_star_cls reDot_def by blast

lemma quantified_meaning:
  "t \<noteq> GQuestion \<Longrightarrow> \<exists>r. quantified t 0 = Some r \<and> {u @ s | u s. u \<in> lang r \<and> s \<in> globMeaning ts} = globMeaning (t # ts)"
proof (cases t)
  case GSegment
  have "{u @ s | u s. u \<in> lang (Star (Cls (\<lambda>d. d \<noteq> CHR ''/''))) \<and> s \<in> globMeaning ts} = globMeaning (t # ts)"
    unfolding lang_star_not GSegment globMeaning.simps mem_Collect_eq ..
  then show ?thesis by (simp add: quantified_def GSegment del: lang.simps globMeaning.simps)
next
  case GPath
  have "{u @ s | u s. u \<in> lang (Star reDot) \<and> s \<in> globMeaning ts} = globMeaning (t # ts)"
    unfolding lang_star_dot GPath globMeaning.simps mem_Collect_eq conj_assoc ..
  then show ?thesis by (simp add: quantified_def GPath del: lang.simps globMeaning.simps)
qed (auto simp: quantified_def)

lemma globRegex_plain:
  "GQuestion \<notin> set ts \<Longrightarrow> \<exists>rs. globRegex ts = Some rs \<and> lang (reSeqs rs) = globMeaning ts"
proof (induction ts)
  case (Cons t ts)
  then obtain rs where rs: "globRegex ts = Some rs" "lang (reSeqs rs) = globMeaning ts" by auto
  obtain r where r: "quantified t 0 = Some r"
      "{u @ s | u s. u \<in> lang r \<and> s \<in> globMeaning ts} = globMeaning (t # ts)"
    using quantified_meaning [of t ts] Cons.prems by auto
  have "takeWhile (\<lambda>u. u = GQuestion) ts = []" "dropWhile (\<lambda>u. u = GQuestion) ts = ts"
    using Cons.prems by (cases ts; auto)+
  then have "globRegex (t # ts) = Some (r # rs)" using rs(1) r(1) by (simp add: Let_def)
  then show ?case using rs(2) r(2) by auto
qed auto

lemma meaning_segment: "CHR ''/'' \<notin> set u \<Longrightarrow> s \<in> globMeaning ts \<Longrightarrow> u @ s \<in> globMeaning (GSegment # ts)"
  by auto

lemma meaning_path: "CHR 10 \<notin> set u \<Longrightarrow> CHR 13 \<notin> set u \<Longrightarrow> s \<in> globMeaning ts \<Longrightarrow>
    u @ s \<in> globMeaning (GPath # ts)"
  by auto

lemma glob_matches_itself: "p \<in> globMeaning (globTokens p)"
proof (induction p rule: globTokens.induct)
  case (2 c s)
  show ?case
  proof (cases "c = CHR ''*''")
    case True
    show ?thesis
    proof (cases s)
      case Nil
      then show ?thesis using True meaning_segment [of "''*''" "[]" "[]"] by simp
    next
      case (Cons d t)
      then show ?thesis
        using 2 True meaning_path [of "''**''" t "globTokens t"] meaning_segment [of "''*''" s "globTokens s"]
        by (cases "d = CHR ''*''") (simp_all del: globMeaning.simps)
    qed
  qed (use 2 in auto)
qed simp

lemma globTokens_question: "GQuestion \<in> set (globTokens p) \<longleftrightarrow> CHR ''?'' \<in> set p"
  by (induction p rule: globTokens.induct) (auto split: list.splits)



text \<open>What the escaping leaves out: a question mark is a quantifier, and can make the check throw; and
  \<open>**\<close> between slashes wants at least one directory.\<close>

lemma question_mark_quantifies: "globMatch ''a?.ts'' ''.ts'' = Some True \<and> globMatch ''a?.ts'' ''ab.ts'' = Some False"
  by code_simp

lemma question_mark_throws: "globMatch ''?.ts'' ''a.ts'' = None"
  by code_simp

lemma globstar_needs_directory: "globMatch ''src/**/x.ts'' ''src/x.ts'' = Some False"
  by code_simp

section \<open>What is granted\<close>

lemma someMatch_True: "someMatch f xs = Some r \<Longrightarrow> r \<longleftrightarrow> (\<exists>x \<in> set xs. f x = Some True)"
  by (induction xs) (auto split: option.splits bool.splits)

lemma firstBlocked_iff: "firstBlocked t bs = Some r \<Longrightarrow> r = None \<longleftrightarrow> (\<forall>b \<in> set bs. globMatch b t \<noteq> Some True)"
  by (induction bs) (auto split: option.splits bool.splits)

definition permitted :: "permissions \<Rightarrow> access \<Rightarrow> string \<Rightarrow> bool" where
  "permitted p a t \<longleftrightarrow> (\<exists>pats. patternsFor p a = Some pats \<and> (\<exists>q \<in> set pats. globMatch q t = Some True))"

text \<open>A constraint list of languages none of which is known does not constrain, and a target without
  an extension is not constrained.\<close>

definition constrained :: "agent_constraints \<Rightarrow> string \<Rightarrow> bool" where
  "constrained c t \<longleftrightarrow> (\<exists>b \<in> set (orElse (ac_blockedPaths c) []). globMatch b t = Some True) \<or>
     (fileExtension t \<noteq> [] \<and> allowedExtensions (orElse (ac_allowedLanguages c) []) \<noteq> [] \<and>
      fileExtension t \<notin> set (allowedExtensions (orElse (ac_allowedLanguages c) [])))"

lemma checkPermission_exact: "checkPermission p a t = Some r \<Longrightarrow> ar_allowed r \<longleftrightarrow> permitted p a t"
  by (auto simp: checkPermission_def permitted_def granted_def dest!: someMatch_True
      split: option.splits if_splits)

lemma checkConstraints_exact: "checkConstraints c t = Some r \<Longrightarrow> ar_allowed r \<longleftrightarrow> \<not> constrained c t"
proof -
  assume r: "checkConstraints c t = Some r"
  obtain f where f: "firstBlocked t (orElse (ac_blockedPaths c) []) = Some f"
    using r by (auto simp: checkConstraints_def split: option.splits)
  have "allowedExtensions [] = []" by (simp add: allowedExtensions_def)
  then show ?thesis
    using r firstBlocked_iff [OF f] f
    by (auto simp: checkConstraints_def constrained_def granted_def Let_def split: option.splits if_splits)
qed

text \<open>C20. What the hook grants, exactly: when no glob throws, a request is allowed if and only if the
  agent has a level, the policy defines it, one of the level's patterns for the action matches the
  target, and, for a write by an agent with constraints, no blocked path matches and the file
  extension is one of the allowed languages' (when both are known). Reads and executes are not
  constrained.\<close>

theorem authorization_exact:
  assumes "authorizationHook levels agentLevels agentConstraints ctx = Some r"
  shows "ar_allowed r \<longleftrightarrow> (\<exists>n l. mapGet agentLevels (az_agent ctx) = Some n \<and>
    find (\<lambda>l. lp_level l = n) levels = Some l \<and> permitted (lp_permissions l) (az_action ctx) (az_target ctx) \<and>
    (az_action ctx = Write \<longrightarrow> (\<forall>c. mapGet agentConstraints (az_agent ctx) = Some c \<longrightarrow> \<not> constrained c (az_target ctx))))"
  using assms checkPermission_exact checkConstraints_exact
  by (auto simp: authorizationHook_def authorize_def granted_def split: option.splits if_splits)

definition sampleLevels :: "level_permissions list" where
  "sampleLevels = [\<lparr>lp_level = 1, lp_permissions =
     \<lparr>pm_read = Some [''**''], pm_write = Some [''src/**''], pm_execute = Some []\<rparr>\<rparr>]"

definition sampleRequest :: authorization_context where
  "sampleRequest = \<lparr>az_agent = ''bot'', az_action = Write, az_target = ''src/a.ts''\<rparr>"

theorem authorization_exact_witness:
  "permitted (lp_permissions (hd sampleLevels)) Write ''src/a.ts'' \<and> \<not> constrained
     \<lparr>ac_allowedLanguages = Some [''TypeScript''], ac_blockedPaths = Some [''src/core/*'']\<rparr> ''src/a.ts''"
proof -
  have "authorizationHook sampleLevels [(''bot'', 1)]
      [(''bot'', \<lparr>ac_allowedLanguages = Some [''TypeScript''], ac_blockedPaths = Some [''src/core/*'']\<rparr>)] sampleRequest =
    Some granted" by code_simp
  from authorization_exact [OF this] show ?thesis by (auto simp: granted_def sampleRequest_def sampleLevels_def)
qed

text \<open>Paths are compared as text: a path that leaves the permitted directory is still matched.\<close>

lemma traversal_permitted: "globMatch ''src/**'' ''src/../secrets/key'' = Some True"
  by code_simp

lemma unknown_languages_allow_all:
  "checkConstraints \<lparr>ac_allowedLanguages = Some [''kotlin''], ac_blockedPaths = None\<rparr> ''a.exe'' = Some granted"
  by code_simp

section \<open>Attribute rules\<close>

lemma abacLoop_exact: "ar_allowed (abacLoop ev ps anyAllow) \<longleftrightarrow>
    (anyAllow \<or> (\<exists>p \<in> set ps. ap_effect p = AbacAllow \<and> ev (ap_expression p) = Some True)) \<and>
    (\<forall>p \<in> set ps. ap_effect p = AbacDeny \<longrightarrow> ev (ap_expression p) \<noteq> Some True)"
  by (induction ps arbitrary: anyAllow) (auto simp: granted_def split: abac_effect.splits)

text \<open>Attribute rules: access is granted if and only if some allow rule holds and no deny rule
  holds, so the order of the rules and their repetition do not matter; a rule whose evaluation
  fails never holds.\<close>

theorem abac_deny_overrides:
  "(ar_allowed (abacHook ev policies getContext ctx) \<longleftrightarrow>
     (\<exists>p \<in> set policies. ap_effect p = AbacAllow \<and> ev (ap_expression p) (getContext ctx) = Some True) \<and>
     \<not> (\<exists>p \<in> set policies. ap_effect p = AbacDeny \<and> ev (ap_expression p) (getContext ctx) = Some True)) \<and>
   (set policies = set policies' \<longrightarrow>
     ar_allowed (abacHook ev policies getContext ctx) = ar_allowed (abacHook ev policies' getContext ctx))"
  by (auto simp: abacHook_def abacLoop_exact)

theorem abac_deny_overrides_witness:
  "ar_allowed (abacHook (\<lambda>e c. Some (e = c))
     [\<lparr>ap_name = ''n'', ap_expression = ''x'', ap_effect = AbacAllow\<rparr>] az_agent \<lparr>az_agent = ''x'', az_action = Read, az_target = []\<rparr>) =
   ar_allowed (abacHook (\<lambda>e c. Some (e = c))
     [\<lparr>ap_name = ''n'', ap_expression = ''x'', ap_effect = AbacAllow\<rparr>, \<lparr>ap_name = ''n'', ap_expression = ''x'', ap_effect = AbacAllow\<rparr>]
     az_agent \<lparr>az_agent = ''x'', az_action = Read, az_target = []\<rparr>)"
  by (rule abac_deny_overrides [THEN conjunct2, rule_format]) simp

end
