(* ===== verification/Metric.thy ===== *)
theory Metric
  imports Prelude Complex_Main
begin

text \<open>
  Numbers of the policy engine and how they compare: \<open>reference/src/core/compare.ts\<close>. A JavaScript
  number is a rational here (no NaN, no infinities, no rounding); \<open>showNumber\<close> prints one with a
  finite decimal expansion as \<open>String\<close> does between \<open>1e-7\<close> and \<open>1e21\<close>.
\<close>

fun decimals :: "nat \<Rightarrow> rat \<Rightarrow> string" where
  "decimals 0 r = []"
| "decimals (Suc k) r = (if r = 0 then []
     else char_of (48 + nat \<lfloor>10 * r\<rfloor>) # decimals k (10 * r - of_int \<lfloor>10 * r\<rfloor>))"

definition showNumber :: "rat \<Rightarrow> string" where
  "showNumber r = (let a = \<bar>r\<bar>; n = \<lfloor>a\<rfloor>; ds = decimals 17 (a - of_int n)
     in (if r < 0 then ''-'' else []) @ showNat (nat n) @ (if ds = [] then [] else ''.'' @ ds))"

text \<open>\<open>toFixed(1)\<close> of a number that is not negative.\<close>

definition toFixed1 :: "rat \<Rightarrow> string" where
  "toFixed1 r = (let n = \<lfloor>r * 10 + 1 / 2\<rfloor> in showInt (n div 10) @ ''.'' @ showInt (n mod 10))"

definition compareMetric :: "rat \<Rightarrow> string \<Rightarrow> rat \<Rightarrow> bool" where
  "compareMetric actual operator threshold =
    (if operator = ''>='' then actual \<ge> threshold
     else if operator = ''<='' then actual \<le> threshold
     else if operator = ''=='' then actual = threshold
     else if operator = ''!='' then actual \<noteq> threshold
     else if operator = ''>'' then actual > threshold
     else if operator = ''<'' then actual < threshold
     else False)"

datatype severity = Low | Medium | High | Critical

fun severityOrder :: "severity \<Rightarrow> nat" where
  "severityOrder Low = 1" | "severityOrder Medium = 2" | "severityOrder High = 3" | "severityOrder Critical = 4"

definition exceedsSeverity :: "severity \<Rightarrow> severity \<Rightarrow> bool" where
  "exceedsSeverity actual m \<longleftrightarrow> severityOrder actual > severityOrder m"

fun severityText :: "severity \<Rightarrow> string" where
  "severityText Low = ''low''" | "severityText Medium = ''medium''" | "severityText High = ''high''"
| "severityText Critical = ''critical''"

end
