(* ===== verification/Enforcement.thy ===== *)
theory Enforcement
  imports Metric
begin

text \<open>
  Quality gates: \<open>reference/src/policy/enforcement.ts\<close>. A rule is one constructor per member of the
  source's union \<open>GateRule\<close>, tested in the order of \<open>evaluateRule\<close>; a rule object that has the keys
  of two members is left out. A metric, a threshold and a count is a number of \<open>Metric\<close>.
\<close>

section \<open>Rules and their context\<close>

datatype author_type = AiAgent | Human | Bot | ServiceAccount

datatype design_decision = Approved | Rejected | ApprovedWithComments

fun decisionName :: "design_decision \<Rightarrow> string" where
  "decisionName Approved = ''approved''"
| "decisionName Rejected = ''rejected''"
| "decisionName ApprovedWithComments = ''approved-with-comments''"

record design_review =
  dr_decision :: "design_decision option"
  dr_reviewer :: "string option"
  dr_pendingTimeout :: bool

record story_meta =
  sm_hasDefaultStory :: bool
  sm_hasStateStories :: bool
  sm_hasA11yStory :: bool
  sm_storyCount :: "rat option"

record evaluation_context =
  ec_authorType :: author_type
  ec_repository :: string
  ec_metrics :: "(string, rat) jsmap"
  ec_overrideRole :: "string option"
  ec_overrideJustification :: "string option"
  ec_toolResults :: "(string, severity list) jsmap"
  ec_reviewerCount :: "rat option"
  ec_changedFiles :: "string list"
  ec_docFiles :: "string list"
  ec_provenance :: "(bool \<times> bool) option"
  ec_designReview :: "design_review option"
  ec_designTokenViolations :: "(string, rat) jsmap"
  ec_storyMeta :: "story_meta option"

datatype gate_rule =
  MetricRule string string rat
| ToolRule string "severity option"
| ReviewerRule rat bool
| DocumentationRule bool
| CostRule string string rat
| ProvenanceRule bool bool
| DesignTokenRule "string option" "rat option" "(string \<times> rat) option"
| VisualRegressionRule rat bool
| StoryCompletenessRule bool bool bool "rat option"
| DesignReviewRule "string option"
| ExpressionRule string

record rule_result =
  rr_passed :: bool
  rr_message :: "string option"

abbreviation passes :: rule_result where
  "passes \<equiv> \<lparr>rr_passed = True, rr_message = None\<rparr>"

abbreviation failsWith :: "string \<Rightarrow> rule_result" where
  "failsWith m \<equiv> \<lparr>rr_passed = False, rr_message = Some m\<rparr>"

definition inQuotes :: "string \<Rightarrow> string" where
  "inQuotes s = ''\"'' @ s @ ''\"''"

section \<open>Evaluating a rule\<close>

definition toolRule :: "string \<Rightarrow> severity option \<Rightarrow> evaluation_context \<Rightarrow> rule_result" where
  "toolRule tool maxSeverity ctx = (case mapGet (ec_toolResults ctx) tool of
     None \<Rightarrow> failsWith (''Tool '' @ inQuotes tool @ '' results not available'')
   | Some findings \<Rightarrow> (case maxSeverity of
       None \<Rightarrow> passes
     | Some m \<Rightarrow> (let violations = filter (\<lambda>s. exceedsSeverity s m) findings
         in if 0 < length violations
            then failsWith (showNat (length violations) @ '' finding(s) exceed max severity '' @ inQuotes (severityText m))
            else passes)))"

definition designTokenRule ::
    "string option \<Rightarrow> rat option \<Rightarrow> (string \<times> rat) option \<Rightarrow> evaluation_context \<Rightarrow> rule_result" where
  "designTokenRule category maxViolations coverageMetric ctx = (case coverageMetric of
     Some (operator, threshold) \<Rightarrow> (case mapGet (ec_metrics ctx) ''token-coverage'' of
         None \<Rightarrow> failsWith (''Metric '' @ inQuotes ''token-coverage'' @ '' not available'')
       | Some coverage \<Rightarrow>
           \<lparr>rr_passed = compareMetric coverage operator threshold,
            rr_message = (if \<not> compareMetric coverage operator threshold
              then Some (''Token coverage '' @ showNumber coverage @ '' does not meet '' @ operator @ '' '' @ showNumber threshold)
              else None)\<rparr>)
   | None \<Rightarrow> (let cat = orElse category ''all'';
         violations = (case mapGet (ec_designTokenViolations ctx) cat of Some v \<Rightarrow> v
           | None \<Rightarrow> orElse (mapGet (ec_metrics ctx) (cat @ ''-violations'')) 0);
         m = orElse maxViolations 0
       in if m < violations
          then failsWith (showNumber violations @ '' '' @ cat @ '' token violation(s) exceed max '' @ showNumber m)
          else passes))"

definition visualRegressionRule :: "rat \<Rightarrow> bool \<Rightarrow> evaluation_context \<Rightarrow> rule_result" where
  "visualRegressionRule diffThreshold requireBaseline ctx =
    (if requireBaseline \<and> mapGet (ec_metrics ctx) ''baseline-exists'' = Some 0
     then failsWith ''Visual baseline does not exist''
     else case mapGet (ec_metrics ctx) ''visual-diff-percentage'' of
       None \<Rightarrow> failsWith (''Metric '' @ inQuotes ''visual-diff-percentage'' @ '' not available'')
     | Some diffPct \<Rightarrow>
         if diffThreshold < diffPct
         then failsWith (''Visual diff '' @ toFixed1 (diffPct * 100) @ ''% exceeds threshold '' @
           toFixed1 (diffThreshold * 100) @ ''%'')
         else passes)"

definition storyRule :: "bool \<Rightarrow> bool \<Rightarrow> bool \<Rightarrow> rat option \<Rightarrow> evaluation_context \<Rightarrow> rule_result" where
  "storyRule requireDefault requireState requireA11y minStories ctx = (case ec_storyMeta ctx of
     None \<Rightarrow> failsWith ''Story metadata not available''
   | Some meta \<Rightarrow>
       if requireDefault \<and> \<not> sm_hasDefaultStory meta then failsWith ''Default story is required but missing''
       else if requireState \<and> \<not> sm_hasStateStories meta
       then failsWith ''Interactive state stories are required but missing''
       else if requireA11y \<and> \<not> sm_hasA11yStory meta then failsWith ''Accessibility story is required but missing''
       else if orElse minStories 0 \<noteq> 0 \<and> orElse (sm_storyCount meta) 0 < orElse minStories 0
       then failsWith (''Component has '' @ showNumber (orElse (sm_storyCount meta) 0) @ '' stories, minimum '' @
         showNumber (orElse minStories 0) @ '' required'')
       else passes)"

definition designReviewRule :: "string option \<Rightarrow> evaluation_context \<Rightarrow> rule_result" where
  "designReviewRule onTimeout ctx = (case ec_designReview ctx of
     None \<Rightarrow> failsWith ''Design review not yet submitted''
   | Some review \<Rightarrow>
       if dr_pendingTimeout review
       then (if onTimeout = Some ''fail'' then failsWith ''Design review timed out''
         else failsWith ''Design review pending (timed out, paused)'')
       else if dr_decision review = Some Approved \<or> dr_decision review = Some ApprovedWithComments then passes
       else failsWith (''Design review '' @ orElse (map_option decisionName (dr_decision review)) ''pending'' @
         '' by '' @ orElse (dr_reviewer review) ''unknown''))"

fun evaluateRule :: "gate_rule \<Rightarrow> evaluation_context \<Rightarrow> rule_result" where
  "evaluateRule (MetricRule metric operator threshold) ctx = (case mapGet (ec_metrics ctx) metric of
     None \<Rightarrow> failsWith (''Metric '' @ inQuotes metric @ '' not available'')
   | Some actual \<Rightarrow> \<lparr>rr_passed = compareMetric actual operator threshold, rr_message = None\<rparr>)"
| "evaluateRule (ToolRule tool maxSeverity) ctx = toolRule tool maxSeverity ctx"
| "evaluateRule (ReviewerRule minimumReviewers aiExtra) ctx =
    (let required = minimumReviewers + (if aiExtra \<and> ec_authorType ctx = AiAgent then 1 else 0);
         actual = orElse (ec_reviewerCount ctx) 0
     in if required \<le> actual then passes
        else failsWith (''Requires '' @ showNumber required @ '' reviewer(s), got '' @ showNumber actual))"
| "evaluateRule (DocumentationRule requireDocUpdate) ctx =
    (if \<not> requireDocUpdate then passes
     else if ec_changedFiles ctx \<noteq> [] \<and> ec_docFiles ctx = []
     then failsWith ''Code changes require documentation updates'' else passes)"
| "evaluateRule (CostRule metric operator threshold) ctx = (case mapGet (ec_metrics ctx) metric of
     None \<Rightarrow> failsWith (''Cost metric '' @ inQuotes metric @ '' not available'')
   | Some actual \<Rightarrow> \<lparr>rr_passed = compareMetric actual operator threshold, rr_message = None\<rparr>)"
| "evaluateRule (ProvenanceRule requireAttribution requireHumanReview) ctx =
    (let (attribution, humanReviewed) = orElse (ec_provenance ctx) (False, False)
     in if requireAttribution \<and> \<not> attribution then failsWith ''Attribution is required''
        else if requireHumanReview \<and> \<not> humanReviewed then failsWith ''Human review is required''
        else passes)"
| "evaluateRule (DesignTokenRule category maxViolations coverageMetric) ctx =
    designTokenRule category maxViolations coverageMetric ctx"
| "evaluateRule (VisualRegressionRule diffThreshold requireBaseline) ctx =
    visualRegressionRule diffThreshold requireBaseline ctx"
| "evaluateRule (StoryCompletenessRule d s a m) ctx = storyRule d s a m ctx"
| "evaluateRule (DesignReviewRule onTimeout) ctx = designReviewRule onTimeout ctx"
| "evaluateRule (ExpressionRule e) ctx = failsWith ''Unknown rule type''"

section \<open>Gates\<close>

datatype enforcement_level = Advisory | SoftMandatory | HardMandatory

datatype gate_verdict = Pass | Fail | Override

record gate_override =
  go_requiredRole :: string
  go_requiresJustification :: bool

record gate =
  gt_name :: string
  gt_enforcement :: enforcement_level
  gt_rule :: gate_rule
  gt_override :: "gate_override option"

record gate_result =
  gr_gate :: string
  gr_enforcement :: enforcement_level
  gr_verdict :: gate_verdict
  gr_message :: "string option"

text \<open>The conditions of an override, in the order of the source.\<close>

definition overridden :: "gate \<Rightarrow> evaluation_context \<Rightarrow> bool" where
  "overridden g ctx = (case gt_override g of
     None \<Rightarrow> False
   | Some o' \<Rightarrow> gt_enforcement g = SoftMandatory \<and> given (ec_overrideRole ctx) \<and>
       ec_overrideRole ctx = Some (go_requiredRole o') \<and>
       (\<not> go_requiresJustification o' \<or> given (ec_overrideJustification ctx)))"

definition evaluateGate :: "gate \<Rightarrow> evaluation_context \<Rightarrow> gate_result" where
  "evaluateGate g ctx =
    (let result = evaluateRule (gt_rule g) ctx
     in if rr_passed result
        then \<lparr>gr_gate = gt_name g, gr_enforcement = gt_enforcement g, gr_verdict = Pass, gr_message = None\<rparr>
        else if overridden g ctx
        then \<lparr>gr_gate = gt_name g, gr_enforcement = gt_enforcement g, gr_verdict = Override,
              gr_message = Some (''Overridden by '' @ orElse (ec_overrideRole ctx) [])\<rparr>
        else \<lparr>gr_gate = gt_name g, gr_enforcement = gt_enforcement g, gr_verdict = Fail, gr_message = rr_message result\<rparr>)"

record enforcement_result =
  er_allowed :: bool
  er_results :: "gate_result list"

definition resultAllows :: "gate_result \<Rightarrow> bool" where
  "resultAllows r = (if gr_verdict r = Pass \<or> gr_verdict r = Override then True
     else if gr_enforcement r = Advisory then True else False)"

definition enforce :: "gate list \<Rightarrow> evaluation_context \<Rightarrow> enforcement_result" where
  "enforce gates ctx =
    (let results = map (\<lambda>g. evaluateGate g ctx) gates
     in \<lparr>er_allowed = list_all resultAllows results, er_results = results\<rparr>)"

end
