(* ===== verification/Admission.thy ===== *)
theory Admission
  imports Authorization Enforcement Json
begin

text \<open>
  Admission of a resource, \<open>reference/src/policy/\<close>: \<open>authentication.ts\<close>, \<open>mutating-gate.ts\<close> and their
  composition with authorization and enforcement in \<open>admission.ts\<close>; and the gate reconciler
  \<open>reference/src/reconciler/gate-reconciler.ts\<close>. Promises are their values. \<open>None\<close> is a rejected
  promise: only an authorization that throws rejects.
\<close>

section \<open>Authentication\<close>

record auth_identity =
  id_actor :: string
  id_actorType :: author_type
  id_roles :: "string list"
  id_groups :: "string list"
  id_scopes :: "string list"

text \<open>\<open>AuthenticationResult\<close>: a failure carries its reason, a success its identity (which the type
  lets an authenticator leave out).\<close>

datatype auth_result = AuthFailure "string option" | AuthSuccess "auth_identity option"

type_synonym authenticator = "string \<Rightarrow> auth_result"

definition createTokenAuthenticator :: "(string, auth_identity) jsmap \<Rightarrow> authenticator" where
  "createTokenAuthenticator tokenMap token = (case mapGet tokenMap token of
     None \<Rightarrow> AuthFailure (Some ''Invalid token'') | Some identity \<Rightarrow> AuthSuccess (Some identity))"

definition createAlwaysAuthenticator :: "auth_identity \<Rightarrow> authenticator" where
  "createAlwaysAuthenticator identity token = AuthSuccess (Some identity)"

section \<open>Mutating gates\<close>

record mutating_gate =
  mg_name :: string
  mg_mutate :: "any_resource \<Rightarrow> author_type \<Rightarrow> any_resource"

definition textMembers :: "(string, string) jsmap \<Rightarrow> (string \<times> json) list" where
  "textMembers m = map (\<lambda>(k, v). (k, JStr v)) m"

definition createLabelInjector :: "(string, string) jsmap \<Rightarrow> mutating_gate" where
  "createLabelInjector labels = \<lparr>mg_name = ''label-injector'',
     mg_mutate = (\<lambda>r ctx. r\<lparr>rs_labels := spreadInto (rs_labels r) (textMembers labels)\<rparr>)\<rparr>"

definition createMetadataEnricher :: "(string, string) jsmap \<Rightarrow> mutating_gate" where
  "createMetadataEnricher annotations = \<lparr>mg_name = ''metadata-enricher'',
     mg_mutate = (\<lambda>r ctx. r\<lparr>rs_annotations := spreadInto (rs_annotations r) (textMembers annotations)\<rparr>)\<rparr>"

definition createReviewerAssigner :: "(any_resource \<Rightarrow> author_type \<Rightarrow> string list) \<Rightarrow> mutating_gate" where
  "createReviewerAssigner assignFn = \<lparr>mg_name = ''reviewer-assigner'',
     mg_mutate = (\<lambda>r ctx. r\<lparr>rs_annotations := spreadInto (rs_annotations r)
       [(''ai-sdlc.io/reviewers'', JStr (joinWith '','' (assignFn r ctx)))]\<rparr>)\<rparr>"

definition applyMutatingGates :: "any_resource \<Rightarrow> mutating_gate list \<Rightarrow> author_type \<Rightarrow> any_resource" where
  "applyMutatingGates resource gates ctx = fold (\<lambda>g current. mg_mutate g current ctx) gates resource"

section \<open>The pipeline\<close>

record admission_request =
  aq_resource :: any_resource
  aq_token :: "string option"
  aq_action :: "access option"
  aq_target :: "string option"
  aq_overrideRole :: "string option"
  aq_overrideJustification :: "string option"

text \<open>\<open>Partial<EvaluationContext>\<close>: the three fields with a default may be missing; the others are the
  optional fields of the context itself.\<close>

record partial_context =
  pc_authorType :: "author_type option"
  pc_repository :: "string option"
  pc_metrics :: "(string, rat) jsmap option"
  pc_optional :: evaluation_context

record admission_pipeline =
  ap_authenticator :: "authenticator option"
  ap_authorizer :: "(authorization_context \<Rightarrow> authorization_result option) option"
  ap_mutatingGates :: "mutating_gate list"
  ap_qualityGate :: "gate list"
  ap_evaluationContext :: partial_context

record admission_result =
  ad_admitted :: bool
  ad_resource :: any_resource
  ad_identity :: "auth_identity option"
  ad_authzResult :: "authorization_result option"
  ad_gateResult :: "enforcement_result option"
  ad_error :: "string option"

definition notAdmitted ::
    "any_resource \<Rightarrow> auth_identity option \<Rightarrow> authorization_result option \<Rightarrow> string \<Rightarrow> admission_result" where
  "notAdmitted r i z e = \<lparr>ad_admitted = False, ad_resource = r, ad_identity = i, ad_authzResult = z,
     ad_gateResult = None, ad_error = Some e\<rparr>"

text \<open>\<open>x ?? y\<close> on optional values.\<close>

definition coalesce :: "'a option \<Rightarrow> 'a option \<Rightarrow> 'a option" where
  "coalesce a b = (case a of None \<Rightarrow> b | Some x \<Rightarrow> Some x)"

text \<open>The context of stage 4: the defaults, overwritten by the pipeline's partial context.\<close>

definition admissionContext :: "admission_request \<Rightarrow> admission_pipeline \<Rightarrow> auth_identity option \<Rightarrow> evaluation_context" where
  "admissionContext request pipeline identity =
    (let pc = ap_evaluationContext pipeline; base = pc_optional pc
     in base\<lparr>ec_authorType := orElse (pc_authorType pc) (orElse (map_option id_actorType identity) AiAgent),
             ec_repository := orElse (pc_repository pc) [],
             ec_metrics := orElse (pc_metrics pc) [],
             ec_overrideRole := coalesce (aq_overrideRole request) (ec_overrideRole base),
             ec_overrideJustification :=
               coalesce (aq_overrideJustification request) (ec_overrideJustification base)\<rparr>)"

text \<open>Stage 1: the identity, or why there is none.\<close>

definition authenticateStage :: "admission_request \<Rightarrow> admission_pipeline \<Rightarrow> string + auth_identity option" where
  "authenticateStage request pipeline = (case ap_authenticator pipeline of
     None \<Rightarrow> Inr None
   | Some authenticate \<Rightarrow>
       if \<not> given (aq_token request) then Inl ''Authentication required but no token provided''
       else (case authenticate (the (aq_token request)) of
           AuthFailure reason \<Rightarrow> Inl (''Authentication failed: '' @ orElse reason ''unknown'')
         | AuthSuccess identity \<Rightarrow> Inr identity))"

text \<open>Stage 2: the request the authorizer is asked.\<close>

definition authorizationRequest :: "admission_request \<Rightarrow> auth_identity option \<Rightarrow> authorization_context" where
  "authorizationRequest request identity =
    \<lparr>az_agent = orElse (map_option id_actor identity) ''anonymous'',
     az_action = orElse (aq_action request) Write,
     az_target = orElse (aq_target request) (rs_name (aq_resource request))\<rparr>"

definition admitResource :: "admission_request \<Rightarrow> admission_pipeline \<Rightarrow> admission_result option" where
  "admitResource request pipeline = (case authenticateStage request pipeline of
     Inl e \<Rightarrow> Some (notAdmitted (aq_resource request) None None e)
   | Inr identity \<Rightarrow>
       (case (case ap_authorizer pipeline of None \<Rightarrow> Some None
              | Some authorizer \<Rightarrow> map_option Some (authorizer (authorizationRequest request identity))) of
          None \<Rightarrow> None
        | Some authzResult \<Rightarrow>
            if (case authzResult of None \<Rightarrow> False | Some z \<Rightarrow> \<not> ar_allowed z)
            then Some (notAdmitted (aq_resource request) identity authzResult
              (''Authorization denied: '' @ orElse (ar_reason (the authzResult)) ''unknown''))
            else let resource = applyMutatingGates (aq_resource request) (ap_mutatingGates pipeline)
                       (orElse (map_option id_actorType identity) AiAgent);
                     gateResult = enforce (ap_qualityGate pipeline) (admissionContext request pipeline identity)
              in Some \<lparr>ad_admitted = er_allowed gateResult, ad_resource = resource, ad_identity = identity,
                       ad_authzResult = authzResult, ad_gateResult = Some gateResult, ad_error = None\<rparr>))"

section \<open>The gate reconciler\<close>

record gate_condition =
  gc_type :: string
  gc_status :: bool
  gc_reason :: gate_verdict
  gc_message :: "string option"

text \<open>The status it writes: compliance, and one condition per gate (the time stamp left out).\<close>

definition reconcileGates :: "gate list \<Rightarrow> evaluation_context \<Rightarrow> bool \<times> gate_condition list" where
  "reconcileGates gates ctx =
    (let result = enforce gates ctx
     in (er_allowed result, map (\<lambda>r. \<lparr>gc_type = gr_gate r, gc_status = (gr_verdict r = Pass \<or> gr_verdict r = Override),
           gc_reason = gr_verdict r, gc_message = gr_message r\<rparr>) (er_results result)))"

end
