(* ===== verification/AdmissionProps.thy ===== *)
theory AdmissionProps
  imports Admission AccessProps
begin

text \<open>
  The properties of quality gates and of the admission pipeline that composes them with
  authentication and authorization.
\<close>

section \<open>Gates\<close>

lemma evaluateGate_allows: "resultAllows (evaluateGate g ctx) \<longleftrightarrow>
    gt_enforcement g = Advisory \<or> rr_passed (evaluateRule (gt_rule g) ctx) \<or> overridden g ctx"
  by (auto simp: evaluateGate_def resultAllows_def Let_def)

text \<open>A gate overridden by the request: soft-mandatory, by the required role, with the justification it
  asks for.\<close>

definition mayOverride :: "gate \<Rightarrow> evaluation_context \<Rightarrow> bool" where
  "mayOverride g ctx \<longleftrightarrow> gt_enforcement g = SoftMandatory \<and>
     (\<exists>v. gt_override g = Some v \<and> go_requiredRole v \<noteq> [] \<and> ec_overrideRole ctx = Some (go_requiredRole v) \<and>
       (go_requiresJustification v \<longrightarrow> given (ec_overrideJustification ctx)))"

lemma overridden_iff: "overridden g ctx \<longleftrightarrow> mayOverride g ctx"
  by (auto simp: overridden_def mayOverride_def given_def split: option.splits)

text \<open>C21. Enforcement, exactly: the gates allow the action if and only if every hard-mandatory gate's
  rule passes and every soft-mandatory gate's rule passes or is overridden by the role its override
  requires, with a justification where one is required; advisory gates never block. There is one
  result per gate, in order, each a pass exactly when the rule passes.\<close>

theorem enforcement_exact:
  "(er_allowed (enforce gates ctx) \<longleftrightarrow>
     (\<forall>g \<in> set gates. gt_enforcement g = HardMandatory \<longrightarrow> rr_passed (evaluateRule (gt_rule g) ctx)) \<and>
     (\<forall>g \<in> set gates. gt_enforcement g = SoftMandatory \<longrightarrow>
        rr_passed (evaluateRule (gt_rule g) ctx) \<or> mayOverride g ctx)) \<and>
   map gr_gate (er_results (enforce gates ctx)) = map gt_name gates \<and>
   map (\<lambda>r. gr_verdict r = Pass) (er_results (enforce gates ctx)) =
     map (\<lambda>g. rr_passed (evaluateRule (gt_rule g) ctx)) gates"
proof (intro conjI)
  have "overridden g ctx \<Longrightarrow> gt_enforcement g = SoftMandatory" for g
    by (simp add: overridden_iff mayOverride_def)
  then have "resultAllows (evaluateGate g ctx) \<longleftrightarrow>
      (gt_enforcement g = HardMandatory \<longrightarrow> rr_passed (evaluateRule (gt_rule g) ctx)) \<and>
      (gt_enforcement g = SoftMandatory \<longrightarrow> rr_passed (evaluateRule (gt_rule g) ctx) \<or> mayOverride g ctx)" for g
    by (cases "gt_enforcement g") (auto simp: evaluateGate_allows overridden_iff)
  then show "er_allowed (enforce gates ctx) \<longleftrightarrow>
     (\<forall>g \<in> set gates. gt_enforcement g = HardMandatory \<longrightarrow> rr_passed (evaluateRule (gt_rule g) ctx)) \<and>
     (\<forall>g \<in> set gates. gt_enforcement g = SoftMandatory \<longrightarrow>
        rr_passed (evaluateRule (gt_rule g) ctx) \<or> mayOverride g ctx)"
    by (auto simp: enforce_def Let_def list_all_iff)
qed (auto simp: enforce_def evaluateGate_def Let_def)

definition emptyContext :: evaluation_context where
  "emptyContext = \<lparr>ec_authorType = AiAgent, ec_repository = [], ec_metrics = [], ec_overrideRole = None,
     ec_overrideJustification = None, ec_toolResults = [], ec_reviewerCount = None, ec_changedFiles = [],
     ec_docFiles = [], ec_provenance = None, ec_designReview = None, ec_designTokenViolations = [],
     ec_storyMeta = None\<rparr>"

definition reviewGate :: gate where
  "reviewGate = \<lparr>gt_name = ''review'', gt_enforcement = SoftMandatory, gt_rule = ReviewerRule 1 True,
     gt_override = Some \<lparr>go_requiredRole = ''lead'', go_requiresJustification = True\<rparr>\<rparr>"

theorem enforcement_exact_witness:
  "er_allowed (enforce [reviewGate] (emptyContext\<lparr>ec_overrideRole := Some ''lead'',
     ec_overrideJustification := Some ''hotfix''\<rparr>)) \<and>
   \<not> er_allowed (enforce [reviewGate] (emptyContext\<lparr>ec_overrideRole := Some ''lead''\<rparr>))"
  using enforcement_exact [of "[reviewGate]"]
  by (simp add: reviewGate_def mayOverride_def emptyContext_def given_def)

text \<open>The union of gate rules has expression rules, which \<open>evaluateRule\<close> does not know: such a gate
  always fails.\<close>

lemma expression_gate_fails:
  "gt_rule g = ExpressionRule e \<Longrightarrow> gt_enforcement g = HardMandatory \<Longrightarrow> g \<in> set gates \<Longrightarrow>
   \<not> er_allowed (enforce gates ctx)"
  using enforcement_exact [of gates ctx] by auto

section \<open>Admission\<close>

lemma mutating_gates_keep:
  assumes "\<forall>g \<in> set gates. \<forall>r c. rs_name (mg_mutate g r c) = rs_name r \<and> rs_spec (mg_mutate g r c) = rs_spec r"
  shows "rs_name (applyMutatingGates r gates c) = rs_name r \<and> rs_spec (applyMutatingGates r gates c) = rs_spec r"
  using assms unfolding applyMutatingGates_def by (induction gates arbitrary: r) auto

text \<open>What each stage asks for.\<close>

definition authenticated :: "admission_request \<Rightarrow> admission_pipeline \<Rightarrow> auth_identity option \<Rightarrow> bool" where
  "authenticated request pipeline identity \<longleftrightarrow> (case ap_authenticator pipeline of
     None \<Rightarrow> identity = None
   | Some auth \<Rightarrow> \<exists>token. aq_token request = Some token \<and> token \<noteq> [] \<and> auth token = AuthSuccess identity)"

definition authorized :: "admission_request \<Rightarrow> admission_pipeline \<Rightarrow> auth_identity option \<Rightarrow> bool" where
  "authorized request pipeline identity \<longleftrightarrow> (\<forall>authorizer. ap_authorizer pipeline = Some authorizer \<longrightarrow>
     (\<exists>z. authorizer (authorizationRequest request identity) = Some z \<and> ar_allowed z))"

lemma authenticateStage_iff: "authenticateStage request pipeline = Inr identity \<longleftrightarrow> authenticated request pipeline identity"
  by (auto simp: authenticateStage_def authenticated_def given_def split: option.splits auth_result.splits)


definition leadPipeline :: admission_pipeline where
  "leadPipeline = \<lparr>ap_authenticator = Some (createTokenAuthenticator [(''t'', \<lparr>id_actor = ''bot'', id_actorType = Bot,
       id_roles = [], id_groups = [], id_scopes = []\<rparr>)]),
     ap_authorizer = Some (authorizationHook sampleLevels [(''bot'', 1)] []),
     ap_mutatingGates = [createLabelInjector [(''team'', ''x'')]], ap_qualityGate = [reviewGate],
     ap_evaluationContext = \<lparr>pc_authorType = None, pc_repository = None, pc_metrics = None,
       pc_optional = emptyContext\<lparr>ec_reviewerCount := Some 1\<rparr>\<rparr>\<rparr>"

definition leadRequest :: admission_request where
  "leadRequest = \<lparr>aq_resource = \<lparr>rs_name = ''r'', rs_labels = None, rs_annotations = None, rs_spec = None, rs_status = None\<rparr>,
     aq_token = Some ''t'', aq_action = None, aq_target = Some ''src/a.ts'', aq_overrideRole = None,
     aq_overrideJustification = None\<rparr>"


text \<open>The partial context is spread over the authenticated identity: an \<open>authorType\<close> in it replaces the
  caller's, so the extra reviewer asked of AI authors can be lost.\<close>

lemma context_overrides_identity:
  "pc_authorType (ap_evaluationContext pipeline) = Some t \<Longrightarrow>
   ec_authorType (admissionContext request pipeline identity) = t"
  by (simp add: admissionContext_def Let_def)

end
