(* ===== verification/Autonomy.thy ===== *)
theory Autonomy
  imports Metric Prelude
begin

text \<open>
  Autonomy levels: \<open>reference/src/policy/autonomy.ts\<close> (promotion, demotion, durations) and
  \<open>reference/src/reconciler/autonomy-reconciler.ts\<close>, which applies them to the agents of a policy.
  Times are milliseconds; the clock reading is an argument, the same for all uses within one call.
  Unmet conditions are collected as data and reported as their messages.
\<close>

section \<open>Durations\<close>

definition digitsPart :: "string \<Rightarrow> string \<times> string" where
  "digitsPart s = (takeWhile isDigit s, dropWhile isDigit s)"

text \<open>\<open>\d+(\.\d+)?\<close> at the start of the text: the number and the rest.\<close>

definition decimalPart :: "string \<Rightarrow> (rat \<times> string) option" where
  "decimalPart s = (let (ds, r) = digitsPart s in
     if ds = [] then None
     else case r of
       c # t \<Rightarrow> if c = CHR ''.'' \<and> fst (digitsPart t) \<noteq> []
         then (let (fs, u) = digitsPart t
               in Some (of_nat (natOfDigits 0 ds) + of_nat (natOfDigits 0 fs) / 10 ^ length fs, u))
         else Some (of_nat (natOfDigits 0 ds), r)
     | [] \<Rightarrow> Some (of_nat (natOfDigits 0 ds), r))"

definition unitMs :: "char \<Rightarrow> rat option" where
  "unitMs c = (let u = lowerChar c in
     if u = CHR ''s'' then Some 1000 else if u = CHR ''m'' then Some 60000
     else if u = CHR ''h'' then Some 3600000 else if u = CHR ''d'' then Some 86400000
     else if u = CHR ''w'' then Some 604800000 else None)"

text \<open>\<open>/^(\d+(?:\.\d+)?)\s*(s|m|h|d|w)$/i\<close>.\<close>

definition simpleDuration :: "string \<Rightarrow> rat option" where
  "simpleDuration d = (case decimalPart d of None \<Rightarrow> None
     | Some (v, r) \<Rightarrow> (case dropWhile isSpace r of
         [c] \<Rightarrow> map_option (\<lambda>u. v * u) (unitMs c) | _ \<Rightarrow> None))"

text \<open>\<open>(?:(\d+)X)?\<close>: the number, 0 when the group does not match.\<close>

definition optUnit :: "char \<Rightarrow> string \<Rightarrow> rat \<times> string" where
  "optUnit x s = (let (ds, r) = digitsPart s in
     if ds \<noteq> [] \<and> r \<noteq> [] \<and> lowerChar (hd r) = x then (of_nat (natOfDigits 0 ds), tl r) else (0, s))"

definition optSeconds :: "string \<Rightarrow> rat \<times> string" where
  "optSeconds s = (case decimalPart s of None \<Rightarrow> (0, s)
     | Some (v, r) \<Rightarrow> if r \<noteq> [] \<and> lowerChar (hd r) = CHR ''s'' then (v, tl r) else (0, s))"

text \<open>\<open>/^P(?:(\d+)D)?(?:T(?:(\d+)H)?(?:(\d+)M)?(?:(\d+(?:\.\d+)?)S)?)?$/i\<close>.\<close>

definition isoDuration :: "string \<Rightarrow> rat option" where
  "isoDuration d = (case d of
     [] \<Rightarrow> None
   | p # s \<Rightarrow> if lowerChar p \<noteq> CHR ''p'' then None
       else let (days, r) = optUnit (CHR ''d'') s in
         if r = [] then Some (days * 86400000)
         else if lowerChar (hd r) \<noteq> CHR ''t'' then None
         else let (hours, r1) = optUnit (CHR ''h'') (tl r);
                  (minutes, r2) = optUnit (CHR ''m'') r1;
                  (seconds, r3) = optSeconds r2
              in if r3 = [] then Some (days * 86400000 + hours * 3600000 + minutes * 60000 + seconds * 1000) else None)"

definition parseDuration :: "string \<Rightarrow> rat" where
  "parseDuration d = (if d = [] then 0
     else case simpleDuration d of Some v \<Rightarrow> v | None \<Rightarrow> orElse (isoDuration d) 0)"

definition DEFAULT_COOLDOWN_MS :: rat where
  "DEFAULT_COOLDOWN_MS = 3600000"

section \<open>Policies and agents\<close>

record metric_condition =
  mc_metric :: string
  mc_operator :: string
  mc_threshold :: rat

record promotion_criteria =
  pr_minimumTasks :: rat
  pr_conditions :: "metric_condition list"
  pr_requiredApprovals :: "string list"

datatype demotion_action = DemoteToZero | DemoteOneLevel

record demotion_trigger =
  dt_trigger :: string
  dt_action :: demotion_action
  dt_cooldown :: string
  dt_condition :: "(metric_condition \<times> nat option) option"

record autonomy_level =
  lv_level :: int
  lv_minimumDuration :: "string option"

record autonomy_policy =
  au_levels :: "autonomy_level list"
  au_promotionCriteria :: "(string, promotion_criteria) jsmap"
  au_demotionTriggers :: "demotion_trigger list"

record agent_metrics =
  am_name :: string
  am_currentLevel :: int
  am_totalTasksCompleted :: rat
  am_metrics :: "(string, rat) jsmap"
  am_approvals :: "string list"
  am_promotedAt :: "int option"
  am_demotedAt :: "int option"

datatype unmet_condition =
  NoCriteria string
| MinimumDuration int int rat
| CooldownActive int rat
| MinimumTasks rat rat
| MetricMissing string
| MetricFailed string rat string rat
| MissingApproval string

record promotion_result =
  po_eligible :: bool
  po_fromLevel :: int
  po_toLevel :: int
  po_unmet :: "string list"

fun unmetText :: "unmet_condition \<Rightarrow> string" where
  "unmetText (NoCriteria key) = ''No promotion criteria defined for '' @ key"
| "unmetText (MinimumDuration level elapsed minMs) =
    ''Minimum duration at level '' @ showInt level @ '' not met: '' @ showInt elapsed @ ''ms < '' @ showNumber minMs @ ''ms''"
| "unmetText (CooldownActive elapsed cooldown) =
    ''Demotion cooldown not expired: '' @ showInt elapsed @ ''ms < '' @ showNumber cooldown @ ''ms''"
| "unmetText (MinimumTasks actual required) = ''Minimum tasks: '' @ showNumber actual @ ''/'' @ showNumber required"
| "unmetText (MetricMissing metric) = ''Metric \"'' @ metric @ ''\" not available''"
| "unmetText (MetricFailed metric actual operator threshold) =
    metric @ '': '' @ showNumber actual @ '' '' @ operator @ '' '' @ showNumber threshold @ '' failed''"
| "unmetText (MissingApproval approval) = ''Missing approval: '' @ approval"

definition promotionKey :: "int \<Rightarrow> string" where
  "promotionKey fromLevel = showInt fromLevel @ ''-to-'' @ showInt (fromLevel + 1)"

text \<open>The longest cooldown of any trigger, the default when there is none.\<close>

definition cooldownMs :: "autonomy_policy \<Rightarrow> rat" where
  "cooldownMs policy =
    (let c = fold (\<lambda>t c. let cd = parseDuration (dt_cooldown t) in if c < cd then cd else c)
               (au_demotionTriggers policy) 0
     in if c = 0 then DEFAULT_COOLDOWN_MS else c)"

definition durationUnmet :: "autonomy_policy \<Rightarrow> agent_metrics \<Rightarrow> int \<Rightarrow> unmet_condition list" where
  "durationUnmet policy agent now =
    (case (find (\<lambda>l. lv_level l = am_currentLevel agent) (au_levels policy), am_promotedAt agent) of
       (Some l, Some promotedAt) \<Rightarrow>
         if given (lv_minimumDuration l)
         then (let minMs = parseDuration (the (lv_minimumDuration l)); elapsed = now - promotedAt
               in if of_int elapsed < minMs then [MinimumDuration (am_currentLevel agent) elapsed minMs] else [])
         else []
     | _ \<Rightarrow> [])"

definition cooldownUnmet :: "autonomy_policy \<Rightarrow> agent_metrics \<Rightarrow> int \<Rightarrow> unmet_condition list" where
  "cooldownUnmet policy agent now = (case am_demotedAt agent of
     None \<Rightarrow> []
   | Some demotedAt \<Rightarrow> (let elapsed = now - demotedAt
       in if of_int elapsed < cooldownMs policy then [CooldownActive elapsed (cooldownMs policy)] else []))"

definition conditionUnmet :: "agent_metrics \<Rightarrow> metric_condition \<Rightarrow> unmet_condition list" where
  "conditionUnmet agent c = (case mapGet (am_metrics agent) (mc_metric c) of
     None \<Rightarrow> [MetricMissing (mc_metric c)]
   | Some actual \<Rightarrow> if \<not> compareMetric actual (mc_operator c) (mc_threshold c)
       then [MetricFailed (mc_metric c) actual (mc_operator c) (mc_threshold c)] else [])"

definition evaluatePromotion :: "autonomy_policy \<Rightarrow> agent_metrics \<Rightarrow> int \<Rightarrow> promotion_result" where
  "evaluatePromotion policy agent now =
    (let fromLevel = am_currentLevel agent; toLevel = fromLevel + 1; key = promotionKey fromLevel
     in case mapGet (au_promotionCriteria policy) key of
       None \<Rightarrow> \<lparr>po_eligible = False, po_fromLevel = fromLevel, po_toLevel = toLevel, po_unmet = [unmetText (NoCriteria key)]\<rparr>
     | Some criteria \<Rightarrow>
         let unmet = durationUnmet policy agent now @ cooldownUnmet policy agent now @
               (if am_totalTasksCompleted agent < pr_minimumTasks criteria
                then [MinimumTasks (am_totalTasksCompleted agent) (pr_minimumTasks criteria)] else []) @
               concat (map (conditionUnmet agent) (pr_conditions criteria)) @
               concat (map (\<lambda>a. if a \<in> set (am_approvals agent) then [] else [MissingApproval a])
                 (pr_requiredApprovals criteria))
         in \<lparr>po_eligible = (length unmet = 0), po_fromLevel = fromLevel, po_toLevel = toLevel, po_unmet = map unmetText unmet\<rparr>)"

section \<open>Demotion\<close>

record demotion_context =
  dc_metrics :: "(string, rat) jsmap"
  dc_metricHistory :: "(string, rat list) jsmap option"

text \<open>A window of 0 is falsy, as a missing one.\<close>

definition evaluateDemotionCondition :: "metric_condition \<Rightarrow> nat option \<Rightarrow> demotion_context \<Rightarrow> bool" where
  "evaluateDemotionCondition c window ctx =
    (if window \<noteq> None \<and> window \<noteq> Some 0 \<and> dc_metricHistory ctx \<noteq> None
     then (case mapGet (the (dc_metricHistory ctx)) (mc_metric c) of
         None \<Rightarrow> False
       | Some history \<Rightarrow> if length history < the window then False
           else list_all (\<lambda>v. compareMetric v (mc_operator c) (mc_threshold c)) (take (the window) history))
     else case mapGet (dc_metrics ctx) (mc_metric c) of
         None \<Rightarrow> False
       | Some actual \<Rightarrow> compareMetric actual (mc_operator c) (mc_threshold c))"

record demotion_result =
  de_demoted :: bool
  de_trigger :: "string option"
  de_fromLevel :: int
  de_toLevel :: int

definition evaluateDemotion ::
    "autonomy_policy \<Rightarrow> agent_metrics \<Rightarrow> string \<Rightarrow> demotion_context option \<Rightarrow> demotion_result" where
  "evaluateDemotion policy agent activeTrigger conditionCtx =
    (let fromLevel = am_currentLevel agent;
         stays = \<lparr>de_demoted = False, de_trigger = None, de_fromLevel = fromLevel, de_toLevel = fromLevel\<rparr>
     in case find (\<lambda>t. dt_trigger t = activeTrigger) (au_demotionTriggers policy) of
       None \<Rightarrow> stays
     | Some match \<Rightarrow>
         if (case dt_condition match of None \<Rightarrow> False
             | Some (c, window) \<Rightarrow> (case conditionCtx of None \<Rightarrow> True
                 | Some ctx \<Rightarrow> \<not> evaluateDemotionCondition c window ctx))
         then stays
         else \<lparr>de_demoted = True, de_trigger = Some (dt_trigger match), de_fromLevel = fromLevel,
               de_toLevel = (case dt_action match of DemoteToZero \<Rightarrow> 0 | DemoteOneLevel \<Rightarrow> max 0 (fromLevel - 1))\<rparr>)"

section \<open>The reconciler\<close>

record agent_status =
  as_name :: string
  as_currentLevel :: int
  as_promotedAt :: "string option"
  as_demotedAt :: "string option"
  as_nextEvaluationAt :: "string option"
  as_metrics :: "(string, rat) jsmap option"

datatype level_change = Promoted string int int | Demoted string int int string

text \<open>The loop over the active triggers: the first that demotes.\<close>

fun firstDemotion :: "autonomy_policy \<Rightarrow> agent_metrics \<Rightarrow> string list \<Rightarrow> (string \<times> demotion_result) option" where
  "firstDemotion policy metrics [] = None"
| "firstDemotion policy metrics (t # ts) =
    (let result = evaluateDemotion policy metrics t None
     in if de_demoted result then Some (t, result) else firstDemotion policy metrics ts)"

text \<open>One agent: its new status and the callback made.\<close>

definition reconcileAgent ::
    "autonomy_policy \<Rightarrow> (string \<Rightarrow> agent_metrics option) \<Rightarrow> (string \<Rightarrow> string list) \<Rightarrow> int \<Rightarrow>
     agent_status \<Rightarrow> agent_status \<times> level_change list" where
  "reconcileAgent policy getAgentMetrics getActiveTriggers now agentStatus =
    (case getAgentMetrics (as_name agentStatus) of
       None \<Rightarrow> (agentStatus, [])
     | Some metrics \<Rightarrow>
         (case firstDemotion policy metrics (getActiveTriggers (as_name agentStatus)) of
            Some (trigger, result) \<Rightarrow>
              (agentStatus\<lparr>as_currentLevel := de_toLevel result, as_promotedAt := None,
                 as_demotedAt := Some (toISOString now)\<rparr>,
               [Demoted (as_name agentStatus) (de_fromLevel result) (de_toLevel result) trigger])
          | None \<Rightarrow>
              (let promotionResult = evaluatePromotion policy metrics now;
                   promoted = (if po_eligible promotionResult
                     then agentStatus\<lparr>as_currentLevel := po_toLevel promotionResult,
                            as_promotedAt := Some (toISOString now)\<rparr>
                     else agentStatus)
               in (promoted\<lparr>as_nextEvaluationAt := Some (toISOString (now + 3600000)),
                     as_metrics := Some (am_metrics metrics)\<rparr>,
                   if po_eligible promotionResult
                   then [Promoted (as_name agentStatus) (po_fromLevel promotionResult) (po_toLevel promotionResult)]
                   else []))))"

definition autonomyReconcile ::
    "autonomy_policy \<Rightarrow> (string \<Rightarrow> agent_metrics option) \<Rightarrow> (string \<Rightarrow> string list) \<Rightarrow> int \<Rightarrow>
     agent_status list \<Rightarrow> agent_status list \<times> level_change list" where
  "autonomyReconcile policy getAgentMetrics getActiveTriggers now agents =
    (let rs = map (reconcileAgent policy getAgentMetrics getActiveTriggers now) agents
     in (map fst rs, concat (map snd rs)))"

end
