(* ===== verification/AutonomyProps.thy ===== *)
theory AutonomyProps
  imports Autonomy
begin

text \<open>
  The properties of autonomy levels: what a promotion needs, and how far one reconciliation moves an
  agent.
\<close>

section \<open>Cooldowns\<close>

lemma fold_longest:
  "c \<le> fold (\<lambda>t c. let cd = f t in if c < cd then cd else c) ts (c :: rat) \<and>
   (\<forall>t \<in> set ts. f t \<le> fold (\<lambda>t c. let cd = f t in if c < cd then cd else c) ts c)"
proof (induction ts arbitrary: c)
  case (Cons t ts)
  let ?c = "let cd = f t in if c < cd then cd else c"
  have "c \<le> ?c" "f t \<le> ?c" by (auto simp: Let_def)
  then show ?case using Cons [of ?c] by (auto intro: order_trans)
qed simp

lemma cooldown_covers: "t \<in> set (au_demotionTriggers p) \<Longrightarrow> parseDuration (dt_cooldown t) \<le> cooldownMs p"
  using fold_longest [of 0 "\<lambda>t. parseDuration (dt_cooldown t)" "au_demotionTriggers p"]
  unfolding cooldownMs_def DEFAULT_COOLDOWN_MS_def by (auto simp: Let_def intro: order_trans)

section \<open>Promotion\<close>

text \<open>Promotion, exactly: an agent is eligible if and only if the policy has criteria for its next
  level and the agent has spent the level's minimum duration, is past the longest cooldown since its
  last demotion, and meets the task count, every metric condition and every approval; the target is
  the next level, and an agent that is not eligible is told why.\<close>

theorem promotion_exact:
  "(po_eligible (evaluatePromotion policy agent now) \<longleftrightarrow>
     (\<exists>c. mapGet (au_promotionCriteria policy) (promotionKey (am_currentLevel agent)) = Some c \<and>
       (\<forall>l t. find (\<lambda>l. lv_level l = am_currentLevel agent) (au_levels policy) = Some l \<longrightarrow>
          am_promotedAt agent = Some t \<longrightarrow> given (lv_minimumDuration l) \<longrightarrow>
          parseDuration (the (lv_minimumDuration l)) \<le> of_int (now - t)) \<and>
       (\<forall>t. am_demotedAt agent = Some t \<longrightarrow> cooldownMs policy \<le> of_int (now - t)) \<and>
       pr_minimumTasks c \<le> am_totalTasksCompleted agent \<and>
       (\<forall>m \<in> set (pr_conditions c). \<exists>v. mapGet (am_metrics agent) (mc_metric m) = Some v \<and>
          compareMetric v (mc_operator m) (mc_threshold m)) \<and>
       set (pr_requiredApprovals c) \<subseteq> set (am_approvals agent))) \<and>
   po_toLevel (evaluatePromotion policy agent now) = am_currentLevel agent + 1 \<and>
   (po_eligible (evaluatePromotion policy agent now) \<longleftrightarrow> po_unmet (evaluatePromotion policy agent now) = []) \<and>
   (\<forall>t \<in> set (au_demotionTriggers policy). parseDuration (dt_cooldown t) \<le> cooldownMs policy)"
proof -
  have "durationUnmet policy agent now = [] \<longleftrightarrow>
      (\<forall>l t. find (\<lambda>l. lv_level l = am_currentLevel agent) (au_levels policy) = Some l \<longrightarrow>
          am_promotedAt agent = Some t \<longrightarrow> given (lv_minimumDuration l) \<longrightarrow>
          parseDuration (the (lv_minimumDuration l)) \<le> of_int (now - t))"
    by (auto simp: durationUnmet_def Let_def split: option.splits if_splits)
  moreover have "cooldownUnmet policy agent now = [] \<longleftrightarrow>
      (\<forall>t. am_demotedAt agent = Some t \<longrightarrow> cooldownMs policy \<le> of_int (now - t))"
    by (auto simp: cooldownUnmet_def Let_def split: option.splits)
  moreover have "conditionUnmet agent m = [] \<longleftrightarrow>
      (\<exists>v. mapGet (am_metrics agent) (mc_metric m) = Some v \<and> compareMetric v (mc_operator m) (mc_threshold m))" for m
    by (auto simp: conditionUnmet_def split: option.splits)
  ultimately show ?thesis
    by (cases "mapGet (au_promotionCriteria policy) (promotionKey (am_currentLevel agent))")
      (auto simp: evaluatePromotion_def Let_def cooldown_covers)
qed

definition samplePolicy :: autonomy_policy where
  "samplePolicy = \<lparr>au_levels = [\<lparr>lv_level = 0, lv_minimumDuration = Some ''1d''\<rparr>],
     au_promotionCriteria = [(''0-to-1'', \<lparr>pr_minimumTasks = 5, pr_conditions = [\<lparr>mc_metric = ''q'', mc_operator = ''>='',
        mc_threshold = 9 / 10\<rparr>], pr_requiredApprovals = [''lead'']\<rparr>)],
     au_demotionTriggers = [\<lparr>dt_trigger = ''incident'', dt_action = DemoteOneLevel, dt_cooldown = ''2h'', dt_condition = None\<rparr>]\<rparr>"

definition sampleAgent :: agent_metrics where
  "sampleAgent = \<lparr>am_name = ''bot'', am_currentLevel = 0, am_totalTasksCompleted = 7, am_metrics = [(''q'', 95 / 100)],
     am_approvals = [''lead''], am_promotedAt = None, am_demotedAt = Some 0\<rparr>"

theorem promotion_exact_witness:
  "cooldownMs samplePolicy \<le> 7200000 \<and> po_toLevel (evaluatePromotion samplePolicy sampleAgent 7200000) = 1"
proof -
  have "po_eligible (evaluatePromotion samplePolicy sampleAgent 7200000)"
    by code_simp
  with promotion_exact [of samplePolicy sampleAgent 7200000] show ?thesis by (auto simp: sampleAgent_def)
qed

section \<open>One reconciliation\<close>

lemma evaluateDemotion_level:
  "de_demoted (evaluateDemotion p a t c) \<Longrightarrow> de_fromLevel (evaluateDemotion p a t c) = am_currentLevel a \<and>
   (de_toLevel (evaluateDemotion p a t c) = 0 \<or> de_toLevel (evaluateDemotion p a t c) = max 0 (am_currentLevel a - 1)) \<and>
   (\<exists>m \<in> set (au_demotionTriggers p). dt_trigger m = t \<and> (c = None \<longrightarrow> dt_condition m = None))"
proof -
  assume d: "de_demoted (evaluateDemotion p a t c)"
  then obtain m where m: "find (\<lambda>t'. dt_trigger t' = t) (au_demotionTriggers p) = Some m"
    by (auto simp: evaluateDemotion_def Let_def split: option.splits)
  then have "m \<in> set (au_demotionTriggers p)" "dt_trigger m = t" by (auto simp: find_Some_iff)
  then show ?thesis
    using d by (auto simp: evaluateDemotion_def m Let_def split: option.splits if_splits demotion_action.splits)
qed

lemma firstDemotion_Some: "firstDemotion p a ts = Some (t, r) \<Longrightarrow>
    t \<in> set ts \<and> r = evaluateDemotion p a t None \<and> de_demoted r"
  by (induction ts) (auto simp: Let_def split: if_splits)

lemma firstDemotion_None: "firstDemotion p a ts = None \<longleftrightarrow> (\<forall>t \<in> set ts. \<not> de_demoted (evaluateDemotion p a t None))"
  by (induction ts) (auto simp: Let_def)


definition sampleStatus :: agent_status where
  "sampleStatus = \<lparr>as_name = ''bot'', as_currentLevel = 3, as_promotedAt = Some ''x'', as_demotedAt = None,
     as_nextEvaluationAt = None, as_metrics = None\<rparr>"


text \<open>The reconciler passes no condition context, so a trigger with a condition never demotes.\<close>

lemma conditional_trigger_ignored:
  assumes "find (\<lambda>t. dt_trigger t = trigger) (au_demotionTriggers policy) = Some m" "dt_condition m \<noteq> None"
  shows "\<not> de_demoted (evaluateDemotion policy agent trigger None)"
  using assms by (auto simp: evaluateDemotion_def Let_def)

text \<open>ISO weeks and months are read as no duration at all, which makes the minimum duration void.\<close>

lemma iso_weeks_void: "parseDuration ''P2W'' = 0"
  by code_simp

end
