(* ===== verification/Expression.thy ===== *)
theory Expression
  imports Metric
begin

text \<open>
  The expression language of policy rules, \<open>reference/src/policy/expression.ts\<close>. A context value is a
  tree (\<open>val\<close>); \<open>===\<close> on objects and arrays compares the place a value was read from, which is
  identity when the context shares no object. Properties are own properties. Numbers are those of
  \<open>Metric\<close>; the literal \<open>Infinity\<close> is left out.
\<close>

section \<open>Values\<close>

datatype val = VUndefined | VNull | VBool bool | VNum rat | VStr string
  | VArr "val list" | VObj "(string \<times> val) list"

text \<open>A value and the path it was read from; a literal has none.\<close>

type_synonym located = "val \<times> string list option"

fun property :: "val \<Rightarrow> string \<Rightarrow> val" where
  "property (VObj m) k = orElse (mapGet m k) VUndefined"
| "property (VArr xs) k = (if k = ''length'' then VNum (of_nat (length xs))
     else case find (\<lambda>i. showNat i = k) [0..<length xs] of Some i \<Rightarrow> xs ! i | None \<Rightarrow> VUndefined)"
| "property v k = VUndefined"

definition resolveProperty :: "string \<Rightarrow> val \<Rightarrow> located" where
  "resolveProperty path context =
    (let parts = splitOn (CHR ''.'') path in (fold (\<lambda>part current. property current part) parts context, Some parts))"

subsection \<open>\<open>Number\<close>\<close>

definition digitsThen :: "string \<Rightarrow> string \<times> string" where
  "digitsThen s = (takeWhile isDigit s, dropWhile isDigit s)"

definition exponentOf :: "string \<Rightarrow> int option" where
  "exponentOf s = (case s of
     [] \<Rightarrow> Some 0
   | c # t \<Rightarrow> if c = CHR ''e'' \<or> c = CHR ''E'' then
       (let (neg, ds) = (case t of d # u \<Rightarrow> if d = CHR ''-'' then (True, u) else if d = CHR ''+'' then (False, u) else (False, t)
          | [] \<Rightarrow> (False, t))
        in if ds = [] \<or> \<not> list_all isDigit ds then None
           else Some (if neg then - int (natOfDigits 0 ds) else int (natOfDigits 0 ds)))
     else None)"

definition scale :: "int \<Rightarrow> rat" where
  "scale e = (if 0 \<le> e then 10 ^ nat e else 1 / 10 ^ nat (- e))"

definition decimalLiteral :: "string \<Rightarrow> rat option" where
  "decimalLiteral s =
    (let (ds, r) = digitsThen s;
         (fs, u) = (case r of c # t \<Rightarrow> if c = CHR ''.'' then digitsThen t else ([], r) | [] \<Rightarrow> ([], r))
     in if ds = [] \<and> fs = [] then None
        else map_option (\<lambda>e. (of_nat (natOfDigits 0 ds) + of_nat (natOfDigits 0 fs) / 10 ^ length fs) * scale e)
               (exponentOf u))"

definition digitValue :: "char \<Rightarrow> nat option" where
  "digitValue c = (let n = (of_char (lowerChar c) :: nat) in
     if 48 \<le> n \<and> n \<le> 57 then Some (n - 48) else if 97 \<le> n \<and> n \<le> 102 then Some (n - 87) else None)"

definition radixLiteral :: "nat \<Rightarrow> string \<Rightarrow> rat option" where
  "radixLiteral b s =
    (if s = [] then None
     else map_option of_nat (fold (\<lambda>c acc. case (acc, digitValue c) of
            (Some n, Some d) \<Rightarrow> if d < b then Some (b * n + d) else None | _ \<Rightarrow> None) s (Some 0)))"

definition jsNumber :: "string \<Rightarrow> rat option" where
  "jsNumber text = (case trim text of
     [] \<Rightarrow> Some 0
   | c # s \<Rightarrow>
       if c = CHR ''-'' then map_option uminus (decimalLiteral s)
       else if c = CHR ''+'' then decimalLiteral s
       else if c = CHR ''0'' \<and> s \<noteq> [] \<and> lowerChar (hd s) = CHR ''x'' then radixLiteral 16 (tl s)
       else if c = CHR ''0'' \<and> s \<noteq> [] \<and> lowerChar (hd s) = CHR ''o'' then radixLiteral 8 (tl s)
       else if c = CHR ''0'' \<and> s \<noteq> [] \<and> lowerChar (hd s) = CHR ''b'' then radixLiteral 2 (tl s)
       else decimalLiteral (c # s))"

fun toNumber :: "val \<Rightarrow> rat option" where
  "toNumber (VNum n) = Some n"
| "toNumber (VStr s) = jsNumber s"
| "toNumber v = None"

definition quotedWith :: "char \<Rightarrow> string \<Rightarrow> bool" where
  "quotedWith q token \<longleftrightarrow> token \<noteq> [] \<and> hd token = q \<and> last token = q"

definition resolveValue :: "string \<Rightarrow> val \<Rightarrow> located" where
  "resolveValue token context =
    (if quotedWith (CHR 39) token \<or> quotedWith (CHR 34) token then (VStr (butlast (tl token)), None)
     else if token = ''true'' then (VBool True, None)
     else if token = ''false'' then (VBool False, None)
     else case jsNumber token of
       Some num \<Rightarrow> if trim token \<noteq> [] then (VNum num, None) else resolveProperty token context
     | None \<Rightarrow> resolveProperty token context)"

fun strictlyEqual :: "located \<Rightarrow> located \<Rightarrow> bool" where
  "strictlyEqual (VArr xs, p) (VArr ys, q) = (p \<noteq> None \<and> p = q)"
| "strictlyEqual (VObj xs, p) (VObj ys, q) = (p \<noteq> None \<and> p = q)"
| "strictlyEqual (v, p) (w, q) = (v = w)"

fun truthy :: "val \<Rightarrow> bool" where
  "truthy VUndefined = False" | "truthy VNull = False" | "truthy (VBool b) = b"
| "truthy (VNum n) = (n \<noteq> 0)" | "truthy (VStr s) = (s \<noteq> [])" | "truthy (VArr xs) = True" | "truthy (VObj m) = True"

section \<open>Atomic expressions\<close>

definition evaluateComparison :: "string \<Rightarrow> string \<Rightarrow> string \<Rightarrow> val \<Rightarrow> bool" where
  "evaluateComparison l operator r context =
    (let lVal = resolveValue (trim l) context; rVal = resolveValue (trim r) context;
         lNum = toNumber (fst lVal); rNum = toNumber (fst rVal)
     in if operator = ''>='' then (case (lNum, rNum) of (Some a, Some b) \<Rightarrow> a \<ge> b | _ \<Rightarrow> False)
        else if operator = ''<='' then (case (lNum, rNum) of (Some a, Some b) \<Rightarrow> a \<le> b | _ \<Rightarrow> False)
        else if operator = ''>'' then (case (lNum, rNum) of (Some a, Some b) \<Rightarrow> a > b | _ \<Rightarrow> False)
        else if operator = ''<'' then (case (lNum, rNum) of (Some a, Some b) \<Rightarrow> a < b | _ \<Rightarrow> False)
        else if operator = ''=='' then
          strictlyEqual lVal rVal \<or> (case (lNum, rNum) of (Some a, Some b) \<Rightarrow> a = b | _ \<Rightarrow> False)
        else if operator = ''!='' then
          (case (lNum, rNum) of (Some a, Some b) \<Rightarrow> a \<noteq> b | _ \<Rightarrow> \<not> strictlyEqual lVal rVal)
        else False)"

definition evaluateContains :: "string \<Rightarrow> string \<Rightarrow> val \<Rightarrow> bool" where
  "evaluateContains collectionPath valuePath context =
    (let collection = resolveValue (trim collectionPath) context; v = resolveValue (trim valuePath) context
     in case fst collection of
       VArr xs \<Rightarrow> list_ex (\<lambda>(i, x). strictlyEqual (x, map_option (\<lambda>p. p @ [showNat i]) (snd collection)) v)
         (List.enumerate 0 xs)
     | VStr s \<Rightarrow> (case fst v of VStr t \<Rightarrow> strIncludes s t | _ \<Rightarrow> False)
     | _ \<Rightarrow> False)"

text \<open>The operators in the order they are looked for.\<close>

definition comparisonOps :: "string list" where
  "comparisonOps = [''>='', ''<='', ''!='', ''=='', ''>'', ''<'']"

fun firstComparison :: "string list \<Rightarrow> string \<Rightarrow> (string \<times> string \<times> string) option" where
  "firstComparison [] s = None"
| "firstComparison (op # ops) s = (case splitFirst op s of
     Some (l, r) \<Rightarrow> Some (l, op, r) | None \<Rightarrow> firstComparison ops s)"

function evaluateAtomic :: "string \<Rightarrow> val \<Rightarrow> bool" where
  "evaluateAtomic expression context =
    (let trimmed = trim expression in
     if trimmed \<noteq> [] \<and> hd trimmed = CHR ''!'' then \<not> evaluateAtomic (tl trimmed) context
     else case splitFirst '' contains '' trimmed of
       Some (l, r) \<Rightarrow> evaluateContains l r context
     | None \<Rightarrow> (case firstComparison comparisonOps trimmed of
         Some (l, op, r) \<Rightarrow> evaluateComparison l op r context
       | None \<Rightarrow> truthy (fst (resolveValue trimmed context))))"
  by pat_completeness auto
termination
proof (relation "measure (\<lambda>(e, c). length e)")
  fix expression :: string and cv :: val and trimmed
  assume "trimmed = trim expression" "trimmed \<noteq> [] \<and> hd trimmed = CHR ''!''"
  then show "((tl trimmed, cv), expression, cv) \<in> measure (\<lambda>(e, c). length e)"
    using length_trim_le [of expression] by (cases "trim expression") simp_all
qed simp

declare evaluateAtomic.simps [simp del]

section \<open>Logical operators\<close>

text \<open>\<open>split\<close> with a separator of two equal characters \<open>c\<close>.\<close>

fun splitTwice :: "char \<Rightarrow> string \<Rightarrow> string list" where
  "splitTwice c [] = [[]]"
| "splitTwice c [a] = [[a]]"
| "splitTwice c (a # b # s) =
    (if a = c \<and> b = c then [] # splitTwice c s
     else (case splitTwice c (b # s) of [] \<Rightarrow> [[a]] | l # ls \<Rightarrow> (a # l) # ls))"

lemma splitTwice_not_Nil [simp]: "splitTwice c s \<noteq> []"
  by (induction c s rule: splitTwice.induct) (auto split: list.splits)

lemma splitTwice_length: "p \<in> set (splitTwice c s) \<Longrightarrow> length p \<le> length s"
  by (induction c s arbitrary: p rule: splitTwice.induct) (force split: list.splits if_splits)+

lemma splitTwice_shorter: "strIncludes s [c, c] \<Longrightarrow> p \<in> set (splitTwice c s) \<Longrightarrow> length p < length s"
proof (induction c s arbitrary: p rule: splitTwice.induct)
  case (3 c a b s)
  show ?case
  proof (cases "a = c \<and> b = c")
    case True
    then show ?thesis using 3(4) splitTwice_length [of p c s] by auto
  next
    case False
    then have "strIncludes (b # s) [c, c]" using 3(3) by (cases s) (auto split: if_splits)
    note ih = 3(2) [OF False this]
    obtain l ls where l: "splitTwice c (b # s) = l # ls" by (cases "splitTwice c (b # s)") auto
    then have "p = a # l \<or> p \<in> set ls" using 3(4) False by auto
    then show ?thesis using ih [of l] ih [of p] by (auto simp: l)
  qed
qed (auto simp: strIncludes_iff sublist_Cons_right)

function evaluate :: "string \<Rightarrow> val \<Rightarrow> bool" where
  "evaluate expression context =
    (if strIncludes expression ''||''
     then list_ex (\<lambda>part. evaluate (trim part) context) (splitTwice (CHR ''|'') expression)
     else if strIncludes expression ''&&''
     then list_all (\<lambda>part. evaluate (trim part) context) (splitTwice (CHR ''&'') expression)
     else evaluateAtomic expression context)"
  by pat_completeness auto
termination
  by (relation "measure (\<lambda>(e, c). length e)")
    (auto intro: le_less_trans [OF length_trim_le] splitTwice_shorter)

declare evaluate.simps [simp del]

definition validateExpression :: "string \<Rightarrow> bool \<times> string option" where
  "validateExpression expression =
    (if expression = [] \<or> trim expression = [] then (False, Some ''Expression is empty'') else (True, None))"

record expression_verdict =
  ev_passed :: bool
  ev_message :: "string option"

text \<open>\<open>evaluator\<close> gives the error it throws or its result.\<close>

definition evaluateExpressionRule :: "string \<Rightarrow> 'c \<Rightarrow> (string \<Rightarrow> 'c \<Rightarrow> string + bool) \<Rightarrow> expression_verdict" where
  "evaluateExpressionRule expression context evaluator = (case evaluator expression context of
     Inr passed \<Rightarrow> \<lparr>ev_passed = passed,
       ev_message = (if passed then None else Some (''Expression failed: '' @ expression))\<rparr>
   | Inl err \<Rightarrow> \<lparr>ev_passed = False, ev_message = Some (''Expression error: '' @ err)\<rparr>)"

section \<open>What an expression means\<close>

text \<open>
  The properties of the expression language: an expression in disjunctive form means what it says,
  and where the text-based splitting goes wrong.
\<close>

section \<open>Trimming and splitting\<close>

lemma trim_space_left [simp]: "trim (CHR 32 # s) = trim s"
  by (simp add: trim_def trimStart_def isSpace_def)

lemma trim_space_right [simp]: "trim (s @ [CHR 32]) = trim s"
proof (cases "\<forall>c \<in> set s. isSpace c")
  case True
  then have "dropWhile isSpace s = []" "dropWhile isSpace (s @ [CHR 32]) = []"
    by (auto simp: isSpace_def)
  then show ?thesis by (simp only: trim_def trimStart_def)
next
  case False
  then have "dropWhile isSpace (s @ [CHR 32]) = dropWhile isSpace s @ [CHR 32]"
    by (auto intro: dropWhile_append1)
  then show ?thesis by (simp add: trim_def trimStart_def trimEnd_def isSpace_def)
qed

lemma tight_join: "xs \<noteq> [] \<Longrightarrow> \<forall>x \<in> set xs. tight x \<Longrightarrow> tight (joinWith sep xs)"
proof (induction xs)
  case (Cons x xs)
  then show ?case by (cases xs) (auto simp: tight_def joinWith_Cons)
qed simp

lemma splitTwice_none: "c \<notin> set x \<Longrightarrow> splitTwice c x = [x]"
  by (induction c x rule: splitTwice.induct) auto

lemma splitTwice_found: "c \<notin> set x \<Longrightarrow> splitTwice c (x @ c # c # s) = x # splitTwice c s"
proof (induction x)
  case (Cons a x)
  then show ?case by (cases x) auto
qed simp

lemma splitTwice_space: "c \<noteq> CHR 32 \<Longrightarrow> map trim (splitTwice c (CHR 32 # s)) = map trim (splitTwice c s)"
  by (cases s) (auto split: list.splits)

lemma split_join:
  assumes "c \<noteq> CHR 32" "xs \<noteq> []" "\<forall>x \<in> set xs. c \<notin> set x"
  shows "map trim (splitTwice c (joinWith [CHR 32, c, c, CHR 32] xs)) = map trim xs"
  using assms(2,3)
proof (induction xs)
  case (Cons x xs)
  show ?case
  proof (cases "xs = []")
    case False
    then have "joinWith [CHR 32, c, c, CHR 32] (x # xs) =
        (x @ [CHR 32]) @ c # c # CHR 32 # joinWith [CHR 32, c, c, CHR 32] xs"
      by (simp add: joinWith_Cons)
    moreover have "c \<notin> set (x @ [CHR 32])" using Cons.prems(2) assms(1) by simp
    ultimately have "splitTwice c (joinWith [CHR 32, c, c, CHR 32] (x # xs)) =
        (x @ [CHR 32]) # splitTwice c (CHR 32 # joinWith [CHR 32, c, c, CHR 32] xs)"
      using splitTwice_found by metis
    then show ?thesis using Cons.IH [OF False] Cons.prems(2) splitTwice_space [OF assms(1)] by simp
  qed (use Cons.prems(2) splitTwice_none in simp)
qed simp

lemma includes_join:
  "2 \<le> length xs \<Longrightarrow> strIncludes (joinWith [CHR 32, c, c, CHR 32] xs) [c, c]"
proof -
  assume "2 \<le> length xs"
  then obtain x y ys where "xs = x # y # ys" by (cases xs; cases "tl xs") auto
  then have "joinWith [CHR 32, c, c, CHR 32] xs = (x @ [CHR 32]) @ [c, c] @ CHR 32 # joinWith [CHR 32, c, c, CHR 32] (y # ys)"
    by simp
  then show ?thesis unfolding strIncludes_iff sublist_def by blast
qed

lemma not_includes: "c \<notin> set s \<Longrightarrow> \<not> strIncludes s [c, c]"
  by (auto simp: strIncludes_iff dest: set_mono_sublist)

lemma not_in_join: "c \<noteq> CHR 32 \<Longrightarrow> c \<noteq> d \<Longrightarrow> \<forall>x \<in> set xs. c \<notin> set x \<Longrightarrow>
    c \<notin> set (joinWith [CHR 32, d, d, CHR 32] xs)"
proof (induction xs)
  case (Cons x xs)
  then show ?case by (cases xs) auto
qed simp

section \<open>Disjunctive form\<close>

definition plainAtom :: "string \<Rightarrow> bool" where
  "plainAtom a \<longleftrightarrow> tight a \<and> CHR ''|'' \<notin> set a \<and> CHR ''&'' \<notin> set a"

definition andText :: "string list \<Rightarrow> string" where
  "andText as = joinWith '' && '' as"

definition orText :: "string list list \<Rightarrow> string" where
  "orText dnf = joinWith '' || '' (map andText dnf)"

lemma evaluate_and:
  assumes "as \<noteq> []" "\<forall>a \<in> set as. plainAtom a"
  shows "evaluate (andText as) ctx \<longleftrightarrow> (\<forall>a \<in> set as. evaluateAtomic a ctx)"
proof -
  have atom: "evaluate (trim a) ctx = evaluateAtomic a ctx" if "a \<in> set as" for a
  proof -
    have "trim a = a" "\<not> strIncludes a ''||''" "\<not> strIncludes a ''&&''"
      using assms(2) that trim_tight not_includes by (auto simp: plainAtom_def)
    then show ?thesis by (subst evaluate.simps) simp
  qed
  have no: "\<not> strIncludes (andText as) ''||''"
    unfolding andText_def using assms(2) by (intro not_includes not_in_join) (auto simp: plainAtom_def)
  show ?thesis
  proof (cases "2 \<le> length as")
    case True
    have "map trim (splitTwice (CHR ''&'') (andText as)) = map trim as"
      unfolding andText_def using assms by (intro split_join) (auto simp: plainAtom_def)
    then have "list_all (\<lambda>p. evaluate p ctx) (map trim (splitTwice (CHR ''&'') (andText as))) \<longleftrightarrow>
        list_all (\<lambda>p. evaluate p ctx) (map trim as)" by simp
    then have "list_all (\<lambda>p. evaluate (trim p) ctx) (splitTwice (CHR ''&'') (andText as)) \<longleftrightarrow>
        (\<forall>a \<in> set as. evaluateAtomic a ctx)" using atom by (simp add: list_all_iff)
    moreover have "strIncludes (andText as) ''&&''" unfolding andText_def using includes_join [OF True] .
    ultimately show ?thesis using no by (subst evaluate.simps) simp
  next
    case False
    then obtain a where "as = [a]" using assms(1) by (cases as; cases "tl as") auto
    then show ?thesis using atom [of a] assms(2) trim_tight [of a] by (simp add: andText_def plainAtom_def)
  qed
qed

lemma tight_and: "as \<noteq> [] \<Longrightarrow> \<forall>a \<in> set as. plainAtom a \<Longrightarrow> tight (andText as) \<and> CHR ''|'' \<notin> set (andText as)"
  unfolding andText_def by (auto intro: tight_join simp: plainAtom_def dest!: not_in_join [THEN notE, rotated -1])

text \<open>C24. The evaluator gives expressions in disjunctive form their meaning: a text that joins with
  \<open>||\<close> conjunctions which join with \<open>&&\<close> atomic expressions (without these characters, not padded)
  holds in a context if and only if all atoms of one of the conjunctions hold, so \<open>&&\<close> binds tighter
  than \<open>||\<close> whatever the numbers of either.\<close>

theorem expression_dnf:
  assumes "dnf \<noteq> []" "\<forall>c \<in> set dnf. c \<noteq> [] \<and> (\<forall>a \<in> set c. plainAtom a)"
  shows "evaluate (orText dnf) ctx \<longleftrightarrow> (\<exists>c \<in> set dnf. \<forall>a \<in> set c. evaluateAtomic a ctx)"
proof -
  have part: "evaluate (trim (andText c)) ctx \<longleftrightarrow> (\<forall>a \<in> set c. evaluateAtomic a ctx)" if "c \<in> set dnf" for c
    using evaluate_and [of c ctx] tight_and [of c] trim_tight assms(2) that by simp
  show ?thesis
  proof (cases "2 \<le> length dnf")
    case True
    have "map trim (splitTwice (CHR ''|'') (orText dnf)) = map trim (map andText dnf)"
      unfolding orText_def using assms tight_and by (intro split_join) auto
    then have "list_ex (\<lambda>p. evaluate p ctx) (map trim (splitTwice (CHR ''|'') (orText dnf))) \<longleftrightarrow>
        list_ex (\<lambda>p. evaluate p ctx) (map trim (map andText dnf))" by simp
    then have "list_ex (\<lambda>p. evaluate (trim p) ctx) (splitTwice (CHR ''|'') (orText dnf)) \<longleftrightarrow>
        (\<exists>c \<in> set dnf. \<forall>a \<in> set c. evaluateAtomic a ctx)" using part by (simp add: list_ex_iff)
    moreover have "strIncludes (orText dnf) ''||''"
      unfolding orText_def using includes_join [of "map andText dnf"] True by simp
    ultimately show ?thesis by (subst evaluate.simps) simp
  next
    case False
    then obtain c where "dnf = [c]" using assms(1) by (cases dnf; cases "tl dnf") auto
    then show ?thesis using evaluate_and [of c ctx] assms(2) by (simp add: orText_def)
  qed
qed

theorem expression_dnf_witness:
  "evaluate ''coverage >= 80 && !blocked || lead'' (VObj [(''coverage'', VNum 85), (''blocked'', VBool False)])"
proof -
  let ?ctx = "VObj [(''coverage'', VNum 85), (''blocked'', VBool False)]"
  let ?dnf = "[[''coverage >= 80'', ''!blocked''], [''lead'']]"
  have "evaluateAtomic ''coverage >= 80'' ?ctx" "evaluateAtomic ''!blocked'' ?ctx" by code_simp+
  moreover have "evaluate (orText ?dnf) ?ctx \<longleftrightarrow> (\<exists>c \<in> set ?dnf. \<forall>a \<in> set c. evaluateAtomic a ?ctx)"
    by (rule expression_dnf) (simp_all add: plainAtom_def tight_def isSpace_def)
  moreover have "orText ?dnf = ''coverage >= 80 && !blocked || lead''"
    by (simp add: orText_def andText_def joinWith_Cons)
  ultimately show ?thesis by simp
qed

section \<open>Where the text decides\<close>

text \<open>The operators are looked for in the text, string literals included: \<open>name == 'a||b'\<close> is the
  disjunction of \<open>name == 'a\<close> and \<open>b'\<close>, so it fails for the very name it asks for.\<close>

lemma literal_operator_splits:
  "\<not> evaluate (''name == '' @ CHR 39 # ''a||b'' @ [CHR 39]) (VObj [(''name'', VStr ''a||b'')])"
  by code_simp

text \<open>\<open>validate\<close> accepts every text that is not blank.\<close>

lemma validate_only_blank: "fst (validateExpression s) \<longleftrightarrow> trim s \<noteq> []"
  by (auto simp: validateExpression_def trim_def trimStart_def trimEnd_def)

end
