(* ===== verification/Timebox.thy ===== *)
theory Timebox
  imports Metric Prelude
begin

text \<open>
  Timeboxes of decisions, \<open>pipeline-cli/src/decisions/timebox.ts\<close>: categorical aliases, the subset of
  ISO 8601 durations the catalogue accepts, and expiry. A thrown error is \<open>Inl\<close> of its message.
\<close>

definition TIMEBOX_CATEGORICAL_ALIASES :: "(string, string) jsmap" where
  "TIMEBOX_CATEGORICAL_ALIASES = [(''URGENT'', ''PT4H''), (''24H'', ''P1D''), (''WEEK'', ''P7D''), (''BACKLOG'', ''P30D'')]"

definition ALIAS_KEYS :: "string list" where
  "ALIAS_KEYS = mapKeys TIMEBOX_CATEGORICAL_ALIASES"

section \<open>Durations\<close>

text \<open>One optional group \<open>(?:(\d+)X)?\<close> of the pattern: the number, when it matches, and the rest.\<close>

definition unitField :: "char \<Rightarrow> string \<Rightarrow> nat option \<times> string" where
  "unitField x s = (let ds = takeWhile isDigit s; r = dropWhile isDigit s in
     case r of c # t \<Rightarrow> if ds \<noteq> [] \<and> c = x then (Some (natOfDigits 0 ds), t) else (None, s)
     | [] \<Rightarrow> (None, s))"

text \<open>The groups of the pattern after the \<open>P\<close>: weeks, or years, months, days, hours, minutes, seconds.\<close>

definition durationFields :: "string \<Rightarrow> nat option list option" where
  "durationFields s =
    (case unitField (CHR ''W'') s of
       (Some w, []) \<Rightarrow> Some [Some w, None, None, None, None, None, None]
     | _ \<Rightarrow>
       (let (y, r1) = unitField (CHR ''Y'') s; (mo, r2) = unitField (CHR ''M'') r1; (d, r3) = unitField (CHR ''D'') r2
        in case r3 of
          [] \<Rightarrow> Some [None, y, mo, d, None, None, None]
        | c # t \<Rightarrow> if c \<noteq> CHR ''T'' then None
            else (let (h, r4) = unitField (CHR ''H'') t; (mi, r5) = unitField (CHR ''M'') r4;
                      (se, r6) = unitField (CHR ''S'') r5
                  in if r6 = [] then Some [None, y, mo, d, h, mi, se] else None)))"

definition MS_PER_UNIT :: "nat list" where
  "MS_PER_UNIT = [604800000, 31557600000, 2592000000, 86400000, 3600000, 60000, 1000]"

definition parseIsoDurationToMs :: "string \<Rightarrow> nat option" where
  "parseIsoDurationToMs input = (case trim input of
     [] \<Rightarrow> None
   | p # s \<Rightarrow> if p \<noteq> CHR ''P'' then None
       else (case durationFields s of
           None \<Rightarrow> None
         | Some fields \<Rightarrow>
             if list_all (\<lambda>f. f = None) fields then None
             else let ms = sum_list (map2 (\<lambda>f u. orElse f 0 * u) fields MS_PER_UNIT)
                  in if ms = 0 then None else Some ms))"

section \<open>Timeboxes\<close>

record parsed_timebox =
  pt_duration :: string
  pt_durationMs :: nat
  pt_alias :: "string option"

definition timeboxUsage :: string where
  "timeboxUsage = ''; expected ISO-8601 duration (e.g. PT4H, P1D, P7D) or alias ('' @ joinWith ''|'' ALIAS_KEYS @ '')''"

definition parseTimebox :: "string \<Rightarrow> string + parsed_timebox" where
  "parseTimebox input =
    (if trim input = [] then Inl (''[decisions] --timebox: empty value'' @ timeboxUsage)
     else let raw = trim input; upper = toUpperCase raw in
       case mapGet TIMEBOX_CATEGORICAL_ALIASES upper of
         Some duration \<Rightarrow> (case parseIsoDurationToMs duration of
             None \<Rightarrow> Inl (''[decisions] --timebox: internal alias table broken for '' @ upper)
           | Some ms \<Rightarrow> Inr \<lparr>pt_duration = duration, pt_durationMs = ms, pt_alias = Some upper\<rparr>)
       | None \<Rightarrow> (case parseIsoDurationToMs raw of
             None \<Rightarrow> Inl (''[decisions] --timebox: invalid value \"'' @ input @ ''\"'' @ timeboxUsage)
           | Some ms \<Rightarrow> Inr \<lparr>pt_duration = raw, pt_durationMs = ms, pt_alias = None\<rparr>))"

definition hoursToIsoDuration :: "rat \<Rightarrow> string + string" where
  "hoursToIsoDuration hours =
    (if hours \<le> 0 then Inl (''[decisions] --timebox-hours: must be a positive number (got '' @ showNumber hours @ '')'')
     else if of_int \<lfloor>hours\<rfloor> = hours then Inr (''PT'' @ showInt \<lfloor>hours\<rfloor> @ ''H'')
     else let minutes = \<lfloor>hours * 60 + 1 / 2\<rfloor> in
       if minutes \<le> 0 then Inl (''[decisions] --timebox-hours: '' @ showNumber hours @
         '' does not resolve to a whole number of minutes'')
       else Inr (''PT'' @ showInt minutes @ ''M''))"

definition computeTimeboxExpiresAt :: "int \<Rightarrow> int \<Rightarrow> string + string" where
  "computeTimeboxExpiresAt durationMs openedAt =
    (if durationMs \<le> 0
     then Inl (''[decisions] computeTimeboxExpiresAt: durationMs must be positive (got '' @ showInt durationMs @ '')'')
     else Inr (toISOString (openedAt + durationMs)))"

definition msRemainingUntil :: "(string \<Rightarrow> stamp) \<Rightarrow> string \<Rightarrow> int \<Rightarrow> int option" where
  "msRemainingUntil parseDate expiresAt now =
    (if expiresAt = [] then None else map_option (\<lambda>t. t - now) (parseDate expiresAt))"

definition isTimeboxExpired :: "(string \<Rightarrow> stamp) \<Rightarrow> string \<Rightarrow> int \<Rightarrow> bool" where
  "isTimeboxExpired parseDate expiresAt now = (case msRemainingUntil parseDate expiresAt now of
     None \<Rightarrow> False | Some ms \<Rightarrow> ms < 0)"

end
