(* ===== verification/Decision.thy ===== *)
theory Decision
  imports Json Compare Timebox Expression
begin

text \<open>
  The decision catalogue, \<open>pipeline-cli/src/decisions/\<close>: the event log (\<open>decision-record.ts\<close>,
  \<open>event-log.ts\<close>) and the decisions folded from it (\<open>projection.ts\<close>). An event is the JSON object
  read from its line. A text field the validator requires is a string of the decision; every other
  field is the JSON value, \<open>None\<close> for \<open>undefined\<close>. The log file is its contents, \<open>None\<close> when missing.
  \<open>Date.parse\<close> is an argument.
\<close>

section \<open>Events\<close>

definition DECISION_SOURCES :: "string list" where
  "DECISION_SOURCES = [''dor-clarification'', ''rfc-open-question'', ''emergent-finding'', ''framework-calibration'',
     ''subagent-escalation'', ''ad-hoc'']"

definition DECISION_EVENT_TYPES :: "string list" where
  "DECISION_EVENT_TYPES = [''decision-opened'', ''recommendation-issued'', ''stage-c-completed'', ''operator-answered'',
     ''timebox-fired'', ''timebox-extended'', ''overridden'', ''calibration-adjusted'', ''superseded'', ''deferred'',
     ''archived'', ''dedup-merged'', ''routing-changed'', ''auto-expired'']"

definition DECISION_PRIORITIES :: "string list" where
  "DECISION_PRIORITIES = [''critical'', ''high'', ''medium'', ''low'']"

definition DECISION_PRIORITY_WEIGHTS :: "(string, rat) jsmap" where
  "DECISION_PRIORITY_WEIGHTS = [(''critical'', 4), (''high'', 3), (''medium'', 2), (''low'', 1)]"

text \<open>\<open>/^DEC-[0-9]{4,}$/\<close> and \<open>/^[a-z0-9][a-z0-9-]*$/\<close>.\<close>

definition isValidDecisionId :: "string \<Rightarrow> bool" where
  "isValidDecisionId s \<longleftrightarrow> startsWith s ''DEC-'' \<and> 4 \<le> length (drop 4 s) \<and> list_all isDigit (drop 4 s)"

definition slugChar :: "char \<Rightarrow> bool" where
  "slugChar c \<longleftrightarrow> isDigit c \<or> (let n = (of_char c :: nat) in 97 \<le> n \<and> n \<le> 122)"

definition isOptionId :: "string \<Rightarrow> bool" where
  "isOptionId s \<longleftrightarrow> s \<noteq> [] \<and> slugChar (hd s) \<and> list_all (\<lambda>c. slugChar c \<or> c = CHR ''-'') (tl s)"

definition OPTION_ID_PATTERN :: string where
  "OPTION_ID_PATTERN = ''/^[a-z0-9][a-z0-9-]*$/''"

text \<open>The text of a field; the empty text when it is not a string.\<close>

definition evText :: "json \<Rightarrow> string \<Rightarrow> string" where
  "evText j k = (case jsonField j k of Some (JStr s) \<Rightarrow> s | _ \<Rightarrow> [])"

definition nonEmptyText :: "json option \<Rightarrow> bool" where
  "nonEmptyText v = (case v of Some (JStr s) \<Rightarrow> s \<noteq> [] | _ \<Rightarrow> False)"

definition holdsObject :: "json option \<Rightarrow> bool" where
  "holdsObject v = (case v of Some j \<Rightarrow> isJObject j | None \<Rightarrow> False)"

definition jsonNumber :: "json \<Rightarrow> rat option" where
  "jsonNumber v = (case v of JNum i \<Rightarrow> Some (of_int i) | JFloat t \<Rightarrow> jsNumber t | _ \<Rightarrow> None)"

text \<open>A number JSON writes with an exponent may be too large for a double.\<close>

definition finiteNumber :: "json \<Rightarrow> rat option" where
  "finiteNumber v = (case jsonNumber v of Some n \<Rightarrow> if \<bar>n\<bar> < 2 ^ 1024 then Some n else None | None \<Rightarrow> None)"

subsection \<open>Validation, one event type at a time\<close>

definition stageCError :: "json \<Rightarrow> string option" where
  "stageCError r =
    (if \<not> holdsObject (jsonField r ''stageC'') then Some ''stage-c-completed: stageC payload is required''
     else let sc = the (jsonField r ''stageC'') in
       if \<not> holdsObject (jsonField sc ''recommendation'') then Some ''stage-c-completed: stageC.recommendation is required''
       else let rec = the (jsonField sc ''recommendation'') in
         if \<not> nonEmptyText (jsonField rec ''optionId'')
         then Some ''stage-c-completed: stageC.recommendation.optionId is required''
         else if (case jsonField rec ''confidence'' of Some v \<Rightarrow> finiteNumber v = None | None \<Rightarrow> True)
         then Some ''stage-c-completed: stageC.recommendation.confidence must be a finite number''
         else if (case jsonField r ''autoApplied'' of Some (JBool b) \<Rightarrow> False | _ \<Rightarrow> True)
         then Some ''stage-c-completed: autoApplied (boolean) is required''
         else None)"

definition overriddenError :: "json \<Rightarrow> string option" where
  "overriddenError r =
    (if \<not> nonEmptyText (jsonField r ''chosenOptionId'') then Some ''overridden: chosenOptionId is required''
     else if \<not> nonEmptyText (jsonField r ''supersededOptionId'') then Some ''overridden: supersededOptionId is required''
     else None)"

definition extendedError :: "json \<Rightarrow> string option" where
  "extendedError r =
    (if \<not> nonEmptyText (jsonField r ''newTimebox'') then Some ''timebox-extended: newTimebox is required''
     else if \<not> nonEmptyText (jsonField r ''newTimeboxExpiresAt'')
     then Some ''timebox-extended: newTimeboxExpiresAt is required''
     else if jsonField r ''previousTimeboxExpiresAt'' \<noteq> Some JNull \<and>
       \<not> nonEmptyText (jsonField r ''previousTimeboxExpiresAt'')
     then Some ''timebox-extended: previousTimeboxExpiresAt must be string or null''
     else None)"

definition autoExpiredError :: "json \<Rightarrow> string option" where
  "autoExpiredError r =
    (if \<not> nonEmptyText (jsonField r ''chosenOptionId'') then Some ''auto-expired: chosenOptionId is required''
     else if \<not> nonEmptyText (jsonField r ''rationale'') then Some ''auto-expired: rationale is required''
     else if \<not> nonEmptyText (jsonField r ''expiredAt'') then Some ''auto-expired: expiredAt is required''
     else None)"

text \<open>The loop over the options: the first violation.\<close>

fun optionsError :: "json list \<Rightarrow> string option" where
  "optionsError [] = None"
| "optionsError (opt # opts) =
    (if \<not> isJObject opt then Some ''decision-opened: option not an object''
     else if \<not> isOptionId (evText opt ''id'')
     then Some (''decision-opened: option id must match '' @ OPTION_ID_PATTERN)
     else if \<not> nonEmptyText (jsonField opt ''description'')
     then Some ''decision-opened: option description is required''
     else optionsError opts)"

definition openedError :: "json \<Rightarrow> string option" where
  "openedError r =
    (if \<not> nonEmptyText (jsonField r ''summary'') then Some ''decision-opened: summary is required''
     else if jsonField r ''priority'' \<noteq> None \<and> evText r ''priority'' \<notin> set DECISION_PRIORITIES
     then Some (''decision-opened: priority must be one of '' @ joinWith ''|'' DECISION_PRIORITIES)
     else if (case jsonField r ''impactScore'' of None \<Rightarrow> False
       | Some v \<Rightarrow> (case finiteNumber v of None \<Rightarrow> True | Some n \<Rightarrow> n < 0 \<or> 100 < n))
     then Some ''decision-opened: impactScore must be a number in [0,100]''
     else if jsonField r ''autonomousFallbackOptionId'' \<noteq> None \<and> \<not> isOptionId (evText r ''autonomousFallbackOptionId'')
     then Some (''decision-opened: autonomousFallbackOptionId must match '' @ OPTION_ID_PATTERN)
     else if evText r ''source'' \<notin> set DECISION_SOURCES
     then Some (''decision-opened: source must be one of '' @ joinWith ''|'' DECISION_SOURCES)
     else if \<not> nonEmptyText (jsonField r ''scope'') then Some ''decision-opened: scope is required''
     else case jsonField r ''options'' of
       Some (JArr opts) \<Rightarrow> if opts = [] then Some ''decision-opened: options must be a non-empty array'' else optionsError opts
     | _ \<Rightarrow> Some ''decision-opened: options must be a non-empty array'')"

definition validateDecisionEvent :: "json \<Rightarrow> string option" where
  "validateDecisionEvent r =
    (if \<not> isJObject r then Some ''not an object''
     else if jsonField r ''eventVersion'' \<noteq> Some (JStr ''v1'') then Some ''eventVersion: must be \"v1\"''
     else if evText r ''type'' \<notin> set DECISION_EVENT_TYPES
     then Some (''type: must be one of '' @ joinWith ''|'' DECISION_EVENT_TYPES)
     else if \<not> nonEmptyText (jsonField r ''ts'') then Some ''ts: missing or empty''
     else if \<not> isValidDecisionId (evText r ''decisionId'') then Some ''decisionId: must match DEC-NNNN''
     else let ty = evText r ''type'' in
       if ty = ''stage-c-completed'' then stageCError r
       else if ty = ''overridden'' then overriddenError r
       else if ty = ''timebox-extended'' then extendedError r
       else if ty = ''auto-expired'' then autoExpiredError r
       else if ty = ''decision-opened'' then openedError r
       else None)"

section \<open>The log\<close>

definition validEvent :: "json \<Rightarrow> bool" where
  "validEvent j \<longleftrightarrow> validateDecisionEvent j = None"

definition readDecisionEvents :: "string option \<Rightarrow> json list \<times> nat" where
  "readDecisionEvents contents = (case contents of None \<Rightarrow> ([], 0) | Some raw \<Rightarrow> readJsonl validEvent raw)"

definition appendDecisionEvent :: "json \<Rightarrow> string option \<Rightarrow> string + string" where
  "appendDecisionEvent event contents = (case validateDecisionEvent event of
     Some err \<Rightarrow> Inl (''[decisions] refusing to append invalid event: '' @ err)
   | None \<Rightarrow> Inr (orElse contents [] @ jsonLine event))"

definition formatDecisionId :: "nat \<Rightarrow> string" where
  "formatDecisionId counter = ''DEC-'' @ pad 4 counter"

text \<open>The number of an id (\<open>/^DEC-(\d+)$/\<close>).\<close>

definition idNumber :: "string \<Rightarrow> nat option" where
  "idNumber s = (if startsWith s ''DEC-'' \<and> drop 4 s \<noteq> [] \<and> list_all isDigit (drop 4 s)
     then Some (natOfDigits 0 (drop 4 s)) else None)"

definition maxId :: "json list \<Rightarrow> nat" where
  "maxId events = fold (\<lambda>evt m. case idNumber (evText evt ''decisionId'') of
     None \<Rightarrow> m | Some n \<Rightarrow> if m < n then n else m) events 0"

definition nextDecisionId :: "string option \<Rightarrow> string" where
  "nextDecisionId contents = formatDecisionId (maxId (fst (readDecisionEvents contents)) + 1)"

section \<open>The projection\<close>

datatype lifecycle = LcProposed | LcOpen | LcDeferred | LcAnswered | LcSuperseded | LcArchived

record decision_spec =
  dp_summary :: string
  dp_body :: "json option"
  dp_reversible :: "json option"
  dp_options :: "json list"
  dp_dependsOn :: "json option"
  dp_timebox :: "json option"
  dp_priority :: "json option"
  dp_impactScore :: "json option"
  dp_fallback :: "json option"
  dp_contextRef :: "json option"

record decision_status =
  dv_lifecycle :: lifecycle
  dv_answeredOptionId :: "json option"
  dv_answeredBy :: "json option"
  dv_answeredAt :: "string option"
  dv_routing :: "json option"
  dv_evaluation :: "(string \<times> json) list option"
  dv_priority :: "json option"
  dv_capacity :: "json option"
  dv_deadline :: "json option"
  dv_timeboxExpiresAt :: "json option"

record decision =
  dk_id :: string
  dk_source :: string
  dk_scope :: string
  dk_created :: string
  dk_updated :: string
  dk_spec :: decision_spec
  dk_status :: decision_status
  dk_log :: "json list"

definition openDecision :: "decision option \<Rightarrow> json \<Rightarrow> decision" where
  "openDecision current ev =
    \<lparr>dk_id = evText ev ''decisionId'', dk_source = evText ev ''source'', dk_scope = evText ev ''scope'',
     dk_created = (case current of Some d \<Rightarrow> dk_created d | None \<Rightarrow> evText ev ''ts''), dk_updated = evText ev ''ts'',
     dk_spec = \<lparr>dp_summary = evText ev ''summary'', dp_body = jsonField ev ''body'',
       dp_reversible = jsonField ev ''reversible'',
       dp_options = (case jsonField ev ''options'' of Some (JArr opts) \<Rightarrow> opts | _ \<Rightarrow> []),
       dp_dependsOn = jsonField ev ''dependsOn'', dp_timebox = jsonField ev ''timebox'',
       dp_priority = jsonField ev ''priority'', dp_impactScore = jsonField ev ''impactScore'',
       dp_fallback = jsonField ev ''autonomousFallbackOptionId'', dp_contextRef = jsonField ev ''contextRef''\<rparr>,
     dk_status = \<lparr>dv_lifecycle = LcOpen, dv_answeredOptionId = None, dv_answeredBy = None, dv_answeredAt = None,
       dv_routing = jsonField ev ''routing'', dv_evaluation = None, dv_priority = None,
       dv_capacity = jsonField ev ''capacity'', dv_deadline = jsonField ev ''deadline'',
       dv_timeboxExpiresAt = jsonField ev ''timeboxExpiresAt''\<rparr>,
     dk_log = (case current of Some d \<Rightarrow> dk_log d | None \<Rightarrow> []) @ [ev]\<rparr>"

text \<open>What every other event does: the time of the update and the log.\<close>

definition touch :: "json \<Rightarrow> decision \<Rightarrow> decision" where
  "touch ev d = d\<lparr>dk_updated := evText ev ''ts'', dk_log := dk_log d @ [ev]\<rparr>"

definition extendTimebox :: "json \<Rightarrow> decision \<Rightarrow> decision" where
  "extendTimebox ev d = d\<lparr>dk_spec := (dk_spec d)\<lparr>dp_timebox := jsonField ev ''newTimebox''\<rparr>,
     dk_status := (dk_status d)\<lparr>dv_timeboxExpiresAt := jsonField ev ''newTimeboxExpiresAt''\<rparr>\<rparr>"

text \<open>Setting a member; a value \<open>undefined\<close> makes it read as absent.\<close>

definition putMember :: "string \<Rightarrow> json option \<Rightarrow> (string \<times> json) list \<Rightarrow> (string \<times> json) list" where
  "putMember k v m = (case v of Some j \<Rightarrow> mapSet k j m | None \<Rightarrow> AList.delete k m)"

definition evaluated :: "string \<Rightarrow> json option \<Rightarrow> decision_status \<Rightarrow> decision_status" where
  "evaluated k v st = st\<lparr>dv_evaluation := Some (putMember k v (orElse (dv_evaluation st) []))\<rparr>"

definition recommend :: "json \<Rightarrow> decision \<Rightarrow> decision" where
  "recommend ev d =
    (let st1 = evaluated ''stageA'' (jsonField ev ''stageA'') (dk_status d);
         st2 = (if jsonField ev ''stageB'' \<noteq> None then evaluated ''stageB'' (jsonField ev ''stageB'') st1 else st1);
         st3 = st2\<lparr>dv_priority := jsonField ev ''prioritySignal''\<rparr>
     in d\<lparr>dk_status := (if jsonField ev ''routing'' \<noteq> None then st3\<lparr>dv_routing := jsonField ev ''routing''\<rparr> else st3)\<rparr>)"

text \<open>\<open>event.by ?? missing\<close>.\<close>

definition actorOr :: "json \<Rightarrow> json \<Rightarrow> json" where
  "actorOr ev missing = (case jsonField ev ''by'' of None \<Rightarrow> missing | Some JNull \<Rightarrow> missing | Some j \<Rightarrow> j)"

definition answerWith :: "json \<Rightarrow> json \<Rightarrow> decision \<Rightarrow> decision" where
  "answerWith missing ev d = d\<lparr>dk_status := (dk_status d)\<lparr>dv_lifecycle := LcAnswered,
     dv_answeredOptionId := jsonField ev ''chosenOptionId'', dv_answeredBy := Some (actorOr ev missing),
     dv_answeredAt := Some (evText ev ''ts'')\<rparr>\<rparr>"

definition applyEvent :: "decision option \<Rightarrow> json \<Rightarrow> decision option" where
  "applyEvent current ev =
    (let ty = evText ev ''type'' in
     if ty = ''decision-opened'' then Some (openDecision current ev)
     else case current of
       None \<Rightarrow> None
     | Some d \<Rightarrow> Some (touch ev
         (if ty = ''timebox-extended'' then extendTimebox ev d
          else if ty = ''recommendation-issued'' then recommend ev d
          else if ty = ''stage-c-completed'' then d\<lparr>dk_status := evaluated ''stageC'' (jsonField ev ''stageC'') (dk_status d)\<rparr>
          else if ty = ''overridden'' then answerWith JNull ev d
          else if ty = ''operator-answered'' then answerWith JNull ev d
          else if ty = ''auto-expired'' then answerWith (JStr ''auto-expired'') ev d
          else d)))"

definition projectStep :: "json \<Rightarrow> (string, decision) jsmap \<Rightarrow> (string, decision) jsmap" where
  "projectStep ev decisions =
    (let i = evText ev ''decisionId'' in
     case applyEvent (mapGet decisions i) ev of None \<Rightarrow> decisions | Some d \<Rightarrow> mapSet i d decisions)"

definition projectAll :: "string option \<Rightarrow> (string, decision) jsmap \<times> nat" where
  "projectAll contents = (let (events, skipped) = readDecisionEvents contents in (fold projectStep events [], skipped))"

definition projectDecision :: "string \<Rightarrow> string option \<Rightarrow> decision option" where
  "projectDecision i contents = mapGet (fst (projectAll contents)) i"

definition byCreation :: "decision \<Rightarrow> decision \<Rightarrow> int" where
  "byCreation a b = localeCompare (dk_created a) (dk_created b)"

definition listDecisions :: "string option \<Rightarrow> decision list \<times> nat" where
  "listDecisions contents = (let (decisions, skipped) = projectAll contents
     in (sortBy byCreation (mapValues decisions), skipped))"

section \<open>Urgency and rank\<close>

text \<open>The expiry of the timebox; empty when there is none (a value of another type counts as none).\<close>

definition expiryText :: "decision \<Rightarrow> string" where
  "expiryText d = (case dv_timeboxExpiresAt (dk_status d) of Some (JStr s) \<Rightarrow> s | _ \<Rightarrow> [])"

definition byUrgency :: "decision \<Rightarrow> decision \<Rightarrow> int" where
  "byUrgency a b =
    (let aExp = expiryText a; bExp = expiryText b in
     if aExp \<noteq> [] \<and> bExp \<noteq> [] then
       (let cmp = localeCompare aExp bExp in if cmp \<noteq> 0 then cmp else localeCompare (dk_created a) (dk_created b))
     else if aExp \<noteq> [] \<and> bExp = [] then -1
     else if aExp = [] \<and> bExp \<noteq> [] then 1
     else localeCompare (dk_created a) (dk_created b))"

definition sortDecisionsByTimeboxUrgency :: "decision list \<Rightarrow> decision list" where
  "sortDecisionsByTimeboxUrgency decisions = sortBy byUrgency decisions"

definition isDecisionTimeboxExpired :: "(string \<Rightarrow> stamp) \<Rightarrow> decision \<Rightarrow> int \<Rightarrow> bool" where
  "isDecisionTimeboxExpired parseDate d now =
    (if expiryText d = [] then False
     else case parseDate (expiryText d) of None \<Rightarrow> False | Some t \<Rightarrow> t < now)"

definition resolved :: "decision \<Rightarrow> bool" where
  "resolved d \<longleftrightarrow> dv_lifecycle (dk_status d) = LcAnswered \<or> dv_lifecycle (dk_status d) = LcArchived \<or>
     dv_lifecycle (dk_status d) = LcSuperseded"

definition filterExpiredDecisions :: "(string \<Rightarrow> stamp) \<Rightarrow> decision list \<Rightarrow> int \<Rightarrow> decision list" where
  "filterExpiredDecisions parseDate decisions now =
    filter (\<lambda>d. if \<not> isDecisionTimeboxExpired parseDate d now then False else \<not> resolved d) decisions"

definition urgencyDecay :: "int option \<Rightarrow> rat" where
  "urgencyDecay msRemaining = (case msRemaining of
     None \<Rightarrow> 1
   | Some ms \<Rightarrow> if ms \<le> 0 then 3 else if ms \<le> 3600000 then 2 else if ms \<le> 86400000 then 3 / 2 else 1)"

definition computeRankScore :: "(string \<Rightarrow> stamp) \<Rightarrow> decision \<Rightarrow> int \<Rightarrow> rat" where
  "computeRankScore parseDate d now =
    (let priority = (case dp_priority (dk_spec d) of Some (JStr p) \<Rightarrow> p | _ \<Rightarrow> ''low'');
         priorityWeight = orElse (mapGet DECISION_PRIORITY_WEIGHTS priority) 0;
         impact = (case dp_impactScore (dk_spec d) of Some v \<Rightarrow> orElse (jsonNumber v) 50 | None \<Rightarrow> 50);
         impactFactor = impact / 100 + 1
     in priorityWeight * impactFactor * urgencyDecay (msRemainingUntil parseDate (expiryText d) now))"

definition byRank :: "(string \<Rightarrow> stamp) \<Rightarrow> int \<Rightarrow> decision \<Rightarrow> decision \<Rightarrow> int" where
  "byRank parseDate now a b =
    (let x = computeRankScore parseDate a now; y = computeRankScore parseDate b now
     in if y \<noteq> x then (if y < x then -1 else 1) else localeCompare (dk_created a) (dk_created b))"

definition rankDecisions :: "(string \<Rightarrow> stamp) \<Rightarrow> decision list \<Rightarrow> int \<Rightarrow> decision list" where
  "rankDecisions parseDate decisions now = sortBy (byRank parseDate now) decisions"

end
