(* ===== verification/DecisionOps.thy ===== *)
theory DecisionOps
  imports Decision
begin

text \<open>
  What writes to the decision log: the event factories of \<open>event-log.ts\<close>, the bridge that files the
  questions of a refinement verdict (\<open>dor-bridge.ts\<close>), and the commands that answer and expire
  decisions (\<open>cli/decisions.ts\<close>). Times are milliseconds. A command that fails gives \<open>Inl\<close> of its
  message; the state is the contents of the log file.
\<close>

section \<open>Event factories\<close>

definition envelope :: "string \<Rightarrow> int \<Rightarrow> string \<Rightarrow> (string \<times> json) list" where
  "envelope ty now i = [(''eventVersion'', JStr ''v1''), (''type'', JStr ty), (''ts'', JStr (toISOString now)),
     (''decisionId'', JStr i)]"

record open_input =
  oi_decisionId :: "string option"
  oi_source :: string
  oi_scope :: string
  oi_summary :: string
  oi_body :: "json option"
  oi_reversible :: "json option"
  oi_options :: "json list"
  oi_dependsOn :: "json option"
  oi_routing :: "json option"
  oi_capacity :: "json option"
  oi_deadline :: "json option"
  oi_timebox :: "json option"
  oi_timeboxExpiresAt :: "json option"
  oi_priority :: "json option"
  oi_impactScore :: "json option"
  oi_fallback :: "json option"
  oi_contextRef :: "json option"
  oi_by :: "json option"

definition makeDecisionOpenedEvent :: "open_input \<Rightarrow> int \<Rightarrow> json" where
  "makeDecisionOpenedEvent input now =
    JObj (envelope ''decision-opened'' now (orElse (oi_decisionId input) ''DEC-0001'') @
     [(''source'', JStr (oi_source input)), (''scope'', JStr (oi_scope input)), (''summary'', JStr (oi_summary input)),
      (''options'', JArr (oi_options input))] @
     optMember ''body'' (oi_body input) @ optMember ''reversible'' (oi_reversible input) @
     optMember ''dependsOn'' (oi_dependsOn input) @ optMember ''routing'' (oi_routing input) @
     optMember ''capacity'' (oi_capacity input) @ optMember ''deadline'' (oi_deadline input) @
     optMember ''timebox'' (oi_timebox input) @ optMember ''timeboxExpiresAt'' (oi_timeboxExpiresAt input) @
     optMember ''priority'' (oi_priority input) @ optMember ''impactScore'' (oi_impactScore input) @
     optMember ''autonomousFallbackOptionId'' (oi_fallback input) @ optMember ''contextRef'' (oi_contextRef input) @
     optMember ''by'' (oi_by input))"

definition makeTimeboxExtendedEvent ::
    "string \<Rightarrow> string \<Rightarrow> string \<Rightarrow> json \<Rightarrow> json option \<Rightarrow> json option \<Rightarrow> int \<Rightarrow> json" where
  "makeTimeboxExtendedEvent i newTimebox newExpiry previous rationale actor now =
    JObj (envelope ''timebox-extended'' now i @
     [(''newTimebox'', JStr newTimebox), (''newTimeboxExpiresAt'', JStr newExpiry),
      (''previousTimeboxExpiresAt'', previous)] @
     optMember ''rationale'' rationale @ optMember ''by'' actor)"

record answer_input =
  wi_decisionId :: string
  wi_chosenOptionId :: string
  wi_rationale :: "json option"
  wi_contextRef :: "json option"
  wi_surfacingAgent :: "json option"
  wi_by :: "json option"

definition makeOperatorAnsweredEvent :: "answer_input \<Rightarrow> int \<Rightarrow> json" where
  "makeOperatorAnsweredEvent input now =
    JObj (envelope ''operator-answered'' now (wi_decisionId input) @
     [(''chosenOptionId'', JStr (wi_chosenOptionId input))] @
     optMember ''rationale'' (wi_rationale input) @ optMember ''contextRef'' (wi_contextRef input) @
     optMember ''surfacingAgent'' (wi_surfacingAgent input) @ optMember ''by'' (wi_by input))"

definition makeAutoExpiredEvent :: "string \<Rightarrow> json \<Rightarrow> string \<Rightarrow> string \<Rightarrow> json option \<Rightarrow> int \<Rightarrow> json" where
  "makeAutoExpiredEvent i chosen rationale expiredAt contextRef now =
    JObj (envelope ''auto-expired'' now i @
     [(''chosenOptionId'', chosen), (''rationale'', JStr rationale), (''expiredAt'', JStr expiredAt),
      (''by'', JStr ''auto-expired'')] @ optMember ''contextRef'' contextRef)"

section \<open>The feature flag\<close>

definition isDecisionCatalogEnabled :: "string option \<Rightarrow> bool" where
  "isDecisionCatalogEnabled env =
    (\<not> given env \<or> toLowerCase (trim (the env)) \<notin> {''off'', ''0'', ''false'', ''no'', ''disabled''})"

definition decisionCatalogDisabledMessage :: string where
  "decisionCatalogDisabledMessage =
    ''[cli-decisions] feature flag AI_SDLC_DECISION_CATALOG is set to a falsy value; '' @
    ''Decision Catalog is opt-out disabled. Unset AI_SDLC_DECISION_CATALOG (or set to a non-falsy '' @
    ''value) to re-enable. Default since AISDLC-392 is ON.''"

section \<open>The bridge from refinement verdicts\<close>

record refinement_verdict =
  rf_issueId :: string
  rf_rubricVersion :: string
  rf_overallVerdict :: string
  rf_evaluatorVersion :: string
  rf_questions :: "string list"

definition textArray :: "string list \<Rightarrow> json" where
  "textArray xs = JArr (map JStr xs)"

definition dorClarificationOptions :: "json list" where
  "dorClarificationOptions =
    [JObj [(''id'', JStr ''provide-answer''),
       (''description'', JStr ''Author provides the requested clarification so the issue can proceed through DoR''),
       (''consequences'', textArray [''Issue re-evaluated by DoR gate after author updates it'',
          ''Gate unblocked on next DoR check cycle''])],
     JObj [(''id'', JStr ''bypass-gate''),
       (''description'', JStr ''Operator accepts the issue as-is and bypasses this DoR gate''),
       (''consequences'', textArray [''Issue proceeds without clarification; bypass logged to calibration corpus'',
          ''Reviewer agents evaluate against the unmodified issue''])],
     JObj [(''id'', JStr ''reject-issue''),
       (''description'', JStr ''Reject the issue as out of scope, invalid, or not actionable''),
       (''consequences'', textArray [''Issue closed as not-ready; author notified'',
          ''Counts as a negative calibration data point for the DoR rubric''])]]"

definition dorEvent :: "refinement_verdict \<Rightarrow> string \<Rightarrow> string \<Rightarrow> string \<Rightarrow> int \<Rightarrow> json" where
  "dorEvent verdict scope decisionId question now =
    makeDecisionOpenedEvent \<lparr>oi_decisionId = Some decisionId, oi_source = ''dor-clarification'', oi_scope = scope,
      oi_summary = question,
      oi_body = Some (JStr (''DoR clarification required for `'' @ rf_issueId verdict @ ''` (verdict: '' @
        rf_overallVerdict verdict @ '', rubric: '' @ rf_rubricVersion verdict @ '', evaluator: '' @
        rf_evaluatorVersion verdict @ ''). Resolve this question to unblock the issue from DoR admission.'')),
      oi_reversible = Some (JBool True), oi_options = dorClarificationOptions, oi_dependsOn = None, oi_routing = None,
      oi_capacity = None, oi_deadline = None, oi_timebox = None, oi_timeboxExpiresAt = None, oi_priority = None,
      oi_impactScore = None, oi_fallback = None, oi_contextRef = None, oi_by = None\<rparr> now"

text \<open>The loop over the questions: the summaries already filed, the ids so far, the questions skipped,
  and the log. An event that cannot be appended ends it with the error, the log as it is then.\<close>

fun emitQuestions ::
    "bool \<Rightarrow> refinement_verdict \<Rightarrow> string \<Rightarrow> int \<Rightarrow> string list \<Rightarrow> string list \<Rightarrow> string list \<Rightarrow> nat \<Rightarrow> string option \<Rightarrow>
     (string + string list \<times> nat) \<times> string option" where
  "emitQuestions shouldDedup verdict scope now [] existing ids skipped file = (Inr (ids, skipped), file)"
| "emitQuestions shouldDedup verdict scope now (q # qs) existing ids skipped file =
    (if shouldDedup \<and> q \<in> set existing
     then emitQuestions shouldDedup verdict scope now qs existing ids (skipped + 1) file
     else let decisionId = nextDecisionId file in
       case appendDecisionEvent (dorEvent verdict scope decisionId q now) file of
         Inl e \<Rightarrow> (Inl e, file)
       | Inr file' \<Rightarrow> emitQuestions shouldDedup verdict scope now qs (setAdd q existing) (ids @ [decisionId]) skipped
           (Some file'))"

record emit_result =
  em_enabled :: bool
  em_emitted :: nat
  em_decisionIds :: "string list"
  em_skippedDuplicates :: nat
  em_disabledReason :: "string option"

definition emitDorDecisions ::
    "refinement_verdict \<Rightarrow> string option \<Rightarrow> bool \<Rightarrow> string option \<Rightarrow> int \<Rightarrow> string option \<Rightarrow>
     (string + emit_result) \<times> string option" where
  "emitDorDecisions verdict issueScope shouldDedup env now file =
    (if \<not> isDecisionCatalogEnabled env
     then (Inr \<lparr>em_enabled = False, em_emitted = 0, em_decisionIds = [], em_skippedDuplicates = 0,
             em_disabledReason = Some decisionCatalogDisabledMessage\<rparr>, file)
     else if rf_questions verdict = []
     then (Inr \<lparr>em_enabled = True, em_emitted = 0, em_decisionIds = [], em_skippedDuplicates = 0,
             em_disabledReason = None\<rparr>, file)
     else let scope = orElse issueScope (''issue:'' @ rf_issueId verdict);
              existing = (if shouldDedup
                then map (\<lambda>d. dp_summary (dk_spec d)) (filter (\<lambda>d. dk_scope d = scope) (fst (listDecisions file)))
                else [])
       in case emitQuestions shouldDedup verdict scope now (rf_questions verdict) existing [] 0 file of
            (Inl e, file') \<Rightarrow> (Inl e, file')
          | (Inr (ids, skipped), file') \<Rightarrow>
              (Inr \<lparr>em_enabled = True, em_emitted = length ids, em_decisionIds = ids, em_skippedDuplicates = skipped,
                 em_disabledReason = None\<rparr>, file'))"

definition resolveDorDecision ::
    "string \<Rightarrow> string \<Rightarrow> json option \<Rightarrow> string option \<Rightarrow> int \<Rightarrow> string option \<Rightarrow> (string + bool) \<times> string option" where
  "resolveDorDecision decisionId chosen actor env now file =
    (if \<not> isDecisionCatalogEnabled env then (Inr False, file)
     else case appendDecisionEvent (makeOperatorAnsweredEvent \<lparr>wi_decisionId = decisionId, wi_chosenOptionId = chosen,
         wi_rationale = None, wi_contextRef = None, wi_surfacingAgent = None, wi_by = actor\<rparr> now) file of
       Inl e \<Rightarrow> (Inl e, file) | Inr file' \<Rightarrow> (Inr True, Some file'))"

section \<open>Answering and expiring\<close>

definition declaresOption :: "decision \<Rightarrow> json \<Rightarrow> bool" where
  "declaresOption d chosen \<longleftrightarrow> list_ex (\<lambda>o'. jsonField o' ''id'' = Some chosen) (dp_options (dk_spec d))"

definition answerCommand ::
    "string \<Rightarrow> string \<Rightarrow> json option \<Rightarrow> json option \<Rightarrow> string option \<Rightarrow> int \<Rightarrow> string option \<Rightarrow> string + string" where
  "answerCommand i optionId rationale actor env now file =
    (if \<not> isValidDecisionId i then Inl (''invalid decision id: '' @ i @ '' '' @ emDash @ '' expected DEC-NNNN'')
     else if \<not> isDecisionCatalogEnabled env
     then Inl (decisionCatalogDisabledMessage @ newline @
       ''[cli-decisions] answer: refusing to mutate the event log while the flag is off.'')
     else case projectDecision i file of
       None \<Rightarrow> Inl (''decision not found: '' @ i)
     | Some d \<Rightarrow>
         if \<not> declaresOption d (JStr optionId)
         then Inl (''optionId \"'' @ optionId @ ''\" is not declared on '' @ i @ '' '' @ emDash @ '' valid options: '' @
           joinWith '', '' (map (\<lambda>o'. evText o' ''id'') (dp_options (dk_spec d))))
         else appendDecisionEvent (makeOperatorAnsweredEvent \<lparr>wi_decisionId = i, wi_chosenOptionId = optionId,
           wi_rationale = rationale, wi_contextRef = None, wi_surfacingAgent = None, wi_by = actor\<rparr> now) file)"

text \<open>What the expiry of one decision does: the option chosen and why, or why it is skipped.\<close>

datatype expiry = Leave | SkipExpiry string | Expire json string

definition expiryOf :: "(string \<Rightarrow> stamp) \<Rightarrow> int \<Rightarrow> decision \<Rightarrow> expiry" where
  "expiryOf parseDate now d =
    (if resolved d then Leave
     else if \<not> isDecisionTimeboxExpired parseDate d now then Leave
     else case dp_fallback (dk_spec d) of
       None \<Rightarrow> SkipExpiry ''no-autonomous-fallback''
     | Some fallback \<Rightarrow>
         if \<not> declaresOption d fallback then SkipExpiry ''fallback-option-missing''
         else Expire fallback (''fallback after '' @
           (case dp_timebox (dk_spec d) of Some (JStr t) \<Rightarrow> t | _ \<Rightarrow> ''expired'') @ '' timebox''))"

text \<open>The loop of the command: what was expired, with its reason, what was skipped, and the log.\<close>

fun expireAll :: "(string \<Rightarrow> stamp) \<Rightarrow> bool \<Rightarrow> int \<Rightarrow> decision list \<Rightarrow> string option \<Rightarrow>
    (string + (string \<times> json \<times> string) list \<times> (string \<times> string) list) \<times> string option" where
  "expireAll parseDate dryRun now [] file = (Inr ([], []), file)"
| "expireAll parseDate dryRun now (d # ds) file = (case expiryOf parseDate now d of
     Leave \<Rightarrow> expireAll parseDate dryRun now ds file
   | SkipExpiry reason \<Rightarrow> (case expireAll parseDate dryRun now ds file of
         (Inl e, f) \<Rightarrow> (Inl e, f) | (Inr (ex, sk), f) \<Rightarrow> (Inr (ex, (dk_id d, reason) # sk), f))
   | Expire chosen rationale \<Rightarrow>
       (case (if dryRun then Inr (orElse file [])
              else appendDecisionEvent (makeAutoExpiredEvent (dk_id d) chosen rationale (expiryText d)
                (dp_contextRef (dk_spec d)) now) file) of
          Inl e \<Rightarrow> (Inl e, file)
        | Inr f \<Rightarrow> (case expireAll parseDate dryRun now ds (if dryRun then file else Some f) of
              (Inl e, f) \<Rightarrow> (Inl e, f) | (Inr (ex, sk), f) \<Rightarrow> (Inr ((dk_id d, chosen, rationale) # ex, sk), f))))"

definition autoExpireCommand :: "(string \<Rightarrow> stamp) \<Rightarrow> bool \<Rightarrow> string option \<Rightarrow> int \<Rightarrow> string option \<Rightarrow>
    (string + (string \<times> json \<times> string) list \<times> (string \<times> string) list) \<times> string option" where
  "autoExpireCommand parseDate dryRun env now file =
    (if \<not> isDecisionCatalogEnabled env
     then (Inl (decisionCatalogDisabledMessage @ newline @
       ''[cli-decisions] auto-expire: refusing to mutate the event log while the flag is off.''), file)
     else expireAll parseDate dryRun now (fst (listDecisions file)) file)"

end
