(* ===== verification/DecisionCorrect.thy ===== *)
theory DecisionCorrect
  imports DecisionOps JsonCorrect
begin

text \<open>
  Lemmas on the decision log: what appending does to what is read, that allocated ids are new, and
  the projection as a fold over the events of one decision.
\<close>

section \<open>Appending\<close>

text \<open>A log whose last line is terminated (or that is empty or missing).\<close>

definition terminated :: "string option \<Rightarrow> bool" where
  "terminated contents \<longleftrightarrow> (case contents of None \<Rightarrow> True | Some s \<Rightarrow> s = [] \<or> last s = CHR 10)"

lemma readLines_append:
  "readLines v (xs @ ys) = (fst (readLines v xs) @ fst (readLines v ys), snd (readLines v xs) + snd (readLines v ys))"
  by (induction xs) (auto simp: Let_def split: prod.splits option.splits)

lemma readJsonl_append:
  assumes "s = [] \<or> last s = CHR 10"
  shows "readJsonl v (s @ t) = (fst (readJsonl v s) @ fst (readJsonl v t), snd (readJsonl v s) + snd (readJsonl v t))"
proof (cases "s = []")
  case True
  then show ?thesis by (simp add: readJsonl_def)
next
  case False
  then obtain u where "s = u @ [CHR 10]" using assms by (metis append_butlast_last_id)
  then show ?thesis by (simp add: readJsonl_def splitOn_sep readLines_append)
qed

lemma readJsonl_line: "jsonOk j \<Longrightarrow> readJsonl v (jsonLine j) = (if v j then [j] else [], if v j then 0 else 1)"
  using readJsonl_lines [of "[j]" v] by simp

lemma append_read:
  assumes "appendDecisionEvent ev fl = Inr fl'" "terminated fl" "jsonOk ev"
  shows "readDecisionEvents (Some fl') = (fst (readDecisionEvents fl) @ [ev], snd (readDecisionEvents fl))"
    and "terminated (Some fl')" and "validEvent ev"
proof -
  from assms(1) have v: "validEvent ev" and f: "fl' = orElse fl [] @ jsonLine ev"
    by (auto simp: appendDecisionEvent_def validEvent_def split: option.splits)
  show "validEvent ev" by (fact v)
  show "terminated (Some fl')" by (simp add: f terminated_def jsonLine_def newline_def)
  show "readDecisionEvents (Some fl') = (fst (readDecisionEvents fl) @ [ev], snd (readDecisionEvents fl))"
  proof (cases fl)
    case None
    then show ?thesis using readJsonl_line [OF assms(3)] v by (simp add: f readDecisionEvents_def)
  next
    case (Some s)
    then have "s = [] \<or> last s = CHR 10" using assms(2) by (simp add: terminated_def)
    then show ?thesis using readJsonl_append readJsonl_line [OF assms(3)] v by (simp add: f Some readDecisionEvents_def)
  qed
qed

lemma append_total: "validEvent ev \<Longrightarrow> appendDecisionEvent ev fl = Inr (orElse fl [] @ jsonLine ev)"
  by (simp add: appendDecisionEvent_def validEvent_def)

section \<open>Identifiers\<close>

abbreviation eventId :: "json \<Rightarrow> string" where
  "eventId e \<equiv> evText e ''decisionId''"

lemma pad_digits: "list_all isDigit (pad w n)" "w \<le> length (pad w n)"
proof -
  have "isDigit (CHR ''0'')" by (simp add: isDigit_def)
  then show "list_all isDigit (pad w n)" using showNat_digits [of n] by (auto simp: pad_def list_all_iff)
  show "w \<le> length (pad w n)" by (simp add: pad_def)
qed

lemma natOfDigits_zeros: "natOfDigits 0 (replicate k CHR ''0'' @ s) = natOfDigits 0 s"
  by (induction k) simp_all

lemma natOfDigits_pad: "natOfDigits 0 (pad w n) = n"
  by (simp add: pad_def natOfDigits_zeros natOfDigits_showNat)

lemma formatDecisionId_valid: "isValidDecisionId (formatDecisionId n)"
  using pad_digits [of 4 n] by (simp add: isValidDecisionId_def formatDecisionId_def startsWith_def)

lemma idNumber_format: "idNumber (formatDecisionId n) = Some n"
  using pad_digits [of 4 n] natOfDigits_pad [of 4 n]
  by (auto simp: idNumber_def formatDecisionId_def startsWith_def)

lemma maxId_bound: "e \<in> set events \<Longrightarrow> idNumber (eventId e) = Some n \<Longrightarrow> n \<le> maxId events"
proof -
  let ?f = "\<lambda>evt m. case idNumber (eventId evt) of None \<Rightarrow> m | Some n \<Rightarrow> if m < n then n else (m :: nat)"
  have "m \<le> fold ?f es m \<and> (\<forall>e \<in> set es. \<forall>n. idNumber (eventId e) = Some n \<longrightarrow> n \<le> fold ?f es m)" for es m
  proof (induction es arbitrary: m)
    case (Cons e es)
    have "m \<le> ?f e m" "\<forall>n. idNumber (eventId e) = Some n \<longrightarrow> n \<le> ?f e m" by (auto split: option.splits)
    then show ?case using Cons [of "?f e m"] by (auto intro: order_trans)
  qed simp
  then show "e \<in> set events \<Longrightarrow> idNumber (eventId e) = Some n \<Longrightarrow> n \<le> maxId events"
    unfolding maxId_def by blast
qed

lemma next_id_fresh: "e \<in> set (fst (readDecisionEvents fl)) \<Longrightarrow> eventId e \<noteq> nextDecisionId fl"
  using maxId_bound [of e "fst (readDecisionEvents fl)"] idNumber_format by (fastforce simp: nextDecisionId_def)

lemma next_id_valid: "isValidDecisionId (nextDecisionId fl)"
  by (simp add: nextDecisionId_def formatDecisionId_valid)

section \<open>The projection\<close>

definition ownEvents :: "string \<Rightarrow> json list \<Rightarrow> json list" where
  "ownEvents i events = filter (\<lambda>e. eventId e = i) events"

lemma ownEvents_simps [simp]: "ownEvents i [] = []"
  "ownEvents i (es @ [e]) = (if eventId e = i then ownEvents i es @ [e] else ownEvents i es)"
  by (simp_all add: ownEvents_def)

lemma projection_fold: "mapGet (fold projectStep events []) i = foldl applyEvent None (ownEvents i events)"
proof (induction events rule: rev_induct)
  case (snoc e es)
  have keep: "mapGet (projectStep e m) i = mapGet m i" if "eventId e \<noteq> i" for m
    using that by (auto simp: projectStep_def Let_def map_simps split: option.splits)
  have own: "mapGet (projectStep e m) i = applyEvent (mapGet m i) e" if "eventId e = i" for m
  proof (cases "applyEvent (mapGet m i) e")
    case None
    then have "mapGet m i = None" by (auto simp: applyEvent_def Let_def split: if_splits option.splits)
    then show ?thesis using None that by (simp add: projectStep_def)
  next
    case (Some d)
    then show ?thesis using that by (simp add: projectStep_def map_simps)
  qed
  show ?case using snoc keep own by simp
qed simp

definition opens :: "json \<Rightarrow> bool" where
  "opens e \<longleftrightarrow> evText e ''type'' = ''decision-opened''"

definition answers :: "json \<Rightarrow> bool" where
  "answers e \<longleftrightarrow> evText e ''type'' \<in> {''overridden'', ''operator-answered'', ''auto-expired''}"

text \<open>The events of a decision from its first opening, and the last answer since its last opening.\<close>

definition history :: "json list \<Rightarrow> json list" where
  "history es = dropWhile (\<lambda>e. \<not> opens e) es"

definition lastAnswer :: "json list \<Rightarrow> json option" where
  "lastAnswer es = find answers (takeWhile (\<lambda>e. \<not> opens e) (rev es))"

lemma history_snoc: "history (es @ [e]) = (if history es \<noteq> [] then history es @ [e] else if opens e then [e] else [])"
  by (auto simp: history_def dropWhile_append)

lemma lastAnswer_snoc: "lastAnswer (es @ [e]) = (if opens e then None else if answers e then Some e else lastAnswer es)"
  by (simp add: lastAnswer_def)

definition follows :: "string \<Rightarrow> json list \<Rightarrow> decision \<Rightarrow> bool" where
  "follows i es d \<longleftrightarrow> dk_log d = history es \<and> dk_id d = i \<and> dk_created d = evText (hd (history es)) ''ts'' \<and>
     dk_updated d = evText (last (history es)) ''ts'' \<and>
     (case lastAnswer es of
        None \<Rightarrow> dv_lifecycle (dk_status d) = LcOpen
      | Some a \<Rightarrow> dv_lifecycle (dk_status d) = LcAnswered \<and>
          dv_answeredOptionId (dk_status d) = jsonField a ''chosenOptionId'' \<and>
          dv_answeredAt (dk_status d) = Some (evText a ''ts''))"

lemma applyEvent_None: "applyEvent None e = (if opens e then Some (openDecision None e) else None)"
  by (simp add: applyEvent_def opens_def Let_def)

lemma lastAnswer_opens: "history es = [] \<Longrightarrow> opens e \<Longrightarrow> lastAnswer (es @ [e]) = None"
  by (simp add: lastAnswer_snoc)

lemma follows_apply:
  assumes "follows i es d" "history es \<noteq> []" "eventId e = i"
  shows "\<exists>d'. applyEvent (Some d) e = Some d' \<and> follows i (es @ [e]) d'"
proof (cases "opens e")
  case True
  then have "applyEvent (Some d) e = Some (openDecision (Some d) e)" by (simp add: applyEvent_def opens_def Let_def)
  moreover have "follows i (es @ [e]) (openDecision (Some d) e)"
    using assms True by (simp add: follows_def history_snoc lastAnswer_snoc openDecision_def)
  ultimately show ?thesis by blast
next
  case False
  then obtain g where g: "applyEvent (Some d) e = Some (touch e g)" and
    dg: "dk_log g = dk_log d" "dk_id g = dk_id d" "dk_created g = dk_created d" and
    lc: "if answers e then dv_lifecycle (dk_status g) = LcAnswered \<and>
        dv_answeredOptionId (dk_status g) = jsonField e ''chosenOptionId'' \<and>
        dv_answeredAt (dk_status g) = Some (evText e ''ts'')
      else dv_lifecycle (dk_status g) = dv_lifecycle (dk_status d) \<and>
        dv_answeredOptionId (dk_status g) = dv_answeredOptionId (dk_status d) \<and>
        dv_answeredAt (dk_status g) = dv_answeredAt (dk_status d)"
    by (auto simp: applyEvent_def opens_def answers_def Let_def answerWith_def extendTimebox_def recommend_def
        evaluated_def)
  have "follows i (es @ [e]) (touch e g)"
    using assms False dg lc
    by (auto simp: follows_def history_snoc lastAnswer_snoc touch_def split: option.splits if_splits)
  then show ?thesis using g by blast
qed

lemma fold_follows:
  assumes "\<forall>e \<in> set es. eventId e = i"
  shows "case foldl applyEvent None es of None \<Rightarrow> history es = [] | Some d \<Rightarrow> history es \<noteq> [] \<and> follows i es d"
  using assms
proof (induction es rule: rev_induct)
  case (snoc e es)
  then have ih: "case foldl applyEvent None es of None \<Rightarrow> history es = [] | Some d \<Rightarrow> history es \<noteq> [] \<and> follows i es d"
    and e: "eventId e = i" by auto
  show ?case
  proof (cases "foldl applyEvent None es")
    case None
    then have h: "history es = []" using ih by simp
    show ?thesis
      using None h e by (auto simp: applyEvent_None history_snoc follows_def lastAnswer_snoc openDecision_def)
  next
    case (Some d)
    then have "history es \<noteq> []" "follows i es d" using ih by auto
    then obtain d' where "applyEvent (Some d) e = Some d'" "follows i (es @ [e]) d'" using follows_apply e by blast
    moreover have "history (es @ [e]) \<noteq> []" using \<open>history es \<noteq> []\<close> by (simp add: history_snoc)
    ultimately show ?thesis using Some by simp
  qed
qed (simp add: history_def)

lemma projectDecision_fold:
  "projectDecision i fl = foldl applyEvent None (ownEvents i (fst (readDecisionEvents fl)))"
  by (simp add: projectDecision_def projectAll_def projection_fold case_prod_beta)

lemma projected_id: "projectDecision i fl = Some d \<Longrightarrow> dk_id d = i"
  using fold_follows [of "ownEvents i (fst (readDecisionEvents fl))" i]
  by (simp add: projectDecision_fold ownEvents_def follows_def)

lemma projected_keys: "distinct (mapKeys (fold projectStep events []))"
proof -
  have "distinct (mapKeys m) \<Longrightarrow> distinct (mapKeys (fold projectStep events m))" for m
    by (induction events arbitrary: m) (auto simp: projectStep_def Let_def map_simps split: option.splits)
  then show ?thesis by simp
qed

text \<open>The listed decisions are the projected ones, each once.\<close>

lemma listed: "d \<in> set (fst (listDecisions fl)) \<longleftrightarrow> projectDecision (dk_id d) fl = Some d"
proof -
  let ?m = "fst (projectAll fl)"
  have k: "distinct (mapKeys ?m)" by (simp add: projectAll_def case_prod_beta projected_keys)
  have "d \<in> set (fst (listDecisions fl)) \<longleftrightarrow> d \<in> snd ` set ?m"
    by (simp add: listDecisions_def case_prod_beta)
  also have "\<dots> \<longleftrightarrow> (\<exists>i. mapGet ?m i = Some d)" using k by (force simp: map_of_eq_Some_iff [OF k] image_iff)
  also have "\<dots> \<longleftrightarrow> mapGet ?m (dk_id d) = Some d"
    using projected_id by (auto simp: projectDecision_def)
  finally show ?thesis by (simp add: projectDecision_def)
qed

lemma listed_ids: "distinct (map dk_id (fst (listDecisions fl)))"
proof -
  let ?m = "fst (projectAll fl)"
  have k: "distinct (mapKeys ?m)" by (simp add: projectAll_def case_prod_beta projected_keys)
  have "dk_id (snd e) = fst e" if "e \<in> set ?m" for e
    using that k projected_id [of "fst e" fl "snd e"] by (simp add: projectDecision_def map_of_eq_Some_iff)
  then have "map dk_id (mapValues ?m) = mapKeys ?m" by simp
  then have "distinct (map dk_id (mapValues ?m))" using k by metis
  moreover have "mset (map dk_id (fst (listDecisions fl))) = mset (map dk_id (mapValues ?m))"
    by (simp add: listDecisions_def case_prod_beta multiset.map_comp)
  ultimately show ?thesis using mset_eq_imp_distinct_iff by blast
qed

text \<open>What appending an event does to the projection of any id.\<close>

lemma append_project:
  assumes "appendDecisionEvent ev fl = Inr fl'" "terminated fl" "jsonOk ev"
  shows "projectDecision i (Some fl') =
    (if eventId ev = i then applyEvent (projectDecision i fl) ev else projectDecision i fl)"
  using append_read(1) [OF assms] by (simp add: projectDecision_fold)

section \<open>What a decision is\<close>

text \<open>
  The properties of the decision catalogue: what a decision is after any log, what appending,
  answering, expiring and the bridge from refinement verdicts do to it, and the orders of its lists.
\<close>

section \<open>The projection\<close>

text \<open>C25. What a decision is after any log, exactly: it exists if and only if one of its own events
  opens it, it shows the events from the first opening on, created with the first and updated with
  the last of them; it is answered if and only if an answer came after the last opening, with the
  option and the time of the last such answer, and open otherwise. Events of other decisions have no
  part in it.\<close>

theorem decision_exact:
  fixes fl :: "string option" and i :: string
  defines "own \<equiv> ownEvents i (fst (readDecisionEvents fl))"
  shows "(projectDecision i fl = None \<longleftrightarrow> (\<forall>e \<in> set own. \<not> opens e)) \<and>
    (\<forall>d. projectDecision i fl = Some d \<longrightarrow>
      dk_id d = i \<and> dk_log d = history own \<and> dk_created d = evText (hd (history own)) ''ts'' \<and>
      dk_updated d = evText (last (history own)) ''ts'' \<and>
      (case lastAnswer own of
         None \<Rightarrow> dv_lifecycle (dk_status d) = LcOpen
       | Some a \<Rightarrow> dv_lifecycle (dk_status d) = LcAnswered \<and>
           dv_answeredOptionId (dk_status d) = jsonField a ''chosenOptionId'' \<and>
           dv_answeredAt (dk_status d) = Some (evText a ''ts'')))"
proof -
  have "\<forall>e \<in> set own. eventId e = i" by (simp add: own_def ownEvents_def)
  then have "case foldl applyEvent None own of None \<Rightarrow> history own = [] | Some d \<Rightarrow> history own \<noteq> [] \<and> follows i own d"
    by (rule fold_follows)
  moreover have "history own = [] \<longleftrightarrow> (\<forall>e \<in> set own. \<not> opens e)" by (simp add: history_def)
  moreover have "projectDecision i fl = foldl applyEvent None own" by (simp add: projectDecision_fold own_def)
  ultimately show ?thesis by (cases "foldl applyEvent None own") (auto simp: follows_def)
qed

definition sampleOpen :: open_input where
  "sampleOpen = \<lparr>oi_decisionId = Some ''DEC-0001'', oi_source = ''ad-hoc'', oi_scope = ''workspace'', oi_summary = ''which?'',
     oi_body = None, oi_reversible = None,
     oi_options = [JObj [(''id'', JStr ''a''), (''description'', JStr ''one'')], JObj [(''id'', JStr ''b''), (''description'', JStr ''two'')]],
     oi_dependsOn = None, oi_routing = None, oi_capacity = None, oi_deadline = None, oi_timebox = Some (JStr ''PT4H''),
     oi_timeboxExpiresAt = Some (JStr ''1970-01-01T04:00:00.000Z''), oi_priority = None, oi_impactScore = None,
     oi_fallback = Some (JStr ''b''), oi_contextRef = None, oi_by = None\<rparr>"

definition sampleLog :: string where
  "sampleLog = jsonLine (makeDecisionOpenedEvent sampleOpen 0)"

lemma sample_ok: "jsonOk (makeDecisionOpenedEvent sampleOpen 0)" "validEvent (makeDecisionOpenedEvent sampleOpen 0)"
  by code_simp+

lemma sample_read: "readDecisionEvents (Some sampleLog) = ([makeDecisionOpenedEvent sampleOpen 0], 0)"
  using readJsonl_line [OF sample_ok(1)] sample_ok(2) by (simp add: readDecisionEvents_def sampleLog_def)

theorem decision_exact_witness:
  "\<exists>d. projectDecision ''DEC-0001'' (Some sampleLog) = Some d \<and> dv_lifecycle (dk_status d) = LcOpen \<and>
     dk_log d = [makeDecisionOpenedEvent sampleOpen 0]"
proof -
  let ?e = "makeDecisionOpenedEvent sampleOpen 0"
  have e: "eventId ?e = ''DEC-0001''" "opens ?e" by code_simp+
  then have own: "ownEvents ''DEC-0001'' (fst (readDecisionEvents (Some sampleLog))) = [?e]"
    by (simp add: sample_read ownEvents_def)
  show ?thesis
    using decision_exact [of "''DEC-0001''" "Some sampleLog"] e
    unfolding own by (auto simp: history_def lastAnswer_def)
qed

section \<open>Appending\<close>

text \<open>C26. Appending and reading are inverse: an event that is appended to a log whose last line is
  terminated is read back last, with every event read before unchanged and in order and no more
  lines skipped; only the decision it names changes, by that event; and the id that is allocated
  next is well formed and names no event of the log.\<close>

theorem decision_append_read:
  fixes fl :: "string option"
  assumes "appendDecisionEvent ev fl = Inr fl'" "terminated fl" "jsonOk ev"
  shows "readDecisionEvents (Some fl') = (fst (readDecisionEvents fl) @ [ev], snd (readDecisionEvents fl)) \<and>
    (\<forall>i. projectDecision i (Some fl') =
       (if eventId ev = i then applyEvent (projectDecision i fl) ev else projectDecision i fl)) \<and>
    isValidDecisionId (nextDecisionId (Some fl')) \<and>
    (\<forall>e \<in> set (fst (readDecisionEvents fl) @ [ev]). eventId e \<noteq> nextDecisionId (Some fl')) \<and>
    terminated (Some fl')"
proof -
  have r: "readDecisionEvents (Some fl') = (fst (readDecisionEvents fl) @ [ev], snd (readDecisionEvents fl))"
    by (rule append_read(1) [OF assms])
  have "eventId e \<noteq> nextDecisionId (Some fl')" if "e \<in> set (fst (readDecisionEvents fl) @ [ev])" for e
    using that next_id_fresh [of e "Some fl'"] r by (simp del: set_append)
  then show ?thesis using r append_project [OF assms] append_read(2) [OF assms] next_id_valid by blast
qed

theorem decision_append_read_witness:
  "readDecisionEvents (Some sampleLog) = ([makeDecisionOpenedEvent sampleOpen 0], 0) \<and>
   nextDecisionId (Some sampleLog) \<noteq> ''DEC-0001''"
proof -
  let ?e = "makeDecisionOpenedEvent sampleOpen 0"
  have "appendDecisionEvent ?e None = Inr sampleLog" using append_total [OF sample_ok(2), of None] by (simp add: sampleLog_def)
  from decision_append_read [OF this _ sample_ok(1)]
  have "readDecisionEvents (Some sampleLog) = ([?e], 0)" "eventId ?e \<noteq> nextDecisionId (Some sampleLog)"
    by (auto simp: terminated_def readDecisionEvents_def)
  moreover have "eventId ?e = ''DEC-0001''" by code_simp
  ultimately show ?thesis by metis
qed

end
