(* ===== verification/BridgeProps.thy ===== *)
theory BridgeProps
  imports DecisionCorrect
begin

text \<open>
  The properties of what writes to the decision catalogue: the bridge from refinement verdicts files
  every question once, and the expiry command answers what it should, once.
\<close>

section \<open>The bridge\<close>

lemma toISOString_nonempty: "toISOString t \<noteq> []"
  by (simp add: toISOString_def Let_def split: prod.splits)

lemma dorEvent_fields:
  "eventId (dorEvent v scope i q now) = i" "opens (dorEvent v scope i q now)"
  "evText (dorEvent v scope i q now) ''scope'' = scope" "evText (dorEvent v scope i q now) ''summary'' = q"
  by (simp_all add: dorEvent_def makeDecisionOpenedEvent_def envelope_def evText_def opens_def optMember_def)

lemma dorEvent_jsonOk: "jsonOk (dorEvent v scope i q now)"
  by (simp add: dorEvent_def makeDecisionOpenedEvent_def envelope_def optMember_def dorClarificationOptions_def
      textArray_def)

lemma dorOptions_ok: "optionsError dorClarificationOptions = None" "dorClarificationOptions \<noteq> []"
  by code_simp+

lemma dorEvent_valid:
  assumes "q \<noteq> []" "scope \<noteq> []" "isValidDecisionId i"
  shows "validEvent (dorEvent v scope i q now)"
proof -
  have "openedError (dorEvent v scope i q now) = None"
    using assms dorOptions_ok
    by (simp add: openedError_def dorEvent_def makeDecisionOpenedEvent_def envelope_def evText_def optMember_def
        nonEmptyText_def DECISION_SOURCES_def)
  moreover have "jsonField (dorEvent v scope i q now) ''eventVersion'' = Some (JStr ''v1'')"
    "evText (dorEvent v scope i q now) ''type'' = ''decision-opened''"
    "jsonField (dorEvent v scope i q now) ''ts'' = Some (JStr (toISOString now))"
    "isJObject (dorEvent v scope i q now)"
    by (simp_all add: dorEvent_def makeDecisionOpenedEvent_def envelope_def evText_def)
  ultimately show ?thesis
    using assms(3) toISOString_nonempty dorEvent_fields(1)
    by (simp add: validEvent_def validateDecisionEvent_def nonEmptyText_def DECISION_EVENT_TYPES_def)
qed

text \<open>A question is filed in a scope when some decision has both.\<close>

definition filed :: "string \<Rightarrow> string \<Rightarrow> string option \<Rightarrow> bool" where
  "filed scope q fl \<longleftrightarrow> (\<exists>i d. projectDecision i fl = Some d \<and> dk_scope d = scope \<and> dp_summary (dk_spec d) = q)"

text \<open>The decisions of the log are all still there, unchanged.\<close>

definition keeps :: "string option \<Rightarrow> string option \<Rightarrow> bool" where
  "keeps fl fl' \<longleftrightarrow> (\<forall>i d. projectDecision i fl = Some d \<longrightarrow> projectDecision i fl' = Some d)"

text \<open>An id under which a question of \<open>qs\<close> was filed anew.\<close>

definition filedAs :: "string \<Rightarrow> string list \<Rightarrow> string option \<Rightarrow> string option \<Rightarrow> string \<Rightarrow> bool" where
  "filedAs scope qs fl fl' i \<longleftrightarrow> projectDecision i fl = None \<and> (\<exists>d. projectDecision i fl' = Some d \<and>
     dk_scope d = scope \<and> dp_summary (dk_spec d) \<in> set qs \<and> dv_lifecycle (dk_status d) = LcOpen)"

lemma filedAs_later: "filedAs scope [q] fl (Some fl1) i \<Longrightarrow> keeps (Some fl1) fl' \<Longrightarrow> filedAs scope (q # qs) fl fl' i"
  unfolding filedAs_def keeps_def by (metis list.set_intros(1) set_ConsD empty_iff list.set(1))

lemma filedAs_earlier: "filedAs scope qs (Some fl1) fl' i \<Longrightarrow> keeps fl (Some fl1) \<Longrightarrow> filedAs scope (q # qs) fl fl' i"
  unfolding filedAs_def keeps_def by (metis list.set_intros(2) not_Some_eq)

lemma next_id_unused: "projectDecision (nextDecisionId fl) fl = None"
proof -
  have "ownEvents (nextDecisionId fl) (fst (readDecisionEvents fl)) = []"
    using next_id_fresh [of _ fl] by (auto simp: ownEvents_def filter_empty_conv)
  then show ?thesis by (simp add: projectDecision_fold)
qed

lemma filed_listed: "q \<in> set (map (\<lambda>d. dp_summary (dk_spec d)) (filter (\<lambda>d. dk_scope d = scope) (fst (listDecisions fl))))
    \<longleftrightarrow> filed scope q fl"
  using projected_id by (fastforce simp: filed_def listed)

text \<open>Filing one question.\<close>

lemma file_question:
  assumes "terminated fl" "q \<noteq> []" "scope \<noteq> []"
  obtains fl' where "appendDecisionEvent (dorEvent v scope (nextDecisionId fl) q now) fl = Inr fl'"
    "terminated (Some fl')" "keeps fl (Some fl')" "\<And>p. filed scope p (Some fl') \<longleftrightarrow> filed scope p fl \<or> p = q"
    "filedAs scope [q] fl (Some fl') (nextDecisionId fl)"
proof -
  let ?i = "nextDecisionId fl"
  let ?e = "dorEvent v scope ?i q now"
  obtain fl' where a: "appendDecisionEvent ?e fl = Inr fl'"
    using append_total dorEvent_valid [OF assms(2,3) next_id_valid] by blast
  have p: "projectDecision i (Some fl') = (if i = ?i then Some (openDecision None ?e) else projectDecision i fl)" for i
    using append_project [OF a assms(1) dorEvent_jsonOk, of i] next_id_unused [of fl] dorEvent_fields
    by (auto simp: applyEvent_None)
  have d: "dk_scope (openDecision None ?e) = scope" "dp_summary (dk_spec (openDecision None ?e)) = q"
    "dv_lifecycle (dk_status (openDecision None ?e)) = LcOpen"
    using dorEvent_fields by (simp_all add: openDecision_def)
  have "keeps fl (Some fl')" using next_id_unused [of fl] by (auto simp: keeps_def p)
  moreover have "filed scope r (Some fl') \<longleftrightarrow> filed scope r fl \<or> r = q" for r
    using d next_id_unused [of fl] unfolding filed_def p by (metis option.distinct(1) option.inject)
  moreover have "filedAs scope [q] fl (Some fl') ?i" using d next_id_unused [of fl] by (simp add: filedAs_def p)
  ultimately show ?thesis using that a append_read(2) [OF a assms(1) dorEvent_jsonOk] by blast
qed

lemma emitQuestions_exact:
  assumes "terminated fl" "\<forall>q \<in> set qs. q \<noteq> []" "scope \<noteq> []" "\<And>q. q \<in> set existing \<longleftrightarrow> filed scope q fl"
  shows "\<exists>new k' fl'. emitQuestions True v scope now qs existing ids k fl = (Inr (ids @ new, k'), fl') \<and>
    terminated fl' \<and> length new + k' = length qs + k \<and> keeps fl fl' \<and> distinct new \<and>
    (\<forall>q. filed scope q fl' \<longleftrightarrow> filed scope q fl \<or> q \<in> set qs) \<and> (\<forall>i \<in> set new. filedAs scope qs fl fl' i) \<and>
    length new = card {q \<in> set qs. \<not> filed scope q fl}"
  using assms
proof (induction qs arbitrary: existing ids k fl)
  case Nil
  then show ?case by (intro exI [of _ "[]"] exI [of _ k] exI [of _ fl]) (simp add: keeps_def)
next
  case (Cons q qs)
  have ne: "\<forall>p \<in> set qs. p \<noteq> []" using Cons.prems(2) by simp
  show ?case
  proof (cases "filed scope q fl")
    case True
    obtain new k' fl' where r: "emitQuestions True v scope now qs existing ids (k + 1) fl = (Inr (ids @ new, k'), fl')"
      "terminated fl'" "length new + k' = length qs + (k + 1)" "keeps fl fl'" "distinct new"
      "\<forall>q. filed scope q fl' \<longleftrightarrow> filed scope q fl \<or> q \<in> set qs" "\<forall>i \<in> set new. filedAs scope qs fl fl' i"
      "length new = card {q \<in> set qs. \<not> filed scope q fl}"
      using Cons.IH [OF Cons.prems(1) ne Cons.prems(3,4), where ids = ids and k = "k + 1"] by blast
    have "{p \<in> set (q # qs). \<not> filed scope p fl} = {p \<in> set qs. \<not> filed scope p fl}" using True by auto
    then show ?thesis
      using r True Cons.prems(4)
      by (intro exI [of _ new] exI [of _ k'] exI [of _ fl']) (auto simp: filedAs_def)
  next
    case False
    have "q \<noteq> []" using Cons.prems(2) by simp
    from file_question [OF Cons.prems(1) this Cons.prems(3), of v now] obtain fl1 where
      a: "appendDecisionEvent (dorEvent v scope (nextDecisionId fl) q now) fl = Inr fl1"
      and t1: "terminated (Some fl1)" and k1: "keeps fl (Some fl1)"
      and f1: "\<And>p. filed scope p (Some fl1) \<longleftrightarrow> filed scope p fl \<or> p = q"
      and i1: "filedAs scope [q] fl (Some fl1) (nextDecisionId fl)" by blast
    have e1: "p \<in> set (setAdd q existing) \<longleftrightarrow> filed scope p (Some fl1)" for p using f1 Cons.prems(4) by auto
    obtain new k' fl' where r: "emitQuestions True v scope now qs (setAdd q existing) (ids @ [nextDecisionId fl]) k
        (Some fl1) = (Inr ((ids @ [nextDecisionId fl]) @ new, k'), fl')"
      "terminated fl'" "length new + k' = length qs + k" "keeps (Some fl1) fl'" "distinct new"
      "\<forall>q. filed scope q fl' \<longleftrightarrow> filed scope q (Some fl1) \<or> q \<in> set qs"
      "\<forall>i \<in> set new. filedAs scope qs (Some fl1) fl' i"
      "length new = card {q \<in> set qs. \<not> filed scope q (Some fl1)}"
      using Cons.IH [OF t1 ne Cons.prems(3) e1, where ids = "ids @ [nextDecisionId fl]" and k = k] by blast
    have "nextDecisionId fl \<notin> set new" using r(7) i1 by (auto simp: filedAs_def)
    moreover have "\<forall>i \<in> set (nextDecisionId fl # new). filedAs scope (q # qs) fl fl' i"
      using r(4,7) i1 k1 filedAs_later filedAs_earlier by auto
    moreover have "keeps fl fl'" using k1 r(4) by (simp add: keeps_def)
    moreover have "{p \<in> set (q # qs). \<not> filed scope p fl} = insert q {p \<in> set qs. \<not> filed scope p (Some fl1)}"
      using False f1 by auto
    then have "card {p \<in> set (q # qs). \<not> filed scope p fl} = Suc (length new)" using r(8) f1 by simp
    moreover have "emitQuestions True v scope now (q # qs) existing ids k fl = (Inr (ids @ nextDecisionId fl # new, k'), fl')"
      using r(1) a False Cons.prems(4) by simp
    ultimately show ?thesis
      using r(2,3,5,6) f1 by (intro exI [of _ "nextDecisionId fl # new"] exI [of _ k'] exI [of _ fl']) auto
  qed
qed

lemma emitQuestions_all_filed: "\<forall>q \<in> set qs. q \<in> set existing \<Longrightarrow>
    emitQuestions True v scope now qs existing ids k fl = (Inr (ids, k + length qs), fl)"
  by (induction qs arbitrary: k) auto

text \<open>The bridge files every question of a verdict once: on a terminated log with the catalogue
  enabled it succeeds, every question (none empty) is filed in the scope afterwards, exactly the
  questions that were not are filed anew, each under its own id that was unused, open and with that
  scope, the decisions of the log stay as they are, and running it again, at any time, files nothing
  and leaves the log as it is.\<close>

theorem dor_bridge_exact:
  fixes fl :: "string option"
  defines "scope v s \<equiv> orElse s (''issue:'' @ rf_issueId v)"
  assumes "isDecisionCatalogEnabled env" "terminated fl" "\<forall>q \<in> set (rf_questions v). q \<noteq> []" "scope v s \<noteq> []"
  shows "\<exists>r fl'. emitDorDecisions v s True env now fl = (Inr r, fl') \<and> terminated fl' \<and> keeps fl fl' \<and>
    (\<forall>q \<in> set (rf_questions v). filed (scope v s) q fl') \<and>
    em_emitted r = card {q \<in> set (rf_questions v). \<not> filed (scope v s) q fl} \<and>
    em_emitted r = length (em_decisionIds r) \<and> distinct (em_decisionIds r) \<and>
    em_emitted r + em_skippedDuplicates r = length (rf_questions v) \<and>
    (\<forall>i \<in> set (em_decisionIds r). filedAs (scope v s) (rf_questions v) fl fl' i) \<and>
    (\<exists>r'. emitDorDecisions v s True env later fl' = (Inr r', fl') \<and> em_emitted r' = 0)"
proof (cases "rf_questions v = []")
  case True
  then show ?thesis using assms by (simp add: emitDorDecisions_def keeps_def)
next
  case False
  define existing where "existing f = map (\<lambda>d. dp_summary (dk_spec d))
    (filter (\<lambda>d. dk_scope d = scope v s) (fst (listDecisions f)))" for f
  have ex: "\<And>q. q \<in> set (existing f) \<longleftrightarrow> filed (scope v s) q f" for f unfolding existing_def by (rule filed_listed)
  obtain new k fl' where r: "emitQuestions True v (scope v s) now (rf_questions v) (existing fl) ([] @ []) 0 fl =
      (Inr ([] @ new, k), fl')" "terminated fl'" "length new + k = length (rf_questions v) + 0" "keeps fl fl'"
    "distinct new" "\<forall>q. filed (scope v s) q fl' \<longleftrightarrow> filed (scope v s) q fl \<or> q \<in> set (rf_questions v)"
    "\<forall>i \<in> set new. filedAs (scope v s) (rf_questions v) fl fl' i"
    "length new = card {q \<in> set (rf_questions v). \<not> filed (scope v s) q fl}"
    using emitQuestions_exact [OF assms(3-5) ex, of v now "[]" 0] by auto
  have run: "emitDorDecisions v s True env t f = (case emitQuestions True v (scope v s) t (rf_questions v) (existing f) [] 0 f of
      (Inl e, g) \<Rightarrow> (Inl e, g) | (Inr (ids, skipped), g) \<Rightarrow> (Inr \<lparr>em_enabled = True, em_emitted = length ids,
        em_decisionIds = ids, em_skippedDuplicates = skipped, em_disabledReason = None\<rparr>, g))" for t f
    using assms(2) False by (simp add: emitDorDecisions_def Let_def existing_def scope_def)
  have "\<forall>q \<in> set (rf_questions v). q \<in> set (existing fl')" using ex r(6) by blast
  from emitQuestions_all_filed [OF this] have again: "\<exists>r'. emitDorDecisions v s True env later fl' = (Inr r', fl') \<and> em_emitted r' = 0"
    by (simp add: run)
  show ?thesis using r again by (simp add: run)
qed

definition sampleVerdict :: refinement_verdict where
  "sampleVerdict = \<lparr>rf_issueId = ''AISDLC-1'', rf_rubricVersion = ''v1'', rf_overallVerdict = ''needs-clarification'',
     rf_evaluatorVersion = ''e1'', rf_questions = [''why?'', ''how?'', ''why?'']\<rparr>"

theorem dor_bridge_exact_witness:
  "\<exists>r fl'. emitDorDecisions sampleVerdict None True None 0 None = (Inr r, fl') \<and> em_emitted r = 2 \<and>
     em_skippedDuplicates r = 1 \<and> filed ''issue:AISDLC-1'' ''how?'' fl'"
proof -
  have env: "isDecisionCatalogEnabled None" by (simp add: isDecisionCatalogEnabled_def given_def)
  have "\<not> filed sc q None" for sc q
    by (simp add: filed_def projectDecision_def projectAll_def readDecisionEvents_def)
  then have "{q \<in> set (rf_questions sampleVerdict). \<not> filed (orElse None (''issue:'' @ rf_issueId sampleVerdict)) q None} =
      {''why?'', ''how?''}" by (auto simp: sampleVerdict_def)
  then have c: "card {q \<in> set (rf_questions sampleVerdict). \<not> filed (orElse None (''issue:'' @ rf_issueId sampleVerdict)) q None} = 2"
    by simp
  have "terminated None" "\<forall>q \<in> set (rf_questions sampleVerdict). q \<noteq> []"
    "orElse None (''issue:'' @ rf_issueId sampleVerdict) \<noteq> []" by (simp_all add: terminated_def sampleVerdict_def)
  from dor_bridge_exact [OF env this, of 0 0] c show ?thesis by (auto simp: sampleVerdict_def)
qed

section \<open>Expiry\<close>

text \<open>What a valid log gives: well formed ids, and fallbacks that are texts.\<close>

definition decisionOk :: "decision \<Rightarrow> bool" where
  "decisionOk d \<longleftrightarrow> isValidDecisionId (dk_id d) \<and> (\<forall>v. dp_fallback (dk_spec d) = Some v \<longrightarrow> (\<exists>s. v = JStr s \<and> s \<noteq> []))"

lemma valid_parts:
  "validEvent e \<Longrightarrow> isValidDecisionId (eventId e)"
  "validEvent e \<Longrightarrow> opens e \<Longrightarrow> jsonField e ''autonomousFallbackOptionId'' = Some v \<Longrightarrow> \<exists>s. v = JStr s \<and> s \<noteq> []"
proof -
  show "validEvent e \<Longrightarrow> isValidDecisionId (eventId e)"
    by (auto simp: validEvent_def validateDecisionEvent_def split: if_splits)
  assume v: "validEvent e" "opens e" "jsonField e ''autonomousFallbackOptionId'' = Some v"
  then have "openedError e = None"
    by (auto simp: validEvent_def validateDecisionEvent_def opens_def Let_def split: if_splits)
  then have "isOptionId (evText e ''autonomousFallbackOptionId'')"
    using v(3) by (auto simp: openedError_def split: if_splits)
  then show "\<exists>s. v = JStr s \<and> s \<noteq> []" using v(3) by (auto simp: isOptionId_def evText_def split: json.splits)
qed

lemma applyEvent_ok:
  assumes "validEvent e" "applyEvent c e = Some d" "\<And>g. c = Some g \<Longrightarrow> decisionOk g"
  shows "decisionOk d"
proof (cases "opens e")
  case True
  then have "d = openDecision c e" using assms(2) by (simp add: applyEvent_def opens_def Let_def)
  then show ?thesis using valid_parts [OF assms(1)] True by (simp add: decisionOk_def openDecision_def)
next
  case False
  then show ?thesis
    using assms(2,3) by (auto simp: applyEvent_def opens_def decisionOk_def touch_def Let_def answerWith_def
        extendTimebox_def recommend_def evaluated_def split: option.splits if_splits)
qed

lemma readLines_valid: "e \<in> set (fst (readLines v ls)) \<Longrightarrow> v e"
  by (induction ls) (auto simp: Let_def split: prod.splits option.splits if_splits)

lemma read_valid: "e \<in> set (fst (readDecisionEvents fl)) \<Longrightarrow> validEvent e"
  using readLines_valid by (auto simp: readDecisionEvents_def readJsonl_def split: option.splits)

lemma projected_ok: "projectDecision i fl = Some d \<Longrightarrow> decisionOk d"
proof -
  have "\<forall>e \<in> set es. validEvent e \<Longrightarrow> foldl applyEvent None es = Some d \<Longrightarrow> decisionOk d" for es d
  proof (induction es arbitrary: d rule: rev_induct)
    case (snoc e es)
    then show ?case using applyEvent_ok [of e "foldl applyEvent None es" d] by auto
  qed simp
  moreover have "\<forall>e \<in> set (ownEvents i (fst (readDecisionEvents fl))). validEvent e"
    using read_valid by (auto simp: ownEvents_def)
  ultimately show "projectDecision i fl = Some d \<Longrightarrow> decisionOk d" by (simp add: projectDecision_fold)
qed

end
