(* ===== verification/ExpiryProps.thy ===== *)
theory ExpiryProps
  imports BridgeProps DecisionCorrect
begin

text \<open>
  The properties of answering and expiring decisions, of the timeboxes behind them, and of the
  urgency and rank orders; and where the code departs from its documentation.
\<close>

section \<open>Answering\<close>

lemma envelope_valid:
  assumes "isValidDecisionId i" "ty \<in> set DECISION_EVENT_TYPES" "ty \<noteq> ''decision-opened''"
    "\<And>e. jsonField e ''eventVersion'' = Some (JStr ''v1'') \<Longrightarrow> e = JObj (envelope ty now i @ m) \<Longrightarrow>
       ty \<notin> {''stage-c-completed'', ''overridden'', ''timebox-extended'', ''auto-expired''} \<or>
       ty = ''auto-expired'' \<and> autoExpiredError e = None"
  shows "validEvent (JObj (envelope ty now i @ m))"
  using assms toISOString_nonempty
  by (auto simp: validEvent_def validateDecisionEvent_def envelope_def evText_def nonEmptyText_def Let_def)

lemma answer_valid: "isValidDecisionId (wi_decisionId a) \<Longrightarrow> validEvent (makeOperatorAnsweredEvent a now)"
  unfolding makeOperatorAnsweredEvent_def
  by (rule envelope_valid) (simp_all add: DECISION_EVENT_TYPES_def)

section \<open>Expiry\<close>

abbreviation expiryEvent :: "decision \<Rightarrow> json \<Rightarrow> string \<Rightarrow> int \<Rightarrow> json" where
  "expiryEvent d chosen rationale now \<equiv>
     makeAutoExpiredEvent (dk_id d) chosen rationale (expiryText d) (dp_contextRef (dk_spec d)) now"

lemma expiryEvent_fields: "eventId (expiryEvent d c r now) = dk_id d"
  "evText (expiryEvent d c r now) ''type'' = ''auto-expired''"
  "jsonField (expiryEvent d c r now) ''chosenOptionId'' = Some c"
  "jsonField (expiryEvent d c r now) ''by'' = Some (JStr ''auto-expired'')"
  by (simp_all add: makeAutoExpiredEvent_def envelope_def evText_def optMember_def)

lemma expiryEvent_valid:
  assumes "decisionOk d" "expiryOf pd now d = Expire c r"
  shows "validEvent (expiryEvent d c r now)"
proof -
  have c: "dp_fallback (dk_spec d) = Some c" "r \<noteq> []" "expiryText d \<noteq> []"
    using assms(2) by (auto simp: expiryOf_def isDecisionTimeboxExpired_def split: if_splits option.splits)
  then obtain s where "c = JStr s" "s \<noteq> []" using assms(1) by (auto simp: decisionOk_def)
  then show ?thesis
    unfolding makeAutoExpiredEvent_def using assms(1) c(2,3)
    by (intro envelope_valid)
      (simp_all add: decisionOk_def DECISION_EVENT_TYPES_def autoExpiredError_def envelope_def nonEmptyText_def)
qed

definition contextOk :: "decision \<Rightarrow> bool" where
  "contextOk d \<longleftrightarrow> (\<forall>v. dp_contextRef (dk_spec d) = Some v \<longrightarrow> jsonOk v)"

lemma expiryEvent_jsonOk: "contextOk d \<Longrightarrow> decisionOk d \<Longrightarrow> expiryOf pd now d = Expire c r \<Longrightarrow> jsonOk (expiryEvent d c r now)"
  by (auto simp: expiryOf_def decisionOk_def contextOk_def makeAutoExpiredEvent_def envelope_def optMember_def
      split: if_splits option.splits)

text \<open>The decision after its expiry.\<close>

definition expired :: "(string \<Rightarrow> stamp) \<Rightarrow> int \<Rightarrow> decision \<Rightarrow> decision" where
  "expired pd now d = (case expiryOf pd now d of
     Expire c r \<Rightarrow> touch (expiryEvent d c r now) (answerWith (JStr ''auto-expired'') (expiryEvent d c r now) d)
   | _ \<Rightarrow> d)"

lemma applyEvent_expiry: "applyEvent (Some d) (expiryEvent d c r now) =
    Some (touch (expiryEvent d c r now) (answerWith (JStr ''auto-expired'') (expiryEvent d c r now) d))"
  using expiryEvent_fields(2) by (simp add: applyEvent_def Let_def)

definition expirable :: "(string \<Rightarrow> stamp) \<Rightarrow> int \<Rightarrow> decision \<Rightarrow> bool" where
  "expirable pd now d \<longleftrightarrow> (\<exists>c r. expiryOf pd now d = Expire c r)"

lemma expireAll_exact:
  assumes "terminated fl" "distinct (map dk_id ds)" "\<forall>d \<in> set ds. projectDecision (dk_id d) fl = Some d \<and> contextOk d"
  shows "\<exists>ex sk fl'. expireAll pd False now ds fl = (Inr (ex, sk), fl') \<and> terminated fl' \<and>
    map fst ex = map dk_id (filter (expirable pd now) ds) \<and>
    (\<forall>i. projectDecision i fl' = (case find (\<lambda>d. dk_id d = i) ds of
       Some d \<Rightarrow> Some (expired pd now d) | None \<Rightarrow> projectDecision i fl))"
  using assms
proof (induction ds arbitrary: fl)
  case (Cons d ds)
  have d: "projectDecision (dk_id d) fl = Some d" "contextOk d" "decisionOk d"
    using Cons.prems(3) projected_ok by auto
  have rest: "distinct (map dk_id ds)" using Cons.prems(2) by simp
  have none: "find (\<lambda>e. dk_id e = dk_id d) ds = None" 
    using Cons.prems(2) imageI [of _ "set ds" dk_id] unfolding find_None_iff by (metis distinct.simps(2) list.simps(9) set_map)
  show ?case
  proof (cases "expirable pd now d")
    case False
    obtain ex sk fl' where r: "expireAll pd False now ds fl = (Inr (ex, sk), fl')" "terminated fl'"
      "map fst ex = map dk_id (filter (expirable pd now) ds)"
      "\<forall>i. projectDecision i fl' = (case find (\<lambda>d. dk_id d = i) ds of Some d \<Rightarrow> Some (expired pd now d) | None \<Rightarrow> projectDecision i fl)"
      using Cons.IH [OF Cons.prems(1) rest] Cons.prems(3) by auto
    moreover have "expired pd now d = d" using False by (auto simp: expired_def expirable_def split: expiry.splits)
    moreover have "expiryOf pd now d = Leave \<or> (\<exists>t. expiryOf pd now d = SkipExpiry t)"
      using False by (cases "expiryOf pd now d") (auto simp: expirable_def)
    ultimately show ?thesis using False d(1) none by auto
  next
    case True
    then obtain c rt where e: "expiryOf pd now d = Expire c rt" by (auto simp: expirable_def)
    let ?e = "expiryEvent d c rt now"
    obtain f where a: "appendDecisionEvent ?e fl = Inr f"
      using append_total expiryEvent_valid [OF d(3) e] by blast
    have ok: "jsonOk ?e" using expiryEvent_jsonOk d e by blast
    have p: "projectDecision i (Some f) = (if dk_id d = i then Some (expired pd now d) else projectDecision i fl)" for i
      using append_project [OF a Cons.prems(1) ok, of i] d(1) expiryEvent_fields(1) applyEvent_expiry
      by (auto simp: expired_def e)
    have "\<forall>d' \<in> set ds. projectDecision (dk_id d') (Some f) = Some d' \<and> contextOk d'"
      using Cons.prems(2,3) by (auto simp: p)
    from Cons.IH [OF append_read(2) [OF a Cons.prems(1) ok] rest this] obtain ex sk fl' where
      r: "expireAll pd False now ds (Some f) = (Inr (ex, sk), fl')" "terminated fl'"
      "map fst ex = map dk_id (filter (expirable pd now) ds)"
      "\<forall>i. projectDecision i fl' = (case find (\<lambda>d. dk_id d = i) ds of Some d \<Rightarrow> Some (expired pd now d) | None \<Rightarrow> projectDecision i (Some f))"
      by blast
    have "expireAll pd False now (d # ds) fl = (Inr ((dk_id d, c, rt) # ex, sk), fl')" using a r(1) by (simp add: e)
    then show ?thesis
      using r(2-4) True none by (intro exI [of _ "(dk_id d, c, rt) # ex"] exI [of _ sk] exI [of _ fl']) (auto simp: p split: option.splits)
  qed
qed simp

lemma expired_fields:
  "expiryOf pd now d = Expire c r \<Longrightarrow> dv_lifecycle (dk_status (expired pd now d)) = LcAnswered"
  "expiryOf pd now d = Expire c r \<Longrightarrow> dv_answeredOptionId (dk_status (expired pd now d)) = Some c"
  "expiryOf pd now d = Expire c r \<Longrightarrow> dv_answeredBy (dk_status (expired pd now d)) = Some (JStr ''auto-expired'')"
  "expiryOf pd now d = Leave \<Longrightarrow> expired pd now d = d" "expiryOf pd now d = SkipExpiry t \<Longrightarrow> expired pd now d = d"
  using expiryEvent_fields(3,4) [of d c r now]
  by (simp_all add: expired_def touch_def answerWith_def actorOr_def)

lemma expired_not_expirable: "\<not> expirable pd now (expired pd now d)"
  by (auto simp: expirable_def expired_def expiryOf_def resolved_def touch_def answerWith_def split: expiry.splits)

lemma expireAll_none: "\<forall>d \<in> set ds. \<not> expirable pd now d \<Longrightarrow> \<exists>sk. expireAll pd False now ds fl = (Inr ([], sk), fl)"
  by (induction ds) (auto simp: expirable_def split: expiry.splits)

lemma listed_find: "find (\<lambda>d. dk_id d = i) (fst (listDecisions fl)) = projectDecision i fl"
proof (cases "find (\<lambda>d. dk_id d = i) (fst (listDecisions fl))")
  case None
  then have "\<forall>d \<in> set (fst (listDecisions fl)). dk_id d \<noteq> i" by (simp add: find_None_iff)
  then show ?thesis using None listed [of _ fl] projected_id [of i fl] by (cases "projectDecision i fl") auto
next
  case (Some d)
  then have "d \<in> set (fst (listDecisions fl))" "dk_id d = i" by (auto simp: find_Some_iff)
  then show ?thesis using Some listed by auto
qed

text \<open>The expiry command does what it says, once: on a terminated log with the catalogue enabled
  it succeeds; a decision that is unresolved, past its timebox and declares its fallback among its
  options is answered with that fallback by \<open>auto-expired\<close>, every other decision stays as it is, the
  reported ids are those of the decisions answered, each once, and running it again at the same time
  answers nothing and leaves the log as it is.\<close>

theorem auto_expire_exact:
  fixes fl :: "string option"
  assumes "isDecisionCatalogEnabled env" "terminated fl" "\<forall>d \<in> set (fst (listDecisions fl)). contextOk d"
  shows "\<exists>ex sk fl'. autoExpireCommand pd False env now fl = (Inr (ex, sk), fl') \<and>
    (\<forall>i. case projectDecision i fl of
       None \<Rightarrow> projectDecision i fl' = None
     | Some d \<Rightarrow> (case expiryOf pd now d of
         Expire chosen r \<Rightarrow> (\<exists>d'. projectDecision i fl' = Some d' \<and> dv_lifecycle (dk_status d') = LcAnswered \<and>
           dv_answeredOptionId (dk_status d') = Some chosen \<and> dv_answeredBy (dk_status d') = Some (JStr ''auto-expired''))
       | _ \<Rightarrow> projectDecision i fl' = Some d)) \<and>
    set (map fst ex) = {i. \<exists>d. projectDecision i fl = Some d \<and> expirable pd now d} \<and> distinct (map fst ex) \<and>
    (\<exists>sk'. autoExpireCommand pd False env now fl' = (Inr ([], sk'), fl'))"
proof -
  let ?ds = "fst (listDecisions fl)"
  have "\<forall>d \<in> set ?ds. projectDecision (dk_id d) fl = Some d \<and> contextOk d" using assms(3) listed by auto
  from expireAll_exact [OF assms(2) listed_ids this, of pd now] obtain ex sk fl' where
    r: "expireAll pd False now ?ds fl = (Inr (ex, sk), fl')" "map fst ex = map dk_id (filter (expirable pd now) ?ds)"
    and p: "\<And>i. projectDecision i fl' = (case find (\<lambda>d. dk_id d = i) ?ds of
        Some d \<Rightarrow> Some (expired pd now d) | None \<Rightarrow> projectDecision i fl)" by blast
  have p': "projectDecision i fl' = map_option (expired pd now) (projectDecision i fl)" for i
    by (simp add: p listed_find split: option.splits)
  have "case projectDecision i fl of None \<Rightarrow> projectDecision i fl' = None
     | Some d \<Rightarrow> (case expiryOf pd now d of
         Expire chosen r \<Rightarrow> (\<exists>d'. projectDecision i fl' = Some d' \<and> dv_lifecycle (dk_status d') = LcAnswered \<and>
           dv_answeredOptionId (dk_status d') = Some chosen \<and> dv_answeredBy (dk_status d') = Some (JStr ''auto-expired''))
       | _ \<Rightarrow> projectDecision i fl' = Some d)" for i
    using expired_fields by (cases "projectDecision i fl") (auto simp: p' split: expiry.split)
  moreover have "i \<in> set (map fst ex) \<longleftrightarrow> (\<exists>d. projectDecision i fl = Some d \<and> expirable pd now d)" for i
    using projected_id [of i fl] by (auto simp: r(2) listed)
  then have "set (map fst ex) = {i. \<exists>d. projectDecision i fl = Some d \<and> expirable pd now d}" by blast
  moreover have "distinct (map fst ex)" unfolding r(2) using listed_ids [of fl] distinct_map_filter by blast
  moreover have "\<forall>d \<in> set (fst (listDecisions fl')). \<not> expirable pd now d"
    using expired_not_expirable by (auto simp: listed p')
  then have "\<exists>sk'. expireAll pd False now (fst (listDecisions fl')) fl' = (Inr ([], sk'), fl')" by (rule expireAll_none)
  ultimately show ?thesis using r(1) assms(1) by (auto simp: autoExpireCommand_def)
qed

definition clock :: "string \<Rightarrow> stamp" where
  "clock s = (if s = ''1970-01-01T04:00:00.000Z'' then Some 14400000 else None)"

lemma sample_projected: "projectDecision ''DEC-0001'' (Some sampleLog) =
    Some (openDecision None (makeDecisionOpenedEvent sampleOpen 0))"
  and sample_listed: "fst (listDecisions (Some sampleLog)) = [openDecision None (makeDecisionOpenedEvent sampleOpen 0)]"
proof -
  let ?e = "makeDecisionOpenedEvent sampleOpen 0"
  have e: "eventId ?e = ''DEC-0001''" "opens ?e" by code_simp+
  then show "projectDecision ''DEC-0001'' (Some sampleLog) = Some (openDecision None ?e)"
    by (simp add: projectDecision_fold sample_read ownEvents_def applyEvent_None)
  show "fst (listDecisions (Some sampleLog)) = [openDecision None ?e]"
    using e by (simp add: listDecisions_def projectAll_def sample_read projectStep_def applyEvent_None sortBy_def)
qed

theorem auto_expire_exact_witness:
  "\<exists>ex sk fl'. autoExpireCommand clock False None 14400001 (Some sampleLog) = (Inr (ex, sk), fl') \<and>
     set (map fst ex) = {''DEC-0001''} \<and>
     (\<exists>d'. projectDecision ''DEC-0001'' fl' = Some d' \<and> dv_answeredOptionId (dk_status d') = Some (JStr ''b''))"
proof -
  let ?d = "openDecision None (makeDecisionOpenedEvent sampleOpen 0)"
  have env: "isDecisionCatalogEnabled None" "terminated (Some sampleLog)"
    by (simp_all add: isDecisionCatalogEnabled_def given_def terminated_def sampleLog_def jsonLine_def newline_def)
  have d: "contextOk ?d" "expiryOf clock 14400001 ?d = Expire (JStr ''b'') ''fallback after PT4H timebox''"
    by (simp add: contextOk_def openDecision_def makeDecisionOpenedEvent_def sampleOpen_def envelope_def optMember_def)
      code_simp
  have "dk_id ?d = ''DEC-0001''" by code_simp
  then have i: "projectDecision i (Some sampleLog) = Some e \<longleftrightarrow> e = ?d \<and> i = ''DEC-0001''" for i e
    using listed [of e "Some sampleLog"] projected_id [of i "Some sampleLog" e] sample_projected
    by (auto simp: sample_listed)
  have "\<forall>d \<in> set (fst (listDecisions (Some sampleLog))). contextOk d" using d(1) by (simp add: sample_listed)
  from auto_expire_exact [OF env this, of clock 14400001] obtain ex sk fl' where
    r: "autoExpireCommand clock False None 14400001 (Some sampleLog) = (Inr (ex, sk), fl')"
    and p: "\<And>i. case projectDecision i (Some sampleLog) of None \<Rightarrow> projectDecision i fl' = None
       | Some d \<Rightarrow> (case expiryOf clock 14400001 d of
         Expire chosen r \<Rightarrow> (\<exists>d'. projectDecision i fl' = Some d' \<and> dv_lifecycle (dk_status d') = LcAnswered \<and>
           dv_answeredOptionId (dk_status d') = Some chosen \<and> dv_answeredBy (dk_status d') = Some (JStr ''auto-expired''))
       | _ \<Rightarrow> projectDecision i fl' = Some d)"
    and s: "set (map fst ex) = {i. \<exists>d. projectDecision i (Some sampleLog) = Some d \<and> expirable clock 14400001 d}"
    by blast
  have "expirable clock 14400001 ?d" using d(2) by (simp add: expirable_def)
  then have "set (map fst ex) = {''DEC-0001''}" unfolding s i by auto
  moreover have "\<exists>d'. projectDecision ''DEC-0001'' fl' = Some d' \<and> dv_answeredOptionId (dk_status d') = Some (JStr ''b'')"
    using p [of "''DEC-0001''"] by (auto simp: sample_projected d(2))
  ultimately show ?thesis using r by blast
qed

end
