(* ===== verification/DecisionOrder.thy ===== *)
theory DecisionOrder
  imports ExpiryProps
begin

text \<open>
  Timeboxes given in hours, the urgency and rank orders of decisions, and where the catalogue departs
  from its documentation.
\<close>

section \<open>Timeboxes in hours\<close>

lemma unitField_show:
  assumes "\<not> isDigit c"
  shows "unitField x (showNat n @ c # t) = (if c = x then (Some n, t) else (None, showNat n @ c # t))"
proof -
  have d: "\<forall>a \<in> set (showNat n). isDigit a" "showNat n \<noteq> []" using showNat_digits [of n] by (auto simp: list_all_iff)
  have "takeWhile isDigit (showNat n @ c # t) = showNat n" "dropWhile isDigit (showNat n @ c # t) = c # t"
    using d(1) assms by (simp_all add: takeWhile_append dropWhile_append)
  then show ?thesis using d(2) by (simp add: unitField_def natOfDigits_showNat)
qed

lemma unitField_skip: "\<not> isDigit c \<Longrightarrow> unitField x (c # t) = (None, c # t)"
  by (simp add: unitField_def)

lemma parse_hours: "0 < n \<Longrightarrow> parseIsoDurationToMs (''PT'' @ showNat n @ ''H'') = Some (n * 3600000)"
  and parse_minutes: "0 < n \<Longrightarrow> parseIsoDurationToMs (''PT'' @ showNat n @ ''M'') = Some (n * 60000)"
proof -
  have t: "trim (''PT'' @ showNat n @ [c]) = ''PT'' @ showNat n @ [c]" if "c \<in> {CHR ''H'', CHR ''M''}" for c
    using that by (intro trim_tight) (auto simp: tight_def isSpace_def)
  have u: "\<not> isDigit (CHR ''T'')" "\<not> isDigit (CHR ''H'')" "\<not> isDigit (CHR ''M'')" by (simp_all add: isDigit_def)
  have e: "unitField x [] = (None, [])" for x by (simp add: unitField_def)
  show "0 < n \<Longrightarrow> parseIsoDurationToMs (''PT'' @ showNat n @ ''H'') = Some (n * 3600000)"
    using t [of "CHR ''H''"] u
    by (simp add: parseIsoDurationToMs_def durationFields_def unitField_skip unitField_show e MS_PER_UNIT_def Let_def)
  show "0 < n \<Longrightarrow> parseIsoDurationToMs (''PT'' @ showNat n @ ''M'') = Some (n * 60000)"
    using t [of "CHR ''M''"] u
    by (simp add: parseIsoDurationToMs_def durationFields_def unitField_skip unitField_show e MS_PER_UNIT_def Let_def)
qed

lemma parseTimebox_iso:
  assumes "parseIsoDurationToMs (''PT'' @ s) = Some ms" "trim (''PT'' @ s) = ''PT'' @ s"
  shows "parseTimebox (''PT'' @ s) = Inr \<lparr>pt_duration = ''PT'' @ s, pt_durationMs = ms, pt_alias = None\<rparr>"
proof -
  have "toUpperCase (''PT'' @ s) = CHR ''P'' # CHR ''T'' # toUpperCase s" by (simp add: toUpperCase_def upperChar_def)
  then have "mapGet TIMEBOX_CATEGORICAL_ALIASES (toUpperCase (''PT'' @ s)) = None"
    by (simp add: TIMEBOX_CATEGORICAL_ALIASES_def)
  then show ?thesis using assms by (simp add: parseTimebox_def)
qed

text \<open>A timebox given in hours is kept: for every positive number of hours of at least half a
  minute a duration is made, the catalogue accepts it as it is, and it lasts that many hours,
  exactly if the number is whole, else to the nearest minute; less is refused.\<close>

theorem timebox_hours_exact:
  assumes "0 < hours"
  shows "case hoursToIsoDuration hours of
     Inl e \<Rightarrow> hours * 60 < 1 / 2
   | Inr s \<Rightarrow> (\<exists>tb. parseTimebox s = Inr tb \<and> pt_duration tb = s \<and>
       \<bar>of_nat (pt_durationMs tb) - hours * 3600000\<bar> \<le> 30000 \<and>
       (of_int \<lfloor>hours\<rfloor> = hours \<longrightarrow> of_nat (pt_durationMs tb) = hours * 3600000))"
proof -
  have t: "trim (''PT'' @ showNat n @ [c]) = ''PT'' @ showNat n @ [c]" if "c \<in> {CHR ''H'', CHR ''M''}" for c n
    using that by (intro trim_tight) (auto simp: tight_def isSpace_def)
  show ?thesis
  proof (cases "of_int \<lfloor>hours\<rfloor> = hours")
    case True
    define n where "n = nat \<lfloor>hours\<rfloor>"
    have "0 < \<lfloor>hours\<rfloor>" using True assms by (metis of_int_0_less_iff)
    then have n: "0 < n" "\<lfloor>hours\<rfloor> = int n" by (simp_all add: n_def)
    then have h: "hours = of_nat n" using True by (metis of_int_of_nat_eq)
    have "hoursToIsoDuration hours = Inr (''PT'' @ showNat n @ ''H'')"
      using assms True n by (simp add: hoursToIsoDuration_def showInt_def)
    then show ?thesis
      using parseTimebox_iso [OF parse_hours [OF n(1)]] t [of "CHR ''H''" n] h by simp
  next
    case False
    define m where "m = \<lfloor>hours * 60 + 1 / 2\<rfloor>"
    have r: "hours * 60 - 1 / 2 \<le> of_int m" "of_int m \<le> hours * 60 + 1 / 2" unfolding m_def by linarith+
    show ?thesis
    proof (cases "m \<le> 0")
      case True
      then have "hours * 60 + 1 / 2 < 1" unfolding m_def by linarith
      then show ?thesis using assms False True by (simp add: hoursToIsoDuration_def m_def)
    next
      case pos: False
      define n where "n = nat m"
      have n: "0 < n" "m = int n" using pos by (simp_all add: n_def)
      have "hoursToIsoDuration hours = Inr (''PT'' @ showNat n @ ''M'')"
        using assms False pos n by (simp add: hoursToIsoDuration_def m_def [symmetric] Let_def showInt_def)
      moreover have "\<bar>of_nat (n * 60000) - hours * 3600000\<bar> \<le> 30000" using r n(2) by (simp add: abs_le_iff)
      ultimately show ?thesis
        using parseTimebox_iso [OF parse_minutes [OF n(1)]] t [of "CHR ''M''" n] False by simp
    qed
  qed
qed

theorem timebox_hours_exact_witness:
  "\<exists>tb. parseTimebox ''PT90M'' = Inr tb \<and> \<bar>of_nat (pt_durationMs tb) - 5400000\<bar> \<le> (30000 :: rat)"
proof -
  have "hoursToIsoDuration (3 / 2) = Inr ''PT90M''" by code_simp
  then show ?thesis using timebox_hours_exact [of "3 / 2"] by auto
qed

section \<open>Orders\<close>

lemma localeCompare_le: "localeCompare a b \<le> 0 \<longleftrightarrow> collatePlain a \<le> collatePlain b"
  by (simp add: localeCompare_def cmpOf_le)

lemma localeCompare_zero: "localeCompare a b = 0 \<longleftrightarrow> collatePlain a = collatePlain b"
  by (simp add: localeCompare_def cmpOf_def)

lemma byRank_le: "byRank pd now a b \<le> 0 \<longleftrightarrow> computeRankScore pd b now < computeRankScore pd a now \<or>
    computeRankScore pd a now = computeRankScore pd b now \<and> collatePlain (dk_created a) \<le> collatePlain (dk_created b)"
  by (auto simp: byRank_def Let_def localeCompare_le)

interpretation ranked: js_comparator "byRank pd now" "\<lambda>d. True" for pd now
  by unfold_locales (auto simp: byRank_le)

lemma byUrgency_le: "byUrgency a b \<le> 0 \<longleftrightarrow>
    (if expiryText a = [] then expiryText b = [] \<and> collatePlain (dk_created a) \<le> collatePlain (dk_created b)
     else expiryText b = [] \<or> collatePlain (expiryText a) < collatePlain (expiryText b) \<or>
       collatePlain (expiryText a) = collatePlain (expiryText b) \<and> collatePlain (dk_created a) \<le> collatePlain (dk_created b))"
  using localeCompare_le [of "expiryText a" "expiryText b"] localeCompare_zero [of "expiryText a" "expiryText b"]
  by (auto simp: byUrgency_def Let_def localeCompare_le)

interpretation urgent: js_comparator byUrgency "\<lambda>d. True"
  by unfold_locales (auto simp: byUrgency_le split: if_splits)

text \<open>The lists are in the order they promise, each decision once: the ranked list by falling
  score, equal scores by creation; the urgency list with the timeboxed decisions first, by expiry,
  equal expiries and decisions without a timebox by creation.\<close>

theorem decisions_ordered:
  "mset (rankDecisions pd ds now) = mset ds \<and>
   sorted_wrt (\<lambda>a b. computeRankScore pd b now < computeRankScore pd a now \<or>
     computeRankScore pd a now = computeRankScore pd b now \<and> localeCompare (dk_created a) (dk_created b) \<le> 0)
     (rankDecisions pd ds now) \<and>
   mset (sortDecisionsByTimeboxUrgency ds) = mset ds \<and>
   sorted_wrt (\<lambda>a b. if expiryText a = []
     then expiryText b = [] \<and> localeCompare (dk_created a) (dk_created b) \<le> 0
     else expiryText b = [] \<or> localeCompare (expiryText a) (expiryText b) < 0 \<or>
       localeCompare (expiryText a) (expiryText b) = 0 \<and> localeCompare (dk_created a) (dk_created b) \<le> 0)
     (sortDecisionsByTimeboxUrgency ds)"
proof -
  have "localeCompare x y < 0 \<longleftrightarrow> collatePlain x < collatePlain y" for x y by (simp add: localeCompare_def cmpOf_def)
  note lc = this localeCompare_le localeCompare_zero
  have "sorted_wrt (\<lambda>a b. byRank pd now a b \<le> 0) (rankDecisions pd ds now)"
    unfolding rankDecisions_def by (rule ranked.sorted_sortBy) simp
  moreover have "sorted_wrt (\<lambda>a b. byUrgency a b \<le> 0) (sortDecisionsByTimeboxUrgency ds)"
    unfolding sortDecisionsByTimeboxUrgency_def by (rule urgent.sorted_sortBy) simp
  ultimately show ?thesis
    unfolding byRank_le byUrgency_le lc by (simp add: rankDecisions_def sortDecisionsByTimeboxUrgency_def)
qed

section \<open>Where the code departs from its documentation\<close>

text \<open>The weights are said to make priority the primary key; an expired decision of low priority
  outranks a critical one without a timebox.\<close>

definition plainDecision :: "string \<Rightarrow> int \<Rightarrow> string \<Rightarrow> decision" where
  "plainDecision priority impact expiry = openDecision None (JObj [(''type'', JStr ''decision-opened''),
     (''priority'', JStr priority), (''impactScore'', JNum impact), (''timeboxExpiresAt'', JStr expiry)])"

lemma urgency_beats_priority:
  "computeRankScore clock (plainDecision ''critical'' 0 []) 14400001 = 4 \<and>
   computeRankScore clock (plainDecision ''low'' 100 ''1970-01-01T04:00:00.000Z'') 14400001 = 6"
  by code_simp

text \<open>The reader is said to tolerate unknown event types; the validator rejects them, so such a line is
  skipped and does not even reach the decision's log.\<close>

lemma unknown_type_rejected:
  assumes "evText e ''type'' \<notin> set DECISION_EVENT_TYPES"
  shows "\<not> validEvent e"
  using assms by (simp add: validEvent_def validateDecisionEvent_def)

text \<open>An answer without an option is valid: the decision is answered with \<open>undefined\<close>.\<close>

lemma answer_without_option:
  fixes d :: decision
  defines "e \<equiv> JObj (envelope ''operator-answered'' 0 ''DEC-0001'')"
  shows "validEvent e \<and> (\<exists>d'. applyEvent (Some d) e = Some d' \<and> dv_lifecycle (dk_status d') = LcAnswered \<and>
    dv_answeredOptionId (dk_status d') = None)"
proof
  show "validEvent e" unfolding e_def by code_simp
  have t: "evText e ''type'' = ''operator-answered''" "jsonField e ''chosenOptionId'' = None"
    by (simp_all add: e_def envelope_def evText_def)
  then show "\<exists>d'. applyEvent (Some d) e = Some d' \<and> dv_lifecycle (dk_status d') = LcAnswered \<and>
      dv_answeredOptionId (dk_status d') = None"
    by (simp add: applyEvent_def touch_def answerWith_def)
qed

text \<open>An \<open>archived\<close> or \<open>superseded\<close> event leaves the lifecycle as it is, so an archived decision whose
  timebox has passed is still answered by its fallback.\<close>

lemma archived_still_expires:
  assumes "evText e ''type'' \<in> {''archived'', ''superseded'', ''deferred''}"
  shows "\<exists>d'. applyEvent (Some d) e = Some d' \<and> dk_status d' = dk_status d \<and> expiryOf pd now d' = expiryOf pd now d"
proof -
  have "applyEvent (Some d) e = Some (touch e d)" using assms by (elim insertE) (simp_all add: applyEvent_def)
  moreover have "expiryOf pd now (touch e d) = expiryOf pd now d"
    by (cases "dp_fallback (dk_spec d)") (simp_all add: expiryOf_def touch_def resolved_def isDecisionTimeboxExpired_def expiryText_def declaresOption_def)
  ultimately show ?thesis by (simp add: touch_def)
qed

text \<open>After an edit that leaves the last line unterminated, the next event is appended to that line and
  both are lost.\<close>

lemma unterminated_append_loses_both:
  "appendDecisionEvent (JObj (envelope ''archived'' 0 ''DEC-0001'')) (Some (stringify (JObj (envelope ''deferred'' 0 ''DEC-0001'')))) = Inr fl
   \<Longrightarrow> readDecisionEvents (Some fl) = ([], 1)"
proof -
  let ?a = "JObj (envelope ''archived'' 0 ''DEC-0001'')" and ?d = "JObj (envelope ''deferred'' 0 ''DEC-0001'')"
  assume "appendDecisionEvent ?a (Some (stringify ?d)) = Inr fl"
  then have "fl = stringify ?d @ jsonLine ?a" by (auto simp: appendDecisionEvent_def split: option.splits)
  moreover have "readDecisionEvents (Some (stringify ?d @ jsonLine ?a)) = ([], 1)" by code_simp
  ultimately show ?thesis by simp
qed

text \<open>An opening the reader skips does not consume its id: it is allocated again.\<close>

lemma skipped_id_reused: "nextDecisionId (Some (jsonLine (JObj (envelope ''decision-opened'' 0 ''DEC-0001'')))) = ''DEC-0001''"
  by code_simp

text \<open>Hours that are no whole number of minutes are documented as refused; they are rounded.\<close>

lemma hours_rounded: "hoursToIsoDuration (101 / 100) = Inr ''PT61M''"
  by code_simp

end
