(* ===== verification/DecisionLock.thy ===== *)
theory DecisionLock
  imports BridgeProps
begin

text \<open>
  The lock around the decision log, \<open>pipeline-cli/src/decisions/event-log.ts\<close>
  (\<open>acquireEventLogLock\<close>, \<open>withEventLogLock\<close>), as machines of single file operations: any number of
  writers acquire the lock, allocate ids and append events while holding it, and release it, in any
  interleaving; time passes and writers crash at any point.
\<close>

section \<open>The machines\<close>

definition STALE_LOCK_MS :: int where "STALE_LOCK_MS = 30000"
definition LOCK_MAX_WAIT_MS :: int where "LOCK_MAX_WAIT_MS = 5000"

text \<open>The clock, the modification time of the lock file, the log.\<close>

record lock_world =
  lw_now :: int
  lw_lock :: "int option"
  lw_file :: "string option"

text \<open>A writer: before its call; at the head of the waiting loop, after a failed open, about to unlink
  a stale lock (each with its deadline); inside, with an id it has allocated; about to release.\<close>

datatype writer = Idle | Waiting int | Checking int | Clearing int | TimedOut
  | Holding | Allocated string | Releasing | Crashed

text \<open>The next file operation of a writer whose event for an id is \<open>mk\<close>. \<open>openSync(..., 'wx')\<close> fails
  when the lock exists; an error of the append leaves through \<open>finally\<close>.\<close>

fun writerStep :: "(string \<Rightarrow> json) \<Rightarrow> writer \<Rightarrow> lock_world \<Rightarrow> (writer \<times> lock_world) option" where
  "writerStep mk Idle w = Some (Waiting (lw_now w + LOCK_MAX_WAIT_MS), w)"
| "writerStep mk (Waiting deadline) w =
    (if lw_now w < deadline
     then (case lw_lock w of
         None \<Rightarrow> Some (Holding, w\<lparr>lw_lock := Some (lw_now w)\<rparr>)
       | Some m \<Rightarrow> Some (Checking deadline, w))
     else Some (TimedOut, w))"
| "writerStep mk (Checking deadline) w = (case lw_lock w of
     None \<Rightarrow> Some (Waiting deadline, w)
   | Some m \<Rightarrow> if lw_now w - m > STALE_LOCK_MS then Some (Clearing deadline, w) else Some (Waiting deadline, w))"
| "writerStep mk (Clearing deadline) w = Some (Waiting deadline, w\<lparr>lw_lock := None\<rparr>)"
| "writerStep mk Holding w = Some (Allocated (nextDecisionId (lw_file w)), w)"
| "writerStep mk (Allocated i) w = (case appendDecisionEvent (mk i) (lw_file w) of
     Inl e \<Rightarrow> Some (Releasing, w)
   | Inr f \<Rightarrow> Some (Holding, w\<lparr>lw_file := Some f\<rparr>))"
| "writerStep mk Releasing w = Some (Idle, w\<lparr>lw_lock := None\<rparr>)"
| "writerStep mk TimedOut w = None"
| "writerStep mk Crashed w = None"

inductive lock_step :: "(nat \<Rightarrow> string \<Rightarrow> json) \<Rightarrow> (nat \<Rightarrow> writer) \<times> lock_world \<Rightarrow> (nat \<Rightarrow> writer) \<times> lock_world \<Rightarrow> bool"
  for mk where
  passes_time: "0 \<le> d \<Longrightarrow> lock_step mk (ws, w) (ws, w\<lparr>lw_now := lw_now w + d\<rparr>)"
| acts: "writerStep (mk i) (ws i) w = Some (c, w') \<Longrightarrow> lock_step mk (ws, w) (ws(i := c), w')"
| leaves: "ws i = Holding \<Longrightarrow> lock_step mk (ws, w) (ws(i := Releasing), w)"
| crashes: "lock_step mk (ws, w) (ws(i := Crashed), w)"

inductive_cases lock_stepE: "lock_step mk (ws, w) s'"

text \<open>No lock is older than the threshold.\<close>

definition promptly :: "lock_world \<Rightarrow> bool" where
  "promptly w \<longleftrightarrow> (\<forall>m. lw_lock w = Some m \<longrightarrow> lw_now w - m \<le> STALE_LOCK_MS)"

text \<open>The states reached, from no lock, without a lock ever getting that old.\<close>

inductive lock_run :: "(nat \<Rightarrow> string \<Rightarrow> json) \<Rightarrow> lock_world \<Rightarrow> (nat \<Rightarrow> writer) \<times> lock_world \<Rightarrow> bool" for mk w0 where
  run_start: "lw_lock w0 = None \<Longrightarrow> lock_run mk w0 ((\<lambda>_. Idle), w0)"
| run_more: "lock_run mk w0 s \<Longrightarrow> lock_step mk s s' \<Longrightarrow> promptly (snd s') \<Longrightarrow> lock_run mk w0 s'"

section \<open>The invariant\<close>

fun inside :: "writer \<Rightarrow> bool" where
  "inside Holding = True" | "inside (Allocated i) = True" | "inside Releasing = True" | "inside c = False"

fun clearing :: "writer \<Rightarrow> bool" where
  "clearing (Clearing dl) = True" | "clearing c = False"

definition openedIds :: "string option \<Rightarrow> string list" where
  "openedIds fl = map (\<lambda>e. eventId e) (filter opens (fst (readDecisionEvents fl)))"

definition writerOk :: "(nat \<Rightarrow> string \<Rightarrow> json) \<Rightarrow> bool" where
  "writerOk mk \<longleftrightarrow> (\<forall>p i. eventId (mk p i) = i \<and> jsonOk (mk p i))"

definition lockOk :: "(nat \<Rightarrow> writer) \<times> lock_world \<Rightarrow> bool" where
  "lockOk s \<longleftrightarrow> (case s of (ws, w) \<Rightarrow>
     (\<forall>i j. inside (ws i) \<and> inside (ws j) \<longrightarrow> i = j) \<and> (\<forall>i. inside (ws i) \<longrightarrow> lw_lock w \<noteq> None) \<and>
     (\<forall>i. \<not> clearing (ws i)) \<and> terminated (lw_file w) \<and> distinct (openedIds (lw_file w)) \<and>
     (\<forall>i n. ws i = Allocated n \<longrightarrow> n \<notin> set (openedIds (lw_file w))))"

lemma lockOk_update:
  assumes "lockOk (ws, w)" "inside c \<longrightarrow> inside (ws i)" "\<not> clearing c" "lw_file w' = lw_file w"
    "\<forall>j. inside ((ws(i := c)) j) \<longrightarrow> lw_lock w' \<noteq> None" "\<forall>n. c = Allocated n \<longrightarrow> n \<notin> set (openedIds (lw_file w))"
  shows "lockOk (ws(i := c), w')"
proof -
  have old: "\<forall>k j. inside (ws k) \<and> inside (ws j) \<longrightarrow> k = j" "\<forall>j. \<not> clearing (ws j)" "terminated (lw_file w)"
    "distinct (openedIds (lw_file w))" "\<forall>j n. ws j = Allocated n \<longrightarrow> n \<notin> set (openedIds (lw_file w))"
    using assms(1) by (simp_all add: lockOk_def)
  have "k = j" if "inside ((ws(i := c)) k)" "inside ((ws(i := c)) j)" for k j
  proof -
    have "inside (ws k)" "inside (ws j)" using that assms(2) by (simp_all split: if_splits)
    then show ?thesis using old(1) by blast
  qed
  moreover have "\<forall>j. \<not> clearing ((ws(i := c)) j)" using old(2) assms(3) by simp
  moreover have "\<forall>j n. (ws(i := c)) j = Allocated n \<longrightarrow> n \<notin> set (openedIds (lw_file w'))" using old(5) assms(4,6) by simp
  ultimately show ?thesis using old(3,4) assms(4,5) unfolding lockOk_def prod.case by metis
qed

lemma lockOk_stay: "lockOk (ws, w) \<Longrightarrow> inside c \<longrightarrow> inside (ws i) \<Longrightarrow> \<not> clearing c \<Longrightarrow>
    \<forall>n. c = Allocated n \<longrightarrow> n \<notin> set (openedIds (lw_file w)) \<Longrightarrow> lockOk (ws(i := c), w)"
  by (rule lockOk_update) (auto simp: lockOk_def split: if_splits)

lemma alone: "lockOk (ws, w) \<Longrightarrow> inside (ws i) \<Longrightarrow> j \<noteq> i \<Longrightarrow> \<not> inside (ws j)"
  by (auto simp: lockOk_def)

lemma not_clearing: "lockOk (ws, w) \<Longrightarrow> \<not> clearing (ws i)"
  by (simp add: lockOk_def)

lemma opened_append:
  assumes "appendDecisionEvent e fl = Inr f" "terminated fl" "jsonOk e"
  shows "openedIds (Some f) = openedIds fl @ (if opens e then [eventId e] else [])" "terminated (Some f)"
  using append_read [OF assms] by (simp_all add: openedIds_def)

lemma next_not_opened: "nextDecisionId fl \<notin> set (openedIds fl)"
proof
  assume "nextDecisionId fl \<in> set (openedIds fl)"
  then obtain e where "e \<in> set (fst (readDecisionEvents fl))" "nextDecisionId fl = eventId e"
    by (auto simp: openedIds_def)
  then show False using next_id_fresh [of e fl] by simp
qed

lemma acts_ok:
  assumes "writerOk mk" "lockOk (ws, w)" "promptly w" "writerStep (mk i) (ws i) w = Some (c, w')"
  shows "lockOk (ws(i := c), w')"
proof (cases "ws i")
  case (Waiting dl)
  have "lockOk (ws(i := Holding), w\<lparr>lw_lock := Some (lw_now w)\<rparr>)" if "lw_lock w = None"
    using assms(2) that unfolding lockOk_def by (auto split: if_splits)
  moreover have "lockOk (ws(i := Checking dl), w)" "lockOk (ws(i := TimedOut), w)"
    using lockOk_stay [OF assms(2)] by simp_all
  ultimately show ?thesis using assms(4) Waiting by (auto split: if_splits option.splits)
next
  case (Checking dl)
  have "lockOk (ws(i := Waiting dl), w)" using lockOk_stay [OF assms(2)] by simp
  moreover have "\<not> STALE_LOCK_MS < lw_now w - m" if "lw_lock w = Some m" for m
    using assms(3) that by (auto simp: promptly_def)
  ultimately show ?thesis using assms(4) Checking by (auto split: option.splits if_splits)
next
  case (Clearing dl)
  then show ?thesis using not_clearing [OF assms(2), of i] by simp
next
  case Holding
  then show ?thesis using lockOk_stay [OF assms(2), of _ i] assms(4) next_not_opened [of "lw_file w"] by auto
next
  case (Allocated n)
  then have ins: "inside (ws i)" by simp
  note only = alone [OF assms(2) ins]
  have locked: "lw_lock w \<noteq> None" and n: "n \<notin> set (openedIds (lw_file w))" and t: "terminated (lw_file w)"
    and d: "distinct (openedIds (lw_file w))" using assms(2) ins Allocated unfolding lockOk_def prod.case by blast+
  show ?thesis
  proof (cases "appendDecisionEvent (mk i n) (lw_file w)")
    case (Inl e)
    then show ?thesis using lockOk_stay [OF assms(2), of Releasing i] assms(4) Allocated ins by auto
  next
    case (Inr f)
    have ok: "jsonOk (mk i n)" "eventId (mk i n) = n" using assms(1) by (auto simp: writerOk_def)
    note f = opened_append [OF Inr t ok(1)]
    have "distinct (openedIds (Some f))" using f(1) d n ok(2) by auto
    moreover have "ws j \<noteq> Allocated k" if "j \<noteq> i" for j k using only [OF that] by auto
    moreover have "\<not> clearing (ws j)" for j using assms(2) by (simp add: lockOk_def)
    ultimately have "lockOk (ws(i := Holding), w\<lparr>lw_file := Some f\<rparr>)"
      using only locked f(2) by (auto simp: lockOk_def)
    then show ?thesis using assms(4) Allocated Inr by auto
  qed
next
  case Releasing
  then have "\<not> inside (ws j)" if "j \<noteq> i" for j using alone [OF assms(2) _ that] by simp
  then have "\<forall>j. \<not> inside ((ws(i := Idle)) j)" by simp
  then have "lockOk (ws(i := Idle), w\<lparr>lw_lock := None\<rparr>)" using assms(2) by (intro lockOk_update) simp_all
  then show ?thesis using assms(4) Releasing by simp
next
  case Idle
  then show ?thesis using lockOk_stay [OF assms(2), of _ i] assms(4) by auto
qed (use assms(4) in simp_all)

lemma lock_step_ok:
  assumes "writerOk mk" "lockOk s" "promptly (snd s)" "lock_step mk s s'"
  shows "lockOk s'"
  using assms(4)
proof cases
  case (passes_time d ws w)
  then show ?thesis using assms(2) by (simp add: lockOk_def)
next
  case (acts i ws w c w')
  then show ?thesis using acts_ok assms by auto
next
  case (leaves ws i w)
  then show ?thesis using lockOk_stay [of ws w Releasing i] assms(2) by simp
next
  case (crashes ws w i)
  then show ?thesis using lockOk_stay [of ws w Crashed i] assms(2) by simp
qed

lemma lock_run_ok:
  assumes "lock_run mk w0 s" "writerOk mk" "terminated (lw_file w0)" "distinct (openedIds (lw_file w0))"
  shows "lockOk s \<and> promptly (snd s)"
  using assms(1)
proof induction
  case run_start
  then show ?case using assms(3,4) by (simp add: lockOk_def promptly_def)
next
  case (run_more s s')
  then show ?case using lock_step_ok assms(2) by blast
qed

text \<open>C27. The lock does what it is for as long as no lock gets older than the threshold: whatever the
  interleaving of the file operations of any number of writers, whenever time passes and whoever
  crashes, at most one writer is inside, and the events they append never open two decisions under
  the same id.\<close>

theorem lock_excludes:
  assumes "lock_run mk w0 (ws, w)" "writerOk mk" "terminated (lw_file w0)" "distinct (openedIds (lw_file w0))"
  shows "(\<forall>i j. inside (ws i) \<and> inside (ws j) \<longrightarrow> i = j) \<and> distinct (openedIds (lw_file w)) \<and>
    (\<forall>i n. ws i = Allocated n \<longrightarrow> n \<notin> set (openedIds (lw_file w)))"
  using lock_run_ok [OF assms] unfolding lockOk_def by simp

text \<open>Writers that file questions of a verdict.\<close>

definition bridgeWriter :: "nat \<Rightarrow> string \<Rightarrow> json" where
  "bridgeWriter p i = dorEvent sampleVerdict ''issue:AISDLC-1'' i (showNat p) 0"

lemma bridgeWriter_ok: "writerOk bridgeWriter"
  by (simp add: writerOk_def bridgeWriter_def dorEvent_fields dorEvent_jsonOk)

definition emptyWorld :: lock_world where
  "emptyWorld = \<lparr>lw_now = 0, lw_lock = None, lw_file = None\<rparr>"

theorem lock_excludes_witness:
  "\<not> (\<exists>i j :: nat. i \<noteq> j \<and> inside (((\<lambda>_. Idle)(0 := Waiting LOCK_MAX_WAIT_MS, 0 := Holding)) i) \<and>
     inside (((\<lambda>_. Idle)(0 := Waiting LOCK_MAX_WAIT_MS, 0 := Holding)) j))"
proof -
  let ?w = "emptyWorld\<lparr>lw_lock := Some 0\<rparr>"
  have "lock_run bridgeWriter emptyWorld ((\<lambda>_. Idle), emptyWorld)"
    by (rule run_start) (simp add: emptyWorld_def)
  then have "lock_run bridgeWriter emptyWorld ((\<lambda>_. Idle)(0 := Waiting LOCK_MAX_WAIT_MS), emptyWorld)"
    by (rule run_more) (auto intro!: acts simp: emptyWorld_def promptly_def)
  moreover have "lock_step bridgeWriter ((\<lambda>_. Idle)(0 := Waiting LOCK_MAX_WAIT_MS), emptyWorld)
      ((\<lambda>_. Idle)(0 := Waiting LOCK_MAX_WAIT_MS, 0 := Holding), ?w)"
    by (rule acts) (simp add: emptyWorld_def LOCK_MAX_WAIT_MS_def)
  ultimately have run: "lock_run bridgeWriter emptyWorld
      ((\<lambda>_. Idle)(0 := Waiting LOCK_MAX_WAIT_MS, 0 := Holding), ?w)"
    by (rule run_more) (simp add: emptyWorld_def promptly_def STALE_LOCK_MS_def)
  have start: "terminated (lw_file emptyWorld)" "distinct (openedIds (lw_file emptyWorld))"
    by (simp_all add: emptyWorld_def terminated_def openedIds_def readDecisionEvents_def)
  show ?thesis using lock_excludes [OF run bridgeWriter_ok start, THEN conjunct1] by metis
qed

section \<open>Clearing a stale lock\<close>

text \<open>The operations of the named writers in turn.\<close>

fun runWriters :: "(nat \<Rightarrow> string \<Rightarrow> json) \<Rightarrow> nat list \<Rightarrow> (nat \<Rightarrow> writer) \<times> lock_world \<Rightarrow>
    ((nat \<Rightarrow> writer) \<times> lock_world) option" where
  "runWriters mk [] s = Some s"
| "runWriters mk (i # ps) (ws, w) = (case writerStep (mk i) (ws i) w of
     None \<Rightarrow> None | Some (c, w') \<Rightarrow> runWriters mk ps (ws(i := c), w'))"

lemma runWriters_steps: "runWriters mk ps s = Some s' \<Longrightarrow> (lock_step mk)\<^sup>*\<^sup>* s s'"
proof (induction ps arbitrary: s)
  case (Cons i ps)
  obtain ws w where s: "s = (ws, w)" by fastforce
  obtain c w' where c: "writerStep (mk i) (ws i) w = Some (c, w')" "runWriters mk ps (ws(i := c), w') = Some s'"
    using Cons.prems by (auto simp: s split: option.splits)
  then have "(lock_step mk)\<^sup>*\<^sup>* (ws(i := c), w') s'" using Cons.IH by blast
  moreover have "lock_step mk (ws, w) (ws(i := c), w')" using c(1) by (rule acts)
  ultimately show ?case unfolding s by (rule converse_rtranclp_into_rtranclp [rotated])
qed simp

text \<open>The staleness check and the unlink are two operations: of two writers that both find the lock of a
  crashed one stale, the second unlinks the new lock of the first. Both are inside, and both have
  allocated the same id, although neither held its lock for any time.\<close>

lemma stale_lock_race:
  fixes w :: lock_world
  defines "w \<equiv> \<lparr>lw_now = 40000, lw_lock = Some 0, lw_file = None\<rparr>"
  shows "\<exists>ws' w'. (lock_step mk)\<^sup>*\<^sup>* ((\<lambda>_. Idle), w) (ws', w') \<and>
    ws' 0 = Allocated ''DEC-0001'' \<and> ws' 1 = Allocated ''DEC-0001'' \<and> promptly w'"
proof -
  have n: "nextDecisionId None = ''DEC-0001''" by code_simp
  have "runWriters mk [0, 1, 0, 1, 0, 1, 0, 0, 1, 1, 0, 1] ((\<lambda>_. Idle), w) =
      Some (((\<lambda>_. Idle)(0 := Allocated ''DEC-0001'', 1 := Allocated ''DEC-0001'')), w\<lparr>lw_lock := Some 40000\<rparr>)"
    by (simp add: w_def LOCK_MAX_WAIT_MS_def STALE_LOCK_MS_def n fun_eq_iff fun_upd_twist)
  from runWriters_steps [OF this] show ?thesis
    by (intro exI [of _ "(\<lambda>_. Idle)(0 := Allocated ''DEC-0001'', 1 := Allocated ''DEC-0001'')"]
        exI [of _ "w\<lparr>lw_lock := Some 40000\<rparr>"]) (simp add: w_def promptly_def STALE_LOCK_MS_def)
qed

text \<open>A release unlinks whatever lock is there: a writer whose lock was cleared as stale removes the
  lock of the writer that holds it now.\<close>

lemma release_removes_foreign_lock:
  "writerStep mk Releasing w = Some (Idle, w\<lparr>lw_lock := None\<rparr>)"
  by simp

end
