(* ===== verification/ReviewSteps.thy ===== *)
theory ReviewSteps
  imports Json
begin

text \<open>
  The steps of a pipeline run that talk to subagents, \<open>pipeline-cli/src/steps/\<close>: the developer's
  prompt (\<open>05-build-dev-prompt.ts\<close>), reading its return (\<open>06-parse-dev-return.ts\<close>), the reviewers'
  prompts (\<open>07-build-review-prompts.ts\<close>), the gate over their verdicts
  (\<open>08-aggregate-verdicts.ts\<close>) and the reading of one reviewer's answer (\<open>09-iterate.ts\<close>). What a
  subagent returns is JSON that nobody has validated, so a finding is a JSON value; \<open>None\<close> as the
  result of a function is a thrown \<open>TypeError\<close> or a rejected spawn. Objects with a \<open>toString\<close> of
  their own are left out. The message of a failed \<open>JSON.parse\<close> is an argument.
\<close>

section \<open>Coercions\<close>

text \<open>\<open>String(v)\<close>, as \<open>${v}\<close> does it, and the truth value of \<open>v\<close>.\<close>

fun jsText :: "json \<Rightarrow> string" where
  "jsText JNull = ''null''"
| "jsText (JBool b) = (if b then ''true'' else ''false'')"
| "jsText (JNum i) = showInt i"
| "jsText (JFloat t) = t"
| "jsText (JStr s) = s"
| "jsText (JArr xs) = joinWith '','' (map (\<lambda>j. if j = JNull then [] else jsText j) xs)"
| "jsText (JObj m) = ''[object Object]''"

definition templateText :: "json option \<Rightarrow> string" where
  "templateText v = (case v of None \<Rightarrow> ''undefined'' | Some j \<Rightarrow> jsText j)"

fun jsTruthy :: "json option \<Rightarrow> bool" where
  "jsTruthy None = False"
| "jsTruthy (Some JNull) = False"
| "jsTruthy (Some (JBool b)) = b"
| "jsTruthy (Some (JNum i)) = (i \<noteq> 0)"
| "jsTruthy (Some (JFloat t)) = list_ex (\<lambda>c. isDigit c \<and> c \<noteq> CHR ''0'') (takeWhile (\<lambda>c. c \<noteq> CHR ''e'' \<and> c \<noteq> CHR ''E'') t)"
| "jsTruthy (Some (JStr s)) = (s \<noteq> [])"
| "jsTruthy (Some (JArr xs)) = True"
| "jsTruthy (Some (JObj m)) = True"

definition dquoted :: "string \<Rightarrow> string" where
  "dquoted s = [CHR 34] @ s @ [CHR 34]"

definition ticked :: "string \<Rightarrow> string" where
  "ticked s = [CHR 96] @ s @ [CHR 96]"

definition blankLine :: string where
  "blankLine = newline @ newline"

definition truncatedMark :: string where
  "truncatedMark = [CHR 0xE2, CHR 0x80, CHR 0xA6] @ '' (truncated)''"

section \<open>The developer's prompt\<close>

record task_spec =
  spec_title :: string
  spec_description :: string
  spec_acceptanceCriteria :: "string list"
  spec_permittedExternalPaths :: "string list option"
  spec_references :: "string list option"

definition acList :: "string list \<Rightarrow> string" where
  "acList acs = joinWith newline (map (\<lambda>(i, ac). showNat (i + 1) @ ''. '' @ ac) (enumerate 0 acs))"

definition linesOr :: "string \<Rightarrow> string list option \<Rightarrow> string" where
  "linesOr d xs = (case xs of None \<Rightarrow> d | Some ls \<Rightarrow> if ls = [] then d else joinWith newline ls)"

definition feedbackBlock :: "nat \<Rightarrow> string option \<Rightarrow> string" where
  "feedbackBlock iteration reviewerFeedback =
     (if 1 < iteration \<and> given reviewerFeedback
      then blankLine @ ''## Reviewer feedback (round '' @ showNat (iteration - 1) @ '')'' @ blankLine @
        the reviewerFeedback @ blankLine @
        ''Address every finding above and re-run all four verifications before committing.'' @ newline
      else [])"

definition buildDeveloperPrompt ::
  "string \<Rightarrow> task_spec \<Rightarrow> string \<Rightarrow> string \<Rightarrow> string option \<Rightarrow> nat \<Rightarrow> string" where
  "buildDeveloperPrompt taskId task branch worktreePath reviewerFeedback iteration =
     ''You are implementing backlog task '' @ taskId @ '' in worktree '' @ worktreePath @ ''.'' @ blankLine @
     ''## Task title'' @ newline @ spec_title task @ blankLine @
     ''## Description'' @ newline @ spec_description task @ blankLine @
     ''## Acceptance criteria'' @ newline @ acList (spec_acceptanceCriteria task) @ blankLine @
     ''## References'' @ newline @ linesOr ''(none)'' (spec_references task) @ blankLine @
     ''## Permitted external paths (cross-repo writes)'' @ newline @
       linesOr ''none'' (spec_permittedExternalPaths task) @ blankLine @
     ''## Verification commands (run before commit)'' @ newline @
     ''- pnpm build'' @ newline @ ''- pnpm test'' @ newline @ ''- pnpm lint'' @ newline @
       ''- pnpm format:check'' @ blankLine @
     ''## Commit message template'' @ newline @
     ''<conventional-commit type>: <subject> ('' @ taskId @ '')'' @ blankLine @
     ''<body>'' @ blankLine @
     ''Co-Authored-By: Claude Opus 4.6 (1M context) <noreply@anthropic.com>'' @ blankLine @
     ''## Branch'' @ newline @ ''You are on branch '' @ ticked branch @ '' checked out at '' @ ticked worktreePath @
       ''.'' @ newline @
     feedbackBlock iteration reviewerFeedback @
     newline @ ''Return the JSON shape documented in your agent definition.'' @ newline"

section \<open>Reading the developer's return\<close>

definition VALID_VERIFICATION_STATUSES :: "string list" where
  "VALID_VERIFICATION_STATUSES = [''passed'', ''failed'', ''skipped'']"

definition REQUIRED_KEYS :: "string list" where
  "REQUIRED_KEYS = [''summary'', ''filesChanged'', ''commitSha'', ''verifications'', ''acceptanceCriteriaMet'']"

definition VERIFICATION_KEYS :: "string list" where
  "VERIFICATION_KEYS = [''build'', ''test'', ''lint'', ''format'']"

record parse_result =
  pdr_ok :: bool
  pdr_reason :: "string option"
  pdr_developer :: "json option"
  pdr_contractViolation :: bool

definition rejected :: "string \<Rightarrow> json option \<Rightarrow> bool \<Rightarrow> parse_result" where
  "rejected reason developer violation = \<lparr>pdr_ok = False, pdr_reason = Some reason, pdr_developer = developer,
     pdr_contractViolation = violation\<rparr>"

definition validStatus :: "json option \<Rightarrow> bool" where
  "validStatus v \<longleftrightarrow> (case v of Some (JStr s) \<Rightarrow> s \<in> set VALID_VERIFICATION_STATUSES | _ \<Rightarrow> False)"

definition checkVerifications :: "json \<Rightarrow> json \<Rightarrow> parse_result" where
  "checkVerifications obj v =
     (case find (\<lambda>key. \<not> validStatus (jsonField v key)) VERIFICATION_KEYS of
        Some key \<Rightarrow> rejected (''developer return verifications.'' @ key @ '' must be one of '' @
          joinWith ''/'' VALID_VERIFICATION_STATUSES) None False
      | None \<Rightarrow>
          (if jsonField obj ''commitSha'' = Some JNull
           then rejected (''developer reported null commitSha '' @ emDash @ '' task could not be completed'' @
             (case jsonField obj ''notes'' of
                Some (JStr n) \<Rightarrow> if n = [] then [] else '': '' @ n
              | _ \<Rightarrow> [])) (Some obj) False
           else (case find (\<lambda>key. jsonField v key = Some (JStr ''failed'')) VERIFICATION_KEYS of
              Some key \<Rightarrow> rejected (''developer reported verifications.'' @ key @ '' = failed'') (Some obj) False
            | None \<Rightarrow> \<lparr>pdr_ok = True, pdr_reason = None, pdr_developer = Some obj,
                pdr_contractViolation = False\<rparr>)))"

definition checkEnvelope :: "json \<Rightarrow> parse_result" where
  "checkEnvelope obj =
     (if \<not> isJObject obj then rejected ''developer return is not an object'' None True
      else (case find (\<lambda>key. jsonField obj key = None) REQUIRED_KEYS of
          Some key \<Rightarrow> rejected (''developer return missing required key '' @ [CHR 39] @ key @ [CHR 39]) None False
        | None \<Rightarrow>
            (if \<not> isJArr (jsonField obj ''filesChanged'')
             then rejected (''developer return field 'filesChanged' must be an array'') None False
             else if \<not> isJArr (jsonField obj ''acceptanceCriteriaMet'')
             then rejected (''developer return field 'acceptanceCriteriaMet' must be an array'') None False
             else (case jsonField obj ''verifications'' of
                 Some v \<Rightarrow> if isJObject v then checkVerifications obj v
                   else rejected (''developer return field 'verifications' must be an object'') None False
               | None \<Rightarrow> rejected (''developer return field 'verifications' must be an object'') None False))))"

text \<open>A text is parsed first; every other value is taken as it is.\<close>

definition parseDeveloperReturn :: "(string \<Rightarrow> string) \<Rightarrow> json \<Rightarrow> parse_result" where
  "parseDeveloperReturn parseError developerReturn = (case developerReturn of
     JStr raw \<Rightarrow> (case parseJson raw of
         None \<Rightarrow>
           (let preview = (if 500 < length raw then take 500 raw @ truncatedMark else raw)
            in rejected (''failed to parse developer JSON: '' @ parseError raw @ '' (raw output: '' @
              stringifyString preview @ '')'') None True)
       | Some obj \<Rightarrow> checkEnvelope obj)
   | obj \<Rightarrow> checkEnvelope obj)"

section \<open>One retry after a return that is not JSON\<close>

record subagent_result =
  sub_output :: string
  sub_parsed :: "json option"
  sub_status :: string
  sub_error :: "string option"

definition previewOutput :: "string \<Rightarrow> string" where
  "previewOutput raw = (if raw = [] then ''<empty>''
     else if 1000 < length raw then take 1000 raw @ truncatedMark else raw)"

definition shapeLine :: "string \<Rightarrow> string \<Rightarrow> string" where
  "shapeLine key rest = ''  '' @ dquoted key @ '':'' @ rest"

definition buildRetryPrompt :: "string \<Rightarrow> string" where
  "buildRetryPrompt initialOutputPreview = joinWith newline [
     ''Your previous response was not a valid JSON envelope. The orchestrator'',
     ''parses your final assistant message as a JSON object; any prose,'',
     ''markdown, or commentary in that turn fails the dispatch.'',
     [],
     ''Your previous output (truncated to 1000 chars):'',
     ''---'',
     initialOutputPreview,
     ''---'',
     [],
     ''RE-EMIT the JSON envelope NOW. Your entire response MUST be a single'',
     ''JSON object '' @ emDash @ '' no surrounding prose, no markdown fences, no preamble.'',
     [],
     ''Required shape:'',
     [],
     ''{'',
     shapeLine ''summary'' ('' '' @ dquoted ''<1-3 sentence description>'' @ '',''),
     shapeLine ''filesChanged'' ('' ['' @ dquoted ''<paths>'' @ ''],''),
     shapeLine ''commitSha'' ('' '' @ dquoted ''<7+ char SHA>'' @ '',''),
     shapeLine ''prUrl'' ('' '' @ dquoted ''<https URL or null>'' @ '',''),
     shapeLine ''verifications'' '' {'',
     ''  '' @ shapeLine ''build'' ('' '' @ dquoted ''passed | failed | skipped'' @ '',''),
     ''  '' @ shapeLine ''test'' (''  '' @ dquoted ''passed | failed | skipped'' @ '',''),
     ''  '' @ shapeLine ''lint'' (''  '' @ dquoted ''passed | failed | skipped'' @ '',''),
     ''  '' @ shapeLine ''format'' (dquoted ''passed | failed | skipped''),
     ''  },'',
     shapeLine ''acceptanceCriteriaMet'' '' [1, 2, 3],'',
     shapeLine ''notes'' ('' '' @ dquoted ''<optional>''),
     ''}'',
     [],
     ''If you have already committed the work, populate '' @ ticked ''commitSha'' @ '' from'',
     ticked ''git rev-parse HEAD'' @ '' inside this worktree '' @ emDash @ '' do NOT redo the commit.'',
     ''If you have already pushed and opened a PR, populate '' @ ticked ''prUrl'' @ '' from the'',
     ''PR you opened; otherwise set it to null.'',
     [],
     ''Return the JSON object and NOTHING else.'']"

definition developerInput :: "subagent_result \<Rightarrow> json" where
  "developerInput r = (case sub_parsed r of
     None \<Rightarrow> JStr (sub_output r)
   | Some j \<Rightarrow> if j = JNull then JStr (sub_output r) else j)"

text \<open>The second spawn gets the retry prompt. With the result goes what \<open>onRetrySuccess\<close> is told, the
  previews of both outputs, when it is called.\<close>

definition parseDeveloperReturnWithRetry :: "(string \<Rightarrow> string) \<Rightarrow> (string \<Rightarrow> subagent_result option) \<Rightarrow>
  subagent_result \<Rightarrow> (parse_result \<times> (string \<times> string) option) option" where
  "parseDeveloperReturnWithRetry parseError spawn initialResult =
     (let initial = parseDeveloperReturn parseError (developerInput initialResult)
      in if pdr_ok initial \<or> \<not> pdr_contractViolation initial then Some (initial, None)
         else (let initialPreview = previewOutput (sub_output initialResult)
           in case spawn (buildRetryPrompt initialPreview) of
                None \<Rightarrow> None
              | Some retryResult \<Rightarrow>
                  (let retryParsed = parseDeveloperReturn parseError (developerInput retryResult)
                   in if pdr_ok retryParsed
                      then Some (retryParsed, Some (initialPreview, previewOutput (sub_output retryResult)))
                      else Some (rejected
                        (''developer subagent violated JSON envelope contract on both turns. '' @
                         ''initial ('' @ orElse (pdr_reason initial) ''parse failed'' @ ''); '' @
                         ''retry ('' @ orElse (pdr_reason retryParsed) ''parse failed'' @ '')'') None True, None))))"

section \<open>The reviewers' prompts\<close>

definition REVIEWERS :: "string list" where
  "REVIEWERS = [''code-reviewer'', ''test-reviewer'', ''security-reviewer'']"

record exec_output =
  xr_stdout :: string
  xr_stderr :: string
  xr_code :: int

definition independenceNote :: string where
  "independenceNote = [CHR 0xE2, CHR 0x9A, CHR 0xA0] @
     '' INDEPENDENCE NOT ENFORCED (codex unavailable, fell back to claude-code)''"

text \<open>What a round reads from outside: the output of the two \<open>git diff\<close> calls, of \<open>which codex\<close>
  (\<open>None\<close>: it throws), and the project's review policy found in a directory.\<close>

record review_inputs =
  rin_diff :: exec_output
  rin_files :: exec_output
  rin_which :: "exec_output option"
  rin_policy :: "string \<Rightarrow> string option"

definition diffText :: "review_inputs \<Rightarrow> string" where
  "diffText rin = (if xr_code (rin_diff rin) = 0 then xr_stdout (rin_diff rin) else [])"

definition changedFileList :: "review_inputs \<Rightarrow> string list" where
  "changedFileList rin = (if xr_code (rin_files rin) = 0
     then filter (\<lambda>l. l \<noteq> []) (map trim (splitOn (CHR 10) (xr_stdout (rin_files rin)))) else [])"

definition codexHarnessNote :: "bool option \<Rightarrow> review_inputs \<Rightarrow> string" where
  "codexHarnessNote codexAvailable rin =
     (let available = (case codexAvailable of
            Some b \<Rightarrow> b
          | None \<Rightarrow> (case rin_which rin of None \<Rightarrow> False | Some x \<Rightarrow> xr_code x = 0 \<and> trim (xr_stdout x) \<noteq> []))
      in if available then [] else independenceNote)"

definition buildPrompt :: "string \<Rightarrow> string \<Rightarrow> task_spec \<Rightarrow> string \<Rightarrow> string list \<Rightarrow> string \<Rightarrow> string \<Rightarrow> string \<Rightarrow> string" where
  "buildPrompt reviewer taskId task diff changedFiles branch policy harnessNote =
     ''You are the '' @ reviewer @ '' for backlog task '' @ taskId @ ''.'' @ blankLine @
     ''## Task'' @ newline @ spec_title task @ blankLine @
     ''## Description'' @ newline @ spec_description task @ blankLine @
     ''## Acceptance criteria'' @ newline @ acList (spec_acceptanceCriteria task) @ blankLine @
     ''## Branch / base'' @ newline @ ''branch: '' @ branch @ '' '' @ rightArrow @ '' main'' @ blankLine @
     ''## Changed files'' @ newline @
       (if changedFiles = [] then ''(none)'' else joinWith newline (map (\<lambda>f. ''- '' @ f) changedFiles)) @ newline @
     (if policy = [] then [] else newline @ ''## Project review policy (.ai-sdlc/review-policy.md)'' @ blankLine @
       policy @ newline) @
     (if harnessNote = [] then [] else newline @ harnessNote @ newline) @
     newline @ ''## Diff'' @ blankLine @ replicate 3 (CHR 96) @ ''diff'' @ newline @ diff @ newline @
       replicate 3 (CHR 96) @ blankLine @
     ''Return a verdict JSON: { approved: boolean, findings: [...], summary: string }.'' @ newline"

record review_prompts =
  rvp_prompts :: "(string \<times> string) list"
  rvp_diff :: string
  rvp_changedFiles :: "string list"
  rvp_harnessNote :: string

definition buildReviewPrompts ::
  "string \<Rightarrow> task_spec \<Rightarrow> string \<Rightarrow> string \<Rightarrow> bool option \<Rightarrow> review_inputs \<Rightarrow> review_prompts" where
  "buildReviewPrompts taskId task branch workDir codexAvailable rin =
     (let diff = diffText rin; changedFiles = changedFileList rin; note = codexHarnessNote codexAvailable rin;
          policy = orElse (rin_policy rin workDir) []
      in \<lparr>rvp_prompts = map (\<lambda>reviewer. (reviewer, buildPrompt reviewer taskId task diff changedFiles branch policy note))
            REVIEWERS,
          rvp_diff = diff, rvp_changedFiles = changedFiles, rvp_harnessNote = note\<rparr>)"

end
