(* ===== verification/LateRebase.thy ===== *)
theory LateRebase
  imports ReviewSteps Regex
begin

text \<open>
  The rebase before a push, \<open>pipeline-cli/src/steps/11-late-rebase.ts\<close>: the rules that resolve a
  conflicted file mechanically, and the loop around \<open>git rebase\<close>. The world outside (repository and
  files) is a type of its own; running a command, reading and writing a file of the worktree are
  given as a record of functions on it. Lengths are in bytes.
\<close>

section \<open>Conflict blocks\<close>

definition MAX_CONFLICT_CONTENT :: nat where
  "MAX_CONFLICT_CONTENT = 1000000"

definition openMark :: string where "openMark = ''<<<<<<< ''"
definition middleMark :: string where "middleMark = ''======='' @ newline"
definition closeMark :: string where "closeMark = ''>>>>>>> ''"

text \<open>\<open>/<<<<<<< [^\n]+\n([\s\S]*?)=======\n([\s\S]*?)>>>>>>> [^\n]*/\<close> at the start of a text: both
  groups and what follows the match. A lazy group ends at the first mark after it.\<close>

definition conflictAt :: "string \<Rightarrow> (string \<times> string \<times> string) option" where
  "conflictAt s =
     (if \<not> startsWith s openMark then None
      else (let u = drop (length openMark) s; label = takeWhile (\<lambda>c. c \<noteq> CHR 10) u
        in if label = [] \<or> length label = length u then None
           else (case splitFirst middleMark (drop (length label + 1) u) of
               None \<Rightarrow> None
             | Some (headSide, v) \<Rightarrow> (case splitFirst closeMark v of
                   None \<Rightarrow> None
                 | Some (incomingSide, w) \<Rightarrow> Some (headSide, incomingSide, dropWhile (\<lambda>c. c \<noteq> CHR 10) w)))))"

text \<open>The first match in a text: what is before it, the groups, what is after it.\<close>

fun findConflict :: "string \<Rightarrow> (string \<times> string \<times> string \<times> string) option" where
  "findConflict [] = None"
| "findConflict (c # s) = (case conflictAt (c # s) of
     Some (headSide, incomingSide, after) \<Rightarrow> Some ([], headSide, incomingSide, after)
   | None \<Rightarrow> map_option (\<lambda>(before, m). (c # before, m)) (findConflict s))"

definition mergeSides :: "string \<Rightarrow> string \<Rightarrow> string" where
  "mergeSides a b = trimEnd a @ newline @ trimEnd b @ newline"

lemma line_split: "length (takeWhile (\<lambda>c. c \<noteq> CHR 10) u) \<noteq> length u \<Longrightarrow>
    u = takeWhile (\<lambda>c. c \<noteq> CHR 10) u @ newline @ drop (length (takeWhile (\<lambda>c. c \<noteq> CHR 10) u) + 1) u"
  by (induction u) (auto simp: newline_def split: if_splits)

lemma conflictAt_Some:
  assumes "conflictAt s = Some (h, i, w)"
  shows "\<exists>label label'. s = openMark @ label @ newline @ h @ middleMark @ i @ closeMark @ label' @ w"
proof -
  let ?u = "drop (length openMark) s" let ?label = "takeWhile (\<lambda>c. c \<noteq> CHR 10) ?u"
  have opens: "prefix openMark s" and label: "length ?label \<noteq> length ?u"
    using assms by (auto simp: conflictAt_def startsWith_def Let_def split: if_splits)
  obtain v w' where parts: "splitFirst middleMark (drop (length ?label + 1) ?u) = Some (h, v)"
      "splitFirst closeMark v = Some (i, w')" "w = dropWhile (\<lambda>c. c \<noteq> CHR 10) w'"
    using assms by (auto simp: conflictAt_def Let_def split: if_splits option.splits)
  have "?u = ?label @ newline @ drop (length ?label + 1) ?u" using line_split [OF label] .
  moreover have "s = openMark @ ?u" using opens by (auto simp: prefix_def)
  moreover have "drop (length ?label + 1) ?u = h @ middleMark @ i @ closeMark @ w'"
    using splitFirst_Some [OF parts(1)] splitFirst_Some [OF parts(2)] by simp
  moreover have "w' = takeWhile (\<lambda>c. c \<noteq> CHR 10) w' @ w" using parts(3) by simp
  ultimately show ?thesis by metis
qed

lemma findConflict_Some:
  "findConflict s = Some (before, h, i, w) \<Longrightarrow>
    \<exists>label label'. s = before @ openMark @ label @ newline @ h @ middleMark @ i @ closeMark @ label' @ w"
  by (induction s arbitrary: before) (auto split: option.splits dest: conflictAt_Some)

lemma length_trimEnd: "length (trimEnd s) \<le> length s"
  unfolding trimEnd_def by (metis length_dropWhile_le length_rev)

section \<open>Resolving\<close>

text \<open>The loop of both rules: the first block is tested, replaced by its two sides in one order, and
  the search starts over.\<close>

definition merged :: "bool \<Rightarrow> string \<Rightarrow> string \<Rightarrow> string" where
  "merged incomingFirst headSide incomingSide =
     (if incomingFirst then mergeSides incomingSide headSide else mergeSides headSide incomingSide)"

function resolveBlocks :: "(string \<Rightarrow> string \<Rightarrow> bool) \<Rightarrow> bool \<Rightarrow> string \<Rightarrow> string option" where
  "resolveBlocks mechanical incomingFirst content = (case findConflict content of
     None \<Rightarrow> Some content
   | Some (before, headSide, incomingSide, after) \<Rightarrow>
       if \<not> mechanical headSide incomingSide then None
       else resolveBlocks mechanical incomingFirst (before @ merged incomingFirst headSide incomingSide @ after))"
  by pat_completeness auto

lemma length_merged: "length (merged b h i) \<le> length h + length i + 2"
  using length_trimEnd [of h] length_trimEnd [of i] by (simp add: merged_def mergeSides_def newline_def)

termination resolveBlocks
proof (relation "measure (\<lambda>(mechanical, incomingFirst, content). length content)", simp)
  fix mechanical incomingFirst content and x :: "string \<times> string \<times> string \<times> string"
    and before y headSide z incomingSide after
  assume "findConflict content = Some x" "(before, y) = x" "(headSide, z) = y" "(incomingSide, after) = z"
  then show "((mechanical, incomingFirst, before @ merged incomingFirst headSide incomingSide @ after), mechanical,
      incomingFirst, content) \<in> measure (\<lambda>(mechanical, incomingFirst, content). length content)"
    using findConflict_Some [of content before headSide incomingSide after] length_merged [of incomingFirst headSide incomingSide]
    by (auto simp: openMark_def middleMark_def closeMark_def newline_def)
qed

declare resolveBlocks.simps [simp del]

definition isBulletOnly :: "string \<Rightarrow> bool" where
  "isBulletOnly t \<longleftrightarrow> list_all (\<lambda>l. list_all isSpace l \<or>
     (case dropWhile isSpace l of d # c # _ \<Rightarrow> d = CHR ''-'' \<and> isSpace c | _ \<Rightarrow> False)) (splitOn (CHR 10) t)"

definition resolveChangelogConflict :: "string \<Rightarrow> string option" where
  "resolveChangelogConflict content =
     (if \<not> strIncludes content ''<<<<<<<'' then Some content
      else if MAX_CONFLICT_CONTENT < length content then None
      else resolveBlocks (\<lambda>headSide incomingSide. isBulletOnly headSide \<and> isBulletOnly incomingSide) True content)"

text \<open>\<open>/\b(it|test|describe)\s*\(/\<close>; the flag says whether a word character comes before.\<close>

fun hasTestCalls :: "bool \<Rightarrow> string \<Rightarrow> bool" where
  "hasTestCalls inWord [] = False"
| "hasTestCalls inWord (c # s) =
     (\<not> inWord \<and> list_ex (\<lambda>w. startsWith (c # s) w \<and> startsWith (dropWhile isSpace (drop (length w) (c # s))) ''('')
        [''it'', ''test'', ''describe''] \<or>
      hasTestCalls (isWordChar c) s)"

text \<open>\<open>/^\s*(?:const|let|var)\s+(\w+)/\<close>.\<close>

definition declaredIdentifier :: "string \<Rightarrow> string option" where
  "declaredIdentifier l =
     (case List.find (\<lambda>w. startsWith (dropWhile isSpace l) w) [''const'', ''let'', ''var''] of
        None \<Rightarrow> None
      | Some w \<Rightarrow> (let u = drop (length w) (dropWhile isSpace l); name = takeWhile isWordChar (dropWhile isSpace u)
          in if takeWhile isSpace u = [] \<or> name = [] then None else Some name))"

definition extractDeclaredIdentifiers :: "string \<Rightarrow> string list" where
  "extractDeclaredIdentifiers t = List.map_filter declaredIdentifier (splitOn (CHR 10) t)"

definition resolveTestConflict :: "string \<Rightarrow> string option" where
  "resolveTestConflict content =
     (if \<not> strIncludes content ''<<<<<<<'' then Some content
      else if MAX_CONFLICT_CONTENT < length content then None
      else resolveBlocks (\<lambda>headSide incomingSide. hasTestCalls False headSide \<and> hasTestCalls False incomingSide \<and>
          \<not> list_ex (\<lambda>i. i \<in> set (extractDeclaredIdentifiers incomingSide)) (extractDeclaredIdentifiers headSide))
        False content)"

section \<open>The world of a rebase\<close>

record 'w git_io =
  gio_run :: "string \<Rightarrow> string list \<Rightarrow> 'w \<Rightarrow> exec_output \<times> 'w"
  gio_read :: "'w \<Rightarrow> string \<Rightarrow> string option"
  gio_write :: "string \<Rightarrow> string \<Rightarrow> 'w \<Rightarrow> 'w"

text \<open>\<open>/^(UU|AA|DD|AU|UA|DU|UD)\s/\<close> on each line.\<close>

definition parseConflictingFiles :: "string \<Rightarrow> string list" where
  "parseConflictingFiles porcelain =
     map (\<lambda>l. trim (drop 3 l))
       (filter (\<lambda>l. take 2 l \<in> set [''UU'', ''AA'', ''DD'', ''AU'', ''UA'', ''DU'', ''UD''] \<and>
          (case drop 2 l of c # _ \<Rightarrow> isSpace c | [] \<Rightarrow> False)) (splitOn (CHR 10) porcelain))"

definition resolveFile :: "string \<Rightarrow> string \<Rightarrow> string option" where
  "resolveFile filePath content =
     (let lowerPath = toLowerCase filePath
      in if strIncludes lowerPath ''changelog'' then resolveChangelogConflict content
         else if endsWith lowerPath ''.test.ts'' \<or> endsWith lowerPath ''.test.js'' \<or> endsWith lowerPath ''.spec.ts'' \<or>
           endsWith lowerPath ''.spec.js'' \<or> strIncludes lowerPath ''__test''
         then resolveTestConflict content
         else None)"

definition tryResolveFile :: "'w git_io \<Rightarrow> string \<Rightarrow> 'w \<Rightarrow> bool \<times> 'w" where
  "tryResolveFile io filePath w = (case gio_read io w filePath of
     None \<Rightarrow> (False, w)
   | Some content \<Rightarrow>
       (if \<not> strIncludes content ''<<<<<<<'' then (True, w)
        else (case resolveFile filePath content of
            None \<Rightarrow> (False, w)
          | Some r \<Rightarrow> if strIncludes r ''<<<<<<<'' then (False, w) else (True, gio_write io filePath r w))))"

text \<open>The files in order: those resolved and those not.\<close>

fun resolveAll :: "'w git_io \<Rightarrow> string list \<Rightarrow> 'w \<Rightarrow> string list \<times> string list \<times> 'w" where
  "resolveAll io [] w = ([], [], w)"
| "resolveAll io (f # fs) w =
     (let (done, w1) = tryResolveFile io f w; (resolved, hard, w2) = resolveAll io fs w1
      in if done then (f # resolved, hard, w2) else (resolved, f # hard, w2))"

section \<open>The loop around git\<close>

record rebase_result =
  rbr_ok :: bool
  rbr_conflictingFiles :: "string list"
  rbr_reason :: "string option"
  rbr_rebaseAttempts :: int
  rbr_resolvedFiles :: "string list"

definition rebased :: "int \<Rightarrow> string list \<Rightarrow> rebase_result" where
  "rebased attempts resolved = \<lparr>rbr_ok = True, rbr_conflictingFiles = [], rbr_reason = None,
     rbr_rebaseAttempts = attempts, rbr_resolvedFiles = resolved\<rparr>"

definition rebaseFailed :: "string list \<Rightarrow> string \<Rightarrow> int \<Rightarrow> rebase_result" where
  "rebaseFailed files reason attempts = \<lparr>rbr_ok = False, rbr_conflictingFiles = files, rbr_reason = Some reason,
     rbr_rebaseAttempts = attempts, rbr_resolvedFiles = []\<rparr>"

definition git :: "'w git_io \<Rightarrow> string list \<Rightarrow> 'w \<Rightarrow> exec_output \<times> 'w" where
  "git io args w = gio_run io ''git'' args w"

definition outputOf :: "exec_output \<Rightarrow> string" where
  "outputOf x = orText (trim (xr_stderr x)) (trim (xr_stdout x))"

definition formatAndStage :: "'w git_io \<Rightarrow> string \<Rightarrow> 'w \<Rightarrow> 'w" where
  "formatAndStage io f w = snd (git io [''add'', f]
     (snd (gio_run io ''pnpm'' [''exec'', ''prettier'', ''--write'', f] w)))"

definition abortRebase :: "'w git_io \<Rightarrow> 'w \<Rightarrow> 'w" where
  "abortRebase io w = snd (git io [''rebase'', ''--abort''] w)"

text \<open>One round: \<open>Inl\<close> when it decides the result, \<open>Inr\<close> of the files it resolved when the next commit
  conflicts again.\<close>

definition rebaseRound :: "'w git_io \<Rightarrow> int \<Rightarrow> string list \<Rightarrow> 'w \<Rightarrow> (rebase_result + string list) \<times> 'w" where
  "rebaseRound io attempts allResolved w =
     (let (rebaseResult, w1) = git io [''rebase'', ''origin/main''] w
      in if xr_code rebaseResult = 0 then (Inl (rebased attempts allResolved), w1)
         else (let (status, w2) = git io [''status'', ''--porcelain''] w1; files = parseConflictingFiles (xr_stdout status)
           in if files = [] then (Inl (rebaseFailed [] (''git rebase failed with code '' @ showInt (xr_code rebaseResult) @
                '': '' @ outputOf rebaseResult) attempts), abortRebase io w2)
              else (let (resolved, hard, w3) = resolveAll io files w2
                in if hard \<noteq> [] then (Inl (rebaseFailed hard (''semantic conflicts in: '' @ joinWith '', '' hard) attempts),
                     abortRebase io w3)
                   else (let (continued, w4) = git io [''rebase'', ''--continue''] (fold (formatAndStage io) resolved w3)
                     in (if xr_code continued = 0 then Inl (rebased attempts (allResolved @ resolved))
                         else Inr (allResolved @ resolved), w4)))))"

function rebaseLoop :: "'w git_io \<Rightarrow> int \<Rightarrow> int \<Rightarrow> string list \<Rightarrow> 'w \<Rightarrow> rebase_result \<times> 'w" where
  "rebaseLoop io maxAttempts attempts allResolved w =
     (if maxAttempts < attempts
      then (rebaseFailed [] (''rebase iteration cap ('' @ showInt maxAttempts @ '') exceeded '' @ emDash @
          '' main is moving faster than auto-resolve can converge'') maxAttempts, abortRebase io w)
      else (case rebaseRound io attempts allResolved w of
          (Inl r, w') \<Rightarrow> (r, w')
        | (Inr resolved, w') \<Rightarrow> rebaseLoop io maxAttempts (attempts + 1) resolved w'))"
  by pat_completeness auto
termination
  by (relation "measure (\<lambda>(io, maxAttempts, attempts, allResolved, w). nat (maxAttempts + 1 - attempts))") auto

declare rebaseLoop.simps [simp del]

definition lateRebase :: "'w git_io \<Rightarrow> int option \<Rightarrow> 'w \<Rightarrow> rebase_result \<times> 'w" where
  "lateRebase io maxAttempts w =
     (let (fetchResult, w1) = git io [''fetch'', ''origin'', ''main''] w
      in if xr_code fetchResult \<noteq> 0
         then (rebaseFailed [] (''git fetch origin main failed: '' @ outputOf fetchResult) 0, w1)
         else (let (ancestorCheck, w2) = git io [''merge-base'', ''--is-ancestor'', ''origin/main'', ''HEAD''] w1
           in if xr_code ancestorCheck = 0 then (rebased 0 [], w2)
              else rebaseLoop io (orElse maxAttempts 3) 1 [] w2))"

end
