(* ===== verification/RebaseProps.thy ===== *)
theory RebaseProps
  imports LateRebase
begin

text \<open>
  Properties of the rebase before a push: what the two rules make of a file with conflicts, and that the
  loop around git leaves no rebase unfinished.
\<close>

section \<open>Finding the blocks\<close>

lemma not_sublist_butlast:
  assumes "p \<noteq> []" "last p \<notin> set (butlast p)" "\<not> sublist p h"
  shows "\<not> sublist p (h @ butlast p)"
proof
  assume "sublist p (h @ butlast p)"
  then obtain a b where ab: "h @ butlast p = a @ p @ b" by (auto simp: sublist_def)
  have p: "p = butlast p @ [last p]" using assms(1) by simp
  have "length a + length p \<le> length h"
  proof (rule ccontr)
    assume no: "\<not> ?thesis"
    let ?k = "length a + length (butlast p)"
    have "(a @ p @ b) ! ?k = last p" using p by (metis append.assoc append_Cons nth_append_length length_append)
    moreover have "length h \<le> ?k" using no assms(1) by (cases p) auto
    moreover have "?k < length (h @ butlast p)" using ab p by (metis add_strict_left_mono append.assoc length_append
        length_append_singleton lessI trans_less_add1 nat_add_left_cancel_less add.assoc)
    ultimately have "last p \<in> set (butlast p)" using ab
      by (metis (no_types, lifting) leD length_append nth_append nth_mem add_diff_inverse_nat nat_add_left_cancel_less)
    then show False using assms(2) by simp
  qed
  then have "prefix (a @ p) h" using ab by (metis append.assoc length_append prefixI prefix_length_prefix)
  then show False using assms(3) by (auto simp: sublist_def prefix_def)
qed

lemma splitFirst_first:
  assumes "p \<noteq> []" "\<not> sublist p (h @ butlast p)"
  shows "splitFirst p (h @ p @ r) = Some (h, r)"
  using assms(2)
proof (induction h)
  case Nil
  then show ?case using assms(1) by (cases p) auto
next
  case (Cons c h)
  have "\<not> prefix p ((c # h) @ p @ r)"
  proof
    assume "prefix p ((c # h) @ p @ r)"
    moreover have "prefix ((c # h) @ butlast p) ((c # h) @ p @ r)"
      using assms(1) by (metis append_butlast_last_id append.assoc prefix_append prefixI same_prefix_prefix)
    ultimately have "prefix p ((c # h) @ butlast p)" by (rule prefix_length_prefix) simp
    then show False using Cons.prems prefix_imp_sublist by blast
  qed
  moreover have "\<not> sublist p (h @ butlast p)" using Cons.prems by (auto simp: sublist_Cons_right)
  ultimately show ?case using Cons.IH by simp
qed

definition atLineStart :: "string \<Rightarrow> bool" where
  "atLineStart s \<longleftrightarrow> s = [] \<or> last s = CHR 10"

lemma conflictAt_block:
  assumes "label \<noteq> []" "CHR 10 \<notin> set label" "\<not> sublist middleMark h" "\<not> sublist closeMark i" "CHR 10 \<notin> set label'"
    "rest = [] \<or> hd rest = CHR 10"
  shows "conflictAt (openMark @ label @ newline @ h @ middleMark @ i @ closeMark @ label' @ rest) = Some (h, i, rest)"
proof -
  have "splitFirst middleMark (h @ middleMark @ s) = Some (h, s)" for s
    using assms(3) by (intro splitFirst_first not_sublist_butlast) (auto simp: middleMark_def newline_def)
  moreover have "splitFirst closeMark (i @ closeMark @ s) = Some (i, s)" for s
    using assms(4) by (intro splitFirst_first not_sublist_butlast) (auto simp: closeMark_def)
  moreover have "takeWhile (\<lambda>c. c \<noteq> CHR 10) (label @ CHR 10 # s) = label" for s using assms(2)
    by (auto simp: takeWhile_append)
  moreover have "dropWhile (\<lambda>c. c \<noteq> CHR 10) (label' @ rest) = rest" using assms(5,6)
    by (cases rest) (auto simp: dropWhile_append)
  ultimately show ?thesis using assms(1) by (simp add: conflictAt_def startsWith_def newline_def Let_def)
qed

lemma findConflict_before:
  assumes "\<not> sublist openMark p" "atLineStart p"
  shows "findConflict (p @ s) = map_option (\<lambda>(before, m). (p @ before, m)) (findConflict s)"
  using assms
proof (induction p)
  case Nil
  then show ?case by (simp add: option.map_ident_strong)
next
  case (Cons c p)
  have "\<not> prefix openMark ((c # p) @ s)"
  proof
    assume pre: "prefix openMark ((c # p) @ s)"
    show False
    proof (cases "length openMark \<le> length (c # p)")
      case True
      then have "prefix openMark (c # p)" using pre by (metis prefixI prefix_length_prefix)
      then show False using Cons.prems(1) prefix_imp_sublist by blast
    next
      case False
      then have "prefix (c # p) openMark" using pre by (metis nat_le_linear prefixI prefix_length_prefix)
      then have "last (c # p) \<in> set openMark" by (metis last_in_set list.distinct(1) set_mono_prefix subsetD)
      then show False using Cons.prems(2) by (simp add: atLineStart_def openMark_def)
    qed
  qed
  then have "conflictAt (c # p @ s) = None" by (simp add: conflictAt_def startsWith_def)
  moreover have "findConflict (p @ s) = map_option (\<lambda>(before, m). (p @ before, m)) (findConflict s)"
    using Cons by (auto simp: sublist_Cons_right atLineStart_def split: if_splits)
  ultimately show ?case by (simp add: option.map_comp comp_def case_prod_beta)
qed

lemma findConflict_none: "\<not> sublist openMark s \<Longrightarrow> findConflict s = None"
  by (induction s) (auto simp: conflictAt_def startsWith_def sublist_Cons_right)

section \<open>Resolving a file of blocks\<close>

text \<open>A file with conflicts as git writes it: what comes before a block (its last line complete), the label
  of the opening line, both sides, the label of the closing line; and what comes after the last.\<close>

record conflict_block =
  cb_before :: string
  cb_label :: string
  cb_head :: string
  cb_incoming :: string
  cb_label' :: string

fun withConflicts :: "conflict_block list \<Rightarrow> string \<Rightarrow> string" where
  "withConflicts [] after = after"
| "withConflicts (b # bs) after = cb_before b @ openMark @ cb_label b @ newline @ cb_head b @ middleMark @
     cb_incoming b @ closeMark @ cb_label' b @ withConflicts bs after"

fun bothKept :: "bool \<Rightarrow> conflict_block list \<Rightarrow> string \<Rightarrow> string" where
  "bothKept incomingFirst [] after = after"
| "bothKept incomingFirst (b # bs) after = cb_before b @
     (if incomingFirst then trimEnd (cb_incoming b) @ newline @ trimEnd (cb_head b) @ newline
      else trimEnd (cb_head b) @ newline @ trimEnd (cb_incoming b) @ newline) @ bothKept incomingFirst bs after"

definition plainText :: "string \<Rightarrow> bool" where
  "plainText s \<longleftrightarrow> \<not> sublist openMark s \<and> \<not> sublist middleMark s \<and> \<not> sublist closeMark s"

fun wellFormed :: "conflict_block list \<Rightarrow> string \<Rightarrow> bool" where
  "wellFormed [] after \<longleftrightarrow> plainText after"
| "wellFormed (b # bs) after \<longleftrightarrow> list_all plainText [cb_before b, cb_head b, cb_incoming b] \<and> atLineStart (cb_before b) \<and>
     cb_label b \<noteq> [] \<and> CHR 10 \<notin> set (cb_label b) \<and> CHR 10 \<notin> set (cb_label' b) \<and>
     (withConflicts bs after = [] \<or> hd (withConflicts bs after) = CHR 10) \<and> wellFormed bs after"

lemma sublist_prefix: "prefix a b \<Longrightarrow> sublist m a \<Longrightarrow> sublist m b"
  by (meson prefix_imp_sublist sublist_order.order_trans)

lemma trimEnd_prefix: "prefix (trimEnd s) s"
  unfolding trimEnd_def by (metis rev_rev_ident suffix_dropWhile suffix_to_prefix)

lemma mark_line_end: "sublist openMark (a @ newline) \<longleftrightarrow> sublist openMark a"
proof -
  have "suffix x a \<Longrightarrow> prefix y newline \<Longrightarrow> openMark = x @ y \<Longrightarrow> sublist openMark a" for x y
    by (cases y) (auto simp: newline_def openMark_def prefix_def Cons_eq_append_conv suffix_imp_sublist)
  moreover have "\<not> sublist openMark newline" by (simp add: openMark_def newline_def sublist_Cons_right)
  ultimately show ?thesis by (auto simp: sublist_append)
qed

lemma mark_across_line: "sublist openMark (a @ newline @ b) \<longleftrightarrow> sublist openMark a \<or> sublist openMark b"
proof -
  have "suffix x (a @ newline) \<Longrightarrow> openMark = x @ y \<Longrightarrow> x = []" for x y
    by (cases x rule: rev_cases) (auto simp: newline_def openMark_def Cons_eq_append_conv)
  then have "sublist openMark ((a @ newline) @ b) \<longleftrightarrow> sublist openMark (a @ newline) \<or> sublist openMark b"
    unfolding sublist_append [of openMark "a @ newline" b] by (metis append_Nil prefix_imp_sublist)
  then show ?thesis by (simp add: mark_line_end)
qed

lemma merged_quiet:
  assumes "atLineStart p" "\<not> sublist openMark p" "plainText h" "plainText i"
  shows "\<not> sublist openMark (p @ merged b h i) \<and> atLineStart (p @ merged b h i)"
proof -
  have t: "\<not> sublist openMark (trimEnd h)" "\<not> sublist openMark (trimEnd i)"
    using assms(3,4) trimEnd_prefix sublist_prefix by (auto simp: plainText_def)
  have e: "\<not> sublist openMark []" by (simp add: openMark_def)
  have m: "\<not> sublist openMark (merged b h i)"
    using mark_across_line [of "trimEnd h" "trimEnd i @ newline"] mark_across_line [of "trimEnd i" "trimEnd h @ newline"]
      mark_across_line [of "trimEnd h" "[]"] mark_across_line [of "trimEnd i" "[]"] t e
    by (simp add: merged_def mergeSides_def)
  have "\<not> sublist openMark (p @ merged b h i)"
  proof (cases "p = []")
    case False
    then have "p = butlast p @ newline" using assms(1) by (simp add: atLineStart_def newline_def) (metis append_butlast_last_id)
    then show ?thesis using mark_across_line [of "butlast p" "merged b h i"] mark_across_line [of "butlast p" "[]"] assms(2) m
      by (metis append.assoc append_Nil2)
  qed (simp add: m)
  then show ?thesis by (simp add: atLineStart_def merged_def mergeSides_def newline_def)
qed

lemma quiet_append: "atLineStart q \<Longrightarrow> \<not> sublist openMark q \<Longrightarrow> \<not> sublist openMark p \<Longrightarrow> \<not> sublist openMark (q @ p)"
proof (cases "q = []")
  case False
  assume q: "atLineStart q" "\<not> sublist openMark q" "\<not> sublist openMark p"
  then have "q = butlast q @ newline" using False by (simp add: atLineStart_def newline_def) (metis append_butlast_last_id)
  then show ?thesis using mark_across_line [of "butlast q" p] mark_across_line [of "butlast q" "[]"] q
    by (metis append.assoc append_Nil2)
qed simp

lemma resolveBlocks_exact:
  "wellFormed bs after \<Longrightarrow> atLineStart q \<Longrightarrow> \<not> sublist openMark q \<Longrightarrow>
    resolveBlocks mech first (q @ withConflicts bs after) =
      (if list_all (\<lambda>b. mech (cb_head b) (cb_incoming b)) bs then Some (q @ bothKept first bs after) else None)"
proof (induction bs arbitrary: q)
  case Nil
  then have "findConflict (q @ after) = None" by (intro findConflict_none quiet_append) (auto simp: plainText_def)
  then show ?case by (simp add: resolveBlocks.simps)
next
  case (Cons b bs)
  let ?p = "q @ cb_before b" and ?rest = "withConflicts bs after"
  have p: "\<not> sublist openMark ?p" "atLineStart ?p"
    using Cons.prems quiet_append [of q "cb_before b"] by (cases "cb_before b = []", auto simp: plainText_def atLineStart_def last_append)
  have "conflictAt (openMark @ cb_label b @ newline @ cb_head b @ middleMark @ cb_incoming b @ closeMark @ cb_label' b @ ?rest) =
      Some (cb_head b, cb_incoming b, ?rest)"
    using Cons.prems(1) by (intro conflictAt_block) (auto simp: plainText_def)
  then have "findConflict (?p @ openMark @ cb_label b @ newline @ cb_head b @ middleMark @ cb_incoming b @ closeMark @
      cb_label' b @ ?rest) = Some (?p, cb_head b, cb_incoming b, ?rest)"
    unfolding findConflict_before [OF p] by (simp add: openMark_def)
  then have step: "resolveBlocks mech first (q @ withConflicts (b # bs) after) =
      (if \<not> mech (cb_head b) (cb_incoming b) then None
       else resolveBlocks mech first (?p @ merged first (cb_head b) (cb_incoming b) @ ?rest))"
    by (subst resolveBlocks.simps) simp
  have "resolveBlocks mech first ((?p @ merged first (cb_head b) (cb_incoming b)) @ ?rest) =
      (if list_all (\<lambda>b. mech (cb_head b) (cb_incoming b)) bs
       then Some ((?p @ merged first (cb_head b) (cb_incoming b)) @ bothKept first bs after) else None)"
    using Cons merged_quiet [OF p(2,1)] by (intro Cons.IH) auto
  then show ?case using step by (auto simp: merged_def mergeSides_def)
qed

definition changelogBlocks :: "conflict_block list \<Rightarrow> bool" where
  "changelogBlocks bs \<longleftrightarrow> list_all (\<lambda>b. isBulletOnly (cb_head b) \<and> isBulletOnly (cb_incoming b)) bs"

definition testBlocks :: "conflict_block list \<Rightarrow> bool" where
  "testBlocks bs \<longleftrightarrow> list_all (\<lambda>b. hasTestCalls False (cb_head b) \<and> hasTestCalls False (cb_incoming b) \<and>
     set (extractDeclaredIdentifiers (cb_head b)) \<inter> set (extractDeclaredIdentifiers (cb_incoming b)) = {}) bs"

lemma withConflicts_includes: "bs \<noteq> [] \<Longrightarrow> strIncludes (withConflicts bs after) ''<<<<<<<''"
proof -
  assume "bs \<noteq> []"
  then obtain b cs where "bs = b # cs" by (cases bs) auto
  moreover have "sublist ''<<<<<<<'' openMark" by (simp add: openMark_def sublist_Cons_right)
  ultimately show ?thesis by (auto simp: strIncludes_iff sublist_append)
qed

text \<open>C31. The two rules keep both sides of every conflict: in a file of conflict blocks as git writes
  them, of any number and up to the size limit, the changelog rule replaces each block by the second
  side followed by the first, and the test rule by the first followed by the second, trailing space
  trimmed, and leaves the rest as it is; and they give up exactly when some block is not theirs: a
  side with a line that is no bullet, or a side without a test or a declaration common to both.\<close>

theorem resolution_exact:
  assumes "wellFormed bs after" "bs \<noteq> []" "length (withConflicts bs after) \<le> MAX_CONFLICT_CONTENT"
  shows "resolveChangelogConflict (withConflicts bs after) =
      (if changelogBlocks bs then Some (bothKept True bs after) else None) \<and>
    resolveTestConflict (withConflicts bs after) =
      (if testBlocks bs then Some (bothKept False bs after) else None)"
proof -
  have "resolveBlocks mech first (withConflicts bs after) =
      (if list_all (\<lambda>b. mech (cb_head b) (cb_incoming b)) bs then Some (bothKept first bs after) else None)" for mech first
    using resolveBlocks_exact [OF assms(1), of "[]" mech first] by (simp add: atLineStart_def openMark_def)
  moreover have "list_all (\<lambda>b. hasTestCalls False (cb_head b) \<and> hasTestCalls False (cb_incoming b) \<and>
      \<not> list_ex (\<lambda>i. i \<in> set (extractDeclaredIdentifiers (cb_incoming b))) (extractDeclaredIdentifiers (cb_head b))) bs =
      testBlocks bs"
    by (auto simp: testBlocks_def list_all_iff list_ex_iff disjoint_iff)
  ultimately show ?thesis using assms(2,3) withConflicts_includes [of bs after]
    by (simp add: resolveChangelogConflict_def resolveTestConflict_def changelogBlocks_def)
qed

definition twoBullets :: "conflict_block list" where
  "twoBullets = [\<lparr>cb_before = ''## Unreleased'' @ newline, cb_label = ''HEAD'', cb_head = ''- a'' @ newline,
     cb_incoming = ''- b'' @ newline, cb_label' = ''x''\<rparr>]"

theorem resolution_exact_witness:
  "resolveChangelogConflict (withConflicts twoBullets newline) = Some (bothKept True twoBullets newline)"
proof -
  have "wellFormed twoBullets newline"
    by (simp add: twoBullets_def plainText_def openMark_def middleMark_def closeMark_def newline_def atLineStart_def
        sublist_Cons_right)
  moreover have "changelogBlocks twoBullets"
    by (simp add: twoBullets_def changelogBlocks_def isBulletOnly_def newline_def isSpace_def)
  moreover have "length (withConflicts twoBullets newline) \<le> MAX_CONFLICT_CONTENT"
    by (simp add: twoBullets_def MAX_CONFLICT_CONTENT_def openMark_def middleMark_def closeMark_def newline_def)
  ultimately show ?thesis using resolution_exact [of twoBullets newline] by (simp add: twoBullets_def)
qed

section \<open>The loop\<close>

lemma resolveAll_sound:
  "(\<forall>f \<in> set (fst (resolveAll io fs w)). \<exists>v. fst (tryResolveFile io f v)) \<and>
    (\<forall>f \<in> set (fst (snd (resolveAll io fs w))). \<exists>v. \<not> fst (tryResolveFile io f v))"
proof (induction io fs w rule: resolveAll.induct)
  case (2 io f fs w)
  obtain b w1 where b: "tryResolveFile io f w = (b, w1)" by fastforce
  obtain rs hs w2 where rest: "resolveAll io fs w1 = (rs, hs, w2)" by (metis prod.exhaust)
  have "if b then \<exists>v. fst (tryResolveFile io f v) else \<exists>v. \<not> fst (tryResolveFile io f v)" using b by (metis fst_conv)
  then show ?case using "2.IH" [OF b [symmetric] refl] b rest by auto
qed simp

text \<open>What a result of the loop says: a success is that of the last command, a failure ended by aborting
  the rebase.\<close>

definition soundEnd :: "'w git_io \<Rightarrow> string list \<Rightarrow> rebase_result \<Rightarrow> 'w \<Rightarrow> bool" where
  "soundEnd io allResolved r w' \<longleftrightarrow>
     (rbr_ok r \<longrightarrow> rbr_conflictingFiles r = [] \<and>
        (\<exists>args v. args \<in> {[''rebase'', ''origin/main''], [''rebase'', ''--continue'']} \<and> w' = snd (git io args v) \<and>
           xr_code (fst (git io args v)) = 0)) \<and>
     (\<not> rbr_ok r \<longrightarrow> rbr_resolvedFiles r = [] \<and> (\<exists>v. w' = abortRebase io v)) \<and>
     (\<forall>f \<in> set (rbr_conflictingFiles r). \<exists>v. \<not> fst (tryResolveFile io f v)) \<and>
     (\<forall>f \<in> set (rbr_resolvedFiles r) - set allResolved. \<exists>v. fst (tryResolveFile io f v))"

lemma sound_ok:
  "args \<in> {[''rebase'', ''origin/main''], [''rebase'', ''--continue'']} \<Longrightarrow> xr_code (fst (git io args v)) = 0 \<Longrightarrow>
    \<forall>f \<in> set rs - set allResolved. \<exists>v. fst (tryResolveFile io f v) \<Longrightarrow>
    soundEnd io allResolved (rebased n rs) (snd (git io args v))"
  unfolding soundEnd_def rebased_def by simp blast

lemma sound_failed:
  "\<forall>f \<in> set hard. \<exists>v. \<not> fst (tryResolveFile io f v) \<Longrightarrow>
    soundEnd io allResolved (rebaseFailed hard reason n) (abortRebase io v)"
  unfolding soundEnd_def rebaseFailed_def by simp blast

lemma attempts_simps [simp]: "rbr_rebaseAttempts (rebased n rs) = n" "rbr_rebaseAttempts (rebaseFailed hard reason n) = n"
  by (simp_all add: rebased_def rebaseFailed_def)

lemma round_sound:
  "case rebaseRound io n allResolved w of
     (Inl r, w') \<Rightarrow> soundEnd io allResolved r w' \<and> rbr_rebaseAttempts r = n
   | (Inr extra, w') \<Rightarrow> \<forall>f \<in> set extra - set allResolved. \<exists>v. fst (tryResolveFile io f v)"
proof -
  let ?rebase = "git io [''rebase'', ''origin/main''] w"
  let ?status = "git io [''status'', ''--porcelain''] (snd ?rebase)"
  let ?files = "parseConflictingFiles (xr_stdout (fst ?status))"
  obtain rs hard w3 where all: "resolveAll io ?files (snd ?status) = (rs, hard, w3)" by (metis prod.exhaust)
  have rs: "\<forall>f \<in> set rs. \<exists>v. fst (tryResolveFile io f v)" "\<forall>f \<in> set hard. \<exists>v. \<not> fst (tryResolveFile io f v)"
    using resolveAll_sound [of io ?files "snd ?status", unfolded all] by simp_all
  let ?continue = "git io [''rebase'', ''--continue''] (fold (formatAndStage io) rs w3)"
  consider (clean) "xr_code (fst ?rebase) = 0" | (odd) "xr_code (fst ?rebase) \<noteq> 0" "?files = []"
    | (hard) "xr_code (fst ?rebase) \<noteq> 0" "?files \<noteq> []" "hard \<noteq> []"
    | (finished) "xr_code (fst ?rebase) \<noteq> 0" "?files \<noteq> []" "hard = []" "xr_code (fst ?continue) = 0"
    | (again) "xr_code (fst ?rebase) \<noteq> 0" "?files \<noteq> []" "hard = []" "xr_code (fst ?continue) \<noteq> 0" by blast
  then show ?thesis
  proof cases
    case clean
    then have "rebaseRound io n allResolved w = (Inl (rebased n allResolved), snd ?rebase)"
      by (simp add: rebaseRound_def case_prod_beta)
    then show ?thesis using clean by (simp add: sound_ok)
  next
    case odd
    then obtain reason where "rebaseRound io n allResolved w = (Inl (rebaseFailed [] reason n), abortRebase io (snd ?status))"
      by (simp add: rebaseRound_def Let_def case_prod_beta)
    then show ?thesis by (simp add: sound_failed)
  next
    case hard
    then obtain reason where "rebaseRound io n allResolved w = (Inl (rebaseFailed hard reason n), abortRebase io w3)"
      using all by (simp add: rebaseRound_def Let_def case_prod_beta)
    then show ?thesis using rs by (simp add: sound_failed)
  next
    case finished
    then have "rebaseRound io n allResolved w = (Inl (rebased n (allResolved @ rs)), snd ?continue)"
      using all by (simp add: rebaseRound_def Let_def case_prod_beta)
    moreover have "soundEnd io allResolved (rebased n (allResolved @ rs)) (snd ?continue)"
      using rs finished by (intro sound_ok) auto
    ultimately show ?thesis by simp
  next
    case again
    then have "rebaseRound io n allResolved w = (Inr (allResolved @ rs), snd ?continue)"
      using all by (simp add: rebaseRound_def Let_def case_prod_beta)
    then show ?thesis using rs by auto
  qed
qed

lemma loop_sound:
  "rebaseLoop io cap n allResolved w = (r, w') \<Longrightarrow> soundEnd io allResolved r w' \<and>
    (if n \<le> cap then n \<le> rbr_rebaseAttempts r \<and> rbr_rebaseAttempts r \<le> cap else rbr_rebaseAttempts r = cap)"
proof (induction io cap n allResolved w rule: rebaseLoop.induct)
  case (1 io cap n allResolved w)
  show ?case
  proof (cases "cap < n")
    case True
    then show ?thesis using "1.prems" by (auto simp: rebaseLoop.simps soundEnd_def rebaseFailed_def)
  next
    case False
    show ?thesis
    proof (cases "rebaseRound io n allResolved w")
      case (Pair x w1)
      note sound = round_sound [where io = io and n = n and allResolved = allResolved and w = w, unfolded Pair]
      show ?thesis
      proof (cases x)
        case (Inl r')
        then have "r' = r" "w1 = w'" using False Pair "1.prems" by (simp_all add: rebaseLoop.simps [where io = io and maxAttempts = cap and attempts = n])
        then show ?thesis using sound Inl False by simp
      next
        case (Inr extra)
        then have "rebaseLoop io cap (n + 1) extra w1 = (r, w')"
          using False Pair "1.prems" by (simp add: rebaseLoop.simps [where io = io and maxAttempts = cap and attempts = n])
        then have IH: "soundEnd io extra r w'"
            "if n + 1 \<le> cap then n + 1 \<le> rbr_rebaseAttempts r \<and> rbr_rebaseAttempts r \<le> cap else rbr_rebaseAttempts r = cap"
          using "1.IH" [OF False Pair [symmetric] Inr] by blast+
        have "soundEnd io allResolved r w'" using IH(1) sound Inr unfolding soundEnd_def by auto
        then show ?thesis using IH(2) False by (auto split: if_splits)
      qed
    qed
  qed
qed

text \<open>C32. The rebase before a push leaves a repository in a definite state, whatever git and the files do:
  when it says that the push may proceed, the last command run was the ancestor check, a rebase or
  its continuation, and it succeeded; when it says that it may not, the fetch failed or the last
  command run aborted the rebase; every file it blames was one the rules refuse and every file it
  reports resolved was one they accept; and it makes at most \<open>maxAttempts\<close> attempts (three if not
  given).\<close>

theorem late_rebase_safe:
  assumes "lateRebase io maxAttempts w = (r, w')"
  shows "(rbr_ok r \<longrightarrow> rbr_conflictingFiles r = [] \<and>
      (\<exists>args v. args \<in> {[''merge-base'', ''--is-ancestor'', ''origin/main'', ''HEAD''], [''rebase'', ''origin/main''],
          [''rebase'', ''--continue'']} \<and> w' = snd (git io args v) \<and> xr_code (fst (git io args v)) = 0)) \<and>
    (\<not> rbr_ok r \<longrightarrow> rbr_resolvedFiles r = [] \<and>
      (w' = snd (git io [''fetch'', ''origin'', ''main''] w) \<and> xr_code (fst (git io [''fetch'', ''origin'', ''main''] w)) \<noteq> 0 \<or>
       (\<exists>v. w' = abortRebase io v))) \<and>
    (\<forall>f \<in> set (rbr_conflictingFiles r). \<exists>v. \<not> fst (tryResolveFile io f v)) \<and>
    (\<forall>f \<in> set (rbr_resolvedFiles r). \<exists>v. fst (tryResolveFile io f v)) \<and>
    rbr_rebaseAttempts r \<le> max 0 (orElse maxAttempts 3)"
proof -
  let ?fetch = "git io [''fetch'', ''origin'', ''main''] w"
  let ?check = "git io [''merge-base'', ''--is-ancestor'', ''origin/main'', ''HEAD''] (snd ?fetch)"
  show ?thesis
  proof (cases "xr_code (fst ?fetch) \<noteq> 0")
    case True
    then have "r = rebaseFailed [] (''git fetch origin main failed: '' @ outputOf (fst ?fetch)) 0" "w' = snd ?fetch"
      using assms by (simp_all add: lateRebase_def Let_def case_prod_beta)
    then show ?thesis using True by (simp add: rebaseFailed_def)
  next
    case fetched: False
    show ?thesis
    proof (cases "xr_code (fst ?check) = 0")
      case True
      then have "r = rebased 0 []" "w' = snd ?check" using fetched assms by (simp_all add: lateRebase_def Let_def case_prod_beta)
      then show ?thesis using True by (simp add: rebased_def) blast
    next
      case False
      then have "rebaseLoop io (orElse maxAttempts 3) 1 [] (snd ?check) = (r, w')"
        using fetched assms by (simp add: lateRebase_def Let_def case_prod_beta)
      from loop_sound [OF this] have "soundEnd io [] r w'" "rbr_rebaseAttempts r \<le> max 0 (orElse maxAttempts 3)"
        by (auto split: if_splits)
      then show ?thesis unfolding soundEnd_def by simp blast
    qed
  qed
qed

text \<open>A repository in which the first rebase conflicts in a changelog and continues once that is resolved.\<close>

definition sampleIo :: "(string \<Rightarrow> string option) git_io" where
  "sampleIo = \<lparr>gio_run = (\<lambda>cmd args w. (\<lparr>xr_stdout = (if hd args = ''status'' then ''UU CHANGELOG.md'' else []), xr_stderr = [],
       xr_code = (if hd args \<in> set [''merge-base'', ''rebase''] \<and> args \<noteq> [''rebase'', ''--continue''] then 1 else 0)\<rparr>, w)),
     gio_read = (\<lambda>w f. w f), gio_write = (\<lambda>f c w. w(f \<mapsto> c))\<rparr>"

theorem late_rebase_safe_witness: "rbr_rebaseAttempts (fst (lateRebase sampleIo None Map.empty)) \<le> 3"
  using late_rebase_safe [of sampleIo None Map.empty "fst (lateRebase sampleIo None Map.empty)"
      "snd (lateRebase sampleIo None Map.empty)"] by simp

section \<open>Surprises\<close>

text \<open>A file without conflict markers counts as resolved. That is what a deletion on one side and a change on
  the other leaves behind: the file is staged as it lies there, and the deletion is undone.\<close>

lemma deletion_undone:
  "gio_read io w f = Some content \<Longrightarrow> \<not> strIncludes content ''<<<<<<<'' \<Longrightarrow>
    parseConflictingFiles (''DU '' @ ''a.ts'') = [''a.ts''] \<and> tryResolveFile io f w = (True, w)"
  by (simp add: tryResolveFile_def parseConflictingFiles_def isSpace_def string_defs)

text \<open>While git rebases, the side after \<open><<<<<<< HEAD\<close> is the upstream branch. The changelog rule puts the
  other side first, so the bullets of the task come before those that landed earlier.\<close>

lemma upstream_bullets_last:
  "wellFormed [b] after \<Longrightarrow> changelogBlocks [b] \<Longrightarrow> length (withConflicts [b] after) \<le> MAX_CONFLICT_CONTENT \<Longrightarrow>
    resolveChangelogConflict (withConflicts [b] after) =
      Some (cb_before b @ trimEnd (cb_incoming b) @ newline @ trimEnd (cb_head b) @ newline @ after)"
  using resolveBlocks_exact [of "[b]" after "[]" "\<lambda>h i. isBulletOnly h \<and> isBulletOnly i" True]
    withConflicts_includes [of "[b]" after]
  by (simp add: resolveChangelogConflict_def changelogBlocks_def atLineStart_def openMark_def)

end
