(* ===== verification/ReviewLoop.thy ===== *)
theory ReviewLoop
  imports ReviewSteps
begin

text \<open>
  The review gate and the loop around it: \<open>pipeline-cli/src/steps/08-aggregate-verdicts.ts\<close> and
  \<open>09-iterate.ts\<close>. The spawner answers by round, agent, attempt and prompt, so that it may answer the
  reviewers of a round, which run at the same time, in any order. \<open>None\<close> is a thrown error.
\<close>

section \<open>The gate\<close>

record reviewer_verdict =
  rvd_agentId :: string
  rvd_harness :: string
  rvd_approved :: bool
  rvd_findings :: "json list"
  rvd_summary :: "string option"

record severity_counts =
  sev_critical :: nat
  sev_major :: nat
  sev_minor :: nat
  sev_suggestion :: nat

datatype gate_decision = APPROVED | CHANGES_REQUESTED

fun gateName :: "gate_decision \<Rightarrow> string" where
  "gateName APPROVED = ''APPROVED''" | "gateName CHANGES_REQUESTED = ''CHANGES_REQUESTED''"

record aggregated_verdict =
  agv_approved :: bool
  agv_counts :: severity_counts
  agv_decision :: gate_decision
  agv_verdicts :: "reviewer_verdict list"
  agv_harnessNote :: string
  agv_summary :: string

definition SEVERITIES :: "string list" where
  "SEVERITIES = [''critical'', ''major'', ''minor'', ''suggestion'']"

definition severityOf :: "json \<Rightarrow> string" where
  "severityOf f = (case jsonField f ''severity'' of
     Some (JStr s) \<Rightarrow> if s \<in> set SEVERITIES then s else ''suggestion''
   | _ \<Rightarrow> ''suggestion'')"

definition countFinding :: "json \<Rightarrow> severity_counts \<Rightarrow> severity_counts" where
  "countFinding f c = (let s = severityOf f in
     if s = ''critical'' then c\<lparr>sev_critical := sev_critical c + 1\<rparr>
     else if s = ''major'' then c\<lparr>sev_major := sev_major c + 1\<rparr>
     else if s = ''minor'' then c\<lparr>sev_minor := sev_minor c + 1\<rparr>
     else c\<lparr>sev_suggestion := sev_suggestion c + 1\<rparr>)"

text \<open>Reading a field of \<open>null\<close> throws.\<close>

definition countFindings :: "reviewer_verdict list \<Rightarrow> severity_counts option" where
  "countFindings verdicts = (let fs = concat (map rvd_findings verdicts)
     in if JNull \<in> set fs then None
        else Some (fold countFinding fs \<lparr>sev_critical = 0, sev_major = 0, sev_minor = 0, sev_suggestion = 0\<rparr>))"

definition gateSummary :: "gate_decision \<Rightarrow> severity_counts \<Rightarrow> nat \<Rightarrow> string \<Rightarrow> string" where
  "gateSummary decision c n harnessNote =
     joinWith newline ((if harnessNote = [] then [] else [harnessNote]) @
       [''Verdict: '' @ gateName decision @ '' '' @ emDash @ '' '' @
        showNat (sev_critical c) @ '' critical, '' @ showNat (sev_major c) @ '' major, '' @
        showNat (sev_minor c) @ '' minor, '' @ showNat (sev_suggestion c) @ '' suggestion '' @
        ''across '' @ showNat n @ '' reviewers''])"

definition aggregateVerdicts :: "reviewer_verdict list \<Rightarrow> string option \<Rightarrow> aggregated_verdict option" where
  "aggregateVerdicts verdicts note = (case countFindings verdicts of None \<Rightarrow> None | Some c \<Rightarrow>
     (let allApproved = verdicts \<noteq> [] \<and> list_all rvd_approved verdicts;
          blocking = 0 < sev_critical c \<or> 0 < sev_major c;
          decision = (if allApproved \<and> \<not> blocking then APPROVED else CHANGES_REQUESTED);
          harnessNote = orElse note []
      in Some \<lparr>agv_approved = (decision = APPROVED), agv_counts = c, agv_decision = decision,
           agv_verdicts = verdicts, agv_harnessNote = harnessNote,
           agv_summary = gateSummary decision c (length verdicts) harnessNote\<rparr>))"

section \<open>Feedback to the developer\<close>

definition isBlocking :: "json \<Rightarrow> bool" where
  "isBlocking f \<longleftrightarrow> jsonField f ''severity'' = Some (JStr ''critical'') \<or> jsonField f ''severity'' = Some (JStr ''major'')"

definition findingLine :: "json \<Rightarrow> string" where
  "findingLine f =
     (let loc = (if jsTruthy (jsonField f ''file'')
        then templateText (jsonField f ''file'') @
          (if jsTruthy (jsonField f ''line'') then '':'' @ templateText (jsonField f ''line'') else [])
        else ''general'')
      in ''- ['' @ templateText (jsonField f ''severity'') @ ''] '' @ loc @ '' '' @ emDash @ '' '' @
         templateText (jsonField f ''message''))"

fun feedbackLines :: "reviewer_verdict list \<Rightarrow> string list" where
  "feedbackLines [] = []"
| "feedbackLines (v # vs) =
     (let blockingFindings = filter isBlocking (rvd_findings v)
      in (if blockingFindings = [] then []
          else [''### '' @ rvd_agentId v @ '' ('' @ rvd_harness v @ '')''] @ map findingLine blockingFindings @ [[]]) @
         feedbackLines vs)"

definition formatFeedback :: "reviewer_verdict list \<Rightarrow> string option" where
  "formatFeedback verdicts = (if JNull \<in> set (concat (map rvd_findings verdicts)) then None
     else Some (trim (joinWith newline (feedbackLines verdicts))))"

section \<open>One reviewer\<close>

definition syntheticFinding :: "string \<Rightarrow> json" where
  "syntheticFinding message = JObj [(''severity'', JStr ''critical''), (''message'', JStr message)]"

definition errorSuffix :: "string option \<Rightarrow> string" where
  "errorSuffix e = (if given e then '', error='' @ the e else [])"

definition coerceReviewerVerdict :: "string \<Rightarrow> subagent_result \<Rightarrow> reviewer_verdict" where
  "coerceReviewerVerdict agentId r =
     (let parsed = (case sub_parsed r of Some j \<Rightarrow> j | None \<Rightarrow> orElse (parseJson (sub_output r)) JNull)
      in if \<not> isJObject parsed
         then \<lparr>rvd_agentId = agentId, rvd_harness = ''claude-code'', rvd_approved = False,
           rvd_findings = [syntheticFinding (agentId @ '' returned no parseable verdict (status='' @ sub_status r @
             errorSuffix (sub_error r) @ '')'')],
           rvd_summary = None\<rparr>
         else \<lparr>rvd_agentId = agentId,
           rvd_harness = (case jsonField parsed ''harness'' of Some (JStr h) \<Rightarrow> h | _ \<Rightarrow> ''claude-code''),
           rvd_approved = jsTruthy (jsonField parsed ''approved''),
           rvd_findings = (case jsonField parsed ''findings'' of Some (JArr fs) \<Rightarrow> fs | _ \<Rightarrow> []),
           rvd_summary = (case jsonField parsed ''summary'' of Some (JStr s) \<Rightarrow> Some s | _ \<Rightarrow> None)\<rparr>)"

text \<open>\<open>findings.some(\<dots>)\<close>: the first match ends the search.\<close>

fun hasSentinel :: "json list \<Rightarrow> bool option" where
  "hasSentinel [] = Some False"
| "hasSentinel (f # fs) =
     (if f = JNull then None
      else if strIncludes (toLowerCase (templateText (jsonField f ''message''))) ''returned no parseable verdict''
      then Some True else hasSentinel fs)"

definition isDegenerateVerdict :: "reviewer_verdict \<Rightarrow> bool option" where
  "isDegenerateVerdict v =
     (if rvd_approved v then Some False
      else map_option (\<lambda>b. b \<or> rvd_findings v = [] \<and> \<not> given (rvd_summary v)) (hasSentinel (rvd_findings v)))"

definition timeoutVerdict :: "string \<Rightarrow> string \<Rightarrow> subagent_result \<Rightarrow> reviewer_verdict" where
  "timeoutVerdict agentId what r = \<lparr>rvd_agentId = agentId, rvd_harness = ''claude-code'', rvd_approved = False,
     rvd_findings = [syntheticFinding (agentId @ what @ '' (status=timeout'' @ errorSuffix (sub_error r) @ '')'')],
     rvd_summary = Some ''reviewer-timeout''\<rparr>"

definition spawnReviewerWithRetry :: "(nat \<Rightarrow> subagent_result option) \<Rightarrow> string \<Rightarrow> reviewer_verdict option" where
  "spawnReviewerWithRetry spawn agentId = (case spawn 1 of None \<Rightarrow> None | Some firstResult \<Rightarrow>
     if sub_status firstResult = ''timeout'' then Some (timeoutVerdict agentId '' timed out'' firstResult)
     else (let firstVerdict = coerceReviewerVerdict agentId firstResult
       in case isDegenerateVerdict firstVerdict of
            None \<Rightarrow> None
          | Some False \<Rightarrow> Some firstVerdict
          | Some True \<Rightarrow> (case spawn 2 of None \<Rightarrow> None | Some retryResult \<Rightarrow>
              if sub_status retryResult = ''timeout''
              then Some (timeoutVerdict agentId '' timed out on retry'' retryResult)
              else Some (coerceReviewerVerdict agentId retryResult))))"

section \<open>The loop\<close>

type_synonym spawner = "nat \<Rightarrow> string \<Rightarrow> nat \<Rightarrow> string \<Rightarrow> subagent_result option"

record review_job =
  rjb_taskId :: string
  rjb_task :: task_spec
  rjb_branch :: string
  rjb_worktreePath :: string
  rjb_spawner :: "spawner option"
  rjb_inputs :: "nat \<Rightarrow> review_inputs"
  rjb_parseError :: "string \<Rightarrow> string"

definition developerRound :: "review_job \<Rightarrow> spawner \<Rightarrow> nat \<Rightarrow> string \<Rightarrow> parse_result option" where
  "developerRound job spawn iteration feedback =
     (let devPrompt = buildDeveloperPrompt (rjb_taskId job) (rjb_task job) (rjb_branch job) (rjb_worktreePath job)
            (Some feedback) iteration
      in case spawn iteration ''developer'' 1 devPrompt of
           None \<Rightarrow> None
         | Some devResult \<Rightarrow> map_option fst
             (parseDeveloperReturnWithRetry (rjb_parseError job) (spawn iteration ''developer'' 2) devResult))"

definition reviewersRound :: "review_job \<Rightarrow> spawner \<Rightarrow> nat \<Rightarrow> string \<Rightarrow> aggregated_verdict option" where
  "reviewersRound job spawn iteration harnessNote =
     (let prompts = rvp_prompts (buildReviewPrompts (rjb_taskId job) (rjb_task job) (rjb_branch job)
            (rjb_worktreePath job) None (rjb_inputs job iteration))
      in case those (map (\<lambda>(reviewer, prompt). spawnReviewerWithRetry (\<lambda>attempt. spawn iteration reviewer attempt prompt)
                reviewer) prompts) of
           None \<Rightarrow> None
         | Some newVerdicts \<Rightarrow> aggregateVerdicts newVerdicts (Some harnessNote))"

text \<open>Where a run of the loop stands: the return and verdict it holds, the counter, and the calls of
  \<open>onIteration\<close> it has made.\<close>

record loop_run =
  lrn_developer :: json
  lrn_verdict :: aggregated_verdict
  lrn_iteration :: nat
  lrn_reported :: "(nat \<times> aggregated_verdict) list"

definition anotherRound :: "int \<Rightarrow> loop_run \<Rightarrow> bool" where
  "anotherRound maxIter st \<longleftrightarrow> int (lrn_iteration st) < maxIter \<and> agv_decision (lrn_verdict st) = CHANGES_REQUESTED"

text \<open>The body of the loop: the state after it, and whether it ended in \<open>break\<close>.\<close>

definition loopBody :: "review_job \<Rightarrow> string \<Rightarrow> loop_run \<Rightarrow> (loop_run \<times> bool) option" where
  "loopBody job harnessNote st = (case rjb_spawner job of
     None \<Rightarrow> Some (st, True)
   | Some spawn \<Rightarrow>
       (let iteration = lrn_iteration st + 1; st1 = st\<lparr>lrn_iteration := iteration\<rparr>
        in case formatFeedback (agv_verdicts (lrn_verdict st)) of None \<Rightarrow> None | Some feedback \<Rightarrow>
          (case developerRound job spawn iteration feedback of None \<Rightarrow> None | Some parsedDev \<Rightarrow>
            (case (pdr_ok parsedDev, pdr_developer parsedDev) of
               (True, Some developer) \<Rightarrow>
                 map_option (\<lambda>verdict. (st1\<lparr>lrn_developer := developer, lrn_verdict := verdict,
                     lrn_reported := lrn_reported st @ [(iteration, verdict)]\<rparr>, False))
                   (reviewersRound job spawn iteration harnessNote)
             | _ \<Rightarrow> Some (st1, True)))))"

function iterate :: "review_job \<Rightarrow> string \<Rightarrow> int \<Rightarrow> loop_run \<Rightarrow> loop_run option" where
  "iterate job harnessNote maxIter st =
     (if anotherRound maxIter st
      then (case loopBody job harnessNote st of
          None \<Rightarrow> None
        | Some (st', stop) \<Rightarrow> if stop then Some st' else iterate job harnessNote maxIter st')
      else Some st)"
  by pat_completeness auto

lemma loopBody_iteration:
  "loopBody job note st = Some (st', False) \<Longrightarrow> lrn_iteration st' = lrn_iteration st + 1"
  by (auto simp: loopBody_def Let_def split: option.splits bool.splits)

termination iterate
  by (relation "measure (\<lambda>(job, note, maxIter, st). nat (maxIter - int (lrn_iteration st)))")
    (auto simp: anotherRound_def dest: loopBody_iteration)

record loop_result =
  lrt_finalDeveloperReturn :: json
  lrt_finalVerdict :: aggregated_verdict
  lrt_iterations :: nat
  lrt_needsHumanAttention :: bool

definition iterateReviewLoop :: "review_job \<Rightarrow> int option \<Rightarrow> json \<Rightarrow> aggregated_verdict \<Rightarrow>
  (loop_result \<times> (nat \<times> aggregated_verdict) list) option" where
  "iterateReviewLoop job maxIterations initialDeveloperReturn initialVerdict =
     (let maxIter = orElse maxIterations 2
      in map_option (\<lambda>st. (\<lparr>lrt_finalDeveloperReturn = lrn_developer st, lrt_finalVerdict = lrn_verdict st,
             lrt_iterations = lrn_iteration st,
             lrt_needsHumanAttention = (agv_decision (lrn_verdict st) = CHANGES_REQUESTED \<and>
               maxIter \<le> int (lrn_iteration st))\<rparr>, lrn_reported st))
           (iterate job (agv_harnessNote initialVerdict) maxIter
             \<lparr>lrn_developer = initialDeveloperReturn, lrn_verdict = initialVerdict, lrn_iteration = 1,
              lrn_reported = [(1, initialVerdict)]\<rparr>))"

declare iterate.simps [simp del]

end
