(* ===== verification/PullRequest.thy ===== *)
theory PullRequest
  imports LateRebase ReviewLoop Branch
begin

text \<open>
  What a pipeline run does with its result, \<open>pipeline-cli/src/steps/\<close>: the final summary, the signing
  and the chore commit (\<open>10-finalize.ts\<close>), the push and the pull request (\<open>11-push-and-pr.ts\<close>) and the
  pull requests of sibling repositories (\<open>12-sibling-prs.ts\<close>). Commands go through the runner of
  \<open>LateRebase\<close>; the path of the signing script, when it is installed, is an argument, as is the move of
  the task file. The developer's return is the JSON object it sent.
\<close>

section \<open>Finalising\<close>

definition elements :: "json option \<Rightarrow> json list" where
  "elements v = (case v of Some (JArr xs) \<Rightarrow> xs | _ \<Rightarrow> [])"

definition fileBullets :: "json \<Rightarrow> string" where
  "fileBullets dev = (let fs = elements (jsonField dev ''filesChanged'')
     in if fs = [] then ''- (none)'' else joinWith newline (map (\<lambda>f. ''- '' @ jsText f) fs))"

definition notesOr :: "json \<Rightarrow> string" where
  "notesOr dev = (let n = jsonField dev ''notes'' in if n = None \<or> n = Some JNull then ''(none)'' else templateText n)"

definition verificationLine :: "json \<Rightarrow> string \<Rightarrow> string \<Rightarrow> string" where
  "verificationLine dev cmd key = ''- '' @ ticked cmd @ '' '' @ emDash @ '' '' @
     templateText (Option.bind (jsonField dev ''verifications'') (\<lambda>v. jsonField v key)) @ newline"

definition buildFinalSummary :: "task_spec \<Rightarrow> json \<Rightarrow> aggregated_verdict \<Rightarrow> string \<times> json list" where
  "buildFinalSummary task dev verdict =
     (''## Summary'' @ newline @ templateText (jsonField dev ''summary'') @ blankLine @
      ''## Changes'' @ newline @ fileBullets dev @ blankLine @
      ''## Design decisions'' @ newline @ notesOr dev @ blankLine @
      ''## Verification'' @ newline @
      verificationLine dev ''pnpm build'' ''build'' @ verificationLine dev ''pnpm test'' ''test'' @
      verificationLine dev ''pnpm lint'' ''lint'' @ verificationLine dev ''pnpm format:check'' ''format'' @
      ''- 3 parallel reviews approved'' @
        (if agv_harnessNote verdict = [] then [] else '' ('' @ agv_harnessNote verdict @ '')'') @ blankLine @
      ''## Follow-up'' @ newline @ notesOr dev @ newline,
      (let met = elements (jsonField dev ''acceptanceCriteriaMet'')
       in if met \<noteq> [] then met else map (\<lambda>i. JNum (int (i + 1))) [0..<length (spec_acceptanceCriteria task)]))"

text \<open>\<open>/\.ai-sdlc\/attestations\/[a-f0-9]+(?:\.v6)?\.dsse\.json/\<close>.\<close>

definition isHexLower :: "char \<Rightarrow> bool" where
  "isHexLower c \<longleftrightarrow> isDigit c \<or> c \<in> set ''abcdef''"

definition attestationAt :: "string \<Rightarrow> string option" where
  "attestationAt s =
     (let p = ''.ai-sdlc/attestations/''; h = takeWhile isHexLower (drop (length p) s); rest = drop (length p + length h) s
      in if \<not> startsWith s p \<or> h = [] then None
         else if startsWith rest ''.v6.dsse.json'' then Some (p @ h @ ''.v6.dsse.json'')
         else if startsWith rest ''.dsse.json'' then Some (p @ h @ ''.dsse.json'') else None)"

fun attestationIn :: "string \<Rightarrow> string option" where
  "attestationIn [] = None"
| "attestationIn (c # s) = (case attestationAt (c # s) of Some p \<Rightarrow> Some p | None \<Rightarrow> attestationIn s)"

datatype source_kind = Backlog | GhIssue

record finalize_result =
  fzr_finalSummary :: string
  fzr_acceptanceCriteriaCheck :: "json list"
  fzr_attestationPath :: "string option"
  fzr_choreCommitSha :: "string option"
  fzr_skipped :: bool

definition coAuthor :: string where
  "coAuthor = ''Co-Authored-By: Claude Opus 4.6 (1M context) <noreply@anthropic.com>'' @ newline"

definition choreMessage :: "string \<Rightarrow> source_kind \<Rightarrow> string option \<Rightarrow> string" where
  "choreMessage taskId kind attestation =
     (if kind = GhIssue
      then ''chore: sign attestation for '' @ taskId @ blankLine @
        ''Auto-generated by /ai-sdlc execute (GH-issue path). Reviews approved.'' @ newline @
        (case attestation of
           Some p \<Rightarrow> ''Signed review attestation at '' @ p @ '' (AISDLC-74) so CI's '' @
             ''verify-attestation workflow can skip the duplicate review run.'' @ blankLine
         | None \<Rightarrow> newline)
      else ''chore: mark '' @ taskId @ '' complete'' @ blankLine @
        ''Auto-generated by /ai-sdlc execute. Reviews approved; task lifecycle landed in this PR.'' @ newline @
        (case attestation of
           Some p \<Rightarrow> ''Signed review attestation included at '' @ p @ '' (AISDLC-74) so CI's '' @
             ''verify-attestation workflow can skip the duplicate review run.'' @ blankLine
         | None \<Rightarrow> newline)) @ coAuthor"

definition signAttestation :: "'w git_io \<Rightarrow> string option \<Rightarrow> 'w \<Rightarrow> string option \<times> 'w" where
  "signAttestation io signer w = (case signer of
     None \<Rightarrow> (None, w)
   | Some script \<Rightarrow> (let (signResult, w1) = gio_run io ''node'' [script] w
       in (if xr_code signResult = 0 then attestationIn (xr_stdout signResult) else None, w1)))"

definition choreCommit :: "'w git_io \<Rightarrow> string \<Rightarrow> source_kind \<Rightarrow> string option \<Rightarrow> 'w \<Rightarrow> string option \<times> 'w" where
  "choreCommit io taskId kind attestation w =
     (let addArgs = [''add''] @ (if kind = GhIssue then [] else [''backlog/tasks'', ''backlog/completed'']) @
            (if given attestation then [''.ai-sdlc/attestations''] else [])
      in if length addArgs \<le> 1 then (None, w)
         else (let w1 = snd (git io addArgs w);
                   (committed, w2) = git io [''commit'', ''-m'', choreMessage taskId kind attestation] w1
           in if xr_code committed \<noteq> 0 then (None, w2)
              else (let (sha, w3) = git io [''rev-parse'', ''--short'', ''HEAD''] w2
                in (if xr_code sha = 0 then Some (trim (xr_stdout sha)) else None, w3))))"

text \<open>The move of the task file to \<open>completed/\<close> is the argument \<open>completeTask\<close>; its errors are thrown.\<close>

definition finalizeTask :: "'w git_io \<Rightarrow> string option \<Rightarrow> ('w \<Rightarrow> string option \<times> 'w) \<Rightarrow> string \<Rightarrow> task_spec \<Rightarrow> json \<Rightarrow>
  aggregated_verdict \<Rightarrow> source_kind \<Rightarrow> bool \<Rightarrow> 'w \<Rightarrow> (string + finalize_result) \<times> 'w" where
  "finalizeTask io signer completeTask taskId task dev verdict kind skipCommit w =
     (if agv_decision verdict \<noteq> APPROVED
      then (Inr \<lparr>fzr_finalSummary = [], fzr_acceptanceCriteriaCheck = [], fzr_attestationPath = None,
        fzr_choreCommitSha = None, fzr_skipped = True\<rparr>, w)
      else (let (summary, check) = buildFinalSummary task dev verdict;
                (moveError, w1) = (if kind = GhIssue then (None, w) else completeTask w)
        in case moveError of
             Some e \<Rightarrow> (Inl e, w1)
           | None \<Rightarrow>
               (let (attestation, w2) = signAttestation io signer w1;
                    (sha, w3) = (if skipCommit then (None, w2) else choreCommit io taskId kind attestation w2)
                in (Inr \<lparr>fzr_finalSummary = summary, fzr_acceptanceCriteriaCheck = check, fzr_attestationPath = attestation,
                      fzr_choreCommitSha = sha, fzr_skipped = False\<rparr>, w3))))"

section \<open>Title and body\<close>

text \<open>\<open>s.replace(/p/g, r)\<close> for a literal \<open>p\<close>: dollar patterns of the replacement stand for the match and
  for what is before and after it.\<close>

fun expandDollars :: "string \<Rightarrow> string \<Rightarrow> string \<Rightarrow> string \<Rightarrow> string" where
  "expandDollars m before after [] = []"
| "expandDollars m before after [c] = [c]"
| "expandDollars m before after (c # d # r) =
     (if c \<noteq> CHR ''$'' then c # expandDollars m before after (d # r)
      else if d = CHR ''$'' then CHR ''$'' # expandDollars m before after r
      else if d = CHR ''&'' then m @ expandDollars m before after r
      else if d = CHR 96 then before @ expandDollars m before after r
      else if d = CHR 39 then after @ expandDollars m before after r
      else c # expandDollars m before after (d # r))"

function substitute :: "string \<Rightarrow> string \<Rightarrow> string \<Rightarrow> string \<Rightarrow> string" where
  "substitute p r before [] = []"
| "substitute p r before (c # s) =
     (if p \<noteq> [] \<and> startsWith (c # s) p
      then (let after = drop (length p) (c # s) in expandDollars p before after r @ substitute p r (before @ p) after)
      else c # substitute p r (before @ [c]) s)"
  by pat_completeness auto
termination
  by (relation "measure (\<lambda>(p, r, before, s). length s)") (auto simp: length_greater_0_conv [symmetric] simp del: length_greater_0_conv)

definition DEFAULT_TITLE_TEMPLATE :: string where
  "DEFAULT_TITLE_TEMPLATE = ''feat: {issueTitle} ({issueId})''"

definition titleDeprecation :: string where
  "titleDeprecation = ''[ai-sdlc] DEPRECATION: reading pullRequest.titleTemplate from .ai-sdlc/pipeline-backlog.yaml. '' @
     ''Migrate this setting to .ai-sdlc/pipeline.yaml under spec.backlog.pullRequest.titleTemplate. '' @
     ''pipeline-backlog.yaml will be removed in the next major release (AISDLC-245.5).''"

definition readTitleTemplate :: "yaml_loader \<Rightarrow> config_files \<Rightarrow> string \<times> string list" where
  "readTitleTemplate yamlLoad cfg =
     (let key = [''pullRequest'', ''titleTemplate'']
      in case Option.bind (cf_pipelineYaml cfg) (\<lambda>raw. nonEmptyString (parsePipelineBacklogKey yamlLoad raw key)) of
           Some tpl \<Rightarrow> (tpl, [])
         | None \<Rightarrow> (case Option.bind (cf_legacyYaml cfg) (\<lambda>raw. nonEmptyString (parseLegacyKey yamlLoad raw key)) of
             Some tpl \<Rightarrow> (tpl, [titleDeprecation])
           | None \<Rightarrow> (DEFAULT_TITLE_TEMPLATE, [])))"

text \<open>A run for a GitHub issue has its number; \<open>None\<close> stands for a run for a backlog task and for one whose
  number was not given.\<close>

definition issueOf :: "source_kind \<Rightarrow> nat option \<Rightarrow> nat option" where
  "issueOf kind issueNumber = (if kind = GhIssue then issueNumber else None)"

definition composeTitle :: "string \<Rightarrow> string \<Rightarrow> string \<Rightarrow> bool \<Rightarrow> nat option \<Rightarrow> string" where
  "composeTitle tpl taskId taskTitle needsHumanAttention issue =
     (let tagged = (if needsHumanAttention then taskTitle @ '' [needs-human-attention]'' else taskTitle);
          idReplacement = (case issue of Some n \<Rightarrow> ''closes #'' @ showNat n | None \<Rightarrow> taskId)
      in substitute ''{issueId}'' idReplacement [] (substitute ''{issueTitle}'' tagged [] tpl))"

definition composeBody :: "string \<Rightarrow> json \<Rightarrow> aggregated_verdict \<Rightarrow> bool \<Rightarrow> nat option \<Rightarrow> string" where
  "composeBody taskId dev verdict needsHumanAttention issue =
     (if needsHumanAttention
      then ''> **'' @ [CHR 0xE2, CHR 0x9A, CHR 0xA0] @ '' This PR exceeded the auto-iteration cap with unresolved review '' @
        ''findings. Human review/intervention requested.**'' @ blankLine
      else []) @
     (case issue of Some n \<Rightarrow> ''Closes #'' @ showNat n @ blankLine | None \<Rightarrow> []) @
     templateText (jsonField dev ''summary'') @ blankLine @
     ''## Changed files'' @ newline @ fileBullets dev @ newline @
     (case List.find (\<lambda>v. rvd_agentId v = ''code-reviewer'') (agv_verdicts verdict) of
        None \<Rightarrow> []
      | Some reviewer \<Rightarrow> newline @ ''<details>'' @ newline @ ''<summary>Code reviewer verdict</summary>'' @ blankLine @
          orElse (rvd_summary reviewer) ''(no summary)'' @ blankLine @ ''</details>'' @ newline) @
     (case issue of Some n \<Rightarrow> newline @ ''Closes #'' @ showNat n @ newline
      | None \<Rightarrow> newline @ ''References '' @ taskId @ newline)"

section \<open>Push and pull request\<close>

record push_result =
  psr_pushed :: bool
  psr_prUrl :: "string option"
  psr_reason :: "string option"
  psr_rebaseConflict :: "(string list \<times> string) option"

definition orUnknown :: "exec_output \<Rightarrow> string" where
  "orUnknown x = orText (outputOf x) ''unknown error''"

definition lastLine :: "string \<Rightarrow> string" where
  "lastLine s = trim (last (splitOn (CHR 10) (trim s)))"

definition resignMessage :: "string list \<Rightarrow> string" where
  "resignMessage files = ''chore(spec): re-sign attestation after late-rebase auto-resolve (AISDLC-232)'' @ blankLine @
     ''Late-rebase resolved '' @ joinWith '', '' files @ '' '' @ emDash @ '' HEAD blob SHAs shifted.'' @ newline @
     ''Refreshed DSSE envelope so verify-attestation.yml sees a valid contentHashV4.'' @ blankLine @ coAuthor"

definition resignAfterRebase :: "'w git_io \<Rightarrow> string option \<Rightarrow> string list \<Rightarrow> 'w \<Rightarrow> 'w" where
  "resignAfterRebase io signer files w = (case signer of
     None \<Rightarrow> w
   | Some script \<Rightarrow>
       if files = [] then w
       else (let (signResult, w1) = gio_run io ''node'' [script] w
         in if xr_code signResult \<noteq> 0 then w1
            else snd (git io [''commit'', ''-m'', resignMessage files] (snd (git io [''add'', ''.ai-sdlc/attestations''] w1)))))"

definition pushAndPr :: "'w git_io \<Rightarrow> string option \<Rightarrow> string \<Rightarrow> string \<Rightarrow> string \<Rightarrow> string \<Rightarrow> json \<Rightarrow> aggregated_verdict \<Rightarrow> bool \<Rightarrow>
  nat option \<Rightarrow> 'w \<Rightarrow> push_result \<times> 'w" where
  "pushAndPr io signer titleTemplate taskId branch taskTitle dev verdict needsHumanAttention issue w =
     (let (rebase, w1) = lateRebase io None w
      in if \<not> rbr_ok rebase
         then (\<lparr>psr_pushed = False, psr_prUrl = None, psr_reason = rbr_reason rebase,
           psr_rebaseConflict = Some (rbr_conflictingFiles rebase, orElse (rbr_reason rebase) ''late-rebase failed'')\<rparr>, w1)
         else (let (pushed, w2) = git io [''push'', ''-u'', ''origin'', branch]
                 (resignAfterRebase io signer (rbr_resolvedFiles rebase) w1)
           in if xr_code pushed \<noteq> 0
              then (let err = trim (xr_stderr pushed); lower = toLowerCase err
                in (\<lparr>psr_pushed = False, psr_prUrl = None,
                  psr_reason = Some (if strIncludes lower ''non-fast-forward'' \<or> strIncludes lower ''rejected''
                    then ''non-fast-forward push to '' @ [CHR 39] @ branch @
                      [CHR 39] @ ''; cleanup is to delete the remote branch and rerun, '' @
                      ''but that's destructive '' @ emDash @ '' confirm with the operator first''
                    else ''git push failed: '' @ orUnknown pushed),
                  psr_rebaseConflict = None\<rparr>, w2))
              else (let title = composeTitle titleTemplate taskId taskTitle needsHumanAttention issue;
                        body = composeBody taskId dev verdict needsHumanAttention issue;
                        (created, w3) = gio_run io ''gh'' [''pr'', ''create'', ''--draft'', ''--title'', title, ''--body'', body,
                          ''--base'', ''main'', ''--head'', branch] w2
                in if xr_code created \<noteq> 0
                   then (\<lparr>psr_pushed = True, psr_prUrl = None, psr_reason = Some (''gh pr create failed: '' @ orUnknown created),
                     psr_rebaseConflict = None\<rparr>, w3)
                   else (\<lparr>psr_pushed = True, psr_prUrl = Some (lastLine (xr_stdout created)), psr_reason = None,
                     psr_rebaseConflict = None\<rparr>, w3))))"

section \<open>Sibling repositories\<close>

record sibling_pr =
  sib_repo :: "json option"
  sib_branch :: string
  sib_prUrl :: "string option"
  sib_reason :: "string option"

definition siblingSkipped :: "json option \<Rightarrow> string \<Rightarrow> string \<Rightarrow> sibling_pr" where
  "siblingSkipped repo branchName reason = \<lparr>sib_repo = repo, sib_branch = branchName, sib_prUrl = None, sib_reason = Some reason\<rparr>"

text \<open>From the checkout on; \<open>Inl\<close> is thrown when the files are no array (a text in their place, which is
  spread before it throws, is left out). A file that is no text is given to git as its text.\<close>

definition siblingPublish :: "'w git_io \<Rightarrow> string \<Rightarrow> string \<Rightarrow> json \<Rightarrow> string \<Rightarrow> string \<Rightarrow> string \<Rightarrow> json \<Rightarrow> 'w \<Rightarrow>
  (string + sibling_pr) \<times> 'w" where
  "siblingPublish io taskId taskTitle dev mainPrUrl repo nameWithOwner ext w =
     (let branchName = ''ai-sdlc/'' @ toLowerCase taskId @ ''-sibling'';
          skipped = (\<lambda>reason. Inr (siblingSkipped (jsonField ext ''repo'') branchName reason));
          title = ''feat: '' @ taskTitle @ '' '' @ emDash @ '' sibling for '' @ taskId;
          (checkout, w1) = git io [''-C'', repo, ''checkout'', ''-b'', branchName] w
      in if xr_code checkout \<noteq> 0 then (skipped (''git checkout -b failed: '' @ trim (xr_stderr checkout)), w1)
         else (case jsonField ext ''files'' of
             Some (JArr files) \<Rightarrow>
               (let w2 = snd (git io ([''-C'', repo, ''add'', ''--''] @ map jsText files) w1);
                    (committed, w3) = git io [''-C'', repo, ''commit'', ''-m'', title @ blankLine @ ''Companion changes for '' @
                      mainPrUrl @ ''.'' @ blankLine @ coAuthor] w2
                in if xr_code committed \<noteq> 0 then (skipped (''git commit failed: '' @ trim (xr_stderr committed)), w3)
                   else (let (pushed, w4) = git io [''-C'', repo, ''push'', ''-u'', ''origin'', branchName] w3
                     in if xr_code pushed \<noteq> 0 then (skipped (''git push failed: '' @ trim (xr_stderr pushed)), w4)
                        else (let filesList = joinWith newline (map (\<lambda>f. ''- '' @ jsText f) files);
                                  body = ''Companion PR for '' @ mainPrUrl @ '' ('' @ taskId @ '').'' @ blankLine @
                                    templateText (jsonField dev ''summary'') @ blankLine @
                                    ''## Files changed'' @ newline @ orText filesList ''- (none)'' @ newline;
                                  (created, w5) = gio_run io ''gh'' [''-R'', nameWithOwner, ''pr'', ''create'', ''--title'', title,
                                    ''--body'', body, ''--base'', ''main'', ''--head'', branchName] w4
                          in if xr_code created \<noteq> 0 then (skipped (''gh pr create failed: '' @ outputOf created), w5)
                             else (Inr \<lparr>sib_repo = jsonField ext ''repo'', sib_branch = branchName,
                               sib_prUrl = Some (lastLine (xr_stdout created)), sib_reason = None\<rparr>, w5))))
           | _ \<Rightarrow> (Inl ''Spread syntax requires ...iterable[Symbol.iterator] to be a function'', w1)))"

definition siblingPr :: "'w git_io \<Rightarrow> string \<Rightarrow> string \<Rightarrow> json \<Rightarrow> string \<Rightarrow> json \<Rightarrow> 'w \<Rightarrow> (string + sibling_pr) \<times> 'w" where
  "siblingPr io taskId taskTitle dev mainPrUrl ext w =
     (let branchName = ''ai-sdlc/'' @ toLowerCase taskId @ ''-sibling'';
          skipped = (\<lambda>reason. Inr (siblingSkipped (jsonField ext ''repo'') branchName reason))
      in if ext = JNull then (Inl ''Cannot read properties of null (reading 'repo')'', w)
         else (case jsonField ext ''repo'' of
             Some (JStr repo) \<Rightarrow>
               (let (isRepo, w1) = git io [''-C'', repo, ''rev-parse'', ''--show-toplevel''] w
                in if xr_code isRepo \<noteq> 0 then (skipped ''not a git repository'', w1)
                   else (let (status, w2) = git io [''-C'', repo, ''status'', ''--porcelain''] w1
                     in if xr_code status \<noteq> 0 \<or> trim (xr_stdout status) = []
                        then (skipped ''no dirty files in sibling repo'', w2)
                        else (let (repoView, w3) = gio_run io ''gh'' [''-R'', ''.'', ''repo'', ''view'', ''--json'', ''nameWithOwner'',
                                ''-q'', ''.nameWithOwner''] w2
                          in if xr_code repoView \<noteq> 0
                             then (skipped (''gh auth not configured for sibling repo ('' @
                               orText (trim (xr_stderr repoView)) ''unknown'' @ '')''), w3)
                             else siblingPublish io taskId taskTitle dev mainPrUrl repo (trim (xr_stdout repoView)) ext w3)))
           | _ \<Rightarrow> (skipped ''not a git repository'', w)))"

fun siblingLoop :: "'w git_io \<Rightarrow> string \<Rightarrow> string \<Rightarrow> json \<Rightarrow> string \<Rightarrow> json list \<Rightarrow> 'w \<Rightarrow> (string + sibling_pr list) \<times> 'w" where
  "siblingLoop io taskId taskTitle dev mainPrUrl [] w = (Inr [], w)"
| "siblingLoop io taskId taskTitle dev mainPrUrl (ext # exts) w =
     (case siblingPr io taskId taskTitle dev mainPrUrl ext w of
        (Inl e, w1) \<Rightarrow> (Inl e, w1)
      | (Inr pr, w1) \<Rightarrow> (case siblingLoop io taskId taskTitle dev mainPrUrl exts w1 of
            (Inl e, w2) \<Rightarrow> (Inl e, w2)
          | (Inr prs, w2) \<Rightarrow> (Inr (pr # prs), w2)))"

text \<open>\<open>filesChangedExternal\<close> is nobody's required field: when it is there and is not an array, looping over
  it throws.\<close>

definition siblingPrs :: "'w git_io \<Rightarrow> string \<Rightarrow> string \<Rightarrow> json \<Rightarrow> string \<Rightarrow> 'w \<Rightarrow> (string + sibling_pr list) \<times> 'w" where
  "siblingPrs io taskId taskTitle dev mainPrUrl w = (case jsonField dev ''filesChangedExternal'' of
     None \<Rightarrow> (Inr [], w)
   | Some JNull \<Rightarrow> (Inr [], w)
   | Some (JArr externals) \<Rightarrow> siblingLoop io taskId taskTitle dev mainPrUrl externals w
   | Some (JStr t) \<Rightarrow> siblingLoop io taskId taskTitle dev mainPrUrl (map (\<lambda>c. JStr [c]) t) w
   | Some v \<Rightarrow> (Inl ''externals is not iterable'', w))"

end
