(* ===== verification/PipelineRun.thy ===== *)
theory PipelineRun
  imports PullRequest
begin

text \<open>
  One pipeline run, \<open>pipeline-cli/src/execute-pipeline.ts\<close>: \<open>executePipeline\<close> from the checked task to
  its result. The steps that prepare the checkout (\<open>03-setup-worktree\<close>, \<open>04-flip-status\<close>), the
  removal of sentinel and synthetic file (\<open>13-cleanup\<close>) and what the subagents do to the checkout are
  functions on the world, given with the runner; so are the task of a backlog run (\<open>01-validate\<close>)
  and the branch (\<open>computeBranchName\<close>). An error they throw is \<open>Inl\<close> of its message; the errors of
  spawns and of reading verdicts are one message, \<open>thrown\<close>. The sweep of old worktrees before the
  run, progress messages and callbacks are left out.
\<close>

section \<open>Options, environment, result\<close>

record 'w pipeline_env =
  env_io :: "'w git_io"
  env_signer :: "string option"
  env_validate :: "string + task_spec"
  env_branch :: branch_result
  env_setup :: "'w \<Rightarrow> (string + unit) \<times> 'w"
  env_begin :: "'w \<Rightarrow> (string + unit) \<times> 'w"
  env_subagents :: "'w \<Rightarrow> 'w"
  env_worktreeExists :: "'w \<Rightarrow> bool"
  env_completeTask :: "'w \<Rightarrow> string option \<times> 'w"
  env_removeSynthetic :: "'w \<Rightarrow> 'w"
  env_cleanup :: "'w \<Rightarrow> (string + unit) \<times> 'w"
  env_spawn :: spawner
  env_spawnParallel :: "(string \<times> string) list \<Rightarrow> subagent_result list option"
  env_inputs :: "nat \<Rightarrow> review_inputs"
  env_titleTemplate :: string
  env_parseError :: "string \<Rightarrow> string"
  env_thrown :: string

record pipeline_options =
  plo_taskId :: string
  plo_workDir :: string
  plo_maxReviewIterations :: "int option"
  plo_skipFinalizeCommit :: bool
  plo_sourceKind :: source_kind
  plo_taskSpec :: "task_spec option"
  plo_issueNumber :: "nat option"

datatype pipeline_outcome = Approved | NeedsHumanAttention | DeveloperFailed | DeveloperJsonContractViolated
  | Aborted | RebaseConflict

record pipeline_report =
  plt_branch :: string
  plt_worktreePath :: string
  plt_outcome :: pipeline_outcome
  plt_prUrl :: "string option"
  plt_siblingPrUrls :: "string list"
  plt_iterations :: nat
  plt_finalVerdict :: "aggregated_verdict option"
  plt_notes :: "string option"

text \<open>The local variables of \<open>executePipeline\<close> that its \<open>catch\<close> and \<open>finally\<close> see.\<close>

record run_vars =
  rvs_outcome :: pipeline_outcome
  rvs_prUrl :: "string option"
  rvs_siblingPrUrls :: "string list"
  rvs_iterationsTotal :: nat
  rvs_finalAggregated :: "aggregated_verdict option"
  rvs_aborted :: "string option"
  rvs_worktreeCreated :: bool
  rvs_setupCompleted :: bool

definition initialVars :: run_vars where
  "initialVars = \<lparr>rvs_outcome = Aborted, rvs_prUrl = None, rvs_siblingPrUrls = [], rvs_iterationsTotal = 0,
     rvs_finalAggregated = None, rvs_aborted = None, rvs_worktreeCreated = False, rvs_setupCompleted = False\<rparr>"

section \<open>Validation of an inline task\<close>

definition validateInlineTaskSpec :: "task_spec \<Rightarrow> string option" where
  "validateInlineTaskSpec spec =
     (if trim (spec_title spec) = [] then Some ''inline TaskSpec validation: title is empty''
      else if spec_acceptanceCriteria spec = []
      then Some ''inline TaskSpec validation: at least one acceptance criterion is required''
      else None)"

definition abortWith :: "string \<Rightarrow> string \<Rightarrow> aggregated_verdict option \<Rightarrow> string \<Rightarrow> pipeline_outcome \<Rightarrow> pipeline_report" where
  "abortWith branch worktreePath finalVerdict reason outcome = \<lparr>plt_branch = branch, plt_worktreePath = worktreePath,
     plt_outcome = outcome, plt_prUrl = None, plt_siblingPrUrls = [], plt_iterations = 0,
     plt_finalVerdict = finalVerdict, plt_notes = Some reason\<rparr>"

section \<open>Developer and reviewers of the first round\<close>

definition reviewJob :: "'w pipeline_env \<Rightarrow> pipeline_options \<Rightarrow> task_spec \<Rightarrow> review_job" where
  "reviewJob env opts task = \<lparr>rjb_taskId = plo_taskId opts, rjb_task = task, rjb_branch = br_branch (env_branch env),
     rjb_worktreePath = br_worktreePath (env_branch env), rjb_spawner = Some (env_spawn env),
     rjb_inputs = env_inputs env, rjb_parseError = env_parseError env\<rparr>"

definition firstDeveloper :: "'w pipeline_env \<Rightarrow> pipeline_options \<Rightarrow> task_spec \<Rightarrow> parse_result option" where
  "firstDeveloper env opts task =
     (let branch = env_branch env;
          devPrompt = buildDeveloperPrompt (plo_taskId opts) task (br_branch branch) (br_worktreePath branch) None 1
      in case env_spawn env 1 ''developer'' 1 devPrompt of
           None \<Rightarrow> None
         | Some devSpawn \<Rightarrow> map_option fst
             (parseDeveloperReturnWithRetry (env_parseError env) (env_spawn env 1 ''developer'' 2) devSpawn))"

text \<open>The answers of \<open>spawnParallel\<close> are read by position; an answer beyond the third has no agent.\<close>

definition firstReviews :: "'w pipeline_env \<Rightarrow> pipeline_options \<Rightarrow> task_spec \<Rightarrow> aggregated_verdict option" where
  "firstReviews env opts task =
     (let reviewBuild = buildReviewPrompts (plo_taskId opts) task (br_branch (env_branch env)) (plo_workDir opts) None
            (env_inputs env 1)
      in case env_spawnParallel env (rvp_prompts reviewBuild) of
           None \<Rightarrow> None
         | Some results \<Rightarrow> aggregateVerdicts
             (map (\<lambda>(i, r). coerceReviewerVerdict (if i < length REVIEWERS then REVIEWERS ! i else ''undefined'') r)
               (enumerate 0 results))
             (Some (rvp_harnessNote reviewBuild)))"

section \<open>Arming auto-merge\<close>

text \<open>\<open>/\/pull\/(\d+)/\<close>, and the number read and printed again (below 2 to the 53).\<close>

fun prNumber :: "string \<Rightarrow> string option" where
  "prNumber [] = None"
| "prNumber (c # s) =
     (let ds = takeWhile isDigit (drop 6 (c # s))
      in if startsWith (c # s) ''/pull/'' \<and> ds \<noteq> [] then Some (showNat (natOfDigits 0 ds)) else prNumber s)"

definition armAutoMerge :: "'w git_io \<Rightarrow> string \<Rightarrow> 'w \<Rightarrow> 'w" where
  "armAutoMerge io prUrl w = (case prNumber prUrl of
     None \<Rightarrow> w
   | Some n \<Rightarrow> snd (gio_run io ''gh'' [''pr'', ''merge'', n, ''--auto''] (snd (gio_run io ''gh'' [''pr'', ''ready'', n] w))))"

section \<open>From the verdict to the pull request\<close>

definition conflictNote :: "string list \<times> string \<Rightarrow> string" where
  "conflictNote c = ''rebase-conflict: '' @ snd c @
     (if fst c = [] then [] else ''; conflicting files: '' @ joinWith '', '' (fst c))"

definition recordPush :: "bool \<Rightarrow> push_result \<Rightarrow> run_vars \<Rightarrow> run_vars" where
  "recordPush needsHumanAttention push vars =
     (if \<not> psr_pushed push
      then (case psr_rebaseConflict push of
          Some c \<Rightarrow> vars\<lparr>rvs_outcome := RebaseConflict, rvs_aborted := Some (conflictNote c)\<rparr>
        | None \<Rightarrow> vars\<lparr>rvs_aborted := Some (orElse (psr_reason push) ''push failed'')\<rparr>)
      else if \<not> given (psr_prUrl push)
      then vars\<lparr>rvs_aborted := Some (orElse (psr_reason push) ''PR creation failed'')\<rparr>
      else vars\<lparr>rvs_prUrl := psr_prUrl push,
        rvs_outcome := (if needsHumanAttention then NeedsHumanAttention else Approved)\<rparr>)"

definition threw :: "string \<Rightarrow> run_vars \<Rightarrow> run_vars" where
  "threw message vars = vars\<lparr>rvs_aborted := Some message, rvs_outcome := Aborted\<rparr>"

text \<open>After the push: auto-merge and the sibling repositories.\<close>

definition afterPush :: "'w pipeline_env \<Rightarrow> pipeline_options \<Rightarrow> task_spec \<Rightarrow> json \<Rightarrow> run_vars \<Rightarrow> 'w \<Rightarrow> run_vars \<times> 'w" where
  "afterPush env opts task dev vars w = (case rvs_prUrl vars of
     None \<Rightarrow> (vars, w)
   | Some url \<Rightarrow>
       (case siblingPrs (env_io env) (plo_taskId opts) (spec_title task) dev url
           (if rvs_outcome vars = Approved then armAutoMerge (env_io env) url w else w) of
          (Inl e, w1) \<Rightarrow> (threw e vars, w1)
        | (Inr prs, w1) \<Rightarrow>
            (vars\<lparr>rvs_siblingPrUrls := List.map_filter (\<lambda>p. if given (sib_prUrl p) then sib_prUrl p else None) prs\<rparr>, w1)))"

definition publish :: "'w pipeline_env \<Rightarrow> pipeline_options \<Rightarrow> task_spec \<Rightarrow> loop_result \<Rightarrow> run_vars \<Rightarrow> 'w \<Rightarrow> run_vars \<times> 'w" where
  "publish env opts task loop vars w =
     (let io = env_io env; dev = lrt_finalDeveloperReturn loop; verdict = lrt_finalVerdict loop;
          (finalized, w1) = finalizeTask io (env_signer env) (env_completeTask env) (plo_taskId opts) task dev verdict
            (plo_sourceKind opts) (plo_skipFinalizeCommit opts) w
      in case finalized of
           Inl e \<Rightarrow> (threw e vars, w1)
         | Inr _ \<Rightarrow>
             (let (push, w2) = pushAndPr io (env_signer env) (env_titleTemplate env) (plo_taskId opts)
                    (br_branch (env_branch env)) (spec_title task) dev verdict (lrt_needsHumanAttention loop)
                    (issueOf (plo_sourceKind opts) (plo_issueNumber opts)) (env_removeSynthetic env w1)
              in afterPush env opts task dev (recordPush (lrt_needsHumanAttention loop) push vars) w2))"

section \<open>The run\<close>

text \<open>From the developer's accepted return to the end of the \<open>try\<close>.\<close>

definition reviewAndPublish :: "'w pipeline_env \<Rightarrow> pipeline_options \<Rightarrow> task_spec \<Rightarrow> json \<Rightarrow> run_vars \<Rightarrow> 'w \<Rightarrow> run_vars \<times> 'w" where
  "reviewAndPublish env opts task dev vars w =
     (case Option.bind (firstReviews env opts task) (\<lambda>v. map_option fst (iterateReviewLoop
          (reviewJob env opts task) (Some (orElse (plo_maxReviewIterations opts) 2)) dev v)) of
        None \<Rightarrow> (threw (env_thrown env) vars, w)
      | Some loop \<Rightarrow> publish env opts task loop
          (vars\<lparr>rvs_iterationsTotal := lrt_iterations loop, rvs_finalAggregated := Some (lrt_finalVerdict loop)\<rparr>)
          (env_subagents env w))"

text \<open>The body of the \<open>try\<close> after the checkout is prepared, and all of it; with the variables goes the
  result when the body returns one.\<close>

definition develop :: "'w pipeline_env \<Rightarrow> pipeline_options \<Rightarrow> task_spec \<Rightarrow> run_vars \<Rightarrow> 'w \<Rightarrow>
  (run_vars \<times> pipeline_report option) \<times> 'w" where
  "develop env opts task vars w = (case firstDeveloper env opts task of
     None \<Rightarrow> ((threw (env_thrown env) vars, None), w)
   | Some parsedDev \<Rightarrow>
       (case (pdr_ok parsedDev, pdr_developer parsedDev) of
          (True, Some dev) \<Rightarrow> (let (vars', w') = reviewAndPublish env opts task dev vars w in ((vars', None), w'))
        | _ \<Rightarrow>
            (let reason = orElse (pdr_reason parsedDev) ''developer subagent failed'';
                 failOutcome = (if pdr_contractViolation parsedDev then DeveloperJsonContractViolated else DeveloperFailed)
             in ((vars\<lparr>rvs_aborted := Some reason, rvs_outcome := failOutcome\<rparr>,
                  Some (abortWith (br_branch (env_branch env)) (br_worktreePath (env_branch env)) None reason failOutcome)), w))))"

definition runBody :: "'w pipeline_env \<Rightarrow> pipeline_options \<Rightarrow> task_spec \<Rightarrow> 'w \<Rightarrow>
  (run_vars \<times> pipeline_report option) \<times> 'w" where
  "runBody env opts task w =
     (case env_setup env w of
        (Inl e, w1) \<Rightarrow> ((threw e initialVars, None), w1)
      | (Inr _, w1) \<Rightarrow>
          (case env_begin env w1 of
             (Inl e, w2) \<Rightarrow> ((threw e (initialVars\<lparr>rvs_worktreeCreated := True\<rparr>), None), w2)
           | (Inr _, w2) \<Rightarrow> develop env opts task
               (initialVars\<lparr>rvs_worktreeCreated := True, rvs_setupCompleted := True\<rparr>) w2))"

text \<open>The \<open>finally\<close>: warnings and the world after it.\<close>

definition runCleanup :: "'w pipeline_env \<Rightarrow> run_vars \<Rightarrow> 'w \<Rightarrow> string list \<times> 'w" where
  "runCleanup env vars w =
     (let (cleaned, w1) = env_cleanup env w;
          warnings = (case cleaned of Inl reason \<Rightarrow> [''sentinel cleanup failed: '' @ reason] | Inr _ \<Rightarrow> [])
      in if rvs_worktreeCreated vars \<and> \<not> rvs_setupCompleted vars \<and> env_worktreeExists env w1
         then (let (removed, w2) = git (env_io env) [''worktree'', ''remove'', ''--force'', br_worktreePath (env_branch env)] w1
           in (warnings @ (if xr_code removed = 0 then []
             else [''worktree remove failed: '' @ trim (orText (xr_stderr removed) (xr_stdout removed))]), w2))
         else (warnings, w1))"

definition finalNotes :: "run_vars \<Rightarrow> string list \<Rightarrow> string option" where
  "finalNotes vars cleanupWarnings =
     (if cleanupWarnings = [] then rvs_aborted vars
      else (let warnings = ''cleanup warnings: '' @ joinWith ''; '' cleanupWarnings
        in Some (if given (rvs_aborted vars) then the (rvs_aborted vars) @ '' | '' @ warnings else warnings)))"

definition executePipeline :: "'w pipeline_env \<Rightarrow> pipeline_options \<Rightarrow> 'w \<Rightarrow> pipeline_report \<times> 'w" where
  "executePipeline env opts w =
     (case (case plo_taskSpec opts of
          Some spec \<Rightarrow> (case validateInlineTaskSpec spec of Some reason \<Rightarrow> Inl reason | None \<Rightarrow> Inr spec)
        | None \<Rightarrow> env_validate env) of
        Inl reason \<Rightarrow> (abortWith [] [] None reason Aborted, w)
      | Inr task \<Rightarrow>
          (let ((vars, returned), w1) = runBody env opts task w; (cleanupWarnings, w2) = runCleanup env vars w1
           in (case returned of
                 Some result \<Rightarrow> result
               | None \<Rightarrow> \<lparr>plt_branch = br_branch (env_branch env), plt_worktreePath = br_worktreePath (env_branch env),
                   plt_outcome = rvs_outcome vars, plt_prUrl = rvs_prUrl vars,
                   plt_siblingPrUrls = rvs_siblingPrUrls vars, plt_iterations = rvs_iterationsTotal vars,
                   plt_finalVerdict = rvs_finalAggregated vars, plt_notes = finalNotes vars cleanupWarnings\<rparr>, w2)))"

end
