(* ===== verification/ReviewProps.thy ===== *)
theory ReviewProps
  imports ReviewLoop
begin

text \<open>
  Properties of the review steps: what the gate decides, what a developer's return must be, how far the
  loop goes and what an approval at its end rests on.
\<close>

section \<open>Counting\<close>

definition withSeverity :: "string \<Rightarrow> json list \<Rightarrow> nat" where
  "withSeverity s fs = length (filter (\<lambda>f. severityOf f = s) fs)"

lemma severityOf_in: "severityOf f = ''suggestion'' \<longleftrightarrow>
    severityOf f \<noteq> ''critical'' \<and> severityOf f \<noteq> ''major'' \<and> severityOf f \<noteq> ''minor''"
  by (auto simp: severityOf_def SEVERITIES_def split: option.splits json.splits)

lemma fold_countFinding:
  "sev_critical (fold countFinding fs c) = sev_critical c + withSeverity ''critical'' fs"
  "sev_major (fold countFinding fs c) = sev_major c + withSeverity ''major'' fs"
  "sev_minor (fold countFinding fs c) = sev_minor c + withSeverity ''minor'' fs"
  "sev_suggestion (fold countFinding fs c) = sev_suggestion c + withSeverity ''suggestion'' fs"
  by (induction fs arbitrary: c) (auto simp: countFinding_def withSeverity_def Let_def severityOf_in)

lemma blocking_severity: "isBlocking f \<longleftrightarrow> severityOf f = ''critical'' \<or> severityOf f = ''major''"
  by (auto simp: isBlocking_def severityOf_def SEVERITIES_def split: option.splits json.splits)

lemma withSeverity_none:
  "withSeverity s fs = 0 \<longleftrightarrow> (\<forall>f \<in> set fs. severityOf f \<noteq> s)"
  "0 < withSeverity s fs \<longleftrightarrow> (\<exists>f \<in> set fs. severityOf f = s)"
  by (auto simp: withSeverity_def filter_empty_conv)

definition allFindings :: "reviewer_verdict list \<Rightarrow> json list" where
  "allFindings vs = concat (map rvd_findings vs)"

lemma gate_decision:
  "aggregateVerdicts vs note = Some a \<Longrightarrow>
    agv_decision a = (if vs \<noteq> [] \<and> (\<forall>v \<in> set vs. rvd_approved v) \<and> (\<forall>f \<in> set (allFindings vs). \<not> isBlocking f)
      then APPROVED else CHANGES_REQUESTED) \<and>
    agv_approved a = (agv_decision a = APPROVED) \<and> agv_verdicts a = vs \<and> JNull \<notin> set (allFindings vs) \<and>
    agv_counts a = fold countFinding (allFindings vs) \<lparr>sev_critical = 0, sev_major = 0, sev_minor = 0, sev_suggestion = 0\<rparr>"
  by (auto simp: aggregateVerdicts_def countFindings_def Let_def fold_countFinding withSeverity_none blocking_severity
      allFindings_def list_all_iff split: option.splits if_splits)

lemma gate_defined: "aggregateVerdicts vs note = None \<longleftrightarrow> JNull \<in> set (allFindings vs)"
  by (auto simp: aggregateVerdicts_def countFindings_def Let_def allFindings_def split: option.splits)

lemma trim_hash: "trim (CHR ''#'' # s) \<noteq> []"
proof -
  have "CHR ''#'' \<in> set (trimStart (CHR ''#'' # s))" by (simp add: trimStart_def isSpace_def)
  moreover have "\<not> isSpace CHR ''#''" by (simp add: isSpace_def)
  ultimately show ?thesis unfolding trim_def trimEnd_def by (auto simp: dropWhile_eq_Nil_conv)
qed

lemma feedbackLines_empty: "feedbackLines vs = [] \<longleftrightarrow> (\<forall>f \<in> set (allFindings vs). \<not> isBlocking f)"
  by (induction vs) (auto simp: Let_def allFindings_def filter_empty_conv)

lemma feedbackLines_hash: "feedbackLines vs \<noteq> [] \<Longrightarrow> \<exists>l ls. feedbackLines vs = (CHR ''#'' # l) # ls"
  by (induction vs) (auto simp: Let_def)

lemma formatFeedback_exact:
  "JNull \<notin> set (allFindings vs) \<Longrightarrow>
    \<exists>t. formatFeedback vs = Some t \<and> (t = [] \<longleftrightarrow> (\<forall>f \<in> set (allFindings vs). \<not> isBlocking f))"
proof -
  assume "JNull \<notin> set (allFindings vs)"
  moreover have "trim (joinWith newline (feedbackLines vs)) = [] \<longleftrightarrow> feedbackLines vs = []"
  proof (cases "feedbackLines vs = []")
    case False
    then obtain l ls where "feedbackLines vs = (CHR ''#'' # l) # ls" using feedbackLines_hash by blast
    then show ?thesis by (cases ls) (auto simp: trim_hash)
  qed simp
  ultimately show ?thesis by (simp add: formatFeedback_def feedbackLines_empty allFindings_def)
qed

text \<open>C28. The gate decides exactly as documented: unless a finding is \<open>null\<close> (then it throws), the
  verdict is an approval if and only if there is a reviewer, every reviewer approved and no finding
  is critical or major; the four counts add up to the number of findings, the critical and major
  ones being those with that severity; and the feedback to the developer is empty if and only if no
  finding is critical or major.\<close>

theorem gate_exact:
  assumes "JNull \<notin> set (allFindings vs)"
  shows "\<exists>a t. aggregateVerdicts vs note = Some a \<and> formatFeedback vs = Some t \<and>
    (agv_decision a = APPROVED \<longleftrightarrow> vs \<noteq> [] \<and> list_all rvd_approved vs \<and> \<not> list_ex isBlocking (allFindings vs)) \<and>
    (agv_approved a \<longleftrightarrow> agv_decision a = APPROVED) \<and>
    sev_critical (agv_counts a) = withSeverity ''critical'' (allFindings vs) \<and>
    sev_major (agv_counts a) = withSeverity ''major'' (allFindings vs) \<and>
    sev_critical (agv_counts a) + sev_major (agv_counts a) + sev_minor (agv_counts a) + sev_suggestion (agv_counts a) =
      length (allFindings vs) \<and>
    (t = [] \<longleftrightarrow> \<not> list_ex isBlocking (allFindings vs))"
proof -
  obtain a where a: "aggregateVerdicts vs note = Some a" using assms gate_defined by fastforce
  obtain t where t: "formatFeedback vs = Some t" "t = [] \<longleftrightarrow> \<not> list_ex isBlocking (allFindings vs)"
    using formatFeedback_exact [OF assms] by (auto simp: list_ex_iff)
  have "withSeverity ''critical'' fs + withSeverity ''major'' fs + withSeverity ''minor'' fs + withSeverity ''suggestion'' fs =
      length fs" for fs
    by (induction fs) (auto simp: withSeverity_def severityOf_in)
  then show ?thesis using a t gate_decision [OF a] by (auto simp: list_all_iff list_ex_iff fold_countFinding)
qed

definition oneReviewer :: "bool \<Rightarrow> string \<Rightarrow> reviewer_verdict" where
  "oneReviewer ok severity = \<lparr>rvd_agentId = ''code-reviewer'', rvd_harness = ''codex'', rvd_approved = ok,
     rvd_findings = [JObj [(''severity'', JStr severity), (''message'', JStr ''m'')]], rvd_summary = None\<rparr>"

theorem gate_exact_witness:
  "\<exists>a. aggregateVerdicts [oneReviewer True ''minor''] None = Some a \<and> agv_decision a = APPROVED"
  using gate_exact [of "[oneReviewer True ''minor'']" None]
  by (auto simp: allFindings_def oneReviewer_def isBlocking_def)

section \<open>The developer's return\<close>

definition returnedJson :: "json \<Rightarrow> json option" where
  "returnedJson input = (case input of JStr raw \<Rightarrow> parseJson raw | j \<Rightarrow> Some j)"

definition acceptable :: "json \<Rightarrow> bool" where
  "acceptable j \<longleftrightarrow> isJObject j \<and> jsonField j ''summary'' \<noteq> None \<and> isJArr (jsonField j ''filesChanged'') \<and>
     isJArr (jsonField j ''acceptanceCriteriaMet'') \<and> jsonField j ''commitSha'' \<notin> {None, Some JNull} \<and>
     (\<exists>v. jsonField j ''verifications'' = Some v \<and> isJObject v \<and>
        (\<forall>key \<in> set VERIFICATION_KEYS. jsonField v key \<in> {Some (JStr ''passed''), Some (JStr ''skipped'')}))"

lemma isJArr_Some: "isJArr v \<Longrightarrow> v \<noteq> None"
  by (cases v) auto

lemma validStatus_cases: "validStatus v \<longleftrightarrow> v \<in> {Some (JStr ''passed''), Some (JStr ''failed''), Some (JStr ''skipped'')}"
  by (auto simp: validStatus_def VALID_VERIFICATION_STATUSES_def split: option.splits json.splits)

lemma find_SomeD: "find P xs = Some x \<Longrightarrow> x \<in> set xs \<and> P x"
  by (auto simp: find_Some_iff)

lemma rejected_simps [simp]:
  "pdr_ok (rejected r d b) = False" "pdr_developer (rejected r d b) = d" "pdr_contractViolation (rejected r d b) = b"
  "pdr_reason (rejected r d b) = Some r"
  by (simp_all add: rejected_def)

lemma checkVerifications_exact:
  "jsonField obj ''commitSha'' \<noteq> None \<Longrightarrow>
    pdr_ok (checkVerifications obj v) = (jsonField obj ''commitSha'' \<noteq> Some JNull \<and>
      (\<forall>key \<in> set VERIFICATION_KEYS. jsonField v key \<in> {Some (JStr ''passed''), Some (JStr ''skipped'')})) \<and>
    \<not> pdr_contractViolation (checkVerifications obj v) \<and>
    (pdr_ok (checkVerifications obj v) \<longrightarrow> pdr_developer (checkVerifications obj v) = Some obj)"
  unfolding checkVerifications_def
  by (auto simp: find_None_iff validStatus_cases split: option.splits dest!: find_SomeD intro: rev_bexI)

lemma checkEnvelope_exact:
  "pdr_ok (checkEnvelope j) = acceptable j \<and> pdr_contractViolation (checkEnvelope j) = (\<not> isJObject j) \<and>
    (pdr_ok (checkEnvelope j) \<longrightarrow> pdr_developer (checkEnvelope j) = Some j)"
proof (cases "\<exists>key \<in> set REQUIRED_KEYS. jsonField j key = None")
  case True
  then obtain key where "find (\<lambda>key. jsonField j key = None) REQUIRED_KEYS = Some key"
    by (metis (mono_tags, lifting) find_None_iff option.exhaust)
  then show ?thesis using True isJArr_Some [of None]
    by (auto simp: checkEnvelope_def acceptable_def REQUIRED_KEYS_def)
next
  case False
  then have keys: "find (\<lambda>key. jsonField j key = None) REQUIRED_KEYS = None" by (simp add: find_None_iff)
  from False have "jsonField j ''summary'' \<noteq> None" "jsonField j ''commitSha'' \<noteq> None" by (simp_all add: REQUIRED_KEYS_def)
  then show ?thesis using keys checkVerifications_exact [of j]
    by (auto simp: checkEnvelope_def acceptable_def split: option.splits)
qed

lemma parseDeveloperReturn_exact:
  "pdr_ok (parseDeveloperReturn pe i) = (\<exists>j. returnedJson i = Some j \<and> acceptable j) \<and>
    pdr_contractViolation (parseDeveloperReturn pe i) = (\<forall>j. returnedJson i = Some j \<longrightarrow> \<not> isJObject j) \<and>
    (pdr_ok (parseDeveloperReturn pe i) \<longrightarrow> pdr_developer (parseDeveloperReturn pe i) = returnedJson i)"
  using checkEnvelope_exact
  by (cases i) (auto simp: parseDeveloperReturn_def returnedJson_def Let_def split: option.splits)

lemma developer_return_sound:
  assumes "parseDeveloperReturnWithRetry pe spawn r = Some (p, told)" "pdr_ok p"
  shows "\<exists>j. pdr_developer p = Some j \<and> acceptable j"
  using assms parseDeveloperReturn_exact [of pe]
  by (auto simp: parseDeveloperReturnWithRetry_def Let_def split: option.splits if_splits)

text \<open>A developer's return is accepted exactly when it is, or parses to, an object with a summary,
  arrays of changed files and met criteria, a commit, and each of the four verifications passed or
  skipped; what is then handed on is that object. A second spawn is made, with the retry prompt, only
  when the first return is no object, it is reported exactly when it repaired the return, and the
  result is a contract violation exactly when it was made in vain.\<close>

theorem developer_return_exact:
  assumes "parseDeveloperReturnWithRetry pe spawn r = Some (p, told)"
    and "object \<longleftrightarrow> (\<exists>j. returnedJson (developerInput r) = Some j \<and> isJObject j)"
  shows "(pdr_ok p \<longleftrightarrow> (\<exists>j. returnedJson (developerInput r) = Some j \<and> acceptable j) \<or>
      \<not> object \<and> (\<exists>x j. spawn (buildRetryPrompt (previewOutput (sub_output r))) = Some x \<and>
        returnedJson (developerInput x) = Some j \<and> acceptable j)) \<and>
    (pdr_ok p \<longrightarrow> (\<exists>j. pdr_developer p = Some j \<and> acceptable j)) \<and>
    (told \<noteq> None \<longleftrightarrow> \<not> object \<and> pdr_ok p) \<and>
    (pdr_contractViolation p \<longleftrightarrow> \<not> object \<and> \<not> pdr_ok p)"
proof -
  note exact = parseDeveloperReturn_exact [of pe]
  have obj: "acceptable j \<Longrightarrow> isJObject j" for j by (simp add: acceptable_def)
  show ?thesis
  proof (cases object)
    case True
    then have "p = parseDeveloperReturn pe (developerInput r)" "told = None"
      using assms exact by (auto simp: parseDeveloperReturnWithRetry_def Let_def split: option.splits if_splits)
    then show ?thesis using True assms(2) exact by auto
  next
    case False
    then have "\<not> pdr_ok (parseDeveloperReturn pe (developerInput r))"
        "pdr_contractViolation (parseDeveloperReturn pe (developerInput r))"
      using assms(2) exact obj by blast+
    then obtain x where "spawn (buildRetryPrompt (previewOutput (sub_output r))) = Some x"
        "(p = parseDeveloperReturn pe (developerInput x) \<and> pdr_ok p \<and> told \<noteq> None) \<or>
         (\<not> pdr_ok (parseDeveloperReturn pe (developerInput x)) \<and> \<not> pdr_ok p \<and> pdr_contractViolation p \<and> told = None)"
      using assms(1) by (auto simp: parseDeveloperReturnWithRetry_def Let_def split: option.splits if_splits)
    then show ?thesis using False assms(2) exact obj by auto
  qed
qed

definition goodReturn :: json where
  "goodReturn = JObj [(''summary'', JStr ''s''), (''filesChanged'', JArr []), (''commitSha'', JStr ''abc''),
     (''verifications'', JObj [(''build'', JStr ''passed''), (''test'', JStr ''passed''), (''lint'', JStr ''skipped''),
        (''format'', JStr ''passed'')]), (''acceptanceCriteriaMet'', JArr [])]"

definition answering :: "json \<Rightarrow> subagent_result" where
  "answering j = \<lparr>sub_output = [], sub_parsed = Some j, sub_status = ''success'', sub_error = None\<rparr>"

lemma goodReturn_ok: "parseDeveloperReturn pe (developerInput (answering goodReturn)) =
    \<lparr>pdr_ok = True, pdr_reason = None, pdr_developer = Some goodReturn, pdr_contractViolation = False\<rparr>"
  by (simp add: goodReturn_def answering_def developerInput_def parseDeveloperReturn_def checkEnvelope_def
      checkVerifications_def REQUIRED_KEYS_def VERIFICATION_KEYS_def validStatus_def VALID_VERIFICATION_STATUSES_def)

theorem developer_return_exact_witness:
  "pdr_ok (parseDeveloperReturn id (developerInput (answering goodReturn))) \<and> acceptable goodReturn"
proof -
  have "parseDeveloperReturnWithRetry id (\<lambda>p. None) (answering goodReturn) =
      Some (parseDeveloperReturn id (developerInput (answering goodReturn)), None)"
    by (simp add: parseDeveloperReturnWithRetry_def goodReturn_ok)
  moreover have input: "returnedJson (developerInput (answering goodReturn)) = Some goodReturn" "isJObject goodReturn"
    by (simp_all add: returnedJson_def developerInput_def answering_def goodReturn_def)
  ultimately show ?thesis
    using developer_return_exact [of id "\<lambda>p. None" "answering goodReturn" _ None True] by (auto simp: goodReturn_ok)
qed

end
