(* ===== verification/LoopProps.thy ===== *)
theory LoopProps
  imports ReviewProps
begin

text \<open>
  The review loop: how many rounds it makes, what it reports, and what an approval at its end rests on.
\<close>

section \<open>Rounds\<close>

text \<open>Round \<open>n\<close> ended with an accepted return and a verdict.\<close>

definition roundGave :: "review_job \<Rightarrow> string \<Rightarrow> nat \<Rightarrow> json \<Rightarrow> aggregated_verdict \<Rightarrow> bool" where
  "roundGave job hn n d v \<longleftrightarrow> (\<exists>spawn feedback p. rjb_spawner job = Some spawn \<and>
     developerRound job spawn n feedback = Some p \<and> pdr_ok p \<and> pdr_developer p = Some d \<and>
     reviewersRound job spawn n hn = Some v)"

lemma loopBody_round:
  assumes "loopBody job hn st = Some (st', False)"
  shows "\<exists>d v. roundGave job hn (lrn_iteration st + 1) d v \<and>
    st' = \<lparr>lrn_developer = d, lrn_verdict = v, lrn_iteration = lrn_iteration st + 1,
      lrn_reported = lrn_reported st @ [(lrn_iteration st + 1, v)]\<rparr>"
  using assms by (cases st) (fastforce simp: loopBody_def Let_def roundGave_def split: option.splits bool.splits)

lemma loopBody_break:
  "loopBody job hn st = Some (st', True) \<Longrightarrow>
    st' = st \<and> rjb_spawner job = None \<or> st' = st\<lparr>lrn_iteration := lrn_iteration st + 1\<rparr> \<and> rjb_spawner job \<noteq> None"
  by (auto simp: loopBody_def Let_def split: option.splits bool.splits)

text \<open>What holds of a run between two rounds: every round so far is reported, the last report is the
  verdict held, and what is held is what the run started from or what the round gave.\<close>

definition runInv :: "review_job \<Rightarrow> int \<Rightarrow> string \<Rightarrow> json \<Rightarrow> aggregated_verdict \<Rightarrow> loop_run \<Rightarrow> bool" where
  "runInv job cap hn d0 v0 st \<longleftrightarrow>
     1 \<le> lrn_iteration st \<and> int (lrn_iteration st) \<le> max 1 cap \<and> map fst (lrn_reported st) = [1..<Suc (lrn_iteration st)] \<and>
     lrn_reported st \<noteq> [] \<and> snd (last (lrn_reported st)) = lrn_verdict st \<and>
     (\<forall>v \<in> set (butlast (lrn_reported st)). agv_decision (snd v) = CHANGES_REQUESTED) \<and>
     (if lrn_iteration st = 1 then lrn_developer st = d0 \<and> lrn_verdict st = v0
      else roundGave job hn (lrn_iteration st) (lrn_developer st) (lrn_verdict st))"

lemma set_butlast_last: "xs \<noteq> [] \<Longrightarrow> set xs = insert (last xs) (set (butlast xs))"
  by (induction xs) auto

lemma runInv_round:
  assumes "runInv job cap hn d0 v0 st" "agv_decision (lrn_verdict st) = CHANGES_REQUESTED"
    "loopBody job hn st = Some (st', False)"
    "anotherRound cap st"
  shows "runInv job cap hn d0 v0 st'"
proof -
  have "\<forall>v \<in> set (lrn_reported st). agv_decision (snd v) = CHANGES_REQUESTED"
    using assms(1,2) by (auto simp: runInv_def set_butlast_last)
  then show ?thesis using assms(1,4) loopBody_round [OF assms(3)] unfolding runInv_def anotherRound_def by auto
qed

text \<open>How a run ends: between rounds, or in the round after one, by a break.\<close>

definition endedAt :: "review_job \<Rightarrow> int \<Rightarrow> loop_run \<Rightarrow> loop_run \<Rightarrow> bool" where
  "endedAt job cap st fin \<longleftrightarrow>
     fin = st \<and> (anotherRound cap st \<longrightarrow> rjb_spawner job = None) \<or>
     fin = st\<lparr>lrn_iteration := lrn_iteration st + 1\<rparr> \<and> anotherRound cap st \<and> rjb_spawner job \<noteq> None"

lemma iterate_ended:
  "iterate job hn cap st = Some fin \<Longrightarrow> runInv job cap hn d0 v0 st \<Longrightarrow>
    \<exists>st'. runInv job cap hn d0 v0 st' \<and> endedAt job cap st' fin"
proof (induction job hn cap st rule: iterate.induct)
  case (1 job hn cap st)
  show ?case
  proof (cases "anotherRound cap st")
    case False
    then show ?thesis using 1 by (auto simp: iterate.simps [of job] endedAt_def)
  next
    case another: True
    then obtain st' stop where body: "loopBody job hn st = Some (st', stop)"
        "if stop then fin = st' else iterate job hn cap st' = Some fin"
      using "1.prems"(1) by (auto simp: iterate.simps [of job hn cap st] split: option.splits if_splits)
    show ?thesis
    proof (cases stop)
      case True
      then show ?thesis using body loopBody_break [of job hn st st'] another "1.prems"(2) by (auto simp: endedAt_def)
    next
      case False
      then have "runInv job cap hn d0 v0 st'"
        using body another "1.prems"(2) runInv_round [of job cap hn d0 v0 st st'] by (simp add: anotherRound_def)
      then show ?thesis using "1.IH" [OF another body(1) refl False] body(2) False by simp
    qed
  qed
qed

lemma loop_ended:
  assumes "iterateReviewLoop job maxIterations dev v0 = Some (r, reported)"
  shows "\<exists>st fin. runInv job (orElse maxIterations 2) (agv_harnessNote v0) dev v0 st \<and> endedAt job (orElse maxIterations 2) st fin \<and>
    lrt_finalDeveloperReturn r = lrn_developer st \<and> lrt_finalVerdict r = lrn_verdict st \<and>
    lrt_iterations r = lrn_iteration fin \<and> reported = lrn_reported st \<and>
    lrt_needsHumanAttention r = (agv_decision (lrn_verdict st) = CHANGES_REQUESTED \<and>
      orElse maxIterations 2 \<le> int (lrn_iteration fin))"
proof -
  let ?st = "\<lparr>lrn_developer = dev, lrn_verdict = v0, lrn_iteration = 1, lrn_reported = [(1, v0)]\<rparr>"
  obtain fin where fin: "iterate job (agv_harnessNote v0) (orElse maxIterations 2) ?st = Some fin"
      "r = \<lparr>lrt_finalDeveloperReturn = lrn_developer fin, lrt_finalVerdict = lrn_verdict fin,
         lrt_iterations = lrn_iteration fin, lrt_needsHumanAttention = (agv_decision (lrn_verdict fin) = CHANGES_REQUESTED \<and>
           orElse maxIterations 2 \<le> int (lrn_iteration fin))\<rparr>" "reported = lrn_reported fin"
    using assms by (auto simp: iterateReviewLoop_def Let_def)
  have "runInv job (orElse maxIterations 2) (agv_harnessNote v0) dev v0 ?st" by (simp add: runInv_def)
  from iterate_ended [OF fin(1) this] obtain st where
    "runInv job (orElse maxIterations 2) (agv_harnessNote v0) dev v0 st" "endedAt job (orElse maxIterations 2) st fin" by blast
  then show ?thesis using fin(2,3)
    by (intro exI [of _ st] exI [of _ fin]) (auto simp: endedAt_def)
qed

text \<open>C29. The review loop stays within its cap and says where it stopped: it makes at least one and at
  most \<open>maxIterations\<close> rounds (one if that is smaller, two if it is not given); it reports each
  completed round once, in order, each but the last asking for changes, and returns the verdict
  reported last; with a spawner, a loop that ends asking for changes has used up its rounds or ends
  in a round in which the developer failed; and a human is asked for exactly when it asks for
  changes with no round left.\<close>

theorem review_loop_bounded:
  assumes "iterateReviewLoop job maxIterations dev v0 = Some (r, reported)"
    and "cap = orElse maxIterations 2"
  shows "1 \<le> lrt_iterations r \<and> int (lrt_iterations r) \<le> max 1 cap \<and>
    map fst reported = [1..<Suc (length reported)] \<and>
    length reported \<in> {lrt_iterations r - 1, lrt_iterations r} \<and> reported \<noteq> [] \<and>
    snd (last reported) = lrt_finalVerdict r \<and>
    (\<forall>v \<in> set (butlast reported). agv_decision (snd v) = CHANGES_REQUESTED) \<and>
    (agv_decision (lrt_finalVerdict r) = CHANGES_REQUESTED \<and> rjb_spawner job \<noteq> None \<longrightarrow>
       cap \<le> int (lrt_iterations r) \<or> length reported < lrt_iterations r) \<and>
    (lrt_needsHumanAttention r \<longleftrightarrow> agv_decision (lrt_finalVerdict r) = CHANGES_REQUESTED \<and> cap \<le> int (lrt_iterations r))"
proof -
  obtain st fin where st: "runInv job cap (agv_harnessNote v0) dev v0 st" "endedAt job cap st fin"
      "lrt_finalVerdict r = lrn_verdict st" "lrt_iterations r = lrn_iteration fin" "reported = lrn_reported st"
      "lrt_needsHumanAttention r = (agv_decision (lrn_verdict st) = CHANGES_REQUESTED \<and> cap \<le> int (lrn_iteration fin))"
    using loop_ended [OF assms(1)] assms(2) by blast
  have "length (lrn_reported st) = lrn_iteration st"
    using st(1) unfolding runInv_def by (metis diff_Suc_1 length_map length_upt)
  then show ?thesis using st unfolding runInv_def endedAt_def anotherRound_def by auto
qed

section \<open>What an approval rests on\<close>

definition verdictAnswer :: "subagent_result \<Rightarrow> json" where
  "verdictAnswer x = (case sub_parsed x of Some j \<Rightarrow> j | None \<Rightarrow> orElse (parseJson (sub_output x)) JNull)"

text \<open>A spawn that came back, not timed out, with an object that approves and has no blocking finding.\<close>

definition approves :: "subagent_result \<Rightarrow> bool" where
  "approves x \<longleftrightarrow> sub_status x \<noteq> ''timeout'' \<and> isJObject (verdictAnswer x) \<and>
     jsTruthy (jsonField (verdictAnswer x) ''approved'') \<and>
     (case jsonField (verdictAnswer x) ''findings'' of Some (JArr fs) \<Rightarrow> \<not> list_ex isBlocking fs | _ \<Rightarrow> True)"

definition clean :: "reviewer_verdict \<Rightarrow> bool" where
  "clean v \<longleftrightarrow> rvd_approved v \<and> \<not> list_ex isBlocking (rvd_findings v)"

lemma coerce_clean: "sub_status x \<noteq> ''timeout'' \<Longrightarrow> clean (coerceReviewerVerdict agent x) \<longleftrightarrow> approves x"
  by (auto simp: coerceReviewerVerdict_def clean_def approves_def verdictAnswer_def Let_def list_ex_iff
      split: option.splits json.splits)

lemma spawnReviewer_clean:
  "spawnReviewerWithRetry spawn agent = Some v \<Longrightarrow> clean v \<Longrightarrow> \<exists>attempt \<in> {1, 2}. \<exists>x. spawn attempt = Some x \<and> approves x"
  by (auto simp: spawnReviewerWithRetry_def timeoutVerdict_def clean_def [of "\<lparr>rvd_agentId = _, rvd_harness = _,
        rvd_approved = False, rvd_findings = _, rvd_summary = _\<rparr>"] Let_def coerce_clean
      split: option.splits if_splits bool.splits)

lemma aggregate_clean:
  "aggregateVerdicts vs note = Some a \<Longrightarrow> agv_decision a = APPROVED \<longleftrightarrow> vs \<noteq> [] \<and> (\<forall>v \<in> set vs. clean v)"
  by (auto dest!: gate_decision simp: clean_def allFindings_def list_ex_iff split: if_splits)

lemma reviewersRound_approved:
  assumes "reviewersRound job spawn n hn = Some a" "agv_decision a = APPROVED"
    "(reviewer, prompt) \<in> set (rvp_prompts (buildReviewPrompts (rjb_taskId job) (rjb_task job) (rjb_branch job)
       (rjb_worktreePath job) None (rjb_inputs job n)))"
  shows "\<exists>attempt \<in> {1, 2}. \<exists>x. spawn n reviewer attempt prompt = Some x \<and> approves x"
proof -
  obtain vs where vs: "those (map (\<lambda>(reviewer, prompt). spawnReviewerWithRetry (\<lambda>attempt. spawn n reviewer attempt prompt)
        reviewer) (rvp_prompts (buildReviewPrompts (rjb_taskId job) (rjb_task job) (rjb_branch job)
       (rjb_worktreePath job) None (rjb_inputs job n)))) = Some vs" "aggregateVerdicts vs (Some hn) = Some a"
    using assms(1) by (auto simp: reviewersRound_def Let_def split: option.splits)
  obtain v where "spawnReviewerWithRetry (\<lambda>attempt. spawn n reviewer attempt prompt) reviewer = Some v" "v \<in> set vs"
    using those_member [OF vs(1) assms(3)] by auto
  then show ?thesis using aggregate_clean [OF vs(2)] assms(2) spawnReviewer_clean by blast
qed

lemma developerRound_acceptable:
  assumes "developerRound job spawn n feedback = Some p" "pdr_ok p" "pdr_developer p = Some d"
  shows "acceptable d"
proof -
  obtain x told where "parseDeveloperReturnWithRetry (rjb_parseError job) (spawn n ''developer'' 2) x = Some (p, told)"
    using assms(1) by (auto simp: developerRound_def Let_def split: option.splits)
  from developer_return_sound [OF this] show ?thesis using assms(2,3) by auto
qed

text \<open>C30. An approval at the end of the loop is earned in its last round: if the run started from a
  request for changes and ends approved, then in the round it ends with every one of the three
  reviewers was sent the prompt built from that round's diff and, at its first or second attempt and
  without a time-out, answered with an object that approves and has no critical or major finding;
  and the developer's return handed on is an acceptable one of that round.\<close>

theorem approval_earned:
  assumes "iterateReviewLoop job maxIterations dev v0 = Some (r, reported)"
    and "agv_decision v0 = CHANGES_REQUESTED" "agv_decision (lrt_finalVerdict r) = APPROVED"
    and "prompts = rvp_prompts (buildReviewPrompts (rjb_taskId job) (rjb_task job) (rjb_branch job)
      (rjb_worktreePath job) None (rjb_inputs job (lrt_iterations r)))"
  shows "map fst prompts = REVIEWERS \<and>
    (\<exists>spawn. rjb_spawner job = Some spawn \<and>
       (\<forall>(reviewer, prompt) \<in> set prompts. \<exists>attempt \<in> {1, 2}. \<exists>x.
          spawn (lrt_iterations r) reviewer attempt prompt = Some x \<and> approves x)) \<and>
    acceptable (lrt_finalDeveloperReturn r)"
proof -
  obtain st fin where st: "runInv job (orElse maxIterations 2) (agv_harnessNote v0) dev v0 st"
      "endedAt job (orElse maxIterations 2) st fin" "lrt_finalVerdict r = lrn_verdict st"
      "lrt_iterations r = lrn_iteration fin" "lrt_finalDeveloperReturn r = lrn_developer st"
    using loop_ended [OF assms(1)] by blast
  have "fin = st" using st(2,3) assms(3) by (auto simp: endedAt_def anotherRound_def)
  moreover have "lrn_iteration st \<noteq> 1" using st(1,3) assms(2,3) by (auto simp: runInv_def)
  ultimately have "roundGave job (agv_harnessNote v0) (lrt_iterations r) (lrn_developer st) (lrt_finalVerdict r)"
    using st by (simp add: runInv_def)
  then obtain spawn feedback p where round: "rjb_spawner job = Some spawn"
      "developerRound job spawn (lrt_iterations r) feedback = Some p" "pdr_ok p" "pdr_developer p = Some (lrn_developer st)"
      "reviewersRound job spawn (lrt_iterations r) (agv_harnessNote v0) = Some (lrt_finalVerdict r)"
    by (auto simp: roundGave_def)
  have "acceptable (lrt_finalDeveloperReturn r)" using developerRound_acceptable [OF round(2-4)] st(5) by simp
  moreover have "map fst prompts = REVIEWERS" using assms(4) by (simp add: buildReviewPrompts_def Let_def comp_def)
  moreover have "\<forall>(reviewer, prompt) \<in> set prompts. \<exists>attempt \<in> {1, 2}. \<exists>x.
      spawn (lrt_iterations r) reviewer attempt prompt = Some x \<and> approves x"
    using reviewersRound_approved [OF round(5) assms(3)] assms(4) by auto
  ultimately show ?thesis using round(1) by auto
qed

section \<open>A run\<close>

definition sampleSpawner :: spawner where
  "sampleSpawner n agent attempt prompt = Some (answering (if agent = ''developer'' then goodReturn
     else JObj [(''approved'', JBool True), (''findings'', JArr [])]))"

definition sampleJob :: review_job where
  "sampleJob = \<lparr>rjb_taskId = ''T-1'', rjb_task = \<lparr>spec_title = ''t'', spec_description = ''d'',
       spec_acceptanceCriteria = [''a''], spec_permittedExternalPaths = None, spec_references = None\<rparr>,
     rjb_branch = ''b'', rjb_worktreePath = ''w'', rjb_spawner = Some sampleSpawner,
     rjb_inputs = (\<lambda>n. \<lparr>rin_diff = \<lparr>xr_stdout = [], xr_stderr = [], xr_code = 0\<rparr>,
       rin_files = \<lparr>xr_stdout = [], xr_stderr = [], xr_code = 0\<rparr>, rin_which = None, rin_policy = (\<lambda>d. None)\<rparr>),
     rjb_parseError = id\<rparr>"

definition majorVerdict :: aggregated_verdict where
  "majorVerdict = the (aggregateVerdicts [oneReviewer False ''major''] None)"

definition sampleEnd :: "loop_result \<times> (nat \<times> aggregated_verdict) list" where
  "sampleEnd = the (iterateReviewLoop sampleJob None goodReturn majorVerdict)"

lemma majorVerdict_simps: "agv_decision majorVerdict = CHANGES_REQUESTED" "agv_verdicts majorVerdict = [oneReviewer False ''major'']"
  by (simp_all add: majorVerdict_def aggregateVerdicts_def countFindings_def Let_def oneReviewer_def)

lemma sampleDeveloper: "developerRound job sampleSpawner n feedback =
    Some \<lparr>pdr_ok = True, pdr_reason = None, pdr_developer = Some goodReturn, pdr_contractViolation = False\<rparr>"
  by (simp add: developerRound_def sampleSpawner_def parseDeveloperReturnWithRetry_def goodReturn_ok)

lemma sampleReviewers: "\<exists>a. reviewersRound job sampleSpawner n hn = Some a \<and> agv_decision a = APPROVED"
  by (simp add: reviewersRound_def buildReviewPrompts_def REVIEWERS_def Let_def spawnReviewerWithRetry_def sampleSpawner_def
      answering_def coerceReviewerVerdict_def isDegenerateVerdict_def aggregateVerdicts_def countFindings_def)

lemma sampleFeedback: "\<exists>t. formatFeedback [oneReviewer False ''major''] = Some t"
  by (simp add: formatFeedback_def oneReviewer_def)

lemma sampleRun: "iterateReviewLoop sampleJob None goodReturn majorVerdict = Some sampleEnd \<and>
    agv_decision (lrt_finalVerdict (fst sampleEnd)) = APPROVED \<and> lrt_iterations (fst sampleEnd) = 2"
proof -
  let ?hn = "agv_harnessNote majorVerdict"
  obtain a where a: "reviewersRound sampleJob sampleSpawner 2 ?hn = Some a" "agv_decision a = APPROVED"
    using sampleReviewers by blast
  have "rjb_spawner sampleJob = Some sampleSpawner" by (simp add: sampleJob_def)
  then have "loopBody sampleJob ?hn \<lparr>lrn_developer = goodReturn, lrn_verdict = majorVerdict, lrn_iteration = 1,
        lrn_reported = [(1, majorVerdict)]\<rparr> =
      Some (\<lparr>lrn_developer = goodReturn, lrn_verdict = a, lrn_iteration = 2, lrn_reported = [(1, majorVerdict), (2, a)]\<rparr>, False)"
    using sampleFeedback a by (auto simp: loopBody_def majorVerdict_simps sampleDeveloper numeral_2_eq_2)
  then show ?thesis using a(2)
    by (simp add: sampleEnd_def iterateReviewLoop_def Let_def iterate.simps anotherRound_def majorVerdict_simps)
qed

theorem review_loop_bounded_witness: "int (lrt_iterations (fst sampleEnd)) \<le> 2 \<and> snd sampleEnd \<noteq> []"
  using review_loop_bounded [of sampleJob None goodReturn majorVerdict "fst sampleEnd" "snd sampleEnd" 2] sampleRun by simp

theorem approval_earned_witness: "acceptable (lrt_finalDeveloperReturn (fst sampleEnd))"
  using approval_earned [of sampleJob None goodReturn majorVerdict "fst sampleEnd" "snd sampleEnd"] sampleRun
  by (simp add: majorVerdict_simps)

section \<open>Surprises\<close>

text \<open>\<open>!!obj.approved\<close> takes the text \<open>"false"\<close> for an approval, and a finding whose severity is not one
  of the four lower-case words does not block.\<close>

lemma approved_by_text: "clean (coerceReviewerVerdict agent (answering (JObj [(''approved'', JStr ''false''),
    (''findings'', JArr [JObj [(''severity'', JStr ''Critical''), (''message'', JStr ''m'')]])])))"
  by (simp add: coerceReviewerVerdict_def answering_def clean_def isBlocking_def Let_def)

text \<open>A disapproval without a critical or major finding gives an empty feedback, and the developer's prompt
  is then the one of the first round.\<close>

lemma silent_disapproval:
  "list_all (\<lambda>f. f \<noteq> JNull \<and> \<not> isBlocking f) (allFindings vs) \<Longrightarrow>
    \<exists>t. formatFeedback vs = Some t \<and>
      buildDeveloperPrompt i task branch path (Some t) n = buildDeveloperPrompt i task branch path None 1"
  using formatFeedback_exact [of vs]
  by (auto simp: list_all_iff buildDeveloperPrompt_def feedbackBlock_def given_def)

text \<open>With three or more rounds allowed, a developer that fails in the second leaves the loop asking for
  changes and not for a human.\<close>

lemma failed_round_hides:
  assumes "3 \<le> cap" "agv_decision v0 = CHANGES_REQUESTED" "rjb_spawner job = Some spawn"
    "formatFeedback (agv_verdicts v0) = Some t" "developerRound job spawn 2 t = Some p" "\<not> pdr_ok p"
  shows "\<exists>r reported. iterateReviewLoop job (Some cap) dev v0 = Some (r, reported) \<and>
    agv_decision (lrt_finalVerdict r) = CHANGES_REQUESTED \<and> \<not> lrt_needsHumanAttention r"
  using assms by (auto simp: iterateReviewLoop_def Let_def iterate.simps anotherRound_def loopBody_def numeral_2_eq_2
      split: option.splits)

text \<open>The reviewers of later rounds are given the review policy found in the worktree, which the developer
  may have changed.\<close>

lemma policy_of_worktree:
  "rin_policy (rjb_inputs job n) (rjb_worktreePath job) = rin_policy (rjb_inputs job' n) (rjb_worktreePath job) \<Longrightarrow>
    rin_diff (rjb_inputs job n) = rin_diff (rjb_inputs job' n) \<Longrightarrow> rin_files (rjb_inputs job n) = rin_files (rjb_inputs job' n) \<Longrightarrow>
    rin_which (rjb_inputs job n) = rin_which (rjb_inputs job' n) \<Longrightarrow>
    reviewersRound job spawn n hn = reviewersRound (job\<lparr>rjb_inputs := rjb_inputs job'\<rparr>) spawn n hn"
  by (simp add: reviewersRound_def buildReviewPrompts_def diffText_def changedFileList_def codexHarnessNote_def)

end
