(* ===== verification/PipelineProps.thy ===== *)
theory PipelineProps
  imports PipelineRun LoopProps
begin

text \<open>
  Properties of a pipeline run: what each outcome says, and when auto-merge is armed.
\<close>

section \<open>Outcomes\<close>

text \<open>What is known of the variables once the verdict is there.\<close>

definition varsOk :: "loop_result \<Rightarrow> run_vars \<Rightarrow> bool" where
  "varsOk loop vars \<longleftrightarrow> rvs_finalAggregated vars = Some (lrt_finalVerdict loop) \<and> rvs_iterationsTotal vars = lrt_iterations loop \<and>
     (rvs_outcome vars = Approved \<longrightarrow> given (rvs_prUrl vars) \<and> \<not> lrt_needsHumanAttention loop) \<and>
     (rvs_outcome vars = NeedsHumanAttention \<longrightarrow> given (rvs_prUrl vars) \<and> lrt_needsHumanAttention loop) \<and>
     (rvs_outcome vars = RebaseConflict \<longrightarrow> rvs_prUrl vars = None) \<and>
     rvs_outcome vars \<notin> {DeveloperFailed, DeveloperJsonContractViolated}"

lemma recordPush_ok:
  "rvs_outcome vars = Aborted \<Longrightarrow> rvs_prUrl vars = None \<Longrightarrow> rvs_finalAggregated vars = Some (lrt_finalVerdict loop) \<Longrightarrow>
    rvs_iterationsTotal vars = lrt_iterations loop \<Longrightarrow> varsOk loop (recordPush (lrt_needsHumanAttention loop) push vars)"
  by (auto simp: recordPush_def varsOk_def split: option.splits)

lemma threw_ok: "varsOk loop vars \<Longrightarrow> varsOk loop (threw e vars)"
  by (simp add: varsOk_def threw_def)

lemma siblings_ok [simp]: "varsOk loop (vars\<lparr>rvs_siblingPrUrls := urls\<rparr>) = varsOk loop vars"
  by (simp add: varsOk_def)

lemma afterPush_ok: "varsOk loop vars \<Longrightarrow> varsOk loop (fst (afterPush env opts task dev vars w))"
  by (auto simp: afterPush_def threw_ok split: option.splits prod.splits sum.splits)

lemma publish_ok:
  assumes "rvs_outcome vars = Aborted" "rvs_prUrl vars = None" "rvs_finalAggregated vars = Some (lrt_finalVerdict loop)"
    "rvs_iterationsTotal vars = lrt_iterations loop"
  shows "varsOk loop (fst (publish env opts task loop vars w))"
proof -
  have "varsOk loop vars" using assms by (simp add: varsOk_def)
  then show ?thesis using recordPush_ok [OF assms]
    by (auto simp: publish_def Let_def intro: threw_ok afterPush_ok split: sum.splits prod.splits)
qed

text \<open>How the body ends: in an abort without a pull request, in a failure of the developer, or past the
  reviews.\<close>

definition reviewed :: "'w pipeline_env \<Rightarrow> pipeline_options \<Rightarrow> task_spec \<Rightarrow> loop_result \<Rightarrow> bool" where
  "reviewed env opts task loop \<longleftrightarrow> (\<exists>v dev reported. firstReviews env opts task = Some v \<and> acceptable dev \<and>
     iterateReviewLoop (reviewJob env opts task) (Some (orElse (plo_maxReviewIterations opts) 2)) dev v = Some (loop, reported))"

definition bodyEnd :: "'w pipeline_env \<Rightarrow> pipeline_options \<Rightarrow> task_spec \<Rightarrow> run_vars \<times> pipeline_report option \<Rightarrow> bool" where
  "bodyEnd env opts task e \<longleftrightarrow> (case snd e of
     Some r \<Rightarrow> plt_outcome r \<in> {DeveloperFailed, DeveloperJsonContractViolated} \<and> plt_prUrl r = None \<and>
       plt_finalVerdict r = None
   | None \<Rightarrow> rvs_outcome (fst e) = Aborted \<and> rvs_prUrl (fst e) = None \<and> rvs_finalAggregated (fst e) = None \<or> (\<exists>loop. reviewed env opts task loop \<and> varsOk loop (fst e)))"

lemma firstDeveloper_acceptable:
  assumes "firstDeveloper env opts task = Some p" "pdr_ok p" "pdr_developer p = Some dev"
  shows "acceptable dev"
proof -
  obtain x told where "parseDeveloperReturnWithRetry (env_parseError env) (env_spawn env 1 ''developer'' 2) x = Some (p, told)"
    using assms(1) by (auto simp: firstDeveloper_def Let_def split: option.splits)
  from developer_return_sound [OF this assms(2)] show ?thesis using assms(3) by auto
qed

lemma threw_end: "rvs_prUrl vars = None \<Longrightarrow> rvs_finalAggregated vars = None \<Longrightarrow> bodyEnd env opts task (threw e vars, None)"
  by (simp add: bodyEnd_def threw_def)

lemma reviewAndPublish_end:
  assumes "acceptable dev" "rvs_outcome vars = Aborted" "rvs_prUrl vars = None" "rvs_finalAggregated vars = None"
  shows "bodyEnd env opts task (fst (reviewAndPublish env opts task dev vars w), None)"
proof (cases "Option.bind (firstReviews env opts task) (\<lambda>v. map_option fst (iterateReviewLoop
          (reviewJob env opts task) (Some (orElse (plo_maxReviewIterations opts) 2)) dev v))")
  case None
  then show ?thesis using assms by (simp add: reviewAndPublish_def threw_end)
next
  case (Some loop)
  then have "reviewed env opts task loop" using assms(1) by (auto simp: reviewed_def bind_eq_Some_conv)
  moreover have "varsOk loop (fst (reviewAndPublish env opts task dev vars w))"
    using Some assms(2,3) by (simp add: reviewAndPublish_def publish_ok)
  ultimately show ?thesis by (auto simp: bodyEnd_def)
qed

lemma develop_end:
  assumes "rvs_outcome vars = Aborted" "rvs_prUrl vars = None" "rvs_finalAggregated vars = None"
  shows "bodyEnd env opts task (fst (develop env opts task vars w))"
proof (cases "firstDeveloper env opts task")
  case None
  then show ?thesis using assms by (simp add: develop_def threw_end)
next
  case (Some p)
  show ?thesis
  proof (cases "pdr_ok p \<and> pdr_developer p \<noteq> None")
    case True
    then obtain dev where dev: "pdr_ok p" "pdr_developer p = Some dev" by auto
    then have "fst (develop env opts task vars w) = (fst (reviewAndPublish env opts task dev vars w), None)"
      using Some by (simp add: develop_def case_prod_beta)
    then show ?thesis using reviewAndPublish_end [OF firstDeveloper_acceptable [OF Some dev]] assms by simp
  next
    case False
    then show ?thesis using Some by (auto simp: develop_def Let_def bodyEnd_def abortWith_def split: bool.splits option.splits)
  qed
qed

lemma runBody_end: "bodyEnd env opts task (fst (runBody env opts task w))"
proof -
  have vars: "rvs_outcome initialVars = Aborted" "rvs_prUrl initialVars = None" "rvs_finalAggregated initialVars = None" by (simp_all add: initialVars_def)
  show ?thesis using vars by (auto simp: runBody_def threw_end develop_end split: sum.splits prod.splits)
qed

lemma reviewed_facts:
  assumes "reviewed env opts task loop" "cap = orElse (plo_maxReviewIterations opts) 2"
  shows "1 \<le> lrt_iterations loop \<and> int (lrt_iterations loop) \<le> max 1 cap \<and>
    (lrt_needsHumanAttention loop \<longleftrightarrow> agv_decision (lrt_finalVerdict loop) = CHANGES_REQUESTED \<and> cap \<le> int (lrt_iterations loop)) \<and>
    (agv_decision (lrt_finalVerdict loop) = CHANGES_REQUESTED \<longrightarrow> cap \<le> int (lrt_iterations loop) \<or> 2 \<le> lrt_iterations loop)"
proof -
  obtain v dev reported where "iterateReviewLoop (reviewJob env opts task) (Some cap) dev v = Some (loop, reported)"
    using assms by (auto simp: reviewed_def)
  from loop_ended [OF this] obtain st fin where "runInv (reviewJob env opts task) cap (agv_harnessNote v) dev v st"
      "endedAt (reviewJob env opts task) cap st fin" "lrt_finalVerdict loop = lrn_verdict st"
      "lrt_iterations loop = lrn_iteration fin"
      "lrt_needsHumanAttention loop = (agv_decision (lrn_verdict st) = CHANGES_REQUESTED \<and> cap \<le> int (lrn_iteration fin))"
    by auto
  moreover have "rjb_spawner (reviewJob env opts task) \<noteq> None" by (simp add: reviewJob_def)
  ultimately show ?thesis unfolding runInv_def endedAt_def anotherRound_def by auto
qed

lemma pipeline_ends:
  assumes "executePipeline env opts w = (res, w')"
  shows "(plt_outcome res = Aborted \<and> plt_prUrl res = None \<and> plt_finalVerdict res = None) \<or>
    (plt_outcome res \<in> {DeveloperFailed, DeveloperJsonContractViolated} \<and> plt_prUrl res = None \<and> plt_finalVerdict res = None) \<or>
    (\<exists>task loop vars. reviewed env opts task loop \<and> varsOk loop vars \<and> plt_outcome res = rvs_outcome vars \<and>
       plt_prUrl res = rvs_prUrl vars \<and> plt_iterations res = lrt_iterations loop \<and>
       plt_finalVerdict res = Some (lrt_finalVerdict loop))"
proof (cases "case plo_taskSpec opts of
    Some spec \<Rightarrow> (case validateInlineTaskSpec spec of Some reason \<Rightarrow> Inl reason | None \<Rightarrow> Inr spec) | None \<Rightarrow> env_validate env")
  case (Inl reason)
  then show ?thesis using assms by (auto simp: executePipeline_def abortWith_def)
next
  case (Inr task)
  obtain vars returned w1 where body: "runBody env opts task w = ((vars, returned), w1)" by (metis prod.exhaust)
  note bodyEnd = runBody_end [of env opts task w, unfolded body]
  show ?thesis
  proof (cases returned)
    case (Some r)
    then have "res = r" using assms Inr body by (simp add: executePipeline_def case_prod_beta)
    then show ?thesis using bodyEnd Some by (simp add: bodyEnd_def)
  next
    case None
    then have "plt_outcome res = rvs_outcome vars \<and> plt_prUrl res = rvs_prUrl vars \<and>
        plt_iterations res = rvs_iterationsTotal vars \<and> plt_finalVerdict res = rvs_finalAggregated vars"
      using assms Inr body by (auto simp: executePipeline_def case_prod_beta)
    then show ?thesis using bodyEnd None by (auto simp: bodyEnd_def varsOk_def)
  qed
qed


end
