(* ===== verification/AutoMerge.thy ===== *)
theory AutoMerge
  imports PipelineProps
begin

text \<open>
  When a run arms auto-merge. The interface \<open>unarmed\<close> is what the steps need of the runner: no command
  but \<open>gh pr merge --auto\<close>, and no file written, changes whether auto-merge is armed. It is
  interpreted on a runner that records its commands and otherwise answers in any way.
\<close>

definition mergeCommand :: "string \<Rightarrow> string list \<Rightarrow> bool" where
  "mergeCommand cmd args \<longleftrightarrow> cmd = ''gh'' \<and> take 2 args = [''pr'', ''merge'']"

locale unarmed =
  fixes io :: "'w git_io" and armed :: "'w \<Rightarrow> bool"
  assumes other_command: "\<not> mergeCommand cmd args \<Longrightarrow> armed (snd (gio_run io cmd args w)) = armed w"
    and written: "armed (gio_write io f c w) = armed w"
begin

lemma git_quiet [simp]: "armed (snd (git io args w)) = armed w"
  by (simp add: git_def other_command mergeCommand_def)

lemma tryResolveFile_quiet [simp]: "armed (snd (tryResolveFile io f w)) = armed w"
  by (simp add: tryResolveFile_def written split: option.splits)

lemma resolveAll_quiet [simp]: "armed (snd (snd (resolveAll io fs w))) = armed w"
  by (induction fs arbitrary: w) (simp_all add: Let_def case_prod_beta)

lemma stage_quiet [simp]: "armed (fold (formatAndStage io) fs w) = armed w"
  by (induction fs arbitrary: w) (simp_all add: formatAndStage_def other_command mergeCommand_def)

lemma rebaseRound_quiet: "armed (snd (rebaseRound io n resolved w)) = armed w"
  by (simp add: rebaseRound_def Let_def case_prod_beta abortRebase_def)

lemma rebaseLoop_quiet [simp]: "armed (snd (rebaseLoop io cap n resolved w)) = armed w"
proof (induction "nat (cap + 1 - n)" arbitrary: n resolved w rule: less_induct)
  case less
  show ?case
  proof (cases "cap < n")
    case True
    then show ?thesis by (simp add: rebaseLoop.simps [where attempts = n and maxAttempts = cap] abortRebase_def)
  next
    case False
    then show ?thesis using rebaseRound_quiet [of n resolved w] less [of "n + 1"]
      by (cases "rebaseRound io n resolved w")
        (auto simp: rebaseLoop.simps [where attempts = n and maxAttempts = cap] split: sum.splits)
  qed
qed

lemma lateRebase_quiet [simp]: "armed (snd (lateRebase io cap w)) = armed w"
  by (simp add: lateRebase_def Let_def case_prod_beta)

lemma node_quiet [simp]: "armed (snd (gio_run io ''node'' args w)) = armed w"
  by (simp add: other_command mergeCommand_def)

lemma create_quiet [simp]: "armed (snd (gio_run io ''gh'' (''pr'' # ''create'' # args) w)) = armed w"
  by (simp add: other_command mergeCommand_def)

lemma repository_quiet [simp]: "armed (snd (gio_run io ''gh'' (''-R'' # args) w)) = armed w"
  by (simp add: other_command mergeCommand_def)

lemma resign_quiet [simp]: "armed (resignAfterRebase io signer files w) = armed w"
  by (simp add: resignAfterRebase_def Let_def case_prod_beta split: option.splits)

lemma pushAndPr_quiet [simp]: "armed (snd (pushAndPr io signer tpl i branch title dev verdict human issue w)) = armed w"
  by (simp add: pushAndPr_def Let_def case_prod_beta)

lemma siblingPublish_quiet [simp]: "armed (snd (siblingPublish io i title dev url repo owner ext w)) = armed w"
  by (simp add: siblingPublish_def Let_def case_prod_beta split: option.splits json.splits)

lemma siblingPr_quiet [simp]: "armed (snd (siblingPr io i title dev url ext w)) = armed w"
  by (simp add: siblingPr_def Let_def case_prod_beta split: option.splits json.splits)

lemma siblingLoop_quiet [simp]: "armed (snd (siblingLoop io i title dev url exts w)) = armed w"
proof (induction exts arbitrary: w)
  case (Cons ext exts)
  obtain x w1 where x: "siblingPr io i title dev url ext w = (x, w1)" by fastforce
  obtain y w2 where y: "siblingLoop io i title dev url exts w1 = (y, w2)" by fastforce
  have "armed w1 = armed w" "armed w2 = armed w1"
    using siblingPr_quiet [of i title dev url ext w] Cons [of w1] x y by simp_all
  then show ?case using x y by (simp split: sum.splits)
qed simp

lemma siblingPrs_quiet [simp]: "armed (snd (siblingPrs io i title dev url w)) = armed w"
  by (simp add: siblingPrs_def split: option.splits json.splits)

lemma finalizeTask_quiet:
  "(\<And>v. armed (snd (complete v)) = armed v) \<Longrightarrow>
    armed (snd (finalizeTask io signer complete i task dev verdict kind skipCommit w)) = armed w"
  by (simp add: finalizeTask_def signAttestation_def choreCommit_def Let_def case_prod_beta split: option.splits)

end

text \<open>The same for a whole environment: the steps that are arguments leave auto-merge alone, too.\<close>

locale unarmed_run =
  fixes env :: "'w pipeline_env" and armed :: "'w \<Rightarrow> bool"
  assumes runner: "unarmed (env_io env) armed"
    and prepared: "armed (snd (env_setup env w)) = armed w"
    and begun: "armed (snd (env_begin env w)) = armed w"
    and subagents: "armed (env_subagents env w) = armed w"
    and completed: "armed (snd (env_completeTask env w)) = armed w"
    and synthetic: "armed (env_removeSynthetic env w) = armed w"
    and cleanup: "armed (snd (env_cleanup env w)) = armed w"

sublocale unarmed_run \<subseteq> unarmed "env_io env" armed
  by (rule runner)

context unarmed_run begin

lemma afterPush_arms:
  "armed (snd (afterPush env opts task dev vars w)) \<noteq> armed w \<Longrightarrow> rvs_outcome vars = Approved"
proof -
  have "armed (snd (afterPush env opts task dev vars w)) =
      (case rvs_prUrl vars of None \<Rightarrow> armed w
       | Some url \<Rightarrow> armed (if rvs_outcome vars = Approved then armAutoMerge (env_io env) url w else w))"
  proof (cases "rvs_prUrl vars")
    case (Some url)
    let ?v = "if rvs_outcome vars = Approved then armAutoMerge (env_io env) url w else w"
    obtain x w1 where x: "siblingPrs (env_io env) (plo_taskId opts) (spec_title task) dev url ?v = (x, w1)" by fastforce
    then have "armed w1 = armed ?v" using siblingPrs_quiet [of "plo_taskId opts" "spec_title task" dev url ?v] by simp
    then show ?thesis using Some x by (cases x) (simp_all add: afterPush_def)
  qed (simp add: afterPush_def)
  then show "armed (snd (afterPush env opts task dev vars w)) \<noteq> armed w \<Longrightarrow> rvs_outcome vars = Approved"
    by (auto split: option.splits if_splits)
qed

lemma publish_arms:
  assumes "armed (snd (publish env opts task loop vars w)) \<noteq> armed w" "rvs_outcome vars = Aborted"
  shows "\<not> lrt_needsHumanAttention loop"
proof -
  let ?dev = "lrt_finalDeveloperReturn loop" and ?verdict = "lrt_finalVerdict loop"
  obtain x w1 where x: "finalizeTask (env_io env) (env_signer env) (env_completeTask env) (plo_taskId opts) task ?dev ?verdict
      (plo_sourceKind opts) (plo_skipFinalizeCommit opts) w = (x, w1)" by fastforce
  then have w1: "armed w1 = armed w"
    using finalizeTask_quiet [of "env_completeTask env" "env_signer env" "plo_taskId opts" task ?dev ?verdict] completed
    by (metis snd_conv)
  obtain push w2 where push: "pushAndPr (env_io env) (env_signer env) (env_titleTemplate env) (plo_taskId opts)
      (br_branch (env_branch env)) (spec_title task) ?dev ?verdict (lrt_needsHumanAttention loop)
      (issueOf (plo_sourceKind opts) (plo_issueNumber opts)) (env_removeSynthetic env w1) = (push, w2)" by fastforce
  then have "armed w2 = armed w" using pushAndPr_quiet w1 synthetic by (metis snd_conv)
  moreover have eq: "publish env opts task loop vars w = (case x of Inl e \<Rightarrow> (threw e vars, w1) | Inr r \<Rightarrow>
      afterPush env opts task ?dev (recordPush (lrt_needsHumanAttention loop) push vars) w2)"
    using x push by (simp add: publish_def Let_def split: sum.splits)
  ultimately have "armed (snd (afterPush env opts task ?dev (recordPush (lrt_needsHumanAttention loop) push vars) w2)) \<noteq> armed w2"
    using assms(1) w1 by (cases x) simp_all
  then have "rvs_outcome (recordPush (lrt_needsHumanAttention loop) push vars) = Approved" by (rule afterPush_arms)
  then show ?thesis using assms(2) by (auto simp: recordPush_def split: option.splits if_splits)
qed

lemma reviewAndPublish_arms:
  assumes "armed (snd (reviewAndPublish env opts task dev vars w)) \<noteq> armed w" "rvs_outcome vars = Aborted" "acceptable dev"
    "rvs_prUrl vars = None"
  shows "\<exists>loop. reviewed env opts task loop \<and> \<not> lrt_needsHumanAttention loop \<and>
    varsOk loop (fst (reviewAndPublish env opts task dev vars w))"
proof -
  let ?b = "Option.bind (firstReviews env opts task) (\<lambda>v. map_option fst (iterateReviewLoop
      (reviewJob env opts task) (Some (orElse (plo_maxReviewIterations opts) 2)) dev v))"
  have "?b \<noteq> None"
  proof
    assume "?b = None"
    then have "snd (reviewAndPublish env opts task dev vars w) = w" by (simp add: reviewAndPublish_def)
    then show False using assms(1) by simp
  qed
  then obtain loop where loop: "?b = Some loop" by blast
  then have "reviewed env opts task loop" using assms(3) by (auto simp: reviewed_def bind_eq_Some_conv)
  moreover have "reviewAndPublish env opts task dev vars w = publish env opts task loop
      (vars\<lparr>rvs_iterationsTotal := lrt_iterations loop, rvs_finalAggregated := Some (lrt_finalVerdict loop)\<rparr>)
      (env_subagents env w)" using loop by (simp add: reviewAndPublish_def)
  then have "\<not> lrt_needsHumanAttention loop" using assms(1,2) subagents
    by (intro publish_arms [where w = "env_subagents env w" and opts = opts and task = task and vars =
        "vars\<lparr>rvs_iterationsTotal := lrt_iterations loop, rvs_finalAggregated := Some (lrt_finalVerdict loop)\<rparr>"]) simp_all
  moreover have "varsOk loop (fst (reviewAndPublish env opts task dev vars w))"
    using loop assms(2,4) by (simp add: reviewAndPublish_def publish_ok)
  ultimately show ?thesis by blast
qed

lemma develop_arms:
  assumes "armed (snd (develop env opts task vars w)) \<noteq> armed w" "rvs_outcome vars = Aborted" "rvs_prUrl vars = None"
  shows "\<exists>loop. reviewed env opts task loop \<and> \<not> lrt_needsHumanAttention loop \<and>
    snd (fst (develop env opts task vars w)) = None \<and> varsOk loop (fst (fst (develop env opts task vars w)))"
proof -
  obtain p dev where p: "firstDeveloper env opts task = Some p" "pdr_ok p" "pdr_developer p = Some dev"
    using assms(1) by (auto simp: develop_def Let_def split: option.splits bool.splits)
  then have eq: "develop env opts task vars w =
      ((fst (reviewAndPublish env opts task dev vars w), None), snd (reviewAndPublish env opts task dev vars w))"
    by (simp add: develop_def case_prod_beta)
  show ?thesis using reviewAndPublish_arms [of opts task dev vars w] assms firstDeveloper_acceptable [OF p] by (simp add: eq)
qed

lemma runBody_arms:
  assumes "armed (snd (runBody env opts task w)) \<noteq> armed w"
  shows "\<exists>loop. reviewed env opts task loop \<and> \<not> lrt_needsHumanAttention loop \<and>
    snd (fst (runBody env opts task w)) = None \<and> varsOk loop (fst (fst (runBody env opts task w)))"
proof -
  obtain x w1 y w2 where xy: "env_setup env w = (x, w1)" "env_begin env w1 = (y, w2)" by fastforce
  then have "armed w1 = armed w" "armed w2 = armed w" using prepared begun by (metis snd_conv)+
  moreover have "rvs_outcome initialVars = Aborted" "rvs_prUrl initialVars = None" by (simp_all add: initialVars_def)
  ultimately show ?thesis using assms xy
    by (cases x; cases y) (auto simp: runBody_def intro: develop_arms)
qed

lemma runCleanup_quiet: "armed (snd (runCleanup env vars w)) = armed w"
  by (simp add: runCleanup_def Let_def case_prod_beta cleanup)

lemma pipeline_arms:
  assumes "executePipeline env opts w = (res, w')" "armed w' \<noteq> armed w"
  shows "\<exists>task loop. reviewed env opts task loop \<and> \<not> lrt_needsHumanAttention loop \<and>
    plt_finalVerdict res = Some (lrt_finalVerdict loop)"
proof -
  let ?task = "case plo_taskSpec opts of
    Some spec \<Rightarrow> (case validateInlineTaskSpec spec of Some reason \<Rightarrow> Inl reason | None \<Rightarrow> Inr spec) | None \<Rightarrow> env_validate env"
  obtain task where task: "?task = Inr task" using assms by (cases ?task) (auto simp: executePipeline_def)
  let ?body = "runBody env opts task w"
  have "armed (snd ?body) \<noteq> armed w"
    using assms task runCleanup_quiet [of "fst (fst ?body)" "snd ?body"] by (auto simp: executePipeline_def case_prod_beta)
  from runBody_arms [OF this] obtain loop where loop: "reviewed env opts task loop" "\<not> lrt_needsHumanAttention loop"
      "snd (fst ?body) = None" "varsOk loop (fst (fst ?body))" by blast
  then have "plt_finalVerdict res = rvs_finalAggregated (fst (fst ?body))"
    using assms(1) task by (auto simp: executePipeline_def case_prod_beta)
  then show ?thesis using loop by (auto simp: varsOk_def)
qed

end

section \<open>A runner that records\<close>

definition recording :: "(string \<Rightarrow> string list \<Rightarrow> string list list \<Rightarrow> exec_output) \<Rightarrow> (string list list \<Rightarrow> string \<Rightarrow> string option) \<Rightarrow>
  string list list git_io" where
  "recording respond files = \<lparr>gio_run = (\<lambda>cmd args log. (respond cmd args log, log @ [cmd # args])), gio_read = files,
     gio_write = (\<lambda>f c log. log)\<rparr>"

definition armedLog :: "string list list \<Rightarrow> bool" where
  "armedLog log \<longleftrightarrow> (\<exists>c \<in> set log. mergeCommand (hd c) (tl c))"

interpretation recorded: unarmed "recording respond files" armedLog for respond files
  by unfold_locales (auto simp: recording_def armedLog_def)

section \<open>What an armed auto-merge rests on\<close>

lemma aggregated_clean:
  "aggregateVerdicts vs hn = Some a \<Longrightarrow> agv_decision a = APPROVED \<Longrightarrow> agv_verdicts a \<noteq> [] \<and> list_all clean (agv_verdicts a)"
  using aggregate_clean [of vs hn a] gate_decision [of vs hn a] by (auto simp: list_all_iff)

lemma reviewed_clean:
  assumes "reviewed env opts task loop" "agv_decision (lrt_finalVerdict loop) = APPROVED"
  shows "agv_verdicts (lrt_finalVerdict loop) \<noteq> [] \<and> list_all clean (agv_verdicts (lrt_finalVerdict loop))"
proof -
  obtain v dev reported where v: "firstReviews env opts task = Some v"
      "iterateReviewLoop (reviewJob env opts task) (Some (orElse (plo_maxReviewIterations opts) 2)) dev v = Some (loop, reported)"
    using assms(1) by (auto simp: reviewed_def)
  obtain st where st: "runInv (reviewJob env opts task) (orElse (plo_maxReviewIterations opts) 2) (agv_harnessNote v) dev v st"
      "lrt_finalVerdict loop = lrn_verdict st"
    using loop_ended [OF v(2)] by auto
  have "\<exists>vs hn. aggregateVerdicts vs hn = Some (lrt_finalVerdict loop)"
    using st v(1) by (auto simp: runInv_def roundGave_def reviewersRound_def firstReviews_def Let_def
        split: if_splits option.splits)
  then show ?thesis using aggregated_clean assms(2) by blast
qed

text \<open>C34. Auto-merge is armed only for approved work: with at most two review rounds allowed, if nothing
  but \<open>gh pr merge\<close> arms it and it is armed after a run that started with it unarmed, then the final
  verdict of the run is an approval by at least one reviewer in which every reviewer approved without
  a critical or major finding.\<close>

theorem auto_merge_guarded:
  assumes "unarmed_run env armed" "executePipeline env opts w = (res, w')" "\<not> armed w" "armed w'"
    and "orElse (plo_maxReviewIterations opts) 2 \<le> 2"
  shows "\<exists>v. plt_finalVerdict res = Some v \<and> agv_decision v = APPROVED \<and> agv_verdicts v \<noteq> [] \<and> list_all clean (agv_verdicts v)"
proof -
  obtain task loop where loop: "reviewed env opts task loop" "\<not> lrt_needsHumanAttention loop"
      "plt_finalVerdict res = Some (lrt_finalVerdict loop)"
    using unarmed_run.pipeline_arms [OF assms(1,2)] assms(3,4) by blast
  have "agv_decision (lrt_finalVerdict loop) = APPROVED"
    using reviewed_facts [OF loop(1) refl] loop(2) assms(5) by (cases "agv_decision (lrt_finalVerdict loop)") auto
  then show ?thesis using loop reviewed_clean by blast
qed

text \<open>A run in which everything goes well.\<close>

definition sampleUrl :: string where
  "sampleUrl = ''https://github.com/o/r/pull/7''"

definition sampleTask :: task_spec where
  "sampleTask = \<lparr>spec_title = ''t'', spec_description = ''d'', spec_acceptanceCriteria = [''a''],
     spec_permittedExternalPaths = None, spec_references = None\<rparr>"

definition sampleEnv :: "string list list pipeline_env" where
  "sampleEnv = \<lparr>env_io = recording (\<lambda>cmd args log. \<lparr>xr_stdout = sampleUrl, xr_stderr = [], xr_code = 0\<rparr>) (\<lambda>log f. None),
     env_signer = None, env_validate = Inr sampleTask,
     env_branch = \<lparr>br_branch = ''b'', br_worktreePath = ''w'', br_slug = ''t'', br_taskIdLower = ''t-1''\<rparr>,
     env_setup = Pair (Inr ()), env_begin = Pair (Inr ()), env_subagents = id, env_worktreeExists = (\<lambda>w. True),
     env_completeTask = Pair None, env_removeSynthetic = id, env_cleanup = Pair (Inr ()),
     env_spawn = sampleSpawner,
     env_spawnParallel = (\<lambda>ps. Some (map (\<lambda>p. answering (JObj [(''approved'', JBool True), (''findings'', JArr [])])) ps)),
     env_inputs = rjb_inputs sampleJob, env_titleTemplate = DEFAULT_TITLE_TEMPLATE, env_parseError = id, env_thrown = ''e''\<rparr>"

definition sampleOptions :: pipeline_options where
  "sampleOptions = \<lparr>plo_taskId = ''T-1'', plo_workDir = ''r'', plo_maxReviewIterations = None, plo_skipFinalizeCommit = True,
     plo_sourceKind = Backlog, plo_taskSpec = None, plo_issueNumber = None\<rparr>"

interpretation sample: unarmed_run sampleEnv armedLog
  by (unfold_locales) (auto simp: sampleEnv_def recording_def armedLog_def)

lemma sampleDeveloped: "firstDeveloper sampleEnv sampleOptions sampleTask =
    Some \<lparr>pdr_ok = True, pdr_reason = None, pdr_developer = Some goodReturn, pdr_contractViolation = False\<rparr>"
  by (simp add: firstDeveloper_def sampleEnv_def sampleSpawner_def parseDeveloperReturnWithRetry_def goodReturn_ok)

lemma sampleReviewed: "\<exists>v. firstReviews sampleEnv sampleOptions sampleTask = Some v \<and> agv_decision v = APPROVED"
  by (simp add: firstReviews_def Let_def buildReviewPrompts_def REVIEWERS_def sampleEnv_def answering_def
      coerceReviewerVerdict_def aggregateVerdicts_def countFindings_def enumerate_eq_zip)

lemma sampleLoop:
  assumes "agv_decision v = APPROVED"
  shows "iterateReviewLoop (reviewJob sampleEnv sampleOptions sampleTask) (Some 2) goodReturn v =
    Some (\<lparr>lrt_finalDeveloperReturn = goodReturn, lrt_finalVerdict = v, lrt_iterations = 1,
      lrt_needsHumanAttention = False\<rparr>, [(1, v)])"
  using assms by (simp add: iterateReviewLoop_def iterate.simps anotherRound_def)

lemma sampleLine: "lastLine sampleUrl = sampleUrl" "prNumber sampleUrl = Some ''7''" "sampleUrl \<noteq> []"
  by (code_simp, code_simp, simp add: sampleUrl_def)

lemma samplePush: "pushAndPr (env_io sampleEnv) None tpl i branch title dev verdict human issue log =
    (\<lparr>psr_pushed = True, psr_prUrl = Some sampleUrl, psr_reason = None, psr_rebaseConflict = None\<rparr>,
     log @ [[''git'', ''fetch'', ''origin'', ''main''], [''git'', ''merge-base'', ''--is-ancestor'', ''origin/main'', ''HEAD''],
       [''git'', ''push'', ''-u'', ''origin'', branch], [''gh'', ''pr'', ''create'', ''--draft'', ''--title'',
         composeTitle tpl i title human issue, ''--body'', composeBody i dev verdict human issue, ''--base'', ''main'',
         ''--head'', branch]])"
  by (simp add: pushAndPr_def lateRebase_def git_def sampleEnv_def recording_def rebased_def resignAfterRebase_def sampleLine)

lemma samplePublished:
  assumes "agv_decision (lrt_finalVerdict loop) = APPROVED" "\<not> lrt_needsHumanAttention loop"
    "lrt_finalDeveloperReturn loop = goodReturn"
  shows "armedLog (snd (publish sampleEnv sampleOptions sampleTask loop vars log))"
proof -
  have "finalizeTask (env_io sampleEnv) (env_signer sampleEnv) (env_completeTask sampleEnv) (plo_taskId sampleOptions)
      sampleTask goodReturn (lrt_finalVerdict loop) (plo_sourceKind sampleOptions) (plo_skipFinalizeCommit sampleOptions) log =
      (Inr \<lparr>fzr_finalSummary = fst (buildFinalSummary sampleTask goodReturn (lrt_finalVerdict loop)),
        fzr_acceptanceCriteriaCheck = snd (buildFinalSummary sampleTask goodReturn (lrt_finalVerdict loop)),
        fzr_attestationPath = None, fzr_choreCommitSha = None, fzr_skipped = False\<rparr>, log)"
    using assms(1) by (simp add: finalizeTask_def signAttestation_def sampleEnv_def sampleOptions_def case_prod_beta)
  moreover have "env_signer sampleEnv = None" "env_removeSynthetic sampleEnv = id" by (simp_all add: sampleEnv_def)
  ultimately have "\<exists>pushed vars1. publish sampleEnv sampleOptions sampleTask loop vars log =
      afterPush sampleEnv sampleOptions sampleTask goodReturn vars1 pushed \<and> rvs_prUrl vars1 = Some sampleUrl \<and>
      rvs_outcome vars1 = Approved"
    using assms(2,3) by (simp add: publish_def samplePush recordPush_def given_def sampleLine Let_def) (intro exI conjI, rule refl, simp_all)
  then obtain pushed vars1 where after: "publish sampleEnv sampleOptions sampleTask loop vars log =
      afterPush sampleEnv sampleOptions sampleTask goodReturn vars1 pushed" "rvs_prUrl vars1 = Some sampleUrl"
      "rvs_outcome vars1 = Approved" by blast
  have "siblingPrs io i t goodReturn url w = (Inr [], w)" for io :: "string list list git_io" and i t url w
    by (simp add: siblingPrs_def goodReturn_def)
  moreover have "armedLog (armAutoMerge (env_io sampleEnv) sampleUrl log)" for log
    by (simp add: armAutoMerge_def sampleLine sampleEnv_def recording_def armedLog_def mergeCommand_def)
  ultimately show ?thesis using after(2,3) unfolding after(1) by (simp add: afterPush_def)
qed

lemma sampleArmed: "armedLog (snd (executePipeline sampleEnv sampleOptions []))"
proof -
  obtain v where v: "firstReviews sampleEnv sampleOptions sampleTask = Some v" "agv_decision v = APPROVED"
    using sampleReviewed by blast
  let ?loop = "\<lparr>lrt_finalDeveloperReturn = goodReturn, lrt_finalVerdict = v, lrt_iterations = 1, lrt_needsHumanAttention = False\<rparr>"
  have opts: "plo_maxReviewIterations sampleOptions = None" "plo_taskSpec sampleOptions = None"
      "env_validate sampleEnv = Inr sampleTask" "env_setup sampleEnv = Pair (Inr ())" "env_begin sampleEnv = Pair (Inr ())"
      "env_subagents sampleEnv = id"
    by (simp_all add: sampleOptions_def sampleEnv_def)
  have "armedLog (snd (reviewAndPublish sampleEnv sampleOptions sampleTask goodReturn vars log))" for vars log
    using v by (simp add: reviewAndPublish_def opts sampleLoop samplePublished)
  then have "armedLog (snd (runBody sampleEnv sampleOptions sampleTask []))"
    by (simp add: runBody_def opts develop_def sampleDeveloped case_prod_beta)
  then show ?thesis using sample.runCleanup_quiet
    by (simp add: executePipeline_def opts case_prod_beta)
qed

theorem auto_merge_guarded_witness:
  "\<exists>v. plt_finalVerdict (fst (executePipeline sampleEnv sampleOptions [])) = Some v \<and> agv_decision v = APPROVED"
  using auto_merge_guarded [of sampleEnv armedLog sampleOptions "[]" "fst (executePipeline sampleEnv sampleOptions [])"
      "snd (executePipeline sampleEnv sampleOptions [])"] sampleArmed sample.unarmed_run_axioms
  by (auto simp: armedLog_def [of "[]"] sampleOptions_def [THEN arg_cong [where f = plo_maxReviewIterations]])


section \<open>Surprises\<close>

text \<open>The first round does not look at the status of a spawn: one that timed out may approve.\<close>

lemma timeout_approves_first_round:
  "clean (coerceReviewerVerdict agent (answering (JObj [(''approved'', JBool True)])\<lparr>sub_status := ''timeout''\<rparr>))"
  by (simp add: coerceReviewerVerdict_def answering_def clean_def Let_def)

text \<open>An error in the sibling step makes the outcome an abort when the pull request is open and armed.\<close>

lemma armed_then_aborted:
  assumes "rvs_outcome vars = Approved" "rvs_prUrl vars = Some url"
    "jsonField dev ''filesChangedExternal'' = Some (JBool True)"
  shows "rvs_outcome (fst (afterPush env opts task dev vars w)) = Aborted \<and>
    rvs_prUrl (fst (afterPush env opts task dev vars w)) = Some url \<and>
    snd (afterPush env opts task dev vars w) = armAutoMerge (env_io env) url w"
  using assms by (simp add: afterPush_def siblingPrs_def threw_def)

lemma title_patterns_expand:
  "composeTitle DEFAULT_TITLE_TEMPLATE ''T-1'' ''use $& once'' False None = ''feat: use {issueTitle} once (T-1)''"
  "composeTitle DEFAULT_TITLE_TEMPLATE ''T-1'' ''fill {issueId}'' False None = ''feat: fill T-1 (T-1)''"
  by (code_simp, code_simp)

end
