(* ===== verification/StatusFlip.thy ===== *)
theory StatusFlip
  imports DepGraph
begin

text \<open>
  A task's file and its status: \<open>findTaskFile\<close> of \<open>pipeline-cli/src/steps/01-validate.ts\<close>, step 4
  (\<open>04-flip-status.ts\<close>) and \<open>readTaskStatus\<close> of \<open>orchestrator/loop.ts\<close>. A directory is the list of
  its names, \<open>None\<close> when it is missing or cannot be read; a read that fails is \<open>Inl\<close> of its message,
  a write that fails returns one. Paths are joined with one slash.
\<close>

section \<open>The files of a checkout\<close>

record 'w file_io =
  fio_names :: "'w \<Rightarrow> string \<Rightarrow> string list option"
  fio_exists :: "'w \<Rightarrow> string \<Rightarrow> bool"
  fio_read :: "'w \<Rightarrow> string \<Rightarrow> string + string"
  fio_write :: "string \<Rightarrow> string \<Rightarrow> 'w \<Rightarrow> string option \<times> 'w"

definition findTaskFile :: "'w file_io \<Rightarrow> 'w \<Rightarrow> string \<Rightarrow> string \<Rightarrow> string option" where
  "findTaskFile io w taskId workDir =
     (case fio_names io w (workDir @ ''/backlog/tasks'') of
        None \<Rightarrow> None
      | Some entries \<Rightarrow> map_option (\<lambda>name. workDir @ ''/backlog/tasks/'' @ name)
          (find (\<lambda>name. startsWith (toLowerCase name) (toLowerCase taskId @ '' -'')) entries))"

section \<open>The status line\<close>

text \<open>\<open>/^---\n([\s\S]*?)\n---\n([\s\S]*)$/\<close>.\<close>

definition splitFrontmatter :: "string \<Rightarrow> (string \<times> string) option" where
  "splitFrontmatter raw =
     (if startsWith raw (''---'' @ newline) then splitFirst (newline @ ''---'' @ newline) (drop 4 raw) else None)"

text \<open>The first group of \<open>/^(status:\s*)(.+)$/\<close> on a line; a carriage return is not matched by the dot.\<close>

definition statusPrefix :: "string \<Rightarrow> string option" where
  "statusPrefix line =
     (if \<not> startsWith line ''status:'' then None
      else (let rest = drop 7 line; blank = takeWhile isSpace rest; tail = dropWhile isSpace rest
        in if tail \<noteq> [] then (if CHR 13 \<in> set tail then None else Some (''status:'' @ blank))
           else if blank = [] \<or> last blank = CHR 13 then None
           else Some (''status:'' @ butlast blank)))"

definition patchLine :: "string \<Rightarrow> string \<Rightarrow> string" where
  "patchLine newStatus line = (case statusPrefix line of None \<Rightarrow> line | Some p \<Rightarrow> p @ newStatus)"

text \<open>\<open>None\<close> is the error \<open>task file missing YAML frontmatter\<close>.\<close>

definition patchFrontmatterStatus :: "string \<Rightarrow> string \<Rightarrow> string option" where
  "patchFrontmatterStatus raw newStatus = (case splitFrontmatter raw of
     None \<Rightarrow> None
   | Some (fmRaw, body) \<Rightarrow>
       (let ls = splitOn (CHR 10) fmRaw; patched = joinWith newline (map (patchLine newStatus) ls);
            finalFm = (if list_ex (\<lambda>l. statusPrefix l \<noteq> None) ls then patched
              else patched @ newline @ ''status: '' @ newStatus)
        in Some (''---'' @ newline @ finalFm @ newline @ ''---'' @ newline @ body)))"

text \<open>\<open>/^---\n([\s\S]*?)\n---/\<close>, then the first line that starts with the key.\<close>

definition statusOf :: "string \<Rightarrow> string option" where
  "statusOf raw =
     (case (if startsWith raw (''---'' @ newline) then splitFirst (newline @ ''---'') (drop 4 raw) else None) of
        None \<Rightarrow> None
      | Some (fmRaw, _) \<Rightarrow>
          (case find (\<lambda>l. startsWith l ''status:'') (splitOn (CHR 10) fmRaw) of
             None \<Rightarrow> None
           | Some l \<Rightarrow> (let v = trim (drop 7 l) in if v = [] then None else Some v)))"

definition readTaskStatus :: "'w file_io \<Rightarrow> 'w \<Rightarrow> string \<Rightarrow> string \<Rightarrow> string option" where
  "readTaskStatus io w workDir taskId = (case findTaskFile io w taskId workDir of
     None \<Rightarrow> None
   | Some path \<Rightarrow> if \<not> fio_exists io w path then None
       else (case fio_read io w path of Inl _ \<Rightarrow> None | Inr raw \<Rightarrow> statusOf raw))"

text \<open>Reading, patching and writing back one file.\<close>

definition missingFrontmatter :: string where
  "missingFrontmatter = ''task file missing YAML frontmatter''"

definition patchFile :: "'w file_io \<Rightarrow> string \<Rightarrow> string \<Rightarrow> 'w \<Rightarrow> string option \<times> 'w" where
  "patchFile io path newStatus w = (case fio_read io w path of
     Inl e \<Rightarrow> (Some e, w)
   | Inr raw \<Rightarrow> (case patchFrontmatterStatus raw newStatus of
         None \<Rightarrow> (Some missingFrontmatter, w)
       | Some patched \<Rightarrow> fio_write io path patched w))"

section \<open>Step 4\<close>

text \<open>The status flip and the sentinel of a backlog task; \<open>Inl\<close> is the error thrown.\<close>

definition beginTask :: "'w file_io \<Rightarrow> string \<Rightarrow> string \<Rightarrow> string \<Rightarrow> string option \<Rightarrow> 'w \<Rightarrow> (string + string) \<times> 'w" where
  "beginTask io taskId worktreePath workDir status w =
     (case (case findTaskFile io w taskId worktreePath of
          Some f \<Rightarrow> Some f | None \<Rightarrow> findTaskFile io w taskId workDir) of
        None \<Rightarrow> (Inl (''Step 4 begin-task: no task file found for '' @ taskId @ '' under '' @ worktreePath @
          '' or '' @ workDir), w)
      | Some taskFile \<Rightarrow>
          (case patchFile io taskFile (orElse status ''In Progress'') w of
             (Some e, w1) \<Rightarrow> (Inl e, w1)
           | (None, w1) \<Rightarrow>
               (let sentinelPath = worktreePath @ ''/.active-task''
                in case fio_write io sentinelPath (taskId @ newline) w1 of
                     (Some e, w2) \<Rightarrow> (Inl e, w2)
                   | (None, w2) \<Rightarrow> (Inr sentinelPath, w2))))"

section \<open>What is written is read\<close>

text \<open>
  What is written as a task's status is what the next tick reads, and nothing else of the file changes.
\<close>

lemma splitFirst_char: "CHR 10 \<notin> set l \<Longrightarrow>
    splitFirst (CHR 10 # m) (l @ s) = map_option (\<lambda>(a, b). (l @ a, b)) (splitFirst (CHR 10 # m) s)"
proof (induction l)
  case Nil
  show ?case by (cases "splitFirst (CHR 10 # m) s") auto
next
  case (Cons c l)
  then have "splitFirst (CHR 10 # m) ((c # l) @ s) = map_option (\<lambda>(a, b). (c # a, b)) (splitFirst (CHR 10 # m) (l @ s))"
    by (simp del: splitFirst.simps(1))
  moreover have "splitFirst (CHR 10 # m) (l @ s) = map_option (\<lambda>(a, b). (l @ a, b)) (splitFirst (CHR 10 # m) s)"
    using Cons by simp
  ultimately show ?case by (cases "splitFirst (CHR 10 # m) s") auto
qed

lemma prefix_line: "CHR 10 \<notin> set m \<Longrightarrow> prefix m (l @ CHR 10 # s) \<longleftrightarrow> prefix m l"
proof (induction m arbitrary: l)
  case (Cons c m)
  then show ?case by (cases l) auto
qed simp

text \<open>The first mark at the start of a line, in a text given by its lines.\<close>

lemma splitFirst_lines:
  "ls \<noteq> [] \<Longrightarrow> \<forall>l \<in> set ls. CHR 10 \<notin> set l \<Longrightarrow> list_all (\<lambda>l. \<forall>t. \<not> prefix m (l @ CHR 10 # t)) (tl ls) \<Longrightarrow>
    splitFirst (CHR 10 # m) (joinWith newline ls @ CHR 10 # m @ rest) = Some (joinWith newline ls, rest)"
proof (induction ls)
  case (Cons l ls)
  show ?case
  proof (cases ls)
    case Nil
    then show ?thesis using Cons.prems by (simp add: splitFirst_char)
  next
    case (Cons k ks)
    let ?s = "joinWith newline ls @ CHR 10 # m @ rest"
    have "\<not> prefix m ?s" using Cons.prems Cons by (cases ks) (auto simp: newline_def)
    then show ?thesis
      using Cons.IH Cons.prems Cons by (simp add: splitFirst_char newline_def)
  qed
qed simp

lemma dashes_line: "\<not> prefix ''---'' l \<Longrightarrow> \<not> prefix (''---'' @ x) (l @ CHR 10 # t)"
  using prefix_line [of "''---''" l t] append_prefixD [of "''---''" x] by auto

section \<open>Patched lines\<close>

lemma statusPrefix_Some:
  assumes "statusPrefix l = Some p"
  shows "\<exists>blank. p = ''status:'' @ blank \<and> list_all isSpace blank \<and> set blank \<subseteq> set l"
proof -
  let ?rest = "drop 7 l"
  have "set (takeWhile isSpace ?rest) \<subseteq> set l" "list_all isSpace (takeWhile isSpace ?rest)"
    by (auto simp: list_all_iff dest: set_takeWhileD in_set_dropD)
  moreover have "set (butlast (takeWhile isSpace ?rest)) \<subseteq> set (takeWhile isSpace ?rest)"
    by (auto dest: in_set_butlastD)
  ultimately show ?thesis
    using assms by (auto simp: statusPrefix_def Let_def list_all_iff split: if_splits)
qed

lemma statusPrefix_starts: "statusPrefix l = Some p \<Longrightarrow> startsWith l ''status:''"
  by (simp add: statusPrefix_def split: if_splits)

lemma patchLine_starts: "startsWith (patchLine s l) ''status:'' \<longleftrightarrow> startsWith l ''status:''"
  using statusPrefix_Some [of l] statusPrefix_starts [of l]
  by (auto simp: patchLine_def startsWith_def split: option.split)

lemma patchLine_plain:
  assumes "CHR 10 \<notin> set l" "CHR 10 \<notin> set s"
  shows "CHR 10 \<notin> set (patchLine s l)"
proof (cases "statusPrefix l")
  case (Some p)
  then obtain blank where "p = ''status:'' @ blank" "set blank \<subseteq> set l" using statusPrefix_Some by blast
  then show ?thesis using assms Some by (auto simp: patchLine_def)
qed (simp add: assms patchLine_def)

lemma patchLine_mark: "\<not> prefix ''---'' l \<Longrightarrow> \<not> prefix ''---'' (patchLine s l)"
  using statusPrefix_Some [of l] by (auto simp: patchLine_def split: option.split)

lemma joinWith_last: "xs \<noteq> [] \<Longrightarrow> joinWith sep (xs @ [y]) = joinWith sep xs @ sep @ y"
proof (induction xs)
  case (Cons x xs)
  then show ?case by (cases xs) (simp_all add: joinWith_Cons)
qed simp

lemma find_map_same: "(\<And>x. P (f x) = P x) \<Longrightarrow> find P (map f xs) = map_option f (find P xs)"
  by (induction xs) auto

lemma trim_blank: "list_all isSpace b \<Longrightarrow> tight s \<Longrightarrow> trim (b @ s) = s"
  by (induction b) (auto simp: trim_def trimStart_def trim_tight [unfolded trim_def trimStart_def])

text \<open>The lines of the new frontmatter.\<close>

definition newLines :: "string \<Rightarrow> string list \<Rightarrow> string list" where
  "newLines s ls = map (patchLine s) ls @ (if list_ex (\<lambda>l. statusPrefix l \<noteq> None) ls then [] else [''status: '' @ s])"

lemma patched_text:
  assumes "splitFrontmatter raw = Some (fm, body)"
  shows "patchFrontmatterStatus raw s = Some (''---'' @ newline @ joinWith newline (newLines s (splitOn (CHR 10) fm)) @
    newline @ ''---'' @ newline @ body)"
  using assms by (simp add: patchFrontmatterStatus_def newLines_def Let_def joinWith_last)

lemma newLines_shape:
  assumes "\<forall>l \<in> set ls. CHR 10 \<notin> set l" "list_all (\<lambda>l. \<not> prefix ''---'' l) (tl ls)" "CHR 10 \<notin> set s" "ls \<noteq> []"
  shows "newLines s ls \<noteq> []" "\<forall>l \<in> set (newLines s ls). CHR 10 \<notin> set l"
    "list_all (\<lambda>l. \<not> prefix ''---'' l) (tl (newLines s ls))"
  using assms patchLine_plain patchLine_mark
  by (auto simp: newLines_def map_tl [symmetric] list_all_iff neq_Nil_conv)

lemma newLines_status:
  assumes "case find (\<lambda>l. startsWith l ''status:'') ls of None \<Rightarrow> True | Some l \<Rightarrow> statusPrefix l \<noteq> None" "tight s"
  shows "\<exists>l. find (\<lambda>l. startsWith l ''status:'') (newLines s ls) = Some l \<and> trim (drop 7 l) = s"
proof (cases "find (\<lambda>l. startsWith l ''status:'') ls")
  case None
  then have none: "\<not> list_ex (\<lambda>l. statusPrefix l \<noteq> None) ls"
    using statusPrefix_starts by (fastforce simp: find_None_iff list_ex_iff)
  have "find (\<lambda>l. startsWith l ''status:'') (map (patchLine s) ls @ [''status: '' @ s]) = Some (''status: '' @ s)"
    using None patchLine_starts by (induction ls) (auto simp: startsWith_def split: if_splits)
  moreover have "trim ('' '' @ s) = s" using trim_blank [of "'' ''" s] assms(2) by (simp add: isSpace_def)
  ultimately show ?thesis using none by (simp add: newLines_def)
next
  case (Some l)
  then obtain p where p: "statusPrefix l = Some p" using assms(1) by auto
  then obtain blank where "p = ''status:'' @ blank" "list_all isSpace blank" using statusPrefix_Some by blast
  then have "trim (drop 7 (patchLine s l)) = s" using p assms(2) trim_blank by (simp add: patchLine_def)
  moreover have "find (\<lambda>l. startsWith l ''status:'') (map (patchLine s) ls @ x) = Some (patchLine s l)" for x
    using Some patchLine_starts by (induction ls) (auto split: if_splits)
  ultimately show ?thesis by (simp add: newLines_def)
qed

lemma newLines_frame:
  "filter (\<lambda>l. \<not> startsWith l ''status:'') (newLines s ls) = filter (\<lambda>l. \<not> startsWith l ''status:'') ls"
proof -
  have "filter (\<lambda>l. \<not> startsWith l ''status:'') (map (patchLine s) ls) = filter (\<lambda>l. \<not> startsWith l ''status:'') ls" for ls
    using patchLine_starts statusPrefix_starts by (induction ls) (auto simp: patchLine_def split: option.split)
  then show ?thesis by (simp add: newLines_def startsWith_def)
qed

section \<open>The round trip\<close>

text \<open>In a file with frontmatter whose first \<open>status:\<close> line has a value (or that has none), patching the
  status and reading it again gives the new status; the body and every line that is not a status
  line are what they were.\<close>

theorem status_roundtrip:
  assumes "splitFrontmatter raw = Some (fm, body)" "tight s" "s \<noteq> []" "CHR 10 \<notin> set s"
    and "list_all (\<lambda>l. \<not> prefix ''---'' l) (tl (splitOn (CHR 10) fm))"
    and "case find (\<lambda>l. startsWith l ''status:'') (splitOn (CHR 10) fm) of None \<Rightarrow> True | Some l \<Rightarrow> statusPrefix l \<noteq> None"
  shows "\<exists>raw' fm'. patchFrontmatterStatus raw s = Some raw' \<and> statusOf raw' = Some s \<and>
    splitFrontmatter raw' = Some (fm', body) \<and>
    filter (\<lambda>l. \<not> startsWith l ''status:'') (splitOn (CHR 10) fm') =
      filter (\<lambda>l. \<not> startsWith l ''status:'') (splitOn (CHR 10) fm)"
proof -
  let ?ls = "splitOn (CHR 10) fm"
  have plain: "\<forall>l \<in> set ?ls. CHR 10 \<notin> set l" using splitOn_no_sep by blast
  note shape = newLines_shape [OF plain assms(5,4) splitOn_nonempty]
  let ?new = "joinWith newline (newLines s ?ls)"
  have lines: "splitOn (CHR 10) ?new = newLines s ?ls"
    using splitOn_lines [OF shape(1,2)] by (simp add: newline_def)
  let ?raw = "''---'' @ newline @ ?new @ newline @ ''---'' @ newline @ body"
  have marks: "list_all (\<lambda>l. \<forall>t. \<not> prefix (''---'' @ x) (l @ CHR 10 # t)) (tl (newLines s ?ls))" for x
    using shape(3) dashes_line [of _ x] by (auto simp: list_all_iff)
  have read: "splitFirst (newline @ ''---'') (drop 4 ?raw) = Some (?new, newline @ body)"
    using splitFirst_lines [OF shape(1,2) marks [of "[]"], of "newline @ body"] by (simp add: newline_def)
  have reread: "splitFrontmatter ?raw = Some (?new, body)"
    using splitFirst_lines [OF shape(1,2) marks [of newline], of body]
    by (simp add: splitFrontmatter_def startsWith_def newline_def)
  have "statusOf ?raw = Some s"
    using read newLines_status [OF assms(6,2)] assms(3) lines
    by (auto simp: statusOf_def startsWith_def newline_def Let_def)
  moreover have "filter (\<lambda>l. \<not> startsWith l ''status:'') (newLines s ?ls) = filter (\<lambda>l. \<not> startsWith l ''status:'') ?ls"
    by (rule newLines_frame)
  ultimately show ?thesis using patched_text [OF assms(1)] reread lines by auto
qed

definition sampleTask :: "string \<Rightarrow> string" where
  "sampleTask statusLine = ''---'' @ newline @ ''id: AISDLC-7'' @ newline @ statusLine @ newline @ ''title: t'' @ newline @
     ''---'' @ newline @ ''body''"

lemma sample_split: "splitFrontmatter (sampleTask ''status:  To Do'') =
    Some (''id: AISDLC-7'' @ newline @ ''status:  To Do'' @ newline @ ''title: t'', ''body'')"
  by code_simp

theorem status_roundtrip_witness:
  "\<exists>raw'. patchFrontmatterStatus (sampleTask ''status:  To Do'') ''In Progress'' = Some raw' \<and>
    statusOf raw' = Some ''In Progress''"
proof -
  let ?fm = "''id: AISDLC-7'' @ newline @ ''status:  To Do'' @ newline @ ''title: t''"
  have "tight ''In Progress''" by code_simp
  moreover have "list_all (\<lambda>l. \<not> prefix ''---'' l) (tl (splitOn (CHR 10) ?fm))" by code_simp
  moreover have "case find (\<lambda>l. startsWith l ''status:'') (splitOn (CHR 10) ?fm) of None \<Rightarrow> True | Some l \<Rightarrow> statusPrefix l \<noteq> None"
    by code_simp
  ultimately show ?thesis
    using status_roundtrip [OF sample_split, of "''In Progress''"] by auto
qed

text \<open>A status line without a value is left alone: the file then has two, and the first, empty, is read.\<close>

lemma empty_status_doubled:
  "patchFrontmatterStatus (sampleTask ''status:'') ''To Do'' =
     Some (''---'' @ newline @ ''id: AISDLC-7'' @ newline @ ''status:'' @ newline @ ''title: t'' @ newline @
       ''status: To Do'' @ newline @ ''---'' @ newline @ ''body'')"
  "map_option statusOf (patchFrontmatterStatus (sampleTask ''status:'') ''To Do'') = Some None"
  by code_simp+

end
