(* ===== verification/Rollback.thy ===== *)
theory Rollback
  imports StatusFlip FiltersIo ReviewSteps Prelude
begin

text \<open>
  Undoing a failed dispatch, \<open>pipeline-cli/src/orchestrator/rollback.ts\<close>: the status is put back, a
  branch with commits is renamed away or, when a session may still own it, kept, the checkout is
  removed and a branch without commits deleted. The repository is a type of its own. Running a command gives
  \<open>Inl\<close> when the runner throws; the process table is \<open>Inl\<close> when \<open>ps\<close> fails. Log lines are left out.
\<close>

section \<open>The environment\<close>

record 'w rollback_env =
  rbe_files :: "'w file_io"
  rbe_run :: "string \<Rightarrow> string list \<Rightarrow> 'w \<Rightarrow> (string + exec_output) \<times> 'w"
  rbe_mtime :: "'w \<Rightarrow> string \<Rightarrow> int option"
  rbe_processTable :: "'w \<Rightarrow> string + string"
  rbe_now :: "'w \<Rightarrow> int"

record rollback_options =
  rbo_workDir :: string
  rbo_taskId :: string
  rbo_fromStatus :: string
  rbo_worktreePath :: string
  rbo_branch :: string

record rollback_result =
  rbs_statusReverted :: bool
  rbs_worktreeRemoved :: bool
  rbs_quarantine :: "(string \<times> string \<times> int) option"
  rbs_quarantineSkippedReason :: "string option"
  rbs_warnings :: "string list"

text \<open>Computations that may throw, one after the other.\<close>

definition okay :: "'a \<Rightarrow> 'w \<Rightarrow> (string + 'a) \<times> 'w" where
  "okay x w = (Inr x, w)"

definition andThen :: "('w \<Rightarrow> (string + 'a) \<times> 'w) \<Rightarrow> ('a \<Rightarrow> 'w \<Rightarrow> (string + 'b) \<times> 'w) \<Rightarrow> 'w \<Rightarrow> (string + 'b) \<times> 'w" where
  "andThen m f w = (case m w of (Inl e, w') \<Rightarrow> (Inl e, w') | (Inr x, w') \<Rightarrow> f x w')"

section \<open>Is the branch really stale\<close>

definition SENTINEL_ACTIVE_THRESHOLD_MS :: int where
  "SENTINEL_ACTIVE_THRESHOLD_MS = 6 * 60 * 60 * 1000"

text \<open>The line test of this file's own \<open>findClaudeSubprocess\<close>: the id in either case, anywhere.\<close>

definition sessionLine :: "string \<Rightarrow> string \<Rightarrow> int option" where
  "sessionLine taskId line =
     (case splitFirst '' '' (trim line) of
        None \<Rightarrow> None
      | Some (pidStr, rest) \<Rightarrow>
          (let command = trim rest
           in case parseIntPrefix (trim pidStr) of
                None \<Rightarrow> None
              | Some pid \<Rightarrow>
                  if \<not> strIncludes command ''claude'' then None
                  else if \<not> strIncludes command ''--print'' \<and> \<not> hasPrintFlag command then None
                  else if strIncludes command (toLowerCase taskId) \<or> strIncludes command (toUpperCase taskId)
                  then Some pid else None))"

fun findSession :: "string \<Rightarrow> string list \<Rightarrow> int option" where
  "findSession taskId [] = None"
| "findSession taskId (line # ls) = (case sessionLine taskId line of Some pid \<Rightarrow> Some pid | None \<Rightarrow> findSession taskId ls)"

text \<open>The four signals; each gives the reason to keep the branch, if it has one.\<close>

definition upstreamSignal :: "'w rollback_env \<Rightarrow> string \<Rightarrow> 'w \<Rightarrow> (string + string option) \<times> 'w" where
  "upstreamSignal env branch =
     andThen (rbe_run env ''git'' [''rev-parse'', ''--abbrev-ref'', branch @ [CHR 64] @ ''{upstream}'']) (\<lambda>upstreamResult.
       if xr_code upstreamResult \<noteq> 0 then okay (Some ''branch has no remote upstream and has unpushed commits'')
       else (let upstream = trim (xr_stdout upstreamResult)
         in if upstream = [] then okay None
            else andThen (rbe_run env ''git'' [''rev-list'', ''--count'', branch, ''^'' @ upstream]) (\<lambda>aheadResult.
              okay (if xr_code aheadResult \<noteq> 0 then None
                else (case parseIntPrefix (trim (xr_stdout aheadResult)) of
                    None \<Rightarrow> None
                  | Some count \<Rightarrow> if count \<le> 0 then None
                      else Some (showInt count @ '' commit'' @ (if count = 1 then [] else ''s'') @ '' ahead of '' @
                        upstream @ '' (unpushed)''))))))"

definition sentinelSignal :: "'w rollback_env \<Rightarrow> string \<Rightarrow> 'w \<Rightarrow> string option" where
  "sentinelSignal env worktreePath w = (case rbe_mtime env w (worktreePath @ ''/.active-task'') of
     None \<Rightarrow> None
   | Some mtime \<Rightarrow>
       (let ageMs = rbe_now env w - mtime
        in if ageMs < SENTINEL_ACTIVE_THRESHOLD_MS
           then Some (''active sentinel modified '' @ showInt ((ageMs * 2 + 60000) div 120000) @ ''min ago'')
           else None))"

definition processSignal :: "'w rollback_env \<Rightarrow> string \<Rightarrow> 'w \<Rightarrow> string option" where
  "processSignal env taskId w = (case rbe_processTable env w of
     Inl _ \<Rightarrow> None
   | Inr psOutput \<Rightarrow> map_option
       (\<lambda>pid. ''live claude --print subprocess for '' @ taskId @ '' (PID '' @ showInt pid @ '')'')
       (findSession taskId (splitOn (CHR 10) psOutput)))"

text \<open>The listing's text; a first entry that is \<open>null\<close> throws where its number is read.\<close>

definition prReason :: "string \<Rightarrow> string \<Rightarrow> string option" where
  "prReason branch stdout =
     (let nonJson = (if trim stdout = [] then None else Some ''gh pr list returned non-JSON; treating as in-flight'')
      in case parseJson (orText (trim stdout) ''[]'') of
           None \<Rightarrow> nonJson
         | Some (JArr (JNull # es)) \<Rightarrow> nonJson
         | Some (JArr (first # es)) \<Rightarrow>
             Some (''open PR '' @ (case jsonField first ''number'' of
                 Some (JNum n) \<Rightarrow> ''#'' @ showInt n | Some (JFloat t) \<Rightarrow> ''#'' @ t | _ \<Rightarrow> ''unknown'') @
               '' for branch '' @ branch)
         | Some _ \<Rightarrow> None)"

definition prSignal :: "'w rollback_env \<Rightarrow> string \<Rightarrow> 'w \<Rightarrow> (string + string option) \<times> 'w" where
  "prSignal env branch =
     andThen (rbe_run env ''gh'' [''pr'', ''list'', ''--head'', branch, ''--state'', ''open'', ''--json'', ''number''])
       (\<lambda>prResult. okay (if xr_code prResult \<noteq> 0
          then Some ''gh pr list failed; treating as in-flight (fail-closed)''
          else prReason branch (xr_stdout prResult)))"

text \<open>The reason why the branch is not stale.\<close>

definition isReallyStale :: "'w rollback_env \<Rightarrow> rollback_options \<Rightarrow> 'w \<Rightarrow> (string + string option) \<times> 'w" where
  "isReallyStale env opts =
     andThen (upstreamSignal env (rbo_branch opts)) (\<lambda>upstream w.
       case upstream of Some reason \<Rightarrow> okay (Some reason) w
     | None \<Rightarrow> (case sentinelSignal env (rbo_worktreePath opts) w of
           Some reason \<Rightarrow> okay (Some reason) w
         | None \<Rightarrow> (case processSignal env (rbo_taskId opts) w of
               Some reason \<Rightarrow> okay (Some reason) w
             | None \<Rightarrow> prSignal env (rbo_branch opts) w)))"

section \<open>Commits to lose\<close>

text \<open>Number of commits beyond the main branch and the tip.\<close>

definition countAgainst :: "'w rollback_env \<Rightarrow> string \<Rightarrow> string \<Rightarrow> string \<Rightarrow> 'w \<Rightarrow> (string + (int \<times> string) option) \<times> 'w" where
  "countAgainst env branch tipSha upstream =
     andThen (rbe_run env ''git'' [''rev-list'', ''--count'', branch, ''^'' @ upstream]) (\<lambda>counted.
       okay (if xr_code counted \<noteq> 0 then None
         else (case parseIntPrefix (trim (xr_stdout counted)) of
             None \<Rightarrow> None | Some count \<Rightarrow> if count \<le> 0 then None else Some (count, tipSha))))"

definition countCommitsAhead :: "'w rollback_env \<Rightarrow> string \<Rightarrow> 'w \<Rightarrow> (string + (int \<times> string) option) \<times> 'w" where
  "countCommitsAhead env branch =
     andThen (rbe_run env ''git'' [''rev-parse'', ''--verify'', branch]) (\<lambda>verify.
       (let tipSha = trim (xr_stdout verify)
        in if xr_code verify \<noteq> 0 \<or> tipSha = [] then okay None
           else andThen (rbe_run env ''git'' [''rev-parse'', ''--verify'', ''origin/main'']) (\<lambda>mainRef.
             countAgainst env branch tipSha (if xr_code mainRef = 0 then ''origin/main'' else ''main''))))"

definition buildQuarantineRef :: "string \<Rightarrow> int \<Rightarrow> string" where
  "buildQuarantineRef taskId when =
     (let iso = toISOString when; bare = (if endsWith iso ''Z'' then butlast iso else iso)
      in ''quarantine/'' @ toLowerCase taskId @ ''-'' @
         map (\<lambda>c. if c = CHR '':'' \<or> c = CHR ''.'' then CHR ''-'' else c) bare)"

section \<open>The four steps\<close>

text \<open>Whether the status was put back, and the warnings.\<close>

definition revertStatus :: "'w rollback_env \<Rightarrow> rollback_options \<Rightarrow> 'w \<Rightarrow> (bool \<times> string list) \<times> 'w" where
  "revertStatus env opts w =
     (case findTaskFile (rbe_files env) w (rbo_taskId opts) (rbo_workDir opts) of
        None \<Rightarrow> ((False, [''task file not found for '' @ rbo_taskId opts]), w)
      | Some taskFile \<Rightarrow>
          if \<not> fio_exists (rbe_files env) w taskFile then ((False, [''task file disappeared at '' @ taskFile]), w)
          else (case patchFile (rbe_files env) taskFile (rbo_fromStatus opts) w of
              (None, w') \<Rightarrow> ((True, []), w')
            | (Some reason, w') \<Rightarrow> ((False, [''status revert failed: '' @ reason]), w')))"

text \<open>What became of the branch. The last one stands for a rename that git refused.\<close>

datatype branch_fate = NothingAhead | SkippedFor string | Quarantined string string int | RenameFailed string

definition quarantine :: "'w rollback_env \<Rightarrow> rollback_options \<Rightarrow> int \<Rightarrow> string \<Rightarrow> 'w \<Rightarrow> (string + branch_fate) \<times> 'w" where
  "quarantine env opts count tipSha w =
     (let ref = buildQuarantineRef (rbo_taskId opts) (rbe_now env w)
      in andThen (rbe_run env ''git'' [''branch'', ''-m'', rbo_branch opts, ref]) (\<lambda>renamed.
           okay (if xr_code renamed = 0 then Quarantined ref tipSha count
             else RenameFailed (trim (orText (xr_stderr renamed) (xr_stdout renamed))))) w)"

definition probeBranch :: "'w rollback_env \<Rightarrow> rollback_options \<Rightarrow> 'w \<Rightarrow> (string + branch_fate) \<times> 'w" where
  "probeBranch env opts =
     andThen (countCommitsAhead env (rbo_branch opts)) (\<lambda>ahead. case ahead of
         None \<Rightarrow> okay NothingAhead
       | Some (count, tipSha) \<Rightarrow>
           andThen (isReallyStale env opts) (\<lambda>staleCheck. case staleCheck of
               Some reason \<Rightarrow> okay (SkippedFor reason)
             | None \<Rightarrow> quarantine env opts count tipSha))"

text \<open>The probe with its \<open>catch\<close>: a throw keeps the branch.\<close>

definition branchFate :: "'w rollback_env \<Rightarrow> rollback_options \<Rightarrow> 'w \<Rightarrow> (branch_fate \<times> string list) \<times> 'w" where
  "branchFate env opts w = (case probeBranch env opts w of
     (Inl reason, w') \<Rightarrow> ((SkippedFor (''quarantine probe threw: '' @ reason @ '' (preserving branch as safety fallback)''),
       [''quarantine probe failed: '' @ reason]), w')
   | (Inr (RenameFailed reason), w') \<Rightarrow> ((RenameFailed reason, [''quarantine rename failed: '' @ reason]), w')
   | (Inr fate, w') \<Rightarrow> ((fate, []), w'))"

definition removeWorktree :: "'w rollback_env \<Rightarrow> rollback_options \<Rightarrow> 'w \<Rightarrow> (bool \<times> string list) \<times> 'w" where
  "removeWorktree env opts w =
     (if \<not> fio_exists (rbe_files env) w (rbo_worktreePath opts) then ((True, []), w)
      else (case rbe_run env ''git'' [''worktree'', ''remove'', ''--force'', rbo_worktreePath opts] w of
          (Inl reason, w') \<Rightarrow> ((False, [''worktree remove threw: '' @ reason]), w')
        | (Inr removed, w') \<Rightarrow> if xr_code removed = 0 then ((True, []), w')
            else ((False, [''worktree remove failed: '' @ trim (orText (xr_stderr removed) (xr_stdout removed))]), w')))"

definition deleteBranch :: "'w rollback_env \<Rightarrow> rollback_options \<Rightarrow> 'w \<Rightarrow> 'w" where
  "deleteBranch env opts w = snd (rbe_run env ''git'' [''branch'', ''-D'', rbo_branch opts] w)"

definition skipped :: "branch_fate \<Rightarrow> string option" where
  "skipped fate = (case fate of SkippedFor reason \<Rightarrow> Some reason | _ \<Rightarrow> None)"

definition quarantined :: "branch_fate \<Rightarrow> (string \<times> string \<times> int) option" where
  "quarantined fate = (case fate of Quarantined ref sha count \<Rightarrow> Some (ref, sha, count) | _ \<Rightarrow> None)"

definition rollbackDispatch :: "'w rollback_env \<Rightarrow> rollback_options \<Rightarrow> 'w \<Rightarrow> rollback_result \<times> 'w" where
  "rollbackDispatch env opts w =
     (let ((statusReverted, warn1), w1) = revertStatus env opts w;
          ((fate, warn2), w2) = branchFate env opts w1;
          ((worktreeRemoved, warn3), w3) =
            (if skipped fate \<noteq> None then ((False, []), w2) else removeWorktree env opts w2);
          w4 = (if quarantined fate = None \<and> skipped fate = None then deleteBranch env opts w3 else w3)
      in (\<lparr>rbs_statusReverted = statusReverted, rbs_worktreeRemoved = worktreeRemoved,
           rbs_quarantine = quarantined fate, rbs_quarantineSkippedReason = skipped fate,
           rbs_warnings = warn1 @ warn2 @ warn3\<rparr>, w4))"

end
