(* ===== verification/Cadence.thy ===== *)
theory Cadence
  imports FiltersIo Rollback
begin

text \<open>
  What the orchestrator keeps between ticks, \<open>pipeline-cli/src/orchestrator/loop.ts\<close>: the polling
  cadence with its backoff and the counters of candidates that are skipped again and again. The
  time stamps of events are left out. Intervals are whole seconds.
\<close>

section \<open>Configuration\<close>

definition DEFAULT_TICK_INTERVAL_SEC :: int where "DEFAULT_TICK_INTERVAL_SEC = 30"
definition DEFAULT_MAX_CONCURRENT :: int where "DEFAULT_MAX_CONCURRENT = 1"
definition MAX_IDLE_SLEEP_SEC :: int where "MAX_IDLE_SLEEP_SEC = 5 * 60"
definition STUCK_CANDIDATE_THRESHOLD :: nat where "STUCK_CANDIDATE_THRESHOLD = 5"

record orchestrator_config =
  ocf_workDir :: string
  ocf_tickIntervalSec :: int
  ocf_maxConcurrent :: int
  ocf_maxTicks :: "int option"
  ocf_dryRun :: bool

definition defaultOrchestratorConfig :: "string \<Rightarrow> orchestrator_config" where
  "defaultOrchestratorConfig cwd = \<lparr>ocf_workDir = cwd, ocf_tickIntervalSec = DEFAULT_TICK_INTERVAL_SEC,
     ocf_maxConcurrent = DEFAULT_MAX_CONCURRENT, ocf_maxTicks = None, ocf_dryRun = False\<rparr>"

section \<open>Cadence\<close>

record cadence_state =
  cad_currentIntervalSec :: int
  cad_idleStreak :: nat
  cad_lastFrontierIds :: "string list"

datatype idle_event = IdleNoWork nat | IdleAllFiltered nat nat

definition makeInitialCadenceState :: "int \<Rightarrow> cadence_state" where
  "makeInitialCadenceState baseSec =
     \<lparr>cad_currentIntervalSec = max 0 baseSec, cad_idleStreak = 0, cad_lastFrontierIds = []\<rparr>"

definition resetCadence :: "orchestrator_config \<Rightarrow> cadence_state \<Rightarrow> cadence_state" where
  "resetCadence config st = st\<lparr>cad_currentIntervalSec := max 0 (ocf_tickIntervalSec config), cad_idleStreak := 0\<rparr>"

text \<open>The set of ids is a list without repetition.\<close>

definition applyNewTaskWakeIfApplicable :: "orchestrator_config \<Rightarrow> string list \<Rightarrow> cadence_state \<Rightarrow> cadence_state" where
  "applyNewTaskWakeIfApplicable config candidateIds st =
     (let currentIds = fold setAdd candidateIds [];
          hasNew = list_ex (\<lambda>i. i \<notin> set (cad_lastFrontierIds st)) currentIds
      in (if hasNew then resetCadence config st else st)\<lparr>cad_lastFrontierIds := currentIds\<rparr>)"

text \<open>\<open>Some n\<close> is the type \<open>OrchestratorIdleAllFiltered\<close> with its count.\<close>

definition recordIdleTick :: "orchestrator_config \<Rightarrow> nat option \<Rightarrow> cadence_state \<Rightarrow> idle_event \<times> cadence_state" where
  "recordIdleTick config rejectedCount st =
     (let streak = cad_idleStreak st + 1; base = max 1 (ocf_tickIntervalSec config); doubled = cad_currentIntervalSec st * 2
      in (case rejectedCount of Some n \<Rightarrow> IdleAllFiltered streak n | None \<Rightarrow> IdleNoWork streak,
          st\<lparr>cad_idleStreak := streak, cad_currentIntervalSec := min MAX_IDLE_SLEEP_SEC (max base doubled)\<rparr>))"

section \<open>Stuck candidates\<close>

record stuck_entry =
  stk_ticks :: nat
  stk_reason :: string
  stk_emittedStuckEvent :: bool

type_synonym stuck_counters = "(string, stuck_entry) jsmap"

definition mapDelete :: "'k \<Rightarrow> ('k, 'v) jsmap \<Rightarrow> ('k, 'v) jsmap" where
  "mapDelete k m = filter (\<lambda>(k', v). k' \<noteq> k) m"

definition pruneStuckCounters :: "string list \<Rightarrow> stuck_counters \<Rightarrow> stuck_counters" where
  "pruneStuckCounters candidateIds counters = filter (\<lambda>(k, v). k \<in> set (map toLowerCase candidateIds)) counters"

section \<open>Filter events\<close>

datatype blocked_event =
    BlockedByDependency "string list"
  | BlockedByDor "string option"
  | AwaitingExternal "(string \<times> ext_kind) list" "(string \<times> ext_kind) list"
  | OrphanParentEvent "string list"
  | TaskBlocked string "string option"
  | BlockedByDispatchability string
  | BlockedByBlastRadiusOverlap string "string list" nat
  | BlockedByOpenPullRequest nat bool string "string option"

definition toBlockedEvent :: "filter_result \<Rightarrow> blocked_event option" where
  "toBlockedEvent failure = (case fr_detail failure of
     None \<Rightarrow> None
   | Some (DependencyBlockedDetail bs) \<Rightarrow> Some (BlockedByDependency bs)
   | Some (DorBlockedDetail signedAt) \<Rightarrow> Some (BlockedByDor signedAt)
   | Some (AwaitingExternalDetail blocking allDeps) \<Rightarrow>
       Some (AwaitingExternal (map (\<lambda>d. (ed_id d, ed_kind d)) blocking) (map (\<lambda>d. (ed_id d, ed_kind d)) allDeps))
   | Some (OrphanParentDetail completedChildren) \<Rightarrow> Some (OrphanParentEvent completedChildren)
   | Some (BlockedDetail reason until by) \<Rightarrow> Some (TaskBlocked reason until)
   | Some (DispatchabilityBlockedDetail reason) \<Rightarrow> Some (BlockedByDispatchability reason)
   | Some (BlastRadiusOverlapDetail inFlightTaskId overlap n) \<Rightarrow> Some (BlockedByBlastRadiusOverlap inFlightTaskId overlap n)
   | Some (OpenPullRequestExistsDetail n isDraft branchName prUrl) \<Rightarrow> Some (BlockedByOpenPullRequest n isDraft branchName prUrl)
   | Some (AlreadyInFlightDetail s d) \<Rightarrow> None
   | Some (CapturesPendingDetail i a) \<Rightarrow> None)"

definition filterText :: "filter_name \<Rightarrow> string" where
  "filterText f = (case f of
     OpenPullRequestExists \<Rightarrow> ''OpenPullRequestExists'' | OrphanParent \<Rightarrow> ''OrphanParent''
   | AlreadyInFlight \<Rightarrow> ''AlreadyInFlight'' | BlastRadiusOverlap \<Rightarrow> ''BlastRadiusOverlap''
   | DependencyReadiness \<Rightarrow> ''DependencyReadiness'' | Dispatchability \<Rightarrow> ''Dispatchability''
   | DorReadiness \<Rightarrow> ''DorReadiness'' | ExternalDependencies \<Rightarrow> ''ExternalDependencies''
   | Blocked \<Rightarrow> ''Blocked'' | CapturesPending \<Rightarrow> ''CapturesPending'')"

record filter_event =
  fev_taskId :: string
  fev_trace :: chain_result
  fev_stuckEvent :: "(string \<times> nat) option"
  fev_blockedEvent :: "blocked_event option"

definition recordFilterEvent :: "string \<Rightarrow> chain_result \<Rightarrow> stuck_counters \<Rightarrow> filter_event \<times> stuck_counters" where
  "recordFilterEvent taskId chainResult counters =
     (let key = toLowerCase taskId
      in if cr_passed chainResult
         then (\<lparr>fev_taskId = taskId, fev_trace = chainResult, fev_stuckEvent = None, fev_blockedEvent = None\<rparr>,
           mapDelete key counters)
         else (let reason = (case cr_failure chainResult of Some f \<Rightarrow> filterText (fr_filter f) | None \<Rightarrow> ''unknown'');
                   prior = mapGet counters key;
                   ticks = (case prior of Some e \<Rightarrow> stk_ticks e | None \<Rightarrow> 0) + 1;
                   emitted = (case prior of Some e \<Rightarrow> stk_emittedStuckEvent e | None \<Rightarrow> False);
                   fires = (STUCK_CANDIDATE_THRESHOLD < ticks \<and> \<not> emitted)
           in (\<lparr>fev_taskId = taskId, fev_trace = chainResult,
                 fev_stuckEvent = (if fires then Some (reason, ticks) else None),
                 fev_blockedEvent = Option.bind (cr_failure chainResult) toBlockedEvent\<rparr>,
               mapSet key \<lparr>stk_ticks = ticks, stk_reason = reason, stk_emittedStuckEvent = emitted \<or> fires\<rparr> counters)))"

section \<open>Tasks in flight\<close>

text \<open>
  Tasks in flight, \<open>pipeline-cli/src/orchestrator/in-flight.ts\<close>, and the checkouts of aborted runs
  that can be resumed, \<open>checkpoint.ts\<close>. The map is keyed by the id in lower case. The time a sentinel
  was written and the output of a git command run inside a checkout are functions of the world,
  \<open>None\<close> when they fail.
\<close>

section \<open>The map\<close>

record dispatch_state =
  dst_startedAt :: string
  dst_worktreePath :: string
  dst_dispatchPromise :: "unit option"

type_synonym in_flight_map = "(string, dispatch_state) jsmap"

definition isInFlight :: "in_flight_map \<Rightarrow> string \<Rightarrow> dispatch_state option" where
  "isInFlight m taskId = mapGet m (toLowerCase taskId)"

text \<open>Whether this call won, the entry that counts, and the map.\<close>

definition claimInFlight :: "string \<Rightarrow> dispatch_state \<Rightarrow> in_flight_map \<Rightarrow> (bool \<times> dispatch_state) \<times> in_flight_map" where
  "claimInFlight taskId st m = (let key = toLowerCase taskId in case mapGet m key of
     Some existing \<Rightarrow> ((False, existing), m)
   | None \<Rightarrow> ((True, st), mapSet key st m))"

definition releaseInFlight :: "string \<Rightarrow> in_flight_map \<Rightarrow> in_flight_map" where
  "releaseInFlight taskId m = mapDelete (toLowerCase taskId) m"

section \<open>After a restart\<close>

text \<open>One directory of \<open>.worktrees\<close>; ISO times are compared as texts.\<close>

definition reconstructEntry :: "'w rollback_env \<Rightarrow> 'w \<Rightarrow> string \<Rightarrow> string \<Rightarrow> in_flight_map \<Rightarrow> in_flight_map" where
  "reconstructEntry env w root name out =
     (let worktreePath = root @ ''/'' @ name; sentinelPath = worktreePath @ ''/.active-task''
      in if \<not> fio_exists (rbe_files env) w sentinelPath then out
         else (case fio_read (rbe_files env) w sentinelPath of
             Inl _ \<Rightarrow> out
           | Inr raw \<Rightarrow>
               (let taskId = trim raw; key = toLowerCase taskId
                in if taskId = [] then out
                   else (case rbe_mtime env w sentinelPath of
                       None \<Rightarrow> out
                     | Some mtime \<Rightarrow>
                         (let mtimeIso = toISOString mtime;
                              entry = \<lparr>dst_startedAt = mtimeIso, dst_worktreePath = worktreePath, dst_dispatchPromise = None\<rparr>
                          in case mapGet out key of
                               Some existing \<Rightarrow> if dst_startedAt existing \<le> mtimeIso then out else mapSet key entry out
                             | None \<Rightarrow> mapSet key entry out)))))"

definition reconstructInFlightFromWorktrees :: "'w rollback_env \<Rightarrow> string \<Rightarrow> 'w \<Rightarrow> in_flight_map" where
  "reconstructInFlightFromWorktrees env workDir w =
     (let root = workDir @ ''/.worktrees''
      in if \<not> fio_exists (rbe_files env) w root then []
         else fold (reconstructEntry env w root) (orElse (fio_names (rbe_files env) w root) []) [])"

section \<open>Checkouts to resume\<close>

record 'w checkout_git =
  ckg_commitsBeyondMain :: "'w \<Rightarrow> string \<Rightarrow> string option"
  ckg_checkpointLog :: "'w \<Rightarrow> string \<Rightarrow> string option"

definition countCommitsBeyondMain :: "'w file_io \<Rightarrow> 'w checkout_git \<Rightarrow> 'w \<Rightarrow> string \<Rightarrow> int" where
  "countCommitsBeyondMain io g w path =
     (if \<not> fio_exists io w path then 0
      else (case ckg_commitsBeyondMain g w path of
          None \<Rightarrow> 0 | Some out \<Rightarrow> orElse (parseIntPrefix (trim out)) 0))"

definition countCheckpointCommits :: "'w file_io \<Rightarrow> 'w checkout_git \<Rightarrow> 'w \<Rightarrow> string \<Rightarrow> nat" where
  "countCheckpointCommits io g w path =
     (if \<not> fio_exists io w path then 0
      else (case ckg_checkpointLog g w path of
          None \<Rightarrow> 0 | Some out \<Rightarrow> if trim out = [] then 0 else length (splitOn (CHR 10) (trim out))))"

definition worktreePathOf :: "string \<Rightarrow> string \<Rightarrow> string" where
  "worktreePathOf workDir taskId = workDir @ ''/.worktrees/'' @ toLowerCase taskId"

definition RESUMABLE_PREFIXES :: "string list" where
  "RESUMABLE_PREFIXES = [''wip(checkpoint):'', ''chore: auto-sign attestation'', ''chore(spec): re-sign attestation'']"

definition isResumableCommit :: "string \<Rightarrow> bool" where
  "isResumableCommit subject \<longleftrightarrow> list_ex (startsWith subject) RESUMABLE_PREFIXES"

record recoverable =
  rcv_worktreePath :: string
  rcv_commitCount :: int
  rcv_checkpointCount :: nat

definition detectRecoverableWorktree :: "'w file_io \<Rightarrow> 'w checkout_git \<Rightarrow> 'w \<Rightarrow> string \<Rightarrow> string \<Rightarrow> recoverable option" where
  "detectRecoverableWorktree io g w workDir taskId =
     (let wPath = worktreePathOf workDir taskId; sentinelPath = wPath @ ''/.active-task''
      in if \<not> fio_exists io w wPath \<or> \<not> fio_exists io w sentinelPath then None
         else (case fio_read io w sentinelPath of
             Inl _ \<Rightarrow> None
           | Inr raw \<Rightarrow>
               if toLowerCase (trim raw) \<noteq> toLowerCase taskId then None
               else (let commitCount = countCommitsBeyondMain io g w wPath
                 in if commitCount = 0 then None
                    else Some \<lparr>rcv_worktreePath = wPath, rcv_commitCount = commitCount,
                      rcv_checkpointCount = countCheckpointCommits io g w wPath\<rparr>)))"

end
