(* ===== verification/TickSteps.thy ===== *)
theory TickSteps
  imports Complex_Main Cadence PlaybookRun PipelineRun
begin

text \<open>
  The parts of one orchestrator tick, \<open>pipeline-cli/src/orchestrator/loop.ts\<close>: the guard on the parent's
  branch, the filter of tasks in flight, the choice of candidates, the cost channel (\<open>hc-cost.ts\<close>),
  claims, and what is done with a settled dispatch. A state holds the world and everything the tick
  changes; the events sent to the bus are a list, without their time stamps. Dispatching,
  sweeping, escalating, recording a coverage gap and filing decisions are functions on the world.
  Reading the frontier and the task's fields, the failure catalogue and the cost settings are too, and do
  not throw. The umbrella's extra detail of an outcome (\<open>pipeline\<close>) is left out.
\<close>

section \<open>Environment and state\<close>

record candidate =
  cnd_id :: string
  cnd_title :: string

record rich_result =
  rrs_taskId :: string
  rrs_report :: pipeline_report
  rrs_failure :: "(string \<times> string) option"

record task_outcome =
  tko_taskId :: string
  tko_outcome :: string
  tko_prUrl :: "string option"
  tko_error :: "string option"
  tko_notes :: "string option"
  tko_failure :: "(string \<times> string) option"

record escalation =
  esc_taskId :: string
  esc_event :: failure_mode
  esc_reason :: string
  esc_prUrl :: "string option"

record hc_cost_config =
  hcc_enabled :: bool
  hcc_weight :: rat
  hcc_calibrationTier :: string

datatype tick_event =
    WorktreeSwept string string string
  | TickStarted nat
  | IdleEvent idle_event
  | TaskAlreadyInFlight string string
  | BlockedBy string blocked_event
  | EmittedDecisions string "string list"
  | StuckCandidate string string nat
  | CostPolicyApplied rat nat rat string
  | TaskResumed string recoverable
  | TaskDispatched string
  | WorkerMoved playbook_event
  | TaskRecovered string "failure_mode option" string "string option"
  | TaskFailed string failure_mode string "string option"
  | TaskCompleted string string "string option"
  | TaskRolledBack string string rollback_result
  | WorkQuarantined string string string string int
  | AbortedRecoverable string string string string bool int

text \<open>\<open>tke_dispatch picks\<close> does the work of the dispatches of all picks, which have claimed their slots
  before, in whatever interleaving, and waits for them; the i-th result is the error thrown or the result of the i-th.\<close>

record 'w tick_env =
  tke_rollback :: "'w rollback_env"
  tke_checkouts :: "'w checkout_git"
  tke_sweep :: "'w \<Rightarrow> (string \<times> string \<times> string) list \<times> 'w"
  tke_frontier :: "'w \<Rightarrow> candidate list"
  tke_chainOpts :: "'w \<Rightarrow> string \<Rightarrow> chain_opts"
  tke_emitDecisions :: "string \<Rightarrow> 'w \<Rightarrow> string list \<times> 'w"
  tke_hcCost :: "'w \<Rightarrow> hc_cost_config"
  tke_maxBudgetUsd :: "'w \<Rightarrow> string \<Rightarrow> rat option"
  tke_dispatch :: "string list \<Rightarrow> 'w \<Rightarrow> (nat \<Rightarrow> string + rich_result) \<times> 'w"
  tke_playbook :: "string \<Rightarrow> 'w \<Rightarrow> playbook_opts \<times> (nat \<Rightarrow> int)"
  tke_settle :: "effects \<Rightarrow> 'w \<Rightarrow> 'w"
  tke_escalate :: "string \<Rightarrow> string \<Rightarrow> string option \<Rightarrow> 'w \<Rightarrow> string option \<times> 'w"
  tke_coverageGap :: "string \<Rightarrow> string \<Rightarrow> string \<Rightarrow> 'w \<Rightarrow> 'w"
  tke_persistWorkerState :: bool
  tke_bypassFilters :: bool

record 'w tick_state =
  tst_world :: 'w
  tst_inFlight :: in_flight_map
  tst_stuck :: stuck_counters
  tst_cadence :: cadence_state
  tst_prCache :: pr_cache
  tst_events :: "tick_event list"
  tst_outcomes :: "task_outcome list"
  tst_escalations :: "escalation list"
  tst_playbookEvents :: "playbook_event list"

definition send :: "tick_event \<Rightarrow> 'w tick_state \<Rightarrow> 'w tick_state" where
  "send ev st = st\<lparr>tst_events := tst_events st @ [ev]\<rparr>"

abbreviation filesOf :: "'w tick_env \<Rightarrow> 'w file_io" where
  "filesOf env \<equiv> rbe_files (tke_rollback env)"

section \<open>The parent's branch\<close>

definition squoted :: "string \<Rightarrow> string" where
  "squoted s = [CHR 39] @ s @ [CHR 39]"

definition failWith :: "string \<Rightarrow> 'w \<Rightarrow> (string + 'a) \<times> 'w" where
  "failWith message w = (Inl message, w)"

definition checkoutMain :: "'w rollback_env \<Rightarrow> string \<Rightarrow> 'w \<Rightarrow> (string + unit) \<times> 'w" where
  "checkoutMain env currentBranch =
     andThen (rbe_run env ''git'' [''checkout'', ''main'']) (\<lambda>checkoutResult.
       let errText = xr_stderr checkoutResult @ xr_stdout checkoutResult
       in if xr_code checkoutResult = 0 then okay ()
          else if strIncludes errText (''pathspec '' @ squoted ''main'' @ '' did not match'') then okay ()
          else failWith (''Failed to checkout main from '' @ squoted currentBranch @ '': '' @ take 200 errText))"

definition dirtyLines :: "string \<Rightarrow> string list" where
  "dirtyLines porcelain = filter (\<lambda>l. trim l \<noteq> [] \<and> \<not> startsWith l ''??'') (splitOn (CHR 10) porcelain)"

definition runParentBranchGuard :: "'w rollback_env \<Rightarrow> 'w \<Rightarrow> (string + unit) \<times> 'w" where
  "runParentBranchGuard env =
     andThen (rbe_run env ''git'' [''symbolic-ref'', ''--short'', ''HEAD'']) (\<lambda>branchResult.
       let currentBranch = trim (xr_stdout branchResult)
       in if xr_code branchResult \<noteq> 0 \<or> currentBranch = ''main'' \<or> startsWith currentBranch ''gh-readonly-queue/'' then okay ()
          else andThen (rbe_run env ''git'' [''status'', ''--porcelain'']) (\<lambda>statusResult.
            if dirtyLines (xr_stdout statusResult) \<noteq> []
            then failWith (''Parent working tree is on '' @ squoted currentBranch @ '' with uncommitted changes. '' @
              ''Auto-recovery aborted '' @ emDash @ '' resolve manually: git stash && git checkout main.'')
            else checkoutMain env currentBranch))"

section \<open>Candidates\<close>

text \<open>The filter of tasks in flight: the candidates left and the events of those dropped.\<close>

fun inFlightFilter :: "'w tick_env \<Rightarrow> string \<Rightarrow> candidate list \<Rightarrow> 'w tick_state \<Rightarrow>
    (candidate list \<times> (string \<times> string) list) \<times> 'w tick_state" where
  "inFlightFilter env workDir [] st = (([], []), st)"
| "inFlightFilter env workDir (c # cs) st = (case isInFlight (tst_inFlight st) (cnd_id c) of
     None \<Rightarrow> (let ((kept, dropped), st1) = inFlightFilter env workDir cs st in ((c # kept, dropped), st1))
   | Some existing \<Rightarrow>
       if dst_dispatchPromise existing = None \<and>
          detectRecoverableWorktree (filesOf env) (tke_checkouts env) (tst_world st) workDir (cnd_id c) \<noteq> None
       then (let ((kept, dropped), st1) = inFlightFilter env workDir cs
                   (st\<lparr>tst_inFlight := mapDelete (toLowerCase (cnd_id c)) (tst_inFlight st)\<rparr>)
             in ((c # kept, dropped), st1))
       else (let ((kept, dropped), st1) = inFlightFilter env workDir cs
                   (send (TaskAlreadyInFlight (cnd_id c) (dst_startedAt existing)) st)
             in ((kept, (cnd_id c, dst_startedAt existing) # dropped), st1)))"

text \<open>What the bus hears of a filter event.\<close>

definition announceFilter :: "'w tick_env \<Rightarrow> filter_event \<Rightarrow> 'w tick_state \<Rightarrow> 'w tick_state" where
  "announceFilter env event st =
     (let taskId = fev_taskId event;
          st1 = (case fev_blockedEvent event of
             None \<Rightarrow> st
           | Some b \<Rightarrow>
               (let sent = send (BlockedBy taskId b) st
                in case b of
                     BlockedByDor signedAt \<Rightarrow>
                       (let (ids, w) = tke_emitDecisions env taskId (tst_world sent); after = sent\<lparr>tst_world := w\<rparr>
                        in if ids = [] then after else send (EmittedDecisions taskId ids) after)
                   | _ \<Rightarrow> sent))
      in case fev_stuckEvent event of None \<Rightarrow> st1 | Some (reason, ticks) \<Rightarrow> send (StuckCandidate taskId reason ticks) st1)"

text \<open>The options of a candidate: what the loaders read, its id and title, the tick's cache.\<close>

definition candidateOpts :: "'w tick_env \<Rightarrow> 'w \<Rightarrow> pr_cache \<Rightarrow> candidate \<Rightarrow> chain_opts" where
  "candidateOpts env w cache c = (tke_chainOpts env w (cnd_id c))\<lparr>co_taskId := cnd_id c,
     co_taskTitle := (if cnd_title c = [] then None else Some (cnd_title c)), co_prListCache := cache\<rparr>"

definition evaluateCandidate :: "'w tick_env \<Rightarrow> candidate \<Rightarrow> 'w tick_state \<Rightarrow> (chain_result \<times> filter_event) \<times> 'w tick_state" where
  "evaluateCandidate env c st =
     (let (chainResult, cache) = runFilterChain (candidateOpts env (tst_world st) (tst_prCache st) c);
          (event, counters) = recordFilterEvent (cnd_id c) chainResult (tst_stuck st)
      in ((chainResult, event), announceFilter env event (st\<lparr>tst_prCache := cache, tst_stuck := counters\<rparr>)))"

fun pickLoop :: "'w tick_env \<Rightarrow> int \<Rightarrow> candidate list \<Rightarrow> string list \<Rightarrow> filter_event list \<Rightarrow> 'w tick_state \<Rightarrow>
    (string list \<times> filter_event list) \<times> 'w tick_state" where
  "pickLoop env budget [] picks events st = ((picks, events), st)"
| "pickLoop env budget (c # cs) picks events st =
     (if budget \<le> int (length picks) then ((picks, events), st)
      else if tke_bypassFilters env then pickLoop env budget cs (picks @ [cnd_id c]) events st
      else (let ((chainResult, event), st1) = evaluateCandidate env c st
        in pickLoop env budget cs (if cr_passed chainResult then picks @ [cnd_id c] else picks) (events @ [event]) st1))"

section \<open>The cost channel\<close>

text \<open>Weights and priorities are rationals. The result: adjusted priority, sensitivity, difference.\<close>

definition applyHcCost :: "rat \<Rightarrow> rat option \<Rightarrow> hc_cost_config \<Rightarrow> rat \<times> bool \<times> rat" where
  "applyHcCost priority maxBudgetUsd config =
     (let isCostSensitive = maxBudgetUsd \<noteq> None
      in if \<not> hcc_enabled config \<or> \<not> isCostSensitive \<or> hcc_weight config = 1 then (priority, isCostSensitive, 0)
         else (let adjusted = priority * hcc_weight config in (adjusted, isCostSensitive, adjusted - priority)))"

definition applyCostPolicy :: "'w tick_env \<Rightarrow> string list \<Rightarrow> 'w tick_state \<Rightarrow> string list \<times> 'w tick_state" where
  "applyCostPolicy env picks st =
     (let w = tst_world st; config = tke_hcCost env w;
          application = (\<lambda>taskId. applyHcCost 1 (tke_maxBudgetUsd env w taskId) config);
          affected = filter (\<lambda>taskId. fst (snd (application taskId)) \<and> snd (snd (application taskId)) \<noteq> 0) picks
      in if \<not> hcc_enabled config \<or> hcc_weight config = 1 then (picks, st)
         else (sort_key (\<lambda>taskId. - fst (application taskId)) picks,
           if affected = [] then st
           else send (CostPolicyApplied (hcc_weight config) (length affected)
             (sum_list (map (\<lambda>taskId. snd (snd (application taskId))) affected)) (hcc_calibrationTier config)) st))"

end
