(* ===== verification/OrchestratorTick.thy ===== *)
theory OrchestratorTick
  imports TickSteps
begin

text \<open>
  One tick and the loop around it, \<open>runOrchestratorTick\<close> and \<open>runOrchestratorLoop\<close> of
  \<open>pipeline-cli/src/orchestrator/loop.ts\<close>. \<open>None\<close> stands for the error of the playbook's registry check;
  an error of the parent-branch guard ends the tick. Catalogue, emitter and loaders are in the
  environment.
\<close>

section \<open>Claims\<close>

text \<open>What starts a dispatch: the status before it, and whether the claim was won.\<close>

record claim =
  clm_taskId :: string
  clm_preDispatchStatus :: string
  clm_claimed :: bool

fun claimAll :: "'w tick_env \<Rightarrow> string \<Rightarrow> string list \<Rightarrow> 'w tick_state \<Rightarrow> claim list \<times> 'w tick_state" where
  "claimAll env workDir [] st = ([], st)"
| "claimAll env workDir (taskId # picks) st =
     (let w = tst_world st;
          ((claimed, entry), m) = claimInFlight taskId
            \<lparr>dst_startedAt = toISOString (rbe_now (tke_rollback env) w), dst_worktreePath = worktreePathOf workDir taskId,
             dst_dispatchPromise = None\<rparr> (tst_inFlight st);
          c = \<lparr>clm_taskId = taskId,
               clm_preDispatchStatus = orElse (readTaskStatus (filesOf env) w workDir taskId) ''To Do'', clm_claimed = claimed\<rparr>;
          (claims, st1) = claimAll env workDir picks (send (TaskDispatched taskId) (st\<lparr>tst_inFlight := m\<rparr>))
      in (c # claims, st1))"

definition releaseClaims :: "claim list \<Rightarrow> in_flight_map \<Rightarrow> in_flight_map" where
  "releaseClaims claims m =
     fold (\<lambda>c m. if clm_claimed c then releaseInFlight (clm_taskId c) m else m) claims m"

definition announceResumes :: "'w tick_env \<Rightarrow> string \<Rightarrow> string list \<Rightarrow> 'w tick_state \<Rightarrow> 'w tick_state" where
  "announceResumes env workDir picks st =
     fold (\<lambda>taskId st. case detectRecoverableWorktree (filesOf env) (tke_checkouts env) (tst_world st) workDir taskId of
         None \<Rightarrow> st | Some r \<Rightarrow> send (TaskResumed taskId r) st) picks st"

section \<open>Settled dispatches\<close>

definition outcomeText :: "pipeline_outcome \<Rightarrow> string" where
  "outcomeText oc = (case oc of Approved \<Rightarrow> ''approved'' | NeedsHumanAttention \<Rightarrow> ''needs-human-attention''
     | DeveloperFailed \<Rightarrow> ''developer-failed'' | DeveloperJsonContractViolated \<Rightarrow> ''developer-json-contract-violated''
     | Aborted \<Rightarrow> ''aborted'' | PipelineRun.RebaseConflict \<Rightarrow> ''rebase-conflict'')"

definition ROLLBACK_OUTCOMES :: "string list" where
  "ROLLBACK_OUTCOMES = [''developer-failed'', ''developer-json-contract-violated'', ''unknown-failure'']"

definition RECOVERABLE_ABORT_OUTCOMES :: "string list" where
  "RECOVERABLE_ABORT_OUTCOMES = [''aborted'']"

text \<open>The record that is kept: its reason says so when the escalator threw.\<close>

definition pushEscalation :: "'w tick_env \<Rightarrow> escalation \<Rightarrow> 'w tick_state \<Rightarrow> 'w tick_state" where
  "pushEscalation env record' st =
     (let (thrown, w) = tke_escalate env (esc_taskId record') (esc_reason record') (esc_prUrl record') (tst_world st)
      in st\<lparr>tst_world := w, tst_escalations := tst_escalations st @ [case thrown of
           None \<Rightarrow> record'
         | Some message \<Rightarrow> record'\<lparr>esc_reason := esc_reason record' @ '' (escalator threw: '' @ message @ '')''\<rparr>]\<rparr>)"

definition addOutcome :: "task_outcome \<Rightarrow> 'w tick_state \<Rightarrow> 'w tick_state" where
  "addOutcome oc st = st\<lparr>tst_outcomes := tst_outcomes st @ [oc]\<rparr>"

definition unknownFailure :: "string \<Rightarrow> string \<Rightarrow> string option \<Rightarrow> task_outcome" where
  "unknownFailure taskId message notes = \<lparr>tko_taskId = taskId, tko_outcome = ''unknown-failure'', tko_prUrl = None,
     tko_error = Some message, tko_notes = notes, tko_failure = None\<rparr>"

definition maybeRollback :: "'w tick_env \<Rightarrow> string \<Rightarrow> string \<Rightarrow> string \<Rightarrow> string option \<Rightarrow> string option \<Rightarrow>
    'w tick_state \<Rightarrow> 'w tick_state" where
  "maybeRollback env workDir taskId preDispatchStatus branch worktreePath st =
     (let branch' = orElse branch (''ai-sdlc/'' @ toLowerCase taskId);
          (result, w) = rollbackDispatch (tke_rollback env)
            \<lparr>rbo_workDir = workDir, rbo_taskId = taskId, rbo_fromStatus = preDispatchStatus,
             rbo_worktreePath = orElse worktreePath (worktreePathOf workDir taskId), rbo_branch = branch'\<rparr> (tst_world st);
          st1 = send (TaskRolledBack taskId preDispatchStatus result) (st\<lparr>tst_world := w\<rparr>)
      in case rbs_quarantine result of
           Some (ref, sha, count) \<Rightarrow> if ref \<noteq> [] \<and> sha \<noteq> [] \<and> count \<noteq> 0
             then send (WorkQuarantined taskId branch' ref sha count) st1 else st1
         | None \<Rightarrow> st1)"

definition emitRecoverableAbort :: "'w tick_env \<Rightarrow> string \<Rightarrow> string \<Rightarrow> string \<Rightarrow> string \<Rightarrow> 'w tick_state \<Rightarrow> 'w tick_state" where
  "emitRecoverableAbort env taskId reason branch wPath st =
     (let commitCount = countCommitsBeyondMain (filesOf env) (tke_checkouts env) (tst_world st) wPath;
          checkpointCount = countCheckpointCommits (filesOf env) (tke_checkouts env) (tst_world st) wPath
      in send (AbortedRecoverable taskId branch wPath (take 120 reason) (0 < checkpointCount) commitCount) st)"

text \<open>The playbook's answer to a thrown error.\<close>

definition tryPlaybookOnError :: "'w tick_env \<Rightarrow> string \<Rightarrow> string \<Rightarrow> string \<Rightarrow> 'w tick_state \<Rightarrow>
    (playbook_result \<times> 'w tick_state) option" where
  "tryPlaybookOnError env workDir taskId reason st =
     (let (opts, clock) = tke_playbook env taskId (tst_world st);
          workerId = ''w-'' @ toLowerCase taskId; branch = ''ai-sdlc/'' @ toLowerCase taskId;
          worktreePath = worktreePathOf workDir taskId;
          ctx = \<lparr>wc_workerId = workerId, wc_taskId = taskId, wc_branch = branch, wc_worktreePath = worktreePath,
            wc_state = DEV_RUNNING, wc_prUrl = None,
            wc_failure = \<lparr>fs_stderr = reason, fs_exitCode = Some 1, fs_reviewerFindings = None, fs_prAgeMs = None,
              fs_changedPaths = None, fs_basePrMergedAt = None, fs_mergeStateStatus = None\<rparr>, wc_attempts = 0\<rparr>;
          tracker = newTracker workerId taskId branch worktreePath (Some DEV_RUNNING) clock
            (\<not> tke_persistWorkerState env) None
      in map_option (\<lambda>(playbook, r). (playbook, st\<lparr>tst_world := tke_settle env (rn_effects r) (tst_world st),
             tst_playbookEvents := tst_playbookEvents st @ pr_events playbook,
             tst_events := tst_events st @ map WorkerMoved (filter (\<lambda>ev. case ev_body ev of
               WorkerStateTransition a b d n m \<Rightarrow> True | _ \<Rightarrow> False) (pr_events playbook))\<rparr>))
           (runPlaybook ctx opts tracker \<lparr>ef_commands = [], ef_sleeps = [], ef_redispatches = 0, ef_warnings = [],
             ef_escalations = []\<rparr>))"

text \<open>The catch-all of an uncatalogued failure and of a missing result.\<close>

definition catchAll :: "'w tick_env \<Rightarrow> string \<Rightarrow> claim \<Rightarrow> string \<Rightarrow> string \<Rightarrow> 'w tick_state \<Rightarrow> 'w tick_state" where
  "catchAll env workDir c reason sourceHint st =
     (let taskId = clm_taskId c;
          st1 = pushEscalation env \<lparr>esc_taskId = taskId, esc_event = UnknownFailureMode, esc_reason = reason,
            esc_prUrl = None\<rparr> st;
          st2 = send (TaskFailed taskId UnknownFailureMode reason None) (addOutcome (unknownFailure taskId reason None) st1);
          st3 = st2\<lparr>tst_world := tke_coverageGap env taskId reason sourceHint (tst_world st2)\<rparr>
      in maybeRollback env workDir taskId (clm_preDispatchStatus c) None None st3)"

definition settleError :: "'w tick_env \<Rightarrow> string \<Rightarrow> claim \<Rightarrow> string \<Rightarrow> 'w tick_state \<Rightarrow> 'w tick_state option" where
  "settleError env workDir c message st =
     (case tryPlaybookOnError env workDir (clm_taskId c) message st of
        None \<Rightarrow> None
      | Some (playbook, st1) \<Rightarrow> Some
          (case (pr_outcome playbook, pr_pipelineResult playbook, pr_matchedMode playbook) of
             (RecoveredOutcome, Some r, mode) \<Rightarrow>
               send (TaskRecovered (plr_taskId r) mode (plr_outcome r) (plr_prUrl r))
                 (addOutcome \<lparr>tko_taskId = plr_taskId r, tko_outcome = plr_outcome r, tko_prUrl = plr_prUrl r,
                    tko_error = None, tko_notes = plr_notes r, tko_failure = None\<rparr> st1)
           | (EscalatedOutcome, _, Some mode) \<Rightarrow>
               (let reason = orElse (pr_note playbook) message; taskId = clm_taskId c;
                    st2 = st1\<lparr>tst_escalations := tst_escalations st1 @ [\<lparr>esc_taskId = taskId, esc_event = mode,
                      esc_reason = reason, esc_prUrl = None\<rparr>]\<rparr>
                in maybeRollback env workDir taskId (clm_preDispatchStatus c) None None
                     (send (TaskFailed taskId mode reason None)
                       (addOutcome (unknownFailure taskId reason (Some (''playbook handled '' @ modeText mode))) st2)))
           | _ \<Rightarrow> catchAll env workDir c message ''orchestrator-loop:no-handler'' st1))"

definition settleResult :: "'w tick_env \<Rightarrow> string \<Rightarrow> claim \<Rightarrow> rich_result \<Rightarrow> 'w tick_state \<Rightarrow> 'w tick_state" where
  "settleResult env workDir c rich st =
     (let result = rrs_report rich; taskId = rrs_taskId rich; oc = outcomeText (plt_outcome result);
          failure = (case rrs_failure rich of Some f \<Rightarrow> Some f
            | None \<Rightarrow> if plt_outcome result = PipelineRun.RebaseConflict
                then Some (''rebase-conflict'', orElse (plt_notes result) ''late-rebase hit semantic conflicts before push'')
                else None);
          st1 = send (TaskCompleted taskId oc (plt_prUrl result))
            (addOutcome \<lparr>tko_taskId = taskId, tko_outcome = oc, tko_prUrl = plt_prUrl result, tko_error = None,
               tko_notes = plt_notes result, tko_failure = failure\<rparr> st);
          st2 = (if oc \<in> set ROLLBACK_OUTCOMES
            then maybeRollback env workDir taskId (clm_preDispatchStatus c) (Some (plt_branch result))
              (Some (plt_worktreePath result)) st1
            else if oc \<in> set RECOVERABLE_ABORT_OUTCOMES
            then emitRecoverableAbort env taskId (orElse (plt_notes result) (''aborted ('' @ oc @ '')''))
              (plt_branch result) (plt_worktreePath result) st1
            else st1)
      in if plt_outcome result \<noteq> NeedsHumanAttention then st2
         else (let reason = orElse (plt_notes result) ''needs-human-attention from executePipeline''
           in send (TaskFailed taskId UnknownFailureMode reason (plt_prUrl result))
             (pushEscalation env \<lparr>esc_taskId = taskId, esc_event = UnknownFailureMode, esc_reason = reason,
               esc_prUrl = plt_prUrl result\<rparr> st2)))"

text \<open>An error without a message is falsy: it counts as a missing result.\<close>

definition settleOne :: "'w tick_env \<Rightarrow> string \<Rightarrow> claim \<Rightarrow> string + rich_result \<Rightarrow> 'w tick_state \<Rightarrow> 'w tick_state option" where
  "settleOne env workDir c settled st = (case settled of
     Inl message \<Rightarrow> if message = [] then Some (catchAll env workDir c ''dispatch returned no result'' ''orchestrator-loop:no-result'' st)
       else settleError env workDir c message st
   | Inr rich \<Rightarrow> Some (settleResult env workDir c rich st))"

fun settleAll :: "'w tick_env \<Rightarrow> string \<Rightarrow> (claim \<times> (string + rich_result)) list \<Rightarrow> 'w tick_state \<Rightarrow> 'w tick_state option" where
  "settleAll env workDir [] st = Some st"
| "settleAll env workDir ((c, settled) # rest) st =
     Option.bind (settleOne env workDir c settled st) (settleAll env workDir rest)"

section \<open>The tick\<close>

record tick_result =
  tkr_tick :: nat
  tkr_candidates :: nat
  tkr_dispatched :: "string list"
  tkr_outcomes :: "task_outcome list"
  tkr_escalations :: "escalation list"
  tkr_empty :: bool
  tkr_playbookEvents :: "playbook_event list"
  tkr_filterEvents :: "filter_event list"
  tkr_idleEvent :: "idle_event option"
  tkr_nextSleepSec :: int
  tkr_alreadyInFlight :: "(string \<times> string) list"

text \<open>An idle tick: the backoff advances, and nothing was dispatched.\<close>

definition idleTick :: "orchestrator_config \<Rightarrow> nat \<Rightarrow> nat \<Rightarrow> nat option \<Rightarrow> filter_event list \<Rightarrow> (string \<times> string) list \<Rightarrow>
    'w tick_state \<Rightarrow> tick_result \<times> 'w tick_state" where
  "idleTick config tickNumber candidates rejections filterEvents alreadyInFlight st =
     (let (idle, cadence) = recordIdleTick config rejections (tst_cadence st);
          st1 = send (IdleEvent idle) (st\<lparr>tst_cadence := cadence\<rparr>)
      in (\<lparr>tkr_tick = tickNumber, tkr_candidates = candidates, tkr_dispatched = [], tkr_outcomes = [], tkr_escalations = [],
           tkr_empty = (candidates = 0), tkr_playbookEvents = [], tkr_filterEvents = filterEvents,
           tkr_idleEvent = Some idle, tkr_nextSleepSec = cad_currentIntervalSec cadence,
           tkr_alreadyInFlight = alreadyInFlight\<rparr>, st1))"

text \<open>Resumes are announced, slots claimed, the dispatches awaited, the slots released.\<close>

definition dispatchPicks :: "'w tick_env \<Rightarrow> string \<Rightarrow> string list \<Rightarrow> 'w tick_state \<Rightarrow>
    (claim \<times> (string + rich_result)) list \<times> 'w tick_state" where
  "dispatchPicks env workDir picks st =
     (let (claims, st1) = claimAll env workDir picks (announceResumes env workDir picks st);
          (answer, w) = tke_dispatch env picks (tst_world st1)
      in (map (\<lambda>(i, c). (c, answer i)) (enumerate 0 claims),
          st1\<lparr>tst_world := w, tst_inFlight := releaseClaims claims (tst_inFlight st1)\<rparr>))"

definition busyTick :: "'w tick_env \<Rightarrow> orchestrator_config \<Rightarrow> nat \<Rightarrow> nat \<Rightarrow> string list \<Rightarrow> filter_event list \<Rightarrow>
    (string \<times> string) list \<Rightarrow> 'w tick_state \<Rightarrow> (tick_result \<times> 'w tick_state) option" where
  "busyTick env config tickNumber candidates picks filterEvents alreadyInFlight st =
     (let (ordered, st1) = applyCostPolicy env picks st;
          (settled, st2) = dispatchPicks env (ocf_workDir config) ordered st1
      in map_option (\<lambda>st3. let st4 = st3\<lparr>tst_cadence := resetCadence config (tst_cadence st3)\<rparr>
           in (\<lparr>tkr_tick = tickNumber, tkr_candidates = candidates, tkr_dispatched = ordered,
                tkr_outcomes = tst_outcomes st4, tkr_escalations = tst_escalations st4, tkr_empty = False,
                tkr_playbookEvents = tst_playbookEvents st4, tkr_filterEvents = filterEvents, tkr_idleEvent = None,
                tkr_nextSleepSec = cad_currentIntervalSec (tst_cadence st4), tkr_alreadyInFlight = alreadyInFlight\<rparr>, st4))
           (settleAll env (ocf_workDir config) settled st2))"

text \<open>The frontier read, to the end of the tick.\<close>

definition tickBody :: "'w tick_env \<Rightarrow> orchestrator_config \<Rightarrow> nat \<Rightarrow> candidate list \<Rightarrow> 'w tick_state \<Rightarrow>
    (tick_result \<times> 'w tick_state) option" where
  "tickBody env config tickNumber candidates st =
     (let ids = map cnd_id candidates; n = length candidates; st1 = send (TickStarted n) st
      in if candidates = []
         then Some (idleTick config tickNumber 0 None [] [] (st1\<lparr>tst_stuck := pruneStuckCounters [] (tst_stuck st1)\<rparr>))
         else (let st2 = st1\<lparr>tst_cadence := applyNewTaskWakeIfApplicable config ids (tst_cadence st1),
                     tst_stuck := pruneStuckCounters ids (tst_stuck st1)\<rparr>;
                   budget = max 0 (ocf_maxConcurrent config)
           in if ocf_dryRun config then Some (idleTick config tickNumber n None [] [] st2)
              else (let ((dispatchable, dropped), st3) = inFlightFilter env (ocf_workDir config) candidates st2;
                        ((picks, filterEvents), st4) = pickLoop env budget dispatchable [] [] st3
                in if picks = []
                   then Some (idleTick config tickNumber n
                     (if filterEvents = [] then None else Some (length filterEvents)) filterEvents dropped st4)
                   else busyTick env config tickNumber n picks filterEvents dropped st4)))"

definition sweepWorktrees :: "'w tick_env \<Rightarrow> bool \<Rightarrow> 'w tick_state \<Rightarrow> 'w tick_state" where
  "sweepWorktrees env disabled st =
     (if disabled then st
      else (let (swept, w) = tke_sweep env (tst_world st)
        in fold (\<lambda>(path, branch, mergedAt). send (WorktreeSwept path branch mergedAt)) swept (st\<lparr>tst_world := w\<rparr>)))"

text \<open>\<open>Inl\<close> is the error of the guard. What a tick collects starts empty, as does its pull-request cache.\<close>

definition runOrchestratorTick :: "'w tick_env \<Rightarrow> bool \<Rightarrow> orchestrator_config \<Rightarrow> nat \<Rightarrow> 'w tick_state \<Rightarrow>
    ((string + tick_result) \<times> 'w tick_state) option" where
  "runOrchestratorTick env sweepDisabled config tickNumber st =
     (let (guarded, w) = runParentBranchGuard (tke_rollback env) (tst_world st);
          st1 = st\<lparr>tst_world := w, tst_prCache := [], tst_outcomes := [], tst_escalations := [], tst_playbookEvents := []\<rparr>
      in case guarded of
           Inl e \<Rightarrow> Some (Inl e, st1)
         | Inr _ \<Rightarrow>
             (let st2 = sweepWorktrees env sweepDisabled st1
              in map_option (\<lambda>(result, st3). (Inr result, st3))
                   (tickBody env config tickNumber (tke_frontier env (tst_world st2)) st2)))"

section \<open>The loop\<close>

text \<open>\<open>stops n\<close>: whether a signal came in during tick \<open>n\<close>, and during the sleep after it; \<open>pause\<close> sleeps. The fuel bounds the ticks; \<open>None\<close> is no
  end within it. The results so far are returned with the error when the guard throws.\<close>

fun tickLoop :: "'w tick_env \<Rightarrow> bool \<Rightarrow> (nat \<Rightarrow> bool \<times> bool) \<Rightarrow> (int \<Rightarrow> 'w \<Rightarrow> 'w) \<Rightarrow> orchestrator_config \<Rightarrow> nat \<Rightarrow> nat \<Rightarrow>
    tick_result list \<Rightarrow> 'w tick_state \<Rightarrow> ((string option \<times> tick_result list) \<times> 'w tick_state) option" where
  "tickLoop env sweepDisabled stops pause config 0 tickNumber ticks st = None"
| "tickLoop env sweepDisabled stops pause config (Suc fuel) tickNumber ticks st =
     (let n = tickNumber + 1
      in case runOrchestratorTick env sweepDisabled config n st of
           None \<Rightarrow> None
         | Some (Inl e, st1) \<Rightarrow> Some ((Some e, ticks), st1)
         | Some (Inr tick, st1) \<Rightarrow>
             (if (case ocf_maxTicks config of Some m \<Rightarrow> m \<le> int n | None \<Rightarrow> False) \<or> fst (stops n)
              then Some ((None, ticks @ [tick]), st1)
              else (let st2 = st1\<lparr>tst_world := pause (tkr_nextSleepSec tick * 1000) (tst_world st1)\<rparr>
                in if snd (stops n) then Some ((None, ticks @ [tick]), st2)
                   else tickLoop env sweepDisabled stops pause config fuel n (ticks @ [tick]) st2)))"

text \<open>What the loop keeps between ticks at its start.\<close>

definition initialState :: "'w tick_env \<Rightarrow> orchestrator_config \<Rightarrow> 'w \<Rightarrow> 'w tick_state" where
  "initialState env config w = \<lparr>tst_world = w,
     tst_inFlight = reconstructInFlightFromWorktrees (tke_rollback env) (ocf_workDir config) w, tst_stuck = [],
     tst_cadence = makeInitialCadenceState (ocf_tickIntervalSec config), tst_prCache = [], tst_events = [],
     tst_outcomes = [], tst_escalations = [], tst_playbookEvents = []\<rparr>"

definition ORCHESTRATOR_FLAG :: string where
  "ORCHESTRATOR_FLAG = ''AI_SDLC_AUTONOMOUS_ORCHESTRATOR''"

text \<open>The value of the flag in the environment, \<open>feature-flag.ts\<close>.\<close>

definition isOrchestratorEnabled :: "string option \<Rightarrow> bool" where
  "isOrchestratorEnabled flag \<longleftrightarrow>
     \<not> given flag \<or> toLowerCase (trim (the flag)) \<notin> set [''off'', ''0'', ''false'', ''no'']"

definition orchestratorDisabledMessage :: string where
  "orchestratorDisabledMessage = ''[orchestrator] feature flag '' @ ORCHESTRATOR_FLAG @
     '' is explicitly disabled; refusing to start. Unset '' @ ORCHESTRATOR_FLAG @
     '' (or set to a non-opt-out value) to enable (default-ON since AISDLC-411).''"

definition runOrchestratorLoop :: "'w tick_env \<Rightarrow> string option \<Rightarrow> bool \<Rightarrow> (nat \<Rightarrow> bool \<times> bool) \<Rightarrow> (int \<Rightarrow> 'w \<Rightarrow> 'w) \<Rightarrow>
    orchestrator_config \<Rightarrow> nat \<Rightarrow> 'w \<Rightarrow> ((string option \<times> tick_result list) \<times> 'w tick_state) option" where
  "runOrchestratorLoop env flag sweepDisabled stops pause config fuel w =
     (let st = initialState env config w
      in if \<not> isOrchestratorEnabled flag then Some ((Some orchestratorDisabledMessage, []), st)
         else tickLoop env sweepDisabled stops pause config fuel 0 [] st)"

end
