(* ===== verification/TickCorrect.thy ===== *)
theory TickCorrect
  imports OrchestratorTick PlaybookCorrect
begin

text \<open>
  Lemmas about a tick: what a recovered playbook run returns, what settling leaves alone, and how
  claims come and go.
\<close>

section \<open>A recovered run's result\<close>

context remediation_contract
begin

lemma escalate_outcome: "escalate ctx h' n reason opts r = (out, r') \<Longrightarrow> pr_outcome out = EscalatedOutcome"
  by (auto simp: escalate_def Let_def)

lemma attempt_result:
  "(h_mode h \<in> silentModes \<longrightarrow> res = None) \<Longrightarrow> attemptLoop ctx h rst budget opts n k lastNote res r = (out, r') \<Longrightarrow>
    pr_outcome out = RecoveredOutcome \<Longrightarrow>
    pr_matchedMode out = Some (h_mode h) \<and> (if h_mode h \<in> silentModes then pr_pipelineResult out = None
     else map_option plr_outcome (pr_pipelineResult out) = Some ''approved'')"
proof (induction n arbitrary: k lastNote res r)
  case 0
  then show ?case using escalate_outcome by (fastforce simp: attemptLoop.simps(1))
next
  case (Suc n)
  obtain out' e where out': "h_remediate h (ctx\<lparr>wc_state := rst, wc_attempts := k\<rparr>) (po_deps opts) (rn_effects r) = (out', e)"
    by fastforce
  let ?res = "case ro_result out' of None \<Rightarrow> res | Some p \<Rightarrow> Some p"
  have quiet: "h_mode h \<in> silentModes \<longrightarrow> ?res = None" using silent [OF out'] Suc.prems(1) by auto
  show ?case
  proof (cases "ro_status out'")
    case Recovered
    then show ?thesis
      using Suc.prems(2) quiet result_given [OF out' Recovered] result_approved [OF out' Recovered]
      by (auto simp: out' Let_def split: option.splits)
  next
    case Retry
    then show ?thesis
      using Suc.prems(2,3) Suc.IH [OF quiet] by (auto simp: out' Let_def)
  next
    case BudgetExhausted
    then show ?thesis using Suc.prems(2,3) by (auto simp: out' Let_def dest: escalate_outcome)
  next
    case Inapplicable
    then show ?thesis using Suc.prems(2,3) by (auto simp: out' Let_def dest: escalate_outcome)
  qed
qed

end

lemma recovered_result:
  assumes "runPlaybook ctx opts t e = Some (out, r)" "pr_outcome out = RecoveredOutcome"
  shows "\<exists>m. pr_matchedMode out = Some m \<and> (if m \<in> silentModes then pr_pipelineResult out = None
     else map_option plr_outcome (pr_pipelineResult out) = Some ''approved'')"
proof (cases "pickHandler ctx")
  case None
  then show ?thesis using assms by (auto simp: runPlaybook_def)
next
  case (Some h)
  then have contract: "remediation_contract h" using registered_contract pickHandler_registered by blast
  show ?thesis
    using assms Some remediation_contract.escalate_outcome [OF contract]
      remediation_contract.attempt_result [OF contract, of None]
    by (fastforce simp: runPlaybook_def Let_def split: if_splits)
qed

lemma playbook_returns: "\<exists>out r. runPlaybook ctx opts t e = Some (out, r)"
proof (cases "runPlaybook ctx opts t e")
  case None
  then show ?thesis by (simp add: runPlaybook_def Let_def split: option.splits)
qed auto

section \<open>Settling\<close>

definition rolledBack :: "tick_event list \<Rightarrow> string list" where
  "rolledBack evs = List.map_filter (\<lambda>ev. case ev of TaskRolledBack t s r \<Rightarrow> Some t | _ \<Rightarrow> None) evs"

definition keptForResume :: "tick_event list \<Rightarrow> string list" where
  "keptForResume evs = List.map_filter (\<lambda>ev. case ev of AbortedRecoverable t b p r h n \<Rightarrow> Some t | _ \<Rightarrow> None) evs"

lemma projections_simps [simp]:
  "rolledBack [] = []" "keptForResume [] = []"
  "rolledBack (xs @ ys) = rolledBack xs @ rolledBack ys" "keptForResume (xs @ ys) = keptForResume xs @ keptForResume ys"
  by (simp_all add: rolledBack_def keptForResume_def map_filter_def)

lemma projections_Cons [simp]:
  "rolledBack (ev # evs) = (case ev of TaskRolledBack t s r \<Rightarrow> [t] | _ \<Rightarrow> []) @ rolledBack evs"
  "keptForResume (ev # evs) = (case ev of AbortedRecoverable t b p r h n \<Rightarrow> [t] | _ \<Rightarrow> []) @ keptForResume evs"
  by (simp_all add: rolledBack_def keptForResume_def map_filter_def split: tick_event.split)

lemma projections_moved [simp]: "rolledBack (map WorkerMoved xs) = []" "keptForResume (map WorkerMoved xs) = []"
  by (simp_all add: rolledBack_def keptForResume_def map_filter_def filter_empty_conv)

lemma send_simps [simp]:
  "tst_events (send ev st) = tst_events st @ [ev]" "tst_outcomes (send ev st) = tst_outcomes st"
  "tst_escalations (send ev st) = tst_escalations st" "tst_inFlight (send ev st) = tst_inFlight st"
  "tst_cadence (send ev st) = tst_cadence st" "tst_stuck (send ev st) = tst_stuck st" "tst_world (send ev st) = tst_world st"
  by (simp_all add: send_def)

text \<open>What the tick keeps between ticks is not touched by settling.\<close>

definition sameKept :: "'w tick_state \<Rightarrow> 'w tick_state \<Rightarrow> bool" where
  "sameKept st st' \<longleftrightarrow> tst_inFlight st' = tst_inFlight st \<and> tst_cadence st' = tst_cadence st \<and> tst_stuck st' = tst_stuck st"

lemma maybeRollback_simps [simp]:
  shows "tst_inFlight (maybeRollback env workDir taskId pre b p st) = tst_inFlight st" "tst_cadence (maybeRollback env workDir taskId pre b p st) = tst_cadence st" "tst_stuck (maybeRollback env workDir taskId pre b p st) = tst_stuck st"
    "tst_outcomes (maybeRollback env workDir taskId pre b p st) = tst_outcomes st" "tst_escalations (maybeRollback env workDir taskId pre b p st) = tst_escalations st"
    "rolledBack (tst_events (maybeRollback env workDir taskId pre b p st)) = rolledBack (tst_events st) @ [taskId]"
    "keptForResume (tst_events (maybeRollback env workDir taskId pre b p st)) = keptForResume (tst_events st)"
  by (simp_all add: maybeRollback_def Let_def split: prod.split option.split)

lemma pushEscalation_simps [simp]:
  shows "tst_inFlight (pushEscalation env e st) = tst_inFlight st" "tst_cadence (pushEscalation env e st) = tst_cadence st" "tst_stuck (pushEscalation env e st) = tst_stuck st"
    "tst_outcomes (pushEscalation env e st) = tst_outcomes st" "tst_events (pushEscalation env e st) = tst_events st"
    "map esc_taskId (tst_escalations (pushEscalation env e st)) = map esc_taskId (tst_escalations st) @ [esc_taskId e]"
  by (simp_all add: pushEscalation_def Let_def split: prod.split option.split)

text \<open>One settled dispatch: one outcome, and what follows from it.\<close>

definition settledWith :: "'w tick_state \<Rightarrow> task_outcome \<Rightarrow> 'w tick_state \<Rightarrow> bool" where
  "settledWith st oc st' \<longleftrightarrow> sameKept st st' \<and> tst_outcomes st' = tst_outcomes st @ [oc] \<and>
     rolledBack (tst_events st') = rolledBack (tst_events st) @ (if tko_outcome oc \<in> set ROLLBACK_OUTCOMES then [tko_taskId oc] else []) \<and>
     keptForResume (tst_events st') = keptForResume (tst_events st) @ (if tko_outcome oc = ''aborted'' then [tko_taskId oc] else []) \<and>
     map esc_taskId (tst_escalations st') = map esc_taskId (tst_escalations st) @
       (if tko_outcome oc \<in> {''unknown-failure'', ''needs-human-attention''} then [tko_taskId oc] else [])"

lemma catchAll_settles:
  "settledWith st (unknownFailure (clm_taskId c) reason None) (catchAll env workDir c reason hint st)"
  by (simp add: catchAll_def Let_def settledWith_def sameKept_def addOutcome_def unknownFailure_def ROLLBACK_OUTCOMES_def)

lemma sent_settles: "settledWith st oc st' \<Longrightarrow> rolledBack [ev] = [] \<Longrightarrow> keptForResume [ev] = [] \<Longrightarrow> settledWith st oc (send ev st')"
  by (simp add: settledWith_def sameKept_def)

lemma settleResult_settles:
  "\<exists>oc. settledWith st oc (settleResult env workDir c rich st) \<and> tko_outcome oc = outcomeText (plt_outcome (rrs_report rich)) \<and>
    tko_taskId oc = rrs_taskId rich"
  by (cases "plt_outcome (rrs_report rich)")
    (auto simp: settleResult_def Let_def settledWith_def sameKept_def addOutcome_def outcomeText_def ROLLBACK_OUTCOMES_def
      RECOVERABLE_ABORT_OUTCOMES_def emitRecoverableAbort_def)

text \<open>The playbook changes neither outcomes nor escalations.\<close>

lemma playbook_step:
  assumes "tryPlaybookOnError env workDir taskId reason st = Some (playbook, st')"
  shows "sameKept st st' \<and> tst_outcomes st' = tst_outcomes st \<and> tst_escalations st' = tst_escalations st \<and>
    rolledBack (tst_events st') = rolledBack (tst_events st) \<and> keptForResume (tst_events st') = keptForResume (tst_events st)"
  using assms by (auto simp: tryPlaybookOnError_def Let_def sameKept_def split: prod.splits)

lemma playbook_ran:
  assumes "tryPlaybookOnError env workDir taskId reason st = Some (playbook, st')"
  shows "\<exists>ctx opts t e r. runPlaybook ctx opts t e = Some (playbook, r)"
  using assms by (clarsimp simp: tryPlaybookOnError_def Let_def split: prod.splits) blast

lemma playbook_step_returns: "\<exists>playbook st'. tryPlaybookOnError env workDir taskId reason st = Some (playbook, st')"
  using playbook_returns by (fastforce simp: tryPlaybookOnError_def Let_def split: prod.split)

text \<open>What the loop makes of a thrown error: an approval exactly when the playbook recovered in a mode
  that returns a result, an unknown failure otherwise.\<close>

lemma settleError_settles:
  "\<exists>oc st'. settleError env workDir c message st = Some st' \<and> settledWith st oc st' \<and>
    tko_outcome oc \<in> {''approved'', ''unknown-failure''}"
proof -
  obtain playbook st1 where pb: "tryPlaybookOnError env workDir (clm_taskId c) message st = Some (playbook, st1)"
    using playbook_step_returns by blast
  note same = playbook_step [OF pb]
  have catch: "settledWith st (unknownFailure (clm_taskId c) message None)
      (catchAll env workDir c message ''orchestrator-loop:no-handler'' st1)"
    using catchAll_settles [of st1 c message env workDir "''orchestrator-loop:no-handler''"] same
    by (auto simp: settledWith_def sameKept_def)
  obtain ctx opts t e run' where ran: "runPlaybook ctx opts t e = Some (playbook, run')" using playbook_ran [OF pb] by blast
  have recovered: "pr_outcome playbook = RecoveredOutcome \<Longrightarrow> pr_pipelineResult playbook = Some r \<Longrightarrow> plr_outcome r = ''approved''" for r
    using recovered_result [OF ran] by (auto split: if_splits)
  show ?thesis
  proof (cases "pr_outcome playbook")
    case RecoveredOutcome
    show ?thesis
    proof (cases "pr_pipelineResult playbook")
      case None
      then show ?thesis using pb catch RecoveredOutcome
        by (auto simp: settleError_def unknownFailure_def intro!: exI [of _ "unknownFailure (clm_taskId c) message None"])
    next
      case (Some r)
      then show ?thesis using pb same RecoveredOutcome recovered [OF RecoveredOutcome Some]
        by (auto simp: settleError_def settledWith_def sameKept_def addOutcome_def ROLLBACK_OUTCOMES_def)
    qed
  next
    case EscalatedOutcome
    then show ?thesis using pb catch same
      by (cases "pr_matchedMode playbook")
        (auto simp: settleError_def settledWith_def sameKept_def addOutcome_def ROLLBACK_OUTCOMES_def unknownFailure_def Let_def)
  next
    case UnknownOutcome
    then show ?thesis using pb catch
      by (auto simp: settleError_def unknownFailure_def intro!: exI [of _ "unknownFailure (clm_taskId c) message None"])
  qed
qed

text \<open>The outcome that goes with the answer of a dispatch.\<close>

definition answers :: "string + rich_result \<Rightarrow> task_outcome \<Rightarrow> bool" where
  "answers settled oc \<longleftrightarrow> (case settled of
     Inl message \<Rightarrow> tko_outcome oc = ''unknown-failure'' \<or> message \<noteq> [] \<and> tko_outcome oc = ''approved''
   | Inr rich \<Rightarrow> tko_outcome oc = outcomeText (plt_outcome (rrs_report rich)) \<and> tko_taskId oc = rrs_taskId rich)"

lemma settleOne_settles:
  "\<exists>oc st'. settleOne env workDir c settled st = Some st' \<and> settledWith st oc st' \<and> answers settled oc"
proof (cases settled)
  case (Inl message)
  show ?thesis
  proof (cases "message = []")
    case True
    then show ?thesis using Inl catchAll_settles
      by (fastforce simp: settleOne_def answers_def unknownFailure_def)
  next
    case False
    then show ?thesis using Inl settleError_settles [of env workDir c message st]
      by (auto simp: settleOne_def answers_def)
  qed
next
  case (Inr rich)
  then show ?thesis using settleResult_settles [of st env workDir c rich] by (auto simp: settleOne_def answers_def)
qed

definition settledAll :: "'w tick_state \<Rightarrow> task_outcome list \<Rightarrow> 'w tick_state \<Rightarrow> bool" where
  "settledAll st ocs st' \<longleftrightarrow> sameKept st st' \<and> tst_outcomes st' = tst_outcomes st @ ocs \<and>
     rolledBack (tst_events st') = rolledBack (tst_events st) @
       map tko_taskId (filter (\<lambda>oc. tko_outcome oc \<in> set ROLLBACK_OUTCOMES) ocs) \<and>
     keptForResume (tst_events st') = keptForResume (tst_events st) @
       map tko_taskId (filter (\<lambda>oc. tko_outcome oc = ''aborted'') ocs) \<and>
     map esc_taskId (tst_escalations st') = map esc_taskId (tst_escalations st) @
       map tko_taskId (filter (\<lambda>oc. tko_outcome oc \<in> {''unknown-failure'', ''needs-human-attention''}) ocs)"

lemma settledAll_Cons: "settledWith st oc st1 \<Longrightarrow> settledAll st1 ocs st2 \<Longrightarrow> settledAll st (oc # ocs) st2"
  by (simp add: settledWith_def settledAll_def sameKept_def)

lemma settleAll_settles:
  "\<exists>ocs st'. settleAll env workDir xs st = Some st' \<and> settledAll st ocs st' \<and> list_all2 (\<lambda>x oc. answers (snd x) oc) xs ocs"
proof (induction xs arbitrary: st)
  case Nil
  show ?case by (auto simp: settledAll_def sameKept_def)
next
  case (Cons x xs)
  obtain c settled where x: "x = (c, settled)" by fastforce
  obtain oc st1 where one: "settleOne env workDir c settled st = Some st1" "settledWith st oc st1" "answers settled oc"
    using settleOne_settles by blast
  obtain ocs st2 where rest: "settleAll env workDir xs st1 = Some st2" "settledAll st1 ocs st2"
      "list_all2 (\<lambda>x oc. answers (snd x) oc) xs ocs"
    using Cons.IH by blast
  have "settleAll env workDir (x # xs) st = Some st2" using one(1) rest(1) by (simp add: x)
  moreover have "list_all2 (\<lambda>x oc. answers (snd x) oc) (x # xs) (oc # ocs)" using one(3) rest(3) by (simp add: x)
  ultimately show ?case using settledAll_Cons [OF one(2) rest(2)] by blast
qed

section \<open>Tasks in flight\<close>

lemma mapGet_mapDelete: "mapGet (mapDelete k m) k' = (if k' = k then None else mapGet m k')"
  by (induction m) (auto simp: mapDelete_def)

text \<open>The filter changes neither world nor cadence nor outcomes; it removes entries only.\<close>

definition unchanged :: "'w tick_state \<Rightarrow> 'w tick_state \<Rightarrow> bool" where
  "unchanged st st' \<longleftrightarrow> tst_world st' = tst_world st \<and> tst_cadence st' = tst_cadence st \<and> tst_outcomes st' = tst_outcomes st \<and>
     tst_escalations st' = tst_escalations st \<and> rolledBack (tst_events st') = rolledBack (tst_events st) \<and>
     keptForResume (tst_events st') = keptForResume (tst_events st)"

definition mayResume :: "'w tick_env \<Rightarrow> string \<Rightarrow> 'w \<Rightarrow> string \<Rightarrow> bool" where
  "mayResume env workDir w taskId \<longleftrightarrow>
     detectRecoverableWorktree (filesOf env) (tke_checkouts env) w workDir taskId \<noteq> None"

lemma mayResume_key:
  assumes "toLowerCase t = toLowerCase t'"
  shows "mayResume env workDir w t = mayResume env workDir w t'"
  unfolding mayResume_def detectRecoverableWorktree_def worktreePathOf_def assms by (rule refl)

lemma unchanged_trans [trans]: "unchanged st st1 \<Longrightarrow> unchanged st1 st2 \<Longrightarrow> unchanged st st2"
  by (simp add: unchanged_def)

definition filtered :: "'w tick_env \<Rightarrow> string \<Rightarrow> candidate list \<Rightarrow> 'w tick_state \<Rightarrow> candidate list \<Rightarrow> 'w tick_state \<Rightarrow> bool" where
  "filtered env workDir cs st kept st' \<longleftrightarrow> unchanged st st' \<and> tst_stuck st' = tst_stuck st \<and> set kept \<subseteq> set cs \<and>
     (\<forall>c \<in> set kept. isInFlight (tst_inFlight st') (cnd_id c) = None) \<and>
     (\<forall>k. mapGet (tst_inFlight st') k \<noteq> None \<longrightarrow> mapGet (tst_inFlight st') k = mapGet (tst_inFlight st) k) \<and>
     (\<forall>c \<in> set kept. isInFlight (tst_inFlight st) (cnd_id c) = None \<or> mayResume env workDir (tst_world st) (cnd_id c))"

lemma inFlightFilter_correct:
  "inFlightFilter env workDir cs st = ((kept, dropped), st') \<Longrightarrow> filtered env workDir cs st kept st'"
proof (induction cs arbitrary: st kept dropped st')
  case Nil
  then show ?case by (simp add: filtered_def unchanged_def)
next
  case (Cons c cs)
  show ?case
  proof (cases "isInFlight (tst_inFlight st) (cnd_id c)")
    case None
    then obtain kept' where k: "inFlightFilter env workDir cs st = ((kept', dropped), st')" "kept = c # kept'"
      using Cons.prems by (auto split: prod.splits)
    have "mapGet (tst_inFlight st') (toLowerCase (cnd_id c)) = None"
      using Cons.IH [OF k(1)] None unfolding filtered_def isInFlight_def by metis
    then show ?thesis using Cons.IH [OF k(1)] None k(2) by (auto simp: filtered_def isInFlight_def)
  next
    case (Some existing)
    show ?thesis
    proof (cases "dst_dispatchPromise existing = None \<and> mayResume env workDir (tst_world st) (cnd_id c)")
      case True
      let ?st = "st\<lparr>tst_inFlight := mapDelete (toLowerCase (cnd_id c)) (tst_inFlight st)\<rparr>"
      obtain kept' where k: "inFlightFilter env workDir cs ?st = ((kept', dropped), st')" "kept = c # kept'"
        using Cons.prems Some True by (auto simp: mayResume_def split: prod.splits)
      have ih: "filtered env workDir cs ?st kept' st'" using Cons.IH [OF k(1)] .
      have "mapGet (tst_inFlight st') (toLowerCase (cnd_id c)) = None"
        using ih by (fastforce simp: filtered_def mapGet_mapDelete)
      moreover have "isInFlight (tst_inFlight st) (cnd_id d) = None \<or> mayResume env workDir (tst_world st) (cnd_id d)"
        if "d \<in> set kept'" for d
      proof (cases "toLowerCase (cnd_id d) = toLowerCase (cnd_id c)")
        case same: True
        show ?thesis using mayResume_key [OF same, of env workDir "tst_world st"] True by simp
      next
        case False
        have "isInFlight (tst_inFlight ?st) (cnd_id d) = None \<or> mayResume env workDir (tst_world ?st) (cnd_id d)"
          using ih that unfolding filtered_def by blast
        then show ?thesis using False by (simp add: isInFlight_def mapGet_mapDelete)
      qed
      moreover have "mapGet (tst_inFlight st') key = mapGet (tst_inFlight st) key" if "mapGet (tst_inFlight st') key \<noteq> None" for key
      proof -
        have "mapGet (tst_inFlight st') key = mapGet (tst_inFlight ?st) key" using ih that unfolding filtered_def by blast
        then show ?thesis using that by (simp add: mapGet_mapDelete split: if_splits)
      qed
      ultimately show ?thesis using ih k(2) True
        unfolding filtered_def isInFlight_def unchanged_def by simp blast
    next
      case False
      let ?st = "send (TaskAlreadyInFlight (cnd_id c) (dst_startedAt existing)) st"
      obtain dropped' where k: "inFlightFilter env workDir cs ?st = ((kept, dropped'), st')"
        using Cons.prems Some False by (auto simp: mayResume_def split: prod.splits)
      then show ?thesis using Cons.IH [OF k] by (auto simp: filtered_def unchanged_def)
    qed
  qed
qed

section \<open>Picks\<close>

definition admitted :: "'w tick_env \<Rightarrow> candidate \<Rightarrow> bool" where
  "admitted env c \<longleftrightarrow> tke_bypassFilters env \<or> (\<exists>w cache. cr_passed (fst (runFilterChain (candidateOpts env w cache c))))"

definition untouched :: "'w tick_state \<Rightarrow> 'w tick_state \<Rightarrow> bool" where
  "untouched st st' \<longleftrightarrow> tst_inFlight st' = tst_inFlight st \<and> tst_cadence st' = tst_cadence st \<and> tst_outcomes st' = tst_outcomes st \<and>
     tst_escalations st' = tst_escalations st \<and> rolledBack (tst_events st') = rolledBack (tst_events st) \<and>
     keptForResume (tst_events st') = keptForResume (tst_events st)"

lemma untouched_refl [simp]: "untouched st st"
  by (simp add: untouched_def)

lemma untouched_trans: "untouched st st1 \<Longrightarrow> untouched st1 st2 \<Longrightarrow> untouched st st2"
  by (simp add: untouched_def)

lemma announceFilter_untouched: "untouched st (announceFilter env event st)"
  by (auto simp: announceFilter_def Let_def untouched_def split: option.split blocked_event.split prod.split)

lemma evaluate_untouched:
  assumes "evaluateCandidate env c st = ((chainResult, event), st')"
  shows "untouched st st'" "cr_passed chainResult \<Longrightarrow> admitted env c"
proof -
  obtain event0 cache counters where "st' = announceFilter env event0 (st\<lparr>tst_prCache := cache, tst_stuck := counters\<rparr>)"
      and passed: "chainResult = fst (runFilterChain (candidateOpts env (tst_world st) (tst_prCache st) c))"
    using assms by (auto simp: evaluateCandidate_def Let_def split: prod.splits)
  then show "untouched st st'" using announceFilter_untouched [of "st\<lparr>tst_prCache := cache, tst_stuck := counters\<rparr>" env event0]
    by (simp add: untouched_def)
  show "cr_passed chainResult \<Longrightarrow> admitted env c" using passed by (auto simp: admitted_def)
qed

lemma pickLoop_correct:
  "pickLoop env budget cs picks evs st = ((picks', evs'), st') \<Longrightarrow>
    (\<exists>new. picks' = picks @ map cnd_id new \<and> subseq new cs \<and> (\<forall>c \<in> set new. admitted env c)) \<and>
    int (length picks') \<le> max budget (int (length picks)) \<and> untouched st st'"
proof (induction env budget cs picks evs st arbitrary: picks' evs' st' rule: pickLoop.induct)
  case (1 env budget picks events st)
  then show ?case by simp
next
  case (2 env budget c cs picks events st)
  consider (full) "budget \<le> int (length picks)" | (bypass) "int (length picks) < budget" "tke_bypassFilters env"
    | (chain) "int (length picks) < budget" "\<not> tke_bypassFilters env" by linarith
  then show ?case
  proof cases
    case full
    then show ?thesis using "2.prems" by auto
  next
    case bypass
    then have rec: "pickLoop env budget cs (picks @ [cnd_id c]) events st = ((picks', evs'), st')" using "2.prems" by simp
    obtain new where "picks' = (picks @ [cnd_id c]) @ map cnd_id new" "subseq new cs" "\<forall>c \<in> set new. admitted env c"
        "int (length picks') \<le> max budget (int (length (picks @ [cnd_id c])))" "untouched st st'"
      using "2.IH"(1) [OF _ _ rec] bypass by auto
    then show ?thesis using bypass by (auto simp: admitted_def intro!: exI [of _ "c # new"])
  next
    case chain
    obtain r ev st1 where e: "evaluateCandidate env c st = ((r, ev), st1)" by (metis surj_pair)
    let ?p = "if cr_passed r then picks @ [cnd_id c] else picks"
    have rec: "pickLoop env budget cs ?p (events @ [ev]) st1 = ((picks', evs'), st')" using "2.prems" chain e by simp
    obtain new where new: "picks' = ?p @ map cnd_id new" "subseq new cs" "\<forall>c \<in> set new. admitted env c"
        "int (length picks') \<le> max budget (int (length ?p))" "untouched st1 st'"
      using "2.IH"(2) [OF _ _ e [symmetric] refl refl rec] chain by auto
    have "untouched st st'" using untouched_trans evaluate_untouched(1) [OF e] new(5) by blast
    then show ?thesis
    proof (cases "cr_passed r")
      case True
      then show ?thesis using new evaluate_untouched(2) [OF e] chain(1) \<open>untouched st st'\<close>
        by (intro conjI exI [of _ "c # new"]) auto
    next
      case False
      then show ?thesis using new chain(1) \<open>untouched st st'\<close> by auto
    qed
  qed
qed

lemma costPolicy_correct:
  assumes "applyCostPolicy env picks st = (ordered, st')"
  shows "set ordered = set picks" "length ordered = length picks" "untouched st st'"
  using assms by (auto simp: applyCostPolicy_def Let_def untouched_def split: if_splits)

section \<open>Claims\<close>

lemma claimAll_correct:
  "claimAll env workDir picks st = (claims, st') \<Longrightarrow>
    map clm_taskId claims = picks \<and> tst_cadence st' = tst_cadence st \<and> tst_outcomes st' = tst_outcomes st \<and>
    tst_escalations st' = tst_escalations st \<and> rolledBack (tst_events st') = rolledBack (tst_events st) \<and>
    keptForResume (tst_events st') = keptForResume (tst_events st) \<and>
    (\<forall>k. k \<notin> toLowerCase ` set picks \<longrightarrow> mapGet (tst_inFlight st') k = mapGet (tst_inFlight st) k) \<and>
    (\<forall>t \<in> set picks. isInFlight (tst_inFlight st) t = None \<longrightarrow>
      (\<exists>c \<in> set claims. clm_claimed c \<and> toLowerCase (clm_taskId c) = toLowerCase t))"
proof (induction picks arbitrary: st claims st')
  case Nil
  then show ?case by auto
next
  case (Cons taskId picks)
  obtain won entry m where m: "claimInFlight taskId
      \<lparr>dst_startedAt = toISOString (rbe_now (tke_rollback env) (tst_world st)), dst_worktreePath = worktreePathOf workDir taskId,
       dst_dispatchPromise = None\<rparr> (tst_inFlight st) = ((won, entry), m)" by (metis surj_pair)
  let ?st = "send (TaskDispatched taskId) (st\<lparr>tst_inFlight := m\<rparr>)"
  obtain rest where rest: "claimAll env workDir picks ?st = (rest, st')"
      and claims: "tl claims = rest" "clm_taskId (hd claims) = taskId" "clm_claimed (hd claims) = won" "claims \<noteq> []"
    using Cons.prems m by (auto simp: Let_def split: prod.splits)
  have won: "won \<longleftrightarrow> isInFlight (tst_inFlight st) taskId = None"
    and m_get: "\<And>k. k \<noteq> toLowerCase taskId \<Longrightarrow> mapGet m k = mapGet (tst_inFlight st) k"
    using m by (auto simp: claimInFlight_def Let_def isInFlight_def mapGet_mapSet split: option.splits)
  obtain c where c: "claims = c # rest" "clm_taskId c = taskId" "clm_claimed c = won" using claims by (cases claims) auto
  have "\<exists>c' \<in> set claims. clm_claimed c' \<and> toLowerCase (clm_taskId c') = toLowerCase t"
    if "t \<in> set (taskId # picks)" "isInFlight (tst_inFlight st) t = None" for t
  proof (cases "toLowerCase t = toLowerCase taskId")
    case True
    then show ?thesis using c won that(2) by (simp add: isInFlight_def)
  next
    case False
    then have "isInFlight (tst_inFlight ?st) t = None" "t \<in> set picks" using that m_get by (auto simp: isInFlight_def)
    then show ?thesis using Cons.IH [OF rest] c(1) by auto
  qed
  then show ?case using Cons.IH [OF rest] c m_get by auto
qed

lemma releaseClaims_get: "mapGet (releaseClaims claims m) k =
    (if \<exists>c \<in> set claims. clm_claimed c \<and> toLowerCase (clm_taskId c) = k then None else mapGet m k)"
  unfolding releaseClaims_def
  by (induction claims arbitrary: m) (auto simp: releaseInFlight_def mapGet_mapDelete)

section \<open>The tick\<close>

lemma fold_untouched: "(\<And>x st. untouched st (f x st)) \<Longrightarrow> untouched st (fold f xs st)"
  by (induction xs arbitrary: st) (auto intro: untouched_trans)

lemma announceResumes_untouched: "untouched st (announceResumes env workDir picks st)"
  unfolding announceResumes_def by (rule fold_untouched) (auto simp: untouched_def split: option.split)

lemma sweep_untouched: "untouched st (sweepWorktrees env d st)"
proof -
  have "untouched st (fold (\<lambda>(path, branch, mergedAt). send (WorktreeSwept path branch mergedAt)) swept (st\<lparr>tst_world := w\<rparr>))"
    for swept w
    by (rule untouched_trans [of _ "st\<lparr>tst_world := w\<rparr>"], simp add: untouched_def, rule fold_untouched)
      (auto simp: untouched_def)
  then show ?thesis by (auto simp: sweepWorktrees_def split: prod.split)
qed

text \<open>Nothing new stays in flight.\<close>

definition slotsFreed :: "string list \<Rightarrow> in_flight_map \<Rightarrow> in_flight_map \<Rightarrow> bool" where
  "slotsFreed picks m m' \<longleftrightarrow> (\<forall>t \<in> set picks. isInFlight m' t = None) \<and>
     (\<forall>k. mapGet m' k \<noteq> None \<longrightarrow> mapGet m' k = mapGet m k)"

lemma dispatchPicks_correct:
  assumes "dispatchPicks env workDir picks st = (settled, st')" "\<forall>t \<in> set picks. isInFlight (tst_inFlight st) t = None"
  shows "slotsFreed picks (tst_inFlight st) (tst_inFlight st')" "tst_cadence st' = tst_cadence st"
    "tst_outcomes st' = tst_outcomes st" "tst_escalations st' = tst_escalations st"
    "rolledBack (tst_events st') = rolledBack (tst_events st)" "keptForResume (tst_events st') = keptForResume (tst_events st)"
    "\<exists>w. map snd settled = map (fst (tke_dispatch env picks w)) [0..<length picks]"
proof -
  obtain claims st1 where c: "claimAll env workDir picks (announceResumes env workDir picks st) = (claims, st1)"
    by fastforce
  note claimed = claimAll_correct [OF c] and resumed = announceResumes_untouched [of st env workDir picks]
  obtain answer w where a: "tke_dispatch env picks (tst_world st1) = (answer, w)" by fastforce
  have st': "st' = st1\<lparr>tst_world := w, tst_inFlight := releaseClaims claims (tst_inFlight st1)\<rparr>"
    and settled: "settled = map (\<lambda>(i, c). (c, answer i)) (enumerate 0 claims)"
    using assms(1) c a by (auto simp: dispatchPicks_def)
  have free: "isInFlight (tst_inFlight st') t = None" if "t \<in> set picks" for t
    using claimed that assms(2) resumed by (auto simp: st' isInFlight_def releaseClaims_get untouched_def)
  moreover have "mapGet (tst_inFlight st') k = mapGet (tst_inFlight st) k" if "mapGet (tst_inFlight st') k \<noteq> None" for k
  proof (cases "k \<in> toLowerCase ` set picks")
    case True
    then show ?thesis using free that by (auto simp: isInFlight_def)
  next
    case False
    then have "mapGet (tst_inFlight st1) k = mapGet (tst_inFlight st) k"
      using claimed resumed by (auto simp: untouched_def)
    then show ?thesis using that by (auto simp: st' releaseClaims_get split: if_splits)
  qed
  ultimately show "slotsFreed picks (tst_inFlight st) (tst_inFlight st')" by (simp add: slotsFreed_def)
  show "tst_cadence st' = tst_cadence st" "tst_outcomes st' = tst_outcomes st" "tst_escalations st' = tst_escalations st"
    "rolledBack (tst_events st') = rolledBack (tst_events st)" "keptForResume (tst_events st') = keptForResume (tst_events st)"
    using claimed resumed by (auto simp: st' untouched_def)
  have "length claims = length picks" using claimed by (metis length_map)
  then have "map snd settled = map answer [0..<length picks]"
    by (auto simp: settled enumerate_eq_zip intro!: nth_equalityI)
  then show "\<exists>w. map snd settled = map (fst (tke_dispatch env picks w)) [0..<length picks]" using a by (metis fst_conv)
qed

text \<open>What a tick that returns a result did, from the frontier on.\<close>

definition tickDid :: "'w tick_env \<Rightarrow> orchestrator_config \<Rightarrow> candidate list \<Rightarrow> 'w \<Rightarrow> 'w tick_state \<Rightarrow> tick_result \<Rightarrow> 'w tick_state \<Rightarrow> bool" where
  "tickDid env config candidates w st tick st' \<longleftrightarrow>
     (\<forall>t \<in> set (tkr_dispatched tick). \<exists>c \<in> set candidates. cnd_id c = t \<and> admitted env c \<and>
        (isInFlight (tst_inFlight st) t = None \<or> mayResume env (ocf_workDir config) w t)) \<and>
     int (length (tkr_dispatched tick)) \<le> max 0 (ocf_maxConcurrent config) \<and>
     (ocf_dryRun config \<longrightarrow> tkr_dispatched tick = []) \<and>
     slotsFreed (tkr_dispatched tick) (tst_inFlight st) (tst_inFlight st') \<and>
     rolledBack (tst_events st') = rolledBack (tst_events st) @
       map tko_taskId (filter (\<lambda>oc. tko_outcome oc \<in> set ROLLBACK_OUTCOMES) (tkr_outcomes tick)) \<and>
     keptForResume (tst_events st') = keptForResume (tst_events st) @
       map tko_taskId (filter (\<lambda>oc. tko_outcome oc = ''aborted'') (tkr_outcomes tick)) \<and>
     map esc_taskId (tkr_escalations tick) =
       map tko_taskId (filter (\<lambda>oc. tko_outcome oc \<in> {''unknown-failure'', ''needs-human-attention''}) (tkr_outcomes tick)) \<and>
     (\<exists>w'. list_all2 answers (map (fst (tke_dispatch env (tkr_dispatched tick) w')) [0..<length (tkr_dispatched tick)])
        (tkr_outcomes tick)) \<and>
     tkr_nextSleepSec tick = cad_currentIntervalSec (tst_cadence st')"

lemma idle_did:
  assumes "idleTick config n m r evs dropped st = (tick, st')" "untouched st0 st \<or> filtered env workDir cs st0 kept st1 \<and> untouched st1 st"
  shows "tickDid env config candidates w st0 tick st' \<and> tkr_dispatched tick = []"
  using assms
  by (auto simp: idleTick_def Let_def tickDid_def slotsFreed_def untouched_def filtered_def unchanged_def ROLLBACK_OUTCOMES_def
      split: prod.splits)

lemma busy_did:
  assumes "busyTick env config n m picks evs dropped st = r"
    and filt: "filtered env (ocf_workDir config) candidates st0 kept st1" and picked: "untouched st1 st"
    and picks: "\<forall>t \<in> set picks. \<exists>c \<in> set kept. cnd_id c = t \<and> admitted env c"
    and few: "int (length picks) \<le> max 0 (ocf_maxConcurrent config)" and wet: "\<not> ocf_dryRun config"
    and empty: "tst_outcomes st0 = []" "tst_escalations st0 = []"
  shows "\<exists>tick st'. r = Some (tick, st') \<and> tickDid env config candidates (tst_world st0) st0 tick st' \<and>
    set (tkr_dispatched tick) = set picks \<and> tst_cadence st' = resetCadence config (tst_cadence st)"
proof -
  obtain ordered sa where a: "applyCostPolicy env picks st = (ordered, sa)" by fastforce
  note cost = costPolicy_correct [OF a]
  obtain settled sb where b: "dispatchPicks env (ocf_workDir config) ordered sa = (settled, sb)" by fastforce
  have free: "\<forall>t \<in> set ordered. isInFlight (tst_inFlight sa) t = None"
    using filt picked cost picks unfolding filtered_def untouched_def by fastforce
  note sent = dispatchPicks_correct [OF b free]
  obtain ocs sc where c: "settleAll env (ocf_workDir config) settled sb = Some sc" "settledAll sb ocs sc"
      "list_all2 (\<lambda>x oc. answers (snd x) oc) settled ocs" using settleAll_settles by blast
  obtain w' where w': "map snd settled = map (fst (tke_dispatch env ordered w')) [0..<length ordered]" using sent(7) by blast
  have answered: "list_all2 answers (map (fst (tke_dispatch env ordered w')) [0..<length ordered]) ocs"
    using c(3) by (simp add: w' [symmetric] list_all2_map1)
  let ?st' = "sc\<lparr>tst_cadence := resetCadence config (tst_cadence sc)\<rparr>"
  obtain tick where tick: "r = Some (tick, ?st')" "tkr_dispatched tick = ordered" "tkr_outcomes tick = tst_outcomes sc"
      "tkr_escalations tick = tst_escalations sc" "tkr_nextSleepSec tick = cad_currentIntervalSec (tst_cadence ?st')"
    using assms(1) a b c(1) by (auto simp: busyTick_def Let_def)
  have outs: "tst_outcomes sc = ocs" "map esc_taskId (tst_escalations sc) =
      map tko_taskId (filter (\<lambda>oc. tko_outcome oc \<in> {''unknown-failure'', ''needs-human-attention''}) ocs)"
    using c(2) sent empty cost filt picked by (auto simp: settledAll_def untouched_def filtered_def unchanged_def)
  have events: "rolledBack (tst_events sc) = rolledBack (tst_events st0) @
        map tko_taskId (filter (\<lambda>oc. tko_outcome oc \<in> set ROLLBACK_OUTCOMES) ocs)"
      "keptForResume (tst_events sc) = keptForResume (tst_events st0) @ map tko_taskId (filter (\<lambda>oc. tko_outcome oc = ''aborted'') ocs)"
    using c(2) sent cost filt picked by (auto simp: settledAll_def untouched_def filtered_def unchanged_def)
  have maps: "tst_inFlight sa = tst_inFlight st1" "tst_inFlight sc = tst_inFlight sb"
    using c(2) cost picked by (auto simp: settledAll_def untouched_def sameKept_def)
  have fromFrontier: "\<exists>c \<in> set candidates. cnd_id c = t \<and> admitted env c \<and>
      (isInFlight (tst_inFlight st0) t = None \<or> mayResume env (ocf_workDir config) (tst_world st0) t)" if member: "t \<in> set ordered" for t
  proof -
    obtain c where "c \<in> set kept" "cnd_id c = t" "admitted env c" using member picks cost(1) by auto
    then show ?thesis using filt by (auto simp: filtered_def)
  qed
  have freed: "slotsFreed ordered (tst_inFlight st0) (tst_inFlight sc)"
    using sent(1) filt unfolding slotsFreed_def filtered_def maps by metis
  have "tickDid env config candidates (tst_world st0) st0 tick ?st'"
    unfolding tickDid_def
    using fromFrontier freed events outs answered few cost(2) wet tick by auto
  moreover have "resetCadence config (tst_cadence sc) = resetCadence config (tst_cadence st)"
    by (simp add: resetCadence_def) (use c(2) sent(2) cost(3) in \<open>auto simp: settledAll_def sameKept_def untouched_def\<close>)
  ultimately show ?thesis using tick cost(1) by auto
qed

end
