(* ===== verification/RollbackProps.thy ===== *)
theory RollbackProps
  imports Rollback
begin

text \<open>
  What a rollback destroys: the commands it runs, recorded beside the world, and the exact condition
  under which it leaves branch and checkout alone.
\<close>

section \<open>Commands recorded\<close>

definition tracedFiles :: "'w file_io \<Rightarrow> ('w \<times> string list list) file_io" where
  "tracedFiles io = \<lparr>fio_names = (\<lambda>(w, log). fio_names io w), fio_exists = (\<lambda>(w, log). fio_exists io w),
     fio_read = (\<lambda>(w, log). fio_read io w),
     fio_write = (\<lambda>f c (w, log). (let (e, w') = fio_write io f c w in (e, (w', log))))\<rparr>"

definition traced :: "'w rollback_env \<Rightarrow> ('w \<times> string list list) rollback_env" where
  "traced env = \<lparr>rbe_files = tracedFiles (rbe_files env),
     rbe_run = (\<lambda>c args (w, log). (let (r, w') = rbe_run env c args w in (r, (w', log @ [c # args])))),
     rbe_mtime = (\<lambda>(w, log). rbe_mtime env w), rbe_processTable = (\<lambda>(w, log). rbe_processTable env w),
     rbe_now = (\<lambda>(w, log). rbe_now env w)\<rparr>"

text \<open>The second computation does what the first does and records commands that satisfy \<open>P\<close>.\<close>

definition traces :: "(string list \<Rightarrow> bool) \<Rightarrow> ('w \<Rightarrow> 'a \<times> 'w) \<Rightarrow> ('w \<times> string list list \<Rightarrow> 'a \<times> 'w \<times> string list list) \<Rightarrow> bool" where
  "traces P m m' \<longleftrightarrow> (\<forall>w log. \<exists>cmds. m' (w, log) = (fst (m w), (snd (m w), log @ cmds)) \<and> list_all P cmds)"

lemma tracesI: "(\<And>w log. \<exists>cmds. m' (w, log) = (fst (m w), (snd (m w), log @ cmds)) \<and> list_all P cmds) \<Longrightarrow> traces P m m'"
  by (simp add: traces_def)

lemma tracesD:
  assumes "traces P m m'" "m' (w, log) = (r, w', log')"
  shows "m w = (r, w') \<and> (\<exists>cmds. log' = log @ cmds \<and> list_all P cmds)"
proof -
  obtain cmds where "m' (w, log) = (fst (m w), (snd (m w), log @ cmds))" "list_all P cmds"
    using assms(1) by (auto simp: traces_def)
  then show ?thesis using assms(2) by (metis prod.collapse prod.inject)
qed

lemma traces_okay: "traces P (okay x) (okay x)"
  by (auto simp: traces_def okay_def intro!: exI [of _ "[]"])

lemma traces_run: "P (c # args) \<Longrightarrow> traces P (rbe_run env c args) (rbe_run (traced env) c args)"
  by (auto simp: traces_def traced_def case_prod_beta)

lemma traces_andThen:
  assumes m: "traces P m m'" and f: "\<And>x. traces P (f x) (f' x)"
  shows "traces P (andThen m f) (andThen m' f')"
proof (rule tracesI)
  fix w log
  obtain a where a: "m' (w, log) = (fst (m w), (snd (m w), log @ a))" "list_all P a"
    using m by (auto simp: traces_def)
  show "\<exists>cmds. andThen m' f' (w, log) = (fst (andThen m f w), (snd (andThen m f w), log @ cmds)) \<and> list_all P cmds"
  proof (cases "fst (m w)")
    case (Inl e)
    then show ?thesis using a by (cases "m w") (auto simp: andThen_def)
  next
    case (Inr x)
    obtain b where "f' x (snd (m w), log @ a) = (fst (f x (snd (m w))), (snd (f x (snd (m w))), (log @ a) @ b))" "list_all P b"
      using f [of x] unfolding traces_def by metis
    then show ?thesis using a Inr by (cases "m w") (auto simp: andThen_def intro!: exI [of _ "a @ b"])
  qed
qed

lemma traces_at:
  assumes "\<And>w log. traces P (f w) (f' (w, log))"
  shows "traces P (\<lambda>w. f w w) (\<lambda>w. f' w w)"
  using assms unfolding traces_def by metis

section \<open>What is destroyed\<close>

definition removal :: "rollback_options \<Rightarrow> string list" where
  "removal opts = [''git'', ''worktree'', ''remove'', ''--force'', rbo_worktreePath opts]"

definition deletion :: "rollback_options \<Rightarrow> string list" where
  "deletion opts = [''git'', ''branch'', ''-D'', rbo_branch opts]"

definition destructive :: "string list \<Rightarrow> bool" where
  "destructive cmd \<longleftrightarrow> take 3 cmd = [''git'', ''worktree'', ''remove''] \<or> take 3 cmd = [''git'', ''branch'', ''-D'']"

abbreviation harmless :: "string list \<Rightarrow> bool" where
  "harmless cmd \<equiv> \<not> destructive cmd"

lemmas traces_steps = traces_okay traces_run traces_andThen

lemma traces_upstream: "traces harmless (upstreamSignal env b) (upstreamSignal (traced env) b)"
  unfolding upstreamSignal_def Let_def by (intro traces_steps; simp add: traces_steps destructive_def split: if_splits)

lemma traces_pr: "traces harmless (prSignal env b) (prSignal (traced env) b)"
  unfolding prSignal_def by (intro traces_steps) (simp add: destructive_def)

lemma traces_count: "traces harmless (countCommitsAhead env b) (countCommitsAhead (traced env) b)"
  unfolding countCommitsAhead_def countAgainst_def Let_def
  by (intro traces_steps; simp add: traces_steps destructive_def split: if_splits)

lemma traced_reads [simp]:
  "sentinelSignal (traced env) p (w, log) = sentinelSignal env p w"
  "processSignal (traced env) t (w, log) = processSignal env t w"
  "rbe_now (traced env) (w, log) = rbe_now env w"
  "fio_exists (rbe_files (traced env)) (w, log) = fio_exists (rbe_files env) w"
  "fio_read (rbe_files (traced env)) (w, log) = fio_read (rbe_files env) w"
  "findTaskFile (rbe_files (traced env)) (w, log) = findTaskFile (rbe_files env) w"
  by (simp_all add: fun_eq_iff traced_def tracedFiles_def sentinelSignal_def processSignal_def findTaskFile_def
      cong: option.case_cong)

lemma traces_stale: "traces harmless (isReallyStale env opts) (isReallyStale (traced env) opts)"
  unfolding isReallyStale_def
proof (rule traces_andThen [OF traces_upstream], rule tracesI)
  fix x :: "string option" and w log
  obtain cmds where "prSignal (traced env) (rbo_branch opts) (w, log) =
      (fst (prSignal env (rbo_branch opts) w), snd (prSignal env (rbo_branch opts) w), log @ cmds)" "list_all harmless cmds"
    using traces_pr unfolding traces_def by metis
  then show "\<exists>cmds. (case x of None \<Rightarrow> (case sentinelSignal (traced env) (rbo_worktreePath opts) (w, log) of
            None \<Rightarrow> (case processSignal (traced env) (rbo_taskId opts) (w, log) of
                None \<Rightarrow> prSignal (traced env) (rbo_branch opts) (w, log) | Some r \<Rightarrow> okay (Some r) (w, log))
          | Some r \<Rightarrow> okay (Some r) (w, log))
        | Some r \<Rightarrow> okay (Some r) (w, log)) =
      (fst (case x of None \<Rightarrow> (case sentinelSignal env (rbo_worktreePath opts) w of
            None \<Rightarrow> (case processSignal env (rbo_taskId opts) w of
                None \<Rightarrow> prSignal env (rbo_branch opts) w | Some r \<Rightarrow> okay (Some r) w)
          | Some r \<Rightarrow> okay (Some r) w)
        | Some r \<Rightarrow> okay (Some r) w),
       snd (case x of None \<Rightarrow> (case sentinelSignal env (rbo_worktreePath opts) w of
            None \<Rightarrow> (case processSignal env (rbo_taskId opts) w of
                None \<Rightarrow> prSignal env (rbo_branch opts) w | Some r \<Rightarrow> okay (Some r) w)
          | Some r \<Rightarrow> okay (Some r) w)
        | Some r \<Rightarrow> okay (Some r) w), log @ cmds) \<and> list_all harmless cmds"
    by (auto simp: okay_def split: option.split intro: exI [of _ "[]"])
qed

lemma traces_quarantine: "traces harmless (quarantine env opts n sha) (quarantine (traced env) opts n sha)"
  by (auto simp: traces_def quarantine_def Let_def andThen_def okay_def traced_def destructive_def case_prod_beta
      split: sum.split)

lemma traces_probe: "traces harmless (probeBranch env opts) (probeBranch (traced env) opts)"
  unfolding probeBranch_def
  by (rule traces_andThen [OF traces_count])
    (auto split: option.split intro!: traces_andThen traces_stale traces_quarantine traces_okay)

lemma traces_fate: "traces harmless (branchFate env opts) (branchFate (traced env) opts)"
proof (rule tracesI)
  fix w log
  obtain cmds where "probeBranch (traced env) opts (w, log) =
      (fst (probeBranch env opts w), snd (probeBranch env opts w), log @ cmds)" "list_all harmless cmds"
    using traces_probe unfolding traces_def by metis
  then show "\<exists>cmds. branchFate (traced env) opts (w, log) =
      (fst (branchFate env opts w), snd (branchFate env opts w), log @ cmds) \<and> list_all harmless cmds"
    by (cases "probeBranch env opts w") (auto simp: branchFate_def split: sum.split branch_fate.split)
qed

lemma traces_revert: "traces harmless (revertStatus env opts) (revertStatus (traced env) opts)"
  by (auto simp: traces_def revertStatus_def patchFile_def split: option.split sum.split)
    (auto simp: traced_def tracedFiles_def Let_def case_prod_beta split: option.split)

lemma filter_harmless: "list_all harmless cmds \<Longrightarrow> filter destructive cmds = []"
  by (induction cmds) auto

lemma removal_destructive [simp]: "destructive (removal opts)" "destructive (deletion opts)"
  by (simp_all add: destructive_def removal_def deletion_def)

lemma removeWorktree_traced: "removeWorktree (traced env) opts (w, log) =
    (fst (removeWorktree env opts w), (snd (removeWorktree env opts w),
      log @ (if fio_exists (rbe_files env) w (rbo_worktreePath opts) then [removal opts] else [])))"
  by (auto simp: removeWorktree_def traced_def tracedFiles_def removal_def case_prod_beta split: sum.split)

lemma deleteBranch_traced: "deleteBranch (traced env) opts (w, log) = (deleteBranch env opts w, log @ [deletion opts])"
  by (simp add: deleteBranch_def traced_def deletion_def case_prod_beta)

text \<open>The fate of the branch, decided after the status is put back, and the world it leaves.\<close>

definition fateOf :: "'w rollback_env \<Rightarrow> rollback_options \<Rightarrow> 'w \<Rightarrow> branch_fate" where
  "fateOf env opts w = fst (fst (branchFate env opts (snd (revertStatus env opts w))))"

definition checkoutStands :: "'w rollback_env \<Rightarrow> rollback_options \<Rightarrow> 'w \<Rightarrow> bool" where
  "checkoutStands env opts w \<longleftrightarrow>
     fio_exists (rbe_files env) (snd (branchFate env opts (snd (revertStatus env opts w)))) (rbo_worktreePath opts)"

lemma rollback_runs:
  assumes "rollbackDispatch (traced env) opts (w, []) = (res, w', cmds)"
  shows "rollbackDispatch env opts w = (res, w') \<and>
    filter destructive cmds =
      (if skipped (fateOf env opts w) \<noteq> None then []
       else (if checkoutStands env opts w then [removal opts] else []) @
            (if quarantined (fateOf env opts w) = None then [deletion opts] else []))"
proof -
  obtain a where a: "revertStatus (traced env) opts (w, []) = (fst (revertStatus env opts w), snd (revertStatus env opts w), a)"
      "list_all harmless a"
    using traces_revert [of env opts] unfolding traces_def by (metis append_Nil)
  obtain b where b: "branchFate (traced env) opts (snd (revertStatus env opts w), a) =
      (fst (branchFate env opts (snd (revertStatus env opts w))), snd (branchFate env opts (snd (revertStatus env opts w))), a @ b)"
      "list_all harmless b"
    using traces_fate [of env opts] unfolding traces_def by metis
  show ?thesis using assms a b
    by (auto simp: rollbackDispatch_def Let_def case_prod_beta removeWorktree_traced deleteBranch_traced
        fateOf_def checkoutStands_def filter_harmless split: if_splits)
qed

section \<open>When the branch is kept\<close>

text \<open>A runner whose probing commands neither throw (the default runner returns the failure) nor change
  the repository.\<close>

definition probing :: "string list \<Rightarrow> bool" where
  "probing cmd \<longleftrightarrow> take 2 cmd \<noteq> [''git'', ''branch''] \<and> take 2 cmd \<noteq> [''git'', ''worktree'']"

definition answer :: "'w rollback_env \<Rightarrow> string \<Rightarrow> string list \<Rightarrow> 'w \<Rightarrow> exec_output" where
  "answer env c args w = (case fst (rbe_run env c args w) of
     Inr r \<Rightarrow> r | Inl _ \<Rightarrow> \<lparr>xr_stdout = [], xr_stderr = [], xr_code = 1\<rparr>)"

definition steady :: "'w rollback_env \<Rightarrow> bool" where
  "steady env \<longleftrightarrow> (\<forall>c args w. probing (c # args) \<longrightarrow> rbe_run env c args w = (Inr (answer env c args w), w))"

lemma steady_run: "steady env \<Longrightarrow> probing (c # args) \<Longrightarrow> rbe_run env c args w = (Inr (answer env c args w), w)"
  by (simp add: steady_def)

text \<open>The commits of the branch, as git counts them, and the four signals.\<close>

definition countIn :: "exec_output \<Rightarrow> int" where
  "countIn r = (if xr_code r = 0 then orElse (parseIntPrefix (trim (xr_stdout r))) 0 else 0)"

definition mainOf :: "'w rollback_env \<Rightarrow> 'w \<Rightarrow> string" where
  "mainOf env w = (if xr_code (answer env ''git'' [''rev-parse'', ''--verify'', ''origin/main''] w) = 0
     then ''origin/main'' else ''main'')"

definition commitsAhead :: "'w rollback_env \<Rightarrow> string \<Rightarrow> 'w \<Rightarrow> int" where
  "commitsAhead env branch w =
     (let tip = answer env ''git'' [''rev-parse'', ''--verify'', branch] w
      in if xr_code tip \<noteq> 0 \<or> trim (xr_stdout tip) = [] then 0
         else countIn (answer env ''git'' [''rev-list'', ''--count'', branch, ''^'' @ mainOf env w] w))"

definition unpushed :: "'w rollback_env \<Rightarrow> string \<Rightarrow> 'w \<Rightarrow> bool" where
  "unpushed env branch w \<longleftrightarrow>
     (let up = answer env ''git'' [''rev-parse'', ''--abbrev-ref'', branch @ [CHR 64] @ ''{upstream}''] w;
          name = trim (xr_stdout up)
      in xr_code up \<noteq> 0 \<or> name \<noteq> [] \<and> 0 < countIn (answer env ''git'' [''rev-list'', ''--count'', branch, ''^'' @ name] w))"

definition sentinelFresh :: "'w rollback_env \<Rightarrow> string \<Rightarrow> 'w \<Rightarrow> bool" where
  "sentinelFresh env path w \<longleftrightarrow>
     (\<exists>m. rbe_mtime env w (path @ ''/.active-task'') = Some m \<and> rbe_now env w - m < 21600000)"

definition sessionLives :: "'w rollback_env \<Rightarrow> string \<Rightarrow> 'w \<Rightarrow> bool" where
  "sessionLives env taskId w \<longleftrightarrow>
     (\<exists>out. rbe_processTable env w = Inr out \<and> (\<exists>l \<in> set (splitOn (CHR 10) out). sessionLine taskId l \<noteq> None))"

definition reviewOpen :: "'w rollback_env \<Rightarrow> string \<Rightarrow> 'w \<Rightarrow> bool" where
  "reviewOpen env branch w \<longleftrightarrow>
     (let r = answer env ''gh'' [''pr'', ''list'', ''--head'', branch, ''--state'', ''open'', ''--json'', ''number''] w;
          listing = parseJson (orText (trim (xr_stdout r)) ''[]'')
      in xr_code r \<noteq> 0 \<or> listing = None \<or> (\<exists>e es. listing = Some (JArr (e # es))))"

definition inUse :: "'w rollback_env \<Rightarrow> rollback_options \<Rightarrow> 'w \<Rightarrow> bool" where
  "inUse env opts w \<longleftrightarrow> unpushed env (rbo_branch opts) w \<or> sentinelFresh env (rbo_worktreePath opts) w \<or>
     sessionLives env (rbo_taskId opts) w \<or> reviewOpen env (rbo_branch opts) w"

lemma findSession_iff: "findSession taskId ls \<noteq> None \<longleftrightarrow> (\<exists>l \<in> set ls. sessionLine taskId l \<noteq> None)"
  by (induction ls) (auto split: option.splits)

lemma parse_empty_list: "parseJson ''[]'' = Some (JArr [])"
  by code_simp

lemma prReason_iff: "prReason branch out \<noteq> None \<longleftrightarrow>
    parseJson (orText (trim out) ''[]'') = None \<or> (\<exists>e es. parseJson (orText (trim out) ''[]'') = Some (JArr (e # es)))"
  by (cases "trim out = []")
    (auto simp: prReason_def Let_def parse_empty_list orText_def split: option.split json.split list.split)

lemma sentinelSignal_iff: "sentinelSignal env path w \<noteq> None \<longleftrightarrow> sentinelFresh env path w"
  by (auto simp: sentinelSignal_def sentinelFresh_def SENTINEL_ACTIVE_THRESHOLD_MS_def Let_def split: option.split)

lemma processSignal_iff: "processSignal env taskId w \<noteq> None \<longleftrightarrow> sessionLives env taskId w"
  using findSession_iff [of taskId] by (auto simp: processSignal_def sessionLives_def split: sum.split)

lemma upstream_steady:
  assumes "steady env"
  shows "\<exists>r. upstreamSignal env branch w = (Inr r, w) \<and> (r \<noteq> None \<longleftrightarrow> unpushed env branch w)"
  by (auto simp: upstreamSignal_def andThen_def okay_def Let_def unpushed_def countIn_def steady_run [OF assms] probing_def
      split: option.split)

lemma pr_steady:
  assumes "steady env"
  shows "\<exists>r. prSignal env branch w = (Inr r, w) \<and> (r \<noteq> None \<longleftrightarrow> reviewOpen env branch w)"
  using prReason_iff
  by (auto simp: prSignal_def andThen_def okay_def Let_def reviewOpen_def steady_run [OF assms] probing_def)

lemma stale_steady:
  assumes "steady env"
  shows "\<exists>r. isReallyStale env opts w = (Inr r, w) \<and> (r \<noteq> None \<longleftrightarrow> inUse env opts w)"
proof -
  obtain u where u: "upstreamSignal env (rbo_branch opts) w = (Inr u, w)"
      "(u \<noteq> None) = unpushed env (rbo_branch opts) w" using upstream_steady [OF assms] by blast
  obtain p where p: "prSignal env (rbo_branch opts) w = (Inr p, w)" "(p \<noteq> None) = reviewOpen env (rbo_branch opts) w"
    using pr_steady [OF assms] by blast
  show ?thesis
    using u p sentinelSignal_iff [of env "rbo_worktreePath opts" w] processSignal_iff [of env "rbo_taskId opts" w]
    by (cases u; cases "sentinelSignal env (rbo_worktreePath opts) w"; cases "processSignal env (rbo_taskId opts) w")
      (auto simp: isReallyStale_def andThen_def okay_def inUse_def)
qed

lemma count_steady:
  assumes "steady env"
  shows "\<exists>r. countCommitsAhead env branch w = (Inr r, w) \<and>
    (case r of None \<Rightarrow> commitsAhead env branch w \<le> 0
     | Some (n, sha) \<Rightarrow> n = commitsAhead env branch w \<and> 0 < n \<and>
         sha = trim (xr_stdout (answer env ''git'' [''rev-parse'', ''--verify'', branch] w)))"
  by (auto simp: countCommitsAhead_def countAgainst_def andThen_def okay_def Let_def commitsAhead_def countIn_def mainOf_def
      steady_run [OF assms] probing_def split: option.split)

text \<open>The rename: \<open>None\<close> when the runner throws, else whether git did it.\<close>

definition renamed :: "'w rollback_env \<Rightarrow> rollback_options \<Rightarrow> 'w \<Rightarrow> bool option" where
  "renamed env opts w = (case fst (rbe_run env ''git'' [''branch'', ''-m'', rbo_branch opts,
       buildQuarantineRef (rbo_taskId opts) (rbe_now env w)] w) of
     Inl _ \<Rightarrow> None | Inr r \<Rightarrow> Some (xr_code r = 0))"

lemma fate_steady:
  assumes "steady env"
  shows "skipped (fst (fst (branchFate env opts w))) \<noteq> None \<longleftrightarrow>
      0 < commitsAhead env (rbo_branch opts) w \<and> (inUse env opts w \<or> renamed env opts w = None)" (is ?kept)
    and "quarantined (fst (fst (branchFate env opts w))) \<noteq> None \<longleftrightarrow>
      0 < commitsAhead env (rbo_branch opts) w \<and> \<not> inUse env opts w \<and> renamed env opts w = Some True" (is ?moved)
proof -
  obtain c where c: "countCommitsAhead env (rbo_branch opts) w = (Inr c, w)"
      "c = None \<Longrightarrow> commitsAhead env (rbo_branch opts) w \<le> 0" "c \<noteq> None \<Longrightarrow> 0 < commitsAhead env (rbo_branch opts) w"
    using count_steady [OF assms, of "rbo_branch opts" w] by (auto split: option.splits)
  obtain r where r: "isReallyStale env opts w = (Inr r, w)" "(r \<noteq> None) = inUse env opts w"
    using stale_steady [OF assms] by blast
  have both: "?kept \<and> ?moved"
    using c r by (cases c; cases r)
      (auto simp: branchFate_def probeBranch_def andThen_def okay_def quarantine_def Let_def renamed_def skipped_def
        quarantined_def split: sum.split prod.split)
  show ?kept using both by (rule conjunct1)
  show ?moved using both by (rule conjunct2)
qed

text \<open>C35. A rollback deletes and removes nothing when the branch holds commits beyond the main branch and
  one of four signals says that it is in use (unpushed work, a sentinel younger than six hours, a live
  session, a pull request open or not readable), or when the rename throws. Otherwise it removes the
  checkout if there is one, and it deletes the branch exactly when the commits were not moved to a
  quarantine ref: when there are none, and also when git refused the rename.\<close>

theorem rollback_destroys_exact:
  assumes "steady env"
    and "rollbackDispatch (traced env) opts (w, []) = (res, w', cmds)"
    and "w1 = snd (revertStatus env opts w)"
  shows "filter destructive cmds =
    (if 0 < commitsAhead env (rbo_branch opts) w1 \<and> (inUse env opts w1 \<or> renamed env opts w1 = None) then []
     else (if checkoutStands env opts w then [removal opts] else []) @
          (if 0 < commitsAhead env (rbo_branch opts) w1 \<and> renamed env opts w1 = Some True then [] else [deletion opts]))"
  using rollback_runs [OF assms(2)] fate_steady [OF assms(1), of opts w1] assms(3)
  by (cases "quarantined (fateOf env opts w)") (auto simp: fateOf_def)

text \<open>C36. A throw while the branch is examined never costs work: nothing is removed or deleted, and the
  result says why the branch was kept.\<close>

theorem probe_error_keeps:
  assumes "fst (probeBranch env opts (snd (revertStatus env opts w))) = Inl reason"
    and "rollbackDispatch (traced env) opts (w, []) = (res, w', cmds)"
  shows "filter destructive cmds = [] \<and> \<not> rbs_worktreeRemoved res \<and> rbs_quarantine res = None \<and>
    rbs_quarantineSkippedReason res =
      Some (''quarantine probe threw: '' @ reason @ '' (preserving branch as safety fallback)'') \<and>
    ''quarantine probe failed: '' @ reason \<in> set (rbs_warnings res)"
proof -
  obtain w2 where "probeBranch env opts (snd (revertStatus env opts w)) = (Inl reason, w2)"
    using assms(1) by (cases "probeBranch env opts (snd (revertStatus env opts w))") simp
  moreover have "rollbackDispatch env opts w = (res, w')" using rollback_runs [OF assms(2)] by simp
  ultimately show ?thesis using rollback_runs [OF assms(2)]
    by (auto simp: rollbackDispatch_def branchFate_def Let_def skipped_def quarantined_def fateOf_def case_prod_beta)
qed

section \<open>A repository\<close>

text \<open>A pushed branch with two commits; whether git does the rename is a parameter, as is whether the
  process table can be read.\<close>

definition sampleFiles :: "unit file_io" where
  "sampleFiles = \<lparr>fio_names = (\<lambda>w d. None), fio_exists = (\<lambda>w p. True), fio_read = (\<lambda>w p. Inl ''ENOENT''),
     fio_write = (\<lambda>p c w. (None, w))\<rparr>"

definition sampleRepo :: "int \<Rightarrow> unit rollback_env" where
  "sampleRepo renameCode = \<lparr>rbe_files = sampleFiles,
     rbe_run = (\<lambda>c args w. (Inr \<lparr>
       xr_stdout = (if args ! 0 = ''rev-parse'' then (if args ! 1 = ''--verify'' then ''abc'' else ''origin/feature'')
         else if args ! 0 = ''rev-list'' then (if last args = ''^origin/main'' then ''2'' else ''0'') else []),
       xr_stderr = ''refused'', xr_code = (if args ! 0 = ''branch'' then renameCode else 0)\<rparr>, w)),
     rbe_mtime = (\<lambda>w p. Some 0), rbe_processTable = (\<lambda>w. Inl ''ps: not found''), rbe_now = (\<lambda>w. 21600000)\<rparr>"

definition sampleRollback :: rollback_options where
  "sampleRollback = \<lparr>rbo_workDir = ''/r'', rbo_taskId = ''AISDLC-7'', rbo_fromStatus = ''To Do'',
     rbo_worktreePath = ''/r/.worktrees/aisdlc-7'', rbo_branch = ''feature''\<rparr>"

definition brokenRepo :: "unit rollback_env" where
  "brokenRepo = (sampleRepo 0)\<lparr>rbe_run := (\<lambda>c args w. (Inl ''spawn git ENOENT'', w))\<rparr>"

lemma steady_sample: "steady (sampleRepo n)"
  by (simp add: steady_def answer_def sampleRepo_def)

lemma sample_commits: "commitsAhead (sampleRepo n) (rbo_branch sampleRollback) () = 2"
  by (simp add: commitsAhead_def mainOf_def answer_def sampleRepo_def sampleRollback_def countIn_def) code_simp

lemma sample_signals:
  "\<not> unpushed (sampleRepo n) b ()" "\<not> sentinelFresh (sampleRepo n) p ()" "\<not> sessionLives (sampleRepo n) t ()"
  "\<not> reviewOpen (sampleRepo n) b ()"
  by (simp_all add: unpushed_def sentinelFresh_def sessionLives_def reviewOpen_def answer_def sampleRepo_def countIn_def
      trim_def trimStart_def trimEnd_def isSpace_def parseIntPrefix_def natOfDigits.simps Let_def orText_def parse_empty_list
      isDigit_def)

lemma sample_idle: "\<not> inUse (sampleRepo n) sampleRollback ()"
  by (simp add: inUse_def sample_signals)

lemma sample_renamed: "renamed (sampleRepo n) sampleRollback () = Some (n = 0)"
  by (simp add: renamed_def sampleRepo_def sampleRollback_def)

lemma sample_stands: "checkoutStands (sampleRepo n) sampleRollback ()"
  by (simp add: checkoutStands_def sampleRepo_def sampleFiles_def)

theorem rollback_destroys_exact_witness:
  "filter destructive (snd (snd (rollbackDispatch (traced (sampleRepo 0)) sampleRollback ((), [])))) = [removal sampleRollback]"
  using rollback_destroys_exact [of "sampleRepo 0" sampleRollback "()"
      "fst (rollbackDispatch (traced (sampleRepo 0)) sampleRollback ((), []))" "()"
      "snd (snd (rollbackDispatch (traced (sampleRepo 0)) sampleRollback ((), [])))" "()"]
  by (simp add: steady_sample sample_commits sample_idle sample_renamed sample_stands prod_eq_iff)

text \<open>When git refuses the rename, two commits lose their only branch.\<close>

lemma refused_rename_deletes:
  "filter destructive (snd (snd (rollbackDispatch (traced (sampleRepo 1)) sampleRollback ((), [])))) =
    [removal sampleRollback, deletion sampleRollback]"
  using rollback_runs [of "sampleRepo 1" sampleRollback "()" "fst (rollbackDispatch (traced (sampleRepo 1)) sampleRollback ((), []))"
      "()" "snd (snd (rollbackDispatch (traced (sampleRepo 1)) sampleRollback ((), [])))"]
    fate_steady [OF steady_sample, of 1 sampleRollback "()"]
  by (simp add: fateOf_def prod_eq_iff sample_commits sample_idle sample_renamed sample_stands)

theorem probe_error_keeps_witness:
  "rbs_quarantineSkippedReason (fst (rollbackDispatch (traced brokenRepo) sampleRollback ((), []))) =
    Some ''quarantine probe threw: spawn git ENOENT (preserving branch as safety fallback)''"
  using probe_error_keeps [of brokenRepo sampleRollback "()" "''spawn git ENOENT''"
      "fst (rollbackDispatch (traced brokenRepo) sampleRollback ((), []))" "()"
      "snd (snd (rollbackDispatch (traced brokenRepo) sampleRollback ((), [])))"]
  by (simp add: prod_eq_iff probeBranch_def countCommitsAhead_def andThen_def brokenRepo_def)

end
