(* ===== verification/TickProps.thy ===== *)
theory TickProps
  imports TickCorrect RollbackProps
begin

text \<open>
  What a tick and the loop guarantee: which tasks are dispatched, how each dispatch is accounted for, how
  long the loop sleeps, and that it ends.
\<close>

lemma tickDid_start:
  assumes "tst_inFlight st = tst_inFlight st0" "rolledBack (tst_events st) = rolledBack (tst_events st0)"
    "keptForResume (tst_events st) = keptForResume (tst_events st0)"
  shows "tickDid env config cs w st tick st' = tickDid env config cs w st0 tick st'"
  unfolding tickDid_def assms by (rule refl)

lemma set_subseq: "subseq xs ys \<Longrightarrow> set xs \<subseteq> set ys"
  using set_nths_subset by (fastforce simp: subseq_conv_nths)

text \<open>The cadence when the candidates are known.\<close>

definition woken :: "orchestrator_config \<Rightarrow> candidate list \<Rightarrow> cadence_state \<Rightarrow> cadence_state" where
  "woken config candidates cadence =
     (if candidates = [] then cadence else applyNewTaskWakeIfApplicable config (map cnd_id candidates) cadence)"

lemma tickBody_correct:
  assumes "tst_outcomes st = []" "tst_escalations st = []"
  shows "\<exists>tick st'. tickBody env config n candidates st = Some (tick, st') \<and>
    tickDid env config candidates (tst_world st) st tick st' \<and> tkr_tick tick = n \<and>
    (if tkr_dispatched tick = [] then \<exists>r. tst_cadence st' = snd (recordIdleTick config r (woken config candidates (tst_cadence st)))
     else tst_cadence st' = resetCadence config (woken config candidates (tst_cadence st)))"
proof -
  let ?n = "length candidates" and ?ids = "map cnd_id candidates"
  let ?st1 = "send (TickStarted ?n) st"
  have start: "tickDid env config candidates w s tick st' = tickDid env config candidates w st tick st'"
    if "tst_inFlight s = tst_inFlight ?st1" "tst_events s = tst_events ?st1" for s w tick st'
    using that by (intro tickDid_start) auto
  have idle: "tickDid env config candidates (tst_world st) st tick st' \<and> tkr_tick tick = n \<and> tkr_dispatched tick = [] \<and>
      tst_cadence st' = snd (recordIdleTick config r (woken config candidates (tst_cadence st)))"
    if "tst_inFlight s0 = tst_inFlight ?st1" "tst_events s0 = tst_events ?st1" "tst_cadence s0 = woken config candidates (tst_cadence st)"
      "idleTick config n m r evs dropped s = (tick, st')"
      "untouched s0 s \<or> filtered env (ocf_workDir config) candidates s0 kept s1 \<and> untouched s1 s"
    for s0 m r evs dropped s tick st' kept s1
  proof -
    have "tst_cadence s = tst_cadence s0" using that(5) by (auto simp: untouched_def filtered_def unchanged_def)
    moreover have "tickDid env config candidates (tst_world st) st tick st' \<and> tkr_dispatched tick = []"
      using idle_did [OF that(4,5), where candidates = candidates and w = "tst_world st"]
        start [OF that(1,2), of "tst_world st" tick st'] by blast
    ultimately show ?thesis using that(3,4) by (auto simp: idleTick_def Let_def split: prod.splits)
  qed
  show ?thesis
  proof (cases "candidates = []")
    case True
    let ?s = "?st1\<lparr>tst_stuck := pruneStuckCounters [] (tst_stuck ?st1)\<rparr>"
    obtain tick st' where t: "idleTick config n 0 None [] [] ?s = (tick, st')" by fastforce
    have "tickBody env config n candidates st = Some (tick, st')" using t True by (simp add: tickBody_def Let_def)
    then show ?thesis using idle [OF _ _ _ t, of ?s] True by (auto simp: woken_def untouched_def)
  next
    case False
    let ?s = "?st1\<lparr>tst_cadence := applyNewTaskWakeIfApplicable config ?ids (tst_cadence ?st1),
      tst_stuck := pruneStuckCounters ?ids (tst_stuck ?st1)\<rparr>"
    have begun: "tickDid env config candidates w ?s tick st' = tickDid env config candidates w st tick st'" for w tick st'
      by (rule start) simp_all
    have cadence: "tst_cadence ?s = woken config candidates (tst_cadence st)" and world: "tst_world ?s = tst_world st"
      and kept: "tst_inFlight ?s = tst_inFlight ?st1" "tst_events ?s = tst_events ?st1"
      using False by (simp_all add: woken_def)
    show ?thesis
    proof (cases "ocf_dryRun config")
      case True
      obtain tick st' where t: "idleTick config n ?n None [] [] ?s = (tick, st')" by fastforce
      have "tickBody env config n candidates st = Some (tick, st')" using t True False by (simp add: tickBody_def Let_def)
      then show ?thesis using idle [OF kept cadence t] by auto
    next
      case wet: False
      obtain kept dropped s3 where f: "inFlightFilter env (ocf_workDir config) candidates ?s = ((kept, dropped), s3)"
        by (metis surj_pair)
      obtain picks evs s4 where p: "pickLoop env (max 0 (ocf_maxConcurrent config)) kept [] [] s3 = ((picks, evs), s4)"
        by (metis surj_pair)
      note filt = inFlightFilter_correct [OF f]
      obtain new where new: "picks = map cnd_id new" "set new \<subseteq> set kept" "\<forall>c \<in> set new. admitted env c"
        using pickLoop_correct [OF p] by (auto dest!: set_subseq)
      have picked: "untouched s3 s4" "int (length picks) \<le> max 0 (ocf_maxConcurrent config)"
        using pickLoop_correct [OF p] by auto
      have admits: "\<forall>t \<in> set picks. \<exists>c \<in> set kept. cnd_id c = t \<and> admitted env c" using new by fastforce
      show ?thesis
      proof (cases "picks = []")
        case True
        let ?r = "if evs = [] then None else Some (length evs)"
        obtain tick st' where t: "idleTick config n ?n ?r evs dropped s4 = (tick, st')" by fastforce
        have "tickBody env config n candidates st = Some (tick, st')" using t True False wet f p
          by (simp add: tickBody_def Let_def)
        then show ?thesis using idle [OF kept cadence t disjI2 [OF conjI [OF filt picked(1)]]] by auto
      next
        case some: False
        have "tickBody env config n candidates st = busyTick env config n ?n picks evs dropped s4"
          using some False wet f p by (simp add: tickBody_def Let_def)
        then obtain tick st' where b: "tickBody env config n candidates st = Some (tick, st')"
            "tickDid env config candidates (tst_world ?s) ?s tick st'" "set (tkr_dispatched tick) = set picks"
            "tst_cadence st' = resetCadence config (tst_cadence s4)"
          using busy_did [where n = n and m = ?n and evs = evs and dropped = dropped, OF refl filt picked(1) admits picked(2) wet] assms by auto
        moreover have "tst_cadence s4 = woken config candidates (tst_cadence st)"
          using filt picked(1) cadence by (auto simp: filtered_def unchanged_def untouched_def)
        moreover have "tkr_tick tick = n" using b(1) \<open>tickBody env config n candidates st = busyTick _ _ _ _ _ _ _ _\<close>
          by (auto simp: busyTick_def Let_def split: prod.splits)
        ultimately show ?thesis using begun world some by auto
      qed
    qed
  qed
qed

text \<open>What a whole tick did; \<open>w\<close> is the world in which the frontier was read.\<close>

definition cadenceAfter :: "orchestrator_config \<Rightarrow> candidate list \<Rightarrow> tick_result \<Rightarrow> cadence_state \<Rightarrow> cadence_state \<Rightarrow> bool" where
  "cadenceAfter config candidates tick cadence cadence' \<longleftrightarrow>
     (if tkr_dispatched tick = [] then \<exists>r. cadence' = snd (recordIdleTick config r (woken config candidates cadence))
      else cadence' = resetCadence config (woken config candidates cadence))"

lemma tick_returns:
  "\<exists>r st'. runOrchestratorTick env sweepDisabled config n st = Some (r, st') \<and>
    (case r of Inl e \<Rightarrow> tst_cadence st' = tst_cadence st
     | Inr tick \<Rightarrow> \<exists>w. tickDid env config (tke_frontier env w) w st tick st' \<and> tkr_tick tick = n \<and>
         cadenceAfter config (tke_frontier env w) tick (tst_cadence st) (tst_cadence st'))"
proof -
  obtain guarded w where g: "runParentBranchGuard (tke_rollback env) (tst_world st) = (guarded, w)" by fastforce
  let ?st1 = "st\<lparr>tst_world := w, tst_prCache := [], tst_outcomes := [], tst_escalations := [], tst_playbookEvents := []\<rparr>"
  let ?st2 = "sweepWorktrees env sweepDisabled ?st1"
  let ?cs = "tke_frontier env (tst_world ?st2)"
  show ?thesis
  proof (cases guarded)
    case (Inl e)
    then show ?thesis using g by (simp add: runOrchestratorTick_def Let_def)
  next
    case (Inr u)
    have swept: "untouched ?st1 ?st2" by (rule sweep_untouched)
    then obtain tick st' where t: "tickBody env config n ?cs ?st2 = Some (tick, st')"
        "tickDid env config ?cs (tst_world ?st2) ?st2 tick st'" "tkr_tick tick = n"
        "cadenceAfter config ?cs tick (tst_cadence ?st2) (tst_cadence st')"
      using tickBody_correct [of ?st2 env config n ?cs] by (auto simp: untouched_def cadenceAfter_def)
    have "tickDid env config ?cs (tst_world ?st2) st tick st'"
      using t(2) swept by (subst tickDid_start [of st ?st2]) (simp_all add: untouched_def)
    moreover have "tst_cadence ?st2 = tst_cadence st" using swept by (simp add: untouched_def)
    moreover have "runOrchestratorTick env sweepDisabled config n st = Some (Inr tick, st')"
      using g Inr t(1) by (simp add: runOrchestratorTick_def Let_def)
    ultimately show ?thesis using t(3,4) by auto
  qed
qed

lemma tick_did:
  assumes "runOrchestratorTick env sweepDisabled config n st = Some (Inr tick, st')"
  shows "\<exists>w. tickDid env config (tke_frontier env w) w st tick st' \<and> tkr_tick tick = n \<and>
    cadenceAfter config (tke_frontier env w) tick (tst_cadence st) (tst_cadence st')"
  using tick_returns [of env sweepDisabled config n st] assms by auto

section \<open>Who is dispatched\<close>


section \<open>Every dispatch is accounted for\<close>

text \<open>C38. Each dispatched task gets exactly one outcome, in order: its pipeline's outcome when the dispatch
  returned, and after a throw either an approval (the playbook recovered it) or an unknown failure.
  The tasks rolled back are exactly those with a failed outcome, those kept for resuming exactly the
  aborted ones, those escalated exactly the unknown failures and the ones that need a human. After the tick
  no dispatched task is in flight, and no other slot was taken.\<close>

theorem tick_outcomes_exact:
  assumes "runOrchestratorTick env sweepDisabled config n st = Some (Inr tick, st')"
  shows "(\<exists>w. list_all2 answers (map (fst (tke_dispatch env (tkr_dispatched tick) w)) [0..<length (tkr_dispatched tick)])
      (tkr_outcomes tick)) \<and>
    rolledBack (tst_events st') = rolledBack (tst_events st) @ map tko_taskId (filter (\<lambda>oc. tko_outcome oc \<in>
      {''developer-failed'', ''developer-json-contract-violated'', ''unknown-failure''}) (tkr_outcomes tick)) \<and>
    keptForResume (tst_events st') = keptForResume (tst_events st) @
      map tko_taskId (filter (\<lambda>oc. tko_outcome oc = ''aborted'') (tkr_outcomes tick)) \<and>
    map esc_taskId (tkr_escalations tick) =
      map tko_taskId (filter (\<lambda>oc. tko_outcome oc \<in> {''unknown-failure'', ''needs-human-attention''}) (tkr_outcomes tick)) \<and>
    (\<forall>t \<in> set (tkr_dispatched tick). isInFlight (tst_inFlight st') t = None) \<and>
    (\<forall>k. mapGet (tst_inFlight st') k \<noteq> None \<longrightarrow> mapGet (tst_inFlight st') k = mapGet (tst_inFlight st) k)"
  using tick_did [OF assms] unfolding tickDid_def slotsFreed_def ROLLBACK_OUTCOMES_def list.set by blast

text \<open>Five of the nine remediations report no pipeline result. Their recoveries end in the catch-all, as an
  unknown failure that is escalated and rolled back.\<close>

lemma silent_recovery_unknown:
  assumes "tryPlaybookOnError env workDir (clm_taskId c) message st = Some (playbook, st1)"
    and "pr_outcome playbook = RecoveredOutcome" "pr_matchedMode playbook = Some m" "m \<in> silentModes"
  shows "settleError env workDir c message st = Some (catchAll env workDir c message ''orchestrator-loop:no-handler'' st1)"
proof -
  obtain ctx opts t e r where "runPlaybook ctx opts t e = Some (playbook, r)"
    using assms(1) by (auto simp: tryPlaybookOnError_def Let_def split: prod.splits option.splits)
  then have "pr_pipelineResult playbook = None" using recovered_result [OF _ assms(2)] assms(3,4) by fastforce
  then show ?thesis using assms by (simp add: settleError_def)
qed

section \<open>How long the loop sleeps\<close>

lemma idle_interval: "cad_currentIntervalSec (snd (recordIdleTick config r c)) =
    min 300 (max (max 1 (ocf_tickIntervalSec config)) (cad_currentIntervalSec c * 2))"
  "cad_idleStreak (snd (recordIdleTick config r c)) = cad_idleStreak c + 1"
  by (simp_all add: recordIdleTick_def Let_def MAX_IDLE_SLEEP_SEC_def)

lemma reset_interval: "cad_currentIntervalSec (resetCadence config c) = max 0 (ocf_tickIntervalSec config)"
  "cad_idleStreak (resetCadence config c) = 0"
  by (simp_all add: resetCadence_def)

lemma doubled_again: "1 \<le> b \<Longrightarrow> b * 1 \<le> x \<Longrightarrow> min 300 (max b (min 300 (x * 2) * 2)) = min 300 (x * (4::int))"
  by (auto simp: min_def max_def)

lemma doubled_from_one: "1 \<le> x \<Longrightarrow> min 300 (max 1 (min 300 x * 2)) = min 300 (2 * (x::int))"
  by (auto simp: min_def max_def)


text \<open>A base above five minutes is shortened by idling.\<close>

lemma long_base_shortened:
  assumes "300 < ocf_tickIntervalSec config"
  shows "cad_currentIntervalSec (snd (recordIdleTick config r (resetCadence config c))) = 300"
  using assms by (simp add: idle_interval reset_interval)

section \<open>The loop ends\<close>

definition withinBounds :: "orchestrator_config \<Rightarrow> tick_result \<Rightarrow> bool" where
  "withinBounds config tick \<longleftrightarrow> int (length (tkr_dispatched tick)) \<le> max 0 (ocf_maxConcurrent config) \<and>
     0 \<le> tkr_nextSleepSec tick \<and> tkr_nextSleepSec tick \<le> max 300 (ocf_tickIntervalSec config)"

lemma tick_within:
  assumes "runOrchestratorTick env sweepDisabled config n st = Some (Inr tick, st')"
  shows "withinBounds config tick \<and> tkr_tick tick = n"
proof -
  obtain w where w: "tickDid env config (tke_frontier env w) w st tick st'" "tkr_tick tick = n"
      "cadenceAfter config (tke_frontier env w) tick (tst_cadence st) (tst_cadence st')" using tick_did [OF assms] by blast
  have "tkr_nextSleepSec tick = cad_currentIntervalSec (tst_cadence st')" using w(1) unfolding tickDid_def by blast
  moreover have "0 \<le> cad_currentIntervalSec (tst_cadence st') \<and> cad_currentIntervalSec (tst_cadence st') \<le> max 300 (ocf_tickIntervalSec config)"
    using w(3) by (auto simp: cadenceAfter_def idle_interval reset_interval split: if_splits)
  moreover have "int (length (tkr_dispatched tick)) \<le> max 0 (ocf_maxConcurrent config)"
    using w(1) unfolding tickDid_def by blast
  ultimately show ?thesis using w(2) by (simp add: withinBounds_def)
qed

lemma tickLoop_returns:
  assumes "ocf_maxTicks config = Some m"
  shows "int k < max 1 m \<Longrightarrow> max 1 m \<le> int (k + fuel) \<Longrightarrow> map tkr_tick ticks = [1..<k + 1] \<Longrightarrow>
    list_all (withinBounds config) ticks \<Longrightarrow>
    \<exists>err ticks' st'. tickLoop env sweepDisabled stops pause config fuel k ticks st = Some ((err, ticks'), st') \<and>
      int (length ticks') \<le> max 1 m \<and> map tkr_tick ticks' = [1..<length ticks' + 1] \<and> list_all (withinBounds config) ticks' \<and>
      (err = None \<and> (\<forall>j. stops j = (False, False)) \<longrightarrow> int (length ticks') = max 1 m)"
proof (induction fuel arbitrary: k ticks st)
  case 0
  then show ?case by simp
next
  case (Suc fuel)
  have len: "length ticks = k" using Suc.prems(3) by (metis length_map length_upt diff_add_inverse2)
  obtain r st1 where r: "runOrchestratorTick env sweepDisabled config (k + 1) st = Some (r, st1)"
    using tick_returns by blast
  show ?case
  proof (cases r)
    case (Inl e)
    then show ?thesis using r Suc.prems len by auto
  next
    case (Inr tick)
    note within = tick_within [OF r [unfolded Inr]]
    let ?ticks = "ticks @ [tick]" let ?st2 = "st1\<lparr>tst_world := pause (tkr_nextSleepSec tick * 1000) (tst_world st1)\<rparr>"
    have more: "map tkr_tick ?ticks = [1..<(k + 1) + 1]" "list_all (withinBounds config) ?ticks" "length ?ticks = k + 1"
      using Suc.prems within len by auto
    show ?thesis
    proof (cases "m \<le> int (k + 1) \<or> fst (stops (k + 1)) \<or> snd (stops (k + 1))")
      case True
      have "\<exists>st'. tickLoop env sweepDisabled stops pause config (Suc fuel) k ticks st = Some ((None, ?ticks), st')"
        using True r Inr assms by (auto simp: Let_def)
      moreover have "int (length ?ticks) \<le> max 1 m" using Suc.prems(1) len by simp
      moreover have "(\<forall>j. stops j = (False, False)) \<longrightarrow> int (length ?ticks) = max 1 m" using True Suc.prems(1) len by auto
      ultimately show ?thesis using more by (metis)
    next
      case False
      have "tickLoop env sweepDisabled stops pause config (Suc fuel) k ticks st =
          tickLoop env sweepDisabled stops pause config fuel (k + 1) ?ticks ?st2"
        using False r Inr assms by (simp add: Let_def)
      moreover have "int (k + 1) < max 1 m" "max 1 m \<le> int ((k + 1) + fuel)" using False Suc.prems(2) by auto
      ultimately show ?thesis using Suc.IH [of "k + 1" ?ticks ?st2] more(1,2) by presburger
    qed
  qed
qed


section \<open>A tick\<close>

text \<open>
  A tick on concrete candidates: the hypotheses of the tick's properties hold there, and what the loop does
  with a failure that the playbook recovered.
\<close>

definition sampleConfig :: orchestrator_config where
  "sampleConfig = \<lparr>ocf_workDir = ''/r'', ocf_tickIntervalSec = 30, ocf_maxConcurrent = 2, ocf_maxTicks = Some 1,
     ocf_dryRun = False\<rparr>"

text \<open>The second task is for a human.\<close>

definition reportOf :: "string \<Rightarrow> pipeline_outcome \<Rightarrow> pipeline_report" where
  "reportOf idLower oc = \<lparr>plt_branch = ''ai-sdlc/'' @ idLower @ ''-t'', plt_worktreePath = ''/r/.worktrees/'' @ idLower,
     plt_outcome = oc, plt_prUrl = Some ''https://h/pull/3'', plt_siblingPrUrls = [], plt_iterations = 2,
     plt_finalVerdict = None, plt_notes = None\<rparr>"

definition tickOpts :: playbook_opts where
  "tickOpts = \<lparr>po_catalogue = DEFAULT_CATALOGUE,
     po_deps = \<lparr>hd_runner = (\<lambda>e c. \<lparr>ex_code = 0, ex_stderr = []\<rparr>), hd_redispatch = None\<rparr>,
     po_escalate = None, po_now = int\<rparr>"

definition sampleTickEnv :: "unit tick_env" where
  "sampleTickEnv = \<lparr>tke_rollback = sampleRepo 0,
     tke_checkouts = \<lparr>ckg_commitsBeyondMain = (\<lambda>w p. None), ckg_checkpointLog = (\<lambda>w p. None)\<rparr>,
     tke_sweep = (\<lambda>w. ([], w)), tke_frontier = (\<lambda>w. [\<lparr>cnd_id = ''A-1'', cnd_title = ''t''\<rparr>, \<lparr>cnd_id = ''A-2'', cnd_title = ''u''\<rparr>]),
     tke_chainOpts = (\<lambda>w t. undefined), tke_emitDecisions = (\<lambda>t w. ([], w)),
     tke_hcCost = (\<lambda>w. \<lparr>hcc_enabled = False, hcc_weight = 1, hcc_calibrationTier = ''crude''\<rparr>),
     tke_maxBudgetUsd = (\<lambda>w t. if t = ''A-1'' then Some 10 else None),
     tke_dispatch = (\<lambda>picks w. (\<lambda>i. Inr (if picks ! i = ''A-1''
       then \<lparr>rrs_taskId = ''A-1'', rrs_report = reportOf ''a-1'' Approved, rrs_failure = None\<rparr>
       else \<lparr>rrs_taskId = ''A-2'', rrs_report = reportOf ''a-2'' NeedsHumanAttention, rrs_failure = None\<rparr>), w)),
     tke_playbook = (\<lambda>t w. (tickOpts, int)), tke_settle = (\<lambda>e w. w), tke_escalate = (\<lambda>t r u w. (None, w)),
     tke_coverageGap = (\<lambda>t r h w. w), tke_persistWorkerState = False, tke_bypassFilters = True\<rparr>"

definition idleState :: "unit tick_state" where
  "idleState = \<lparr>tst_world = (), tst_inFlight = [], tst_stuck = [], tst_cadence = makeInitialCadenceState 30, tst_prCache = [],
     tst_events = [], tst_outcomes = [], tst_escalations = [], tst_playbookEvents = []\<rparr>"

definition digest :: "((string + tick_result) \<times> unit tick_state) option \<Rightarrow>
    (string list \<times> (string \<times> string) list \<times> string list) option" where
  "digest r = (case r of Some (Inr tick, st) \<Rightarrow> Some (tkr_dispatched tick,
     map (\<lambda>oc. (tko_taskId oc, tko_outcome oc)) (tkr_outcomes tick), map esc_taskId (tkr_escalations tick)) | _ \<Rightarrow> None)"

lemma sample_run: "digest (runOrchestratorTick sampleTickEnv True sampleConfig 1 idleState) =
    Some ([''A-1'', ''A-2''], [(''A-1'', ''approved''), (''A-2'', ''needs-human-attention'')], [''A-2''])"
  by code_simp

lemma sample_tick: "\<exists>tick st'. runOrchestratorTick sampleTickEnv True sampleConfig 1 idleState = Some (Inr tick, st') \<and>
    tkr_dispatched tick = [''A-1'', ''A-2''] \<and>
    map (\<lambda>oc. (tko_taskId oc, tko_outcome oc)) (tkr_outcomes tick) =
      [(''A-1'', ''approved''), (''A-2'', ''needs-human-attention'')] \<and> map esc_taskId (tkr_escalations tick) = [''A-2'']"
  using sample_run by (auto simp: digest_def split: option.splits prod.splits sum.splits)


theorem tick_outcomes_exact_witness:
  "\<exists>tick st'. runOrchestratorTick sampleTickEnv True sampleConfig 1 idleState = Some (Inr tick, st') \<and>
    map tko_outcome (tkr_outcomes tick) = [''approved'', ''needs-human-attention''] \<and>
    map esc_taskId (tkr_escalations tick) = [''A-2''] \<and> rolledBack (tst_events st') = rolledBack (tst_events idleState) \<and>
    isInFlight (tst_inFlight st') ''A-1'' = None \<and> isInFlight (tst_inFlight st') ''A-2'' = None"
proof -
  obtain tick st' where t: "runOrchestratorTick sampleTickEnv True sampleConfig 1 idleState = Some (Inr tick, st')"
      "tkr_dispatched tick = [''A-1'', ''A-2'']" "map esc_taskId (tkr_escalations tick) = [''A-2'']"
      "map (\<lambda>oc. (tko_taskId oc, tko_outcome oc)) (tkr_outcomes tick) = [(''A-1'', ''approved''), (''A-2'', ''needs-human-attention'')]"
    using sample_tick by (elim exE conjE) (rule that)
  note did = tick_outcomes_exact [OF t(1)]
  obtain a b where ocs: "tkr_outcomes tick = [a, b]" "tko_outcome a = ''approved''" "tko_outcome b = ''needs-human-attention''"
    using t(4) by auto
  have "rolledBack (tst_events st') = rolledBack (tst_events idleState) @ map tko_taskId (filter (\<lambda>oc. tko_outcome oc \<in>
      {''developer-failed'', ''developer-json-contract-violated'', ''unknown-failure''}) (tkr_outcomes tick))"
    using did by blast
  moreover have "\<forall>t \<in> set (tkr_dispatched tick). isInFlight (tst_inFlight st') t = None" using did by blast
  ultimately show ?thesis using t ocs by (intro exI [of _ tick] exI [of _ st']) simp
qed



end
